(* ===== verification/Rust_Prelude.thy ===== *)
theory Rust_Prelude
  imports Main "HOL-Library.List_Lexorder" "HOL-Library.Char_ord"
    "HOL-Library.Multiset"
begin

text \<open>
  What the Rust sources use of the language and its standard library, and the generic
  lemmas every component shares.

  \<^item> Strings are lists of characters; the order on them is the byte order of \<open>str\<close>
    (\<open>List_Lexorder\<close> over \<open>Char_ord\<close>).  The character classes (white space, letters,
    digits, lower case) are those of ASCII.
  \<^item> \<open>Result<T, E>\<close> is \<open>'e + 'a\<close> with \<open>Inl\<close> for the error.
  \<^item> \<open>BTreeMap\<close> is a sorted association list (\<open>om_\<close>): iteration order is key order and the
    last insertion wins.  Its interface is the locale \<open>ordered_map\<close>.
  \<^item> \<open>slice::sort_by\<close> is a stable insertion sort driven by the comparator.
  \<^item> \<open>iter_mut().find(..)\<close> followed by an assignment is \<open>update_first\<close>.
\<close>

named_theorems om_simps \<open>rewriting rules of ordered maps\<close>
named_theorems update_simps \<open>what an in-place update of a list keeps\<close>
named_theorems str_simps \<open>string primitives\<close>

section \<open>Characters and strings\<close>

text \<open>\<open>u8::is_ascii_whitespace\<close> leaves out the vertical tab, \<open>char::is_whitespace\<close> has it.\<close>

definition is_ascii_whitespace :: "char \<Rightarrow> bool" where
  "is_ascii_whitespace c \<longleftrightarrow>
     c = CHR 0x20 \<or> c = CHR 0x09 \<or> c = CHR 0x0A \<or> c = CHR 0x0C \<or> c = CHR 0x0D"

definition is_whitespace :: "char \<Rightarrow> bool" where
  "is_whitespace c \<longleftrightarrow> is_ascii_whitespace c \<or> c = CHR 0x0B"

definition is_ascii_digit :: "char \<Rightarrow> bool" where
  "is_ascii_digit c \<longleftrightarrow> CHR ''0'' \<le> c \<and> c \<le> CHR ''9''"

definition is_ascii_lowercase :: "char \<Rightarrow> bool" where
  "is_ascii_lowercase c \<longleftrightarrow> CHR ''a'' \<le> c \<and> c \<le> CHR ''z''"

definition is_ascii_uppercase :: "char \<Rightarrow> bool" where
  "is_ascii_uppercase c \<longleftrightarrow> CHR ''A'' \<le> c \<and> c \<le> CHR ''Z''"

definition is_ascii_alphabetic :: "char \<Rightarrow> bool" where
  "is_ascii_alphabetic c \<longleftrightarrow> is_ascii_lowercase c \<or> is_ascii_uppercase c"

definition is_ascii_alphanumeric :: "char \<Rightarrow> bool" where
  "is_ascii_alphanumeric c \<longleftrightarrow> is_ascii_alphabetic c \<or> is_ascii_digit c"

definition to_ascii_lowercase :: "char \<Rightarrow> char" where
  "to_ascii_lowercase c = (if is_ascii_uppercase c then char_of (of_char c + 32 :: nat) else c)"

definition to_ascii_uppercase :: "char \<Rightarrow> char" where
  "to_ascii_uppercase c = (if is_ascii_lowercase c then char_of (of_char c - 32 :: nat) else c)"

definition to_lowercase :: "string \<Rightarrow> string" where
  "to_lowercase s = map to_ascii_lowercase s"

definition eq_ignore_ascii_case :: "string \<Rightarrow> string \<Rightarrow> bool" where
  "eq_ignore_ascii_case a b \<longleftrightarrow> to_lowercase a = to_lowercase b"

definition trim_start :: "string \<Rightarrow> string" where
  "trim_start s = dropWhile is_whitespace s"

definition trim_end :: "string \<Rightarrow> string" where
  "trim_end s = rev (dropWhile is_whitespace (rev s))"

definition trim :: "string \<Rightarrow> string" where
  "trim s = trim_end (trim_start s)"

fun strip_prefix :: "string \<Rightarrow> string \<Rightarrow> string option" where
  "strip_prefix [] s = Some s"
| "strip_prefix (p # ps) [] = None"
| "strip_prefix (p # ps) (c # s) = (if p = c then strip_prefix ps s else None)"

definition strip_suffix :: "string \<Rightarrow> string \<Rightarrow> string option" where
  "strip_suffix p s = map_option rev (strip_prefix (rev p) (rev s))"

definition starts_with :: "string \<Rightarrow> string \<Rightarrow> bool" where
  "starts_with s p \<longleftrightarrow> strip_prefix p s \<noteq> None"

definition ends_with :: "string \<Rightarrow> string \<Rightarrow> bool" where
  "ends_with s p \<longleftrightarrow> strip_suffix p s \<noteq> None"

fun split_once :: "string \<Rightarrow> string \<Rightarrow> (string \<times> string) option" where
  "split_once pat [] = (case strip_prefix pat [] of None \<Rightarrow> None | Some r \<Rightarrow> Some ([], r))"
| "split_once pat (c # s) =
     (case strip_prefix pat (c # s) of
        Some r \<Rightarrow> Some ([], r)
      | None \<Rightarrow> (case split_once pat s of None \<Rightarrow> None | Some (h, t) \<Rightarrow> Some (c # h, t)))"

fun join :: "string \<Rightarrow> string list \<Rightarrow> string" where
  "join sep [] = []"
| "join sep [s] = s"
| "join sep (s # t # ts) = s @ sep @ join sep (t # ts)"

text \<open>\<open>split_whitespace\<close>: the maximal runs of non-white characters.\<close>

fun split_whitespace_acc :: "string \<Rightarrow> string \<Rightarrow> string list" where
  "split_whitespace_acc acc [] = (if acc = [] then [] else [rev acc])"
| "split_whitespace_acc acc (c # s) =
     (if is_whitespace c
      then (if acc = [] then split_whitespace_acc [] s else rev acc # split_whitespace_acc [] s)
      else split_whitespace_acc (c # acc) s)"

definition split_whitespace :: "string \<Rightarrow> string list" where
  "split_whitespace s = split_whitespace_acc [] s"

subsection \<open>Decimal numbers\<close>

definition digit_char :: "nat \<Rightarrow> char" where
  "digit_char d = char_of (48 + d)"

definition char_digit :: "char \<Rightarrow> nat" where
  "char_digit c = of_char c - 48"

fun nat_to_string :: "nat \<Rightarrow> string" where
  "nat_to_string n =
     (if n < 10 then [digit_char n] else nat_to_string (n div 10) @ [digit_char (n mod 10)])"

declare nat_to_string.simps [simp del]

definition int_to_string :: "int \<Rightarrow> string" where
  "int_to_string i = (if i < 0 then ''-'' @ nat_to_string (nat (- i)) else nat_to_string (nat i))"

definition bool_to_string :: "bool \<Rightarrow> string" where
  "bool_to_string b = (if b then ''true'' else ''false'')"

definition digits_to_nat :: "string \<Rightarrow> nat" where
  "digits_to_nat s = foldl (\<lambda>n c. 10 * n + char_digit c) 0 s"

definition i64_min :: int where "i64_min = - (2 ^ 63)"
definition i64_max :: int where "i64_max = 2 ^ 63 - 1"

definition in_i64 :: "int \<Rightarrow> bool" where
  "in_i64 i \<longleftrightarrow> i64_min \<le> i \<and> i \<le> i64_max"

definition in_i32 :: "int \<Rightarrow> bool" where
  "in_i32 i \<longleftrightarrow> - (2 ^ 31) \<le> i \<and> i \<le> 2 ^ 31 - 1"

text \<open>\<open>str::parse::<i64>\<close>: an optional sign, then one or more digits, in range.\<close>

definition parse_i64 :: "string \<Rightarrow> int option" where
  "parse_i64 s =
     (let (neg, ds) = (case s of
            [] \<Rightarrow> (False, [])
          | c # r \<Rightarrow> if c = CHR ''-'' then (True, r) else if c = CHR ''+'' then (False, r) else (False, s));
          v = int (digits_to_nat ds);
          i = (if neg then - v else v)
      in if ds \<noteq> [] \<and> list_all is_ascii_digit ds \<and> in_i64 i then Some i else None)"

subsection \<open>Debug formatting of strings and lists of strings\<close>

definition hex_digit :: "nat \<Rightarrow> char" where
  "hex_digit d = (if d < 10 then char_of (48 + d) else char_of (87 + d))"

definition escape_debug_char :: "char \<Rightarrow> string" where
  "escape_debug_char c =
     (if c = CHR 0x00 then [CHR 0x5C, CHR ''0'']
      else if c = CHR 0x09 then [CHR 0x5C, CHR ''t'']
      else if c = CHR 0x0D then [CHR 0x5C, CHR ''r'']
      else if c = CHR 0x0A then [CHR 0x5C, CHR ''n'']
      else if c = CHR 0x22 then [CHR 0x5C, CHR 0x22]
      else if c = CHR 0x5C then [CHR 0x5C, CHR 0x5C]
      else let n = (of_char c :: nat) in
        if n < 16 then [CHR 0x5C, CHR ''u'', CHR 0x7B, hex_digit n, CHR 0x7D]
        else if n < 32 \<or> n = 127
          then [CHR 0x5C, CHR ''u'', CHR 0x7B, hex_digit (n div 16), hex_digit (n mod 16), CHR 0x7D]
        else [c])"

definition debug_str :: "string \<Rightarrow> string" where
  "debug_str s = [CHR 0x22] @ concat (map escape_debug_char s) @ [CHR 0x22]"

definition debug_list :: "('a \<Rightarrow> string) \<Rightarrow> 'a list \<Rightarrow> string" where
  "debug_list f xs = ''['' @ join '', '' (map f xs) @ '']''"

definition debug_option :: "('a \<Rightarrow> string) \<Rightarrow> 'a option \<Rightarrow> string" where
  "debug_option f x = (case x of None \<Rightarrow> ''None'' | Some v \<Rightarrow> ''Some('' @ f v @ '')'')"

section \<open>Ordered maps\<close>

text \<open>\<open>BTreeMap<K, V>\<close>: the entries in increasing key order.\<close>

type_synonym ('k, 'v) omap = "('k \<times> 'v) list"

fun om_insert :: "'k::linorder \<Rightarrow> 'v \<Rightarrow> ('k, 'v) omap \<Rightarrow> ('k, 'v) omap" where
  "om_insert k v [] = [(k, v)]"
| "om_insert k v ((a, w) # m) =
     (if k < a then (k, v) # (a, w) # m
      else if k = a then (k, v) # m
      else (a, w) # om_insert k v m)"

definition om_lookup :: "('k, 'v) omap \<Rightarrow> 'k \<Rightarrow> 'v option" where
  "om_lookup m k = map_of m k"

definition om_contains :: "('k, 'v) omap \<Rightarrow> 'k \<Rightarrow> bool" where
  "om_contains m k \<longleftrightarrow> om_lookup m k \<noteq> None"

definition om_keys :: "('k, 'v) omap \<Rightarrow> 'k list" where
  "om_keys m = map fst m"

text \<open>\<open>iter().collect::<BTreeMap<_, _>>()\<close>.\<close>

definition om_collect :: "('k::linorder \<times> 'v) list \<Rightarrow> ('k, 'v) omap" where
  "om_collect kvs = fold (\<lambda>(k, v) m. om_insert k v m) kvs []"

text \<open>\<open>BTreeSet\<close> iteration order: sorted, without duplicates.\<close>

definition oset :: "'k::linorder list \<Rightarrow> 'k list" where
  "oset ks = sorted_list_of_set (set ks)"

definition om_invar :: "('k::linorder, 'v) omap \<Rightarrow> bool" where
  "om_invar m \<longleftrightarrow> sorted_wrt (<) (map fst m)"

section \<open>Stable sorting by a comparator\<close>

datatype ordering = Less | Equal | Greater

fun insert_by :: "('a \<Rightarrow> 'a \<Rightarrow> ordering) \<Rightarrow> 'a \<Rightarrow> 'a list \<Rightarrow> 'a list" where
  "insert_by c x [] = [x]"
| "insert_by c x (y # ys) = (if c x y = Greater then y # insert_by c x ys else x # y # ys)"

definition sort_by :: "('a \<Rightarrow> 'a \<Rightarrow> ordering) \<Rightarrow> 'a list \<Rightarrow> 'a list" where
  "sort_by c xs = foldr (insert_by c) xs []"

definition compare :: "'k::linorder \<Rightarrow> 'k \<Rightarrow> ordering" where
  "compare a b = (if a < b then Less else if a = b then Equal else Greater)"

section \<open>In-place updates of a list\<close>

fun update_first :: "('a \<Rightarrow> bool) \<Rightarrow> ('a \<Rightarrow> 'a) \<Rightarrow> 'a list \<Rightarrow> 'a list" where
  "update_first P f [] = []"
| "update_first P f (x # xs) = (if P x then f x # xs else x # update_first P f xs)"

text \<open>\<open>slice::swap\<close>; both indices are in range wherever the sources call it.\<close>

definition swap :: "'a list \<Rightarrow> nat \<Rightarrow> nat \<Rightarrow> 'a list" where
  "swap xs i j = xs[i := xs ! j, j := xs ! i]"

text \<open>\<open>iter().enumerate()\<close>.\<close>

definition enumerated :: "'a list \<Rightarrow> (nat \<times> 'a) list" where
  "enumerated xs = enumerate 0 xs"

text \<open>\<open>iter().position(..)\<close>.\<close>

fun position :: "('a \<Rightarrow> bool) \<Rightarrow> 'a list \<Rightarrow> nat option" where
  "position P [] = None"
| "position P (x # xs) = (if P x then Some 0 else map_option Suc (position P xs))"

text \<open>\<open>iter().map(f).collect::<Result<Vec<_>, _>>()\<close>: stops at the first error.\<close>

fun collect_results :: "('e + 'a) list \<Rightarrow> 'e + 'a list" where
  "collect_results [] = Inr []"
| "collect_results (r # rs) =
     (case r of Inl e \<Rightarrow> Inl e
      | Inr x \<Rightarrow> (case collect_results rs of Inl e \<Rightarrow> Inl e | Inr xs \<Rightarrow> Inr (x # xs)))"

text \<open>A \<open>for\<close> loop of fallible steps (\<open>?\<close> in the body): stops at the first error.\<close>

fun for_each :: "('a \<Rightarrow> 'e + unit) \<Rightarrow> 'a list \<Rightarrow> 'e + unit" where
  "for_each f [] = Inr ()"
| "for_each f (x # xs) = (case f x of Inl e \<Rightarrow> Inl e | Inr _ \<Rightarrow> for_each f xs)"

text \<open>\<open>seen.insert(x)\<close> in a loop: the first element that was seen before.\<close>

fun first_dup :: "'a list \<Rightarrow> 'a list \<Rightarrow> 'a option" where
  "first_dup seen [] = None"
| "first_dup seen (x # xs) = (if x \<in> set seen then Some x else first_dup (x # seen) xs)"

section \<open>Lists keyed by a projection\<close>

lemma map_fst_eq_entries_eq:
  assumes "map fst xs = map fst ys" and "set xs = set ys" and "distinct (map fst xs)"
  shows "xs = ys"
proof (rule nth_equalityI)
  show len: "length xs = length ys"
    using assms(1) by (metis length_map)
  fix i assume i: "i < length xs"
  have fst_eq: "fst (xs ! i) = fst (ys ! i)"
    using assms(1) i len by (metis nth_map)
  have "ys ! i \<in> set xs"
    using assms(2) i len by simp
  then obtain j where j: "j < length xs" "xs ! j = ys ! i"
    by (metis in_set_conv_nth)
  have "j = i"
    using assms(3) fst_eq i j by (metis distinct_conv_nth length_map nth_map)
  with j show "xs ! i = ys ! i" by simp
qed

section \<open>Ordered maps: the interface and its implementation\<close>

text \<open>
  What the planner relies on of a \<open>BTreeMap\<close>: insertion overwrites, iteration visits each
  key once in increasing order, and the entries are exactly what lookup returns.
\<close>

locale ordered_map =
  fixes insert :: "'k::linorder \<Rightarrow> 'v \<Rightarrow> 'm \<Rightarrow> 'm"
    and lookup :: "'m \<Rightarrow> 'k \<Rightarrow> 'v option"
    and entries :: "'m \<Rightarrow> ('k \<times> 'v) list"
    and empty :: 'm
    and invar :: "'m \<Rightarrow> bool"
  assumes lookup_empty: "lookup empty k = None"
    and lookup_insert: "lookup (insert k v m) = (lookup m)(k \<mapsto> v)"
    and invar_empty: "invar empty"
    and invar_insert: "invar m \<Longrightarrow> invar (insert k v m)"
    and entries_lookup: "invar m \<Longrightarrow> (k, v) \<in> set (entries m) \<longleftrightarrow> lookup m k = Some v"
    and entries_sorted: "invar m \<Longrightarrow> sorted_wrt (<) (map fst (entries m))"
begin

lemma lookup_fold:
  "lookup (fold (\<lambda>(k, v). insert k v) kvs m) = lookup m ++ map_of (rev kvs)"
proof (induction kvs arbitrary: m)
  case Nil
  show ?case by simp
next
  case (Cons kv kvs)
  then show ?case
    by (cases kv) (auto simp: lookup_insert fun_eq_iff map_add_def split: option.split)
qed

lemma invar_fold: "invar m \<Longrightarrow> invar (fold (\<lambda>(k, v). insert k v) kvs m)"
  by (induction kvs arbitrary: m) (auto simp: invar_insert)

lemma lookup_collect: "lookup (fold (\<lambda>(k, v). insert k v) kvs empty) = map_of (rev kvs)"
  by (simp add: lookup_fold lookup_empty map_add_def fun_eq_iff split: option.split)

lemma keys_distinct: "invar m \<Longrightarrow> distinct (map fst (entries m))"
  using entries_sorted by (auto simp: strict_sorted_iff)

lemma keys_lookup: "invar m \<Longrightarrow> k \<in> set (map fst (entries m)) \<longleftrightarrow> lookup m k \<noteq> None"
  using entries_lookup by force

lemma keys_collect:
  "set (map fst (entries (fold (\<lambda>(k, v). insert k v) kvs empty))) = fst ` set kvs"
proof -
  have "k \<in> set (map fst (entries (fold (\<lambda>(k, v). insert k v) kvs empty))) \<longleftrightarrow> k \<in> fst ` set kvs" for k
    unfolding keys_lookup [OF invar_fold [OF invar_empty]] lookup_collect
    by (metis map_of_eq_None_iff set_rev)
  then show ?thesis by blast
qed

text \<open>A map is determined by its lookups: two maps that agree iterate alike.\<close>

lemma entries_ext:
  assumes "invar m" and "invar m'" and "lookup m = lookup m'"
  shows "entries m = entries m'"
proof -
  have sets: "set (entries m) = set (entries m')"
    using assms entries_lookup by auto
  have "map fst (entries m) = map fst (entries m')"
    using sets entries_sorted [OF assms(1)] entries_sorted [OF assms(2)]
    by (metis list.set_map strict_sorted_equal)
  then show ?thesis
    using sets keys_distinct [OF assms(1)] map_fst_eq_entries_eq [OF _ sets] by blast
qed

end

lemma om_lookup_insert [om_simps]: "om_lookup (om_insert k v m) = (om_lookup m)(k \<mapsto> v)"
  by (induction k v m rule: om_insert.induct) (auto simp: om_lookup_def fun_eq_iff)

lemma om_insert_keys: "set (map fst (om_insert k v m)) = insert k (set (map fst m))"
  by (induction k v m rule: om_insert.induct) auto

lemma om_invar_insert [om_simps]: "om_invar m \<Longrightarrow> om_invar (om_insert k v m)"
proof (induction k v m rule: om_insert.induct)
  case (2 k v a w m)
  have "set (map fst (om_insert k v m)) = insert k (set (map fst m))"
    by (rule om_insert_keys)
  with 2 show ?case
    by (auto simp: om_invar_def)
qed (simp add: om_invar_def)

interpretation om: ordered_map om_insert om_lookup "\<lambda>m. m" "[]" om_invar
proof unfold_locales
  show "om_invar m \<Longrightarrow> (k, v) \<in> set m \<longleftrightarrow> om_lookup m k = Some v" for m k v
    by (metis om_invar_def om_lookup_def map_of_SomeD map_of_is_SomeI strict_sorted_iff)
  show "om_invar m \<Longrightarrow> om_invar (om_insert k v m)" for m k v
    by (rule om_invar_insert)
qed (simp_all add: om_lookup_insert, simp_all add: om_lookup_def om_invar_def)

lemma om_collect_fold: "om_collect kvs = fold (\<lambda>(k, v). om_insert k v) kvs []"
  by (simp add: om_collect_def)

lemma om_lookup_collect [om_simps]: "om_lookup (om_collect kvs) = map_of (rev kvs)"
  unfolding om_collect_fold by (rule om.lookup_collect)

lemma om_invar_collect [om_simps]: "om_invar (om_collect kvs)"
  unfolding om_collect_fold by (rule om.invar_fold [OF om.invar_empty])

lemma om_keys_collect [om_simps]: "set (map fst (om_collect kvs)) = fst ` set kvs"
  unfolding om_collect_fold by (rule om.keys_collect)

lemma om_collect_entry: "(k, v) \<in> set (om_collect kvs) \<longleftrightarrow> map_of (rev kvs) k = Some v"
  using om.entries_lookup [OF om_invar_collect] by (simp add: om_lookup_collect)

lemma om_collect_distinct [om_simps]: "distinct (map fst (om_collect kvs))"
  by (rule om.keys_distinct [OF om_invar_collect])

lemma om_contains_iff [om_simps]: "om_contains m k \<longleftrightarrow> k \<in> set (map fst m)"
  by (metis om_contains_def om_lookup_def map_of_eq_None_iff list.set_map)

lemma om_collect_set:
  assumes "distinct (map fst kvs)"
  shows "set (om_collect kvs) = set kvs"
proof -
  have "(k, v) \<in> set (om_collect kvs) \<longleftrightarrow> (k, v) \<in> set kvs" for k v
    using assms by (simp add: om_collect_entry map_of_eq_Some_iff rev_map [symmetric])
  then show ?thesis by auto
qed

lemma om_collect_mset:
  assumes "distinct (map fst kvs)"
  shows "mset (om_collect kvs) = mset kvs"
  using assms om_collect_set om_collect_distinct
  by (metis distinct_map set_eq_iff_mset_eq_distinct)

lemma oset_simps [simp]: "set (oset ks) = set ks" "distinct (oset ks)" "sorted (oset ks)"
  by (simp_all add: oset_def)

lemma oset_Nil_iff [simp]: "oset ks = [] \<longleftrightarrow> ks = []"
  by (simp add: oset_def)

section \<open>Stable sorting\<close>

lemma mset_insert_by [simp]: "mset (insert_by c x ys) = add_mset x (mset ys)"
  by (induction ys) auto

lemma mset_sort_by [simp]: "mset (sort_by c xs) = mset xs"
  by (induction xs) (auto simp: sort_by_def)

lemma set_sort_by [simp]: "set (sort_by c xs) = set xs"
  by (metis mset_sort_by set_mset_mset)

lemma length_sort_by [simp]: "length (sort_by c xs) = length xs"
  by (metis mset_sort_by size_mset)

text \<open>A comparator that compares keys sorts like the library's stable \<open>sort_key\<close>.\<close>

lemma sort_by_sort_key:
  assumes "\<And>x y. c x y = compare (f x) (f y)"
  shows "sort_by c xs = sort_key f xs"
proof -
  have "insert_by c x ys = insort_key f x ys" for x ys
    by (induction ys) (auto simp: assms compare_def)
  then show ?thesis
    by (simp add: sort_by_def sort_key_def fun_eq_iff cong: foldr_cong)
qed

section \<open>In-place updates and loops\<close>

lemma length_update_first [simp]: "length (update_first P f xs) = length xs"
  by (induction xs) auto

lemma map_update_first [update_simps]:
  "(\<And>x. P x \<Longrightarrow> g (f x) = g x) \<Longrightarrow> map g (update_first P f xs) = map g xs"
  by (induction xs) auto

lemma update_first_absent [update_simps]: "\<forall>x \<in> set xs. \<not> P x \<Longrightarrow> update_first P f xs = xs"
  by (induction xs) auto

lemma update_first_distinct:
  assumes "distinct (map k xs)"
  shows "update_first (\<lambda>x. k x = a) f xs = map (\<lambda>x. if k x = a then f x else x) xs"
  using assms
proof (induction xs)
  case (Cons x xs)
  show ?case
  proof (cases "k x = a")
    case True
    with Cons.prems have "k y \<noteq> a" if "y \<in> set xs" for y
      using that by (metis distinct.simps(2) image_eqI list.set_map list.simps(9))
    then have "map (\<lambda>x. if k x = a then f x else x) xs = xs"
      by (intro map_idI) auto
    with True show ?thesis by simp
  qed (use Cons in auto)
qed simp

lemma for_each_Inr: "for_each f xs = Inr u \<longleftrightarrow> (\<forall>x \<in> set xs. f x = Inr ())"
  by (induction xs) (auto split: sum.splits)

lemma for_each_Inl: "for_each f xs = Inl e \<Longrightarrow> \<exists>x \<in> set xs. f x = Inl e"
  by (induction xs) (auto split: sum.splits)

lemma collect_results_Inr:
  "collect_results (map f xs) = Inr ys \<longleftrightarrow> list_all2 (\<lambda>x y. f x = Inr y) xs ys"
proof (induction xs arbitrary: ys)
  case (Cons x xs)
  show ?case
  proof (cases "f x")
    case (Inr y)
    then show ?thesis
      by (cases ys) (auto simp flip: Cons.IH split: sum.splits)
  qed (auto simp: list_all2_Cons1)
qed auto

lemma first_dup_None: "first_dup seen xs = None \<longleftrightarrow> distinct xs \<and> set seen \<inter> set xs = {}"
  by (induction xs arbitrary: seen) auto

lemma position_Some: "position P xs = Some i \<Longrightarrow> i < length xs \<and> P (xs ! i) \<and> (\<forall>j < i. \<not> P (xs ! j))"
proof (induction xs arbitrary: i)
  case (Cons x xs)
  then show ?case
    by (auto split: if_splits simp: nth_Cons less_Suc_eq_0_disj split: nat.splits)
qed simp

lemma mset_swap_eq: "i < length xs \<Longrightarrow> j < length xs \<Longrightarrow> mset (swap xs i j) = mset xs"
  by (simp add: swap_def mset_swap)

lemma length_swap [simp]: "length (swap xs i j) = length xs"
  by (simp add: swap_def)

text \<open>Printed numbers read back.\<close>

lemma digit_char_digit: "d < 10 \<Longrightarrow> is_ascii_digit (digit_char d) \<and> char_digit (digit_char d) = d"
  by (auto simp: digit_char_def is_ascii_digit_def char_digit_def less_eq_char_def)

lemma nat_to_string_digits: "list_all is_ascii_digit (nat_to_string n) \<and> nat_to_string n \<noteq> [] \<and> digits_to_nat (nat_to_string n) = n"
proof (induction n rule: nat_to_string.induct)
  case (1 n)
  show ?case
  proof (cases "n < 10")
    case True
    then show ?thesis using digit_char_digit [of n] by (simp add: nat_to_string.simps [of n] digits_to_nat_def)
  next
    case False
    have eq: "nat_to_string n = nat_to_string (n div 10) @ [digit_char (n mod 10)]"
      using False by (simp add: nat_to_string.simps [of n])
    show ?thesis using 1 [OF False] digit_char_digit [of "n mod 10"] by (simp add: eq digits_to_nat_def)
  qed
qed

end
