(* ===== verification/Float64.thy ===== *)
theory Float64
  imports Rust_Prelude
begin

text \<open>
  The \<open>f64\<close> values of the sources: column defaults (\<open>DefaultValue::Float\<close>) are compared
  with \<open>==\<close> and printed with \<open>to_string\<close>.

  A finite value is a sign, a significand \<open>m\<close> and an exponent \<open>e\<close>, standing for
  \<open>m * 2 ^ e\<close>; \<open>f64_wf\<close> says which triples are the values of the IEEE 754 binary64 format.
  Printing is the shortest decimal that reads back as the same value, generated digit by
  digit as the standard library does it; a value has at most 17 such digits, so the digit
  loop runs with 20 units of fuel.
\<close>

datatype f64 =
    NaN
  | Infinity bool
  | Finite bool int int

definition f64_wf :: "f64 \<Rightarrow> bool" where
  "f64_wf x \<longleftrightarrow> (case x of
     NaN \<Rightarrow> True
   | Infinity _ \<Rightarrow> True
   | Finite s m e \<Rightarrow> 0 \<le> m \<and> m < 2 ^ 53 \<and> -1074 \<le> e \<and> e \<le> 971 \<and> (2 ^ 52 \<le> m \<or> e = -1074))"

section \<open>Comparison\<close>

text \<open>\<open>m * 2 ^ (e + 1074)\<close>, signed: every finite value as an integer multiple of the least one.\<close>

definition f64_scaled :: "bool \<Rightarrow> int \<Rightarrow> int \<Rightarrow> int" where
  "f64_scaled s m e = (if s then - 1 else 1) * m * 2 ^ nat (e + 1074)"

text \<open>\<open>partial_cmp\<close>: no order with \<open>NaN\<close>; the two zeros are equal.\<close>

fun f64_partial_cmp :: "f64 \<Rightarrow> f64 \<Rightarrow> ordering option" where
  "f64_partial_cmp NaN y = None"
| "f64_partial_cmp x NaN = None"
| "f64_partial_cmp (Infinity s) (Infinity t) = Some (compare (\<not> s) (\<not> t))"
| "f64_partial_cmp (Infinity s) (Finite _ _ _) = Some (if s then Less else Greater)"
| "f64_partial_cmp (Finite _ _ _) (Infinity t) = Some (if t then Greater else Less)"
| "f64_partial_cmp (Finite s m e) (Finite t n g) = Some (compare (f64_scaled s m e) (f64_scaled t n g))"

definition f64_eq :: "f64 \<Rightarrow> f64 \<Rightarrow> bool" where
  "f64_eq x y \<longleftrightarrow> f64_partial_cmp x y = Some Equal"

lemma compare_refl [simp]: "compare a a = Equal"
  by (simp add: compare_def)

lemma compare_Equal [simp]: "compare a b = Equal \<longleftrightarrow> a = b"
  by (simp add: compare_def)

lemma f64_eq_refl: "f64_eq x x \<longleftrightarrow> x \<noteq> NaN"
  by (cases x) (simp_all add: f64_eq_def)

section \<open>Printing\<close>

text \<open>The number of bits of \<open>n\<close>.\<close>

fun bit_len :: "nat \<Rightarrow> int \<Rightarrow> int" where
  "bit_len 0 n = 0"
| "bit_len (Suc fuel) n = (if n \<le> 0 then 0 else 1 + bit_len fuel (n div 2))"

text \<open>\<open>estimate_scaling_factor\<close>: a \<open>k\<close> with \<open>10 ^ k\<close> just below \<open>mant * 2 ^ e\<close>, or one less.\<close>

definition estimate_scaling_factor :: "int \<Rightarrow> int \<Rightarrow> int" where
  "estimate_scaling_factor mant e = ((bit_len 64 (mant - 1) + e) * 1292913986) div 2 ^ 32"

text \<open>Digits of \<open>mant / scale < 10\<close> until the rest lies within the rounding interval.\<close>

fun shortest_digits :: "nat \<Rightarrow> bool \<Rightarrow> int \<Rightarrow> int \<Rightarrow> int \<Rightarrow> int \<Rightarrow> int list \<times> bool" where
  "shortest_digits 0 incl mant lower upper scale = ([], False)"
| "shortest_digits (Suc fuel) incl mant lower upper scale =
     (let d = mant div scale; r = mant mod scale;
          down = (if incl then r \<le> lower else r < lower);
          up = (if incl then scale \<le> r + upper else scale < r + upper)
      in if down \<or> up then ([d], up \<and> (\<not> down \<or> scale \<le> 2 * r))
         else let (ds, u) = shortest_digits fuel incl (10 * r) (10 * lower) (10 * upper) scale
              in (d # ds, u))"

text \<open>Rounding the last digit up (digits reversed); a carry out of the first digit adds one.\<close>

fun round_up_rev :: "int list \<Rightarrow> int list \<times> bool" where
  "round_up_rev [] = ([], True)"
| "round_up_rev (d # ds) =
     (if d < 9 then ((d + 1) # ds, False)
      else let (ds', c) = round_up_rev ds in (0 # ds', c))"

definition decimal_digits :: "int \<Rightarrow> int \<Rightarrow> int list \<times> int" where
  "decimal_digits m e =
     (let incl = (m mod 2 = 0);
          asym = (m = 2 ^ 52);
          mant = (if asym then 4 * m else 2 * m);
          e' = (if asym then e - 2 else e - 1);
          upper = (if asym then 2 else 1);
          k = estimate_scaling_factor (mant + upper) e';
          mul = (if 0 \<le> e' then 2 ^ nat e' else 1) * (if k < 0 then 10 ^ nat (- k) else 1);
          scale = (if e' < 0 then 2 ^ nat (- e') else 1) * (if 0 \<le> k then 10 ^ nat k else 1);
          carry = (if incl then scale \<le> (mant + upper) * mul else scale < (mant + upper) * mul);
          k' = (if carry then k + 1 else k);
          mul' = (if carry then mul else 10 * mul);
          (ds, up) = shortest_digits 20 incl (mant * mul') mul' (upper * mul') scale
      in if up
         then let (rs, c) = round_up_rev (rev ds)
              in if c then (1 # rev rs, k' + 1) else (rev rs, k')
         else (ds, k'))"

text \<open>The digits \<open>0.d1d2..\<close> times \<open>10 ^ k\<close>, without an exponent and without a trailing \<open>.0\<close>.\<close>

definition decimal_string :: "int list \<times> int \<Rightarrow> string" where
  "decimal_string dk =
     (let ds = map (\<lambda>d. digit_char (nat d)) (fst dk); k = snd dk; n = int (length ds)
      in if k \<le> 0 then ''0.'' @ replicate (nat (- k)) (CHR ''0'') @ ds
         else if k < n then take (nat k) ds @ ''.'' @ drop (nat k) ds
         else ds @ replicate (nat (k - n)) (CHR ''0''))"

definition f64_to_string :: "f64 \<Rightarrow> string" where
  "f64_to_string x = (case x of
     NaN \<Rightarrow> ''NaN''
   | Infinity s \<Rightarrow> (if s then ''-inf'' else ''inf'')
   | Finite s m e \<Rightarrow>
       (if s then ''-'' else []) @ (if m = 0 then ''0'' else decimal_string (decimal_digits m e)))"

section \<open>Equality of finite values\<close>

text \<open>Away from the two zeros and \<open>NaN\<close>, numeric equality is identity of the representation.\<close>

lemma scaled_le_exponent:
  fixes m n :: int
  assumes "m * 2 ^ a = n * 2 ^ b" and "a < b" and "2 ^ 52 \<le> n" and "m < 2 ^ 53"
  shows False
proof -
  obtain d where b: "b = a + Suc d"
    using assms(2) less_iff_Suc_add by auto
  have "m * 2 ^ a = (n * 2 ^ Suc d) * 2 ^ a"
    using assms(1) by (simp add: b power_add)
  then have m: "m = n * 2 ^ Suc d" by simp
  have "2 ^ 52 * 2 \<le> n * (2 :: int) ^ Suc d"
    using assms(3) by (intro mult_mono) auto
  with m assms(4) show False by simp
qed

lemma f64_magnitude_unique:
  assumes "f64_wf (Finite s m e)" and "f64_wf (Finite t n g)" and "m \<noteq> 0" and "n \<noteq> 0"
    and "m * 2 ^ nat (e + 1074) = n * 2 ^ nat (g + 1074)"
  shows "m = n \<and> e = g"
proof -
  have bounds: "m < 2 ^ 53" "n < 2 ^ 53" "-1074 \<le> e" "-1074 \<le> g"
      "2 ^ 52 \<le> m \<or> e = -1074" "2 ^ 52 \<le> n \<or> g = -1074"
    using assms(1,2) by (auto simp: f64_wf_def)
  have "e = g"
  proof (rule ccontr)
    assume "e \<noteq> g"
    then consider "nat (e + 1074) < nat (g + 1074)" "g \<noteq> -1074"
      | "nat (g + 1074) < nat (e + 1074)" "e \<noteq> -1074"
      using bounds(3,4) by linarith
    then show False
    proof cases
      case 1
      with bounds assms(5) show False by (blast dest: scaled_le_exponent)
    next
      case 2
      with bounds assms(5) [symmetric] show False by (blast dest: scaled_le_exponent)
    qed
  qed
  with assms(5) show ?thesis by simp
qed

lemma f64_eq_imp_eq:
  assumes eq: "f64_eq x y" and wf: "f64_wf x" "f64_wf y"
    and nz: "\<And>s e. x \<noteq> Finite s 0 e"
  shows "x = y"
proof (cases x)
  case NaN
  with eq show ?thesis by (simp add: f64_eq_def)
next
  case (Infinity s)
  with eq show ?thesis by (cases y) (auto simp: f64_eq_def split: if_splits)
next
  case x: (Finite s m e)
  then obtain t n g where y: "y = Finite t n g"
    using eq by (cases y) (auto simp: f64_eq_def split: if_splits)
  have scaled: "f64_scaled s m e = f64_scaled t n g"
    using eq x y by (simp add: f64_eq_def)
  have m: "0 < m" and n: "0 \<le> n"
    using wf x y nz [of s e] by (auto simp: f64_wf_def order_less_le)
  have pos: "0 < m * 2 ^ nat (e + 1074)"
    using m by simp
  have npos: "0 \<le> n * 2 ^ nat (g + 1074)"
    using n by simp
  have signed: "(if s then - (m * 2 ^ nat (e + 1074)) else m * 2 ^ nat (e + 1074)) =
      (if t then - (n * 2 ^ nat (g + 1074)) else n * 2 ^ nat (g + 1074))"
    using scaled by (simp add: f64_scaled_def split: if_splits)
  have st: "s = t"
    using signed pos npos by (auto split: if_splits)
  then have "m * 2 ^ nat (e + 1074) = n * 2 ^ nat (g + 1074)"
    using signed by (simp split: if_splits)
  moreover from this pos have "n \<noteq> 0" by auto
  ultimately show ?thesis
    using f64_magnitude_unique wf m st unfolding x y by blast
qed

end
