(* ===== verification/Float64_Arith.thy ===== *)
theory Float64_Arith
  imports Float64
begin

text \<open>
  The \<open>f64\<close> operations of the CHECK analyses: conversion from \<open>i64\<close>, subtraction, absolute value and
  \<open>str::parse::<f64>\<close>.  Each is the exact result rounded to the nearest value, ties to even, as
  IEEE 754 and the documentation of the standard library have it.
\<close>

section \<open>Rounding a ratio\<close>

function int_bits :: "int \<Rightarrow> nat" where
  "int_bits n = (if n \<le> 0 then 0 else Suc (int_bits (n div 2)))"
  by pat_completeness auto
termination by (relation "measure nat") auto

declare int_bits.simps [simp del]

text \<open>The exponent that gives \<open>n / d\<close> a significand of 53 bits, at least the subnormal one.\<close>

definition ratio_exponent :: "int \<Rightarrow> int \<Rightarrow> int" where
  "ratio_exponent n d =
     (let l = int (int_bits n) - int (int_bits d);
          ge = (if 0 \<le> l then d * 2 ^ nat l \<le> n else d \<le> n * 2 ^ nat (- l))
      in max (- 1074) (if ge then l - 52 else l - 53))"

definition f64_of_ratio :: "bool \<Rightarrow> int \<Rightarrow> int \<Rightarrow> f64" where
  "f64_of_ratio s n d =
     (if n = 0 then Finite s 0 (- 1074)
      else
        let e = ratio_exponent n d;
            a = (if e < 0 then n * 2 ^ nat (- e) else n);
            b = (if e < 0 then d else d * 2 ^ nat e);
            q = a div b; r = a mod b;
            m = (if b < 2 * r \<or> 2 * r = b \<and> odd q then q + 1 else q);
            (m', e') = (if m = 2 ^ 53 then (2 ^ 52, e + 1) else (m, e))
        in if 971 < e' then Infinity s else Finite s m' e')"

section \<open>Arithmetic\<close>

text \<open>\<open>i as f64\<close>.\<close>

definition f64_of_int :: "int \<Rightarrow> f64" where
  "f64_of_int i = f64_of_ratio (i < 0) \<bar>i\<bar> 1"

fun f64_neg :: "f64 \<Rightarrow> f64" where
  "f64_neg NaN = NaN"
| "f64_neg (Infinity s) = Infinity (\<not> s)"
| "f64_neg (Finite s m e) = Finite (\<not> s) m e"

fun f64_abs :: "f64 \<Rightarrow> f64" where
  "f64_abs NaN = NaN"
| "f64_abs (Infinity s) = Infinity False"
| "f64_abs (Finite s m e) = Finite False m e"

text \<open>An exact zero difference is \<open>+0\<close>, except for \<open>(-0) - (+0)\<close>.\<close>

fun f64_sub :: "f64 \<Rightarrow> f64 \<Rightarrow> f64" where
  "f64_sub NaN y = NaN"
| "f64_sub x NaN = NaN"
| "f64_sub (Infinity s) (Infinity t) = (if s = t then NaN else Infinity s)"
| "f64_sub (Infinity s) (Finite _ _ _) = Infinity s"
| "f64_sub (Finite _ _ _) (Infinity t) = Infinity (\<not> t)"
| "f64_sub (Finite s m e) (Finite t n g) =
     (let d = f64_scaled s m e - f64_scaled t n g
      in if d = 0 then Finite (m = 0 \<and> n = 0 \<and> s \<and> \<not> t) 0 (- 1074)
         else f64_of_ratio (d < 0) \<bar>d\<bar> (2 ^ 1074))"

definition f64_epsilon :: f64 where
  "f64_epsilon = Finite False (2 ^ 52) (- 104)"

definition f64_lt :: "f64 \<Rightarrow> f64 \<Rightarrow> bool" where
  "f64_lt x y \<longleftrightarrow> f64_partial_cmp x y = Some Less"

definition f64_le :: "f64 \<Rightarrow> f64 \<Rightarrow> bool" where
  "f64_le x y \<longleftrightarrow> f64_partial_cmp x y = Some Less \<or> f64_partial_cmp x y = Some Equal"

text \<open>\<open>(x - y).abs() < f64::EPSILON\<close>.\<close>

definition f64_near :: "f64 \<Rightarrow> f64 \<Rightarrow> bool" where
  "f64_near x y \<longleftrightarrow> f64_lt (f64_abs (f64_sub x y)) f64_epsilon"

section \<open>Reading\<close>

text \<open>\<open>str::parse::<f64>\<close>: an optional sign, digits with at most one point and at least one digit,
  an optional exponent with at least one digit; or the words for the infinities and \<open>NaN\<close>.\<close>

definition split_sign :: "string \<Rightarrow> bool \<times> string" where
  "split_sign s = (case s of
     [] \<Rightarrow> (False, [])
   | c # r \<Rightarrow> if c = CHR ''-'' then (True, r) else if c = CHR ''+'' then (False, r) else (False, s))"

definition digits_to_int :: "string \<Rightarrow> int" where
  "digits_to_int s = foldl (\<lambda>n c. 10 * n + int (char_digit c)) 0 s"

definition parse_exponent :: "string \<Rightarrow> int option" where
  "parse_exponent s =
     (case s of
        [] \<Rightarrow> Some 0
      | c # r \<Rightarrow>
          if c = CHR ''e'' \<or> c = CHR ''E''
          then let (neg, ds) = split_sign r
               in if ds \<noteq> [] \<and> list_all is_ascii_digit ds
                  then Some (if neg then - digits_to_int ds else digits_to_int ds) else None
          else None)"

definition f64_of_decimal :: "bool \<Rightarrow> int \<Rightarrow> int \<Rightarrow> f64" where
  "f64_of_decimal s n k = (if k < 0 then f64_of_ratio s n (10 ^ nat (- k)) else f64_of_ratio s (n * 10 ^ nat k) 1)"

definition parse_f64 :: "string \<Rightarrow> f64 option" where
  "parse_f64 str =
     (let (neg, body) = split_sign str;
          w = to_lowercase body;
          whole = takeWhile is_ascii_digit body;
          rest = dropWhile is_ascii_digit body;
          (frac, tl) = (case rest of
              [] \<Rightarrow> ([], [])
            | c # r \<Rightarrow> if c = CHR ''.'' then (takeWhile is_ascii_digit r, dropWhile is_ascii_digit r) else ([], rest))
      in if w = ''inf'' \<or> w = ''infinity'' then Some (Infinity neg)
         else if w = ''nan'' then Some NaN
         else if whole @ frac = [] then None
         else (case parse_exponent tl of
                 None \<Rightarrow> None
               | Some k \<Rightarrow> Some (f64_of_decimal neg (digits_to_int (whole @ frac)) (k - int (length frac)))))"

section \<open>Small integers are exact\<close>

lemma int_bits_bounds: "0 < n \<Longrightarrow> 2 ^ (int_bits n - 1) \<le> n \<and> n < 2 ^ int_bits n \<and> 0 < int_bits n"
proof (induction n rule: int_bits.induct)
  case (1 n)
  show ?case
  proof (cases "n div 2 \<le> 0")
    case True
    with 1(2) have "n = 1" by linarith
    then show ?thesis by (simp add: int_bits.simps)
  next
    case False
    let ?b = "int_bits (n div 2)"
    have ih: "2 ^ (?b - 1) \<le> n div 2" "n div 2 < 2 ^ ?b" "0 < ?b"
      using 1(1) False 1(2) by auto
    have n: "int_bits n = Suc ?b" using 1(2) by (simp add: int_bits.simps [of n])
    have "2 * 2 ^ (?b - 1) \<le> n" using ih(1) by linarith
    moreover have "2 * 2 ^ (?b - 1) = (2 :: int) ^ ?b" using ih(3) by (simp add: power_eq_if)
    moreover have "n < 2 * 2 ^ ?b" using ih(2) by linarith
    ultimately show ?thesis by (simp add: n)
  qed
qed

lemma int_bits_1 [simp]: "int_bits 1 = 1"
  by (simp add: int_bits.simps)

lemma int_bits_le: "n < 2 ^ k \<Longrightarrow> int_bits n \<le> k"
proof (rule ccontr)
  assume a: "n < 2 ^ k" and b: "\<not> int_bits n \<le> k"
  then have n: "0 < n" by (cases "0 < n") (auto simp: int_bits.simps)
  have "(2 :: int) ^ k \<le> 2 ^ (int_bits n - 1)" using b by (intro power_increasing) auto
  also have "\<dots> \<le> n" using int_bits_bounds [OF n] by simp
  finally show False using a by simp
qed

lemma ratio_exponent_int:
  assumes "0 < n"
  shows "ratio_exponent n 1 = max (- 1074) (int (int_bits n) - 53)"
proof -
  have b: "0 < int_bits n" "2 ^ (int_bits n - 1) \<le> n" using int_bits_bounds [OF assms] by auto
  have "nat (int (int_bits n) - 1) = int_bits n - 1" by linarith
  with b show ?thesis by (simp add: ratio_exponent_def Let_def)
qed

lemma f64_of_ratio_small:
  assumes "0 < n" and "n < 2 ^ 53"
  shows "f64_of_ratio s n 1 = Finite s (n * 2 ^ (53 - int_bits n)) (int (int_bits n) - 53)"
proof -
  let ?b = "int_bits n"
  have b: "?b \<le> 53" using int_bits_le assms(2) by blast
  have bb: "0 < ?b" "n < 2 ^ ?b" using int_bits_bounds [OF assms(1)] by auto
  have e: "ratio_exponent n 1 = int ?b - 53" using ratio_exponent_int [OF assms(1)] b by simp
  have "n * 2 ^ (53 - ?b) < 2 ^ ?b * 2 ^ (53 - ?b)" using bb(2) by simp
  also have "\<dots> = (2 :: int) ^ 53" using b by (metis le_add_diff_inverse power_add)
  finally have lt: "n * 2 ^ (53 - ?b) < 2 ^ 53" .
  show ?thesis
  proof (cases "?b = 53")
    case True
    then show ?thesis using assms e by (simp add: f64_of_ratio_def)
  next
    case False
    then have "int ?b - 53 < 0" and nb: "nat (53 - int ?b) = 53 - ?b" using b by linarith+
    with lt e assms show ?thesis by (simp add: f64_of_ratio_def)
  qed
qed

text \<open>The value of a finite \<open>f64\<close>, in units of \<open>2 ^ (-1074)\<close>.\<close>

lemma f64_of_int_exact:
  assumes "\<bar>i\<bar> < 2 ^ 53"
  shows "\<exists>m e. f64_of_int i = Finite (i < 0) m e \<and> f64_scaled (i < 0) m e = i * 2 ^ 1074"
proof (cases "i = 0")
  case True
  then show ?thesis by (simp add: f64_of_int_def f64_of_ratio_def f64_scaled_def)
next
  case False
  define n where "n = \<bar>i\<bar>"
  have n: "0 < n" "n < 2 ^ 53" using False assms by (auto simp: n_def)
  have b: "int_bits n \<le> 53" using int_bits_le n(2) by blast
  have "nat (int (int_bits n) - 53 + 1074) = int_bits n + 1021" using b by linarith
  then have p: "(2 :: int) ^ nat (int (int_bits n) - 53 + 1074) = 2 ^ (int_bits n + 1021)" by (rule arg_cong)
  have "(2 :: int) ^ (53 - int_bits n) * 2 ^ (int_bits n + 1021) = 2 ^ (53 - int_bits n + (int_bits n + 1021))"
    by (rule power_add [symmetric])
  also have "53 - int_bits n + (int_bits n + 1021) = 1074" using b by linarith
  finally have q: "(2 :: int) ^ (53 - int_bits n) * 2 ^ (int_bits n + 1021) = 2 ^ 1074" .
  have i: "(if i < 0 then - 1 else 1) * n = i" by (simp add: n_def)
  have "f64_scaled (i < 0) (n * 2 ^ (53 - int_bits n)) (int (int_bits n) - 53) =
      ((if i < 0 then - 1 else 1) * n) * (2 ^ (53 - int_bits n) * 2 ^ (int_bits n + 1021))"
    unfolding f64_scaled_def p by (simp only: mult.assoc)
  then have "f64_scaled (i < 0) (n * 2 ^ (53 - int_bits n)) (int (int_bits n) - 53) = i * 2 ^ 1074"
    unfolding i q .
  moreover have "f64_of_int i = Finite (i < 0) (n * 2 ^ (53 - int_bits n)) (int (int_bits n) - 53)"
    unfolding f64_of_int_def n_def [symmetric] by (rule f64_of_ratio_small [OF n])
  ultimately show ?thesis by blast
qed

end
