(* ===== verification/Check_Expr.thy ===== *)
theory Check_Expr
  imports Float64_Arith
begin

text \<open>
  CHECK expressions (\<open>vespertide-planner/src/validate/check_expr_parser.rs\<close>): the syntax tree, the
  literals with their comparisons, the lexer with byte spans and the recursive descent parser with
  its limit of 64 nested groups.

  The parser's \<open>pos\<close> is the list of the tokens that are left; its \<open>depth\<close> is counted down from the
  limit, so that the recursion of \<open>parse_or\<close> is structural.  The loops over \<open>AND\<close> and \<open>OR\<close> carry
  fuel, one unit more than there are tokens, which is enough because every round consumes a
  keyword (\<open>parse_chain_fuel\<close>).
\<close>

section \<open>Syntax\<close>

datatype op = OpEq | OpNe | OpLt | OpLe | OpGt | OpGe

datatype literal =
    LitInteger int
  | LitFloat f64
  | LitString string
  | LitBool bool
  | LitNull

datatype check_expr =
    Compare string op literal
  | InList string "literal list" bool
  | Between string literal literal bool
  | IsNull string bool
  | AndE "check_expr list"
  | OrE "check_expr list"
  | NotE check_expr
  | Unparseable

subsection \<open>Literals\<close>

fun cmp_value :: "literal \<Rightarrow> literal \<Rightarrow> ordering option" where
  "cmp_value (LitInteger a) (LitInteger b) = Some (compare a b)"
| "cmp_value (LitFloat a) (LitFloat b) = f64_partial_cmp a b"
| "cmp_value (LitInteger a) (LitFloat b) = f64_partial_cmp (f64_of_int a) b"
| "cmp_value (LitFloat a) (LitInteger b) = f64_partial_cmp a (f64_of_int b)"
| "cmp_value (LitString a) (LitString b) = Some (compare a b)"
| "cmp_value (LitBool a) (LitBool b) = Some (compare a b)"
| "cmp_value _ _ = None"

fun approx_eq :: "literal \<Rightarrow> literal \<Rightarrow> bool" where
  "approx_eq (LitInteger x) (LitInteger y) = (x = y)"
| "approx_eq (LitFloat x) (LitFloat y) = f64_near x y"
| "approx_eq (LitInteger x) (LitFloat y) = f64_near (f64_of_int x) y"
| "approx_eq (LitFloat x) (LitInteger y) = f64_near x (f64_of_int y)"
| "approx_eq (LitString x) (LitString y) = (x = y)"
| "approx_eq (LitBool x) (LitBool y) = (x = y)"
| "approx_eq LitNull LitNull = True"
| "approx_eq _ _ = False"

fun display_value :: "literal \<Rightarrow> string" where
  "display_value (LitInteger i) = int_to_string i"
| "display_value (LitFloat f) = f64_to_string f"
| "display_value (LitString s) = s"
| "display_value (LitBool b) = bool_to_string b"
| "display_value LitNull = ''NULL''"

text \<open>The derived \<open>==\<close>: floats compare as numbers.\<close>

fun literal_eq :: "literal \<Rightarrow> literal \<Rightarrow> bool" where
  "literal_eq (LitFloat x) (LitFloat y) = f64_eq x y"
| "literal_eq x y = (x = y)"

fun check_eq :: "check_expr \<Rightarrow> check_expr \<Rightarrow> bool"
  and check_list_eq :: "check_expr list \<Rightarrow> check_expr list \<Rightarrow> bool" where
  "check_eq (Compare c op v) (Compare d o' w) = (c = d \<and> op = o' \<and> literal_eq v w)"
| "check_eq (InList c vs n) (InList d ws m) = (c = d \<and> list_all2 literal_eq vs ws \<and> n = m)"
| "check_eq (Between c l h n) (Between d l' h' m) = (c = d \<and> literal_eq l l' \<and> literal_eq h h' \<and> n = m)"
| "check_eq (IsNull c n) (IsNull d m) = (c = d \<and> n = m)"
| "check_eq (AndE es) (AndE fs) = check_list_eq es fs"
| "check_eq (OrE es) (OrE fs) = check_list_eq es fs"
| "check_eq (NotE e) (NotE f) = check_eq e f"
| "check_eq Unparseable Unparseable = True"
| "check_eq _ _ = False"
| "check_list_eq [] [] = True"
| "check_list_eq (e # es) (f # fs) = (check_eq e f \<and> check_list_eq es fs)"
| "check_list_eq _ _ = False"

section \<open>Lexer\<close>

datatype keyword = KwAnd | KwOr | KwNot | KwIn | KwBetween | KwIs | KwNull | KwTrue | KwFalse

datatype token =
    TokIdent string
  | TokInteger int
  | TokFloat f64
  | TokQuotedString string
  | TokKeyword keyword
  | TokOp op
  | TokLParen
  | TokRParen
  | TokComma

record spanned_token =
  st_token :: token
  st_start :: nat
  st_end :: nat

definition classify_word :: "string \<Rightarrow> token" where
  "classify_word word =
     (if eq_ignore_ascii_case word ''AND'' then TokKeyword KwAnd
      else if eq_ignore_ascii_case word ''OR'' then TokKeyword KwOr
      else if eq_ignore_ascii_case word ''NOT'' then TokKeyword KwNot
      else if eq_ignore_ascii_case word ''IN'' then TokKeyword KwIn
      else if eq_ignore_ascii_case word ''BETWEEN'' then TokKeyword KwBetween
      else if eq_ignore_ascii_case word ''IS'' then TokKeyword KwIs
      else if eq_ignore_ascii_case word ''NULL'' then TokKeyword KwNull
      else if eq_ignore_ascii_case word ''TRUE'' then TokKeyword KwTrue
      else if eq_ignore_ascii_case word ''FALSE'' then TokKeyword KwFalse
      else TokIdent word)"

definition parse_number_token :: "string \<Rightarrow> token option" where
  "parse_number_token raw =
     (case parse_i64 raw of
        Some i \<Rightarrow> Some (TokInteger i)
      | None \<Rightarrow> map_option TokFloat (parse_f64 raw))"

definition is_literal_start_slot :: "spanned_token list \<Rightarrow> bool" where
  "is_literal_start_slot tokens =
     (tokens = [] \<or>
      (case st_token (last tokens) of
         TokOp _ \<Rightarrow> True
       | TokLParen \<Rightarrow> True
       | TokComma \<Rightarrow> True
       | TokKeyword k \<Rightarrow> k \<in> {KwAnd, KwOr, KwNot, KwBetween, KwIn, KwIs}
       | _ \<Rightarrow> False))"

text \<open>The rest of a quoted string after its opening quote, closing quote included.\<close>

fun scan_quoted :: "string \<Rightarrow> (string \<times> string) option" where
  "scan_quoted [] = None"
| "scan_quoted [c] = (if c = CHR 0x27 then Some ([c], []) else None)"
| "scan_quoted (c # d # s) =
     (if c = CHR 0x27
      then if d = CHR 0x27 then map_option (\<lambda>(r, t). (c # d # r, t)) (scan_quoted s)
           else Some ([c], d # s)
      else map_option (\<lambda>(r, t). (c # r, t)) (scan_quoted (d # s)))"

definition scan_exponent :: "string \<Rightarrow> string \<times> string" where
  "scan_exponent s =
     (case s of
        c # r \<Rightarrow>
          if c = CHR ''e'' \<or> c = CHR ''E''
          then case r of
                 d # r' \<Rightarrow>
                   if d = CHR ''+'' \<or> d = CHR ''-''
                   then (c # d # takeWhile is_ascii_digit r', dropWhile is_ascii_digit r')
                   else (c # takeWhile is_ascii_digit r, dropWhile is_ascii_digit r)
               | [] \<Rightarrow> ([c], [])
          else ([], s)
      | [] \<Rightarrow> ([], []))"

definition scan_signed :: "string \<Rightarrow> string \<times> string" where
  "scan_signed s =
     (let ds = takeWhile (\<lambda>c. is_ascii_digit c \<or> c = CHR ''.'') s;
          (ex, rest) = scan_exponent (dropWhile (\<lambda>c. is_ascii_digit c \<or> c = CHR ''.'') s)
      in (ds @ ex, rest))"

definition scan_unsigned :: "string \<Rightarrow> string \<times> string" where
  "scan_unsigned s =
     (let whole = takeWhile is_ascii_digit s;
          rest = dropWhile is_ascii_digit s;
          (frac, rest') = (case rest of
              c # r \<Rightarrow> if c = CHR ''.'' then (c # takeWhile is_ascii_digit r, dropWhile is_ascii_digit r)
                       else ([], rest)
            | [] \<Rightarrow> ([], []));
          (ex, rest'') = scan_exponent rest'
      in (whole @ frac @ ex, rest''))"

definition scan_op :: "char \<Rightarrow> string \<Rightarrow> (op \<times> string \<times> string) option" where
  "scan_op c s =
     (let two = (case s of d # _ \<Rightarrow> Some d | [] \<Rightarrow> None)
      in if c = CHR ''<'' \<and> two = Some (CHR ''='') then Some (OpLe, [c, hd s], tl s)
         else if c = CHR ''>'' \<and> two = Some (CHR ''='') then Some (OpGe, [c, hd s], tl s)
         else if c = CHR ''<'' \<and> two = Some (CHR ''>'') \<or> c = CHR ''!'' \<and> two = Some (CHR ''='')
           then Some (OpNe, [c, hd s], tl s)
         else if c = CHR ''<'' then Some (OpLt, [c], s)
         else if c = CHR ''>'' then Some (OpGt, [c], s)
         else if c = CHR ''='' then Some (OpEq, [c], s)
         else None)"

text \<open>One round of the lexer at a character that is not white space: the token, its text and the
  rest of the input.\<close>

definition next_token :: "spanned_token list \<Rightarrow> char \<Rightarrow> string \<Rightarrow> (token \<times> string \<times> string) option" where
  "next_token out c s =
     (if c = CHR ''('' then Some (TokLParen, [c], s)
      else if c = CHR '')'' then Some (TokRParen, [c], s)
      else if c = CHR '','' then Some (TokComma, [c], s)
      else if c = CHR 0x27 then
        map_option (\<lambda>(raw, rest). (TokQuotedString (c # raw), c # raw, rest)) (scan_quoted s)
      else if c = CHR ''<'' \<or> c = CHR ''>'' \<or> c = CHR ''='' \<or> c = CHR ''!'' then
        map_option (\<lambda>(op, raw, rest). (TokOp op, raw, rest)) (scan_op c s)
      else if c = CHR ''-'' \<or> c = CHR ''+'' then
        if \<not> is_literal_start_slot out then None
        else let (raw, rest) = scan_signed s
             in map_option (\<lambda>t. (t, c # raw, rest)) (parse_number_token (c # raw))
      else if is_ascii_digit c then
        let (raw, rest) = scan_unsigned (c # s)
        in map_option (\<lambda>t. (t, raw, rest)) (parse_number_token raw)
      else if is_ascii_alphabetic c \<or> c = CHR ''_'' then
        let word = takeWhile (\<lambda>d. is_ascii_alphanumeric d \<or> d = CHR ''_'') (c # s)
        in Some (classify_word word, word, dropWhile (\<lambda>d. is_ascii_alphanumeric d \<or> d = CHR ''_'') s)
      else None)"

lemma scan_quoted_append: "scan_quoted s = Some (raw, rest) \<Longrightarrow> s = raw @ rest \<and> raw \<noteq> []"
  by (induction s arbitrary: raw rest rule: scan_quoted.induct) (auto split: if_splits)

lemma scan_exponent_append: "scan_exponent s = (raw, rest) \<Longrightarrow> s = raw @ rest"
  by (auto simp: scan_exponent_def split: list.splits if_splits)

lemma scan_signed_append: "scan_signed s = (raw, rest) \<Longrightarrow> s = raw @ rest"
  by (auto simp: scan_signed_def Let_def split: prod.splits dest!: scan_exponent_append)
    (metis takeWhile_dropWhile_id)

lemma scan_unsigned_append: "scan_unsigned s = (raw, rest) \<Longrightarrow> s = raw @ rest"
proof -
  assume "scan_unsigned s = (raw, rest)"
  then obtain frac rest' ex where
      f: "(case dropWhile is_ascii_digit s of
              c # r \<Rightarrow> if c = CHR ''.'' then (c # takeWhile is_ascii_digit r, dropWhile is_ascii_digit r)
                       else ([], dropWhile is_ascii_digit s)
            | [] \<Rightarrow> ([], [])) = (frac, rest')"
      and e: "scan_exponent rest' = (ex, rest)" and raw: "raw = takeWhile is_ascii_digit s @ frac @ ex"
    by (auto simp: scan_unsigned_def Let_def split: prod.splits)
  have "dropWhile is_ascii_digit s = frac @ rest'"
    using f by (auto split: list.splits if_splits)
  then show ?thesis
    using scan_exponent_append [OF e] raw by (metis append.assoc takeWhile_dropWhile_id)
qed

lemma scan_op_append: "scan_op c s = Some (op, raw, rest) \<Longrightarrow> c # s = raw @ rest \<and> raw \<noteq> []"
  by (cases s) (auto simp: scan_op_def Let_def split: if_split_asm)

text \<open>A token is a non-empty prefix of the input.\<close>

definition lexes :: "string \<Rightarrow> (token \<times> string \<times> string) option \<Rightarrow> bool" where
  "lexes s r \<longleftrightarrow> (\<forall>t raw rest. r = Some (t, raw, rest) \<longrightarrow> s = raw @ rest \<and> raw \<noteq> [])"

lemma lexes_if: "(b \<Longrightarrow> lexes s x) \<Longrightarrow> lexes s y \<Longrightarrow> lexes s (if b then x else y)"
  by simp

lemma lexes_next_token: "lexes (c # s) (next_token out c s)"
proof -
  have num: "lexes (c # s) (map_option (\<lambda>t. (t, raw, rest)) x)" if "c # s = raw @ rest" "raw \<noteq> []" for raw rest x
    using that by (auto simp: lexes_def)
  have "lexes (c # s) (map_option (\<lambda>(raw, rest). (TokQuotedString (c # raw), c # raw, rest)) (scan_quoted s))"
    by (auto simp: lexes_def dest: scan_quoted_append)
  moreover have "lexes (c # s) (map_option (\<lambda>(op, raw, rest). (TokOp op, raw, rest)) (scan_op c s))"
    by (auto simp: lexes_def dest: scan_op_append)
  moreover have "lexes (c # s) (let (raw, rest) = scan_signed s
      in map_option (\<lambda>t. (t, c # raw, rest)) (parse_number_token (c # raw)))"
  proof (cases "scan_signed s")
    case (Pair raw rest)
    then show ?thesis using num [of "c # raw" rest] scan_signed_append [OF Pair] by simp
  qed
  moreover have "lexes (c # s) (let (raw, rest) = scan_unsigned (c # s)
      in map_option (\<lambda>t. (t, raw, rest)) (parse_number_token raw))" if "is_ascii_digit c"
  proof (cases "scan_unsigned (c # s)")
    case (Pair raw rest)
    then have "raw \<noteq> []" using that by (auto simp: scan_unsigned_def Let_def split: prod.splits)
    then show ?thesis using num [of raw rest] scan_unsigned_append [OF Pair] Pair by simp
  qed
  moreover have "lexes (c # s) (let word = takeWhile (\<lambda>d. is_ascii_alphanumeric d \<or> d = CHR ''_'') (c # s)
      in Some (classify_word word, word, dropWhile (\<lambda>d. is_ascii_alphanumeric d \<or> d = CHR ''_'') s))"
    if "is_ascii_alphabetic c \<or> c = CHR ''_''"
    using that by (auto simp: lexes_def is_ascii_alphanumeric_def Let_def)
  ultimately show ?thesis
    unfolding next_token_def by (intro lexes_if) (simp_all add: lexes_def)
qed

lemma next_token_append: "next_token out c s = Some (t, raw, rest) \<Longrightarrow> c # s = raw @ rest \<and> raw \<noteq> []"
  using lexes_next_token [of c s out] by (simp add: lexes_def)

lemma next_token_shorter: "next_token out c s = Some (t, raw, rest) \<Longrightarrow> length rest < Suc (length s)"
  using next_token_append by (metis length_Cons length_append length_greater_0_conv less_add_same_cancel2)

function tokenize_from :: "nat \<Rightarrow> string \<Rightarrow> spanned_token list \<Rightarrow> spanned_token list option" where
  "tokenize_from i [] out = Some out"
| "tokenize_from i (c # s) out =
     (if is_ascii_whitespace c then tokenize_from (i + 1) s out
      else case next_token out c s of
             None \<Rightarrow> None
           | Some (t, raw, rest) \<Rightarrow>
               tokenize_from (i + length raw) rest
                 (out @ [\<lparr>st_token = t, st_start = i, st_end = i + length raw\<rparr>]))"
  by pat_completeness auto
termination
  by (relation "measure (\<lambda>(i, s, out). length s)") (auto dest: next_token_shorter)

definition tokenize_spanned :: "string \<Rightarrow> spanned_token list option" where
  "tokenize_spanned input = tokenize_from 0 input []"

subsection \<open>Tokens for highlighting\<close>

datatype check_token_kind = KindColumn | KindKeyword | KindOperator | KindNumber | KindString | KindPunctuation

record check_token =
  ct_kind :: check_token_kind
  ct_start :: nat
  ct_end :: nat

fun token_kind :: "token \<Rightarrow> check_token_kind" where
  "token_kind (TokIdent _) = KindColumn"
| "token_kind (TokInteger _) = KindNumber"
| "token_kind (TokFloat _) = KindNumber"
| "token_kind (TokQuotedString _) = KindString"
| "token_kind (TokKeyword _) = KindKeyword"
| "token_kind (TokOp _) = KindOperator"
| "token_kind TokLParen = KindPunctuation"
| "token_kind TokRParen = KindPunctuation"
| "token_kind TokComma = KindPunctuation"

definition lex_check_expr :: "string \<Rightarrow> check_token list" where
  "lex_check_expr expr =
     (case tokenize_spanned expr of
        None \<Rightarrow> []
      | Some spanned \<Rightarrow>
          map (\<lambda>st. \<lparr>ct_kind = token_kind (st_token st), ct_start = st_start st, ct_end = st_end st\<rparr>) spanned)"

section \<open>Parser\<close>

type_synonym parser = "token list \<Rightarrow> check_expr \<times> token list"

definition MAX_CHECK_EXPR_DEPTH :: nat where "MAX_CHECK_EXPR_DEPTH = 64"

fun eat_keyword :: "keyword \<Rightarrow> token list \<Rightarrow> bool \<times> token list" where
  "eat_keyword kw (TokKeyword k # ts) = (if k = kw then (True, ts) else (False, TokKeyword k # ts))"
| "eat_keyword kw ts = (False, ts)"

fun literal_of_token :: "token \<Rightarrow> literal option" where
  "literal_of_token (TokInteger i) = Some (LitInteger i)"
| "literal_of_token (TokFloat f) = Some (LitFloat f)"
| "literal_of_token (TokQuotedString s) = Some (LitString s)"
| "literal_of_token (TokKeyword KwTrue) = Some (LitBool True)"
| "literal_of_token (TokKeyword KwFalse) = Some (LitBool False)"
| "literal_of_token (TokKeyword KwNull) = Some LitNull"
| "literal_of_token _ = None"

fun try_take_literal :: "token list \<Rightarrow> (literal \<times> token list) option" where
  "try_take_literal [] = None"
| "try_take_literal (t # ts) = map_option (\<lambda>l. (l, ts)) (literal_of_token t)"

text \<open>The loop over the values of an \<open>IN\<close> list.\<close>

fun take_values :: "literal list \<Rightarrow> token list \<Rightarrow> literal list option \<times> token list" where
  "take_values values [] = (None, [])"
| "take_values values (t # ts) =
     (case literal_of_token t of
        None \<Rightarrow> (None, t # ts)
      | Some l \<Rightarrow>
          (case ts of
             TokComma # ts' \<Rightarrow> take_values (values @ [l]) ts'
           | TokRParen # ts' \<Rightarrow> (Some (values @ [l]), ts')
           | _ \<Rightarrow> (None, ts)))"

definition parse_predicate :: "string \<Rightarrow> parser" where
  "parse_predicate column ts =
     (let (negated, ts) = eat_keyword KwNot ts
      in case ts of
        TokOp op # r \<Rightarrow>
          if negated then (Unparseable, ts)
          else (case try_take_literal r of
                  None \<Rightarrow> (Unparseable, r)
                | Some (l, r') \<Rightarrow> (Compare column op l, r'))
      | TokKeyword KwIn # r \<Rightarrow>
          (case r of
             TokLParen # r' \<Rightarrow>
               (case take_values [] r' of
                  (None, r'') \<Rightarrow> (Unparseable, r'')
                | (Some values, r'') \<Rightarrow> (InList column values negated, r''))
           | _ \<Rightarrow> (Unparseable, r))
      | TokKeyword KwBetween # r \<Rightarrow>
          (case try_take_literal r of
             None \<Rightarrow> (Unparseable, r)
           | Some (low, r') \<Rightarrow>
               (case eat_keyword KwAnd r' of
                  (False, _) \<Rightarrow> (Unparseable, r')
                | (True, r'') \<Rightarrow>
                    (case try_take_literal r'' of
                       None \<Rightarrow> (Unparseable, r'')
                     | Some (high, r3) \<Rightarrow> (Between column low high negated, r3))))
      | TokKeyword KwIs # r \<Rightarrow>
          if negated then (Unparseable, ts)
          else (case eat_keyword KwNot r of
                  (neg, r') \<Rightarrow>
                    (case eat_keyword KwNull r' of
                       (False, _) \<Rightarrow> (Unparseable, r')
                     | (True, r'') \<Rightarrow> (IsNull column neg, r'')))
      | _ \<Rightarrow> (Unparseable, ts))"

text \<open>\<open>inner\<close> is \<open>parse_or\<close> one group deeper, \<open>None\<close> at the depth limit.\<close>

definition parse_atom :: "parser option \<Rightarrow> parser" where
  "parse_atom inner ts =
     (case ts of
        TokLParen # r \<Rightarrow>
          (case inner of
             None \<Rightarrow> (Unparseable, r)
           | Some p \<Rightarrow>
               (let (e, r') = p r
                in if e = Unparseable then (Unparseable, r')
                   else case r' of TokRParen # r'' \<Rightarrow> (e, r'') | _ \<Rightarrow> (Unparseable, r')))
      | TokIdent column # r \<Rightarrow> parse_predicate column r
      | _ \<Rightarrow> (Unparseable, ts))"

definition parse_not :: "parser \<Rightarrow> parser" where
  "parse_not atom ts =
     (let (negated, r) = eat_keyword KwNot ts
      in if negated
         then let (e, r') = atom r in if e = Unparseable then (Unparseable, r') else (NotE e, r')
         else atom ts)"

text \<open>The \<open>while self.eat_keyword(..)\<close> loop of \<open>parse_or\<close> and \<open>parse_and\<close>; \<open>None\<close> for the early return.\<close>

fun parse_chain :: "nat \<Rightarrow> keyword \<Rightarrow> parser \<Rightarrow> check_expr list \<Rightarrow> token list \<Rightarrow> check_expr list option \<times> token list" where
  "parse_chain 0 kw sub parts ts = (None, ts)"
| "parse_chain (Suc fuel) kw sub parts ts =
     (let (more, r) = eat_keyword kw ts
      in if more
         then let (next, r') = sub r
              in if next = Unparseable then (None, r') else parse_chain fuel kw sub (parts @ [next]) r'
         else (Some parts, ts))"

definition parse_seq :: "keyword \<Rightarrow> (check_expr list \<Rightarrow> check_expr) \<Rightarrow> parser \<Rightarrow> parser" where
  "parse_seq kw node sub ts =
     (let (first, r) = sub ts
      in if first = Unparseable then (Unparseable, r)
         else let (parts, r') = parse_chain (Suc (length r)) kw sub [first] r
              in case parts of
                   None \<Rightarrow> (Unparseable, r')
                 | Some ps \<Rightarrow> (if length ps = 1 then hd ps else node ps, r'))"

definition parse_and :: "parser option \<Rightarrow> parser" where
  "parse_and inner = parse_seq KwAnd AndE (parse_not (parse_atom inner))"

primrec parse_or :: "nat \<Rightarrow> parser" where
  "parse_or 0 = parse_seq KwOr OrE (parse_and None)"
| "parse_or (Suc n) = parse_seq KwOr OrE (parse_and (Some (parse_or n)))"

definition parse :: "string \<Rightarrow> check_expr" where
  "parse expr =
     (let trimmed = trim expr
      in if trimmed = [] then Unparseable
         else case tokenize_spanned trimmed of
                None \<Rightarrow> Unparseable
              | Some tokens \<Rightarrow>
                  (case parse_or MAX_CHECK_EXPR_DEPTH (map st_token tokens) of
                     (parsed, []) \<Rightarrow> parsed
                   | (parsed, _ # _) \<Rightarrow> Unparseable))"

section \<open>The single-column view\<close>

datatype simple_column_check =
    SimpleOp op literal
  | SimpleIn "literal list"

definition extract_simple_column_check :: "check_expr \<Rightarrow> string \<Rightarrow> simple_column_check option" where
  "extract_simple_column_check expr column =
     (case expr of
        Compare c op value \<Rightarrow> if c = column then Some (SimpleOp op value) else None
      | InList c values negated \<Rightarrow> if c = column \<and> \<not> negated then Some (SimpleIn values) else None
      | _ \<Rightarrow> None)"

definition matches_for_column :: "string \<Rightarrow> string \<Rightarrow> bool" where
  "matches_for_column expr column = (extract_simple_column_check (parse expr) column \<noteq> None)"

section \<open>What the parser returns\<close>

text \<open>A tree without \<open>Unparseable\<close>, with at least two parts in each \<open>AND\<close> and \<open>OR\<close> and at least one
  value in each \<open>IN\<close>.\<close>

fun wf_check :: "check_expr \<Rightarrow> bool" where
  "wf_check (Compare c op l) = True"
| "wf_check (InList c vs n) = (vs \<noteq> [])"
| "wf_check (Between c l h n) = True"
| "wf_check (IsNull c n) = True"
| "wf_check (AndE es) = (2 \<le> length es \<and> (\<forall>e \<in> set es. wf_check e))"
| "wf_check (OrE es) = (2 \<le> length es \<and> (\<forall>e \<in> set es. wf_check e))"
| "wf_check (NotE e) = wf_check e"
| "wf_check Unparseable = False"

text \<open>The recursion depth of a walk over the tree.\<close>

fun check_height :: "check_expr \<Rightarrow> nat" where
  "check_height (AndE es) = Suc (fold max (map check_height es) 0)"
| "check_height (OrE es) = Suc (fold max (map check_height es) 0)"
| "check_height (NotE e) = Suc (check_height e)"
| "check_height _ = 1"

lemma fold_max_le: "fold max (xs :: nat list) a \<le> k \<longleftrightarrow> a \<le> k \<and> (\<forall>x \<in> set xs. x \<le> k)"
  by (induction xs arbitrary: a) auto

text \<open>A parser that consumes tokens from the front, and returns a well-formed tree of height at most
  \<open>k\<close> or \<open>Unparseable\<close>.\<close>

definition parses :: "nat \<Rightarrow> parser \<Rightarrow> bool" where
  "parses k p \<longleftrightarrow> (\<forall>ts e r. p ts = (e, r) \<longrightarrow>
     length r \<le> length ts \<and> (e = Unparseable \<or> wf_check e \<and> check_height e \<le> k))"

lemma parsesI: "(\<And>ts e r. p ts = (e, r) \<Longrightarrow> length r \<le> length ts \<and> (e = Unparseable \<or> wf_check e \<and> check_height e \<le> k)) \<Longrightarrow> parses k p"
  by (auto simp: parses_def)

lemma parsesD:
  assumes "parses k p" and "p ts = (e, r)"
  shows "length r \<le> length ts" "e = Unparseable \<or> wf_check e \<and> check_height e \<le> k"
  using assms by (auto simp: parses_def)

lemma eat_keyword_shorter: "eat_keyword kw ts = (b, r) \<Longrightarrow> length r \<le> length ts \<and> (b \<longrightarrow> length r < length ts)"
  by (induction kw ts rule: eat_keyword.induct) (auto split: if_splits)

lemma take_values_ok:
  "take_values vs ts = (x, r) \<Longrightarrow> length r \<le> length ts \<and> (\<forall>ws. x = Some ws \<longrightarrow> ws \<noteq> [])"
  by (induction vs ts arbitrary: x r rule: take_values.induct)
    (fastforce split: option.splits list.splits token.splits)+

lemma try_take_literal_shorter: "try_take_literal ts = Some (l, r) \<Longrightarrow> length r < length ts"
  by (cases ts) auto

lemma parses_predicate: "parses 1 (parse_predicate c)"
proof (rule parsesI)
  fix ts e r
  assume "parse_predicate c ts = (e, r)"
  then show "length r \<le> length ts \<and> (e = Unparseable \<or> wf_check e \<and> check_height e \<le> 1)"
    unfolding parse_predicate_def Let_def
    by (auto split: prod.splits token.splits keyword.splits list.splits option.splits if_splits bool.splits
        dest!: eat_keyword_shorter take_values_ok try_take_literal_shorter)
qed

lemma parses_atom:
  assumes "\<forall>p. inner = Some p \<longrightarrow> parses k p" and "1 \<le> k"
  shows "parses k (parse_atom inner)"
proof (rule parsesI)
  fix ts e r
  assume a: "parse_atom inner ts = (e, r)"
  show "length r \<le> length ts \<and> (e = Unparseable \<or> wf_check e \<and> check_height e \<le> k)"
  proof (cases ts)
    case Nil
    with a show ?thesis by (simp add: parse_atom_def)
  next
    case (Cons t ts')
    show ?thesis
    proof (cases t)
      case (TokIdent c)
      with Cons a have "parse_predicate c ts' = (e, r)" by (simp add: parse_atom_def)
      from parsesD [OF parses_predicate this] Cons assms(2) show ?thesis by auto
    next
      case TokLParen
      show ?thesis
      proof (cases inner)
        case None
        with a Cons TokLParen show ?thesis by (simp add: parse_atom_def)
      next
        case (Some p)
        obtain e' r' where p: "p ts' = (e', r')" by fastforce
        have "length r' \<le> length ts'" "e' = Unparseable \<or> wf_check e' \<and> check_height e' \<le> k"
          using parsesD [of k p, OF _ p] assms(1) Some by auto
        with a Cons TokLParen Some p show ?thesis
          by (auto simp: parse_atom_def split: list.splits token.splits if_splits)
      qed
    qed (use a Cons in \<open>simp_all add: parse_atom_def\<close>)
  qed
qed

lemma parses_not:
  assumes "parses k p"
  shows "parses (Suc k) (parse_not p)"
proof (rule parsesI)
  fix ts e r
  assume a: "parse_not p ts = (e, r)"
  obtain b r0 where b: "eat_keyword KwNot ts = (b, r0)" by fastforce
  obtain e1 r1 where p: "p (if b then r0 else ts) = (e1, r1)" by fastforce
  from a b p have "r = r1" "e = (if b then if e1 = Unparseable then Unparseable else NotE e1 else e1)"
    by (auto simp: parse_not_def split: if_splits)
  with parsesD [OF assms p] eat_keyword_shorter [OF b]
  show "length r \<le> length ts \<and> (e = Unparseable \<or> wf_check e \<and> check_height e \<le> Suc k)"
    by (auto split: if_splits)
qed

lemma parse_chain_ok:
  assumes "parses k sub" and "parse_chain fuel kw sub parts ts = (x, r)"
    and "\<forall>e \<in> set parts. wf_check e \<and> check_height e \<le> k"
  shows "length r \<le> length ts \<and> (\<forall>es. x = Some es \<longrightarrow>
    length parts \<le> length es \<and> (\<forall>e \<in> set es. wf_check e \<and> check_height e \<le> k))"
  using assms(2,3)
proof (induction fuel arbitrary: parts ts)
  case 0
  then show ?case by simp
next
  case (Suc fuel)
  obtain b r0 where b: "eat_keyword kw ts = (b, r0)" by fastforce
  obtain e r1 where e: "sub r0 = (e, r1)" by fastforce
  note l = eat_keyword_shorter [OF b] parsesD [OF assms(1) e]
  show ?case
  proof (cases "b \<and> e \<noteq> Unparseable")
    case True
    then have "parse_chain fuel kw sub (parts @ [e]) r1 = (x, r)"
      using Suc.prems(1) b e by simp
    moreover have "\<forall>f \<in> set (parts @ [e]). wf_check f \<and> check_height f \<le> k"
      using Suc.prems(2) True l(3) by (metis Un_iff empty_iff empty_set set_ConsD set_append)
    ultimately have "length r \<le> length r1 \<and> (\<forall>es. x = Some es \<longrightarrow>
        length (parts @ [e]) \<le> length es \<and> (\<forall>e \<in> set es. wf_check e \<and> check_height e \<le> k))"
      by (rule Suc.IH)
    moreover have "length r1 \<le> length ts" using l(1,2) by linarith
    moreover have "length parts \<le> length (parts @ [e])" by simp
    ultimately show ?thesis by (metis order_trans)
  next
    case False
    then have "(x, r) = (Some parts, ts) \<or> (x, r) = (None, r1) \<and> b"
      using Suc.prems(1) b e by (cases b) auto
    then show ?thesis using Suc.prems(2) l by auto
  qed
qed

text \<open>The fuel of the loop never runs out.\<close>

lemma parse_chain_fuel:
  assumes "parses k sub" and "length ts < fuel" and "length ts < fuel'"
  shows "parse_chain fuel kw sub parts ts = parse_chain fuel' kw sub parts ts"
  using assms(2,3)
proof (induction fuel arbitrary: fuel' parts ts)
  case 0
  then show ?case by simp
next
  case (Suc fuel)
  then obtain g where g: "fuel' = Suc g" by (cases fuel') auto
  obtain b r0 where b: "eat_keyword kw ts = (b, r0)" by fastforce
  obtain e r1 where e: "sub r0 = (e, r1)" by fastforce
  have "parse_chain fuel kw sub (parts @ [e]) r1 = parse_chain g kw sub (parts @ [e]) r1" if b
    using that Suc.prems g eat_keyword_shorter [OF b] parsesD(1) [OF assms(1) e] by (intro Suc.IH) auto
  then show ?case using b e by (simp add: g)
qed

lemma parses_seq:
  assumes "parses k sub" and "node = AndE \<or> node = OrE"
  shows "parses (Suc k) (parse_seq kw node sub)"
proof (rule parsesI)
  fix ts e r
  assume a: "parse_seq kw node sub ts = (e, r)"
  obtain e1 r1 where p: "sub ts = (e1, r1)" by fastforce
  obtain x r2 where c: "parse_chain (Suc (length r1)) kw sub [e1] r1 = (x, r2)" by fastforce
  note sub = parsesD [OF assms(1) p]
  show "length r \<le> length ts \<and> (e = Unparseable \<or> wf_check e \<and> check_height e \<le> Suc k)"
  proof (cases "e1 = Unparseable")
    case True
    with a p sub show ?thesis by (simp add: parse_seq_def)
  next
    case False
    then have eq: "parse_seq kw node sub ts =
        (case x of None \<Rightarrow> (Unparseable, r2) | Some ps \<Rightarrow> (if length ps = 1 then hd ps else node ps, r2))"
      using p c by (simp add: parse_seq_def)
    have "length r2 \<le> length r1 \<and> (\<forall>es. x = Some es \<longrightarrow>
        1 \<le> length es \<and> (\<forall>e \<in> set es. wf_check e \<and> check_height e \<le> k))"
    proof -
      have "\<forall>e \<in> set [e1]. wf_check e \<and> check_height e \<le> k" using False sub(2) by (metis list.set_cases set_ConsD empty_iff empty_set)
      from parse_chain_ok [OF assms(1) c this] show ?thesis by (metis One_nat_def length_Cons list.size(3))
    qed
    then have x: "\<And>es. x = Some es \<Longrightarrow> 1 \<le> length es \<and> (\<forall>e \<in> set es. wf_check e \<and> check_height e \<le> k)"
      and r2: "length r2 \<le> length ts" using sub(1) by auto
    have e: "e = Unparseable \<or> (\<exists>es. x = Some es \<and> (length es = 1 \<and> e = hd es \<or> length es \<noteq> 1 \<and> e = node es))"
      and r: "r = r2"
      using a unfolding eq by (auto split: option.splits if_splits)
    from e consider "e = Unparseable" | es where "x = Some es" "length es = 1" "e = hd es"
      | es where "x = Some es" "2 \<le> length es" "e = node es"
      using x by fastforce
    then have "e = Unparseable \<or> wf_check e \<and> check_height e \<le> Suc k"
    proof cases
      case 2
      then have "e \<in> set es" by (cases es) auto
      with x [OF 2(1)] show ?thesis by (meson le_SucI)
    next
      case 3
      with x [OF 3(1)] assms(2) show ?thesis by (auto simp: fold_max_le)
    qed simp
    with r r2 show ?thesis by blast
  qed
qed

lemma parses_or: "parses (4 + 3 * n) (parse_or n)"
proof (induction n)
  case 0
  have "parses 1 (parse_atom None)" by (rule parses_atom) auto
  then have "parses (Suc (Suc (Suc 1))) (parse_or 0)"
    unfolding parse_or.simps parse_and_def by (intro parses_seq parses_not) auto
  then show ?case by (simp add: numeral_eq_Suc)
next
  case (Suc n)
  have "parses (4 + 3 * n) (parse_atom (Some (parse_or n)))" using Suc by (intro parses_atom) auto
  then have "parses (Suc (Suc (Suc (4 + 3 * n)))) (parse_or (Suc n))"
    unfolding parse_or.simps parse_and_def by (intro parses_seq parses_not) auto
  then show ?case by (simp add: numeral_eq_Suc)
qed

lemma parse_wf: "parse s = Unparseable \<or> wf_check (parse s) \<and> check_height (parse s) \<le> 196"
proof -
  have p: "parses 196 (parse_or MAX_CHECK_EXPR_DEPTH)"
    using parses_or [of 64] by (simp add: MAX_CHECK_EXPR_DEPTH_def)
  show ?thesis
    unfolding parse_def Let_def
    by (auto split: option.splits prod.splits list.splits dest!: parsesD(2) [OF p])
qed

end
