(* ===== verification/Sql_Schema.thy ===== *)
theory Sql_Schema
  imports Float64
begin

text \<open>
  The data model of \<open>vespertide-core\<close>: column types, defaults, inline constraints, table
  constraints and tables (\<open>crates/vespertide-core/src/schema\<close>), with the operations their
  \<open>impl\<close> blocks have.  A struct is a record whose field names carry a short prefix of the
  struct; the newtypes \<open>TableName\<close>, \<open>ColumnName\<close> and \<open>IndexName\<close> are strings.  Lengths,
  precisions and scales (\<open>u32\<close>) are natural numbers: the code only compares and prints them;
  the values of integer enums and integer defaults (\<open>i64\<close>) are integers.
\<close>

section \<open>Names\<close>

type_synonym table_name = string
type_synonym column_name = string

definition table_name_with_prefix :: "string \<Rightarrow> table_name \<Rightarrow> table_name" where
  "table_name_with_prefix prefix s = (if prefix = [] then s else prefix @ s)"

definition join_column_names :: "column_name list \<Rightarrow> string \<Rightarrow> string" where
  "join_column_names columns separator = join separator columns"

section \<open>SQL string literals\<close>

definition escape_sql_string_literal :: "string \<Rightarrow> string" where
  "escape_sql_string_literal s =
     (if CHR 0x27 \<in> set s
      then concat (map (\<lambda>c. if c = CHR 0x27 then [CHR 0x27, CHR 0x27] else [c]) s)
      else s)"

section \<open>Column types\<close>

datatype simple_column_type =
    SmallInt | Integer | BigInt | Real | DoublePrecision | Text | Boolean | Date | Time
  | Timestamp | Timestamptz | Interval | Bytea | Uuid | Json | Inet | Cidr | Macaddr | Xml

record num_value =
  nv_name :: string
  nv_value :: int

datatype enum_values =
    EnumString "string list"
  | EnumInteger "num_value list"

datatype complex_column_type =
    Varchar nat
  | Numeric nat nat
  | CharN nat
  | Custom string
  | Enum string enum_values

datatype column_type =
    Simple simple_column_type
  | Complex complex_column_type

subsection \<open>Simple types\<close>

fun simple_sql_type :: "simple_column_type \<Rightarrow> string" where
  "simple_sql_type SmallInt = ''SMALLINT''"
| "simple_sql_type Integer = ''INTEGER''"
| "simple_sql_type BigInt = ''BIGINT''"
| "simple_sql_type Real = ''REAL''"
| "simple_sql_type DoublePrecision = ''DOUBLE PRECISION''"
| "simple_sql_type Text = ''TEXT''"
| "simple_sql_type Boolean = ''BOOLEAN''"
| "simple_sql_type Date = ''DATE''"
| "simple_sql_type Time = ''TIME''"
| "simple_sql_type Timestamp = ''TIMESTAMP''"
| "simple_sql_type Timestamptz = ''TIMESTAMPTZ''"
| "simple_sql_type Interval = ''INTERVAL''"
| "simple_sql_type Bytea = ''BYTEA''"
| "simple_sql_type Uuid = ''UUID''"
| "simple_sql_type Json = ''JSON''"
| "simple_sql_type Inet = ''INET''"
| "simple_sql_type Cidr = ''CIDR''"
| "simple_sql_type Macaddr = ''MACADDR''"
| "simple_sql_type Xml = ''XML''"

fun simple_model_name :: "simple_column_type \<Rightarrow> string" where
  "simple_model_name SmallInt = ''small_int''"
| "simple_model_name Integer = ''integer''"
| "simple_model_name BigInt = ''big_int''"
| "simple_model_name Real = ''real''"
| "simple_model_name DoublePrecision = ''double_precision''"
| "simple_model_name Text = ''text''"
| "simple_model_name Boolean = ''boolean''"
| "simple_model_name Date = ''date''"
| "simple_model_name Time = ''time''"
| "simple_model_name Timestamp = ''timestamp''"
| "simple_model_name Timestamptz = ''timestamptz''"
| "simple_model_name Interval = ''interval''"
| "simple_model_name Bytea = ''bytea''"
| "simple_model_name Uuid = ''uuid''"
| "simple_model_name Json = ''json''"
| "simple_model_name Inet = ''inet''"
| "simple_model_name Cidr = ''cidr''"
| "simple_model_name Macaddr = ''macaddr''"
| "simple_model_name Xml = ''xml''"

fun simple_display_str :: "simple_column_type \<Rightarrow> string" where
  "simple_display_str SmallInt = ''smallint''"
| "simple_display_str Integer = ''integer''"
| "simple_display_str BigInt = ''bigint''"
| "simple_display_str Real = ''real''"
| "simple_display_str DoublePrecision = ''double precision''"
| "simple_display_str Text = ''text''"
| "simple_display_str Boolean = ''boolean''"
| "simple_display_str Date = ''date''"
| "simple_display_str Time = ''time''"
| "simple_display_str Timestamp = ''timestamp''"
| "simple_display_str Timestamptz = ''timestamptz''"
| "simple_display_str Interval = ''interval''"
| "simple_display_str Bytea = ''bytea''"
| "simple_display_str Uuid = ''uuid''"
| "simple_display_str Json = ''json''"
| "simple_display_str Inet = ''inet''"
| "simple_display_str Cidr = ''cidr''"
| "simple_display_str Macaddr = ''macaddr''"
| "simple_display_str Xml = ''xml''"

definition simple_supports_auto_increment :: "simple_column_type \<Rightarrow> bool" where
  "simple_supports_auto_increment ty \<longleftrightarrow> ty = SmallInt \<or> ty = Integer \<or> ty = BigInt"

fun simple_default_fill_value :: "simple_column_type \<Rightarrow> string" where
  "simple_default_fill_value SmallInt = ''0''"
| "simple_default_fill_value Integer = ''0''"
| "simple_default_fill_value BigInt = ''0''"
| "simple_default_fill_value Real = ''0.0''"
| "simple_default_fill_value DoublePrecision = ''0.0''"
| "simple_default_fill_value Boolean = ''false''"
| "simple_default_fill_value Text = [CHR 0x27, CHR 0x27]"
| "simple_default_fill_value Bytea = [CHR 0x27, CHR 0x27]"
| "simple_default_fill_value Date = [CHR 0x27] @ ''1970-01-01'' @ [CHR 0x27]"
| "simple_default_fill_value Time = [CHR 0x27] @ ''00:00:00'' @ [CHR 0x27]"
| "simple_default_fill_value Timestamp = ''CURRENT_TIMESTAMP''"
| "simple_default_fill_value Timestamptz = ''CURRENT_TIMESTAMP''"
| "simple_default_fill_value Interval = [CHR 0x27] @ ''0'' @ [CHR 0x27]"
| "simple_default_fill_value Uuid =
     [CHR 0x27] @ ''00000000-0000-0000-0000-000000000000'' @ [CHR 0x27]"
| "simple_default_fill_value Json = [CHR 0x27] @ ''{}'' @ [CHR 0x27]"
| "simple_default_fill_value Inet = [CHR 0x27] @ ''0.0.0.0'' @ [CHR 0x27]"
| "simple_default_fill_value Cidr = [CHR 0x27] @ ''0.0.0.0'' @ [CHR 0x27]"
| "simple_default_fill_value Macaddr = [CHR 0x27] @ ''00:00:00:00:00:00'' @ [CHR 0x27]"
| "simple_default_fill_value Xml = [CHR 0x27] @ ''<xml/>'' @ [CHR 0x27]"

subsection \<open>Enum values\<close>

fun enum_is_string :: "enum_values \<Rightarrow> bool" where
  "enum_is_string (EnumString _) = True"
| "enum_is_string (EnumInteger _) = False"

fun enum_is_integer :: "enum_values \<Rightarrow> bool" where
  "enum_is_integer (EnumString _) = False"
| "enum_is_integer (EnumInteger _) = True"

fun enum_names :: "enum_values \<Rightarrow> string list" where
  "enum_names (EnumString vs) = vs"
| "enum_names (EnumInteger vs) = map nv_name vs"

definition variant_names_joined :: "enum_values \<Rightarrow> string \<Rightarrow> string" where
  "variant_names_joined vs separator = join separator (enum_names vs)"

fun enum_len :: "enum_values \<Rightarrow> nat" where
  "enum_len (EnumString vs) = length vs"
| "enum_len (EnumInteger vs) = length vs"

fun enum_is_empty :: "enum_values \<Rightarrow> bool" where
  "enum_is_empty (EnumString vs) = (vs = [])"
| "enum_is_empty (EnumInteger vs) = (vs = [])"

fun contains_value :: "enum_values \<Rightarrow> string \<Rightarrow> bool" where
  "contains_value (EnumString variants) v = list_ex (\<lambda>x. x = v) variants"
| "contains_value (EnumInteger variants) v =
     (case parse_i64 v of
        None \<Rightarrow> list_ex (\<lambda>x. nv_name x = v) variants
      | Some n \<Rightarrow> list_ex (\<lambda>x. nv_value x = n) variants)"

fun sql_values_joined :: "enum_values \<Rightarrow> string \<Rightarrow> string" where
  "sql_values_joined (EnumString vs) separator =
     join separator (map (\<lambda>s. [CHR 0x27] @ escape_sql_string_literal s @ [CHR 0x27]) vs)"
| "sql_values_joined (EnumInteger vs) separator =
     join separator (map (\<lambda>v. int_to_string (nv_value v)) vs)"

subsection \<open>Parameterised types\<close>

fun complex_sql_type :: "complex_column_type \<Rightarrow> string" where
  "complex_sql_type (Varchar _) = ''VARCHAR''"
| "complex_sql_type (Numeric _ _) = ''NUMERIC''"
| "complex_sql_type (CharN _) = ''CHAR''"
| "complex_sql_type (Custom _) = ''CUSTOM''"
| "complex_sql_type (Enum _ _) = ''ENUM''"

fun complex_to_display_string :: "complex_column_type \<Rightarrow> string" where
  "complex_to_display_string (Varchar n) = ''varchar('' @ nat_to_string n @ '')''"
| "complex_to_display_string (Numeric p s) =
     ''numeric('' @ nat_to_string p @ '','' @ nat_to_string s @ '')''"
| "complex_to_display_string (CharN n) = ''char('' @ nat_to_string n @ '')''"
| "complex_to_display_string (Custom t) = to_lowercase t"
| "complex_to_display_string (Enum n vs) =
     (if enum_is_integer vs then ''enum<'' @ n @ ''> (integer)'' else ''enum<'' @ n @ ''>'')"

fun complex_display_label :: "complex_column_type \<Rightarrow> string" where
  "complex_display_label (Varchar n) = ''varchar('' @ nat_to_string n @ '')''"
| "complex_display_label (CharN n) = ''char('' @ nat_to_string n @ '')''"
| "complex_display_label (Numeric p s) =
     ''numeric('' @ nat_to_string p @ '', '' @ nat_to_string s @ '')''"
| "complex_display_label (Custom t) = ''custom('' @ t @ '')''"
| "complex_display_label (Enum n _) = ''enum('' @ n @ '')''"

fun complex_default_fill_value :: "complex_column_type \<Rightarrow> string" where
  "complex_default_fill_value (Numeric _ _) = ''0''"
| "complex_default_fill_value _ = [CHR 0x27, CHR 0x27]"

subsection \<open>All column types\<close>

fun supports_auto_increment :: "column_type \<Rightarrow> bool" where
  "supports_auto_increment (Simple ty) = simple_supports_auto_increment ty"
| "supports_auto_increment (Complex _) = False"

fun requires_migration :: "column_type \<Rightarrow> column_type \<Rightarrow> bool" where
  "requires_migration (Complex (Enum _ values1)) (Complex (Enum _ values2)) =
     (if enum_is_integer values1 \<and> enum_is_integer values2 then False else values1 \<noteq> values2)"
| "requires_migration a b = (a \<noteq> b)"

fun simple_rust_type :: "simple_column_type \<Rightarrow> string" where
  "simple_rust_type SmallInt = ''i16''"
| "simple_rust_type Integer = ''i32''"
| "simple_rust_type BigInt = ''i64''"
| "simple_rust_type Real = ''f32''"
| "simple_rust_type DoublePrecision = ''f64''"
| "simple_rust_type Text = ''String''"
| "simple_rust_type Interval = ''String''"
| "simple_rust_type Inet = ''String''"
| "simple_rust_type Cidr = ''String''"
| "simple_rust_type Macaddr = ''String''"
| "simple_rust_type Xml = ''String''"
| "simple_rust_type Boolean = ''bool''"
| "simple_rust_type Date = ''Date''"
| "simple_rust_type Time = ''Time''"
| "simple_rust_type Timestamp = ''DateTime''"
| "simple_rust_type Timestamptz = ''DateTimeWithTimeZone''"
| "simple_rust_type Bytea = ''Vec<u8>''"
| "simple_rust_type Uuid = ''Uuid''"
| "simple_rust_type Json = ''Json''"

definition to_rust_type :: "column_type \<Rightarrow> bool \<Rightarrow> string" where
  "to_rust_type t nullable =
     (let base = (case t of
            Simple ty \<Rightarrow> simple_rust_type ty
          | Complex (Numeric _ _) \<Rightarrow> ''Decimal''
          | Complex _ \<Rightarrow> ''String'')
      in if nullable then ''Option<'' @ base @ ''>'' else base)"

fun to_display_string :: "column_type \<Rightarrow> string" where
  "to_display_string (Simple ty) = simple_display_str ty"
| "to_display_string (Complex ty) = complex_to_display_string ty"

fun display_label :: "column_type \<Rightarrow> string" where
  "display_label (Simple ty) = simple_model_name ty"
| "display_label (Complex ty) = complex_display_label ty"

fun default_fill_value :: "column_type \<Rightarrow> string" where
  "default_fill_value (Simple ty) = simple_default_fill_value ty"
| "default_fill_value (Complex ty) = complex_default_fill_value ty"

fun enum_variant_names :: "column_type \<Rightarrow> string list option" where
  "enum_variant_names (Complex (Enum _ vs)) = Some (enum_names vs)"
| "enum_variant_names _ = None"

section \<open>Defaults and inline constraint syntax\<close>

datatype default_value =
    DefBool bool
  | DefInteger int
  | DefFloat f64
  | DefString string

fun to_sql :: "default_value \<Rightarrow> string" where
  "to_sql (DefBool b) = bool_to_string b"
| "to_sql (DefInteger n) = int_to_string n"
| "to_sql (DefFloat f) = f64_to_string f"
| "to_sql (DefString s) = (if s = [] then [CHR 0x27, CHR 0x27] else s)"

text \<open>The derived \<open>PartialEq\<close>: floats compare with \<open>==\<close>, so \<open>NaN\<close> differs from itself.\<close>

fun default_eq :: "default_value \<Rightarrow> default_value \<Rightarrow> bool" where
  "default_eq (DefBool a) (DefBool b) = (a = b)"
| "default_eq (DefInteger a) (DefInteger b) = (a = b)"
| "default_eq (DefFloat a) (DefFloat b) = f64_eq a b"
| "default_eq (DefString a) (DefString b) = (a = b)"
| "default_eq _ _ = False"

fun default_option_eq :: "default_value option \<Rightarrow> default_value option \<Rightarrow> bool" where
  "default_option_eq None None = True"
| "default_option_eq (Some a) (Some b) = default_eq a b"
| "default_option_eq _ _ = False"

datatype str_or_bool_or_array =
    Str string
  | StrArray "string list"
  | StrBool bool

fun str_or_bool_as_str :: "str_or_bool_or_array \<Rightarrow> string option" where
  "str_or_bool_as_str (Str s) = Some s"
| "str_or_bool_as_str (StrArray _) = None"
| "str_or_bool_as_str (StrBool _) = None"

datatype reference_action = Cascade | Restrict | SetNull | SetDefault | NoAction

fun to_sql_keyword :: "reference_action \<Rightarrow> string" where
  "to_sql_keyword Cascade = ''CASCADE''"
| "to_sql_keyword Restrict = ''RESTRICT''"
| "to_sql_keyword SetNull = ''SET NULL''"
| "to_sql_keyword SetDefault = ''SET DEFAULT''"
| "to_sql_keyword NoAction = ''NO ACTION''"

datatype foreign_key_orphan_strategy = NullifyOrphans | DeleteOrphans

definition default_fk_orphan_strategy :: foreign_key_orphan_strategy where
  "default_fk_orphan_strategy = NullifyOrphans"

record primary_key_def =
  pk_auto_increment :: bool

datatype primary_key_syntax =
    PkBool bool
  | PkObject primary_key_def

record foreign_key_def =
  fkd_ref_table :: table_name
  fkd_ref_columns :: "column_name list"
  fkd_on_delete :: "reference_action option"
  fkd_on_update :: "reference_action option"
  fkd_orphan_strategy :: foreign_key_orphan_strategy

record reference_syntax_def =
  rs_references :: string
  rs_on_delete :: "reference_action option"
  rs_on_update :: "reference_action option"

datatype foreign_key_syntax =
    FkString string
  | FkReference reference_syntax_def
  | FkObject foreign_key_def

section \<open>Columns\<close>

record column_def =
  col_name :: column_name
  col_type :: column_type
  col_nullable :: bool
  col_default :: "default_value option"
  col_comment :: "string option"
  col_primary_key :: "primary_key_syntax option"
  col_unique :: "str_or_bool_or_array option"
  col_index :: "str_or_bool_or_array option"
  col_foreign_key :: "foreign_key_syntax option"

definition column_def_new :: "column_name \<Rightarrow> column_type \<Rightarrow> bool \<Rightarrow> column_def" where
  "column_def_new n t nullable =
     \<lparr>col_name = n, col_type = t, col_nullable = nullable, col_default = None,
      col_comment = None, col_primary_key = None, col_unique = None, col_index = None,
      col_foreign_key = None\<rparr>"

section \<open>Table constraints and tables\<close>

datatype keep_policy = KeepFirst | KeepLast

datatype unique_constraint_strategy = UniqueDeleteDuplicates keep_policy

datatype primary_key_addition_strategy = PkDeleteDuplicates keep_policy

datatype check_violation_strategy =
    NullifyViolatingColumn column_name
  | DeleteViolatingRows

definition default_unique_strategy :: unique_constraint_strategy where
  "default_unique_strategy = UniqueDeleteDuplicates KeepFirst"

definition default_pk_addition_strategy :: primary_key_addition_strategy where
  "default_pk_addition_strategy = PkDeleteDuplicates KeepFirst"

definition default_check_violation_strategy :: check_violation_strategy where
  "default_check_violation_strategy = DeleteViolatingRows"

text \<open>
  \<open>PrimaryKey auto_increment columns strategy\<close>, \<open>Unique name columns strategy\<close>,
  \<open>ForeignKey name columns ref_table ref_columns on_delete on_update orphan_strategy\<close>,
  \<open>Check name expr strategy\<close>, \<open>Index name columns\<close>.
\<close>

datatype table_constraint =
    PrimaryKey bool "column_name list" primary_key_addition_strategy
  | Unique "string option" "column_name list" unique_constraint_strategy
  | ForeignKey "string option" "column_name list" table_name "column_name list"
      "reference_action option" "reference_action option" foreign_key_orphan_strategy
  | Check string string check_violation_strategy
  | Index "string option" "column_name list"

datatype constraint_kind = KindPrimaryKey | KindForeignKey | KindUnique | KindCheck | KindIndex

fun constraint_kind_of :: "table_constraint \<Rightarrow> constraint_kind" where
  "constraint_kind_of (PrimaryKey _ _ _) = KindPrimaryKey"
| "constraint_kind_of (ForeignKey _ _ _ _ _ _ _) = KindForeignKey"
| "constraint_kind_of (Unique _ _ _) = KindUnique"
| "constraint_kind_of (Check _ _ _) = KindCheck"
| "constraint_kind_of (Index _ _) = KindIndex"

fun constraint_columns :: "table_constraint \<Rightarrow> column_name list" where
  "constraint_columns (PrimaryKey _ columns _) = columns"
| "constraint_columns (Unique _ columns _) = columns"
| "constraint_columns (ForeignKey _ columns _ _ _ _ _) = columns"
| "constraint_columns (Index _ columns) = columns"
| "constraint_columns (Check _ _ _) = []"

fun constraint_with_prefix :: "string \<Rightarrow> table_constraint \<Rightarrow> table_constraint" where
  "constraint_with_prefix prefix (ForeignKey name columns ref_table ref_columns od ou os) =
     (if prefix = [] then ForeignKey name columns ref_table ref_columns od ou os
      else ForeignKey name columns (table_name_with_prefix prefix ref_table) ref_columns od ou os)"
| "constraint_with_prefix prefix c = c"

record table_def =
  tbl_name :: table_name
  tbl_description :: "string option"
  tbl_columns :: "column_def list"
  tbl_constraints :: "table_constraint list"

subsection \<open>Validation errors of a table\<close>

datatype table_validation_error =
    DuplicateColumnName table_name column_name
  | DuplicateIndexColumn string string
  | InvalidForeignKeyFormat string string
  | InvariantViolation string

fun display_table_validation_error :: "table_validation_error \<Rightarrow> string" where
  "display_table_validation_error (DuplicateColumnName table column) =
     ''table '' @ [CHR 0x27] @ table @ [CHR 0x27] @ '' has duplicate column name '' @
     [CHR 0x27] @ column @ [CHR 0x27]"
| "display_table_validation_error (DuplicateIndexColumn index_name column_name) =
     ''Duplicate index '' @ [CHR 0x27] @ index_name @ [CHR 0x27] @ '' on column '' @
     [CHR 0x27] @ column_name @ [CHR 0x27] @
     '': the same index name cannot be applied to the same column multiple times''"
| "display_table_validation_error (InvalidForeignKeyFormat column_name v) =
     ''Invalid foreign key format '' @ [CHR 0x27] @ v @ [CHR 0x27] @ '' on column '' @
     [CHR 0x27] @ column_name @ [CHR 0x27] @ '': expected '' @ [CHR 0x27] @ ''table.column'' @
     [CHR 0x27] @ '' format''"
| "display_table_validation_error (InvariantViolation context) =
     ''internal table normalization invariant violated: '' @ context"

definition validate_unique_column_names :: "table_def \<Rightarrow> table_validation_error + unit" where
  "validate_unique_column_names t =
     (case first_dup [] (map col_name (tbl_columns t)) of
        None \<Rightarrow> Inr ()
      | Some c \<Rightarrow> Inl (DuplicateColumnName (tbl_name t) c))"

section \<open>Properties of the data model\<close>

lemma requires_migration_refl [simp]: "\<not> requires_migration t t"
  by (cases "(t, t)" rule: requires_migration.cases) auto

lemma requires_migration_sym: "requires_migration a b = requires_migration b a"
  by (induction a b rule: requires_migration.induct) auto

lemma requires_migration_trans:
  "\<not> requires_migration a b \<Longrightarrow> \<not> requires_migration b c \<Longrightarrow> \<not> requires_migration a c"
proof (induction a b rule: requires_migration.induct)
  case (1 n1 v1 n2 v2)
  show ?case
  proof (cases "\<exists>n3 v3. c = Complex (Enum n3 v3)")
    case True
    with 1 show ?thesis
      by (auto split: if_splits)
  next
    case False
    then have "requires_migration (Complex (Enum n2 v2)) c"
    proof (cases c)
      case (Complex x)
      with False show ?thesis by (cases x) auto
    qed simp
    with 1 show ?thesis by simp
  qed
qed auto

lemma validate_unique_column_names_ok [simp]:
  "validate_unique_column_names t = Inr u \<longleftrightarrow> distinct (map col_name (tbl_columns t))"
  using first_dup_None [of "[]" "map col_name (tbl_columns t)"]
  by (cases "first_dup [] (map col_name (tbl_columns t))")
    (simp_all add: validate_unique_column_names_def)

subsection \<open>Reading a literal back\<close>

text \<open>
  How an SQL reader takes a quoted literal apart once past the opening quote: a doubled quote
  stands for one quote, a single one closes the literal.
\<close>

fun read_literal :: "string \<Rightarrow> (string \<times> string) option" where
  "read_literal [] = None"
| "read_literal [c] = (if c = CHR 0x27 then Some ([], []) else None)"
| "read_literal (c # d # s) =
     (if c = CHR 0x27
      then (if d = CHR 0x27 then map_option (\<lambda>(b, r). (c # b, r)) (read_literal s) else Some ([], d # s))
      else map_option (\<lambda>(b, r). (c # b, r)) (read_literal (d # s)))"

definition quote_doubled :: "string \<Rightarrow> string" where
  "quote_doubled s = concat (map (\<lambda>c. if c = CHR 0x27 then [CHR 0x27, CHR 0x27] else [c]) s)"

lemma escape_is_quote_doubled: "escape_sql_string_literal s = quote_doubled s"
proof -
  have "CHR 0x27 \<notin> set s \<Longrightarrow> quote_doubled s = s"
    unfolding quote_doubled_def by (induction s) auto
  then show ?thesis
    by (simp add: escape_sql_string_literal_def quote_doubled_def)
qed

lemma read_literal_plain:
  "c \<noteq> CHR 0x27 \<Longrightarrow> s \<noteq> [] \<Longrightarrow> read_literal (c # s) = map_option (\<lambda>(b, r). (c # b, r)) (read_literal s)"
  by (cases s) auto

lemma read_literal_quote_doubled:
  assumes "rest = [] \<or> hd rest \<noteq> CHR 0x27"
  shows "read_literal (quote_doubled s @ CHR 0x27 # rest) = Some (s, rest)"
proof (induction s)
  case Nil
  from assms show ?case by (cases rest) (auto simp: quote_doubled_def)
next
  case (Cons c s)
  have ne: "quote_doubled s @ CHR 0x27 # rest \<noteq> []" by simp
  show ?case
  proof (cases "c = CHR 0x27")
    case True
    with Cons show ?thesis by (simp add: quote_doubled_def)
  next
    case False
    then show ?thesis
      using Cons.IH read_literal_plain [OF False ne] by (simp add: quote_doubled_def)
  qed
qed

subsection \<open>Equal defaults print alike\<close>

definition default_plain :: "default_value option \<Rightarrow> bool" where
  "default_plain d \<longleftrightarrow> (case d of
     Some (DefFloat f) \<Rightarrow> f64_wf f \<and> (\<forall>s e. f \<noteq> Finite s 0 e)
   | _ \<Rightarrow> True)"

lemma default_option_eq_imp_eq:
  assumes "default_option_eq a b" and "default_plain a" and "default_plain b"
  shows "a = b"
proof (cases a)
  case None
  with assms(1) show ?thesis by (cases b) auto
next
  case (Some x)
  then obtain y where y: "b = Some y" and eq: "default_eq x y"
    using assms(1) by (cases b) auto
  with Some assms(2,3) show ?thesis
    by (induction x y rule: default_eq.induct) (auto simp: default_plain_def dest: f64_eq_imp_eq)
qed

end
