(* ===== verification/Check_Print.thy ===== *)
theory Check_Print
  imports Check_Expr Sql_Schema
begin

text \<open>
  A printer for CHECK expressions and the proof that the lexer and the parser read its output back.
  The printer puts every composite part in parentheses, so that the nesting of groups, which the
  parser limits, is the nesting of composite nodes.
\<close>

section \<open>Printing\<close>

fun is_leaf :: "check_expr \<Rightarrow> bool" where
  "is_leaf (AndE _) = False"
| "is_leaf (OrE _) = False"
| "is_leaf (NotE _) = False"
| "is_leaf Unparseable = False"
| "is_leaf _ = True"

fun literal_token :: "literal \<Rightarrow> token" where
  "literal_token (LitInteger i) = TokInteger i"
| "literal_token (LitFloat f) = TokFloat f"
| "literal_token (LitString s) = TokQuotedString s"
| "literal_token (LitBool b) = TokKeyword (if b then KwTrue else KwFalse)"
| "literal_token LitNull = TokKeyword KwNull"

text \<open>Lists of tokens with a separator in front of all but the first.\<close>

fun sep_tokens :: "token \<Rightarrow> token list list \<Rightarrow> token list" where
  "sep_tokens t [] = []"
| "sep_tokens t (xs # xss) = xs @ concat (map (\<lambda>ys. t # ys) xss)"

fun expr_tokens :: "check_expr \<Rightarrow> token list" where
  "expr_tokens (Compare c op l) = [TokIdent c, TokOp op, literal_token l]"
| "expr_tokens (InList c vs n) =
     [TokIdent c] @ (if n then [TokKeyword KwNot] else []) @ [TokKeyword KwIn, TokLParen] @
     sep_tokens TokComma (map (\<lambda>l. [literal_token l]) vs) @ [TokRParen]"
| "expr_tokens (Between c l h n) =
     [TokIdent c] @ (if n then [TokKeyword KwNot] else []) @
     [TokKeyword KwBetween, literal_token l, TokKeyword KwAnd, literal_token h]"
| "expr_tokens (IsNull c n) =
     [TokIdent c, TokKeyword KwIs] @ (if n then [TokKeyword KwNot] else []) @ [TokKeyword KwNull]"
| "expr_tokens (AndE es) =
     sep_tokens (TokKeyword KwAnd)
       (map (\<lambda>e. if is_leaf e then expr_tokens e else [TokLParen] @ expr_tokens e @ [TokRParen]) es)"
| "expr_tokens (OrE es) =
     sep_tokens (TokKeyword KwOr)
       (map (\<lambda>e. if is_leaf e then expr_tokens e else [TokLParen] @ expr_tokens e @ [TokRParen]) es)"
| "expr_tokens (NotE e) =
     TokKeyword KwNot # (if is_leaf e then expr_tokens e else [TokLParen] @ expr_tokens e @ [TokRParen])"
| "expr_tokens Unparseable = []"

definition group_tokens :: "check_expr \<Rightarrow> token list" where
  "group_tokens e = (if is_leaf e then expr_tokens e else [TokLParen] @ expr_tokens e @ [TokRParen])"

text \<open>How deep the groups of the printed expression nest.\<close>

fun nesting :: "check_expr \<Rightarrow> nat" where
  "nesting (AndE es) = fold max (map (\<lambda>e. if is_leaf e then 0 else Suc (nesting e)) es) 0"
| "nesting (OrE es) = fold max (map (\<lambda>e. if is_leaf e then 0 else Suc (nesting e)) es) 0"
| "nesting (NotE e) = (if is_leaf e then 0 else Suc (nesting e))"
| "nesting _ = 0"

definition group_nesting :: "check_expr \<Rightarrow> nat" where
  "group_nesting e = (if is_leaf e then 0 else Suc (nesting e))"

section \<open>The parser reads the tokens back\<close>

lemma literal_of_literal_token [simp]: "literal_of_token (literal_token l) = Some l"
  by (cases l) auto

lemma take_values_tokens:
  "take_values vs (literal_token l # concat (map (\<lambda>ys. TokComma # ys) (map (\<lambda>l. [literal_token l]) ls)) @ TokRParen # r) =
     (Some (vs @ l # ls), r)"
  by (induction ls arbitrary: vs l) auto

lemma literal_token_not [simp]: "eat_keyword KwNot (TokIdent c # ts) = (False, TokIdent c # ts)"
  by simp

lemma parse_leaf:
  assumes "is_leaf e" and "wf_check e"
  shows "parse_atom inner (expr_tokens e @ r) = (e, r)"
proof (cases e)
  case (InList c vs n)
  then obtain l ls where vs: "vs = l # ls" using assms(2) by (cases vs) auto
  show ?thesis
    using take_values_tokens [of "[]" l ls r] by (auto simp: InList vs parse_atom_def parse_predicate_def)
qed (use assms in \<open>auto simp: parse_atom_def parse_predicate_def\<close>)

lemma parse_group:
  assumes "wf_check e" and "group_nesting e \<le> n"
    and "\<And>m r. \<not> is_leaf e \<Longrightarrow> nesting e \<le> m \<Longrightarrow> parse_or m (expr_tokens e @ TokRParen # r) = (e, TokRParen # r)"
  shows "parse_atom (case n of 0 \<Rightarrow> None | Suc m \<Rightarrow> Some (parse_or m)) (group_tokens e @ r) = (e, r)"
proof (cases "is_leaf e")
  case True
  then show ?thesis using parse_leaf assms(1) by (simp add: group_tokens_def)
next
  case False
  then obtain m where n: "n = Suc m" "nesting e \<le> m" using assms(2) by (cases n) (auto simp: group_nesting_def)
  have "e \<noteq> Unparseable" using assms(1) by auto
  with False n assms(3) [OF False n(2), of r] show ?thesis by (simp add: group_tokens_def parse_atom_def)
qed

definition no_keyword :: "keyword \<Rightarrow> token list \<Rightarrow> bool" where
  "no_keyword kw r \<longleftrightarrow> (\<forall>r'. r \<noteq> TokKeyword kw # r')"

lemma eat_no_keyword: "no_keyword kw r \<Longrightarrow> eat_keyword kw r = (False, r)"
  by (cases "(kw, r)" rule: eat_keyword.cases) (auto simp: no_keyword_def)

lemma parse_seq_single:
  assumes "sub ts = (e, r)" and "e \<noteq> Unparseable" and "no_keyword kw r"
  shows "parse_seq kw node sub ts = (e, r)"
  using assms by (simp add: parse_seq_def eat_no_keyword)

lemma parse_chain_tokens:
  assumes "\<And>e q. e \<in> set es \<Longrightarrow> no_keyword kw' q \<Longrightarrow> sub (g e @ q) = (e, q) \<and> e \<noteq> Unparseable"
    and "no_keyword kw r" and "no_keyword kw' r" and "kw \<noteq> kw'" and "length es \<le> fuel"
  shows "parse_chain (Suc fuel) kw sub parts (concat (map (\<lambda>ys. TokKeyword kw # ys) (map g es)) @ r) =
    (Some (parts @ es), r)"
  using assms(1,5)
proof (induction es arbitrary: parts fuel)
  case Nil
  then show ?case using assms(2) by (simp add: eat_no_keyword)
next
  case (Cons e es)
  then obtain f where f: "fuel = Suc f" by (cases fuel) auto
  let ?q = "concat (map (\<lambda>ys. TokKeyword kw # ys) (map g es)) @ r"
  have "no_keyword kw' ?q" using assms(3,4) by (cases es) (auto simp: no_keyword_def)
  then have s: "sub (g e @ ?q) = (e, ?q)" "e \<noteq> Unparseable" using Cons.prems(1) by auto
  have ih: "parse_chain (Suc f) kw sub (parts @ [e]) ?q = (Some ((parts @ [e]) @ es), r)"
    by (rule Cons.IH) (use Cons.prems f in auto)
  show ?case using s ih by (simp add: f)
qed

lemma length_sep: "length es \<le> length (concat (map (\<lambda>ys. t # ys) (map g es)))"
  by (induction es) auto

lemma parse_seq_tokens:
  assumes "\<And>e q. e \<in> set es \<Longrightarrow> no_keyword kw' q \<Longrightarrow> sub (g e @ q) = (e, q) \<and> e \<noteq> Unparseable"
    and "no_keyword kw r" and "no_keyword kw' r" and "kw \<noteq> kw'" and "2 \<le> length es"
  shows "parse_seq kw node sub (sep_tokens (TokKeyword kw) (map g es) @ r) = (node es, r)"
proof -
  from assms(5) obtain e es' where es: "es = e # es'" "es' \<noteq> []" by (cases es; cases "tl es") auto
  let ?q = "concat (map (\<lambda>ys. TokKeyword kw # ys) (map g es')) @ r"
  have "no_keyword kw' ?q" using assms(3,4) es by (cases es') (auto simp: no_keyword_def)
  then have s: "sub (g e @ ?q) = (e, ?q)" "e \<noteq> Unparseable" using assms(1) es by auto
  have "parse_chain (Suc (length ?q)) kw sub [e] ?q = (Some ([e] @ es'), r)"
  proof (rule parse_chain_tokens)
    show "length es' \<le> length ?q" using length_sep [of es' "TokKeyword kw" g] by simp
  qed (use assms es in auto)
  with s es show ?thesis by (simp add: parse_seq_def del: parse_chain.simps)
qed

lemma group_not_first: "wf_check e \<Longrightarrow> eat_keyword KwNot (group_tokens e @ q) = (False, group_tokens e @ q)"
  by (cases e) (auto simp: group_tokens_def)

lemma parse_not_group:
  assumes "p (group_tokens e @ q) = (e, q)" and "wf_check e"
  shows "parse_not p (group_tokens e @ q) = (e, q)"
  using assms group_not_first [OF assms(2)] by (simp add: parse_not_def)

abbreviation inner_of :: "nat \<Rightarrow> parser option" where
  "inner_of n \<equiv> (case n of 0 \<Rightarrow> None | Suc m \<Rightarrow> Some (parse_or m))"

lemma parse_or_unfold: "parse_or n = parse_seq KwOr OrE (parse_and (inner_of n))"
  by (cases n) auto

definition group_end :: "token list \<Rightarrow> bool" where
  "group_end r \<longleftrightarrow> no_keyword KwAnd r \<and> no_keyword KwOr r"

lemma group_end_simps [simp]: "group_end []" "group_end (TokRParen # r)"
  by (auto simp: group_end_def no_keyword_def)

lemma map_group: "map (\<lambda>e. if is_leaf e then expr_tokens e else [TokLParen] @ expr_tokens e @ [TokRParen]) es = map group_tokens es"
  by (simp add: group_tokens_def)

lemma group_nesting_le: "nesting (AndE es) \<le> n \<or> nesting (OrE es) \<le> n \<Longrightarrow> e \<in> set es \<Longrightarrow> group_nesting e \<le> n"
  by (auto simp: fold_max_le group_nesting_def)

lemma parse_or_leaf:
  assumes "is_leaf e" and "wf_check e" and "group_end r"
  shows "parse_or n (expr_tokens e @ r) = (e, r)"
proof -
  have g: "group_tokens e = expr_tokens e" using assms(1) by (simp add: group_tokens_def)
  have "parse_not (parse_atom (inner_of n)) (group_tokens e @ r) = (e, r)"
    using assms parse_leaf by (intro parse_not_group) (auto simp: g)
  moreover have "e \<noteq> Unparseable" using assms(2) by auto
  ultimately show ?thesis
    using assms(3) by (simp add: parse_or_unfold [of n] parse_and_def group_end_def parse_seq_single g)
qed

lemma parse_tokens:
  assumes "wf_check e" and "nesting e \<le> n" and "group_end r"
  shows "parse_or n (expr_tokens e @ r) = (e, r)"
  using assms
proof (induction e arbitrary: n r)
  case (AndE es)
  have sub: "parse_not (parse_atom (inner_of n)) (group_tokens e @ q) = (e, q) \<and> e \<noteq> Unparseable" if "e \<in> set es" for e q
    using that AndE group_nesting_le by (intro conjI parse_not_group parse_group) auto
  have "parse_and (inner_of n) (expr_tokens (AndE es) @ r) = (AndE es, r)"
    unfolding parse_and_def expr_tokens.simps map_group
    by (rule parse_seq_tokens [where kw' = KwOr]) (use AndE.prems sub in \<open>auto simp: group_end_def\<close>)
  then show ?case using AndE.prems by (auto simp: parse_or_unfold [of n] group_end_def intro: parse_seq_single)
next
  case (OrE es)
  have sub: "parse_not (parse_atom (inner_of n)) (group_tokens e @ q) = (e, q) \<and> e \<noteq> Unparseable" if "e \<in> set es" for e q
    using that OrE group_nesting_le by (intro conjI parse_not_group parse_group) auto
  have "parse_and (inner_of n) (group_tokens e @ q) = (e, q) \<and> e \<noteq> Unparseable"
    if "e \<in> set es" "no_keyword KwAnd q" for e q
    using sub [OF that(1), of q] that(2) by (auto simp: parse_and_def intro: parse_seq_single)
  then show ?case
    unfolding parse_or_unfold [of n] expr_tokens.simps map_group using OrE.prems
    by (intro parse_seq_tokens [where kw' = KwAnd]) (auto simp: group_end_def)
next
  case (NotE e)
  have "parse_atom (inner_of n) (group_tokens e @ r) = (e, r)"
    using NotE by (intro parse_group) (auto simp: group_nesting_def)
  then have "parse_not (parse_atom (inner_of n)) (expr_tokens (NotE e) @ r) = (NotE e, r)"
    using NotE.prems(1) by (auto simp: parse_not_def group_tokens_def)
  then show ?case
    using NotE.prems by (simp add: parse_or_unfold [of n] parse_and_def group_end_def parse_seq_single)
qed (auto simp del: expr_tokens.simps intro!: parse_or_leaf)

section \<open>The lexer reads the text back\<close>

fun op_text :: "op \<Rightarrow> string" where
  "op_text OpEq = ''=''"
| "op_text OpNe = ''<>''"
| "op_text OpLt = ''<''"
| "op_text OpLe = ''<=''"
| "op_text OpGt = ''>''"
| "op_text OpGe = ''>=''"

fun keyword_text :: "keyword \<Rightarrow> string" where
  "keyword_text KwAnd = ''AND''"
| "keyword_text KwOr = ''OR''"
| "keyword_text KwNot = ''NOT''"
| "keyword_text KwIn = ''IN''"
| "keyword_text KwBetween = ''BETWEEN''"
| "keyword_text KwIs = ''IS''"
| "keyword_text KwNull = ''NULL''"
| "keyword_text KwTrue = ''TRUE''"
| "keyword_text KwFalse = ''FALSE''"

fun token_text :: "token \<Rightarrow> string" where
  "token_text (TokIdent s) = s"
| "token_text (TokInteger i) = int_to_string i"
| "token_text (TokFloat f) = f64_to_string f"
| "token_text (TokQuotedString s) = s"
| "token_text (TokKeyword k) = keyword_text k"
| "token_text (TokOp op) = op_text op"
| "token_text TokLParen = ''(''"
| "token_text TokRParen = '')''"
| "token_text TokComma = '',''"

definition print_check :: "check_expr \<Rightarrow> string" where
  "print_check e = join '' '' (map token_text (expr_tokens e))"

definition word_char :: "char \<Rightarrow> bool" where
  "word_char d \<longleftrightarrow> is_ascii_alphanumeric d \<or> d = CHR ''_''"

definition is_word :: "string \<Rightarrow> bool" where
  "is_word w \<longleftrightarrow> (case w of [] \<Rightarrow> False | c # _ \<Rightarrow> is_ascii_alphabetic c \<or> c = CHR ''_'') \<and> list_all word_char w"

text \<open>A column name the lexer takes for an identifier; a number or string as the lexer reads it.\<close>

fun printable_token :: "token \<Rightarrow> bool" where
  "printable_token (TokIdent s) = (is_word s \<and> classify_word s = TokIdent s)"
| "printable_token (TokInteger i) = in_i64 i"
| "printable_token (TokFloat f) = False"
| "printable_token (TokQuotedString s) = (\<exists>x. s = [CHR 0x27] @ quote_doubled x @ [CHR 0x27])"
| "printable_token _ = True"

definition ends_token :: "string \<Rightarrow> bool" where
  "ends_token rest \<longleftrightarrow> (\<forall>c r. rest = c # r \<longrightarrow> c = CHR 0x20)"

lemma ends_token_simps [simp]: "ends_token []" "ends_token (CHR 0x20 # r)"
  by (auto simp: ends_token_def)

lemma ends_token_cases: "ends_token rest \<Longrightarrow> rest = [] \<or> (\<exists>r. rest = CHR 0x20 # r)"
  by (cases rest) (auto simp: ends_token_def)

lemma char_class_disjoint:
  "is_ascii_alphabetic c \<or> c = CHR ''_'' \<Longrightarrow> c \<notin> {CHR ''('', CHR '')'', CHR '','', CHR 0x27, CHR ''<'', CHR ''>'', CHR ''='', CHR ''!'', CHR ''-'', CHR ''+''} \<and> \<not> is_ascii_digit c \<and> \<not> is_ascii_whitespace c"
  by (auto simp: is_ascii_alphabetic_def is_ascii_lowercase_def is_ascii_uppercase_def is_ascii_digit_def
      is_ascii_whitespace_def less_eq_char_def)

lemma digit_class_disjoint:
  "is_ascii_digit c \<Longrightarrow> c \<notin> {CHR ''('', CHR '')'', CHR '','', CHR 0x27, CHR ''<'', CHR ''>'', CHR ''='', CHR ''!'', CHR ''-'', CHR ''+''} \<and> \<not> is_ascii_whitespace c"
  by (auto simp: is_ascii_digit_def is_ascii_whitespace_def less_eq_char_def)

lemma space_class [simp]: "\<not> word_char CHR 0x20" "\<not> is_ascii_digit CHR 0x20" "is_ascii_whitespace CHR 0x20"
  by (simp_all add: word_char_def is_ascii_alphanumeric_def is_ascii_alphabetic_def is_ascii_lowercase_def
      is_ascii_uppercase_def is_ascii_digit_def is_ascii_whitespace_def less_eq_char_def)

lemma takeWhile_ends:
  assumes "list_all P w" and "ends_token rest" and "\<not> P CHR 0x20"
  shows "takeWhile P (w @ rest) = w" "dropWhile P (w @ rest) = rest"
  using ends_token_cases [OF assms(2)] assms(1,3)
  by (auto simp: list_all_iff takeWhile_eq_all_conv dropWhile_append)

lemma next_token_word:
  assumes "is_word (c # w)" and "ends_token rest"
  shows "next_token out c (w @ rest) = Some (classify_word (c # w), c # w, rest)" "\<not> is_ascii_whitespace c"
proof -
  have c: "is_ascii_alphabetic c \<or> c = CHR ''_''" "list_all word_char (c # w)" using assms(1) by (auto simp: is_word_def)
  note d = char_class_disjoint [OF c(1)]
  have "takeWhile word_char ((c # w) @ rest) = c # w" "dropWhile word_char (w @ rest) = rest"
    using takeWhile_ends [OF c(2) assms(2)] takeWhile_ends(2) [of word_char w rest] c(2) assms(2) by auto
  then show "next_token out c (w @ rest) = Some (classify_word (c # w), c # w, rest)"
    using d c(1) by (simp add: next_token_def word_char_def [abs_def, symmetric] Let_def del: takeWhile.simps)
  show "\<not> is_ascii_whitespace c" using d by blast
qed

lemma parse_i64_int_to_string:
  assumes "in_i64 i"
  shows "parse_i64 (int_to_string i) = Some i"
proof (cases "i < 0")
  case True
  then show ?thesis
    using nat_to_string_digits [of "nat (- i)"] assms by (simp add: int_to_string_def parse_i64_def)
next
  case False
  obtain c w where cw: "nat_to_string (nat i) = c # w"
    using nat_to_string_digits [of "nat i"] by (cases "nat_to_string (nat i)") auto
  have "is_ascii_digit c" using nat_to_string_digits [of "nat i"] cw by simp
  then have c: "c \<noteq> CHR ''-''" "c \<noteq> CHR ''+''" using digit_class_disjoint by auto
  show ?thesis
    using False c nat_to_string_digits [of "nat i"] assms by (simp add: int_to_string_def parse_i64_def cw)
qed

lemma scan_exponent_end: "ends_token rest \<Longrightarrow> scan_exponent rest = ([], rest)"
  by (drule ends_token_cases) (auto simp: scan_exponent_def)

lemma scan_number_end:
  assumes "list_all is_ascii_digit w" and "ends_token rest"
  shows "scan_unsigned (w @ rest) = (w, rest)" "scan_signed (w @ rest) = (w, rest)"
proof -
  note t = takeWhile_ends [OF assms(1,2), simplified]
  have "rest = [] \<or> (\<exists>r. rest = CHR 0x20 # r)" using assms(2) by (rule ends_token_cases)
  then show "scan_unsigned (w @ rest) = (w, rest)"
    using t assms(2) by (auto simp: scan_unsigned_def scan_exponent_end Let_def)
  have "list_all (\<lambda>c. is_ascii_digit c \<or> c = CHR ''.'') w" using assms(1) by (auto simp: list_all_iff)
  from takeWhile_ends [OF this assms(2), simplified]
  show "scan_signed (w @ rest) = (w, rest)"
    using assms(2) by (simp add: scan_signed_def scan_exponent_end Let_def)
qed

text \<open>A number with a sign needs a place where a literal may start.\<close>

fun needs_slot :: "token \<Rightarrow> bool" where
  "needs_slot (TokInteger i) = (i < 0)"
| "needs_slot _ = False"

lemma next_token_integer:
  assumes "in_i64 i" and "ends_token rest" and "i < 0 \<Longrightarrow> is_literal_start_slot out"
    and "int_to_string i = c # w"
  shows "next_token out c (w @ rest) = Some (TokInteger i, c # w, rest)" "\<not> is_ascii_whitespace c"
proof -
  have p: "parse_number_token (c # w) = Some (TokInteger i)"
    using parse_i64_int_to_string [OF assms(1)] by (simp add: parse_number_token_def assms(4))
  show "next_token out c (w @ rest) = Some (TokInteger i, c # w, rest)"
  proof (cases "i < 0")
    case True
    then have c: "c = CHR ''-''" "w = nat_to_string (nat (- i))" using assms(4) by (auto simp: int_to_string_def)
    have "scan_signed (w @ rest) = (w, rest)"
      using scan_number_end(2) [OF _ assms(2), of w] nat_to_string_digits c(2) by simp
    then show ?thesis using p assms(3) True by (simp add: next_token_def c(1))
  next
    case False
    then have w: "c # w = nat_to_string (nat i)" using assms(4) by (auto simp: int_to_string_def)
    have "list_all is_ascii_digit (c # w)" using nat_to_string_digits [of "nat i"] w by simp
    then have d: "is_ascii_digit c" "scan_unsigned (c # w @ rest) = (c # w, rest)"
      using scan_number_end(1) [OF _ assms(2), of "c # w"] by auto
    from digit_class_disjoint [OF d(1)] show ?thesis using d p by (simp add: next_token_def)
  qed
  show "\<not> is_ascii_whitespace c"
  proof (cases "i < 0")
    case True
    then have "c = CHR ''-''" using assms(4) by (auto simp: int_to_string_def)
    then show ?thesis by (simp add: is_ascii_whitespace_def)
  next
    case False
    then have "is_ascii_digit c" using assms(4) nat_to_string_digits [of "nat i"] by (auto simp: int_to_string_def)
    then show ?thesis using digit_class_disjoint by blast
  qed
qed

lemma scan_quoted_doubled:
  assumes "ends_token rest"
  shows "scan_quoted (quote_doubled x @ CHR 0x27 # rest) = Some (quote_doubled x @ [CHR 0x27], rest)"
proof (induction x)
  case Nil
  then show ?case using ends_token_cases [OF assms] by (auto simp: quote_doubled_def)
next
  case (Cons c x)
  show ?case
  proof (cases "c = CHR 0x27")
    case True
    then show ?thesis using Cons by (simp add: quote_doubled_def)
  next
    case False
    obtain d q where q: "quote_doubled x @ CHR 0x27 # rest = d # q" by (cases "quote_doubled x") auto
    have "quote_doubled (c # x) = c # quote_doubled x" using False by (simp add: quote_doubled_def)
    then show ?thesis using Cons q False by simp
  qed
qed

lemma keyword_word:
  "is_word (keyword_text k) \<and> classify_word (keyword_text k) = TokKeyword k \<and> \<not> is_whitespace (last (keyword_text k))"
  by (cases k) (simp_all add: is_word_def word_char_def classify_word_def eq_ignore_ascii_case_def to_lowercase_def
      to_ascii_lowercase_def is_ascii_uppercase_def is_ascii_alphanumeric_def is_ascii_alphabetic_def
      is_ascii_lowercase_def is_ascii_digit_def less_eq_char_def is_whitespace_def is_ascii_whitespace_def)

lemma next_token_text:
  assumes "printable_token t" and "needs_slot t \<Longrightarrow> is_literal_start_slot out" and "ends_token rest"
  shows "\<exists>c w. token_text t = c # w \<and> \<not> is_ascii_whitespace c \<and> next_token out c (w @ rest) = Some (t, c # w, rest)"
proof (cases t)
  case (TokIdent s)
  with assms(1) obtain c w where "s = c # w" "is_word (c # w)" "classify_word (c # w) = t"
    by (cases s) (auto simp: is_word_def)
  with next_token_word [OF this(2) assms(3)] show ?thesis by (simp add: TokIdent)
next
  case (TokInteger i)
  obtain c w where "int_to_string i = c # w"
    using nat_to_string_digits [of "nat i"] by (cases "int_to_string i") (auto simp: int_to_string_def split: if_splits)
  with next_token_integer [of i rest out c w] assms show ?thesis by (simp add: TokInteger)
next
  case (TokQuotedString s)
  with assms(1) obtain x where s: "s = CHR 0x27 # quote_doubled x @ [CHR 0x27]" by auto
  show ?thesis
    using scan_quoted_doubled [OF assms(3), of x]
    by (simp add: TokQuotedString s next_token_def is_ascii_whitespace_def)
next
  case (TokKeyword k)
  obtain c w where k: "keyword_text k = c # w" by (cases k) auto
  then have "is_word (c # w)" "classify_word (c # w) = TokKeyword k" using keyword_word [of k] by auto
  with next_token_word [OF this(1) assms(3)] k show ?thesis by (simp add: TokKeyword)
next
  case (TokOp op)
  have "\<exists>c w. op_text op = c # w \<and> c \<in> {CHR ''<'', CHR ''>'', CHR ''=''} \<and> scan_op c (w @ rest) = Some (op, c # w, rest)"
    using ends_token_cases [OF assms(3)] by (cases op; elim disjE exE; simp add: scan_op_def)
  then obtain c w where c: "op_text op = c # w" "c \<in> {CHR ''<'', CHR ''>'', CHR ''=''}" "scan_op c (w @ rest) = Some (op, c # w, rest)"
    by blast
  from c(2) have "next_token out c (w @ rest) = map_option (\<lambda>(op, raw, rest). (TokOp op, raw, rest)) (scan_op c (w @ rest))"
    "\<not> is_ascii_whitespace c"
    by (elim insertE emptyE; simp add: next_token_def is_ascii_whitespace_def)+
  then show ?thesis using c(1,3) by (simp add: TokOp)
qed (use assms in \<open>auto simp: next_token_def is_ascii_whitespace_def\<close>)


text \<open>Every token can be printed, and a signed number stands where a literal may start; \<open>p\<close> is the
  token before.\<close>

definition slot_after :: "token option \<Rightarrow> bool" where
  "slot_after p \<longleftrightarrow> is_literal_start_slot (case p of None \<Rightarrow> [] | Some t \<Rightarrow> [\<lparr>st_token = t, st_start = 0, st_end = 0\<rparr>])"

fun lexable :: "token option \<Rightarrow> token list \<Rightarrow> bool" where
  "lexable p [] = True"
| "lexable p (t # ts) = (printable_token t \<and> (needs_slot t \<longrightarrow> slot_after p) \<and> lexable (Some t) ts)"

definition last_token :: "spanned_token list \<Rightarrow> token option" where
  "last_token out = (if out = [] then None else Some (st_token (last out)))"

lemma slot_after_last: "slot_after (last_token out) = is_literal_start_slot out"
  by (simp add: slot_after_def last_token_def is_literal_start_slot_def)

lemma ends_token_join: "ends_token (case ts of [] \<Rightarrow> [] | _ \<Rightarrow> CHR 0x20 # s)"
  by (cases ts) auto

lemma join_Cons: "join '' '' (map token_text (t # ts)) = token_text t @ (case ts of [] \<Rightarrow> [] | _ \<Rightarrow> CHR 0x20 # join '' '' (map token_text ts))"
  by (cases ts) auto

lemma tokenize_text:
  assumes "lexable (last_token out) ts"
  shows "\<exists>sts. tokenize_from i (join '' '' (map token_text ts)) out = Some (out @ sts) \<and> map st_token sts = ts"
  using assms
proof (induction ts arbitrary: i out)
  case Nil
  show ?case by (intro exI [of _ "[]"]) simp
next
  case (Cons t ts)
  let ?rest = "case ts of [] \<Rightarrow> [] | _ \<Rightarrow> CHR 0x20 # join '' '' (map token_text ts)"
  obtain c w where cw: "token_text t = c # w" "\<not> is_ascii_whitespace c"
      "next_token out c (w @ ?rest) = Some (t, c # w, ?rest)"
    using next_token_text [of t out ?rest] Cons.prems ends_token_join by (auto simp: slot_after_last)
  let ?st = "\<lparr>st_token = t, st_start = i, st_end = i + length (c # w)\<rparr>"
  let ?out = "out @ [?st]"
  have "lexable (last_token ?out) ts" using Cons.prems by (simp add: last_token_def)
  note ih = Cons.IH [OF this]
  have step: "tokenize_from i (join '' '' (map token_text (t # ts))) out = tokenize_from (i + length (c # w)) ?rest ?out"
    unfolding join_Cons using cw by simp
  show ?case
  proof (cases ts)
    case Nil
    then show ?thesis using step by (intro exI [of _ "[?st]"]) simp
  next
    case (Cons t' ts')
    have "tokenize_from (i + length (c # w)) ?rest ?out =
        tokenize_from (i + length (c # w) + 1) (join '' '' (map token_text ts)) ?out"
      by (simp add: Cons)
    moreover obtain sts where "tokenize_from (i + length (c # w) + 1) (join '' '' (map token_text ts)) ?out = Some (?out @ sts)"
        "map st_token sts = ts" using ih by blast
    ultimately show ?thesis using step by (intro exI [of _ "?st # sts"]) simp
  qed
qed

text \<open>Expressions whose names and literals can be printed: no float literals, column names that are
  identifiers, integers of 64 bits, strings with their quotes doubled.\<close>

fun check_tokens_of :: "check_expr \<Rightarrow> token list" where
  "check_tokens_of (Compare c op l) = [TokIdent c, literal_token l]"
| "check_tokens_of (InList c vs n) = TokIdent c # map literal_token vs"
| "check_tokens_of (Between c l h n) = [TokIdent c, literal_token l, literal_token h]"
| "check_tokens_of (IsNull c n) = [TokIdent c]"
| "check_tokens_of (AndE es) = concat (map check_tokens_of es)"
| "check_tokens_of (OrE es) = concat (map check_tokens_of es)"
| "check_tokens_of (NotE e) = check_tokens_of e"
| "check_tokens_of Unparseable = []"

definition printable :: "check_expr \<Rightarrow> bool" where
  "printable e \<longleftrightarrow> (\<forall>t \<in> set (check_tokens_of e). printable_token t)"

lemma lexable_append: "lexable p (xs @ ys) \<longleftrightarrow> lexable p xs \<and> lexable (if xs = [] then p else Some (last xs)) ys"
  by (induction xs arbitrary: p) auto

lemma lexable_sep:
  assumes "\<forall>xs \<in> set xss. \<forall>p. lexable p xs" and "printable_token t" and "\<not> needs_slot t"
  shows "lexable p (sep_tokens t xss)"
proof -
  have "lexable q (concat (map (\<lambda>ys. t # ys) yss))" if "\<forall>xs \<in> set yss. \<forall>p. lexable p xs" for q yss
    using that assms(2,3) by (induction yss arbitrary: q) (auto simp: lexable_append)
  with assms(1) show ?thesis by (cases xss) (auto simp: lexable_append)
qed

lemma slot_after_simps [simp]:
  "slot_after (Some (TokOp op))" "slot_after (Some TokLParen)" "slot_after (Some TokComma)"
  "slot_after (Some (TokKeyword KwBetween))" "slot_after (Some (TokKeyword KwAnd))"
  by (simp_all add: slot_after_def is_literal_start_slot_def)

lemma lexable_values:
  "\<forall>l \<in> set vs. printable_token (literal_token l) \<Longrightarrow> slot_after p \<Longrightarrow>
    lexable p (sep_tokens TokComma (map (\<lambda>l. [literal_token l]) vs))"
proof -
  assume a: "\<forall>l \<in> set vs. printable_token (literal_token l)" "slot_after p"
  have "lexable q (concat (map (\<lambda>ys. TokComma # ys) (map (\<lambda>l. [literal_token l]) ws)))"
    if "\<forall>l \<in> set ws. printable_token (literal_token l)" for q ws
    using that by (induction ws arbitrary: q) auto
  with a show ?thesis by (cases vs) auto
qed

lemma lexable_expr:
  assumes "printable e"
  shows "lexable p (expr_tokens e)"
  using assms
proof (induction e arbitrary: p)
  case (InList c vs n)
  then have "\<forall>l \<in> set vs. printable_token (literal_token l)" "printable_token (TokIdent c)" by (auto simp: printable_def)
  then show ?case by (auto simp: lexable_append lexable_values)
next
  case (AndE es)
  have "\<forall>p. lexable p (expr_tokens e)" if "e \<in> set es" for e
    using AndE.IH [OF that] AndE.prems that by (auto simp: printable_def)
  then show ?case by (auto intro!: lexable_sep simp: lexable_append)
next
  case (OrE es)
  have "\<forall>p. lexable p (expr_tokens e)" if "e \<in> set es" for e
    using OrE.IH [OF that] OrE.prems that by (auto simp: printable_def)
  then show ?case by (auto intro!: lexable_sep simp: lexable_append)
next
  case (NotE e)
  then show ?case by (auto simp: lexable_append printable_def)
qed (auto simp: printable_def)

lemma trim_id:
  assumes "s \<noteq> []" and "\<not> is_whitespace (hd s)" and "\<not> is_whitespace (last s)"
  shows "trim s = s"
proof -
  obtain c w where s: "s = c # w" using assms(1) by (cases s) auto
  have "trim_start s = s" using assms(2) by (simp add: trim_start_def s)
  moreover obtain v d where v: "s = v @ [d]" using assms(1) by (cases s rule: rev_cases) auto
  ultimately show ?thesis using assms(3) by (simp add: trim_def trim_end_def v)
qed


lemma ws_class: "is_whitespace c \<Longrightarrow> \<not> word_char c \<and> \<not> is_ascii_digit c \<and> c \<noteq> CHR 0x27"
  by (auto simp: is_whitespace_def is_ascii_whitespace_def word_char_def is_ascii_alphanumeric_def
      is_ascii_alphabetic_def is_ascii_lowercase_def is_ascii_uppercase_def is_ascii_digit_def less_eq_char_def)

lemma text_hd:
  assumes "printable_token t" and "token_text t = c # w"
  shows "\<not> is_whitespace c"
proof -
  have "next_token [] (CHR 0x0B) v = None" for v
    by (simp add: next_token_def is_ascii_digit_def is_ascii_alphabetic_def is_ascii_lowercase_def
        is_ascii_uppercase_def less_eq_char_def)
  moreover have "\<not> is_ascii_whitespace c \<and> next_token [] c w = Some (t, c # w, [])"
    using next_token_text [OF assms(1), of "[]" "[]"] assms(2) by (auto simp: is_literal_start_slot_def)
  ultimately show ?thesis by (auto simp: is_whitespace_def)
qed

lemma text_last:
  assumes "printable_token t"
  shows "\<not> is_whitespace (last (token_text t))"
proof (cases t)
  case (TokIdent s)
  then have "word_char (last s)" using assms by (auto simp: is_word_def list_all_iff split: list.splits)
  then show ?thesis using ws_class TokIdent by auto
next
  case (TokInteger i)
  have "is_ascii_digit (last (nat_to_string n))" for n
    using nat_to_string_digits [of n] by (metis last_in_set list_all_iff)
  then have "is_ascii_digit (last (int_to_string i))"
    using nat_to_string_digits by (simp add: int_to_string_def)
  then show ?thesis using ws_class TokInteger by auto
next
  case (TokQuotedString s)
  then have "last s = CHR 0x27" using assms by auto
  then show ?thesis using ws_class TokQuotedString by auto
next
  case (TokKeyword k)
  then show ?thesis using keyword_word by simp
next
  case (TokOp op)
  have "\<not> is_whitespace (last (op_text op))" by (cases op) (simp_all add: is_whitespace_def is_ascii_whitespace_def)
  then show ?thesis by (simp add: TokOp)
qed (use assms in \<open>auto simp: is_whitespace_def is_ascii_whitespace_def\<close>)

lemma lexable_printable: "lexable p ts \<Longrightarrow> t \<in> set ts \<Longrightarrow> printable_token t"
  by (induction p ts rule: lexable.induct) auto

lemma text_nonempty: "printable_token t \<Longrightarrow> token_text t \<noteq> []"
  using next_token_text [of t "[]" "[]"] by (auto simp: is_literal_start_slot_def)

lemma last_join: "ts \<noteq> [] \<Longrightarrow> token_text (last ts) \<noteq> [] \<Longrightarrow>
  join '' '' (map token_text ts) \<noteq> [] \<and> last (join '' '' (map token_text ts)) = last (token_text (last ts))"
proof (induction ts)
  case (Cons t ts)
  then show ?case by (cases ts) auto
qed simp

lemma hd_join: "token_text t = c # w \<Longrightarrow> \<exists>v. join '' '' (map token_text (t # ts)) = c # v"
  by (cases ts) auto

lemma expr_tokens_nonempty: "wf_check e \<Longrightarrow> expr_tokens e \<noteq> []"
proof (induction e)
  case (AndE es)
  then show ?case by (cases es) auto
next
  case (OrE es)
  then show ?case by (cases es) auto
qed auto

lemma parse_print_check:
  assumes "wf_check e" and "printable e" and "nesting e \<le> MAX_CHECK_EXPR_DEPTH"
  shows "parse (print_check e) = e"
proof -
  let ?ts = "expr_tokens e"
  note lex = lexable_expr [OF assms(2), of None]
  obtain t ts where ts: "?ts = t # ts" using expr_tokens_nonempty [OF assms(1)] by (cases ?ts) auto
  have p: "printable_token t" "printable_token (last ?ts)" using lexable_printable [OF lex] ts by auto
  obtain c w where cw: "token_text t = c # w" using text_nonempty [OF p(1)] by (cases "token_text t") auto
  have "print_check e \<noteq> []" "\<not> is_whitespace (last (print_check e))"
    using last_join [of ?ts] text_nonempty [OF p(2)] text_last [OF p(2)] ts by (auto simp: print_check_def)
  moreover have "\<not> is_whitespace (hd (print_check e))"
    using hd_join [OF cw, of ts] text_hd [OF p(1) cw] ts by (auto simp: print_check_def)
  ultimately have trim: "trim (print_check e) = print_check e" "print_check e \<noteq> []" by (auto intro: trim_id)
  obtain sts where "tokenize_spanned (print_check e) = Some sts" "map st_token sts = ?ts"
    using tokenize_text [of "[]" ?ts 0] lex by (auto simp: tokenize_spanned_def print_check_def last_token_def)
  moreover have "parse_or MAX_CHECK_EXPR_DEPTH ?ts = (e, [])"
    using parse_tokens [OF assms(1,3), of "[]"] by simp
  ultimately show ?thesis using trim by (simp add: parse_def)
qed

end
