(* ===== verification/Planner_Error.thy ===== *)
theory Planner_Error
  imports Sql_Schema
begin

text \<open>
  The planner's errors (\<open>vespertide-planner/src/error.rs\<close>): the enum \<open>PlannerError\<close> with the
  batch variant \<open>Multiple\<close>, and the text each error displays.  Characters outside ASCII stand
  in the messages as their UTF-8 bytes.
\<close>

record invalid_enum_default_error =
  ied_enum_name :: string
  ied_table_name :: string
  ied_column_name :: string
  ied_value_type :: string
  ied_value :: string
  ied_allowed :: string

datatype planner_error =
    Multiple "planner_error list"
  | TableExists string
  | TableNotFound string
  | ColumnExists string string
  | ColumnNotFound string string
  | IndexNotFound string string
  | DuplicateTableName string
  | ForeignKeyTableNotFound string string string
  | ForeignKeyColumnNotFound string string string string
  | IndexColumnNotFound string string string
  | ConstraintColumnNotFound string string string
  | EmptyConstraintColumns string string
  | MissingFillWith string string
  | DataMigrationContainsDdl string string
  | TableValidation string
  | MissingPrimaryKey string
  | DuplicateEnumVariantName string string string string
  | DuplicateEnumValue string string string int
  | InvalidEnumDefault invalid_enum_default_error
  | InvalidAutoIncrement string string string
  | DefaultViolatesCheck string string string string string
  | BetweenBoundaryReversed string string string string string
  | CheckSelfContradiction string string string string string
  | PrimaryKeyColumnNullable string string
  | PrimaryKeyRemovedWithoutReplacement string string
  | ConstraintTypeChanged string string string string
  | AddColumnWithFkRequiresNullable string string
  | DanglingForeignKeyAfterDrop string "string option" string "string option"

definition em_dash :: string where
  "em_dash = [CHR 0xE2, CHR 0x80, CHR 0x94]"

abbreviation quoted :: "string \<Rightarrow> string" where
  "quoted s \<equiv> [CHR 0x27] @ s @ [CHR 0x27]"

abbreviation ticked :: "string \<Rightarrow> string" where
  "ticked s \<equiv> [CHR 0x60] @ s @ [CHR 0x60]"

fun format_dropped :: "string \<Rightarrow> string option \<Rightarrow> string" where
  "format_dropped t (Some c) = ''column '' @ ticked (t @ ''.'' @ c)"
| "format_dropped t None = ''table '' @ ticked t"

fun format_fk :: "string option \<Rightarrow> string" where
  "format_fk (Some n) = ticked n"
| "format_fk None = ''(unnamed)''"

definition display_invalid_enum_default :: "invalid_enum_default_error \<Rightarrow> string" where
  "display_invalid_enum_default e =
     ''enum '' @ quoted (ied_enum_name e) @ '' in column '' @
     quoted (ied_table_name e @ ''.'' @ ied_column_name e) @ '' has invalid '' @ ied_value_type e @
     '' value '' @ quoted (ied_value e) @ '': not in allowed values ['' @ ied_allowed e @ '']''"

fun numbered_lines :: "nat \<Rightarrow> string list \<Rightarrow> string" where
  "numbered_lines k [] = []"
| "numbered_lines k (m # ms) =
     ''  '' @ nat_to_string k @ ''. '' @ m @ [CHR 0x0A] @ numbered_lines (k + 1) ms"

primrec display_planner_error :: "planner_error \<Rightarrow> string" where
  "display_planner_error (Multiple es) =
     nat_to_string (length es) @ '' validation violation(s):'' @ [CHR 0x0A] @
     numbered_lines 1 (map display_planner_error es) @
     ''Fix all of the above before re-running this command.''"
| "display_planner_error (TableExists t) = ''table already exists: '' @ t"
| "display_planner_error (TableNotFound t) = ''table not found: '' @ t"
| "display_planner_error (ColumnExists t c) = ''column already exists: '' @ t @ ''.'' @ c"
| "display_planner_error (ColumnNotFound t c) = ''column not found: '' @ t @ ''.'' @ c"
| "display_planner_error (IndexNotFound t c) = ''index not found: '' @ t @ ''.'' @ c"
| "display_planner_error (DuplicateTableName t) = ''duplicate table name: '' @ t"
| "display_planner_error (ForeignKeyTableNotFound t c r) =
     ''foreign key references non-existent table: '' @ t @ ''.'' @ c @ '' -> '' @ r"
| "display_planner_error (ForeignKeyColumnNotFound t c r rc) =
     ''foreign key references non-existent column: '' @ t @ ''.'' @ c @ '' -> '' @ r @ ''.'' @ rc"
| "display_planner_error (IndexColumnNotFound t i c) =
     ''index references non-existent column: '' @ t @ ''.'' @ i @ '' -> '' @ c"
| "display_planner_error (ConstraintColumnNotFound t k c) =
     ''constraint references non-existent column: '' @ t @ ''.'' @ k @ '' -> '' @ c"
| "display_planner_error (EmptyConstraintColumns t k) =
     ''constraint has empty column list: '' @ t @ ''.'' @ k"
| "display_planner_error (MissingFillWith t c) =
     ''AddColumn requires fill_with when column is NOT NULL without default: '' @ t @ ''.'' @ c"
| "display_planner_error (DataMigrationContainsDdl keyword statement) =
     ''data_migration contains DDL: the statement starts with '' @ ticked keyword @ '' ('' @
     statement @ ''). '' @ ticked ''data_migration'' @ '' promises to change data only '' @ em_dash @
     '' baseline replay skips it on that basis, so schema changes hidden here are lost forever and '' @
     ticked ''vespertide diff'' @ '' will report phantom pending changes. Express the schema change '' @
     ''with a typed action, or use '' @ ticked ''raw_sql'' @ '' if you genuinely need the escape hatch.''"
| "display_planner_error (TableValidation m) = ''table validation error: '' @ m"
| "display_planner_error (MissingPrimaryKey t) = ''table '' @ quoted t @ '' must have a primary key''"
| "display_planner_error (DuplicateEnumVariantName e t c v) =
     ''enum '' @ quoted e @ '' in column '' @ quoted (t @ ''.'' @ c) @
     '' has duplicate variant name: '' @ quoted v"
| "display_planner_error (DuplicateEnumValue e t c v) =
     ''enum '' @ quoted e @ '' in column '' @ quoted (t @ ''.'' @ c) @
     '' has duplicate value: '' @ int_to_string v"
| "display_planner_error (InvalidEnumDefault e) = display_invalid_enum_default e"
| "display_planner_error (InvalidAutoIncrement t c ty) =
     ''auto_increment on non-integer column: '' @ t @ ''.'' @ c @ '' (type '' @ ty @
     '' does not support auto_increment)''"
| "display_planner_error (DefaultViolatesCheck t c d n x) =
     ''default value violates CHECK constraint: '' @ t @ ''.'' @ c @ '' default = '' @ d @
     '' fails CHECK ('' @ x @ '') '' @ em_dash @
     '' every INSERT relying on this default will be rejected by the database. Change the default '' @
     ''to satisfy the constraint, or relax the constraint.''"
| "display_planner_error (BetweenBoundaryReversed t c n low high) =
     ''BETWEEN boundary order reversed: '' @ t @ ''.'' @ c @ '' CHECK '' @ quoted n @ '' is '' @
     ticked (''BETWEEN '' @ low @ '' AND '' @ high) @ '' (low > high) '' @ em_dash @
     '' every row would be rejected by the database. Swap the boundaries to '' @
     ticked (''BETWEEN '' @ high @ '' AND '' @ low) @ ''.''"
| "display_planner_error (CheckSelfContradiction t n c first second) =
     ''CHECK self-contradiction: '' @ t @ '' CHECK '' @ quoted n @
     '' contains conjuncts that cannot all be satisfied '' @ em_dash @ '' '' @ ticked first @
     '' and '' @ ticked second @ '' reference column '' @ ticked c @
     '' but demand disjoint values. Every row would be rejected by the database. '' @
     ''Reconcile or drop one of the conjuncts.''"
| "display_planner_error (PrimaryKeyColumnNullable t c) =
     ''primary key column nullable: '' @ t @ ''.'' @ c @
     '' participates in a PRIMARY KEY but declares '' @ ticked ''nullable: true'' @
     ''. SQL standard requires primary-key columns to be NOT NULL. Either remove '' @ c @
     '' from the primary key, or set '' @ ticked ''nullable: false'' @
     ''. (For uniqueness with NULL allowed, use UNIQUE instead.)''"
| "display_planner_error (PrimaryKeyRemovedWithoutReplacement t cs) =
     ''table '' @ quoted t @ '' would lose its PRIMARY KEY after this migration: '' @
     ''the plan removes PK on ('' @ cs @ '') without adding a replacement, '' @
     ''and the table is not being dropped. Every Vespertide-managed table must have a primary key '' @
     em_dash @ '' re-add one in the same migration, or drop the table.''"
| "display_planner_error (ConstraintTypeChanged kind t cs fk_hint) =
     ''constraint type change blocked: '' @ kind @ '' on '' @ t @ ''.('' @ cs @ ''). '' @
     ''PRIMARY KEY and UNIQUE have different NOT NULL / FK / identity semantics; '' @
     ''vespertide refuses to swap them silently. '' @ fk_hint @
     '' Split the change into separate migrations (e.g. add the new '' @
     ''constraint on a new column first, then drop the old one).''"
| "display_planner_error (AddColumnWithFkRequiresNullable t c) =
     ''AddColumn '' @ quoted (t @ ''.'' @ c) @ '' participates in a foreign key but declares '' @
     ticked ''nullable: false'' @ '' together with '' @ ticked ''fill_with'' @ ''/'' @
     ticked ''default'' @ ''. The migration emits the fill value first, then nullifies rows '' @
     ''whose value doesn'' @ [CHR 0x27] @ ''t exist in the parent table ? this requires '' @
     ticked ''nullable: true'' @ ''. Set '' @ ticked ''nullable: true'' @ '' on '' @ c @
     '', or drop the foreign key / fill_with.''"
| "display_planner_error (DanglingForeignKeyAfterDrop dt dc rt rc) =
     ''cannot drop '' @ format_dropped dt dc @ '': foreign key '' @ format_fk rc @ '' on table '' @
     ticked rt @ '' references it. Either drop that foreign key in the same migration, or drop the '' @
     ticked rt @ '' table.''"

end
