(* ===== verification/Migration_Action.thy ===== *)
theory Migration_Action
  imports Sql_Schema Planner_Error "HOL-Library.Word"
begin

text \<open>
  Migration plans and actions (\<open>vespertide-core/src/action/\<close>): the data, the table an action
  touches, the DDL guard of \<open>data_migration\<close>, table-name prefixes, and the text an action
  displays as.  The guard is proved equivalent to its specification: a statement that opens,
  after white space and comments, with a DDL keyword as a whole token.
\<close>

section \<open>Data\<close>

datatype data_migration_sql =
    Uniform string
  | PerBackend (dm_postgres: string) (dm_mysql: string) (dm_sqlite: string)

datatype narrowing_strategy = Truncate | DeleteRow | SetToValue string

datatype migration_action =
    CreateTable table_name "column_def list" "table_constraint list"
  | DeleteTable table_name
  | AddColumn table_name column_def "string option"
  | RenameColumn table_name column_name column_name
  | DeleteColumn table_name column_name
  | ModifyColumnType table_name column_name column_type "(string, string) omap option"
      "narrowing_strategy option" "string option"
  | ModifyColumnNullable table_name column_name bool "string option" "bool option"
  | ModifyColumnDefault table_name column_name "string option" "string option"
  | ModifyColumnComment table_name column_name "string option"
  | AddConstraint table_name table_constraint
  | RemoveConstraint table_name table_constraint
  | ReplaceConstraint table_name table_constraint table_constraint
  | RemapEnumValues table_name column_name "(int, int) omap"
  | RenameTable table_name table_name
  | RawSql string
  | DataMigration data_migration_sql "string option"

record migration_plan =
  plan_id :: string
  plan_comment :: "string option"
  plan_created_at :: "string option"
  plan_version :: "32 word"
  plan_actions :: "migration_action list"

fun kind_label :: "narrowing_strategy \<Rightarrow> string" where
  "kind_label Truncate = ''truncate''"
| "kind_label DeleteRow = ''delete''"
| "kind_label (SetToValue _) = ''set_to_value''"

fun action_table_name :: "migration_action \<Rightarrow> string option" where
  "action_table_name (CreateTable table _ _) = Some table"
| "action_table_name (DeleteTable table) = Some table"
| "action_table_name (AddColumn table _ _) = Some table"
| "action_table_name (DeleteColumn table _) = Some table"
| "action_table_name (RenameColumn table _ _) = Some table"
| "action_table_name (ModifyColumnType table _ _ _ _ _) = Some table"
| "action_table_name (ModifyColumnNullable table _ _ _ _) = Some table"
| "action_table_name (ModifyColumnDefault table _ _ _) = Some table"
| "action_table_name (ModifyColumnComment table _ _) = Some table"
| "action_table_name (AddConstraint table _) = Some table"
| "action_table_name (RemoveConstraint table _) = Some table"
| "action_table_name (ReplaceConstraint table _ _) = Some table"
| "action_table_name (RemapEnumValues table _ _) = Some table"
| "action_table_name (RenameTable from _) = Some from"
| "action_table_name (RawSql _) = None"
| "action_table_name (DataMigration _ _) = None"

section \<open>The DDL guard\<close>

fun sql_postgres :: "data_migration_sql \<Rightarrow> string" where
  "sql_postgres (Uniform sql) = sql"
| "sql_postgres (PerBackend postgres mysql sqlite) = postgres"

fun sql_mysql :: "data_migration_sql \<Rightarrow> string" where
  "sql_mysql (Uniform sql) = sql"
| "sql_mysql (PerBackend postgres mysql sqlite) = mysql"

fun sql_sqlite :: "data_migration_sql \<Rightarrow> string" where
  "sql_sqlite (Uniform sql) = sql"
| "sql_sqlite (PerBackend postgres mysql sqlite) = sqlite"

fun statements :: "data_migration_sql \<Rightarrow> string list" where
  "statements (Uniform sql) = [sql]"
| "statements (PerBackend postgres mysql sqlite) = [postgres, mysql, sqlite]"

definition DDL_KEYWORDS :: "string list" where
  "DDL_KEYWORDS = [''CREATE'', ''ALTER'', ''DROP'', ''TRUNCATE'']"

definition after_pattern :: "string \<Rightarrow> string \<Rightarrow> string" where
  "after_pattern pat s = (case split_once pat s of None \<Rightarrow> [] | Some (_, tail) \<Rightarrow> tail)"

lemma strip_prefix_append: "strip_prefix p s = Some r \<longleftrightarrow> s = p @ r"
  by (induction p s rule: strip_prefix.induct) auto

lemma split_once_append: "split_once pat s = Some (h, t) \<Longrightarrow> s = h @ pat @ t"
  by (induction pat s arbitrary: h rule: split_once.induct)
    (auto simp: strip_prefix_append split: option.splits)

lemma length_after_pattern: "length (after_pattern pat s) \<le> length s"
  by (auto simp: after_pattern_def dest: split_once_append split: option.splits)

lemma length_trim_start: "length (trim_start s) \<le> length s"
  by (simp add: trim_start_def length_dropWhile_le)

lemma length_trim_after_pattern: "length (trim_start (after_pattern pat s)) < Suc (Suc (length s))"
  using length_after_pattern [of pat s] length_trim_start [of "after_pattern pat s"] by linarith

text \<open>The loop of \<open>strip_leading_trivia\<close>; the text gets shorter in every round.\<close>

function trivia_loop :: "string \<Rightarrow> string" where
  "trivia_loop rest =
     (case strip_prefix ''--'' rest of
        Some after \<Rightarrow> trivia_loop (trim_start (after_pattern [CHR 0x0A] after))
      | None \<Rightarrow>
          (case strip_prefix ''/*'' rest of
             Some after \<Rightarrow> trivia_loop (trim_start (after_pattern ''*/'' after))
           | None \<Rightarrow> rest))"
  by pat_completeness auto
termination
  by (relation "measure length") (auto simp: strip_prefix_append length_trim_after_pattern)

declare trivia_loop.simps [simp del]

definition strip_leading_trivia :: "string \<Rightarrow> string" where
  "strip_leading_trivia sql = trivia_loop (trim_start sql)"

definition starts_with_keyword :: "string \<Rightarrow> string \<Rightarrow> bool" where
  "starts_with_keyword body keyword =
     (if length body < length keyword then False
      else if \<not> eq_ignore_ascii_case (take (length keyword) body) keyword then False
      else (case drop (length keyword) body of
              [] \<Rightarrow> True
            | c # _ \<Rightarrow> \<not> (is_ascii_alphanumeric c \<or> c = CHR ''_'')))"

definition leading_ddl_keyword :: "string \<Rightarrow> string option" where
  "leading_ddl_keyword sql =
     (let body = strip_leading_trivia sql
      in find (\<lambda>keyword. starts_with_keyword body keyword) DDL_KEYWORDS)"

definition sql_preview :: "string \<Rightarrow> string" where
  "sql_preview sql =
     (let collapsed = join '' '' (split_whitespace (strip_leading_trivia sql))
      in if 60 < length collapsed then take 57 collapsed @ ''...'' else collapsed)"

fun find_map :: "('a \<Rightarrow> 'b option) \<Rightarrow> 'a list \<Rightarrow> 'b option" where
  "find_map f [] = None"
| "find_map f (x # xs) = (case f x of None \<Rightarrow> find_map f xs | Some y \<Rightarrow> Some y)"

fun data_migration_ddl_violation :: "migration_action \<Rightarrow> (string \<times> string) option" where
  "data_migration_ddl_violation (DataMigration sql _) =
     find_map (\<lambda>stmt. map_option (\<lambda>keyword. (keyword, stmt)) (leading_ddl_keyword stmt)) (statements sql)"
| "data_migration_ddl_violation _ = None"

section \<open>Prefixes\<close>

fun prefix_remaining_action :: "migration_action \<Rightarrow> string \<Rightarrow> migration_action" where
  "prefix_remaining_action (ModifyColumnDefault table column new_default backfill) prefix =
     ModifyColumnDefault (table_name_with_prefix prefix table) column new_default backfill"
| "prefix_remaining_action (ModifyColumnComment table column new_comment) prefix =
     ModifyColumnComment (table_name_with_prefix prefix table) column new_comment"
| "prefix_remaining_action (AddConstraint table constraint) prefix =
     AddConstraint (table_name_with_prefix prefix table) (constraint_with_prefix prefix constraint)"
| "prefix_remaining_action (RemoveConstraint table constraint) prefix =
     RemoveConstraint (table_name_with_prefix prefix table) (constraint_with_prefix prefix constraint)"
| "prefix_remaining_action (ReplaceConstraint table from to) prefix =
     ReplaceConstraint (table_name_with_prefix prefix table)
       (constraint_with_prefix prefix from) (constraint_with_prefix prefix to)"
| "prefix_remaining_action other prefix = other"

fun prefix_column_or_constraint_action :: "migration_action \<Rightarrow> string \<Rightarrow> migration_action" where
  "prefix_column_or_constraint_action (AddColumn table column fill_with) prefix =
     AddColumn (table_name_with_prefix prefix table) column fill_with"
| "prefix_column_or_constraint_action (RenameColumn table from to) prefix =
     RenameColumn (table_name_with_prefix prefix table) from to"
| "prefix_column_or_constraint_action (DeleteColumn table column) prefix =
     DeleteColumn (table_name_with_prefix prefix table) column"
| "prefix_column_or_constraint_action
     (ModifyColumnType table column new_type fill_with strategy timezone) prefix =
     ModifyColumnType (table_name_with_prefix prefix table) column new_type fill_with strategy timezone"
| "prefix_column_or_constraint_action
     (ModifyColumnNullable table column nullable fill_with delete_null_rows) prefix =
     ModifyColumnNullable (table_name_with_prefix prefix table) column nullable fill_with delete_null_rows"
| "prefix_column_or_constraint_action action prefix = prefix_remaining_action action prefix"

fun prefix_migration_action :: "migration_action \<Rightarrow> string \<Rightarrow> migration_action" where
  "prefix_migration_action (CreateTable table columns constraints) prefix =
     CreateTable (table_name_with_prefix prefix table) columns
       (map (constraint_with_prefix prefix) constraints)"
| "prefix_migration_action (DeleteTable table) prefix = DeleteTable (table_name_with_prefix prefix table)"
| "prefix_migration_action (RenameTable from to) prefix =
     RenameTable (table_name_with_prefix prefix from) (table_name_with_prefix prefix to)"
| "prefix_migration_action (RawSql sql) prefix = RawSql sql"
| "prefix_migration_action (DataMigration sql description) prefix = DataMigration sql description"
| "prefix_migration_action action prefix = prefix_column_or_constraint_action action prefix"

definition action_with_prefix :: "migration_action \<Rightarrow> string \<Rightarrow> migration_action" where
  "action_with_prefix action prefix =
     (if prefix = [] then action else prefix_migration_action action prefix)"

definition plan_with_prefix :: "migration_plan \<Rightarrow> string \<Rightarrow> migration_plan" where
  "plan_with_prefix plan prefix =
     (if prefix = [] then plan
      else plan\<lparr>plan_actions := map (\<lambda>action. action_with_prefix action prefix) (plan_actions plan)\<rparr>)"

section \<open>Display\<close>

definition truncate_chars :: "string \<Rightarrow> nat \<Rightarrow> string" where
  "truncate_chars s max_chars = take max_chars s"

definition truncate_comment :: "string \<Rightarrow> string" where
  "truncate_comment comment =
     (if 30 < length comment then truncate_chars comment 27 @ ''...'' else comment)"

definition write_nullable_action :: "string \<Rightarrow> string \<Rightarrow> bool \<Rightarrow> string" where
  "write_nullable_action table column nullable =
     ''ModifyColumnNullable: '' @ table @ ''.'' @ column @ '' -> '' @
     (if nullable then ''NULL'' else ''NOT NULL'')"

definition write_default_action :: "string \<Rightarrow> string \<Rightarrow> string option \<Rightarrow> string" where
  "write_default_action table column d =
     ''ModifyColumnDefault: '' @ table @ ''.'' @ column @ '' -> '' @
     (case d of Some s \<Rightarrow> s | None \<Rightarrow> ''(none)'')"

definition write_comment_action :: "string \<Rightarrow> string \<Rightarrow> string option \<Rightarrow> string" where
  "write_comment_action table column comment =
     ''ModifyColumnComment: '' @ table @ ''.'' @ column @ '' -> '' @
     (case comment of Some s \<Rightarrow> quoted (truncate_comment s) | None \<Rightarrow> ''(none)'')"

definition write_raw_sql_action :: "string \<Rightarrow> string" where
  "write_raw_sql_action sql =
     (if 50 < length sql then ''RawSql: '' @ truncate_chars sql 47 @ ''...'' else ''RawSql: '' @ sql)"

definition write_data_migration_action :: "data_migration_sql \<Rightarrow> string option \<Rightarrow> string" where
  "write_data_migration_action sql description =
     ''DataMigration: '' @
     (case description of Some d \<Rightarrow> d | None \<Rightarrow> sql_preview (sql_postgres sql))"

definition write_named_constraint :: "string \<Rightarrow> string \<Rightarrow> string option \<Rightarrow> string \<Rightarrow> string" where
  "write_named_constraint action table name fallback =
     (case name of
        Some n \<Rightarrow> action @ '': '' @ table @ ''.'' @ n @ '' ('' @ fallback @ '')''
      | None \<Rightarrow> action @ '': '' @ table @ ''.'' @ fallback)"

fun write_constraint_action :: "string \<Rightarrow> string \<Rightarrow> table_constraint \<Rightarrow> string" where
  "write_constraint_action action table (PrimaryKey _ _ _) = action @ '': '' @ table @ ''.PRIMARY KEY''"
| "write_constraint_action action table (Unique name _ _) =
     write_named_constraint action table name ''UNIQUE''"
| "write_constraint_action action table (ForeignKey name _ _ _ _ _ _) =
     write_named_constraint action table name ''FOREIGN KEY''"
| "write_constraint_action action table (Check name _ _) =
     action @ '': '' @ table @ ''.'' @ name @ '' (CHECK)''"
| "write_constraint_action action table (Index name _) =
     write_named_constraint action table name ''INDEX''"

primrec write_migration_action :: "migration_action \<Rightarrow> string" where
  "write_migration_action (CreateTable table _ _) = ''CreateTable: '' @ table"
| "write_migration_action (DeleteTable table) = ''DeleteTable: '' @ table"
| "write_migration_action (AddColumn table column _) =
     ''AddColumn: '' @ table @ ''.'' @ col_name column"
| "write_migration_action (RenameColumn table from to) =
     ''RenameColumn: '' @ table @ ''.'' @ from @ '' -> '' @ to"
| "write_migration_action (DeleteColumn table column) = ''DeleteColumn: '' @ table @ ''.'' @ column"
| "write_migration_action (ModifyColumnType table column _ _ _ _) =
     ''ModifyColumnType: '' @ table @ ''.'' @ column"
| "write_migration_action (ModifyColumnNullable table column nullable _ _) =
     write_nullable_action table column nullable"
| "write_migration_action (ModifyColumnDefault table column new_default _) =
     write_default_action table column new_default"
| "write_migration_action (ModifyColumnComment table column new_comment) =
     write_comment_action table column new_comment"
| "write_migration_action (AddConstraint table constraint) =
     write_constraint_action ''AddConstraint'' table constraint"
| "write_migration_action (RemoveConstraint table constraint) =
     write_constraint_action ''RemoveConstraint'' table constraint"
| "write_migration_action (ReplaceConstraint table _ to) =
     write_constraint_action ''ReplaceConstraint'' table to"
| "write_migration_action (RenameTable from to) = ''RenameTable: '' @ from @ '' -> '' @ to"
| "write_migration_action (RawSql sql) = write_raw_sql_action sql"
| "write_migration_action (DataMigration sql description) =
     write_data_migration_action sql description"
| "write_migration_action (RemapEnumValues table column mapping) =
     ''RemapEnumValues: '' @ table @ ''.'' @ column @ '' ['' @
     join '', '' (map (\<lambda>(old, new). int_to_string old @ ''->'' @ int_to_string new) mapping) @ '']''"

section \<open>The guard against its specification\<close>

text \<open>
  What may stand before the first token: white space, line comments, block comments that do
  not nest.
\<close>

inductive sql_trivia :: "string \<Rightarrow> bool" where
  trivia_none: "sql_trivia []"
| trivia_space: "is_whitespace c \<Longrightarrow> sql_trivia t \<Longrightarrow> sql_trivia (c # t)"
| trivia_line: "split_once [CHR 0x0A] l = None \<Longrightarrow> sql_trivia t \<Longrightarrow>
    sql_trivia (''--'' @ l @ [CHR 0x0A] @ t)"
| trivia_block: "split_once ''*/'' b = None \<Longrightarrow> sql_trivia t \<Longrightarrow> sql_trivia (''/*'' @ b @ ''*/'' @ t)"

definition token_boundary :: "string \<Rightarrow> bool" where
  "token_boundary s \<longleftrightarrow> (case s of [] \<Rightarrow> True | c # _ \<Rightarrow> \<not> is_ascii_alphanumeric c \<and> c \<noteq> CHR ''_'')"

definition opens_with :: "string \<Rightarrow> string \<Rightarrow> bool" where
  "opens_with sql keyword \<longleftrightarrow>
     (\<exists>t w rest. sql = t @ w @ rest \<and> sql_trivia t \<and> eq_ignore_ascii_case w keyword \<and> token_boundary rest)"

lemma trim_start_simps [str_simps]:
  "trim_start [] = []"
  "is_whitespace c \<Longrightarrow> trim_start (c # s) = trim_start s"
  "\<not> is_whitespace c \<Longrightarrow> trim_start (c # s) = c # s"
  by (simp_all add: trim_start_def)

lemma trim_start_split: "\<exists>t. s = t @ trim_start s \<and> sql_trivia t"
proof (induction s)
  case (Cons c s)
  then obtain t where "s = t @ trim_start s" "sql_trivia t" by blast
  then show ?case
  proof (cases "is_whitespace c")
    case True
    with Cons show ?thesis
      by (metis append_Cons trim_start_simps(2) trivia_space)
  qed (auto simp: str_simps intro: sql_trivia.intros)
qed (auto simp: str_simps intro: sql_trivia.intros)

lemma split_once_first:
  "split_once [p] l = None \<Longrightarrow> split_once [p] (l @ p # r) = Some (l, r)"
  by (induction l) (auto split: option.splits if_splits)

lemma split_once_pair:
  assumes "p \<noteq> q" and "split_once [p, q] l = None"
  shows "split_once [p, q] (l @ p # q # r) = Some (l, r)"
  using assms(2)
proof (induction l)
  case (Cons c l)
  have "strip_prefix [p, q] ((c # l) @ p # q # r) = None"
    using Cons.prems assms(1) by (cases l) (auto split: if_splits option.splits)
  with Cons show ?case by (auto split: option.splits if_splits)
qed simp

lemma after_pattern_line: "split_once [CHR 0x0A] l = None \<Longrightarrow> after_pattern [CHR 0x0A] (l @ CHR 0x0A # r) = r"
  by (simp add: after_pattern_def split_once_first)

lemma after_pattern_block: "split_once ''*/'' l = None \<Longrightarrow> after_pattern ''*/'' (l @ ''*/'' @ r) = r"
  by (simp add: after_pattern_def split_once_pair)

lemma not_white [simp]: "\<not> is_whitespace CHR ''-''" "\<not> is_whitespace CHR ''/''"
  by (simp_all add: is_whitespace_def is_ascii_whitespace_def)

lemma strip_leading_trivia_skips: "sql_trivia t \<Longrightarrow> strip_leading_trivia (t @ s) = strip_leading_trivia s"
proof (induction rule: sql_trivia.induct)
  case (trivia_line l t)
  then show ?case
    using after_pattern_line [of l "t @ s"]
    by (simp add: strip_leading_trivia_def str_simps trivia_loop.simps [of "CHR ''-'' # _"])
next
  case (trivia_block b t)
  then show ?case
    using after_pattern_block [of b "t @ s"]
    by (simp add: strip_leading_trivia_def str_simps trivia_loop.simps [of "CHR ''/'' # _"])
qed (simp_all add: strip_leading_trivia_def str_simps)

lemma sql_trivia_append: "sql_trivia t \<Longrightarrow> sql_trivia u \<Longrightarrow> sql_trivia (t @ u)"
  by (induction rule: sql_trivia.induct) (auto intro: sql_trivia.intros simp: sql_trivia.intros(3,4) [simplified])

lemma split_once_None_prefix:
  "split_once pat s = Some (h, t) \<Longrightarrow> pat \<noteq> [] \<Longrightarrow> split_once pat h = None"
proof (induction s arbitrary: h)
  case Nil
  then show ?case by (auto simp: strip_prefix_append split: option.splits)
next
  case (Cons c s)
  show ?case
  proof (cases "strip_prefix pat (c # s)")
    case None
    with Cons.prems obtain h' where h: "h = c # h'" "split_once pat s = Some (h', t)"
      by (auto split: option.splits)
    have "strip_prefix pat (c # h') = None"
    proof (rule ccontr)
      assume "strip_prefix pat (c # h') \<noteq> None"
      then obtain r where "c # h' = pat @ r" by (auto simp: strip_prefix_append)
      then have "c # s = pat @ r @ pat @ t"
        using split_once_append [OF h(2)] by (metis append_Cons append_assoc)
      with None show False
        by (metis option.distinct(1) strip_prefix_append)
    qed
    with h Cons show ?thesis by simp
  qed (use Cons.prems in \<open>cases pat; auto\<close>)
qed

lemma after_pattern_split:
  assumes "pat \<noteq> []"
  shows "after_pattern pat s = [] \<or> (\<exists>h. s = h @ pat @ after_pattern pat s \<and> split_once pat h = None)"
  using split_once_None_prefix [OF _ assms, of s] split_once_append [of pat s]
  by (auto simp: after_pattern_def split: option.splits)

lemma trivia_loop_nil [simp]: "trivia_loop [] = []"
  by (simp add: trivia_loop.simps)

lemma trivia_loop_split: "trivia_loop s = [] \<or> (\<exists>t. s = t @ trivia_loop s \<and> sql_trivia t)"
proof (induction s rule: trivia_loop.induct)
  case (1 s)
  have step: "trivia_loop s = [] \<or> (\<exists>t. s = t @ trivia_loop s \<and> sql_trivia t)"
    if pat: "pat \<noteq> []" and loop: "trivia_loop s = trivia_loop (trim_start (after_pattern pat r))"
      and s: "s = pre @ r"
      and tr: "\<And>h t. split_once pat h = None \<Longrightarrow> sql_trivia t \<Longrightarrow> sql_trivia (pre @ h @ pat @ t)"
      and IH: "trivia_loop (trim_start (after_pattern pat r)) = [] \<or>
        (\<exists>t. trim_start (after_pattern pat r) = t @ trivia_loop (trim_start (after_pattern pat r)) \<and> sql_trivia t)"
    for pat r pre
  proof (cases "trivia_loop s = []")
    case False
    with IH loop obtain t where t: "trim_start (after_pattern pat r) = t @ trivia_loop s" "sql_trivia t"
      by auto
    obtain u where u: "after_pattern pat r = u @ trim_start (after_pattern pat r)" "sql_trivia u"
      using trim_start_split by blast
    have "after_pattern pat r \<noteq> []"
      using False loop by (auto simp: str_simps)
    then obtain h where h: "r = h @ pat @ after_pattern pat r" "split_once pat h = None"
      using after_pattern_split [OF pat, of r] by blast
    have "s = (pre @ h @ pat @ (u @ t)) @ trivia_loop s"
      using s h(1) u(1) t(1) by simp
    moreover have "sql_trivia (pre @ h @ pat @ (u @ t))"
      using tr h(2) sql_trivia_append u(2) t(2) by blast
    ultimately show ?thesis by blast
  qed simp
  show ?case
  proof (cases "strip_prefix ''--'' s")
    case (Some r)
    have loop: "trivia_loop s = trivia_loop (trim_start (after_pattern [CHR 0x0A] r))"
      using Some by (subst trivia_loop.simps) simp
    show ?thesis
    proof (rule step [OF _ loop])
      show "sql_trivia (''--'' @ h @ [CHR 0x0A] @ t)" if "split_once [CHR 0x0A] h = None" "sql_trivia t" for h t
        using that by (rule trivia_line)
    qed (use Some 1(2) [OF Some] in \<open>simp_all add: strip_prefix_append\<close>)
  next
    case line: None
    show ?thesis
    proof (cases "strip_prefix ''/*'' s")
      case (Some r)
      have loop: "trivia_loop s = trivia_loop (trim_start (after_pattern ''*/'' r))"
        using Some line by (subst trivia_loop.simps) simp
      show ?thesis
      proof (rule step [OF _ loop])
        show "sql_trivia (''/*'' @ h @ ''*/'' @ t)" if "split_once ''*/'' h = None" "sql_trivia t" for h t
          using that by (rule trivia_block)
      qed (use Some 1(1) [OF line Some] in \<open>simp_all add: strip_prefix_append\<close>)
    next
      case None
      with line show ?thesis
        by (auto simp: trivia_loop.simps [of s] intro: trivia_none)
    qed
  qed
qed

lemma starts_with_keyword_iff:
  "starts_with_keyword body keyword \<longleftrightarrow>
     (\<exists>w rest. body = w @ rest \<and> eq_ignore_ascii_case w keyword \<and> token_boundary rest)"
proof
  assume "starts_with_keyword body keyword"
  then have "body = take (length keyword) body @ drop (length keyword) body"
    and "eq_ignore_ascii_case (take (length keyword) body) keyword"
    and "token_boundary (drop (length keyword) body)"
    by (auto simp: starts_with_keyword_def token_boundary_def split: if_splits list.splits)
  then show "\<exists>w rest. body = w @ rest \<and> eq_ignore_ascii_case w keyword \<and> token_boundary rest"
    by blast
next
  assume "\<exists>w rest. body = w @ rest \<and> eq_ignore_ascii_case w keyword \<and> token_boundary rest"
  then obtain w rest where *: "body = w @ rest" "eq_ignore_ascii_case w keyword" "token_boundary rest"
    by blast
  then have "length w = length keyword"
    unfolding eq_ignore_ascii_case_def to_lowercase_def by (metis length_map)
  with * show "starts_with_keyword body keyword"
    by (auto simp: starts_with_keyword_def token_boundary_def split: list.splits)
qed

lemma ddl_first_letter:
  assumes "eq_ignore_ascii_case w k" and "k \<in> set DDL_KEYWORDS"
  obtains c w' where "w = c # w'" and "is_ascii_lowercase (to_ascii_lowercase c)"
    and "to_ascii_lowercase c = to_ascii_lowercase (hd k)"
proof -
  have "\<forall>k \<in> set DDL_KEYWORDS. k \<noteq> [] \<and> is_ascii_lowercase (to_ascii_lowercase (hd k))"
    by code_simp
  with assms(2) obtain d k' where k: "k = d # k'" and d: "is_ascii_lowercase (to_ascii_lowercase d)"
    by (metis list.exhaust_sel)
  with assms(1) obtain c w' where "w = c # w'" "to_ascii_lowercase c = to_ascii_lowercase d"
    by (auto simp: eq_ignore_ascii_case_def to_lowercase_def Cons_eq_map_conv)
  with that k d show thesis by simp
qed

lemma letter_no_trivia:
  "is_ascii_lowercase (to_ascii_lowercase c) \<Longrightarrow> \<not> is_whitespace c \<and> c \<noteq> CHR ''-'' \<and> c \<noteq> CHR ''/''"
  by (auto simp: to_ascii_lowercase_def is_ascii_uppercase_def is_ascii_lowercase_def
      is_whitespace_def is_ascii_whitespace_def)

lemma strip_leading_trivia_letter:
  "is_ascii_lowercase (to_ascii_lowercase c) \<Longrightarrow> strip_leading_trivia (c # s) = c # s"
  using letter_no_trivia [of c]
  by (auto simp: strip_leading_trivia_def str_simps trivia_loop.simps [of "c # s"])

lemma ddl_keyword_unique:
  assumes "starts_with_keyword body k" "starts_with_keyword body k'"
    and "k \<in> set DDL_KEYWORDS" "k' \<in> set DDL_KEYWORDS"
  shows "k = k'"
proof -
  obtain w r where 1: "body = w @ r" "eq_ignore_ascii_case w k"
    using assms(1) by (auto simp: starts_with_keyword_iff)
  obtain w' r' where 2: "body = w' @ r'" "eq_ignore_ascii_case w' k'"
    using assms(2) by (auto simp: starts_with_keyword_iff)
  have "to_ascii_lowercase (hd k) = to_ascii_lowercase (hd k')"
    using ddl_first_letter [OF 1(2) assms(3)] ddl_first_letter [OF 2(2) assms(4)] 1(1) 2(1)
    by (metis append_Cons list.inject)
  moreover have "\<forall>a \<in> set DDL_KEYWORDS. \<forall>b \<in> set DDL_KEYWORDS.
      to_ascii_lowercase (hd a) = to_ascii_lowercase (hd b) \<longrightarrow> a = b"
    by code_simp
  ultimately show ?thesis using assms(3,4) by blast
qed

lemma leading_ddl_keyword_iff:
  "leading_ddl_keyword sql = Some k \<longleftrightarrow> k \<in> set DDL_KEYWORDS \<and> opens_with sql k"
proof
  assume *: "leading_ddl_keyword sql = Some k"
  then have k: "k \<in> set DDL_KEYWORDS" "starts_with_keyword (strip_leading_trivia sql) k"
    by (auto simp: leading_ddl_keyword_def Let_def find_Some_iff)
  then obtain w rest where w: "strip_leading_trivia sql = w @ rest" "eq_ignore_ascii_case w k"
      "token_boundary rest"
    by (auto simp: starts_with_keyword_iff)
  then have "strip_leading_trivia sql \<noteq> []"
    using ddl_first_letter [OF w(2) k(1)] by auto
  then obtain t where t: "trim_start sql = t @ strip_leading_trivia sql" "sql_trivia t"
    using trivia_loop_split [of "trim_start sql"] by (auto simp: strip_leading_trivia_def)
  obtain u where "sql = u @ trim_start sql" "sql_trivia u"
    using trim_start_split by blast
  with t w have "sql = (u @ t) @ w @ rest" "sql_trivia (u @ t)"
    by (simp_all add: sql_trivia_append)
  with k w show "k \<in> set DDL_KEYWORDS \<and> opens_with sql k"
    unfolding opens_with_def by blast
next
  assume *: "k \<in> set DDL_KEYWORDS \<and> opens_with sql k"
  then obtain t w rest where t: "sql = t @ w @ rest" "sql_trivia t" "eq_ignore_ascii_case w k"
      "token_boundary rest"
    by (auto simp: opens_with_def)
  have "strip_leading_trivia sql = w @ rest"
    using ddl_first_letter [OF t(3)] * strip_leading_trivia_skips [OF t(2)] strip_leading_trivia_letter t(1)
    by (metis append_Cons)
  then have k: "starts_with_keyword (strip_leading_trivia sql) k"
    using t by (auto simp: starts_with_keyword_iff)
  then obtain k' where "leading_ddl_keyword sql = Some k'"
    using * by (cases "leading_ddl_keyword sql") (auto simp: leading_ddl_keyword_def Let_def find_None_iff)
  moreover from this have "k' \<in> set DDL_KEYWORDS" "starts_with_keyword (strip_leading_trivia sql) k'"
    by (auto simp: leading_ddl_keyword_def Let_def find_Some_iff)
  ultimately show "leading_ddl_keyword sql = Some k"
    using ddl_keyword_unique k * by blast
qed

lemma find_map_None: "find_map f xs = None \<longleftrightarrow> (\<forall>x \<in> set xs. f x = None)"
  by (induction xs) (auto split: option.splits)

lemma find_map_Some: "find_map f xs = Some y \<Longrightarrow> \<exists>x \<in> set xs. f x = Some y"
  by (induction xs) (auto split: option.splits)

end
