(* ===== verification/Check_Analysis.thy ===== *)
theory Check_Analysis
  imports Check_Expr Migration_Action Planner_Error
begin

text \<open>
  The analyses of CHECK constraints under \<open>vespertide-planner/src/validate\<close>: defaults against checks
  (\<open>check_default.rs\<close>), reversed \<open>BETWEEN\<close> bounds (\<open>check_between_order.rs\<close>), contradictory conjuncts
  (\<open>check_self_contradiction.rs\<close>), strengthened checks (\<open>check_strengthening.rs\<close>), literals of the wrong
  type (\<open>check_type_mismatch.rs\<close>) and checks added to existing tables (\<open>check_additions.rs\<close>).  A
  \<open>HashMap\<close> that is only asked by key is a list of entries read from the last insertion on.
\<close>

section \<open>Defaults against checks\<close>

fun apply_op_cmp :: "op \<Rightarrow> ordering \<Rightarrow> bool" where
  "apply_op_cmp OpEq o' = (o' = Equal)"
| "apply_op_cmp OpNe o' = (o' \<noteq> Equal)"
| "apply_op_cmp OpLt o' = (o' = Less)"
| "apply_op_cmp OpLe o' = (o' \<noteq> Greater)"
| "apply_op_cmp OpGt o' = (o' = Greater)"
| "apply_op_cmp OpGe o' = (o' \<noteq> Less)"

definition apply_op_i64 :: "op \<Rightarrow> int \<Rightarrow> int \<Rightarrow> bool" where
  "apply_op_i64 op a b = apply_op_cmp op (compare a b)"

definition apply_op_str :: "op \<Rightarrow> string \<Rightarrow> string \<Rightarrow> bool" where
  "apply_op_str op a b = apply_op_cmp op (compare a b)"

fun apply_op_f64 :: "op \<Rightarrow> f64 \<Rightarrow> f64 \<Rightarrow> bool" where
  "apply_op_f64 OpEq a b = f64_lt (f64_abs (f64_sub a b)) f64_epsilon"
| "apply_op_f64 OpNe a b = f64_le f64_epsilon (f64_abs (f64_sub a b))"
| "apply_op_f64 OpLt a b = f64_lt a b"
| "apply_op_f64 OpLe a b = f64_le a b"
| "apply_op_f64 OpGt a b = f64_lt b a"
| "apply_op_f64 OpGe a b = f64_le b a"

fun apply_op_bool :: "op \<Rightarrow> bool \<Rightarrow> bool \<Rightarrow> bool" where
  "apply_op_bool OpEq a b = (a = b)"
| "apply_op_bool OpNe a b = (a \<noteq> b)"
| "apply_op_bool _ a b = True"

fun evaluate_op :: "op \<Rightarrow> default_value \<Rightarrow> literal \<Rightarrow> bool" where
  "evaluate_op op (DefInteger a) (LitInteger b) = apply_op_i64 op a b"
| "evaluate_op op (DefFloat a) (LitFloat b) = apply_op_f64 op a b"
| "evaluate_op op (DefInteger a) (LitFloat b) = apply_op_f64 op (f64_of_int a) b"
| "evaluate_op op (DefFloat a) (LitInteger b) = apply_op_f64 op a (f64_of_int b)"
| "evaluate_op op (DefString a) (LitString b) = apply_op_str op a b"
| "evaluate_op op (DefBool a) (LitBool b) = apply_op_bool op a b"
| "evaluate_op op _ _ = True"

fun literal_equals :: "default_value \<Rightarrow> literal \<Rightarrow> bool" where
  "literal_equals (DefInteger a) (LitInteger b) = (a = b)"
| "literal_equals (DefFloat a) (LitFloat b) = f64_near a b"
| "literal_equals (DefInteger a) (LitFloat b) = f64_near (f64_of_int a) b"
| "literal_equals (DefFloat a) (LitInteger b) = f64_near a (f64_of_int b)"
| "literal_equals (DefString a) (LitString b) = (a = b)"
| "literal_equals (DefBool a) (LitBool b) = (a = b)"
| "literal_equals _ _ = False"

fun check_satisfied :: "simple_column_check \<Rightarrow> default_value \<Rightarrow> bool" where
  "check_satisfied (SimpleOp op value) dflt = evaluate_op op dflt value"
| "check_satisfied (SimpleIn list) dflt = list_ex (literal_equals dflt) list"

definition default_against :: "table_def \<Rightarrow> column_def \<Rightarrow> default_value \<Rightarrow> table_constraint \<Rightarrow> planner_error + unit" where
  "default_against table column dflt constraint =
     (case constraint of
        Check name expr _ \<Rightarrow>
          (case extract_simple_column_check (parse expr) (col_name column) of
             None \<Rightarrow> Inr ()
           | Some simple \<Rightarrow>
               if check_satisfied simple dflt then Inr ()
               else Inl (DefaultViolatesCheck (tbl_name table) (col_name column) (to_sql dflt) name expr))
      | _ \<Rightarrow> Inr ())"

definition validate_default_vs_check :: "table_def \<Rightarrow> planner_error + unit" where
  "validate_default_vs_check table =
     for_each (\<lambda>column.
       case col_default column of
         None \<Rightarrow> Inr ()
       | Some dflt \<Rightarrow> for_each (default_against table column dflt) (tbl_constraints table))
     (tbl_columns table)"

section \<open>Reversed bounds\<close>

definition literal_compare :: "literal \<Rightarrow> literal \<Rightarrow> ordering option" where
  "literal_compare a b =
     (case (a, b) of (LitBool _, LitBool _) \<Rightarrow> None | _ \<Rightarrow> cmp_value a b)"

fun collect_reversed_between :: "check_expr \<Rightarrow> (string \<times> literal \<times> literal) list" where
  "collect_reversed_between (Between column low high negated) =
     (if \<not> negated \<and> literal_compare low high = Some Greater then [(column, low, high)] else [])"
| "collect_reversed_between (AndE parts) = concat (map collect_reversed_between parts)"
| "collect_reversed_between (OrE parts) = concat (map collect_reversed_between parts)"
| "collect_reversed_between (NotE inner) = collect_reversed_between inner"
| "collect_reversed_between _ = []"

definition find_between_boundary_reversals :: "table_def \<Rightarrow> planner_error list" where
  "find_between_boundary_reversals table =
     concat (map (\<lambda>constraint. case constraint of
         Check name expr _ \<Rightarrow>
           map (\<lambda>(column, low, high).
               BetweenBoundaryReversed (tbl_name table) column name (display_value low) (display_value high))
             (collect_reversed_between (parse expr))
       | _ \<Rightarrow> []) (tbl_constraints table))"

text \<open>\<open>into_iter().next().map_or(Ok(()), Err)\<close>.\<close>

definition first_error :: "planner_error list \<Rightarrow> planner_error + unit" where
  "first_error es = (case es of [] \<Rightarrow> Inr () | e # _ \<Rightarrow> Inl e)"

definition validate_between_boundary_order :: "table_def \<Rightarrow> planner_error + unit" where
  "validate_between_boundary_order table = first_error (find_between_boundary_reversals table)"

section \<open>Contradictory conjuncts\<close>

record contradiction =
  con_column :: string
  con_first :: string
  con_second :: string

fun flatten_and :: "check_expr list \<Rightarrow> check_expr list" where
  "flatten_and [] = []"
| "flatten_and (AndE inner # parts) = flatten_and inner @ flatten_and parts"
| "flatten_and (part # parts) = part # flatten_and parts"

fun predicate_column :: "check_expr \<Rightarrow> string option" where
  "predicate_column (Compare column _ _) = Some column"
| "predicate_column (InList column _ _) = Some column"
| "predicate_column (Between column _ _ _) = Some column"
| "predicate_column (IsNull column _) = Some column"
| "predicate_column _ = None"

fun push_group :: "string \<Rightarrow> check_expr \<Rightarrow> (string \<times> check_expr list) list \<Rightarrow> (string \<times> check_expr list) list" where
  "push_group col pred [] = [(col, [pred])]"
| "push_group col pred ((c, existing) # groups) =
     (if c = col then (c, existing @ [pred]) # groups else (c, existing) # push_group col pred groups)"

definition group_predicates_by_column :: "check_expr list \<Rightarrow> (string \<times> check_expr list) list" where
  "group_predicates_by_column flat =
     fold (\<lambda>pred groups. case predicate_column pred of None \<Rightarrow> groups | Some col \<Rightarrow> push_group col pred groups) flat []"

fun format_op :: "op \<Rightarrow> string" where
  "format_op OpEq = ''=''"
| "format_op OpNe = ''<>''"
| "format_op OpLt = ''<''"
| "format_op OpLe = ''<=''"
| "format_op OpGt = ''>''"
| "format_op OpGe = ''>=''"

definition format_compare :: "string \<Rightarrow> op \<Rightarrow> string \<Rightarrow> string" where
  "format_compare column op value_text = column @ '' '' @ format_op op @ '' '' @ value_text"

definition format_is_null :: "string \<Rightarrow> bool \<Rightarrow> string" where
  "format_is_null column negated = (if negated then column @ '' IS NOT NULL'' else column @ '' IS NULL'')"

definition compare_pair_contradicts :: "op \<Rightarrow> literal \<Rightarrow> op \<Rightarrow> literal \<Rightarrow> (string \<times> string) option" where
  "compare_pair_contradicts op_a va op_b vb =
     (case cmp_value va vb of
        None \<Rightarrow> None
      | Some cmp \<Rightarrow>
          let labels = Some (display_value va, display_value vb)
          in if op_a = OpEq \<and> op_b = OpEq \<and> cmp \<noteq> Equal then labels
             else if (op_a = OpEq \<and> op_b = OpNe \<or> op_a = OpNe \<and> op_b = OpEq) \<and> cmp = Equal then labels
             else
               let bounds =
                     (if op_a \<in> {OpGt, OpGe} \<and> op_b \<in> {OpLt, OpLe} then Some (op_a, va, op_b, vb)
                      else if op_a \<in> {OpLt, OpLe} \<and> op_b \<in> {OpGt, OpGe} then Some (op_b, vb, op_a, va)
                      else None)
               in case bounds of
                    None \<Rightarrow> None
                  | Some (lower_op, lower_val, upper_op, upper_val) \<Rightarrow>
                      (case cmp_value lower_val upper_val of
                         None \<Rightarrow> None
                       | Some lower_vs_upper \<Rightarrow>
                           let strict_boundary = (lower_op = OpGt \<or> upper_op = OpLt);
                               unsatisfiable = (lower_vs_upper = Greater \<or> strict_boundary \<and> lower_vs_upper = Equal)
                           in if unsatisfiable then labels else None))"

fun is_null_vs_other :: "check_expr \<Rightarrow> check_expr \<Rightarrow> (bool \<times> op \<times> literal) option" where
  "is_null_vs_other (IsNull _ negated) (Compare _ op value) = Some (negated, op, value)"
| "is_null_vs_other (Compare _ op value) (IsNull _ negated) = Some (negated, op, value)"
| "is_null_vs_other _ _ = None"

definition compare_part :: "string \<Rightarrow> check_expr \<Rightarrow> check_expr \<Rightarrow> contradiction option" where
  "compare_part column a b =
     (case (a, b) of
        (Compare _ op_a va, Compare _ op_b vb) \<Rightarrow>
          map_option (\<lambda>(first, second).
            \<lparr>con_column = column, con_first = format_compare column op_a first,
             con_second = format_compare column op_b second\<rparr>) (compare_pair_contradicts op_a va op_b vb)
      | _ \<Rightarrow> None)"

definition null_part :: "string \<Rightarrow> check_expr \<Rightarrow> check_expr \<Rightarrow> contradiction option" where
  "null_part column a b =
     (case (a, b) of
        (IsNull _ na, IsNull _ nb) \<Rightarrow>
          if na \<noteq> nb
          then Some \<lparr>con_column = column, con_first = format_is_null column na, con_second = format_is_null column nb\<rparr>
          else None
      | _ \<Rightarrow> None)"

definition null_compare_part :: "string \<Rightarrow> check_expr \<Rightarrow> check_expr \<Rightarrow> contradiction option" where
  "null_compare_part column a b =
     (case is_null_vs_other a b of
        Some (isnull_neg, op, value) \<Rightarrow>
          if \<not> isnull_neg
          then Some \<lparr>con_column = column, con_first = format_is_null column isnull_neg,
                 con_second = format_compare column op (display_value value)\<rparr>
          else None
      | None \<Rightarrow> None)"

definition check_pair :: "string \<Rightarrow> check_expr \<Rightarrow> check_expr \<Rightarrow> contradiction option" where
  "check_pair column a b =
     (case compare_part column a b of
        Some c \<Rightarrow> Some c
      | None \<Rightarrow>
          (case null_part column a b of
             Some c \<Rightarrow> Some c
           | None \<Rightarrow> null_compare_part column a b))"

text \<open>The two nested index loops over a group: every element with every later one.\<close>

fun pairs_of :: "'a list \<Rightarrow> ('a \<times> 'a) list" where
  "pairs_of [] = []"
| "pairs_of (x # xs) = map (\<lambda>y. (x, y)) xs @ pairs_of xs"

definition group_contradiction :: "check_expr list \<Rightarrow> contradiction option" where
  "group_contradiction flat =
     find_map (\<lambda>(column, preds). find_map (\<lambda>(a, b). check_pair column a b) (pairs_of preds))
       (group_predicates_by_column flat)"

lemma flatten_and_size: "x \<in> set (flatten_and parts) \<Longrightarrow> size x \<le> size_list size parts"
  by (induction parts rule: flatten_and.induct) fastforce+

lemma find_map_cong [fundef_cong]: "xs = ys \<Longrightarrow> (\<And>x. x \<in> set ys \<Longrightarrow> f x = g x) \<Longrightarrow> find_map f xs = find_map g ys"
  by (induction ys arbitrary: xs) (auto split: option.splits)

function find_contradiction :: "check_expr \<Rightarrow> contradiction option" where
  "find_contradiction (AndE parts) =
     (case group_contradiction (flatten_and parts) of
        Some c \<Rightarrow> Some c
      | None \<Rightarrow> find_map find_contradiction (flatten_and parts))"
| "find_contradiction (OrE parts) = find_map find_contradiction parts"
| "find_contradiction (Compare c op l) = None"
| "find_contradiction (InList c vs n) = None"
| "find_contradiction (Between c l h n) = None"
| "find_contradiction (IsNull c n) = None"
| "find_contradiction (NotE e) = None"
| "find_contradiction Unparseable = None"
  by pat_completeness auto
termination
proof (relation "measure size")
  show "(x, AndE parts) \<in> measure size" if "x \<in> set (flatten_and parts)" for x parts
    using flatten_and_size [OF that] by simp
next
  show "(x, OrE parts) \<in> measure size" if "x \<in> set parts" for x parts
    using that by (simp add: less_Suc_eq_le size_list_estimation')
qed simp

definition find_self_contradictions :: "table_def \<Rightarrow> planner_error list" where
  "find_self_contradictions table =
     List.map_filter (\<lambda>constraint. case constraint of
         Check name expr _ \<Rightarrow>
           map_option (\<lambda>c. CheckSelfContradiction (tbl_name table) name (con_column c) (con_first c) (con_second c))
             (find_contradiction (parse expr))
       | _ \<Rightarrow> None) (tbl_constraints table)"

definition validate_self_contradiction :: "table_def \<Rightarrow> planner_error + unit" where
  "validate_self_contradiction table = first_error (find_self_contradictions table)"

section \<open>Strengthened checks\<close>

datatype check_strengthening_kind =
    BoundaryTightened | OperatorTightened | InListShrunk | BetweenNarrowed | ConjunctAdded | DisjunctRemoved

record check_strengthening_warning =
  csw_action_index :: nat
  csw_table :: string
  csw_constraint_name :: string
  csw_old_expr :: string
  csw_new_expr :: string
  csw_kind :: check_strengthening_kind

definition compare_strictness :: "op \<Rightarrow> literal \<Rightarrow> op \<Rightarrow> literal \<Rightarrow> check_strengthening_kind option" where
  "compare_strictness op1 v1 op2 v2 =
     (if op1 = op2 \<and> approx_eq v1 v2 then None
      else if op1 = op2 then
        (case cmp_value v1 v2 of
           None \<Rightarrow> None
         | Some cmp \<Rightarrow>
             let tighter = (if op1 = OpGt \<or> op1 = OpGe then cmp = Less
                            else if op1 = OpLt \<or> op1 = OpLe then cmp = Greater else False)
             in if tighter then Some BoundaryTightened else None)
      else if approx_eq v1 v2 \<and> (op1 = OpGe \<and> op2 = OpGt \<or> op1 = OpLe \<and> op2 = OpLt) then Some OperatorTightened
      else None)"

definition in_is_strict_subset :: "literal list \<Rightarrow> literal list \<Rightarrow> bool" where
  "in_is_strict_subset sub super =
     (if length sub \<ge> length super then False
      else if sub = [] then False
      else list_all (\<lambda>s. list_ex (\<lambda>l. approx_eq s l) super) sub)"

definition between_is_narrower :: "literal \<Rightarrow> literal \<Rightarrow> literal \<Rightarrow> literal \<Rightarrow> bool" where
  "between_is_narrower old_low old_high new_low new_high =
     (case (cmp_value old_low new_low, cmp_value old_high new_high) of
        (Some lo_cmp, Some hi_cmp) \<Rightarrow>
          lo_cmp \<noteq> Greater \<and> hi_cmp \<noteq> Less \<and> (lo_cmp = Less \<or> hi_cmp = Greater)
      | _ \<Rightarrow> False)"

fun is_and :: "check_expr \<Rightarrow> bool" where
  "is_and (AndE _) = True"
| "is_and _ = False"

text \<open>The arms that do not apply fall through to the arm for an \<open>AND\<close> that holds the old expression.\<close>

definition conjunct_added :: "check_expr \<Rightarrow> check_expr \<Rightarrow> check_strengthening_kind option" where
  "conjunct_added old new =
     (case new of
        AndE new_parts \<Rightarrow>
          if \<not> is_and old \<and> 2 \<le> length new_parts \<and> list_ex (\<lambda>p. check_eq p old) new_parts
          then Some ConjunctAdded else None
      | _ \<Rightarrow> None)"

definition classify_pair :: "check_expr \<Rightarrow> check_expr \<Rightarrow> check_strengthening_kind option" where
  "classify_pair old new =
     (case (old, new) of
        (Compare c1 op1 v1, Compare c2 op2 v2) \<Rightarrow> if c1 = c2 then compare_strictness op1 v1 op2 v2 else None
      | (InList c1 vs1 n1, InList c2 vs2 n2) \<Rightarrow>
          if \<not> n1 \<and> \<not> n2 \<and> c1 = c2 \<and> in_is_strict_subset vs2 vs1 then Some InListShrunk else None
      | (Between c1 l1 h1 n1, Between c2 l2 h2 n2) \<Rightarrow>
          if \<not> n1 \<and> \<not> n2 \<and> c1 = c2 \<and> between_is_narrower l1 h1 l2 h2 then Some BetweenNarrowed else None
      | (AndE old_parts, AndE new_parts) \<Rightarrow>
          if length old_parts < length new_parts \<and>
             list_all (\<lambda>p. list_ex (\<lambda>np. check_eq np p) new_parts) old_parts
          then Some ConjunctAdded else None
      | (OrE old_parts, OrE new_parts) \<Rightarrow>
          if new_parts \<noteq> [] \<and> length new_parts < length old_parts \<and>
             list_all (\<lambda>np. list_ex (\<lambda>p. check_eq p np) old_parts) new_parts
          then Some DisjunctRemoved else None
      | _ \<Rightarrow> conjunct_added old new)"

definition classify_strengthening :: "string \<Rightarrow> string \<Rightarrow> check_strengthening_kind option" where
  "classify_strengthening old_expr_str new_expr_str =
     (if trim old_expr_str = trim new_expr_str then None
      else let old = parse old_expr_str
           in if old = Unparseable then None
              else let new = parse new_expr_str
                   in if new = Unparseable then None
                      else if check_eq old new then None
                      else classify_pair old new)"

definition build_baseline_check_map :: "table_def list \<Rightarrow> ((string \<times> string) \<times> string) list" where
  "build_baseline_check_map baseline =
     rev (concat (map (\<lambda>table. List.map_filter (\<lambda>constraint. case constraint of
         Check name expr _ \<Rightarrow> Some ((tbl_name table, name), expr)
       | _ \<Rightarrow> None) (tbl_constraints table)) baseline))"

type_synonym strengthening_scan = "((string \<times> string) \<times> string) list \<times> check_strengthening_warning list"

definition strengthening_warning ::
  "nat \<Rightarrow> string \<Rightarrow> string \<Rightarrow> string \<Rightarrow> string \<Rightarrow> check_strengthening_warning list" where
  "strengthening_warning idx table name old_expr new_expr =
     (case classify_strengthening old_expr new_expr of
        None \<Rightarrow> []
      | Some kind \<Rightarrow> [\<lparr>csw_action_index = idx, csw_table = table, csw_constraint_name = name,
          csw_old_expr = old_expr, csw_new_expr = new_expr, csw_kind = kind\<rparr>])"

definition strengthening_step ::
  "((string \<times> string) \<times> string) list \<Rightarrow> nat \<times> migration_action \<Rightarrow> strengthening_scan \<Rightarrow> strengthening_scan" where
  "strengthening_step baseline_checks entry st =
     (case (entry, st) of ((idx, action), (removed_in_plan, out)) \<Rightarrow>
        (case action of
           RemoveConstraint table (Check name expr _) \<Rightarrow> (((table, name), expr) # removed_in_plan, out)
         | ReplaceConstraint table (Check from_name from_expr _) (Check to_name to_expr _) \<Rightarrow>
             if from_name = to_name
             then (removed_in_plan, out @ strengthening_warning idx table to_name from_expr to_expr)
             else (removed_in_plan, out)
         | AddConstraint table (Check name new_expr _) \<Rightarrow>
             (case (case map_of removed_in_plan (table, name) of
                      Some expr \<Rightarrow> Some expr | None \<Rightarrow> map_of baseline_checks (table, name)) of
                None \<Rightarrow> (removed_in_plan, out)
              | Some old_expr \<Rightarrow> (removed_in_plan, out @ strengthening_warning idx table name old_expr new_expr))
         | _ \<Rightarrow> (removed_in_plan, out)))"

definition find_check_strengthenings :: "migration_plan \<Rightarrow> table_def list \<Rightarrow> check_strengthening_warning list" where
  "find_check_strengthenings plan baseline =
     snd (fold (strengthening_step (build_baseline_check_map baseline)) (enumerated (plan_actions plan)) ([], []))"

section \<open>Literals of the wrong type\<close>

record check_type_mismatch_warning =
  ctm_action_index :: nat
  ctm_table :: string
  ctm_constraint_name :: string
  ctm_column :: string
  ctm_column_type_label :: string
  ctm_literal_text :: string
  ctm_literal_kind :: string
  ctm_expr :: string

fun literal_kind_name :: "literal \<Rightarrow> string" where
  "literal_kind_name (LitInteger _) = ''Integer''"
| "literal_kind_name (LitFloat _) = ''Float''"
| "literal_kind_name (LitString _) = ''String''"
| "literal_kind_name (LitBool _) = ''Bool''"
| "literal_kind_name LitNull = ''Null''"

fun lit_is_string :: "literal \<Rightarrow> bool" where
  "lit_is_string (LitString _) = True"
| "lit_is_string _ = False"

fun lit_is_bool :: "literal \<Rightarrow> bool" where
  "lit_is_bool (LitBool _) = True"
| "lit_is_bool _ = False"

fun lit_is_float :: "literal \<Rightarrow> bool" where
  "lit_is_float (LitFloat _) = True"
| "lit_is_float _ = False"

fun lit_is_integer :: "literal \<Rightarrow> bool" where
  "lit_is_integer (LitInteger _) = True"
| "lit_is_integer _ = False"

fun simple_mismatch :: "simple_column_type \<Rightarrow> literal \<Rightarrow> bool" where
  "simple_mismatch SmallInt lit = (lit_is_string lit \<or> lit_is_bool lit)"
| "simple_mismatch Integer lit = (lit_is_string lit \<or> lit_is_bool lit)"
| "simple_mismatch BigInt lit = (lit_is_string lit \<or> lit_is_bool lit)"
| "simple_mismatch Real lit = (lit_is_string lit \<or> lit_is_bool lit)"
| "simple_mismatch DoublePrecision lit = (lit_is_string lit \<or> lit_is_bool lit)"
| "simple_mismatch Text lit = (lit_is_integer lit \<or> lit_is_float lit \<or> lit_is_bool lit)"
| "simple_mismatch Boolean lit =
     (case lit of LitFloat _ \<Rightarrow> True | LitString _ \<Rightarrow> True | LitInteger i \<Rightarrow> i \<noteq> 0 \<and> i \<noteq> 1 | _ \<Rightarrow> False)"
| "simple_mismatch Uuid lit = (lit_is_integer lit \<or> lit_is_float lit \<or> lit_is_bool lit)"
| "simple_mismatch Date lit = (lit_is_integer lit \<or> lit_is_float lit \<or> lit_is_bool lit)"
| "simple_mismatch Time lit = (lit_is_integer lit \<or> lit_is_float lit \<or> lit_is_bool lit)"
| "simple_mismatch Timestamp lit = (lit_is_integer lit \<or> lit_is_float lit \<or> lit_is_bool lit)"
| "simple_mismatch Timestamptz lit = (lit_is_integer lit \<or> lit_is_float lit \<or> lit_is_bool lit)"
| "simple_mismatch Interval lit = (lit_is_integer lit \<or> lit_is_float lit \<or> lit_is_bool lit)"
| "simple_mismatch Bytea lit = lit_is_bool lit"
| "simple_mismatch Inet lit = (lit_is_integer lit \<or> lit_is_float lit \<or> lit_is_bool lit)"
| "simple_mismatch Cidr lit = (lit_is_integer lit \<or> lit_is_float lit \<or> lit_is_bool lit)"
| "simple_mismatch Macaddr lit = (lit_is_integer lit \<or> lit_is_float lit \<or> lit_is_bool lit)"
| "simple_mismatch Xml lit = (lit_is_integer lit \<or> lit_is_float lit \<or> lit_is_bool lit)"
| "simple_mismatch Json lit = False"

fun complex_mismatch :: "complex_column_type \<Rightarrow> literal \<Rightarrow> bool" where
  "complex_mismatch (Varchar _) lit = (lit_is_integer lit \<or> lit_is_float lit \<or> lit_is_bool lit)"
| "complex_mismatch (CharN _) lit = (lit_is_integer lit \<or> lit_is_float lit \<or> lit_is_bool lit)"
| "complex_mismatch (Numeric _ _) lit = (lit_is_string lit \<or> lit_is_bool lit)"
| "complex_mismatch (Enum _ (EnumString _)) lit = (lit_is_integer lit \<or> lit_is_float lit \<or> lit_is_bool lit)"
| "complex_mismatch (Enum _ (EnumInteger _)) lit = (lit_is_string lit \<or> lit_is_float lit \<or> lit_is_bool lit)"
| "complex_mismatch (Custom _) lit = False"

fun is_definitely_mismatch :: "column_type \<Rightarrow> literal \<Rightarrow> bool" where
  "is_definitely_mismatch (Simple simple) lit = (lit \<noteq> LitNull \<and> simple_mismatch simple lit)"
| "is_definitely_mismatch (Complex complex) lit = (lit \<noteq> LitNull \<and> complex_mismatch complex lit)"

definition build_column_type_map :: "migration_plan \<Rightarrow> table_def list \<Rightarrow> ((string \<times> string) \<times> column_type) list" where
  "build_column_type_map plan baseline =
     rev (concat (map (\<lambda>table. map (\<lambda>col. ((tbl_name table, col_name col), col_type col)) (tbl_columns table)) baseline) @
          concat (map (\<lambda>action. case action of
              CreateTable table columns _ \<Rightarrow> map (\<lambda>col. ((table, col_name col), col_type col)) columns
            | AddColumn table column _ \<Rightarrow> [((table, col_name column), col_type column)]
            | ModifyColumnType table column new_type _ _ _ \<Rightarrow> [((table, column), new_type)]
            | _ \<Rightarrow> []) (plan_actions plan)))"

definition check_one ::
  "nat \<Rightarrow> string \<Rightarrow> string \<Rightarrow> string \<Rightarrow> string \<Rightarrow> column_type \<Rightarrow> literal \<Rightarrow> check_type_mismatch_warning list" where
  "check_one action_index table check_name expr_text column ty literal =
     (if \<not> is_definitely_mismatch ty literal then []
      else [\<lparr>ctm_action_index = action_index, ctm_table = table, ctm_constraint_name = check_name,
             ctm_column = column, ctm_column_type_label = display_label ty,
             ctm_literal_text = display_value literal, ctm_literal_kind = literal_kind_name literal,
             ctm_expr = expr_text\<rparr>])"

definition check_literals ::
  "nat \<Rightarrow> string \<Rightarrow> string \<Rightarrow> string \<Rightarrow> ((string \<times> string) \<times> column_type) list \<Rightarrow> string \<Rightarrow> literal list \<Rightarrow>
     check_type_mismatch_warning list" where
  "check_literals action_index table check_name expr_text type_map column ls =
     (case map_of type_map (table, column) of
        None \<Rightarrow> []
      | Some ty \<Rightarrow> concat (map (check_one action_index table check_name expr_text column ty) ls))"

fun walk_check_expr ::
  "check_expr \<Rightarrow> (string \<Rightarrow> literal list \<Rightarrow> check_type_mismatch_warning list) \<Rightarrow> check_type_mismatch_warning list" where
  "walk_check_expr (Compare column _ value) visit = visit column [value]"
| "walk_check_expr (InList column values _) visit = visit column values"
| "walk_check_expr (Between column low high _) visit = visit column [low, high]"
| "walk_check_expr (AndE parts) visit = concat (map (\<lambda>p. walk_check_expr p visit) parts)"
| "walk_check_expr (OrE parts) visit = concat (map (\<lambda>p. walk_check_expr p visit) parts)"
| "walk_check_expr (NotE inner) visit = walk_check_expr inner visit"
| "walk_check_expr (IsNull _ _) visit = []"
| "walk_check_expr Unparseable visit = []"

definition scan_check ::
  "((string \<times> string) \<times> column_type) list \<Rightarrow> nat \<Rightarrow> string \<Rightarrow> table_constraint \<Rightarrow> check_type_mismatch_warning list" where
  "scan_check type_map action_index table constraint =
     (case constraint of
        Check name expr _ \<Rightarrow> walk_check_expr (parse expr) (check_literals action_index table name expr type_map)
      | _ \<Rightarrow> [])"

definition find_check_type_mismatches :: "migration_plan \<Rightarrow> table_def list \<Rightarrow> check_type_mismatch_warning list" where
  "find_check_type_mismatches plan baseline =
     (let type_map = build_column_type_map plan baseline
      in concat (map (\<lambda>(idx, action). case action of
             CreateTable table _ constraints \<Rightarrow> concat (map (scan_check type_map idx table) constraints)
           | AddConstraint table constraint \<Rightarrow> scan_check type_map idx table constraint
           | ReplaceConstraint table _ to \<Rightarrow> scan_check type_map idx table to
           | _ \<Rightarrow> []) (enumerated (plan_actions plan))))"

section \<open>Checks added to existing tables\<close>

record check_addition_warning =
  caw_action_index :: nat
  caw_table :: string
  caw_constraint_name :: string
  caw_check_expr :: string
  caw_target_column :: string
  caw_target_column_nullable :: bool

definition find_check_target_column :: "string \<Rightarrow> table_def \<Rightarrow> (string \<times> bool) option" where
  "find_check_target_column expr table =
     map_option (\<lambda>col. (col_name col, col_nullable col))
       (find (\<lambda>col. matches_for_column expr (col_name col)) (tbl_columns table))"

definition find_check_additions :: "migration_plan \<Rightarrow> table_def list \<Rightarrow> check_addition_warning list" where
  "find_check_additions plan baseline =
     List.map_filter (\<lambda>(idx, action). case action of
         AddConstraint table (Check name expr _) \<Rightarrow>
           (case find (\<lambda>t. tbl_name t = table) baseline of
              None \<Rightarrow> None
            | Some table_def \<Rightarrow>
                (case find_check_target_column expr table_def of
                   None \<Rightarrow> None
                 | Some (target_column, target_column_nullable) \<Rightarrow>
                     Some \<lparr>caw_action_index = idx, caw_table = table, caw_constraint_name = name,
                       caw_check_expr = expr, caw_target_column = target_column,
                       caw_target_column_nullable = target_column_nullable\<rparr>))
       | _ \<Rightarrow> None) (enumerated (plan_actions plan))"

end
