(* ===== verification/Check_Semantics.thy ===== *)
theory Check_Semantics
  imports Complex_Main Check_Analysis Check_Print
begin

text \<open>
  What a CHECK expression means in SQL: three-valued truth over rows whose columns hold NULL, numbers,
  strings or booleans.  The analyses of \<open>Check_Analysis\<close> are compared with it.  A row passes a CHECK
  unless the expression is false.
\<close>

section \<open>Values and rows\<close>

datatype sql_value = VNull | VNum rat | VStr string | VBool bool

type_synonym row = "string \<Rightarrow> sql_value"

fun sql_compare :: "sql_value \<Rightarrow> sql_value \<Rightarrow> ordering option" where
  "sql_compare (VNum a) (VNum b) = Some (compare a b)"
| "sql_compare (VStr a) (VStr b) = Some (compare a b)"
| "sql_compare (VBool a) (VBool b) = Some (compare a b)"
| "sql_compare _ _ = None"

text \<open>A literal as written: a string stands with its quotes, which are doubled inside.\<close>

definition string_content :: "string \<Rightarrow> string" where
  "string_content s = (case read_literal (tl s) of Some (x, _) \<Rightarrow> x | None \<Rightarrow> [])"

fun value_of :: "literal \<Rightarrow> sql_value" where
  "value_of (LitInteger i) = VNum (of_int i)"
| "value_of (LitFloat (Finite s m e)) = VNum (of_int (f64_scaled s m e) / 2 ^ 1074)"
| "value_of (LitFloat _) = VNull"
| "value_of (LitString s) = VStr (string_content s)"
| "value_of (LitBool b) = VBool b"
| "value_of LitNull = VNull"

section \<open>Three-valued truth\<close>

fun not3 :: "bool option \<Rightarrow> bool option" where
  "not3 (Some b) = Some (\<not> b)"
| "not3 None = None"

fun and3 :: "bool option \<Rightarrow> bool option \<Rightarrow> bool option" where
  "and3 (Some False) y = Some False"
| "and3 x (Some False) = Some False"
| "and3 (Some True) (Some True) = Some True"
| "and3 _ _ = None"

fun or3 :: "bool option \<Rightarrow> bool option \<Rightarrow> bool option" where
  "or3 (Some True) y = Some True"
| "or3 x (Some True) = Some True"
| "or3 (Some False) (Some False) = Some False"
| "or3 _ _ = None"

definition holds3 :: "op \<Rightarrow> sql_value \<Rightarrow> sql_value \<Rightarrow> bool option" where
  "holds3 op v w = map_option (apply_op_cmp op) (sql_compare v w)"

definition in3 :: "sql_value \<Rightarrow> literal list \<Rightarrow> bool option" where
  "in3 v ls = foldr (\<lambda>l. or3 (holds3 OpEq v (value_of l))) ls (Some False)"

fun eval_check :: "row \<Rightarrow> check_expr \<Rightarrow> bool option" where
  "eval_check r (Compare c op l) = holds3 op (r c) (value_of l)"
| "eval_check r (InList c ls n) = (if n then not3 (in3 (r c) ls) else in3 (r c) ls)"
| "eval_check r (Between c l h n) =
     (let b = and3 (holds3 OpGe (r c) (value_of l)) (holds3 OpLe (r c) (value_of h)) in if n then not3 b else b)"
| "eval_check r (IsNull c n) = Some ((r c = VNull) \<noteq> n)"
| "eval_check r (AndE es) = foldr and3 (map (eval_check r) es) (Some True)"
| "eval_check r (OrE es) = foldr or3 (map (eval_check r) es) (Some False)"
| "eval_check r (NotE e) = not3 (eval_check r e)"
| "eval_check r Unparseable = None"

definition passes_check :: "row \<Rightarrow> check_expr \<Rightarrow> bool" where
  "passes_check r e \<longleftrightarrow> eval_check r e \<noteq> Some False"

lemma and3_True [simp]: "and3 x y = Some True \<longleftrightarrow> x = Some True \<and> y = Some True"
  by (cases "(x, y)" rule: and3.cases) auto

lemma and3_False [simp]: "and3 x y = Some False \<longleftrightarrow> x = Some False \<or> y = Some False"
  by (cases "(x, y)" rule: and3.cases) auto

lemma or3_True [simp]: "or3 x y = Some True \<longleftrightarrow> x = Some True \<or> y = Some True"
  by (cases "(x, y)" rule: or3.cases) auto

lemma or3_False [simp]: "or3 x y = Some False \<longleftrightarrow> x = Some False \<and> y = Some False"
  by (cases "(x, y)" rule: or3.cases) auto

lemma not3_Some [simp]: "not3 x = Some b \<longleftrightarrow> x = Some (\<not> b)"
  by (cases x) auto

lemma foldr_and3 [simp]:
  "foldr and3 xs (Some True) = Some True \<longleftrightarrow> (\<forall>x \<in> set xs. x = Some True)"
  "foldr and3 xs (Some True) = Some False \<longleftrightarrow> Some False \<in> set xs"
  by (induction xs) auto

lemma foldr_or3 [simp]:
  "foldr or3 xs (Some False) = Some True \<longleftrightarrow> Some True \<in> set xs"
  "foldr or3 xs (Some False) = Some False \<longleftrightarrow> (\<forall>x \<in> set xs. x = Some False)"
  by (induction xs) auto

lemma in3_simps [simp]:
  "in3 v ls = Some True \<longleftrightarrow> (\<exists>l \<in> set ls. holds3 OpEq v (value_of l) = Some True)"
  "in3 v ls = Some False \<longleftrightarrow> (\<forall>l \<in> set ls. holds3 OpEq v (value_of l) = Some False)"
  unfolding in3_def by (induction ls) auto

section \<open>The comparison of literals is the comparison of values\<close>

text \<open>Integers that a double holds, finite floats, and strings of characters above the quote, for which
  the order of the quoted texts is the order of the contents.\<close>

fun exact_literal :: "literal \<Rightarrow> bool" where
  "exact_literal (LitInteger i) = (\<bar>i\<bar> < 2 ^ 53)"
| "exact_literal (LitFloat f) = (case f of Finite s m e \<Rightarrow> True | _ \<Rightarrow> False)"
| "exact_literal (LitString s) =
     (s = [CHR 0x27] @ string_content s @ [CHR 0x27] \<and> (\<forall>c \<in> set (string_content s). CHR 0x27 < c))"
| "exact_literal (LitBool b) = True"
| "exact_literal LitNull = True"

lemma compare_mono:
  fixes f :: "'a :: linorder \<Rightarrow> 'b :: linorder"
  assumes "strict_mono f"
  shows "compare (f a) (f b) = compare a b"
  using strict_mono_less [OF assms] strict_mono_eq [OF assms] by (auto simp: compare_def)

lemma strict_mono_of_int: "strict_mono (of_int :: int \<Rightarrow> rat)"
  by (auto simp: strict_mono_def)

lemma strict_mono_unit: "strict_mono (\<lambda>i :: int. (of_int i :: rat) / 2 ^ 1074)"
  by (auto simp: strict_mono_def divide_strict_right_mono)

lemma compare_quoted:
  fixes x y :: string
  assumes "\<forall>c \<in> set x. CHR 0x27 < c" and "\<forall>c \<in> set y. CHR 0x27 < c"
  shows "compare (CHR 0x27 # x @ [CHR 0x27]) (CHR 0x27 # y @ [CHR 0x27]) = compare x y"
  using assms
proof (induction x arbitrary: y)
  case Nil
  then show ?case by (cases y) (auto simp: compare_def)
next
  case (Cons a x)
  then show ?case
    by (cases y) (fastforce simp: compare_def split: if_splits)+
qed

definition num_unit :: "int \<Rightarrow> rat" where
  "num_unit i = of_int i / 2 ^ 1074"

lemma compare_num_unit [simp]: "compare (num_unit a) (num_unit b) = compare a b"
  unfolding num_unit_def by (rule compare_mono [OF strict_mono_unit])

lemma value_of_units:
  "value_of (LitInteger i) = VNum (num_unit (i * 2 ^ 1074))"
  "value_of (LitFloat (Finite s m e)) = VNum (num_unit (f64_scaled s m e))"
  by (simp_all add: num_unit_def)

lemma compare_of_int [simp]: "compare (of_int a :: rat) (of_int b) = compare a b"
  by (rule compare_mono [OF strict_mono_of_int])

lemma cmp_value_exact:
  assumes "exact_literal a" and "exact_literal b"
  shows "cmp_value a b = sql_compare (value_of a) (value_of b)"
proof -
  have int_float: "f64_partial_cmp (f64_of_int i) (Finite s m e) = Some (compare (i * 2 ^ 1074) (f64_scaled s m e))"
    "f64_partial_cmp (Finite s m e) (f64_of_int i) = Some (compare (f64_scaled s m e) (i * 2 ^ 1074))"
    if i: "\<bar>i\<bar> < 2 ^ 53" for i s m e
  proof -
    obtain m' e' where "f64_of_int i = Finite (i < 0) m' e'" "f64_scaled (i < 0) m' e' = i * 2 ^ 1074"
      using f64_of_int_exact [OF i] by blast
    then show "f64_partial_cmp (f64_of_int i) (Finite s m e) = Some (compare (i * 2 ^ 1074) (f64_scaled s m e))"
      "f64_partial_cmp (Finite s m e) (f64_of_int i) = Some (compare (f64_scaled s m e) (i * 2 ^ 1074))"
      by (simp_all del: f64_scaled_def)
  qed
  have str: "compare s t = compare (string_content s) (string_content t)"
    if "exact_literal (LitString s)" "exact_literal (LitString t)" for s t
    using compare_quoted [of "string_content s" "string_content t"] that by (metis append_Cons append_Nil exact_literal.simps(3))
  show ?thesis
  proof (cases a)
    case a: (LitInteger i)
    show ?thesis
    proof (cases b)
      case (LitFloat f)
      then obtain s m e where "b = LitFloat (Finite s m e)" using assms(2) by (cases f) auto
      then show ?thesis using a assms(1) int_float(1) by (simp only: a cmp_value.simps value_of_units sql_compare.simps compare_num_unit exact_literal.simps)
    qed (simp_all add: a)
  next
    case a: (LitFloat f)
    then obtain s m e where f: "a = LitFloat (Finite s m e)" using assms(1) by (cases f) auto
    show ?thesis
    proof (cases b)
      case (LitInteger i)
      then show ?thesis using assms(2) int_float(2) by (simp only: f cmp_value.simps value_of_units sql_compare.simps compare_num_unit exact_literal.simps)
    next
      case (LitFloat g)
      then obtain t n h where "b = LitFloat (Finite t n h)" using assms(2) by (cases g) auto
      then show ?thesis by (simp only: f cmp_value.simps value_of_units sql_compare.simps compare_num_unit f64_partial_cmp.simps)
    qed (simp_all add: f)
  next
    case a: (LitString s)
    show ?thesis using str assms a by (cases b) (auto split: f64.splits)
  next
    case (LitBool x)
    then show ?thesis using assms(2) by (cases b) (auto split: f64.splits)
  next
    case LitNull
    then show ?thesis by (cases b) auto
  qed
qed


section \<open>Order of values\<close>

lemma sql_compare_simps:
  "sql_compare v w = Some Equal \<Longrightarrow> v = w"
  "sql_compare v w = Some Equal \<longleftrightarrow> sql_compare w v = Some Equal"
  "sql_compare v w = Some Less \<longleftrightarrow> sql_compare w v = Some Greater"
  by (cases "(v, w)" rule: sql_compare.cases; auto simp: compare_def split: if_splits)+

lemma sql_compare_trans:
  assumes "sql_compare u v = Some o1" and "sql_compare v w = Some o2" and "o1 \<noteq> Greater" and "o2 \<noteq> Greater"
  shows "sql_compare u w = Some (if o1 = Equal \<and> o2 = Equal then Equal else Less)"
  using assms by (cases u; cases v; cases w; auto simp: compare_def split: if_splits)

definition sql_le :: "sql_value \<Rightarrow> sql_value \<Rightarrow> bool" where
  "sql_le v w \<longleftrightarrow> (\<exists>c. sql_compare v w = Some c \<and> c \<noteq> Greater)"

definition sql_lt :: "sql_value \<Rightarrow> sql_value \<Rightarrow> bool" where
  "sql_lt v w \<longleftrightarrow> sql_compare v w = Some Less"

lemma sql_order:
  "sql_lt u v \<Longrightarrow> sql_le u v"
  "sql_le u v \<Longrightarrow> sql_le v w \<Longrightarrow> sql_le u w"
  "sql_lt u v \<Longrightarrow> sql_le v w \<Longrightarrow> sql_lt u w"
  "sql_le u v \<Longrightarrow> sql_lt v w \<Longrightarrow> sql_lt u w"
  "sql_lt u v \<Longrightarrow> \<not> sql_le v u"
  by (cases u; cases v; cases w; auto simp: sql_le_def sql_lt_def compare_def split: if_splits)+

lemma holds3_True:
  "holds3 OpEq v w = Some True \<longleftrightarrow> sql_compare v w = Some Equal"
  "holds3 OpNe v w = Some True \<longleftrightarrow> sql_lt v w \<or> sql_lt w v"
  "holds3 OpLt v w = Some True \<longleftrightarrow> sql_lt v w"
  "holds3 OpLe v w = Some True \<longleftrightarrow> sql_le v w"
  "holds3 OpGt v w = Some True \<longleftrightarrow> sql_lt w v"
  "holds3 OpGe v w = Some True \<longleftrightarrow> sql_le w v"
  by (cases v; cases w; auto simp: holds3_def sql_le_def sql_lt_def compare_def split: if_splits)+

lemma holds3_False:
  "holds3 OpEq v w = Some False \<longleftrightarrow> sql_lt v w \<or> sql_lt w v"
  "holds3 OpNe v w = Some False \<longleftrightarrow> sql_compare v w = Some Equal"
  "holds3 OpLt v w = Some False \<longleftrightarrow> sql_le w v"
  "holds3 OpLe v w = Some False \<longleftrightarrow> sql_lt w v"
  "holds3 OpGt v w = Some False \<longleftrightarrow> sql_le v w"
  "holds3 OpGe v w = Some False \<longleftrightarrow> sql_lt v w"
  by (cases v; cases w; auto simp: holds3_def sql_le_def sql_lt_def compare_def split: if_splits)+

lemma cmp_value_order:
  assumes "exact_literal a" and "exact_literal b"
  shows "cmp_value a b = Some Less \<Longrightarrow> sql_lt (value_of a) (value_of b)"
    and "cmp_value a b = Some Equal \<Longrightarrow> value_of a = value_of b"
    and "cmp_value a b = Some Greater \<Longrightarrow> sql_lt (value_of b) (value_of a)"
    and "cmp_value a b = Some c \<Longrightarrow> c \<noteq> Greater \<Longrightarrow> sql_le (value_of a) (value_of b)"
  using assms sql_compare_simps by (auto simp: cmp_value_exact sql_lt_def sql_le_def)

end
