(* ===== verification/Check_Sound.thy ===== *)
theory Check_Sound
  imports Check_Semantics
begin

text \<open>
  The analyses of \<open>Check_Analysis\<close> against the meaning of \<open>Check_Semantics\<close>: a reported contradiction
  or reversed \<open>BETWEEN\<close> is a node that is true on no row, a reported strengthening accepts fewer rows, and
  an integer default that is let through satisfies its check.
\<close>

section \<open>Contradictions and reversed bounds are never true\<close>

fun check_literals_of :: "check_expr \<Rightarrow> literal list" where
  "check_literals_of (Compare c op l) = [l]"
| "check_literals_of (InList c ls n) = ls"
| "check_literals_of (Between c l h n) = [l, h]"
| "check_literals_of (AndE es) = concat (map check_literals_of es)"
| "check_literals_of (OrE es) = concat (map check_literals_of es)"
| "check_literals_of (NotE e) = check_literals_of e"
| "check_literals_of _ = []"

definition exact_check :: "check_expr \<Rightarrow> bool" where
  "exact_check e \<longleftrightarrow> (\<forall>l \<in> set (check_literals_of e). exact_literal l)"

lemma exact_check_simps [simp]:
  "exact_check (Compare c op l) = exact_literal l"
  "exact_check (InList c ls n) = (\<forall>l \<in> set ls. exact_literal l)"
  "exact_check (Between c l h n) = (exact_literal l \<and> exact_literal h)"
  "exact_check (IsNull c n)"
  "exact_check (AndE es) = (\<forall>e \<in> set es. exact_check e)"
  "exact_check (OrE es) = (\<forall>e \<in> set es. exact_check e)"
  "exact_check (NotE e) = exact_check e"
  "exact_check Unparseable"
  by (auto simp: exact_check_def)

text \<open>The nodes of an expression.\<close>

fun nodes_of :: "check_expr \<Rightarrow> check_expr set" where
  "nodes_of (AndE es) = insert (AndE es) (\<Union>e \<in> set es. nodes_of e)"
| "nodes_of (OrE es) = insert (OrE es) (\<Union>e \<in> set es. nodes_of e)"
| "nodes_of (NotE e) = insert (NotE e) (nodes_of e)"
| "nodes_of e = {e}"

fun or_free :: "check_expr \<Rightarrow> bool" where
  "or_free (OrE es) = False"
| "or_free (AndE es) = (\<forall>e \<in> set es. or_free e)"
| "or_free _ = True"

lemma flatten_and_true: "\<forall>e \<in> set es. eval_check r e = Some True \<Longrightarrow> \<forall>e \<in> set (flatten_and es). eval_check r e = Some True"
  by (induction es rule: flatten_and.induct) auto

lemma flatten_and_exact: "\<forall>e \<in> set es. exact_check e \<Longrightarrow> \<forall>e \<in> set (flatten_and es). exact_check e"
  by (induction es rule: flatten_and.induct) auto

lemma nodes_of_self [simp]: "e \<in> nodes_of e"
  by (cases e) auto

lemma flatten_and_nodes: "e \<in> set (flatten_and es) \<Longrightarrow> nodes_of e \<subseteq> (\<Union>e \<in> set es. nodes_of e)"
  by (induction es rule: flatten_and.induct) auto

lemma flatten_and_no_and: "e \<in> set (flatten_and es) \<Longrightarrow> \<not> is_and e"
  by (induction es rule: flatten_and.induct) auto

lemma push_group_mem:
  "(c, ps) \<in> set (push_group col pred gs) \<Longrightarrow> p \<in> set ps \<Longrightarrow>
    p = pred \<and> c = col \<or> (\<exists>qs. (c, qs) \<in> set gs \<and> p \<in> set qs)"
proof (induction gs)
  case (Cons g gs)
  then show ?case by (cases g) (auto split: if_splits)
qed auto

lemma group_predicates_mem_fold:
  "(c, ps) \<in> set (fold (\<lambda>pred groups. case predicate_column pred of None \<Rightarrow> groups | Some col \<Rightarrow> push_group col pred groups) flat gs) \<Longrightarrow>
    p \<in> set ps \<Longrightarrow> (\<exists>qs. (c, qs) \<in> set gs \<and> p \<in> set qs) \<or> p \<in> set flat \<and> predicate_column p = Some c"
proof (induction flat arbitrary: gs)
  case (Cons q flat)
  then show ?case by (cases "predicate_column q") (fastforce dest: push_group_mem)+
qed auto

lemma group_predicates_mem:
  assumes "(c, ps) \<in> set (group_predicates_by_column flat)" and "p \<in> set ps"
  shows "p \<in> set flat \<and> predicate_column p = Some c"
  using group_predicates_mem_fold [of c ps flat "[]" p] assms by (simp add: group_predicates_by_column_def)

lemma pairs_of_mem: "(a, b) \<in> set (pairs_of xs) \<Longrightarrow> a \<in> set xs \<and> b \<in> set xs"
  by (induction xs) auto

lemma bounds_unsatisfiable:
  assumes "lo \<in> {OpGt, OpGe}" and "hi \<in> {OpLt, OpLe}" and "exact_literal l" and "exact_literal h"
    and "cmp_value l h = Some c" and "c = Greater \<or> (lo = OpGt \<or> hi = OpLt) \<and> c = Equal"
    and "holds3 lo v (value_of l) = Some True" and "holds3 hi v (value_of h) = Some True"
  shows False
proof -
  have "sql_le (value_of l) v" "sql_le v (value_of h)" and
    lt: "(lo = OpGt \<or> hi = OpLt) \<Longrightarrow> sql_lt (value_of l) (value_of h)"
    using assms(1,2,7,8) by (auto simp: holds3_True intro: sql_order(1) sql_order(3) [OF _ sql_order(1)] sql_order(3,4))
  then have "sql_le (value_of l) (value_of h)" by (blast intro: sql_order)
  then show False
    using assms(6) lt cmp_value_order(2,3) [OF assms(3,4)] sql_order assms(5) by metis
qed

lemma sql_compare_refl: "sql_compare v v = Some c \<Longrightarrow> c = Equal"
  by (cases v) (auto simp: compare_def)

lemma compare_pair_sound:
  assumes p: "compare_pair_contradicts op_a va op_b vb = Some x" and "exact_literal va" and "exact_literal vb"
    and h: "holds3 op_a v (value_of va) = Some True" "holds3 op_b v (value_of vb) = Some True"
  shows False
proof -
  note exact = cmp_value_exact [OF assms(2,3)]
  consider (eq) c where "op_a = OpEq" "op_b = OpEq" "cmp_value va vb = Some c" "c \<noteq> Equal"
    | (ne) "op_a = OpEq \<and> op_b = OpNe \<or> op_a = OpNe \<and> op_b = OpEq" "cmp_value va vb = Some Equal"
    | (up) c where "op_a \<in> {OpGt, OpGe}" "op_b \<in> {OpLt, OpLe}" "cmp_value va vb = Some c"
        "c = Greater \<or> (op_a = OpGt \<or> op_b = OpLt) \<and> c = Equal"
    | (down) c where "op_b \<in> {OpGt, OpGe}" "op_a \<in> {OpLt, OpLe}" "cmp_value vb va = Some c"
        "c = Greater \<or> (op_b = OpGt \<or> op_a = OpLt) \<and> c = Equal"
    using p by (fastforce simp: compare_pair_contradicts_def Let_def split: option.splits if_splits)
  then show False
  proof cases
    case eq
    then show False using h exact by (auto simp: holds3_True dest!: sql_compare_simps(1) sql_compare_refl)
  next
    case ne
    then have "value_of va = value_of vb" using exact sql_compare_simps(1) by simp
    then show False using h ne(1) by (auto simp: holds3_def)
  next
    case up
    then show False using bounds_unsatisfiable assms by blast
  next
    case down
    then show False using bounds_unsatisfiable assms by blast
  qed
qed

lemma check_pair_sound:
  assumes "check_pair c a b = Some x" and "predicate_column a = Some c" and "predicate_column b = Some c"
    and "exact_check a" and "exact_check b"
  shows "\<not> (eval_check r a = Some True \<and> eval_check r b = Some True)"
proof (cases "compare_part c a b")
  case (Some y)
  then obtain op_a va op_b vb where ab: "a = Compare c op_a va" "b = Compare c op_b vb"
      and p: "compare_pair_contradicts op_a va op_b vb \<noteq> None"
    using assms(2,3) by (auto simp: compare_part_def split: check_expr.splits)
  then show ?thesis using assms(4,5) compare_pair_sound by (auto simp: ab)
next
  case c1: None
  show ?thesis
  proof (cases "null_part c a b")
    case (Some y)
    then show ?thesis using assms(2,3) by (auto simp: null_part_def split: check_expr.splits if_splits)
  next
    case None
    then obtain op v where "is_null_vs_other a b = Some (False, op, v)"
      using assms(1) c1 by (auto simp: check_pair_def null_compare_part_def split: option.splits if_splits)
    then have "a = IsNull c False \<and> b = Compare c op v \<or> b = IsNull c False \<and> a = Compare c op v"
      using assms(2,3) by (cases "(a, b)" rule: is_null_vs_other.cases) auto
    then show ?thesis by (auto simp: holds3_def)
  qed
qed

lemma group_contradiction_sound:
  assumes "group_contradiction (flatten_and parts) = Some y" and "\<forall>e \<in> set parts. exact_check e"
  shows "eval_check r (AndE parts) \<noteq> Some True"
proof
  assume t: "eval_check r (AndE parts) = Some True"
  obtain c ps a b where m: "(c, ps) \<in> set (group_predicates_by_column (flatten_and parts))" "(a, b) \<in> set (pairs_of ps)"
      and p: "check_pair c a b = Some y"
    using assms(1) unfolding group_contradiction_def by (auto dest!: find_map_Some)
  have a: "a \<in> set (flatten_and parts) \<and> predicate_column a = Some c" and b: "b \<in> set (flatten_and parts) \<and> predicate_column b = Some c"
    using group_predicates_mem [OF m(1)] pairs_of_mem [OF m(2)] by blast+
  have "\<forall>e \<in> set parts. eval_check r e = Some True" using t by simp
  then have "eval_check r a = Some True \<and> eval_check r b = Some True" using flatten_and_true a b by blast
  moreover have "exact_check a \<and> exact_check b" using flatten_and_exact [OF assms(2)] a b by blast
  ultimately show False using check_pair_sound [OF p] a b by blast
qed

lemma flatten_and_or_free: "\<forall>e \<in> set es. or_free e \<Longrightarrow> \<forall>e \<in> set (flatten_and es). or_free e"
  by (induction es rule: flatten_and.induct) auto

lemma find_contradiction_leaf: "or_free e \<Longrightarrow> \<not> is_and e \<Longrightarrow> find_contradiction e = None"
  by (cases e) auto

lemma find_contradiction_sound:
  assumes "find_contradiction e = Some x" and "exact_check e"
  shows "\<exists>es. AndE es \<in> nodes_of e \<and> (\<forall>r. eval_check r (AndE es) \<noteq> Some True) \<and> (or_free e \<longrightarrow> AndE es = e)"
  using assms
proof (induction e rule: find_contradiction.induct)
  case (1 parts)
  have exact: "\<forall>e \<in> set parts. exact_check e" using 1(3) by simp
  show ?case
  proof (cases "group_contradiction (flatten_and parts)")
    case (Some y)
    then show ?thesis using group_contradiction_sound exact nodes_of_self by blast
  next
    case None
    then obtain e where e: "e \<in> set (flatten_and parts)" "find_contradiction e = Some x"
      using 1(2) by (auto dest!: find_map_Some)
    have "exact_check e" using flatten_and_exact [OF exact] e(1) by blast
    from 1(1) [OF None e this] obtain es where es: "AndE es \<in> nodes_of e" "\<forall>r. eval_check r (AndE es) \<noteq> Some True"
      by blast
    have "\<not> or_free (AndE parts)"
    proof
      assume "or_free (AndE parts)"
      then have "or_free e" using flatten_and_or_free [of parts] e(1) by simp
      then show False using find_contradiction_leaf flatten_and_no_and e by fastforce
    qed
    moreover have "AndE es \<in> nodes_of (AndE parts)" using es(1) flatten_and_nodes [OF e(1)] by auto
    ultimately show ?thesis using es(2) by blast
  qed
next
  case (2 parts)
  then obtain e where e: "e \<in> set parts" "find_contradiction e = Some x" by (auto dest!: find_map_Some)
  have "exact_check e" using 2(3) e(1) by simp
  from 2(1) [OF e this] obtain es where "AndE es \<in> nodes_of e" "\<forall>r. eval_check r (AndE es) \<noteq> Some True"
    by blast
  moreover from this(1) have "AndE es \<in> nodes_of (OrE parts)" using e(1) by auto
  ultimately show ?case by (metis or_free.simps(1))
qed simp_all

text \<open>Bounds in the wrong order.\<close>

lemma reversed_between_sound:
  assumes "literal_compare l h = Some Greater" and "exact_literal l" and "exact_literal h"
  shows "eval_check r (Between c l h False) \<noteq> Some True"
proof
  assume "eval_check r (Between c l h False) = Some True"
  then have "holds3 OpGe (r c) (value_of l) = Some True" "holds3 OpLe (r c) (value_of h) = Some True"
    by simp_all
  moreover have "cmp_value l h = Some Greater"
    using assms(1) by (auto simp: literal_compare_def split: literal.splits)
  ultimately show False using bounds_unsatisfiable [of OpGe OpLe l h Greater] assms(2,3) by blast
qed

lemma collect_reversed_nodes:
  "(c, l, h) \<in> set (collect_reversed_between e) \<Longrightarrow>
    Between c l h False \<in> nodes_of e \<and> literal_compare l h = Some Greater"
  by (induction e) (auto split: if_splits)

lemma exact_check_nodes: "f \<in> nodes_of e \<Longrightarrow> exact_check e \<Longrightarrow> exact_check f"
  by (induction e) auto

section \<open>A strengthened check accepts fewer rows\<close>

lemma f64_eq_value: "f64_eq x y \<Longrightarrow> value_of (LitFloat x) = value_of (LitFloat y)"
  by (cases x; cases y) (auto simp: f64_eq_def simp del: f64_scaled_def split: if_splits)

lemma literal_eq_value: "literal_eq x y \<Longrightarrow> value_of x = value_of y"
  by (cases "(x, y)" rule: literal_eq.cases) (auto dest: f64_eq_value simp del: value_of.simps(2,3))

lemma literals_eq_in3: "list_all2 literal_eq vs ws \<Longrightarrow> in3 v vs = in3 v ws"
  unfolding in3_def by (induction rule: list_all2_induct) (auto dest: literal_eq_value)

lemma check_eq_eval:
  "check_eq e f \<Longrightarrow> eval_check r e = eval_check r f"
  "check_list_eq es fs \<Longrightarrow> map (eval_check r) es = map (eval_check r) fs"
  by (induction e f and es fs rule: check_eq_check_list_eq.induct)
    (auto dest!: literal_eq_value literals_eq_in3 simp: Let_def)

fun float_free_literal :: "literal \<Rightarrow> bool" where
  "float_free_literal (LitFloat _) = False"
| "float_free_literal _ = True"

definition float_free :: "check_expr \<Rightarrow> bool" where
  "float_free e \<longleftrightarrow> (\<forall>l \<in> set (check_literals_of e). float_free_literal l)"

lemma approx_eq_value: "approx_eq x y \<Longrightarrow> float_free_literal x \<Longrightarrow> float_free_literal y \<Longrightarrow> x = y"
  by (cases "(x, y)" rule: approx_eq.cases) auto

lemma holds3_mono:
  assumes "exact_literal x" "exact_literal y" and "holds3 op v (value_of x) = Some False"
    and "cmp_value x y = Some Less \<and> (op = OpGt \<or> op = OpGe) \<or> cmp_value x y = Some Greater \<and> (op = OpLt \<or> op = OpLe)
      \<or> cmp_value x y = Some Equal"
  shows "holds3 op v (value_of y) = Some False"
  using assms(4)
proof (elim disjE conjE)
  assume "cmp_value x y = Some Equal"
  then show ?thesis using cmp_value_order(2) [OF assms(1,2)] assms(3) by simp
qed (use assms(3) cmp_value_order(1,3) [OF assms(1,2)] in
  \<open>auto simp: holds3_False intro: sql_order(1) sql_order(3,4) sql_order(3) [OF _ sql_order(1)] sql_order(1) [OF sql_order(3)] sql_order(1) [OF sql_order(4)]\<close>)

lemma strictness_sound:
  assumes "compare_strictness op1 v1 op2 v2 = Some k" and "exact_literal v1" "exact_literal v2"
    and "float_free_literal v1" "float_free_literal v2" and "holds3 op1 v (value_of v1) = Some False"
  shows "holds3 op2 v (value_of v2) = Some False"
proof -
  consider (bound) "op1 = op2"
      "cmp_value v1 v2 = Some Less \<and> (op1 = OpGt \<or> op1 = OpGe) \<or> cmp_value v1 v2 = Some Greater \<and> (op1 = OpLt \<or> op1 = OpLe)"
    | (op) "v1 = v2" "op1 = OpGe \<and> op2 = OpGt \<or> op1 = OpLe \<and> op2 = OpLt"
    using assms(1) approx_eq_value [OF _ assms(4,5)]
    by (auto simp: compare_strictness_def Let_def split: if_splits option.splits)
  then show ?thesis
  proof cases
    case bound
    then show ?thesis using holds3_mono [OF assms(2,3,6)] by blast
  next
    case op
    then show ?thesis using assms(6) by (auto simp: holds3_False intro: sql_order(1))
  qed
qed

lemma narrower_sound:
  assumes "between_is_narrower l1 h1 l2 h2"
    and "exact_literal l1" "exact_literal h1" "exact_literal l2" "exact_literal h2"
    and "eval_check r (Between c l1 h1 False) = Some False"
  shows "eval_check r (Between c l2 h2 False) = Some False"
proof -
  obtain a b where cmp: "cmp_value l1 l2 = Some a" "cmp_value h1 h2 = Some b" "a \<noteq> Greater" "b \<noteq> Less"
    using assms(1) by (auto simp: between_is_narrower_def split: option.splits)
  have "holds3 OpGe (r c) (value_of l1) = Some False \<or> holds3 OpLe (r c) (value_of h1) = Some False"
    using assms(6) by simp
  then have "holds3 OpGe (r c) (value_of l2) = Some False \<or> holds3 OpLe (r c) (value_of h2) = Some False"
    using holds3_mono [OF assms(2,4)] holds3_mono [OF assms(3,5)] cmp by (cases a; cases b) blast+
  then show ?thesis by simp
qed

lemma classify_pair_sound:
  assumes k: "classify_pair old new = Some k" and "exact_check old" "exact_check new" "float_free old" "float_free new"
    and passes: "passes_check r new"
  shows "passes_check r old"
proof (rule ccontr)
  assume "\<not> passes_check r old"
  then have old: "eval_check r old = Some False" by (simp add: passes_check_def)
  consider (conj) "conjunct_added old new = Some k"
    | (cmp) c op1 v1 op2 v2 where "old = Compare c op1 v1" "new = Compare c op2 v2" "compare_strictness op1 v1 op2 v2 = Some k"
    | (subset) c vs1 vs2 where "old = InList c vs1 False" "new = InList c vs2 False" "in_is_strict_subset vs2 vs1"
    | (between) c l1 h1 l2 h2 where "old = Between c l1 h1 False" "new = Between c l2 h2 False" "between_is_narrower l1 h1 l2 h2"
    | (conjs) ps qs where "old = AndE ps" "new = AndE qs" "\<forall>p \<in> set ps. \<exists>q \<in> set qs. check_eq q p"
    | (disjs) ps qs where "old = OrE ps" "new = OrE qs" "\<forall>q \<in> set qs. \<exists>p \<in> set ps. check_eq p q"
    using k by (auto simp: classify_pair_def list_all_iff list_ex_iff split: check_expr.splits if_splits)
  then have "eval_check r new = Some False"
  proof cases
    case conj
    then obtain ps p where "new = AndE ps" "p \<in> set ps" "check_eq p old"
      by (cases new) (auto simp: conjunct_added_def list_ex_iff split: if_splits)
    then show ?thesis using check_eq_eval(1) [of p old r] old by force
  next
    case cmp
    then show ?thesis using strictness_sound [OF cmp(3)] assms(2-5) old by (simp add: float_free_def)
  next
    case subset
    have "l \<in> set vs1" if l: "l \<in> set vs2" for l
    proof -
      obtain m where "m \<in> set vs1" "approx_eq l m"
        using subset(3) l by (auto simp: in_is_strict_subset_def list_all_iff list_ex_iff split: if_splits)
      then show ?thesis using approx_eq_value [of l m] assms(4,5) l by (auto simp: subset(1,2) float_free_def)
    qed
    then show ?thesis using old by (auto simp: subset(1,2))
  next
    case between
    then show ?thesis using narrower_sound [OF between(3)] assms(2,3) old by simp
  next
    case conjs
    then obtain p q where "p \<in> set ps" "eval_check r p = Some False" "q \<in> set qs" "check_eq q p" using old by force
    then show ?thesis using check_eq_eval(1) [of q p r] by (force simp: conjs(2))
  next
    case disjs
    have "eval_check r q = Some False" if "q \<in> set qs" for q
      using disjs(3) that old check_eq_eval(1) [of _ q r] by (force simp: disjs(1))
    then show ?thesis by (simp add: disjs(2))
  qed
  then show False using passes by (simp add: passes_check_def)
qed

section \<open>Defaults\<close>

lemma op_value_exact:
  assumes "float_free_literal l" and "exact_literal l" and "\<bar>i\<bar> < 2 ^ 53"
    and "evaluate_op op (DefInteger i) l"
  shows "holds3 op (VNum (of_int i)) (value_of l) \<noteq> Some False"
  using assms by (cases l) (auto simp: holds3_def apply_op_i64_def)

lemma literal_equals_value:
  assumes "float_free_literal l" and "literal_equals (DefInteger i) l"
  shows "l = LitInteger i"
  using assms by (cases l) auto

lemma check_satisfied_passes:
  assumes "extract_simple_column_check e c = Some simple" and "check_satisfied simple (DefInteger i)"
    and "exact_check e" and "float_free e" and "\<bar>i\<bar> < 2 ^ 53" and "r c = VNum (of_int i)"
  shows "passes_check r e"
proof (cases e)
  case (Compare d op l)
  then show ?thesis
    using assms op_value_exact [of l i op]
    by (auto simp: extract_simple_column_check_def passes_check_def float_free_def split: if_splits)
next
  case (InList d ls n)
  then have "d = c" "\<not> n" and "simple = SimpleIn ls"
    using assms(1) by (auto simp: extract_simple_column_check_def split: if_splits)
  then obtain l where l: "l \<in> set ls" "literal_equals (DefInteger i) l"
    using assms(2) by (auto simp: list_ex_iff)
  then have "l = LitInteger i"
    using literal_equals_value assms(4) by (auto simp: InList float_free_def)
  then show ?thesis using l(1) assms(6) \<open>d = c\<close> \<open>\<not> n\<close> by (force simp: InList passes_check_def holds3_def)
qed (use assms(1) in \<open>simp_all add: extract_simple_column_check_def\<close>)

lemma default_passes_check:
  assumes "validate_default_vs_check t = Inr ()" and "c \<in> set (tbl_columns t)" and "col_default c = Some (DefInteger i)"
    and "Check n s k \<in> set (tbl_constraints t)" and "extract_simple_column_check (parse s) (col_name c) \<noteq> None"
    and "exact_check (parse s)" and "float_free (parse s)" and "\<bar>i\<bar> < 2 ^ 53" and "r (col_name c) = VNum (of_int i)"
  shows "passes_check r (parse s)"
proof -
  have "default_against t c (DefInteger i) (Check n s k) = Inr ()"
    using assms(1-4) by (force simp: validate_default_vs_check_def for_each_Inr)
  then show ?thesis
    using check_satisfied_passes [where r = r and c = "col_name c" and i = i] assms(5-9)
    by (auto simp: default_against_def split: if_splits)
qed

text \<open>The other direction for one comparison: a reported integer default is one the check rejects.\<close>

lemma reported_default_fails:
  assumes "default_against t c (DefInteger i) (Check n s k) = Inl err" and "parse s = Compare (col_name c) op (LitInteger j)"
    and "r (col_name c) = VNum (of_int i)"
  shows "\<not> passes_check r (parse s)"
  using assms by (auto simp: default_against_def extract_simple_column_check_def passes_check_def holds3_def apply_op_i64_def
      split: if_splits)

end
