(* ===== verification/Diff_Ordering.thy ===== *)
theory Diff_Ordering
  imports Migration_Action "HOL-Library.Product_Lexorder"
begin

text \<open>
  Ordering of the actions of a plan (\<open>vespertide-planner/src/diff/ordering.rs\<close>): Kahn's
  algorithm, the topological sort of the tables to create, the order of the tables to delete,
  and the two reorderings that put a \<open>CreateTable\<close> before the foreign keys that need it and a
  default change before the enum value it uses is removed.

  A \<open>BTreeSet\<close> is the sorted list \<open>oset\<close> gives; where the code only asks for membership it is
  the list it is collected from.
\<close>

type_synonym dependencies = "(string, string list) omap"

section \<open>Kahn's algorithm\<close>

text \<open>\<open>usize\<close> subtraction of one, with its wrap-around; no run reaches it (\<open>kahn_degree\<close>).\<close>

definition usize_dec :: "nat \<Rightarrow> nat" where
  "usize_dec d = (if d = 0 then 2 ^ 64 - 1 else d - 1)"

definition kahn_visit ::
  "string \<Rightarrow> string \<times> string list \<Rightarrow> (string, nat) omap \<times> string list \<Rightarrow> (string, nat) omap \<times> string list" where
  "kahn_visit name entry st =
     (case (entry, st) of ((dependent, deps), (in_degree, ready)) \<Rightarrow>
        if name \<in> set deps then
          (case om_lookup in_degree dependent of
             None \<Rightarrow> (in_degree, ready)
           | Some degree \<Rightarrow>
               let degree' = usize_dec degree
               in (om_insert dependent degree' in_degree,
                   if degree' = 0 then ready @ [dependent] else ready))
        else (in_degree, ready))"

text \<open>
  The \<open>while let\<close> loop, with fuel; \<open>None\<close> when the fuel runs out.  One round per name is enough
  (\<open>kahn_loop_ends\<close>).
\<close>

fun kahn_loop ::
  "nat \<Rightarrow> dependencies \<Rightarrow> (string, nat) omap \<Rightarrow> string list \<Rightarrow> string list \<Rightarrow> string list option" where
  "kahn_loop fuel dependencies in_degree [] order = Some order"
| "kahn_loop 0 dependencies in_degree (name # queue) order = None"
| "kahn_loop (Suc fuel) dependencies in_degree (name # queue) order =
     (let (in_degree', ready) = fold (kahn_visit name) dependencies (in_degree, [])
      in kahn_loop fuel dependencies in_degree' (queue @ oset ready) (order @ [name]))"

definition kahn_ready_order :: "dependencies \<Rightarrow> string list" where
  "kahn_ready_order dependencies =
     (let in_degree = om_collect (map (\<lambda>(name, deps). (name, length deps)) dependencies);
          queue = map fst (filter (\<lambda>(_, deg). deg = 0) in_degree)
      in case kahn_loop (length dependencies) dependencies in_degree queue [] of
           Some order \<Rightarrow> order | None \<Rightarrow> [])"

section \<open>Creation order\<close>

definition fk_ref_tables :: "table_def \<Rightarrow> table_name list" where
  "fk_ref_tables table =
     concat (map (\<lambda>c. case c of ForeignKey _ _ ref_table _ _ _ _ \<Rightarrow> [ref_table] | _ \<Rightarrow> []) (tbl_constraints table))"

definition create_dependencies :: "table_def list \<Rightarrow> dependencies" where
  "create_dependencies tables =
     (let table_names = map tbl_name tables
      in om_collect (map (\<lambda>table.
           (tbl_name table,
            oset (filter (\<lambda>r. r \<in> set table_names \<and> r \<noteq> tbl_name table) (fk_ref_tables table)))) tables))"

definition topological_sort_tables :: "table_def list \<Rightarrow> planner_error + table_def list" where
  "topological_sort_tables tables =
     (if tables = [] then Inr []
      else
        let table_map = om_collect (map (\<lambda>t. (tbl_name t, t)) tables);
            result = List.map_filter (om_lookup table_map) (kahn_ready_order (create_dependencies tables))
        in if length result \<noteq> length tables then
             let placed = map tbl_name result;
                 remaining = filter (\<lambda>name. name \<notin> set placed) (map tbl_name tables)
             in Inl (TableValidation (''Circular foreign key dependency detected among tables: '' @
                  debug_list debug_str remaining))
           else Inr result)"

section \<open>Deletion order\<close>

text \<open>\<open>None\<close> stands for the panic of \<open>extract_delete_table_name\<close> on another action.\<close>

fun extract_delete_table_name :: "migration_action \<Rightarrow> string option" where
  "extract_delete_table_name (DeleteTable table) = Some table"
| "extract_delete_table_name _ = None"

definition is_delete_table :: "migration_action \<Rightarrow> bool" where
  "is_delete_table a \<longleftrightarrow> extract_delete_table_name a \<noteq> None"

definition delete_dependencies :: "string list \<Rightarrow> (string, table_def) omap \<Rightarrow> dependencies" where
  "delete_dependencies delete_table_names all_tables =
     om_collect (map (\<lambda>table_name.
       (table_name,
        (case om_lookup all_tables table_name of
           None \<Rightarrow> []
         | Some table_def \<Rightarrow>
             oset (filter (\<lambda>r. r \<in> set delete_table_names \<and> r \<noteq> table_name) (fk_ref_tables table_def)))))
       delete_table_names)"

text \<open>One round of the loop that moves every action to its rank by swaps.\<close>

type_synonym 'a placing = "'a list \<times> nat list \<times> nat list"

definition place_step :: "nat list \<Rightarrow> nat list \<Rightarrow> nat \<Rightarrow> 'a placing \<Rightarrow> 'a placing" where
  "place_step delete_indices order dst st =
     (case st of (actions, origin_at, pos_of) \<Rightarrow>
        let want = order ! dst;
            src = pos_of ! want
        in if src \<noteq> dst then
             let displaced = origin_at ! dst
             in (swap actions (delete_indices ! dst) (delete_indices ! src),
                 swap origin_at dst src,
                 pos_of[want := dst, displaced := src])
           else st)"

definition delete_rank :: "(string, nat) omap \<Rightarrow> migration_action \<Rightarrow> nat" where
  "delete_rank sorted_positions a =
     (case extract_delete_table_name a of
        None \<Rightarrow> 0
      | Some name \<Rightarrow> (case om_lookup sorted_positions name of None \<Rightarrow> 0 | Some p \<Rightarrow> p))"

definition sort_delete_tables ::
  "migration_action list \<Rightarrow> (string, table_def) omap \<Rightarrow> migration_action list" where
  "sort_delete_tables actions all_tables =
     (let delete_indices = map fst (filter (\<lambda>(_, a). is_delete_table a) (enumerated actions))
      in if length delete_indices \<le> 1 then actions
         else
           let delete_table_names =
                 oset (List.map_filter (\<lambda>i. extract_delete_table_name (actions ! i)) delete_indices);
               sorted_tables = rev (kahn_ready_order (delete_dependencies delete_table_names all_tables));
               sorted_positions = om_collect (map (\<lambda>(idx, name). (name, idx)) (enumerated sorted_tables));
               k = length delete_indices;
               order = sort_key (\<lambda>rank. delete_rank sorted_positions (actions ! (delete_indices ! rank))) [0..<k]
           in fst (fold (place_step delete_indices order) [0..<k] (actions, [0..<k], [0..<k])))"

section \<open>Creations before the foreign keys that need them\<close>

fun is_create_table :: "migration_action \<Rightarrow> bool" where
  "is_create_table (CreateTable _ _ _) = True"
| "is_create_table _ = False"

fun refs_created :: "string list \<Rightarrow> migration_action \<Rightarrow> bool" where
  "refs_created created_tables (AddConstraint _ (ForeignKey _ _ ref_table _ _ _ _)) =
     (ref_table \<in> set created_tables)"
| "refs_created created_tables _ = False"

definition compare_actions_for_create_order ::
  "string list \<Rightarrow> migration_action \<Rightarrow> migration_action \<Rightarrow> ordering" where
  "compare_actions_for_create_order created_tables a b =
     (if is_create_table a \<noteq> is_create_table b then (if is_create_table a then Less else Greater)
      else if refs_created created_tables a \<noteq> refs_created created_tables b
        then (if refs_created created_tables a then Greater else Less)
      else Equal)"

fun created_table :: "migration_action \<Rightarrow> string option" where
  "created_table (CreateTable table _ _) = Some table"
| "created_table _ = None"

definition sort_create_before_add_constraint :: "migration_action list \<Rightarrow> migration_action list" where
  "sort_create_before_add_constraint actions =
     (let created_tables = oset (List.map_filter created_table actions)
      in if created_tables = [] then actions
         else sort_by (compare_actions_for_create_order created_tables) actions)"

section \<open>Default changes before the removal of an enum value\<close>

fun string_enum_value_removed :: "column_type \<Rightarrow> column_type \<Rightarrow> string \<Rightarrow> bool" where
  "string_enum_value_removed (Complex (Enum _ (EnumString from_values)))
     (Complex (Enum _ (EnumString to_values))) needle = (needle \<in> set from_values \<and> needle \<notin> set to_values)"
| "string_enum_value_removed _ _ _ = False"

definition extract_unquoted_default :: "string \<Rightarrow> string" where
  "extract_unquoted_default default_sql =
     (let trimmed = trim default_sql
      in case Option.bind (strip_prefix [CHR 0x27] trimmed) (strip_suffix [CHR 0x27]) of
           Some inner \<Rightarrow> inner
         | None \<Rightarrow> trimmed)"

type_synonym type_changes = "(string \<times> string, nat \<times> column_type) omap"
type_synonym default_changes = "(string \<times> string, nat) omap"

fun record_change :: "nat \<times> migration_action \<Rightarrow> type_changes \<times> default_changes \<Rightarrow> type_changes \<times> default_changes" where
  "record_change (i, ModifyColumnType table column new_type _ _ _) (tcs, dcs) =
     (om_insert (table, column) (i, new_type) tcs, dcs)"
| "record_change (i, ModifyColumnDefault table column _ _) (tcs, dcs) =
     (tcs, om_insert (table, column) i dcs)"
| "record_change _ st = st"

definition enum_default_swap ::
  "(string, table_def) omap \<Rightarrow> default_changes \<Rightarrow> (string \<times> string) \<times> (nat \<times> column_type) \<Rightarrow>
     (nat \<times> nat) option" where
  "enum_default_swap from_map dcs change =
     (case change of ((table, column), (type_idx, new_type)) \<Rightarrow>
        (case (om_lookup dcs (table, column), om_lookup from_map table) of
           (Some default_idx, Some from_table) \<Rightarrow>
             (case find (\<lambda>c. col_name c = column) (tbl_columns from_table) of
                None \<Rightarrow> None
              | Some from_column \<Rightarrow>
                  (case col_default from_column of
                     None \<Rightarrow> None
                   | Some old_default \<Rightarrow>
                       if string_enum_value_removed (col_type from_column) new_type
                            (extract_unquoted_default (to_sql old_default)) \<and> type_idx < default_idx
                       then Some (type_idx, default_idx) else None))
         | _ \<Rightarrow> None))"

definition sort_enum_default_dependencies ::
  "migration_action list \<Rightarrow> (string, table_def) omap \<Rightarrow> migration_action list" where
  "sort_enum_default_dependencies actions from_map =
     (let (tcs, dcs) = fold record_change (enumerated actions) ([], []);
          swaps = List.map_filter (enum_default_swap from_map dcs) tcs
      in fold (\<lambda>(i, j) as. swap as i j) swaps actions)"

section \<open>Kahn's algorithm orders a graph\<close>

text \<open>
  What the algorithm relies on: one entry per name, dependency sets without duplicates, no name
  outside the map.  Under it the result lists exactly the names with no cycle below them, each
  after everything it depends on.
\<close>

locale dependency_graph =
  fixes D :: dependencies
  assumes keys: "distinct (map fst D)"
    and deps_distinct: "(k, ds) \<in> set D \<Longrightarrow> distinct ds"
    and deps_known: "(k, ds) \<in> set D \<Longrightarrow> set ds \<subseteq> fst ` set D"
begin

definition invariant :: "(string, nat) omap \<Rightarrow> string list \<Rightarrow> string list \<Rightarrow> bool" where
  "invariant deg queue order \<longleftrightarrow>
     distinct (order @ queue) \<and> set (order @ queue) \<subseteq> fst ` set D \<and>
     (\<forall>(k, ds) \<in> set D. om_lookup deg k = Some (card (set ds - set order)) \<and>
        (k \<in> set (order @ queue) \<longleftrightarrow> set ds \<subseteq> set order)) \<and>
     (\<forall>i < length order. \<forall>ds. (order ! i, ds) \<in> set D \<longrightarrow> set ds \<subseteq> set (take i order))"

lemma invariantI:
  assumes "distinct (order @ queue)" and "set (order @ queue) \<subseteq> fst ` set D"
    and "\<And>k ds. (k, ds) \<in> set D \<Longrightarrow> om_lookup deg k = Some (card (set ds - set order))"
    and "\<And>k ds. (k, ds) \<in> set D \<Longrightarrow> k \<in> set (order @ queue) \<longleftrightarrow> set ds \<subseteq> set order"
    and "\<And>i ds. i < length order \<Longrightarrow> (order ! i, ds) \<in> set D \<Longrightarrow> set ds \<subseteq> set (take i order)"
  shows "invariant deg queue order"
  using assms unfolding invariant_def by blast

lemma visit_fold:
  assumes "distinct (map fst es)" and "fold (kahn_visit name) es (deg, ready) = (deg', ready')"
  shows "(\<forall>k. om_lookup deg' k = (if \<exists>ds. (k, ds) \<in> set es \<and> name \<in> set ds
           then map_option usize_dec (om_lookup deg k) else om_lookup deg k)) \<and>
         set ready' = set ready \<union> {k. \<exists>ds. (k, ds) \<in> set es \<and> name \<in> set ds \<and>
           map_option usize_dec (om_lookup deg k) = Some 0}"
  using assms
proof (induction es arbitrary: deg ready)
  case (Cons e es)
  obtain a ds where e: "e = (a, ds)" by (cases e)
  obtain deg1 ready1 where v: "kahn_visit name e (deg, ready) = (deg1, ready1)" by fastforce
  have fresh: "(a, ds') \<notin> set es" for ds'
    using Cons.prems(1) e by force
  have look: "om_lookup deg1 k = (if k = a \<and> name \<in> set ds then map_option usize_dec (om_lookup deg k)
      else om_lookup deg k)" for k
    using v e by (auto simp: kahn_visit_def om_simps Let_def split: if_splits option.splits)
  have rd: "set ready1 = set ready \<union> (if name \<in> set ds \<and> map_option usize_dec (om_lookup deg a) = Some 0 then {a} else {})"
    using v e by (auto simp: kahn_visit_def Let_def split: if_splits option.splits)
  have "fold (kahn_visit name) es (deg1, ready1) = (deg', ready')" "distinct (map fst es)"
    using Cons.prems v by auto
  from Cons.IH [OF this(2,1)] show ?case
    using look rd fresh e by auto
qed auto

lemma entry_unique: "(k, ds) \<in> set D \<Longrightarrow> (k, ds') \<in> set D \<Longrightarrow> ds = ds'"
  using keys eq_key_imp_eq_value by metis

lemma step:
  assumes inv: "invariant deg (name # queue) order"
    and fd: "fold (kahn_visit name) D (deg, []) = (deg', ready)"
  shows "invariant deg' (queue @ oset ready) (order @ [name])"
proof -
  have name: "name \<notin> set order" "name \<notin> set queue" "name \<in> fst ` set D"
    using inv by (auto simp: invariant_def)
  have look: "om_lookup deg' k = (if \<exists>ds. (k, ds) \<in> set D \<and> name \<in> set ds
        then map_option usize_dec (om_lookup deg k) else om_lookup deg k)"
    and rdy: "k \<in> set ready \<longleftrightarrow> (\<exists>ds. (k, ds) \<in> set D \<and> name \<in> set ds \<and>
        map_option usize_dec (om_lookup deg k) = Some 0)" for k
    using visit_fold [OF keys fd] by auto
  have card_name: "card (set ds - set order) = Suc (card (set ds - insert name (set order)))"
    if "name \<in> set ds" for ds
    using name(1) that by (metis DiffI Diff_insert card_Suc_Diff1 finite_Diff finite_set)
  have all: "\<forall>(k, ds) \<in> set D. om_lookup deg k = Some (card (set ds - set order)) \<and>
        (k \<in> set (order @ name # queue) \<longleftrightarrow> set ds \<subseteq> set order)"
    using inv unfolding invariant_def by blast
  have deg: "om_lookup deg k = Some (card (set ds - set order))"
    and mem: "k \<in> set order \<union> insert name (set queue) \<longleftrightarrow> set ds \<subseteq> set order" if "(k, ds) \<in> set D" for k ds
    using bspec [OF all that] by auto
  have deg': "om_lookup deg' k = Some (card (set ds - insert name (set order)))" if kd: "(k, ds) \<in> set D" for k ds
  proof (cases "name \<in> set ds")
    case True
    with kd have "om_lookup deg' k = map_option usize_dec (om_lookup deg k)"
      using look [of k] by auto
    with True show ?thesis using deg [OF kd] card_name by (simp add: usize_dec_def)
  next
    case False
    then have "set ds - insert name (set order) = set ds - set order" by auto
    moreover have "om_lookup deg' k = om_lookup deg k"
      using look [of k] False kd entry_unique by (metis (no_types, lifting))
    ultimately show ?thesis using deg [OF kd] by simp
  qed
  have ready: "k \<in> set ready \<longleftrightarrow> name \<in> set ds \<and> set ds \<subseteq> insert name (set order)" if kd: "(k, ds) \<in> set D" for k ds
  proof -
    have "k \<in> set ready \<longleftrightarrow> name \<in> set ds \<and> map_option usize_dec (om_lookup deg k) = Some 0"
      using rdy [of k] kd entry_unique [OF kd] by blast
    also have "\<dots> \<longleftrightarrow> name \<in> set ds \<and> card (set ds - insert name (set order)) = 0"
      using deg [OF kd] card_name [of ds] by (cases "name \<in> set ds") (simp_all add: usize_dec_def)
    finally show ?thesis by auto
  qed
  have ready_keys: "set ready \<subseteq> fst ` set D" using rdy by force
  have new: "k \<notin> set order \<and> k \<noteq> name \<and> k \<notin> set queue" if kr: "k \<in> set ready" for k
  proof -
    obtain ds where kd: "(k, ds) \<in> set D" using kr rdy [of k] by blast
    then have "name \<in> set ds" using ready kr by blast
    then show ?thesis using mem [OF kd] name(1) by auto
  qed
  have "distinct ((order @ [name]) @ queue @ oset ready)"
    using inv new by (auto simp: invariant_def)
  moreover have "set ((order @ [name]) @ queue @ oset ready) \<subseteq> fst ` set D"
    using inv ready_keys by (auto simp: invariant_def)
  moreover have "k \<in> set ((order @ [name]) @ queue @ oset ready) \<longleftrightarrow> set ds \<subseteq> set (order @ [name])"
    if kd: "(k, ds) \<in> set D" for k ds
    using mem [OF kd] ready [OF kd] name(1) by auto
  moreover have "set ds \<subseteq> set (take i (order @ [name]))"
    if "i < length (order @ [name])" "((order @ [name]) ! i, ds) \<in> set D" for i ds
    using that inv mem [of name ds] unfolding invariant_def
    by (cases "i < length order") (auto simp: nth_append less_Suc_eq)
  ultimately show ?thesis
    using deg' unfolding invariant_def by auto
qed

lemma loop:
  assumes "invariant deg queue order" and "card (fst ` set D) \<le> fuel + length order"
  shows "\<exists>order' deg'. kahn_loop fuel D deg queue order = Some order' \<and> invariant deg' [] order'"
  using assms
proof (induction fuel arbitrary: deg queue order)
  case 0
  have "length (order @ queue) \<le> card (fst ` set D)"
    using 0(1) unfolding invariant_def by (metis card_mono distinct_card finite_imageI finite_set)
  with 0(2) have "length queue = 0" unfolding length_append by linarith
  with 0 show ?case by auto
next
  case (Suc fuel)
  show ?case
  proof (cases queue)
    case (Cons name q)
    obtain deg' ready where fd: "fold (kahn_visit name) D (deg, []) = (deg', ready)" by fastforce
    have "invariant deg' (q @ oset ready) (order @ [name])"
      using step [OF _ fd] Suc.prems(1) Cons by simp
    from Suc.IH [OF this] Suc.prems(2) Cons fd show ?thesis by simp
  qed (use Suc in auto)
qed

lemma start:
  "invariant (om_collect (map (\<lambda>(name, deps). (name, length deps)) D))
     (map fst (filter (\<lambda>(_, deg). deg = 0) (om_collect (map (\<lambda>(name, deps). (name, length deps)) D)))) []"
proof -
  let ?kvs = "map (\<lambda>(name, deps). (name, length deps)) D"
  have d: "distinct (map fst ?kvs)" using keys by (simp add: case_prod_unfold comp_def)
  have look: "om_lookup (om_collect ?kvs) k = Some (card (set ds))" if "(k, ds) \<in> set D" for k ds
  proof -
    have "(k, length ds) \<in> set ?kvs" using that by force
    then have "(k, length ds) \<in> set (om_collect ?kvs)" using om_collect_set [OF d] by blast
    then have "om_lookup (om_collect ?kvs) k = Some (length ds)"
      using om.entries_lookup [OF om_invar_collect [of ?kvs], of k "length ds"] by blast
    then show ?thesis using distinct_card [OF deps_distinct [OF that]] by simp
  qed
  have sets: "set (om_collect ?kvs) = (\<lambda>(n, ds). (n, length ds)) ` set D"
    using om_collect_set [OF d] by simp
  have queue: "k \<in> set (map fst (filter (\<lambda>(_, deg). deg = 0) (om_collect ?kvs))) \<longleftrightarrow> (\<exists>ds. (k, ds) \<in> set D \<and> ds = [])" for k
    using sets by (auto simp: image_iff split_beta intro!: bexI [of _ "(k, [])"])
  have "distinct (map fst (filter (\<lambda>(_, deg). deg = 0) (om_collect ?kvs)))"
    using om_collect_distinct [of ?kvs] by (simp add: distinct_map_filter)
  moreover have "set (map fst (filter (\<lambda>(_, deg). deg = 0) (om_collect ?kvs))) \<subseteq> fst ` set D"
    unfolding subset_iff queue by (metis fst_conv image_eqI)
  moreover have "k \<in> set (map fst (filter (\<lambda>(_, deg). deg = 0) (om_collect ?kvs))) \<longleftrightarrow> set ds \<subseteq> set []"
    if "(k, ds) \<in> set D" for k ds
    unfolding queue using that entry_unique [OF that] by (metis list.set(1) set_empty subset_empty)
  ultimately show ?thesis
    using look by (intro invariantI) (simp_all only: append_Nil list.set(1) Diff_empty list.size(3) not_less_zero)
qed

lemma ready_order:
  obtains deg where "invariant deg [] (kahn_ready_order D)"
proof -
  have "card (fst ` set D) = length D"
    using keys distinct_card [OF keys] by simp
  with loop [OF start, of "length D"] that show thesis
    by (auto simp: kahn_ready_order_def Let_def)
qed

lemma order_distinct: "distinct (kahn_ready_order D)" "set (kahn_ready_order D) \<subseteq> fst ` set D"
  using ready_order by (auto simp: invariant_def)

lemma order_after_deps:
  assumes "i < length (kahn_ready_order D)" and "(kahn_ready_order D ! i, ds) \<in> set D"
  shows "set ds \<subseteq> set (take i (kahn_ready_order D))"
  using assms ready_order unfolding invariant_def by metis

lemma order_closed: "(k, ds) \<in> set D \<Longrightarrow> k \<in> set (kahn_ready_order D) \<longleftrightarrow> set ds \<subseteq> set (kahn_ready_order D)"
  by (rule ready_order) (auto simp: invariant_def)

text \<open>The edges of the graph, from a name to the names it depends on.\<close>

definition edges :: "(string \<times> string) set" where
  "edges = {(k, d). \<exists>ds. (k, ds) \<in> set D \<and> d \<in> set ds}"

lemma placed_wf:
  assumes "set (kahn_ready_order D) = fst ` set D"
  shows "acyclic edges"
proof (rule acyclicI_order)
  fix k d assume "(k, d) \<in> edges"
  then obtain ds where kd: "(k, ds) \<in> set D" "d \<in> set ds" by (auto simp: edges_def)
  let ?o = "kahn_ready_order D"
  have "k \<in> set ?o" using assms kd(1) by force
  then obtain i where i: "i < length ?o" "?o ! i = k" by (metis in_set_conv_nth)
  with kd have "d \<in> set (take i ?o)" using order_after_deps by blast
  then obtain j where j: "j < i" "?o ! j = d" by (metis in_set_conv_nth length_take min_less_iff_conj nth_take)
  have "the_inv_into {..<length ?o} ((!) ?o) d = j" "the_inv_into {..<length ?o} ((!) ?o) k = i"
    using i j order_distinct(1) by (auto intro!: the_inv_into_f_eq simp: inj_on_nth)
  with j show "the_inv_into {..<length ?o} ((!) ?o) d < the_inv_into {..<length ?o} ((!) ?o) k" by simp
qed

lemma unplaced_cycle:
  assumes "acyclic edges"
  shows "set (kahn_ready_order D) = fst ` set D"
proof (rule ccontr)
  let ?R = "fst ` set D - set (kahn_ready_order D)"
  assume "set (kahn_ready_order D) \<noteq> fst ` set D"
  with order_distinct(2) obtain r where r: "r \<in> ?R" by blast
  have "edges \<subseteq> fst ` set D \<times> fst ` set D"
    unfolding edges_def using deps_known by (auto intro: rev_image_eqI)
  then have "finite edges" by (rule finite_subset) simp
  then have "wf (edges\<inverse>)" using assms by (rule finite_acyclic_wf_converse)
  then obtain z where z: "z \<in> ?R" and min: "\<And>y. (y, z) \<in> edges\<inverse> \<Longrightarrow> y \<notin> ?R"
    using r by (rule wfE_min) (assumption | blast)+
  obtain ds where kd: "(z, ds) \<in> set D" using z by auto
  have "set ds \<subseteq> set (kahn_ready_order D)"
  proof
    fix d assume "d \<in> set ds"
    then have "(d, z) \<in> edges\<inverse>" "d \<in> fst ` set D" using kd deps_known by (auto simp: edges_def)
    then show "d \<in> set (kahn_ready_order D)" using min by blast
  qed
  then show False using order_closed [OF kd] z by blast
qed

lemma placed_iff_acyclic: "set (kahn_ready_order D) = fst ` set D \<longleftrightarrow> acyclic edges"
  using placed_wf unplaced_cycle by blast

end


section \<open>The two graphs\<close>

lemma create_dependencies_entry:
  "(k, ds) \<in> set (create_dependencies ts) \<Longrightarrow>
   \<exists>t \<in> set ts. k = tbl_name t \<and> ds = oset (filter (\<lambda>r. r \<in> tbl_name ` set ts \<and> r \<noteq> tbl_name t) (fk_ref_tables t))"
  by (auto simp: create_dependencies_def Let_def om_collect_entry dest!: map_of_SomeD)

lemma create_dependencies_keys: "fst ` set (create_dependencies ts) = tbl_name ` set ts"
  using om_keys_collect [of "map (\<lambda>t. (tbl_name t, oset (filter (\<lambda>r. r \<in> set (map tbl_name ts) \<and> r \<noteq> tbl_name t)
      (fk_ref_tables t)))) ts"]
  by (simp add: create_dependencies_def Let_def image_image)

interpretation create: dependency_graph "create_dependencies tables" for tables
proof
  show "distinct (map fst (create_dependencies tables))"
    by (simp add: create_dependencies_def Let_def om_collect_distinct)
  show "distinct ds" if "(k, ds) \<in> set (create_dependencies tables)" for k ds
    using create_dependencies_entry [OF that] by auto
  show "set ds \<subseteq> fst ` set (create_dependencies tables)" if "(k, ds) \<in> set (create_dependencies tables)" for k ds
    using create_dependencies_entry [OF that] by (auto simp: create_dependencies_keys)
qed

lemma delete_dependencies_entry:
  "(k, ds) \<in> set (delete_dependencies ns m) \<Longrightarrow>
   k \<in> set ns \<and> ds = (case om_lookup m k of None \<Rightarrow> []
     | Some t \<Rightarrow> oset (filter (\<lambda>r. r \<in> set ns \<and> r \<noteq> k) (fk_ref_tables t)))"
  by (auto simp: delete_dependencies_def om_collect_entry dest!: map_of_SomeD)

lemma delete_dependencies_keys: "fst ` set (delete_dependencies ns m) = set ns"
  using om_keys_collect [of "map (\<lambda>k. (k, case om_lookup m k of None \<Rightarrow> []
     | Some t \<Rightarrow> oset (filter (\<lambda>r. r \<in> set ns \<and> r \<noteq> k) (fk_ref_tables t)))) ns"]
  by (simp add: delete_dependencies_def image_image)

interpretation delete: dependency_graph "delete_dependencies ns m" for ns m
proof
  show "distinct (map fst (delete_dependencies ns m))"
    by (simp add: delete_dependencies_def om_collect_distinct)
  show "distinct ds" if "(k, ds) \<in> set (delete_dependencies ns m)" for k ds
    using delete_dependencies_entry [OF that] by (auto split: option.splits)
  show "set ds \<subseteq> fst ` set (delete_dependencies ns m)" if "(k, ds) \<in> set (delete_dependencies ns m)" for k ds
    using delete_dependencies_entry [OF that] by (auto simp: delete_dependencies_keys split: option.splits)
qed

section \<open>Creation order\<close>

text \<open>The foreign keys between different tables of \<open>ts\<close>.\<close>

definition fk_edges :: "table_def list \<Rightarrow> (table_name \<times> table_name) set" where
  "fk_edges ts = {(tbl_name t, r) |t r. t \<in> set ts \<and> r \<in> set (fk_ref_tables t) \<and> r \<in> tbl_name ` set ts \<and> r \<noteq> tbl_name t}"

lemma create_dependencies_mem:
  assumes "distinct (map tbl_name ts)" and "t \<in> set ts"
  shows "(tbl_name t, oset (filter (\<lambda>r. r \<in> tbl_name ` set ts \<and> r \<noteq> tbl_name t) (fk_ref_tables t)))
    \<in> set (create_dependencies ts)"
proof -
  let ?f = "\<lambda>t. (tbl_name t, oset (filter (\<lambda>r. r \<in> set (map tbl_name ts) \<and> r \<noteq> tbl_name t) (fk_ref_tables t)))"
  have "distinct (map fst (map ?f ts))" using assms(1) by (simp add: comp_def)
  from om_collect_set [OF this] assms(2) show ?thesis
    by (auto simp: create_dependencies_def Let_def)
qed

lemma create_edges:
  assumes "distinct (map tbl_name ts)"
  shows "create.edges ts = fk_edges ts"
proof -
  have "(k, d) \<in> create.edges ts \<longleftrightarrow> (k, d) \<in> fk_edges ts" for k d
  proof
    assume "(k, d) \<in> create.edges ts"
    then show "(k, d) \<in> fk_edges ts"
      using create_dependencies_entry by (fastforce simp: create.edges_def fk_edges_def)
  next
    assume "(k, d) \<in> fk_edges ts"
    then obtain t where "t \<in> set ts" "k = tbl_name t" "d \<in> set (fk_ref_tables t)" "d \<in> tbl_name ` set ts" "d \<noteq> k"
      by (auto simp: fk_edges_def)
    with create_dependencies_mem [OF assms, of t] show "(k, d) \<in> create.edges ts"
      by (auto simp: create.edges_def intro!: exI)
  qed
  then show ?thesis by auto
qed

lemma om_lookup_by_name:
  assumes "distinct (map f xs)" and "x \<in> set xs"
  shows "om_lookup (om_collect (map (\<lambda>x. (f x, x)) xs)) (f x) = Some x"
proof -
  have "distinct (map fst (map (\<lambda>x. (f x, x)) xs))" using assms(1) by (simp add: comp_def)
  from om_collect_set [OF this] have "(f x, x) \<in> set (om_collect (map (\<lambda>x. (f x, x)) xs))"
    using assms(2) by simp
  then show ?thesis
    using om.entries_lookup [OF om_invar_collect [of "map (\<lambda>x. (f x, x)) xs"], of "f x" x] by simp
qed

lemma map_filter_lookup:
  assumes "distinct (map f xs)" and "set ns \<subseteq> f ` set xs"
  shows "\<exists>ys. List.map_filter (om_lookup (om_collect (map (\<lambda>x. (f x, x)) xs))) ns = ys \<and> map f ys = ns \<and> set ys \<subseteq> set xs"
  using assms(2)
proof (induction ns)
  case (Cons n ns)
  then obtain x where "x \<in> set xs" "n = f x" by auto
  with Cons om_lookup_by_name [OF assms(1)] show ?case by (auto simp: List.map_filter_simps)
qed (simp add: List.map_filter_simps)

lemma topological_sort_result:
  assumes "distinct (map tbl_name ts)" and "ts \<noteq> []"
  obtains rs where "map tbl_name rs = kahn_ready_order (create_dependencies ts)" and "set rs \<subseteq> set ts"
    and "(length rs = length ts) = acyclic (fk_edges ts)"
    and "topological_sort_tables ts = (if length rs = length ts then Inr rs
      else Inl (TableValidation (''Circular foreign key dependency detected among tables: '' @
                  debug_list debug_str (filter (\<lambda>n. n \<notin> tbl_name ` set rs) (map tbl_name ts)))))"
proof -
  let ?o = "kahn_ready_order (create_dependencies ts)"
  have "set ?o \<subseteq> tbl_name ` set ts"
    using create.order_distinct(2) [of ts] by (simp add: create_dependencies_keys)
  from map_filter_lookup [OF assms(1) this] obtain rs where
    rs: "List.map_filter (om_lookup (om_collect (map (\<lambda>t. (tbl_name t, t)) ts))) ?o = rs"
      "map tbl_name rs = ?o" "set rs \<subseteq> set ts"
    by blast
  have "length rs = length ts \<longleftrightarrow> set ?o = tbl_name ` set ts"
  proof
    assume "length rs = length ts"
    then have "card (set ?o) = card (tbl_name ` set ts)"
      using create.order_distinct(1) [of ts] rs(2) distinct_card [OF assms(1)] distinct_card [of ?o]
      by (metis length_map list.set_map)
    with \<open>set ?o \<subseteq> _\<close> show "set ?o = tbl_name ` set ts" by (simp add: card_subset_eq)
  next
    assume "set ?o = tbl_name ` set ts"
    then show "length rs = length ts"
      using create.order_distinct(1) [of ts] rs(2) distinct_card [OF assms(1)] distinct_card [of ?o]
      by (metis length_map list.set_map)
  qed
  also have "\<dots> \<longleftrightarrow> acyclic (fk_edges ts)"
    using create.placed_iff_acyclic [of ts] create_edges [OF assms(1)] by (simp add: create_dependencies_keys)
  finally show thesis
    using that [OF rs(2,3)] rs(1) assms(2) by (simp add: topological_sort_tables_def Let_def)
qed

lemma topological_sort_ok:
  assumes "distinct (map tbl_name ts)" and "topological_sort_tables ts = Inr rs"
  shows "mset rs = mset ts"
    and "i < length rs \<Longrightarrow> (tbl_name (rs ! i), r) \<in> fk_edges ts \<Longrightarrow> r \<in> tbl_name ` set (take i rs)"
proof -
  have "mset rs = mset ts \<and> (\<forall>i < length rs. \<forall>r. (tbl_name (rs ! i), r) \<in> fk_edges ts \<longrightarrow> r \<in> tbl_name ` set (take i rs))"
  proof (cases "ts = []")
    case False
    obtain us where us: "map tbl_name us = kahn_ready_order (create_dependencies ts)" "set us \<subseteq> set ts"
      "length us = length ts" "rs = us"
      by (rule topological_sort_result [OF assms(1) False]) (use assms(2) in \<open>simp split: if_splits\<close>)
    have "distinct us" "distinct ts"
      using us(1) create.order_distinct(1) [of ts] assms(1) by (metis distinct_map)+
    with us have "set us = set ts" by (metis card_subset_eq distinct_card finite_set)
    then have m: "mset us = mset ts" using \<open>distinct us\<close> \<open>distinct ts\<close> by (simp add: set_eq_iff_mset_eq_distinct)
    moreover have "r \<in> tbl_name ` set (take i us)" if i: "i < length us" and e: "(tbl_name (us ! i), r) \<in> fk_edges ts" for i r
    proof -
      let ?o = "kahn_ready_order (create_dependencies ts)"
      have "?o ! i = tbl_name (us ! i)" "i < length ?o" using us(1) i by (metis nth_map, metis length_map)
      have "(?o ! i, r) \<in> create.edges ts"
        using e create_edges [OF assms(1)] \<open>?o ! i = _\<close> by simp
      then obtain ds where "(?o ! i, ds) \<in> set (create_dependencies ts)" "r \<in> set ds"
        by (auto simp: create.edges_def)
      with create.order_after_deps [OF \<open>i < length ?o\<close>] have "r \<in> set (take i ?o)" by blast
      then show ?thesis by (simp flip: us(1) add: take_map)
    qed
    ultimately show ?thesis using us(4) by blast
  qed (use assms in \<open>simp add: topological_sort_tables_def\<close>)
  then show "mset rs = mset ts"
    and "i < length rs \<Longrightarrow> (tbl_name (rs ! i), r) \<in> fk_edges ts \<Longrightarrow> r \<in> tbl_name ` set (take i rs)"
    by blast+
qed

lemma topological_sort_error:
  assumes "distinct (map tbl_name ts)"
  shows "(\<exists>e. topological_sort_tables ts = Inl e) \<longleftrightarrow> \<not> acyclic (fk_edges ts)"
proof (cases "ts = []")
  case True
  then show ?thesis by (simp add: topological_sort_tables_def fk_edges_def acyclic_def)
next
  case False
  then show ?thesis using topological_sort_result [OF assms False] by (metis Inl_Inr_False)
qed

section \<open>Placing by swaps\<close>

text \<open>
  The loop with the two inverse rank arrays realises the permutation: after it, slot \<open>r\<close> holds
  what slot \<open>order ! r\<close> held, and nothing outside the slots has moved.
\<close>

definition placing_inv :: "'a list \<Rightarrow> nat list \<Rightarrow> nat list \<Rightarrow> nat \<Rightarrow> 'a placing \<Rightarrow> bool" where
  "placing_inv A di order m st \<longleftrightarrow>
     (case st of (acts, oa, po) \<Rightarrow>
        length acts = length A \<and> length oa = length di \<and> length po = length di \<and>
        (\<forall>p < length di. oa ! p < length di \<and> po ! (oa ! p) = p) \<and>
        (\<forall>r < length di. po ! r < length di \<and> oa ! (po ! r) = r) \<and>
        (\<forall>p < length di. acts ! (di ! p) = A ! (di ! (oa ! p))) \<and>
        (\<forall>p < m. oa ! p = order ! p) \<and>
        (\<forall>j < length A. j \<notin> set di \<longrightarrow> acts ! j = A ! j))"

lemma swap_nth:
  "i < length xs \<Longrightarrow> j < length xs \<Longrightarrow> l < length xs \<Longrightarrow>
   swap xs i j ! l = (if l = i then xs ! j else if l = j then xs ! i else xs ! l)"
  by (auto simp: swap_def nth_list_update)

lemma placing_start: "placing_inv A di order 0 (A, [0..<length di], [0..<length di])"
  by (simp add: placing_inv_def)

lemma placing_step:
  assumes di: "distinct di" "set di \<subseteq> {..<length A}"
    and order: "distinct order" "set order = {..<length di}" "length order = length di"
    and m: "m < length di" and inv: "placing_inv A di order m st"
  shows "placing_inv A di order (Suc m) (place_step di order m st)"
proof -
  obtain acts oa po where st: "st = (acts, oa, po)" by (cases st)
  let ?want = "order ! m" and ?d = "oa ! m"
  let ?src = "po ! ?want"
  have want: "?want < length di" using order m by (metis lessThan_iff nth_mem)
  have i: "length acts = length A" "length oa = length di" "length po = length di"
    "\<And>p. p < length di \<Longrightarrow> oa ! p < length di \<and> po ! (oa ! p) = p"
    "\<And>r. r < length di \<Longrightarrow> po ! r < length di \<and> oa ! (po ! r) = r"
    "\<And>p. p < length di \<Longrightarrow> acts ! (di ! p) = A ! (di ! (oa ! p))"
    "\<And>p. p < m \<Longrightarrow> oa ! p = order ! p"
    "\<And>j. j < length A \<Longrightarrow> j \<notin> set di \<Longrightarrow> acts ! j = A ! j"
    using inv by (auto simp: placing_inv_def st)
  show ?thesis
  proof (cases "?src = m")
    case True
    then have "oa ! m = ?want" using i(5) [OF want] by simp
    with True i show ?thesis
      by (simp add: place_step_def st placing_inv_def less_Suc_eq)
  next
    case False
    have src: "?src < length di" "oa ! ?src = ?want" using i(5) [OF want] by auto
    have ge: "\<not> ?src < m"
    proof
      assume "?src < m"
      then have "order ! ?src = order ! m" using i(7) src(2) by simp
      with \<open>?src < m\<close> m order False show False by (simp add: nth_eq_iff_index_eq)
    qed
    have d: "?d < length di" "po ! ?d = m" using i(4) [OF m] by auto
    have wd: "?want \<noteq> ?d" using d False by metis
    let ?acts = "swap acts (di ! m) (di ! ?src)" and ?oa = "swap oa m ?src"
      and ?po = "po[?want := m, ?d := ?src]"
    have step: "place_step di order m st = (?acts, ?oa, ?po)"
      using False by (simp add: place_step_def st Let_def)
    have slot: "di ! p < length A" if "p < length di" for p
      using di(2) that by (metis lessThan_iff nth_mem subsetD)
    have inj: "di ! p = di ! q \<longleftrightarrow> p = q" if "p < length di" "q < length di" for p q
      using di(1) that by (simp add: nth_eq_iff_index_eq)
    have oa': "?oa ! p = (if p = m then ?want else if p = ?src then ?d else oa ! p)" if "p < length di" for p
      using that m src i(2) by (simp add: swap_nth)
    have po': "?po ! r = (if r = ?d then ?src else if r = ?want then m else po ! r)" if "r < length di" for r
      using that want d i(3) by (simp add: nth_list_update)
    have acts': "?acts ! (di ! p) = (if p = m then acts ! (di ! ?src) else if p = ?src then acts ! (di ! m)
        else acts ! (di ! p))" if "p < length di" for p
      using that slot inj m src(1) i(1) by (simp add: swap_nth)
    have "?oa ! p < length di \<and> ?po ! (?oa ! p) = p" if p: "p < length di" for p
    proof -
      have "oa ! p \<noteq> ?want" if "p \<noteq> ?src" using i(4) [OF p] that by metis
      moreover have "oa ! p \<noteq> ?d" if "p \<noteq> m" using i(4) [OF p] d(2) that by metis
      ultimately show ?thesis
        using oa' [OF p] po' want d(1) i(4) [OF p] wd by auto
    qed
    moreover have "?po ! r < length di \<and> ?oa ! (?po ! r) = r" if r: "r < length di" for r
    proof -
      have "po ! r \<noteq> m" if "r \<noteq> ?d" using i(5) [OF r] that by metis
      moreover have "po ! r \<noteq> ?src" if "r \<noteq> ?want" using i(5) [OF r] src(2) that by metis
      ultimately show ?thesis
        using po' [OF r] oa' m src(1) i(5) [OF r] False wd by auto
    qed
    moreover have "?acts ! (di ! p) = A ! (di ! (?oa ! p))" if "p < length di" for p
      using acts' [OF that] oa' [OF that] i(6) m src that by auto
    moreover have "?oa ! p = order ! p" if "p < Suc m" for p
      using that oa' [of p] m i(7) ge by (auto simp: less_Suc_eq)
    moreover have "?acts ! j = A ! j" if "j < length A" "j \<notin> set di" for j
      using that i(1,8) slot [OF m] slot [OF src(1)] nth_mem [OF m] nth_mem [OF src(1)]
      by (auto simp: swap_nth)
    ultimately show ?thesis
      unfolding step placing_inv_def using i(1-3) by simp
  qed
qed

lemma placing_loop:
  assumes "distinct di" "set di \<subseteq> {..<length A}"
    and "distinct order" "set order = {..<length di}" "length order = length di" and "m \<le> length di"
  shows "placing_inv A di order m (fold (place_step di order) [0..<m] (A, [0..<length di], [0..<length di]))"
  using assms(6)
proof (induction m)
  case (Suc m)
  then show ?case using placing_step [OF assms(1-5), of m] by simp
qed (simp add: placing_start)

lemma placing_result:
  assumes "distinct di" "set di \<subseteq> {..<length A}"
    and "distinct order" "set order = {..<length di}" "length order = length di"
  obtains B where "fst (fold (place_step di order) [0..<length di] (A, [0..<length di], [0..<length di])) = B"
    and "length B = length A" and "\<And>p. p < length di \<Longrightarrow> B ! (di ! p) = A ! (di ! (order ! p))"
    and "\<And>j. j < length A \<Longrightarrow> j \<notin> set di \<Longrightarrow> B ! j = A ! j"
proof -
  obtain B oa po where st: "fold (place_step di order) [0..<length di] (A, [0..<length di], [0..<length di]) = (B, oa, po)"
    by (metis prod_cases3)
  have "placing_inv A di order (length di) (B, oa, po)"
    using placing_loop [OF assms order_refl] st by simp
  then have "length B = length A" "\<And>p. p < length di \<Longrightarrow> B ! (di ! p) = A ! (di ! (order ! p))"
    "\<And>j. j < length A \<Longrightarrow> j \<notin> set di \<Longrightarrow> B ! j = A ! j"
    by (auto simp: placing_inv_def)
  with st that show thesis by simp
qed

section \<open>Deletion order\<close>

lemma map_sort_key: "map h (sort_key (\<lambda>x. f (h x)) xs) = sort_key f (map h xs)"
proof -
  have "map h (insort_key (\<lambda>x. f (h x)) x ys) = insort_key f (h x) (map h ys)" for x ys
    by (induction ys) auto
  then show ?thesis by (induction xs) simp_all
qed

lemma enumerated_filter:
  "map fst (filter (\<lambda>(_, a). P a) (enumerated xs)) = filter (\<lambda>i. P (xs ! i)) [0..<length xs]"
proof (induction xs rule: rev_induct)
  case (snoc x xs)
  have "filter (\<lambda>i. P ((xs @ [x]) ! i)) [0..<length xs] = filter (\<lambda>i. P (xs ! i)) [0..<length xs]"
    by (rule filter_cong) (auto simp: nth_append)
  with snoc show ?case by (simp add: enumerated_def enumerate_append_eq)
qed (simp add: enumerated_def)

lemma nth_filter_indices:
  assumes "length ys = length xs" and "\<And>i. i < length xs \<Longrightarrow> P (ys ! i) = P (xs ! i)"
  shows "map ((!) ys) (filter (\<lambda>i. P (xs ! i)) [0..<length xs]) = filter P ys"
proof -
  have "filter P ys = filter P (map ((!) ys) [0..<length ys])" by (simp add: map_nth)
  also have "\<dots> = map ((!) ys) (filter (\<lambda>i. P (ys ! i)) [0..<length ys])" by (simp add: filter_map comp_def)
  also have "filter (\<lambda>i. P (ys ! i)) [0..<length ys] = filter (\<lambda>i. P (xs ! i)) [0..<length xs]"
    using assms by (auto intro: filter_cong)
  finally show ?thesis by simp
qed

definition deletion_order :: "migration_action list \<Rightarrow> (string, table_def) omap \<Rightarrow> string list" where
  "deletion_order actions m =
     rev (kahn_ready_order (delete_dependencies (oset (List.map_filter extract_delete_table_name actions)) m))"

definition deletion_rank :: "migration_action list \<Rightarrow> (string, table_def) omap \<Rightarrow> migration_action \<Rightarrow> nat" where
  "deletion_rank actions m =
     delete_rank (om_collect (map (\<lambda>(idx, name). (name, idx)) (enumerated (deletion_order actions m))))"

lemma map_filter_delete:
  "List.map_filter (\<lambda>i. extract_delete_table_name (xs ! i)) (filter (\<lambda>i. is_delete_table (xs ! i)) [0..<length xs]) =
   List.map_filter extract_delete_table_name xs"
proof -
  have "List.map_filter (\<lambda>i. extract_delete_table_name (xs ! i)) (filter (\<lambda>i. is_delete_table (xs ! i)) [0..<length xs]) =
      List.map_filter extract_delete_table_name (map ((!) xs) (filter (\<lambda>i. is_delete_table (xs ! i)) [0..<length xs]))"
    by (simp add: List.map_filter_def filter_map comp_def)
  also have "\<dots> = List.map_filter extract_delete_table_name (filter is_delete_table xs)"
    by (simp add: nth_filter_indices)
  also have "\<dots> = List.map_filter extract_delete_table_name xs"
    by (simp add: List.map_filter_def is_delete_table_def)
  finally show ?thesis .
qed

lemma sort_key_short: "length xs \<le> 1 \<Longrightarrow> sort_key f xs = xs"
  by (cases xs) auto

lemma sort_delete_tables_spec:
  obtains B where "sort_delete_tables A m = B" and "length B = length A"
    and "\<And>i. i < length A \<Longrightarrow> is_delete_table (B ! i) = is_delete_table (A ! i)"
    and "\<And>i. i < length A \<Longrightarrow> \<not> is_delete_table (A ! i) \<Longrightarrow> B ! i = A ! i"
    and "filter is_delete_table B = sort_key (deletion_rank A m) (filter is_delete_table A)"
proof -
  let ?di = "filter (\<lambda>i. is_delete_table (A ! i)) [0..<length A]"
  have sel: "map ((!) A) ?di = filter is_delete_table A"
    by (rule nth_filter_indices) auto
  have di: "map fst (filter (\<lambda>(_, a). is_delete_table a) (enumerated A)) = ?di"
    by (rule enumerated_filter)
  show thesis
  proof (cases "length ?di \<le> 1")
    case True
    then have "sort_delete_tables A m = A" by (simp add: sort_delete_tables_def di Let_def)
    moreover have "length (filter is_delete_table A) \<le> 1"
      using True sel by (metis length_map)
    ultimately show ?thesis using that [of A] by (simp add: sort_key_short)
  next
    case False
    define order where "order = sort_key (\<lambda>r. deletion_rank A m (A ! (?di ! r))) [0..<length ?di]"
    have res: "sort_delete_tables A m =
        fst (fold (place_step ?di order) [0..<length ?di] (A, [0..<length ?di], [0..<length ?di]))"
      using False by (simp add: sort_delete_tables_def di Let_def order_def deletion_rank_def deletion_order_def
          map_filter_delete)
    have o: "distinct order" "set order = {..<length ?di}" "length order = length ?di"
      by (auto simp: order_def)
    have sub: "set ?di \<subseteq> {..<length A}" "distinct ?di" by auto
    obtain B where B: "sort_delete_tables A m = B" "length B = length A"
      "\<And>p. p < length ?di \<Longrightarrow> B ! (?di ! p) = A ! (?di ! (order ! p))"
      "\<And>j. j < length A \<Longrightarrow> j \<notin> set ?di \<Longrightarrow> B ! j = A ! j"
      using placing_result [OF sub(2,1) o] res by metis
    have del: "is_delete_table (A ! (?di ! p))" if "p < length ?di" for p
      using nth_mem [OF that] by simp
    have same: "is_delete_table (B ! i) = is_delete_table (A ! i)" if "i < length A" for i
    proof (cases "i \<in> set ?di")
      case True
      then obtain p where p: "p < length ?di" "?di ! p = i" by (metis in_set_conv_nth)
      have "order ! p < length ?di" using o p by (metis lessThan_iff nth_mem)
      with p B(3) del show ?thesis by metis
    qed (use B(4) that in simp)
    have "filter is_delete_table B = map ((!) B) ?di"
      using nth_filter_indices [OF B(2) same] by simp
    also have "\<dots> = map (\<lambda>r. A ! (?di ! r)) order"
      using B(3) o(3) by (intro nth_equalityI) auto
    also have "\<dots> = sort_key (deletion_rank A m) (map (\<lambda>r. A ! (?di ! r)) [0..<length ?di])"
      unfolding order_def by (rule map_sort_key)
    also have "map (\<lambda>r. A ! (?di ! r)) [0..<length ?di] = map ((!) A) ?di"
      by (intro nth_equalityI) auto
    finally show ?thesis
      using that [OF B(1,2) same] B(4) sel by simp
  qed
qed

lemma sort_delete_tables_mset: "mset (sort_delete_tables A m) = mset A"
proof -
  obtain B where B: "sort_delete_tables A m = B" "length B = length A"
    "\<And>i. i < length A \<Longrightarrow> is_delete_table (B ! i) = is_delete_table (A ! i)"
    "\<And>i. i < length A \<Longrightarrow> \<not> is_delete_table (A ! i) \<Longrightarrow> B ! i = A ! i"
    "filter is_delete_table B = sort_key (deletion_rank A m) (filter is_delete_table A)"
    by (rule sort_delete_tables_spec [of A m]) (assumption | blast)+
  have "filter (\<lambda>a. \<not> is_delete_table a) B = map ((!) B) (filter (\<lambda>i. \<not> is_delete_table (A ! i)) [0..<length A])"
    using nth_filter_indices [OF B(2), of "\<lambda>a. \<not> is_delete_table a"] B(3) by simp
  also have "\<dots> = map ((!) A) (filter (\<lambda>i. \<not> is_delete_table (A ! i)) [0..<length A])"
    using B(4) by (intro map_cong) auto
  also have "\<dots> = filter (\<lambda>a. \<not> is_delete_table a) A"
    by (rule nth_filter_indices) auto
  finally have "filter (\<lambda>a. \<not> is_delete_table a) B = filter (\<lambda>a. \<not> is_delete_table a) A" .
  then show ?thesis
    using B(1,5) by (metis mset_sort multiset_partition mset_filter)
qed

lemma lookup_position:
  assumes "distinct xs" and "p < length xs"
  shows "om_lookup (om_collect (map (\<lambda>(idx, name). (name, idx)) (enumerated xs))) (xs ! p) = Some p"
proof -
  let ?kvs = "map (\<lambda>(idx, name). (name, idx)) (enumerated xs)"
  have "map fst ?kvs = xs"
    by (simp add: enumerated_def case_prod_unfold comp_def)
  then have "distinct (map fst ?kvs)" using assms(1) by simp
  moreover have "(xs ! p, p) \<in> set ?kvs"
    using assms(2) by (force simp: enumerated_def in_set_enumerate_eq)
  ultimately have "(xs ! p, p) \<in> set (om_collect ?kvs)" using om_collect_set by blast
  then show ?thesis using om.entries_lookup [OF om_invar_collect [of ?kvs], of "xs ! p" p] by simp
qed

lemma sorted_filter_nth:
  assumes "sorted (map f (filter P xs))" and "i < j" and "j < length xs" and "P (xs ! i)" and "P (xs ! j)"
  shows "f (xs ! i) \<le> f (xs ! j)"
  using assms
proof (induction xs arbitrary: i j)
  case (Cons x xs)
  show ?case
  proof (cases i)
    case 0
    then obtain j' where "j = Suc j'" using Cons.prems(2) by (cases j) auto
    with Cons.prems 0 show ?thesis by auto
  next
    case (Suc i')
    then obtain j' where "j = Suc j'" using Cons.prems(2) by (cases j) auto
    with Cons Suc show ?thesis by (auto split: if_splits)
  qed
qed simp

text \<open>The tables a plan deletes, and the foreign keys between them in the baseline \<open>m\<close>.\<close>

definition deleted_tables :: "migration_action list \<Rightarrow> table_name list" where
  "deleted_tables actions = List.map_filter extract_delete_table_name actions"

definition deleted_edges :: "migration_action list \<Rightarrow> (string, table_def) omap \<Rightarrow> (table_name \<times> table_name) set" where
  "deleted_edges actions m =
     {(b, a). b \<in> set (deleted_tables actions) \<and> a \<in> set (deleted_tables actions) \<and> a \<noteq> b \<and>
        (\<exists>t. om_lookup m b = Some t \<and> a \<in> set (fk_ref_tables t))}"

lemma deleted_edges_eq: "delete.edges (oset (deleted_tables actions)) m = deleted_edges actions m"
proof -
  let ?ns = "oset (deleted_tables actions)"
  have "(b, a) \<in> delete.edges ?ns m \<longleftrightarrow> (b, a) \<in> deleted_edges actions m" for a b
  proof
    assume "(b, a) \<in> delete.edges ?ns m"
    then show "(b, a) \<in> deleted_edges actions m"
      using delete_dependencies_entry by (fastforce simp: delete.edges_def deleted_edges_def split: option.splits)
  next
    assume e: "(b, a) \<in> deleted_edges actions m"
    then have "b \<in> fst ` set (delete_dependencies ?ns m)"
      by (simp add: delete_dependencies_keys deleted_edges_def)
    then obtain ds where ds: "(b, ds) \<in> set (delete_dependencies ?ns m)" by auto
    with e delete_dependencies_entry [OF ds] show "(b, a) \<in> delete.edges ?ns m"
      by (auto simp: delete.edges_def deleted_edges_def)
  qed
  then show ?thesis by auto
qed

lemma deletion_rank_edge:
  assumes "acyclic (deleted_edges A m)" and "(b, a) \<in> deleted_edges A m"
  shows "deletion_rank A m (DeleteTable b) < deletion_rank A m (DeleteTable a)"
proof -
  let ?ns = "oset (deleted_tables A)" and ?K = "kahn_ready_order (delete_dependencies (oset (deleted_tables A)) m)"
  have K: "deletion_order A m = rev ?K" by (simp add: deletion_order_def deleted_tables_def)
  have all: "set ?K = set ?ns"
    using assms(1) delete.placed_iff_acyclic [of ?ns m] by (simp add: deleted_edges_eq delete_dependencies_keys)
  have "(b, a) \<in> delete.edges ?ns m" using assms(2) deleted_edges_eq by simp
  then obtain ds where ds: "(b, ds) \<in> set (delete_dependencies ?ns m)" "a \<in> set ds"
    by (auto simp: delete.edges_def)
  have "b \<in> set ?K" using all assms(2) by (simp add: deleted_edges_def)
  then obtain q where q: "q < length ?K" "?K ! q = b" by (metis in_set_conv_nth)
  have "a \<in> set (take q ?K)" using delete.order_after_deps [OF q(1)] q(2) ds by blast
  then obtain p where p: "p < q" "?K ! p = a"
    by (metis in_set_conv_nth length_take min_less_iff_conj nth_take)
  have rank: "deletion_rank A m (DeleteTable (?K ! r)) = length ?K - 1 - r" if "r < length ?K" for r
    using lookup_position [of "rev ?K" "length ?K - 1 - r"] delete.order_distinct(1) [of ?ns m] that
    by (simp add: deletion_rank_def delete_rank_def K rev_nth)
  show ?thesis using rank [of q] rank [of p] p q by simp
qed

lemma sort_delete_tables_order:
  assumes "acyclic (deleted_edges A m)" and "(b, a) \<in> deleted_edges A m"
    and "i < length A" and "j < length A"
    and "sort_delete_tables A m ! i = DeleteTable a" and "sort_delete_tables A m ! j = DeleteTable b"
  shows "j < i"
proof (rule ccontr)
  assume "\<not> j < i"
  moreover have "i \<noteq> j" using assms(2,5,6) by (auto simp: deleted_edges_def)
  ultimately have "i < j" by simp
  obtain B where B: "sort_delete_tables A m = B" "length B = length A"
    "filter is_delete_table B = sort_key (deletion_rank A m) (filter is_delete_table A)"
    by (rule sort_delete_tables_spec [of A m]) (assumption | blast)+
  have "sorted (map (deletion_rank A m) (filter is_delete_table B))" using B(3) by simp
  from sorted_filter_nth [OF this \<open>i < j\<close>] have "deletion_rank A m (DeleteTable a) \<le> deletion_rank A m (DeleteTable b)"
    using assms B by (simp add: is_delete_table_def)
  with deletion_rank_edge [OF assms(1,2)] show False by simp
qed

section \<open>Creations first\<close>

definition create_key :: "string list \<Rightarrow> migration_action \<Rightarrow> nat" where
  "create_key created a = (if is_create_table a then 0 else if refs_created created a then 2 else 1)"

lemma create_not_refs: "is_create_table a \<Longrightarrow> \<not> refs_created created a"
  by (cases a) auto

lemma compare_actions_key:
  "compare_actions_for_create_order created a b = compare (create_key created a) (create_key created b)"
  using create_not_refs [of a created] create_not_refs [of b created]
  by (auto simp: compare_actions_for_create_order_def create_key_def compare_def)

lemma sorted_const: "(\<And>x. x \<in> set xs \<Longrightarrow> f x = c) \<Longrightarrow> sorted (map f xs)"
  by (induction xs) auto

lemma mset_three_way:
  "(\<And>x. A x \<Longrightarrow> \<not> B x) \<Longrightarrow> mset (filter A xs @ filter (\<lambda>x. \<not> A x \<and> \<not> B x) xs @ filter B xs) = mset xs"
  by (induction xs) auto

lemma sort_create_partition:
  "sort_create_before_add_constraint actions =
     (let created = List.map_filter created_table actions
      in filter is_create_table actions @
         filter (\<lambda>a. \<not> is_create_table a \<and> \<not> refs_created created a) actions @
         filter (refs_created created) actions)"
proof -
  let ?ct = "List.map_filter created_table actions"
  let ?k = "create_key (oset ?ct)"
  let ?R = "filter is_create_table actions @
    filter (\<lambda>a. \<not> is_create_table a \<and> \<not> refs_created ?ct a) actions @ filter (refs_created ?ct) actions"
  have refs: "refs_created (oset ?ct) a = refs_created ?ct a" for a
    by (cases "(oset ?ct, a)" rule: refs_created.cases) auto
  have ks: "?k a = (if is_create_table a then 0 else if refs_created ?ct a then 2 else 1)" for a
    by (simp add: create_key_def refs)
  have "sort_key ?k actions = ?R"
  proof (rule properties_for_sort_key)
    show "mset ?R = mset actions"
      by (rule mset_three_way) (rule create_not_refs)
    show "sorted (map ?k ?R)"
    proof -
      have "sorted (map ?k (filter is_create_table actions))"
        "sorted (map ?k (filter (\<lambda>a. \<not> is_create_table a \<and> \<not> refs_created ?ct a) actions))"
        "sorted (map ?k (filter (refs_created ?ct) actions))"
        by (rule sorted_const [of _ _ 0] sorted_const [of _ _ 1] sorted_const [of _ _ 2];
            use create_not_refs in \<open>fastforce simp: ks\<close>)+
      then show ?thesis using create_not_refs by (auto simp: sorted_append ks)
    qed
    show "filter (\<lambda>x. ?k k = ?k x) ?R = filter (\<lambda>x. ?k k = ?k x) actions" for k
      using create_not_refs by (auto simp: ks filter_empty_conv intro: filter_cong)
  qed
  moreover have "actions = ?R" if "?ct = []"
  proof -
    have "\<forall>a \<in> set actions. \<not> is_create_table a"
      using that by (auto simp: List.map_filter_def filter_empty_conv elim!: is_create_table.elims(2))
    moreover have "\<not> refs_created [] a" for a by (cases "([] :: string list, a)" rule: refs_created.cases) auto
    ultimately show ?thesis using that by (simp add: filter_id_conv filter_empty_conv)
  qed
  ultimately show ?thesis
    unfolding sort_create_before_add_constraint_def Let_def
    using sort_by_sort_key [of "compare_actions_for_create_order (oset ?ct)", OF compare_actions_key]
    by (cases "?ct = []") simp_all
qed

section \<open>Default changes first\<close>

abbreviation pair_indices :: "(nat \<times> nat) list \<Rightarrow> nat list" where
  "pair_indices sw \<equiv> concat (map (\<lambda>(i, j). [i, j]) sw)"

lemma disjoint_swaps:
  assumes "distinct (pair_indices sw)" and "set (pair_indices sw) \<subseteq> {..<length A}"
  shows "length (fold (\<lambda>(i, j) as. swap as i j) sw A) = length A \<and>
    (\<forall>(i, j) \<in> set sw. fold (\<lambda>(i, j) as. swap as i j) sw A ! i = A ! j \<and>
       fold (\<lambda>(i, j) as. swap as i j) sw A ! j = A ! i) \<and>
    (\<forall>l < length A. l \<notin> set (pair_indices sw) \<longrightarrow> fold (\<lambda>(i, j) as. swap as i j) sw A ! l = A ! l)"
  using assms
proof (induction sw arbitrary: A)
  case (Cons p sw)
  obtain i j where p: "p = (i, j)" by (cases p)
  have ij: "i \<noteq> j" "i < length A" "j < length A" "i \<notin> set (pair_indices sw)" "j \<notin> set (pair_indices sw)"
    using Cons.prems p by auto
  have nth: "swap A i j ! l = (if l = i then A ! j else if l = j then A ! i else A ! l)" if "l < length A" for l
    using swap_nth ij that by blast
  have IH: "length (fold (\<lambda>(i, j) as. swap as i j) sw (swap A i j)) = length A"
    "\<And>a b. (a, b) \<in> set sw \<Longrightarrow> fold (\<lambda>(i, j) as. swap as i j) sw (swap A i j) ! a = swap A i j ! b \<and>
       fold (\<lambda>(i, j) as. swap as i j) sw (swap A i j) ! b = swap A i j ! a"
    "\<And>l. l < length A \<Longrightarrow> l \<notin> set (pair_indices sw) \<Longrightarrow>
       fold (\<lambda>(i, j) as. swap as i j) sw (swap A i j) ! l = swap A i j ! l"
    using Cons.IH [of "swap A i j"] Cons.prems p by (auto split: prod.splits)
  have mem: "a \<in> set (pair_indices sw)" "b \<in> set (pair_indices sw)" if "(a, b) \<in> set sw" for a b
    using that by force+
  have ab: "swap A i j ! a = A ! a" "swap A i j ! b = A ! b" if "(a, b) \<in> set sw" for a b
    using mem [OF that] ij nth Cons.prems(2) p by (metis (no_types, lifting) UnCI concat.simps(2) lessThan_iff
        list.simps(9) set_append subsetD)+
  show ?case
    using IH ab ij nth p by auto
qed simp

lemma record_change_cases:
  obtains (type) t c ty f n z where "a = ModifyColumnType t c ty f n z"
      and "record_change (i, a) (tcs, dcs) = (om_insert (t, c) (i, ty) tcs, dcs)"
  | (default) t c d b where "a = ModifyColumnDefault t c d b"
      and "record_change (i, a) (tcs, dcs) = (tcs, om_insert (t, c) i dcs)"
  | (other) "record_change (i, a) (tcs, dcs) = (tcs, dcs)" and "\<And>t c ty f n z. a \<noteq> ModifyColumnType t c ty f n z"
      and "\<And>t c d b. a \<noteq> ModifyColumnDefault t c d b"
  by (cases a) auto

lemma fold_record_snoc:
  assumes "fold record_change (enumerated (A @ [a])) ([], []) = (tcs, dcs)"
  obtains tcs0 dcs0 where "fold record_change (enumerated A) ([], []) = (tcs0, dcs0)"
    and "record_change (length A, a) (tcs0, dcs0) = (tcs, dcs)"
  using assms by (cases "fold record_change (enumerated A) ([], [])")
    (auto simp: enumerated_def enumerate_append_eq)

lemma record_change_sound:
  assumes "fold record_change (enumerated A) ([], []) = (tcs, dcs)"
  shows "om_invar tcs \<and>
    (\<forall>t c i ty. om_lookup tcs (t, c) = Some (i, ty) \<longrightarrow> i < length A \<and> (\<exists>f n z. A ! i = ModifyColumnType t c ty f n z)) \<and>
    (\<forall>t c i. om_lookup dcs (t, c) = Some i \<longrightarrow> i < length A \<and> (\<exists>d b. A ! i = ModifyColumnDefault t c d b))"
  using assms
proof (induction A arbitrary: tcs dcs rule: rev_induct)
  case Nil
  then show ?case by (simp add: enumerated_def om_lookup_def om_invar_def)
next
  case (snoc a A)
  obtain tcs0 dcs0 where f: "fold record_change (enumerated A) ([], []) = (tcs0, dcs0)"
    and r: "record_change (length A, a) (tcs0, dcs0) = (tcs, dcs)"
    by (rule fold_record_snoc [OF snoc.prems])
  show ?case
    by (cases rule: record_change_cases [of a "length A" tcs0 dcs0])
      (use r snoc.IH [OF f] in \<open>auto simp: om_simps nth_append less_Suc_eq split: if_splits\<close>)
qed

text \<open>The action at index \<open>l\<close> changes the type or the default of the column \<open>k\<close>.\<close>

definition changes_column :: "migration_action list \<Rightarrow> string \<times> string \<Rightarrow> nat \<Rightarrow> bool" where
  "changes_column A k l \<longleftrightarrow> l < length A \<and>
     ((\<exists>ty f n z. A ! l = ModifyColumnType (fst k) (snd k) ty f n z) \<or>
      (\<exists>d b. A ! l = ModifyColumnDefault (fst k) (snd k) d b))"

lemma changes_column_unique: "changes_column A k l \<Longrightarrow> changes_column A k' l \<Longrightarrow> k = k'"
  by (auto simp: changes_column_def prod_eq_iff)

lemma enum_default_swap_Some:
  assumes "enum_default_swap fm dcs ((t, c), (i, ty)) = Some (i', j)"
  shows "i' = i" "om_lookup dcs (t, c) = Some j" "i < j"
  using assms by (auto simp: enum_default_swap_def split: option.splits if_splits)

lemma enum_swaps_disjoint:
  assumes "fold record_change (enumerated A) ([], []) = (tcs, dcs)"
  shows "distinct (pair_indices (List.map_filter (enum_default_swap fm dcs) tcs)) \<and>
    set (pair_indices (List.map_filter (enum_default_swap fm dcs) tcs)) \<subseteq> {..<length A}"
proof -
  note S = record_change_sound [OF assms]
  let ?P = "\<lambda>us. pair_indices (List.map_filter (enum_default_swap fm dcs) us)"
  have ent: "changes_column A k i" if "(k, (i, ty)) \<in> set tcs" for k i ty
  proof -
    have "om_lookup tcs (fst k, snd k) = Some (i, ty)"
      using S that om.entries_lookup [of tcs k "(i, ty)"] by simp
    with S have "i < length A \<and> (\<exists>f n z. A ! i = ModifyColumnType (fst k) (snd k) ty f n z)" by blast
    then show ?thesis by (auto simp: changes_column_def)
  qed
  have def: "changes_column A k j" if "om_lookup dcs k = Some j" for k j
    using S that by (cases k) (auto simp: changes_column_def)
  have "distinct (?P us) \<and> (\<forall>l \<in> set (?P us). \<exists>k \<in> fst ` set us. changes_column A k l)"
    if "set us \<subseteq> set tcs" "distinct (map fst us)" for us
    using that
  proof (induction us)
    case (Cons u us)
    obtain k i ty where u: "u = (k, (i, ty))" by (metis prod.collapse)
    have IH: "distinct (?P us)" "\<And>l. l \<in> set (?P us) \<Longrightarrow> \<exists>k \<in> fst ` set us. changes_column A k l"
      using Cons by auto
    show ?case
    proof (cases "enum_default_swap fm dcs u")
      case None
      then have eq: "?P (u # us) = ?P us" by (simp add: List.map_filter_simps)
      show ?thesis unfolding eq using IH by auto
    next
      case (Some p)
      obtain i' j where p: "p = (i', j)" by (cases p)
      have ij: "i' = i" "om_lookup dcs k = Some j" "i < j"
        using enum_default_swap_Some [of fm dcs "fst k" "snd k" i ty i' j] Some u p by simp_all
      have at: "changes_column A k i" "changes_column A k j"
        using ent [of k i ty] def [OF ij(2)] Cons.prems(1) u by auto
      have "k \<notin> fst ` set us" using Cons.prems(2) u by simp
      then have "i \<notin> set (?P us)" "j \<notin> set (?P us)"
        using IH(2) at changes_column_unique by metis+
      moreover have eq: "?P (u # us) = i # j # ?P us" using Some p ij(1) by (simp add: List.map_filter_simps)
      ultimately have "distinct (?P (u # us))" using IH(1) ij(3) by simp
      moreover have "\<exists>k \<in> fst ` set (u # us). changes_column A k l" if "l \<in> set (?P (u # us))" for l
        using that IH(2) [of l] at u unfolding eq by auto
      ultimately show ?thesis by blast
    qed
  qed (simp add: List.map_filter_simps)
  from this [OF subset_refl] have "distinct (?P tcs)" "\<forall>l \<in> set (?P tcs). \<exists>k \<in> fst ` set tcs. changes_column A k l"
    using S om.keys_distinct by blast+
  moreover from this(2) have "set (?P tcs) \<subseteq> {..<length A}"
    unfolding changes_column_def lessThan_def by blast
  ultimately show ?thesis by blast
qed

lemma sort_enum_spec:
  obtains tcs dcs where "fold record_change (enumerated A) ([], []) = (tcs, dcs)"
    and "length (sort_enum_default_dependencies A fm) = length A"
    and "\<And>k i j ty. om_lookup tcs k = Some (i, ty) \<Longrightarrow> enum_default_swap fm dcs (k, (i, ty)) = Some (i, j) \<Longrightarrow>
       sort_enum_default_dependencies A fm ! i = A ! j \<and> sort_enum_default_dependencies A fm ! j = A ! i"
    and "\<And>l. l < length A \<Longrightarrow> sort_enum_default_dependencies A fm ! l \<noteq> A ! l \<Longrightarrow>
       \<exists>k i j ty. om_lookup tcs k = Some (i, ty) \<and> enum_default_swap fm dcs (k, (i, ty)) = Some (i, j) \<and> (l = i \<or> l = j)"
proof -
  obtain tcs dcs where f: "fold record_change (enumerated A) ([], []) = (tcs, dcs)" by fastforce
  let ?sw = "List.map_filter (enum_default_swap fm dcs) tcs"
  have res: "sort_enum_default_dependencies A fm = fold (\<lambda>(i, j) as. swap as i j) ?sw A"
    by (simp add: sort_enum_default_dependencies_def f)
  have D: "length (fold (\<lambda>(i, j) as. swap as i j) ?sw A) = length A"
    "\<forall>(i, j) \<in> set ?sw. fold (\<lambda>(i, j) as. swap as i j) ?sw A ! i = A ! j \<and>
       fold (\<lambda>(i, j) as. swap as i j) ?sw A ! j = A ! i"
    "\<forall>l < length A. l \<notin> set (pair_indices ?sw) \<longrightarrow> fold (\<lambda>(i, j) as. swap as i j) ?sw A ! l = A ! l"
    using disjoint_swaps [of ?sw A] enum_swaps_disjoint [OF f, of fm] by auto
  have ent: "om_lookup tcs k = Some v \<longleftrightarrow> (k, v) \<in> set tcs" for k v
    using record_change_sound [OF f] om.entries_lookup [of tcs k v] by simp
  show thesis
  proof (rule that [OF f])
    show "length (sort_enum_default_dependencies A fm) = length A" using D(1) res by simp
  next
    fix k i j ty
    assume "om_lookup tcs k = Some (i, ty)" "enum_default_swap fm dcs (k, (i, ty)) = Some (i, j)"
    then have "(i, j) \<in> set ?sw" by (force simp: ent List.map_filter_def)
    then show "sort_enum_default_dependencies A fm ! i = A ! j \<and> sort_enum_default_dependencies A fm ! j = A ! i"
      using D(2) res by auto
  next
    fix l assume "l < length A" "sort_enum_default_dependencies A fm ! l \<noteq> A ! l"
    then have "l \<in> set (pair_indices ?sw)" using D(3) res by metis
    then obtain i j where ij: "(i, j) \<in> set ?sw" "l = i \<or> l = j" by auto
    then obtain k a ty where "(k, (a, ty)) \<in> set tcs" "enum_default_swap fm dcs (k, (a, ty)) = Some (i, j)"
      by (auto simp: List.map_filter_def)
    moreover from this have "a = i" using enum_default_swap_Some(1) [of fm dcs "fst k" "snd k" a ty i j] by simp
    ultimately show "\<exists>k i j ty. om_lookup tcs k = Some (i, ty) \<and>
        enum_default_swap fm dcs (k, (i, ty)) = Some (i, j) \<and> (l = i \<or> l = j)"
      using ij(2) ent by blast
  qed
qed


lemma record_change_complete:
  assumes "fold record_change (enumerated A) ([], []) = (tcs, dcs)"
  shows "(\<forall>i < length A. \<forall>t c ty f n z. A ! i = ModifyColumnType t c ty f n z \<longrightarrow> om_lookup tcs (t, c) \<noteq> None) \<and>
    (\<forall>i < length A. \<forall>t c d b. A ! i = ModifyColumnDefault t c d b \<longrightarrow> om_lookup dcs (t, c) \<noteq> None)"
  using assms
proof (induction A arbitrary: tcs dcs rule: rev_induct)
  case (snoc a A)
  obtain tcs0 dcs0 where f: "fold record_change (enumerated A) ([], []) = (tcs0, dcs0)"
    and r: "record_change (length A, a) (tcs0, dcs0) = (tcs, dcs)"
    by (rule fold_record_snoc [OF snoc.prems])
  show ?case
    by (cases rule: record_change_cases [of a "length A" tcs0 dcs0])
      (use r snoc.IH [OF f] in \<open>auto simp: om_simps nth_append less_Suc_eq split: if_splits\<close>)
qed simp

lemma mset_fold_swap:
  "set (pair_indices sw) \<subseteq> {..<length A} \<Longrightarrow> mset (fold (\<lambda>(i, j) as. swap as i j) sw A) = mset A"
proof (induction sw arbitrary: A)
  case (Cons p sw)
  then show ?case by (cases p) (auto simp: mset_swap_eq)
qed simp

lemma sort_enum_mset: "mset (sort_enum_default_dependencies A fm) = mset A"
proof -
  obtain tcs dcs where f: "fold record_change (enumerated A) ([], []) = (tcs, dcs)" by fastforce
  have "mset (fold (\<lambda>(i, j) as. swap as i j) (List.map_filter (enum_default_swap fm dcs) tcs) A) = mset A"
    using enum_swaps_disjoint [OF f, of fm] by (intro mset_fold_swap) blast
  then show ?thesis by (simp add: sort_enum_default_dependencies_def f)
qed

text \<open>The baseline default of the column is an enum value that the new type no longer has.\<close>

definition default_removed :: "(string, table_def) omap \<Rightarrow> string \<Rightarrow> string \<Rightarrow> column_type \<Rightarrow> bool" where
  "default_removed fm t c ty \<longleftrightarrow>
     (\<exists>tbl col d. om_lookup fm t = Some tbl \<and> find (\<lambda>x. col_name x = c) (tbl_columns tbl) = Some col \<and>
        col_default col = Some d \<and> string_enum_value_removed (col_type col) ty (extract_unquoted_default (to_sql d)))"

lemma sort_enum_default_first:
  assumes i: "i < length A" "A ! i = ModifyColumnType t c ty f n z"
    and j: "j < length A" "A ! j = ModifyColumnDefault t c d b" and "i < j"
    and unique: "\<And>l ty f n z. l < length A \<Longrightarrow> A ! l = ModifyColumnType t c ty f n z \<Longrightarrow> l = i"
      "\<And>l d b. l < length A \<Longrightarrow> A ! l = ModifyColumnDefault t c d b \<Longrightarrow> l = j"
    and removed: "default_removed fm t c ty"
  shows "sort_enum_default_dependencies A fm ! i = A ! j \<and> sort_enum_default_dependencies A fm ! j = A ! i"
proof -
  obtain tcs dcs where fr: "fold record_change (enumerated A) ([], []) = (tcs, dcs)"
    and sp: "\<And>k i j ty. om_lookup tcs k = Some (i, ty) \<Longrightarrow> enum_default_swap fm dcs (k, (i, ty)) = Some (i, j) \<Longrightarrow>
       sort_enum_default_dependencies A fm ! i = A ! j \<and> sort_enum_default_dependencies A fm ! j = A ! i"
    by (rule sort_enum_spec [of A fm]) (assumption | blast)+
  obtain i' ty' j' where l: "om_lookup tcs (t, c) = Some (i', ty')" "om_lookup dcs (t, c) = Some j'"
    using record_change_complete [OF fr] i j by (metis not_None_eq prod.collapse)
  have i': "i' < length A" "\<exists>f n z. A ! i' = ModifyColumnType t c ty' f n z"
    and j': "j' < length A" "\<exists>d b. A ! j' = ModifyColumnDefault t c d b"
    using record_change_sound [OF fr] l by blast+
  then have "i' = i" "j' = j" "ty' = ty" using unique i(2) by auto
  with l removed \<open>i < j\<close> have "enum_default_swap fm dcs ((t, c), (i, ty)) = Some (i, j)"
    by (auto simp: enum_default_swap_def default_removed_def)
  with sp l \<open>i' = i\<close> \<open>ty' = ty\<close> show ?thesis by blast
qed

end
