(* ===== verification/Normalize.thy ===== *)
theory Normalize
  imports Sql_Schema
begin

text \<open>
  \<open>TableDef::normalize\<close> (\<open>schema/table/normalize.rs\<close>): inline \<open>primary_key\<close>, \<open>unique\<close>,
  \<open>foreign_key\<close> and \<open>index\<close> declarations of the columns become table constraints.  The four
  passes run in the order of the source, each appending to the constraints the previous one
  left; the group maps are ordered maps from a group name to its columns, with the order of
  first appearance beside them.
\<close>

type_synonym column_groups = "(string, column_name list) omap"

section \<open>The passes\<close>

subsection \<open>Primary key\<close>

definition collect_primary_key_columns :: "table_def \<Rightarrow> column_name list \<times> bool" where
  "collect_primary_key_columns table =
     fold (\<lambda>col (columns, auto_increment).
       case col_primary_key col of
         None \<Rightarrow> (columns, auto_increment)
       | Some (PkBool True) \<Rightarrow> (columns @ [col_name col], auto_increment)
       | Some (PkBool False) \<Rightarrow> (columns, auto_increment)
       | Some (PkObject pk_def) \<Rightarrow>
           (columns @ [col_name col], auto_increment \<or> pk_auto_increment pk_def))
       (tbl_columns table) ([], False)"

fun is_primary_key :: "table_constraint \<Rightarrow> bool" where
  "is_primary_key (PrimaryKey _ _ _) = True"
| "is_primary_key _ = False"

definition has_primary_key_constraint :: "table_constraint list \<Rightarrow> bool" where
  "has_primary_key_constraint constraints = list_ex is_primary_key constraints"

definition add_primary_key_constraint ::
  "table_def \<Rightarrow> table_constraint list \<Rightarrow> table_constraint list" where
  "add_primary_key_constraint table constraints =
     (let (pk_columns, pk_auto_increment) = collect_primary_key_columns table
      in if pk_columns = [] \<or> has_primary_key_constraint constraints then constraints
         else constraints @ [PrimaryKey pk_auto_increment pk_columns default_pk_addition_strategy])"

subsection \<open>Groups of columns\<close>

definition push_grouped_column ::
  "string \<Rightarrow> column_name \<Rightarrow> column_groups \<times> string list \<Rightarrow> column_groups \<times> string list" where
  "push_grouped_column group_name column_name go =
     (let (groups, order) = go;
          first_sighting = (\<not> om_contains groups group_name);
          order' = (if first_sighting then order @ [group_name] else order);
          old = (case om_lookup groups group_name of None \<Rightarrow> [] | Some cs \<Rightarrow> cs)
      in (om_insert group_name (old @ [column_name]) groups, order'))"

definition generated_name_to_constraint_name :: "string \<Rightarrow> string option" where
  "generated_name_to_constraint_name n = (if starts_with n ''__auto_'' then None else Some n)"

subsection \<open>Unique constraints\<close>

definition collect_unique_groups :: "table_def \<Rightarrow> column_groups \<times> string list" where
  "collect_unique_groups table =
     fold (\<lambda>col go.
       case col_unique col of
         None \<Rightarrow> go
       | Some (Str n) \<Rightarrow> push_grouped_column n (col_name col) go
       | Some (StrBool True) \<Rightarrow> push_grouped_column (''__auto_'' @ col_name col) (col_name col) go
       | Some (StrBool False) \<Rightarrow> go
       | Some (StrArray names) \<Rightarrow> fold (\<lambda>n. push_grouped_column n (col_name col)) names go)
       (tbl_columns table) ([], [])"

definition unique_constraint_exists ::
  "table_constraint list \<Rightarrow> string option \<Rightarrow> column_name list \<Rightarrow> bool" where
  "unique_constraint_exists constraints constraint_name columns =
     list_ex (\<lambda>c. case c of
         Unique n cols _ \<Rightarrow>
           (case (constraint_name, n) of
              (Some n1, Some n2) \<Rightarrow> n1 = n2
            | (None, None) \<Rightarrow> cols = columns
            | _ \<Rightarrow> False)
       | _ \<Rightarrow> False) constraints"

fun add_unique_constraints_from_groups ::
  "column_groups \<Rightarrow> string list \<Rightarrow> table_constraint list \<Rightarrow>
     table_validation_error + table_constraint list" where
  "add_unique_constraints_from_groups groups [] constraints = Inr constraints"
| "add_unique_constraints_from_groups groups (unique_name # rest) constraints =
     (case om_lookup groups unique_name of
        None \<Rightarrow> Inl (InvariantViolation (''unique group '' @ [CHR 0x27] @ unique_name @ [CHR 0x27] @
                  '' missing during normalize''))
      | Some columns \<Rightarrow>
          let constraint_name = generated_name_to_constraint_name unique_name in
          add_unique_constraints_from_groups groups rest
            (if unique_constraint_exists constraints constraint_name columns then constraints
             else constraints @ [Unique constraint_name columns (UniqueDeleteDuplicates KeepFirst)]))"

definition add_unique_constraints ::
  "table_def \<Rightarrow> table_constraint list \<Rightarrow> table_validation_error + table_constraint list" where
  "add_unique_constraints table constraints =
     (let (groups, order) = collect_unique_groups table
      in add_unique_constraints_from_groups groups order constraints)"

subsection \<open>Foreign keys\<close>

type_synonym foreign_key_parts =
  "table_name \<times> column_name list \<times> reference_action option \<times> reference_action option"

definition parse_foreign_key_reference ::
  "string \<Rightarrow> string \<Rightarrow> table_validation_error + (table_name \<times> column_name list)" where
  "parse_foreign_key_reference column_name reference =
     (case split_once ''.'' reference of
        Some (head, tail) \<Rightarrow>
          (if head \<noteq> [] \<and> tail \<noteq> [] \<and> CHR ''.'' \<notin> set tail then Inr (head, [tail])
           else Inl (InvalidForeignKeyFormat column_name reference))
      | None \<Rightarrow> Inl (InvalidForeignKeyFormat column_name reference))"

fun parse_foreign_key ::
  "string \<Rightarrow> foreign_key_syntax \<Rightarrow> table_validation_error + foreign_key_parts" where
  "parse_foreign_key column_name (FkString s) =
     map_sum id (\<lambda>(t, cs). (t, cs, None, None)) (parse_foreign_key_reference column_name s)"
| "parse_foreign_key column_name (FkReference r) =
     map_sum id (\<lambda>(t, cs). (t, cs, rs_on_delete r, rs_on_update r))
       (parse_foreign_key_reference column_name (rs_references r))"
| "parse_foreign_key column_name (FkObject d) =
     Inr (fkd_ref_table d, fkd_ref_columns d, fkd_on_delete d, fkd_on_update d)"

definition foreign_key_constraint_exists :: "table_constraint list \<Rightarrow> string \<Rightarrow> bool" where
  "foreign_key_constraint_exists constraints column_name =
     list_ex (\<lambda>c. case c of ForeignKey _ columns _ _ _ _ _ \<Rightarrow> columns = [column_name] | _ \<Rightarrow> False)
       constraints"

fun add_foreign_keys ::
  "column_def list \<Rightarrow> table_constraint list \<Rightarrow> table_validation_error + table_constraint list" where
  "add_foreign_keys [] constraints = Inr constraints"
| "add_foreign_keys (col # cols) constraints =
     (case col_foreign_key col of
        None \<Rightarrow> add_foreign_keys cols constraints
      | Some fk_syntax \<Rightarrow>
          (case parse_foreign_key (col_name col) fk_syntax of
             Inl e \<Rightarrow> Inl e
           | Inr (ref_table, ref_columns, on_delete, on_update) \<Rightarrow>
               add_foreign_keys cols
                 (if foreign_key_constraint_exists constraints (col_name col) then constraints
                  else constraints @ [ForeignKey None [col_name col] ref_table ref_columns
                         on_delete on_update default_fk_orphan_strategy])))"

definition add_foreign_key_constraints ::
  "table_def \<Rightarrow> table_constraint list \<Rightarrow> table_validation_error + table_constraint list" where
  "add_foreign_key_constraints table constraints = add_foreign_keys (tbl_columns table) constraints"

subsection \<open>Indexes\<close>

text \<open>The state of the index pass: groups, order, and the columns each index has so far.\<close>

type_synonym index_state = "(column_groups \<times> string list) \<times> column_groups"

definition duplicate_index :: "string \<Rightarrow> string \<Rightarrow> table_validation_error" where
  "duplicate_index index_name column_name = DuplicateIndexColumn index_name column_name"

definition push_checked_index ::
  "string \<Rightarrow> column_name \<Rightarrow> index_state \<Rightarrow> table_validation_error + index_state" where
  "push_checked_index index_name column_name st =
     (let (go, tracker) = st;
          seen = (case om_lookup tracker index_name of None \<Rightarrow> [] | Some cs \<Rightarrow> cs)
      in if column_name \<in> set seen then Inl (duplicate_index index_name column_name)
         else Inr (push_grouped_column index_name column_name go,
                   om_insert index_name (column_name # seen) tracker))"

fun push_index_array ::
  "string list \<Rightarrow> string list \<Rightarrow> column_name \<Rightarrow> index_state \<Rightarrow>
     table_validation_error + index_state" where
  "push_index_array seen_in_array [] column_name st = Inr st"
| "push_index_array seen_in_array (index_name # names) column_name st =
     (if index_name \<in> set seen_in_array then Inl (duplicate_index index_name column_name)
      else (case push_checked_index index_name column_name st of
              Inl e \<Rightarrow> Inl e
            | Inr st' \<Rightarrow> push_index_array (index_name # seen_in_array) names column_name st'))"

fun collect_column_indexes ::
  "str_or_bool_or_array \<Rightarrow> column_name \<Rightarrow> index_state \<Rightarrow> table_validation_error + index_state" where
  "collect_column_indexes (Str n) column_name st = push_checked_index n column_name st"
| "collect_column_indexes (StrBool True) column_name st =
     push_checked_index (''__auto_'' @ column_name) column_name st"
| "collect_column_indexes (StrBool False) column_name st = Inr st"
| "collect_column_indexes (StrArray names) column_name st = push_index_array [] names column_name st"

fun collect_indexes ::
  "column_def list \<Rightarrow> index_state \<Rightarrow> table_validation_error + index_state" where
  "collect_indexes [] st = Inr st"
| "collect_indexes (col # cols) st =
     (case col_index col of
        None \<Rightarrow> collect_indexes cols st
      | Some v \<Rightarrow>
          (case collect_column_indexes v (col_name col) st of
             Inl e \<Rightarrow> Inl e
           | Inr st' \<Rightarrow> collect_indexes cols st'))"

definition collect_index_groups ::
  "table_def \<Rightarrow> table_validation_error + (column_groups \<times> string list)" where
  "collect_index_groups table = map_sum id fst (collect_indexes (tbl_columns table) (([], []), []))"

definition index_constraint_exists ::
  "table_constraint list \<Rightarrow> string option \<Rightarrow> column_name list \<Rightarrow> bool" where
  "index_constraint_exists constraints constraint_name columns =
     list_ex (\<lambda>c. case c of
         Index n cols \<Rightarrow>
           (case (constraint_name, n) of
              (Some n1, Some n2) \<Rightarrow> n1 = n2
            | (None, None) \<Rightarrow> cols = columns
            | _ \<Rightarrow> False)
       | _ \<Rightarrow> False) constraints"

fun add_index_constraints_from_groups ::
  "column_groups \<Rightarrow> string list \<Rightarrow> table_constraint list \<Rightarrow>
     table_validation_error + table_constraint list" where
  "add_index_constraints_from_groups groups [] constraints = Inr constraints"
| "add_index_constraints_from_groups groups (index_name # rest) constraints =
     (case om_lookup groups index_name of
        None \<Rightarrow> Inl (InvariantViolation (''index group '' @ [CHR 0x27] @ index_name @ [CHR 0x27] @
                  '' missing during normalize''))
      | Some columns \<Rightarrow>
          let constraint_name = generated_name_to_constraint_name index_name in
          add_index_constraints_from_groups groups rest
            (if index_constraint_exists constraints constraint_name columns then constraints
             else constraints @ [Index constraint_name columns]))"

definition add_index_constraints ::
  "table_def \<Rightarrow> table_constraint list \<Rightarrow> table_validation_error + table_constraint list" where
  "add_index_constraints table constraints =
     (case collect_index_groups table of
        Inl e \<Rightarrow> Inl e
      | Inr (groups, order) \<Rightarrow> add_index_constraints_from_groups groups order constraints)"

subsection \<open>The whole\<close>

definition normalize :: "table_def \<Rightarrow> table_validation_error + table_def" where
  "normalize table =
     (case add_unique_constraints table (add_primary_key_constraint table (tbl_constraints table)) of
        Inl e \<Rightarrow> Inl e
      | Inr constraints \<Rightarrow>
          (case add_foreign_key_constraints table constraints of
             Inl e \<Rightarrow> Inl e
           | Inr constraints' \<Rightarrow>
               (case add_index_constraints table constraints' of
                  Inl e \<Rightarrow> Inl e
                | Inr constraints'' \<Rightarrow>
                    Inr \<lparr>tbl_name = tbl_name table, tbl_description = tbl_description table,
                         tbl_columns = tbl_columns table, tbl_constraints = constraints''\<rparr>)))"

section \<open>Appending what is missing\<close>

text \<open>
  Each pass walks a list of requests and appends a constraint for every request that no
  existing constraint satisfies.  The contract: satisfaction survives appending, and the
  constraint made for a request satisfies it.
\<close>

definition add_missing ::
  "(table_constraint list \<Rightarrow> 'x \<Rightarrow> bool) \<Rightarrow> ('x \<Rightarrow> table_constraint) \<Rightarrow> 'x list \<Rightarrow>
     table_constraint list \<Rightarrow> table_constraint list" where
  "add_missing ex mk xs cs = fold (\<lambda>x cs. if ex cs x then cs else cs @ [mk x]) xs cs"

lemma add_missing_simps [simp]:
  "add_missing ex mk [] cs = cs"
  "add_missing ex mk (x # xs) cs = add_missing ex mk xs (if ex cs x then cs else cs @ [mk x])"
  by (simp_all add: add_missing_def)

locale missing_constraints =
  fixes ex :: "table_constraint list \<Rightarrow> 'x \<Rightarrow> bool"
    and mk :: "'x \<Rightarrow> table_constraint"
  assumes ex_append: "ex cs x \<Longrightarrow> ex (cs @ ds) x"
    and ex_mk: "ex (cs @ [mk x]) x"
begin

lemma fold_extends: "\<exists>ds. add_missing ex mk xs cs = cs @ ds"
proof (induction xs arbitrary: cs)
  case (Cons x xs)
  obtain ds where
    "add_missing ex mk xs (if ex cs x then cs else cs @ [mk x]) =
     (if ex cs x then cs else cs @ [mk x]) @ ds"
    using Cons.IH by blast
  then show ?case by simp
qed simp

lemma fold_complete: "x \<in> set xs \<Longrightarrow> ex (add_missing ex mk xs cs) x"
proof (induction xs arbitrary: cs)
  case (Cons y ys)
  show ?case
  proof (cases "x = y")
    case True
    have "ex (if ex cs y then cs else cs @ [mk y]) y"
      by (simp add: ex_mk)
    moreover obtain ds where
      "add_missing ex mk ys (if ex cs y then cs else cs @ [mk y]) =
       (if ex cs y then cs else cs @ [mk y]) @ ds"
      using fold_extends by blast
    ultimately show ?thesis
      using True by (simp add: ex_append split: if_splits)
  qed (use Cons in simp)
qed simp

lemma fold_unchanged:
  "\<forall>x \<in> set xs. ex cs x \<Longrightarrow> add_missing ex mk xs cs = cs"
  by (induction xs) auto

lemma fold_again:
  "add_missing ex mk xs
     (add_missing ex mk xs cs @ ds) =
   add_missing ex mk xs cs @ ds"
  by (intro fold_unchanged ballI ex_append fold_complete)

lemma fold_sound:
  "c \<in> set (add_missing ex mk xs cs) \<Longrightarrow> c \<in> set cs \<union> mk ` set xs"
  by (induction xs arbitrary: cs) (fastforce split: if_splits)+

end

abbreviation uq_ex :: "table_constraint list \<Rightarrow> string option \<times> column_name list \<Rightarrow> bool" where
  "uq_ex cs x \<equiv> unique_constraint_exists cs (fst x) (snd x)"

abbreviation uq_mk :: "string option \<times> column_name list \<Rightarrow> table_constraint" where
  "uq_mk x \<equiv> Unique (fst x) (snd x) (UniqueDeleteDuplicates KeepFirst)"

abbreviation ix_ex :: "table_constraint list \<Rightarrow> string option \<times> column_name list \<Rightarrow> bool" where
  "ix_ex cs x \<equiv> index_constraint_exists cs (fst x) (snd x)"

abbreviation ix_mk :: "string option \<times> column_name list \<Rightarrow> table_constraint" where
  "ix_mk x \<equiv> Index (fst x) (snd x)"

abbreviation fk_ex :: "table_constraint list \<Rightarrow> column_name \<times> foreign_key_parts \<Rightarrow> bool" where
  "fk_ex cs x \<equiv> foreign_key_constraint_exists cs (fst x)"

definition fk_mk :: "column_name \<times> foreign_key_parts \<Rightarrow> table_constraint" where
  "fk_mk x = (case x of (c, rt, rcs, od, ou) \<Rightarrow>
     ForeignKey None [c] rt rcs od ou default_fk_orphan_strategy)"

interpretation uq: missing_constraints uq_ex uq_mk
  by unfold_locales (auto simp: unique_constraint_exists_def split: option.splits)

interpretation ix: missing_constraints ix_ex ix_mk
  by unfold_locales (auto simp: index_constraint_exists_def split: option.splits)

interpretation fk: missing_constraints fk_ex fk_mk
  by unfold_locales (auto simp: foreign_key_constraint_exists_def fk_mk_def split: prod.splits)

abbreviation uq_fold :: "(string option \<times> column_name list) list \<Rightarrow> table_constraint list \<Rightarrow> table_constraint list" where
  "uq_fold \<equiv> add_missing uq_ex uq_mk"

abbreviation ix_fold :: "(string option \<times> column_name list) list \<Rightarrow> table_constraint list \<Rightarrow> table_constraint list" where
  "ix_fold \<equiv> add_missing ix_ex ix_mk"

abbreviation fk_fold :: "(column_name \<times> foreign_key_parts) list \<Rightarrow> table_constraint list \<Rightarrow> table_constraint list" where
  "fk_fold \<equiv> add_missing fk_ex fk_mk"

section \<open>What each pass requests\<close>

definition group_requests :: "column_groups \<times> string list \<Rightarrow> (string option \<times> column_name list) list" where
  "group_requests go =
     map (\<lambda>n. (generated_name_to_constraint_name n, the (om_lookup (fst go) n))) (snd go)"

definition unique_requests :: "table_def \<Rightarrow> (string option \<times> column_name list) list" where
  "unique_requests t = group_requests (collect_unique_groups t)"

fun fk_requests :: "column_def list \<Rightarrow> table_validation_error + (column_name \<times> foreign_key_parts) list" where
  "fk_requests [] = Inr []"
| "fk_requests (col # cols) =
     (case col_foreign_key col of
        None \<Rightarrow> fk_requests cols
      | Some s \<Rightarrow>
          (case parse_foreign_key (col_name col) s of
             Inl e \<Rightarrow> Inl e
           | Inr p \<Rightarrow> map_sum id ((#) (col_name col, p)) (fk_requests cols)))"

definition index_requests :: "table_def \<Rightarrow> table_validation_error + (string option \<times> column_name list) list" where
  "index_requests t = map_sum id group_requests (collect_index_groups t)"

text \<open>Every name in the order list has its group: the \<open>InvariantViolation\<close> arms are dead.\<close>

definition groups_ok :: "column_groups \<times> string list \<Rightarrow> bool" where
  "groups_ok go \<longleftrightarrow> (\<forall>n \<in> set (snd go). om_lookup (fst go) n \<noteq> None)"

lemma groups_ok_push [simp]: "groups_ok go \<Longrightarrow> groups_ok (push_grouped_column n c go)"
  by (cases go) (auto simp: groups_ok_def push_grouped_column_def om_simps Let_def)

lemma groups_ok_fold_push: "groups_ok go \<Longrightarrow> groups_ok (fold (\<lambda>n. push_grouped_column n c) ns go)"
  by (induction ns arbitrary: go) auto

lemma groups_ok_unique: "groups_ok (collect_unique_groups t)"
proof -
  have "groups_ok go \<Longrightarrow> groups_ok (fold (\<lambda>col go.
       case col_unique col of
         None \<Rightarrow> go
       | Some (Str n) \<Rightarrow> push_grouped_column n (col_name col) go
       | Some (StrBool True) \<Rightarrow> push_grouped_column (''__auto_'' @ col_name col) (col_name col) go
       | Some (StrBool False) \<Rightarrow> go
       | Some (StrArray names) \<Rightarrow> fold (\<lambda>n. push_grouped_column n (col_name col)) names go)
       cols go)" for cols go
    by (induction cols arbitrary: go)
      (auto simp: groups_ok_fold_push split: option.splits str_or_bool_or_array.splits bool.splits)
  moreover have "groups_ok ([], [])" by (simp add: groups_ok_def)
  ultimately show ?thesis by (simp add: collect_unique_groups_def)
qed

lemma groups_ok_checked:
  "push_checked_index n c st = Inr st' \<Longrightarrow> groups_ok (fst st) \<Longrightarrow> groups_ok (fst st')"
  by (auto simp: push_checked_index_def Let_def split: prod.splits if_splits)

lemma groups_ok_array:
  "push_index_array seen ns c st = Inr st' \<Longrightarrow> groups_ok (fst st) \<Longrightarrow> groups_ok (fst st')"
  by (induction seen ns c st rule: push_index_array.induct)
    (auto split: if_splits sum.splits dest: groups_ok_checked)

lemma groups_ok_column:
  "collect_column_indexes v c st = Inr st' \<Longrightarrow> groups_ok (fst st) \<Longrightarrow> groups_ok (fst st')"
  by (induction v c st rule: collect_column_indexes.induct)
    (auto dest: groups_ok_checked groups_ok_array)

lemma groups_ok_indexes:
  "collect_indexes cols st = Inr st' \<Longrightarrow> groups_ok (fst st) \<Longrightarrow> groups_ok (fst st')"
proof (induction cols arbitrary: st)
  case (Cons col cols)
  show ?case
  proof (cases "col_index col")
    case (Some v)
    with Cons.prems obtain st1 where "collect_column_indexes v (col_name col) st = Inr st1"
      and "collect_indexes cols st1 = Inr st'"
      by (auto split: sum.splits)
    with Cons show ?thesis by (blast intro: groups_ok_column)
  qed (use Cons in simp)
qed simp

lemma groups_ok_index: "collect_index_groups t = Inr go \<Longrightarrow> groups_ok go"
  using groups_ok_indexes [of "tbl_columns t" "(([], []), [])"]
  by (auto simp: collect_index_groups_def groups_ok_def map_sum_def split: sum.splits) 

lemma add_unique_from_groups_fold:
  "groups_ok (g, ns) \<Longrightarrow>
   add_unique_constraints_from_groups g ns cs = Inr (uq_fold (group_requests (g, ns)) cs)"
  by (induction ns arbitrary: cs) (auto simp: groups_ok_def group_requests_def Let_def)

lemma add_index_from_groups_fold:
  "groups_ok (g, ns) \<Longrightarrow>
   add_index_constraints_from_groups g ns cs = Inr (ix_fold (group_requests (g, ns)) cs)"
  by (induction ns arbitrary: cs) (auto simp: groups_ok_def group_requests_def Let_def)

lemma add_unique_constraints_fold: "add_unique_constraints t cs = Inr (uq_fold (unique_requests t) cs)"
  using groups_ok_unique [of t]
  by (cases "collect_unique_groups t")
    (simp add: add_unique_constraints_def unique_requests_def add_unique_from_groups_fold)

lemma add_foreign_keys_fold: "add_foreign_keys cols cs = map_sum id (\<lambda>rs. fk_fold rs cs) (fk_requests cols)"
proof (induction cols cs rule: add_foreign_keys.induct)
  case (2 col cols cs)
  show ?case
  proof (cases "col_foreign_key col")
    case None
    with 2 show ?thesis by simp
  next
    case (Some s)
    show ?thesis
    proof (cases "parse_foreign_key (col_name col) s")
      case (Inr p)
      obtain rt rcs od ou where p: "p = (rt, rcs, od, ou)" by (cases p) auto
      with 2 Some Inr show ?thesis
        by (cases "fk_requests cols") (simp_all add: fk_mk_def)
    qed (use Some in simp)
  qed
qed simp

lemma add_index_constraints_fold:
  "add_index_constraints t cs = map_sum id (\<lambda>rs. ix_fold rs cs) (index_requests t)"
proof (cases "collect_index_groups t")
  case (Inr go)
  then show ?thesis
    using groups_ok_index [OF Inr]
    by (cases go) (simp add: add_index_constraints_def index_requests_def add_index_from_groups_fold)
qed (simp add: add_index_constraints_def index_requests_def)

text \<open>
  The whole normalization in one equation: it fails exactly when the foreign-key or the index
  requests of the columns fail, and otherwise runs the three folds after the primary-key pass.
\<close>

definition normalized_constraints ::
  "table_def \<Rightarrow> (column_name \<times> foreign_key_parts) list \<Rightarrow> (string option \<times> column_name list) list \<Rightarrow>
     table_constraint list" where
  "normalized_constraints t frs irs =
     ix_fold irs (fk_fold frs (uq_fold (unique_requests t)
       (add_primary_key_constraint t (tbl_constraints t))))"

lemma normalize_eq:
  "normalize t =
     (case fk_requests (tbl_columns t) of
        Inl e \<Rightarrow> Inl e
      | Inr frs \<Rightarrow> (case index_requests t of
          Inl e \<Rightarrow> Inl e
        | Inr irs \<Rightarrow> Inr (t\<lparr>tbl_constraints := normalized_constraints t frs irs\<rparr>)))"
  unfolding normalize_def add_unique_constraints_fold add_foreign_key_constraints_def
    add_foreign_keys_fold add_index_constraints_fold normalized_constraints_def
  by (auto split: sum.splits)

lemma normalize_InrE:
  assumes "normalize t = Inr t'"
  obtains frs irs where "fk_requests (tbl_columns t) = Inr frs" and "index_requests t = Inr irs"
    and "t' = t\<lparr>tbl_constraints := normalized_constraints t frs irs\<rparr>"
  using assms by (auto simp: normalize_eq split: sum.splits)

lemma normalize_fields:
  "normalize t = Inr t' \<Longrightarrow>
   tbl_name t' = tbl_name t \<and> tbl_columns t' = tbl_columns t \<and> tbl_description t' = tbl_description t"
  by (elim normalize_InrE) simp

section \<open>Requests depend on the columns only\<close>

lemma collect_unique_groups_columns:
  "tbl_columns t = tbl_columns u \<Longrightarrow> collect_unique_groups t = collect_unique_groups u"
  by (simp add: collect_unique_groups_def)

lemma unique_requests_columns: "tbl_columns t = tbl_columns u \<Longrightarrow> unique_requests t = unique_requests u"
  using collect_unique_groups_columns [of t u] by (simp add: unique_requests_def)

lemma index_requests_columns: "tbl_columns t = tbl_columns u \<Longrightarrow> index_requests t = index_requests u"
  by (simp add: index_requests_def collect_index_groups_def)

lemma collect_primary_key_columns_columns:
  "tbl_columns t = tbl_columns u \<Longrightarrow> collect_primary_key_columns t = collect_primary_key_columns u"
  by (simp add: collect_primary_key_columns_def)

section \<open>Extension and idempotence\<close>

lemma has_primary_key_append [simp]:
  "has_primary_key_constraint (cs @ ds) \<longleftrightarrow> has_primary_key_constraint cs \<or> has_primary_key_constraint ds"
  by (simp add: has_primary_key_constraint_def)

lemma add_primary_key_extends: "\<exists>ds. add_primary_key_constraint t cs = cs @ ds"
  by (simp add: add_primary_key_constraint_def split: prod.splits)

lemma add_primary_key_again:
  assumes "tbl_columns u = tbl_columns t"
  shows "add_primary_key_constraint u (add_primary_key_constraint t cs @ ds) =
         add_primary_key_constraint t cs @ ds"
  using assms collect_primary_key_columns_columns [of u t]
  by (auto simp: add_primary_key_constraint_def has_primary_key_constraint_def split: prod.splits)

lemma normalized_constraints_extends: "\<exists>ds. normalized_constraints t frs irs = tbl_constraints t @ ds"
proof -
  obtain d1 where 1: "add_primary_key_constraint t (tbl_constraints t) = tbl_constraints t @ d1"
    using add_primary_key_extends by blast
  obtain d2 where 2: "uq_fold (unique_requests t) (tbl_constraints t @ d1) = (tbl_constraints t @ d1) @ d2"
    using uq.fold_extends by blast
  obtain d3 where 3: "fk_fold frs ((tbl_constraints t @ d1) @ d2) = ((tbl_constraints t @ d1) @ d2) @ d3"
    using fk.fold_extends by blast
  obtain d4 where 4: "ix_fold irs (((tbl_constraints t @ d1) @ d2) @ d3) =
      (((tbl_constraints t @ d1) @ d2) @ d3) @ d4"
    using ix.fold_extends by blast
  show ?thesis
    unfolding normalized_constraints_def 1 2 3 4 by simp
qed

lemma normalized_constraints_again:
  assumes "tbl_columns u = tbl_columns t" and "tbl_constraints u = normalized_constraints t frs irs"
  shows "normalized_constraints u frs irs = normalized_constraints t frs irs"
proof -
  let ?c1 = "add_primary_key_constraint t (tbl_constraints t)"
  let ?c2 = "uq_fold (unique_requests t) ?c1"
  let ?c3 = "fk_fold frs ?c2"
  let ?c4 = "ix_fold irs ?c3"
  obtain d2 where 2: "?c2 = ?c1 @ d2" using uq.fold_extends by blast
  obtain d3 where 3: "?c3 = ?c2 @ d3" using fk.fold_extends by blast
  obtain d4 where 4: "?c4 = ?c3 @ d4" using ix.fold_extends by blast
  have "add_primary_key_constraint u ?c4 = ?c4"
    using add_primary_key_again [OF assms(1), of "tbl_constraints t" "d2 @ d3 @ d4"] 2 3 4 by simp
  moreover have "uq_fold (unique_requests u) ?c4 = ?c4"
    using uq.fold_again [of "unique_requests t" ?c1 "d3 @ d4"] 3 4
      unique_requests_columns [OF assms(1)] by simp
  moreover have "fk_fold frs ?c4 = ?c4"
    using fk.fold_again [of frs ?c2 d4] 4 by simp
  moreover have "ix_fold irs ?c4 = ?c4"
    using ix.fold_again [of irs ?c3 "[]"] by simp
  ultimately show ?thesis
    unfolding normalized_constraints_def [of u] assms(2) normalized_constraints_def [of t] by simp
qed

lemma normalize_twice:
  assumes "normalize t = Inr t'"
  shows "normalize t' = Inr t'"
  using assms
proof (elim normalize_InrE)
  fix frs irs
  assume frs: "fk_requests (tbl_columns t) = Inr frs" and irs: "index_requests t = Inr irs"
    and t': "t' = t\<lparr>tbl_constraints := normalized_constraints t frs irs\<rparr>"
  have irs': "index_requests t' = Inr irs"
    using irs index_requests_columns [of t' t] t' by simp
  have "normalized_constraints t' frs irs = normalized_constraints t frs irs"
    by (rule normalized_constraints_again) (simp_all add: t')
  then show ?thesis
    using frs irs' by (simp add: normalize_eq t')
qed

section \<open>When normalization succeeds\<close>

definition foreign_key_parses :: "column_def \<Rightarrow> bool" where
  "foreign_key_parses c \<longleftrightarrow>
     (case col_foreign_key c of None \<Rightarrow> True | Some s \<Rightarrow> \<exists>p. parse_foreign_key (col_name c) s = Inr p)"

definition index_list_ok :: "column_def \<Rightarrow> bool" where
  "index_list_ok c \<longleftrightarrow> (case col_index c of Some (StrArray ns) \<Rightarrow> distinct ns | _ \<Rightarrow> True)"

lemma fk_requests_ok: "(\<exists>rs. fk_requests cols = Inr rs) \<longleftrightarrow> list_all foreign_key_parses cols"
proof (induction cols)
  case (Cons c cols)
  show ?case
  proof (cases "col_foreign_key c")
    case (Some s)
    then show ?thesis
      using Cons by (cases "parse_foreign_key (col_name c) s"; cases "fk_requests cols")
        (auto simp: foreign_key_parses_def)
  qed (use Cons in \<open>simp add: foreign_key_parses_def\<close>)
qed simp

text \<open>The columns the index pass has seen so far are those before the current one.\<close>

definition tracker_within :: "column_name set \<Rightarrow> index_state \<Rightarrow> bool" where
  "tracker_within cs st \<longleftrightarrow> (\<forall>n seen. om_lookup (snd st) n = Some seen \<longrightarrow> set seen \<subseteq> cs)"

definition index_fresh :: "string set \<Rightarrow> column_name \<Rightarrow> index_state \<Rightarrow> bool" where
  "index_fresh ns c st \<longleftrightarrow> (\<forall>n \<in> ns. \<forall>seen. om_lookup (snd st) n = Some seen \<longrightarrow> c \<notin> set seen)"

lemma push_checked_index_fresh:
  assumes "index_fresh {n} c st"
  obtains st' where "push_checked_index n c st = Inr st'" and "om_lookup (snd st') = (om_lookup (snd st))
      (n \<mapsto> c # (case om_lookup (snd st) n of None \<Rightarrow> [] | Some cs \<Rightarrow> cs))"
  using assms
  by (cases st; cases "om_lookup (snd st) n") (auto simp: push_checked_index_def index_fresh_def Let_def om_simps)

lemma push_index_array_repeats:
  "n \<in> set ns \<Longrightarrow> n \<in> set seen \<Longrightarrow> push_index_array seen ns c u \<noteq> Inr w"
proof (induction ns arbitrary: u seen)
  case (Cons m ms)
  then show ?case by (cases "m = n") (auto split: sum.splits)
qed simp

lemma push_index_array_ok:
  assumes "index_fresh (set ns) c st"
  shows "(\<exists>st'. push_index_array seen ns c st = Inr st') \<longleftrightarrow> distinct ns \<and> set ns \<inter> set seen = {}"
  using assms
proof (induction ns arbitrary: seen st)
  case (Cons n ns)
  obtain st' where st': "push_checked_index n c st = Inr st'"
    and look: "om_lookup (snd st') = (om_lookup (snd st))(n \<mapsto> c # (case om_lookup (snd st) n of None \<Rightarrow> [] | Some cs \<Rightarrow> cs))"
    using push_checked_index_fresh [of n c st] Cons.prems by (auto simp: index_fresh_def)
  show ?case
  proof (cases "n \<in> set seen \<or> n \<in> set ns")
    case False
    then have "index_fresh (set ns) c st'"
      using Cons.prems look by (auto simp: index_fresh_def split: if_splits)
    with Cons.IH [OF this, of "n # seen"] False st' show ?thesis by auto
  next
    case True
    show ?thesis
    proof (cases "n \<in> set seen")
      case False
      with True have "push_index_array (n # seen) ns c st' \<noteq> Inr w" for w
        by (intro push_index_array_repeats [of n]) auto
      with False True st' show ?thesis by auto
    qed simp
  qed
qed simp


lemma push_checked_tracker:
  "push_checked_index n c st = Inr st' \<Longrightarrow> tracker_within cs st \<Longrightarrow> c \<in> cs \<Longrightarrow> tracker_within cs st'"
  by (cases st) (fastforce simp: push_checked_index_def tracker_within_def Let_def om_simps
      split: if_splits option.splits)

lemma push_array_tracker:
  "push_index_array seen ns c st = Inr st' \<Longrightarrow> tracker_within cs st \<Longrightarrow> c \<in> cs \<Longrightarrow> tracker_within cs st'"
proof (induction ns arbitrary: seen st)
  case (Cons n ns)
  then obtain st1 where "push_checked_index n c st = Inr st1" "push_index_array (n # seen) ns c st1 = Inr st'"
    by (auto split: if_splits sum.splits)
  with Cons push_checked_tracker show ?case by blast
qed simp

lemma column_tracker:
  "collect_column_indexes v c st = Inr st' \<Longrightarrow> tracker_within cs st \<Longrightarrow> c \<in> cs \<Longrightarrow> tracker_within cs st'"
  by (cases "(v, c, st)" rule: collect_column_indexes.cases)
    (auto dest: push_checked_tracker push_array_tracker)

lemma collect_column_indexes_ok:
  assumes "index_fresh UNIV c st"
  shows "(\<exists>st'. collect_column_indexes v c st = Inr st') \<longleftrightarrow> (case v of StrArray ns \<Rightarrow> distinct ns | _ \<Rightarrow> True)"
proof -
  have "index_fresh ns c st" for ns using assms by (auto simp: index_fresh_def)
  then show ?thesis
    using push_index_array_ok [of _ c st "[]"] push_checked_index_fresh [of _ c st]
    by (cases "(v, c, st)" rule: collect_column_indexes.cases) (auto, metis+)
qed

lemma collect_indexes_ok:
  assumes "tracker_within cs st" and "distinct (map col_name cols)" and "cs \<inter> col_name ` set cols = {}"
  shows "(\<exists>st'. collect_indexes cols st = Inr st') \<longleftrightarrow> list_all index_list_ok cols"
  using assms
proof (induction cols arbitrary: cs st)
  case (Cons c cols)
  show ?case
  proof (cases "col_index c")
    case None
    with Cons show ?thesis by (auto simp: index_list_ok_def)
  next
    case (Some v)
    have "index_fresh UNIV (col_name c) st"
      using Cons.prems by (auto simp: tracker_within_def index_fresh_def)
    note ok = collect_column_indexes_ok [OF this, of v]
    show ?thesis
    proof (cases "collect_column_indexes v (col_name c) st")
      case (Inl e)
      then show ?thesis using ok Some by (auto simp: index_list_ok_def split: str_or_bool_or_array.splits)
    next
      case (Inr st1)
      have "tracker_within (insert (col_name c) cs) st"
        using Cons.prems(1) by (fastforce simp: tracker_within_def)
      then have "tracker_within (insert (col_name c) cs) st1"
        using column_tracker [OF Inr] by blast
      from Cons.IH [OF this] Cons.prems Inr ok Some show ?thesis
        by (auto simp: index_list_ok_def split: str_or_bool_or_array.splits)
    qed
  qed
qed simp

lemma normalize_ok:
  assumes "distinct (map col_name (tbl_columns t))"
  shows "(\<exists>t'. normalize t = Inr t') \<longleftrightarrow>
    list_all foreign_key_parses (tbl_columns t) \<and> list_all index_list_ok (tbl_columns t)"
proof -
  have "tracker_within {} (([], []), [])" by (simp add: tracker_within_def om_lookup_def)
  from collect_indexes_ok [OF this assms]
  have "(\<exists>rs. index_requests t = Inr rs) \<longleftrightarrow> list_all index_list_ok (tbl_columns t)"
    by (cases "collect_indexes (tbl_columns t) (([], []), [])")
      (auto simp: index_requests_def collect_index_groups_def)
  with fk_requests_ok [of "tbl_columns t"] show ?thesis
    by (auto simp: normalize_eq split: sum.splits)
qed

lemma normalized_satisfies:
  assumes "normalize t = Inr t'"
  obtains frs irs ds where "fk_requests (tbl_columns t) = Inr frs" and "index_requests t = Inr irs"
    and "tbl_constraints t' = tbl_constraints t @ ds"
    and "\<forall>x \<in> set (unique_requests t). uq_ex (tbl_constraints t') x"
    and "\<forall>x \<in> set frs. fk_ex (tbl_constraints t') x" and "\<forall>x \<in> set irs. ix_ex (tbl_constraints t') x"
    and "fst (collect_primary_key_columns t) \<noteq> [] \<longrightarrow> has_primary_key_constraint (tbl_constraints t')"
proof -
  obtain frs irs where r: "fk_requests (tbl_columns t) = Inr frs" "index_requests t = Inr irs"
    and t': "t' = t\<lparr>tbl_constraints := normalized_constraints t frs irs\<rparr>"
    by (rule normalize_InrE [OF assms])
  let ?c1 = "add_primary_key_constraint t (tbl_constraints t)"
  let ?c2 = "uq_fold (unique_requests t) ?c1"
  let ?c3 = "fk_fold frs ?c2"
  let ?c4 = "ix_fold irs ?c3"
  have c: "tbl_constraints t' = ?c4" by (simp add: t' normalized_constraints_def)
  obtain ds where "?c4 = tbl_constraints t @ ds"
    using normalized_constraints_extends [of t frs irs] by (auto simp: normalized_constraints_def)
  obtain d2 where 2: "?c2 = ?c1 @ d2" using uq.fold_extends by blast
  obtain d3 where 3: "?c3 = ?c2 @ d3" using fk.fold_extends by blast
  obtain d4 where 4: "?c4 = ?c3 @ d4" using ix.fold_extends by blast
  have "uq_ex ?c4 x" if "x \<in> set (unique_requests t)" for x
    using uq.ex_append [OF uq.fold_complete [OF that], of ?c1 "d3 @ d4"] 3 4 by simp
  moreover have "fk_ex ?c4 x" if "x \<in> set frs" for x
    using fk.ex_append [OF fk.fold_complete [OF that], of ?c2 d4] 4 by simp
  moreover have "ix_ex ?c4 x" if "x \<in> set irs" for x
    using ix.fold_complete [OF that] by blast
  moreover have "has_primary_key_constraint ?c4" if "fst (collect_primary_key_columns t) \<noteq> []"
  proof -
    have "has_primary_key_constraint ?c1"
      using that by (auto simp: add_primary_key_constraint_def has_primary_key_constraint_def split: prod.splits)
    then show ?thesis using 2 3 4 by simp
  qed
  ultimately show thesis
    using that [OF r] \<open>?c4 = tbl_constraints t @ ds\<close> unfolding c by blast
qed

end
