(* ===== verification/Naming.thy ===== *)
theory Naming
  imports Rust_Prelude
begin

text \<open>
  Naming conventions (\<open>vespertide-naming/src/lib.rs\<close>): relation names for the ORM exporters,
  case conversion, identifiers, and the names of constraints, indexes and enum types.
\<close>

section \<open>Relations\<close>

definition pluralize :: "string \<Rightarrow> string" where
  "pluralize name =
     (if ends_with name ''s'' \<or> ends_with name ''es'' then name
      else if ends_with name ''y'' \<and> \<not> ends_with name ''ay'' \<and> \<not> ends_with name ''ey'' \<and>
              \<not> ends_with name ''oy'' \<and> \<not> ends_with name ''uy''
        then (case strip_suffix ''y'' name of Some s \<Rightarrow> s | None \<Rightarrow> name) @ ''ies''
      else name @ ''s'')"

definition extract_relation_prefix :: "string \<Rightarrow> string \<Rightarrow> string \<Rightarrow> string" where
  "extract_relation_prefix fk_column current_table ref_column =
     (let ref_suffix = ''_'' @ ref_column;
          without_ref = (case strip_suffix ref_suffix fk_column of Some s \<Rightarrow> s | None \<Rightarrow> fk_column);
          current_lower = to_lowercase current_table;
          without_ref_lower = to_lowercase without_ref;
          table_suffix = ''_'' @ current_lower
      in if without_ref_lower = current_lower then []
         else if ends_with without_ref_lower table_suffix
           then take (length without_ref_lower - length table_suffix) without_ref
         else without_ref)"

definition build_reverse_relation_field_name ::
  "string list \<Rightarrow> string \<Rightarrow> string \<Rightarrow> string \<Rightarrow> bool \<Rightarrow> bool \<Rightarrow> string" where
  "build_reverse_relation_field_name fk_columns current_table source_table ref_column
       has_multiple_fks is_one_to_one =
     (let base_name = (if is_one_to_one then source_table else pluralize source_table)
      in case fk_columns of
           [] \<Rightarrow> base_name
         | fk # _ \<Rightarrow>
             (if \<not> has_multiple_fks then base_name
              else let p = extract_relation_prefix fk current_table ref_column
                   in if p = [] then base_name else p @ ''_'' @ base_name))"

fun pascal_loop :: "bool \<Rightarrow> string \<Rightarrow> string" where
  "pascal_loop capitalize [] = []"
| "pascal_loop capitalize (c # cs) =
     (if c = CHR ''_'' \<or> c = CHR ''-'' then pascal_loop True cs
      else (if capitalize then to_ascii_uppercase c else c) # pascal_loop False cs)"

definition to_pascal_case :: "string \<Rightarrow> string" where
  "to_pascal_case s = pascal_loop True s"

definition build_relation_enum_name :: "string list \<Rightarrow> string \<Rightarrow> string \<Rightarrow> string" where
  "build_relation_enum_name fk_columns current_table ref_column =
     (case fk_columns of
        [] \<Rightarrow> []
      | fk # _ \<Rightarrow>
          let p = extract_relation_prefix fk current_table ref_column
          in if p = [] then [] else to_pascal_case p)"

definition to_camel_case :: "string \<Rightarrow> string" where
  "to_camel_case s =
     (case to_pascal_case s of [] \<Rightarrow> [] | c # cs \<Rightarrow> to_ascii_lowercase c # cs)"

definition infer_relation_field_name :: "string \<Rightarrow> string" where
  "infer_relation_field_name fk_col =
     (case strip_suffix ''_id'' fk_col of Some s \<Rightarrow> s | None \<Rightarrow> fk_col)"

fun screaming_loop :: "bool \<Rightarrow> string \<Rightarrow> string" where
  "screaming_loop prev_lower [] = []"
| "screaming_loop prev_lower (c # cs) =
     (if is_ascii_uppercase c \<and> prev_lower then ''_'' else []) @
     (if is_ascii_alphanumeric c
      then to_ascii_uppercase c # screaming_loop (is_ascii_lowercase c) cs
      else CHR ''_'' # screaming_loop False cs)"

definition trim_end_underscores :: "string \<Rightarrow> string" where
  "trim_end_underscores s = rev (dropWhile (\<lambda>c. c = CHR ''_'') (rev s))"

definition to_screaming_snake_case :: "string \<Rightarrow> string" where
  "to_screaming_snake_case s = trim_end_underscores (screaming_loop False s)"

section \<open>Identifiers\<close>

datatype identifier_start = StartUnderscore | StartLetter

definition sanitize_identifier :: "string \<Rightarrow> identifier_start \<Rightarrow> string" where
  "sanitize_identifier name start =
     (let result = map (\<lambda>ch. if is_ascii_alphanumeric ch then ch else CHR ''_'') name;
          needs_prefix = (case start of
              StartUnderscore \<Rightarrow> (case result of [] \<Rightarrow> True | c # _ \<Rightarrow> is_ascii_digit c)
            | StartLetter \<Rightarrow> (case result of [] \<Rightarrow> True | c # _ \<Rightarrow> \<not> is_ascii_alphabetic c))
      in if \<not> needs_prefix then result
         else let pre = (case start of
                StartUnderscore \<Rightarrow> CHR ''_''
              | StartLetter \<Rightarrow>
                  (case find is_ascii_alphabetic result of
                     None \<Rightarrow> CHR ''x''
                   | Some c \<Rightarrow> if is_ascii_uppercase c then CHR ''X'' else CHR ''x''))
              in pre # result)"

definition seaorm_module_name :: "string \<Rightarrow> string" where
  "seaorm_module_name name = sanitize_identifier name StartLetter"

section \<open>Constraint names\<close>

definition write_sorted_columns :: "string \<Rightarrow> string list \<Rightarrow> string" where
  "write_sorted_columns out columns = out @ join ''_'' (sort columns)"

definition build_constraint_name :: "string \<Rightarrow> string \<Rightarrow> string list \<Rightarrow> string option \<Rightarrow> string" where
  "build_constraint_name pre table columns key =
     (case key of
        Some k \<Rightarrow> pre @ table @ ''__'' @ k
      | None \<Rightarrow> write_sorted_columns (pre @ table @ ''__'') columns)"

definition build_index_name :: "string \<Rightarrow> string list \<Rightarrow> string option \<Rightarrow> string" where
  "build_index_name table columns key = build_constraint_name ''ix_'' table columns key"

definition build_unique_constraint_name :: "string \<Rightarrow> string list \<Rightarrow> string option \<Rightarrow> string" where
  "build_unique_constraint_name table columns key = build_constraint_name ''uq_'' table columns key"

definition build_foreign_key_name :: "string \<Rightarrow> string list \<Rightarrow> string option \<Rightarrow> string" where
  "build_foreign_key_name table columns key = build_constraint_name ''fk_'' table columns key"

definition build_check_constraint_name :: "string \<Rightarrow> string \<Rightarrow> string" where
  "build_check_constraint_name table column = ''chk_'' @ table @ ''__'' @ column"

definition build_enum_type_name :: "string \<Rightarrow> string \<Rightarrow> string" where
  "build_enum_type_name table enum_name = table @ ''_'' @ enum_name"

section \<open>What a target language accepts\<close>

definition identifier_char :: "char \<Rightarrow> bool" where
  "identifier_char c \<longleftrightarrow> is_ascii_alphanumeric c \<or> c = CHR ''_''"

definition valid_identifier :: "identifier_start \<Rightarrow> string \<Rightarrow> bool" where
  "valid_identifier start s \<longleftrightarrow> s \<noteq> [] \<and> list_all identifier_char s \<and>
     (case start of StartUnderscore \<Rightarrow> \<not> is_ascii_digit (hd s) | StartLetter \<Rightarrow> is_ascii_alphabetic (hd s))"

lemma x_alphabetic [simp]:
  "is_ascii_alphabetic CHR ''x''" "is_ascii_alphabetic CHR ''X''" "\<not> is_ascii_digit CHR ''_''"
  "is_ascii_alphanumeric CHR ''x''" "is_ascii_alphanumeric CHR ''X''"
  by code_simp+

lemma sanitized_chars: "list_all identifier_char (map (\<lambda>ch. if is_ascii_alphanumeric ch then ch else CHR ''_'') s)"
  by (auto simp: list_all_iff identifier_char_def)

lemma sanitized_fixed:
  "list_all identifier_char s \<Longrightarrow> map (\<lambda>ch. if is_ascii_alphanumeric ch then ch else CHR ''_'') s = s"
  by (induction s) (auto simp: identifier_char_def)

lemma sanitize_identifier_valid: "valid_identifier start (sanitize_identifier s start)"
  using sanitized_chars [of s]
  by (cases start; cases s)
    (auto simp: sanitize_identifier_def valid_identifier_def Let_def identifier_char_def
      split: option.splits)

lemma sanitize_identifier_fixed: "valid_identifier start s \<Longrightarrow> sanitize_identifier s start = s"
  using sanitized_fixed [of s]
  by (cases start; cases s)
    (auto simp: sanitize_identifier_def valid_identifier_def Let_def)

text \<open>Where the words of a value are already upper case, the conversion keeps it.\<close>

definition screaming :: "string \<Rightarrow> bool" where
  "screaming s \<longleftrightarrow> list_all (\<lambda>c. is_ascii_uppercase c \<or> is_ascii_digit c \<or> c = CHR ''_'') s \<and>
     (s = [] \<or> last s \<noteq> CHR ''_'')"

lemma not_lower:
  "is_ascii_uppercase c \<or> is_ascii_digit c \<Longrightarrow> \<not> is_ascii_lowercase c"
  by (auto simp: is_ascii_uppercase_def is_ascii_digit_def is_ascii_lowercase_def less_eq_char_def)

lemma screaming_loop_keeps:
  "list_all (\<lambda>c. is_ascii_uppercase c \<or> is_ascii_digit c \<or> c = CHR ''_'') s \<Longrightarrow> screaming_loop False s = s"
proof (induction s)
  case (Cons c s)
  have "\<not> is_ascii_alphanumeric CHR ''_''" by code_simp
  with Cons show ?case
    using not_lower [of c]
    by (auto simp: is_ascii_alphanumeric_def is_ascii_alphabetic_def to_ascii_uppercase_def)
qed simp

lemma trim_end_underscores_last: "s = [] \<or> last s \<noteq> CHR ''_'' \<Longrightarrow> trim_end_underscores s = s"
  by (cases s rule: rev_cases) (auto simp: trim_end_underscores_def)

lemma upper_alnum:
  assumes "is_ascii_alphanumeric c"
  shows "is_ascii_uppercase (to_ascii_uppercase c) \<or> is_ascii_digit (to_ascii_uppercase c)"
proof (cases "is_ascii_lowercase c")
  case True
  then have range: "97 \<le> (of_char c :: nat)" "(of_char c :: nat) \<le> 122"
    by (auto simp: is_ascii_lowercase_def less_eq_char_def)
  then have "(of_char c - 32) mod 256 = (of_char c - 32 :: nat)" by simp
  with range True have "is_ascii_uppercase (to_ascii_uppercase c)"
    by (auto simp: to_ascii_uppercase_def is_ascii_uppercase_def less_eq_char_def)
  then show ?thesis ..
qed (use assms in \<open>auto simp: to_ascii_uppercase_def is_ascii_alphanumeric_def is_ascii_alphabetic_def\<close>)

lemma screaming_loop_chars:
  "list_all (\<lambda>c. is_ascii_uppercase c \<or> is_ascii_digit c \<or> c = CHR ''_'') (screaming_loop b s)"
  by (induction b s rule: screaming_loop.induct) (auto dest: upper_alnum)

lemma screaming_trim:
  assumes "list_all (\<lambda>c. is_ascii_uppercase c \<or> is_ascii_digit c \<or> c = CHR ''_'') s"
  shows "screaming (trim_end_underscores s)"
proof -
  have "set (trim_end_underscores s) \<subseteq> set s"
    using set_dropWhileD [of _ "\<lambda>c. c = CHR ''_''" "rev s"] by (auto simp: trim_end_underscores_def)
  moreover have "trim_end_underscores s = [] \<or> last (trim_end_underscores s) \<noteq> CHR ''_''"
    using hd_dropWhile [of "\<lambda>c. c = CHR ''_''" "rev s"]
    by (auto simp: trim_end_underscores_def last_rev)
  ultimately show ?thesis
    using assms by (auto simp: screaming_def list_all_iff)
qed

lemma to_screaming_is_screaming: "screaming (to_screaming_snake_case s)"
  unfolding to_screaming_snake_case_def by (intro screaming_trim screaming_loop_chars)

lemma to_screaming_fixed: "screaming s \<Longrightarrow> to_screaming_snake_case s = s"
  by (simp add: to_screaming_snake_case_def screaming_def screaming_loop_keeps trim_end_underscores_last)

lemma build_constraint_name_mset:
  "mset cs = mset ds \<Longrightarrow> build_constraint_name p t cs k = build_constraint_name p t ds k"
  by (simp add: build_constraint_name_def write_sorted_columns_def properties_for_sort
      split: option.splits) (metis properties_for_sort mset_sort sorted_sort)

end
