(* ===== verification/Apply_Action.thy ===== *)
theory Apply_Action
  imports Normalize Migration_Action Naming
begin

text \<open>
  Applying a migration action to a schema snapshot (\<open>vespertide-planner/src/apply/\<close>) and
  replaying whole plans (\<open>schema.rs\<close>).

  The Rust functions take \<open>&mut Vec<TableDef>\<close> and return a \<open>Result\<close>: the model returns the
  result beside the schema as the call leaves it, because callers that only log the error go
  on with that schema.  A mutable reference into the table list is \<open>with_table\<close>, one into the
  columns of a table \<open>with_column\<close>.
\<close>

type_synonym schema = "table_def list"
type_synonym 's applied = "(planner_error + unit) \<times> 's"

section \<open>Debug text of a constraint\<close>

fun debug_keep_policy :: "keep_policy \<Rightarrow> string" where
  "debug_keep_policy KeepFirst = ''First''"
| "debug_keep_policy KeepLast = ''Last''"

fun debug_reference_action :: "reference_action \<Rightarrow> string" where
  "debug_reference_action Cascade = ''Cascade''"
| "debug_reference_action Restrict = ''Restrict''"
| "debug_reference_action SetNull = ''SetNull''"
| "debug_reference_action SetDefault = ''SetDefault''"
| "debug_reference_action NoAction = ''NoAction''"

fun debug_unique_strategy :: "unique_constraint_strategy \<Rightarrow> string" where
  "debug_unique_strategy (UniqueDeleteDuplicates k) = ''DeleteDuplicates { keep: '' @ debug_keep_policy k @ '' }''"

fun debug_pk_strategy :: "primary_key_addition_strategy \<Rightarrow> string" where
  "debug_pk_strategy (PkDeleteDuplicates k) = ''DeleteDuplicates { keep: '' @ debug_keep_policy k @ '' }''"

fun debug_orphan_strategy :: "foreign_key_orphan_strategy \<Rightarrow> string" where
  "debug_orphan_strategy NullifyOrphans = ''NullifyOrphans''"
| "debug_orphan_strategy DeleteOrphans = ''DeleteOrphans''"

fun debug_check_strategy :: "check_violation_strategy \<Rightarrow> string" where
  "debug_check_strategy (NullifyViolatingColumn c) = ''NullifyViolatingColumn { column: '' @ debug_str c @ '' }''"
| "debug_check_strategy DeleteViolatingRows = ''DeleteViolatingRows''"

fun debug_constraint :: "table_constraint \<Rightarrow> string" where
  "debug_constraint (PrimaryKey ai cols strategy) =
     ''PrimaryKey { auto_increment: '' @ bool_to_string ai @ '', columns: '' @ debug_list debug_str cols @
     '', strategy: '' @ debug_pk_strategy strategy @ '' }''"
| "debug_constraint (Unique name cols strategy) =
     ''Unique { name: '' @ debug_option debug_str name @ '', columns: '' @ debug_list debug_str cols @
     '', strategy: '' @ debug_unique_strategy strategy @ '' }''"
| "debug_constraint (ForeignKey name cols rt rcs od ou orphan) =
     ''ForeignKey { name: '' @ debug_option debug_str name @ '', columns: '' @ debug_list debug_str cols @
     '', ref_table: '' @ debug_str rt @ '', ref_columns: '' @ debug_list debug_str rcs @
     '', on_delete: '' @ debug_option debug_reference_action od @
     '', on_update: '' @ debug_option debug_reference_action ou @
     '', orphan_strategy: '' @ debug_orphan_strategy orphan @ '' }''"
| "debug_constraint (Check name expr strategy) =
     ''Check { name: '' @ debug_str name @ '', expr: '' @ debug_str expr @
     '', strategy: '' @ debug_check_strategy strategy @ '' }''"
| "debug_constraint (Index name cols) =
     ''Index { name: '' @ debug_option debug_str name @ '', columns: '' @ debug_list debug_str cols @ '' }''"

section \<open>References into the schema\<close>

definition find_table :: "schema \<Rightarrow> table_name \<Rightarrow> table_def option" where
  "find_table schema table = find (\<lambda>t. tbl_name t = table) schema"

definition with_table ::
  "schema \<Rightarrow> table_name \<Rightarrow> (table_def \<Rightarrow> table_def applied) \<Rightarrow> schema applied" where
  "with_table schema table f =
     (case find_table schema table of
        None \<Rightarrow> (Inl (TableNotFound table), schema)
      | Some tbl \<Rightarrow>
          let (r, tbl') = f tbl
          in (r, update_first (\<lambda>t. tbl_name t = table) (\<lambda>_. tbl') schema))"

definition with_column ::
  "schema \<Rightarrow> table_name \<Rightarrow> column_name \<Rightarrow> (column_def \<Rightarrow> column_def) \<Rightarrow> schema applied" where
  "with_column schema table column f =
     with_table schema table (\<lambda>tbl.
       if list_ex (\<lambda>c. col_name c = column) (tbl_columns tbl)
       then (Inr (), tbl\<lparr>tbl_columns := update_first (\<lambda>c. col_name c = column) f (tbl_columns tbl)\<rparr>)
       else (Inl (ColumnNotFound table column), tbl))"

section \<open>Tables\<close>

definition create_table ::
  "schema \<Rightarrow> table_name \<Rightarrow> column_def list \<Rightarrow> table_constraint list \<Rightarrow> schema applied" where
  "create_table schema table columns constraints =
     (if list_ex (\<lambda>t. tbl_name t = table) schema then (Inl (TableExists table), schema)
      else case normalize \<lparr>tbl_name = table, tbl_description = None, tbl_columns = columns,
                           tbl_constraints = constraints\<rparr> of
             Inl e \<Rightarrow> (Inl (TableValidation (''Failed to normalize table '' @ quoted table @ '': '' @
                        display_table_validation_error e)), schema)
           | Inr normalized \<Rightarrow> (Inr (), schema @ [normalized]))"

definition delete_table :: "schema \<Rightarrow> table_name \<Rightarrow> schema applied" where
  "delete_table schema table =
     (let schema' = filter (\<lambda>t. tbl_name t \<noteq> table) schema
      in if length schema' = length schema then (Inl (TableNotFound table), schema')
         else (Inr (), schema'))"

fun rename_ref_table :: "table_name \<Rightarrow> table_name \<Rightarrow> table_constraint \<Rightarrow> table_constraint" where
  "rename_ref_table from to (ForeignKey name cols ref_table ref_cols od ou orphan) =
     ForeignKey name cols (if ref_table = from then to else ref_table) ref_cols od ou orphan"
| "rename_ref_table from to c = c"

definition rename_table :: "schema \<Rightarrow> table_name \<Rightarrow> table_name \<Rightarrow> schema applied" where
  "rename_table schema from to =
     (if list_ex (\<lambda>t. tbl_name t = to) schema then (Inl (TableExists to), schema)
      else case with_table schema from (\<lambda>tbl. (Inr (), tbl\<lparr>tbl_name := to\<rparr>)) of
             (Inl e, schema') \<Rightarrow> (Inl e, schema')
           | (Inr u, schema') \<Rightarrow>
               (Inr (), map (\<lambda>tbl. tbl\<lparr>tbl_constraints :=
                  map (rename_ref_table from to) (tbl_constraints tbl)\<rparr>) schema'))"

section \<open>Columns\<close>

definition add_column :: "schema \<Rightarrow> table_name \<Rightarrow> column_def \<Rightarrow> schema applied" where
  "add_column schema table column =
     with_table schema table (\<lambda>tbl.
       if list_ex (\<lambda>c. col_name c = col_name column) (tbl_columns tbl)
       then (Inl (ColumnExists table (col_name column)), tbl)
       else case normalize (tbl\<lparr>tbl_columns := tbl_columns tbl @ [column]\<rparr>) of
              Inl e \<Rightarrow>
                (Inl (TableValidation (''Failed to normalize table '' @ quoted table @
                   '' after adding column '' @ quoted (col_name column) @ '': '' @
                   display_table_validation_error e)),
                 \<lparr>tbl_name = table, tbl_description = None, tbl_columns = [], tbl_constraints = []\<rparr>)
            | Inr normalized \<Rightarrow> (Inr (), normalized))"

text \<open>
  \<open>retain_mut\<close> of \<open>drop_column_from_constraints\<close>: the constraint with the column scrubbed,
  or nothing when no column is left.
\<close>

definition scrubbed :: "column_name \<Rightarrow> column_name list \<Rightarrow> column_name list" where
  "scrubbed column columns = filter (\<lambda>c. c \<noteq> column) columns"

fun scrub_constraint :: "column_name \<Rightarrow> table_constraint \<Rightarrow> table_constraint list" where
  "scrub_constraint column (PrimaryKey ai columns strategy) =
     (let cs = scrubbed column columns in if cs = [] then [] else [PrimaryKey ai cs strategy])"
| "scrub_constraint column (Unique name columns strategy) =
     (let cs = scrubbed column columns in if cs = [] then [] else [Unique name cs strategy])"
| "scrub_constraint column (Index name columns) =
     (let cs = scrubbed column columns in if cs = [] then [] else [Index name cs])"
| "scrub_constraint column (ForeignKey name columns rt rcs od ou orphan) =
     (let cs = scrubbed column columns in if cs = [] then [] else [ForeignKey name cs rt rcs od ou orphan])"
| "scrub_constraint column (Check name expr strategy) = [Check name expr strategy]"

definition drop_column_from_constraints :: "column_name \<Rightarrow> table_constraint list \<Rightarrow> table_constraint list" where
  "drop_column_from_constraints column constraints = concat (map (scrub_constraint column) constraints)"

definition delete_column :: "schema \<Rightarrow> table_name \<Rightarrow> column_name \<Rightarrow> schema applied" where
  "delete_column schema table column =
     with_table schema table (\<lambda>tbl.
       let columns' = filter (\<lambda>c. col_name c \<noteq> column) (tbl_columns tbl)
       in if length columns' = length (tbl_columns tbl)
          then (Inl (ColumnNotFound table column), tbl\<lparr>tbl_columns := columns'\<rparr>)
          else (Inr (), tbl\<lparr>tbl_columns := columns',
                 tbl_constraints := drop_column_from_constraints column (tbl_constraints tbl)\<rparr>))"

definition rename_column_refs :: "column_name \<Rightarrow> column_name \<Rightarrow> column_name list \<Rightarrow> column_name list" where
  "rename_column_refs from to columns = map (\<lambda>c. if c = from then to else c) columns"

fun rename_column_in_constraint :: "column_name \<Rightarrow> column_name \<Rightarrow> table_constraint \<Rightarrow> table_constraint" where
  "rename_column_in_constraint from to (PrimaryKey ai columns strategy) =
     PrimaryKey ai (rename_column_refs from to columns) strategy"
| "rename_column_in_constraint from to (Unique name columns strategy) =
     Unique name (rename_column_refs from to columns) strategy"
| "rename_column_in_constraint from to (Index name columns) =
     Index name (rename_column_refs from to columns)"
| "rename_column_in_constraint from to (ForeignKey name columns rt rcs od ou orphan) =
     ForeignKey name (rename_column_refs from to columns) rt (rename_column_refs from to rcs) od ou orphan"
| "rename_column_in_constraint from to (Check name expr strategy) = Check name expr strategy"

definition rename_column_in_constraints ::
  "column_name \<Rightarrow> column_name \<Rightarrow> table_constraint list \<Rightarrow> table_constraint list" where
  "rename_column_in_constraints from to constraints = map (rename_column_in_constraint from to) constraints"

definition rename_column :: "schema \<Rightarrow> table_name \<Rightarrow> column_name \<Rightarrow> column_name \<Rightarrow> schema applied" where
  "rename_column schema table from to =
     with_table schema table (\<lambda>tbl.
       if list_ex (\<lambda>c. col_name c = from) (tbl_columns tbl)
       then (Inr (), tbl\<lparr>tbl_columns :=
               update_first (\<lambda>c. col_name c = from) (\<lambda>c. c\<lparr>col_name := to\<rparr>) (tbl_columns tbl),
               tbl_constraints := rename_column_in_constraints from to (tbl_constraints tbl)\<rparr>)
       else (Inl (ColumnNotFound table from), tbl))"

definition modify_column_type :: "schema \<Rightarrow> table_name \<Rightarrow> column_name \<Rightarrow> column_type \<Rightarrow> schema applied" where
  "modify_column_type schema table column new_type =
     with_column schema table column (\<lambda>c. c\<lparr>col_type := new_type\<rparr>)"

fun remap_type :: "(int, int) omap \<Rightarrow> column_type \<Rightarrow> column_type" where
  "remap_type mapping (Complex (Enum name (EnumInteger items))) =
     Complex (Enum name (EnumInteger (map (\<lambda>item.
       case om_lookup mapping (nv_value item) of
         Some new_val \<Rightarrow> item\<lparr>nv_value := new_val\<rparr> | None \<Rightarrow> item) items)))"
| "remap_type mapping ty = ty"

definition remap_enum_values ::
  "schema \<Rightarrow> table_name \<Rightarrow> column_name \<Rightarrow> (int, int) omap \<Rightarrow> schema applied" where
  "remap_enum_values schema table column mapping =
     with_column schema table column (\<lambda>c. c\<lparr>col_type := remap_type mapping (col_type c)\<rparr>)"

definition modify_column_nullable :: "schema \<Rightarrow> table_name \<Rightarrow> column_name \<Rightarrow> bool \<Rightarrow> schema applied" where
  "modify_column_nullable schema table column nullable =
     with_column schema table column (\<lambda>c. c\<lparr>col_nullable := nullable\<rparr>)"

definition modify_column_default ::
  "schema \<Rightarrow> table_name \<Rightarrow> column_name \<Rightarrow> string option \<Rightarrow> schema applied" where
  "modify_column_default schema table column new_default =
     with_column schema table column (\<lambda>c. c\<lparr>col_default := map_option DefString new_default\<rparr>)"

definition modify_column_comment ::
  "schema \<Rightarrow> table_name \<Rightarrow> column_name \<Rightarrow> string option \<Rightarrow> schema applied" where
  "modify_column_comment schema table column new_comment =
     with_column schema table column (\<lambda>c. c\<lparr>col_comment := new_comment\<rparr>)"

section \<open>Constraints\<close>

definition clear_columns_field ::
  "column_name list \<Rightarrow> (column_def \<Rightarrow> column_def) \<Rightarrow> column_def list \<Rightarrow> column_def list" where
  "clear_columns_field columns clear cols =
     fold (\<lambda>n cs. update_first (\<lambda>c. col_name c = n) clear cs) columns cols"

definition clear_unique_fields ::
  "string option \<Rightarrow> column_name list \<Rightarrow> column_def list \<Rightarrow> column_def list" where
  "clear_unique_fields name columns cols =
     (let cols1 = (case (name, columns) of
              (None, [n]) \<Rightarrow> update_first (\<lambda>c. col_name c = n) (\<lambda>c. c\<lparr>col_unique := None\<rparr>) cols
            | _ \<Rightarrow> cols)
      in case name of
           None \<Rightarrow> cols1
         | Some constraint_name \<Rightarrow>
             map (\<lambda>c. case col_unique c of
                 Some (StrArray names) \<Rightarrow>
                   (let names' = filter (\<lambda>n. n \<noteq> constraint_name) names
                    in c\<lparr>col_unique := if names' = [] then None else Some (StrArray names')\<rparr>)
               | u \<Rightarrow> if Option.bind u str_or_bool_as_str = Some constraint_name
                       then c\<lparr>col_unique := None\<rparr> else c) cols1)"

definition clear_index_fields ::
  "table_name \<Rightarrow> string option \<Rightarrow> column_name list \<Rightarrow> column_def list \<Rightarrow> column_def list" where
  "clear_index_fields table name columns cols =
     (let cols1 = update_first (\<lambda>c. name = Some (build_index_name table [col_name c] None))
            (\<lambda>c. c\<lparr>col_index := None\<rparr>) cols;
          cols2 = (case (name, columns) of
              (None, [n]) \<Rightarrow> update_first (\<lambda>c. col_name c = n) (\<lambda>c. c\<lparr>col_index := None\<rparr>) cols1
            | _ \<Rightarrow> cols1)
      in case name of
           None \<Rightarrow> cols2
         | Some constraint_name \<Rightarrow>
             map (\<lambda>c. if Option.bind (col_index c) str_or_bool_as_str = Some constraint_name
               then c\<lparr>col_index := None\<rparr>
               else (case col_index c of
                 Some (StrArray names) \<Rightarrow>
                   (let filtered = filter (\<lambda>n. n \<noteq> constraint_name) names
                    in if filtered = [] then c\<lparr>col_index := None\<rparr>
                       else if length filtered < length names
                         then c\<lparr>col_index := Some (StrArray filtered)\<rparr> else c)
               | _ \<Rightarrow> c)) cols2)"

definition clear_inline_constraint_fields ::
  "table_name \<Rightarrow> table_def \<Rightarrow> table_constraint \<Rightarrow> table_def" where
  "clear_inline_constraint_fields table tbl constraint =
     (case constraint of
        Unique name columns _ \<Rightarrow> tbl\<lparr>tbl_columns := clear_unique_fields name columns (tbl_columns tbl)\<rparr>
      | PrimaryKey _ columns _ \<Rightarrow>
          tbl\<lparr>tbl_columns := clear_columns_field columns (\<lambda>c. c\<lparr>col_primary_key := None\<rparr>) (tbl_columns tbl)\<rparr>
      | ForeignKey _ columns _ _ _ _ _ \<Rightarrow>
          tbl\<lparr>tbl_columns := clear_columns_field columns (\<lambda>c. c\<lparr>col_foreign_key := None\<rparr>) (tbl_columns tbl)\<rparr>
      | Check _ _ _ \<Rightarrow> tbl
      | Index name columns \<Rightarrow>
          tbl\<lparr>tbl_columns := clear_index_fields table name columns (tbl_columns tbl)\<rparr>)"

definition add_constraint :: "schema \<Rightarrow> table_name \<Rightarrow> table_constraint \<Rightarrow> schema applied" where
  "add_constraint schema table constraint =
     with_table schema table (\<lambda>tbl.
       (Inr (), if constraint \<in> set (tbl_constraints tbl) then tbl
                else tbl\<lparr>tbl_constraints := tbl_constraints tbl @ [constraint]\<rparr>))"

definition remove_constraint :: "schema \<Rightarrow> table_name \<Rightarrow> table_constraint \<Rightarrow> schema applied" where
  "remove_constraint schema table constraint =
     with_table schema table (\<lambda>tbl.
       (Inr (), clear_inline_constraint_fields table
          (tbl\<lparr>tbl_constraints := filter (\<lambda>c. c \<noteq> constraint) (tbl_constraints tbl)\<rparr>) constraint))"

definition replace_constraint ::
  "schema \<Rightarrow> table_name \<Rightarrow> table_constraint \<Rightarrow> table_constraint \<Rightarrow> schema applied" where
  "replace_constraint schema table from to =
     with_table schema table (\<lambda>tbl.
       if from \<in> set (tbl_constraints tbl)
       then (Inr (), clear_inline_constraint_fields table
              (tbl\<lparr>tbl_constraints := update_first (\<lambda>c. c = from) (\<lambda>_. to) (tbl_constraints tbl)\<rparr>) from)
       else (Inl (TableValidation (''constraint to replace not found on table '' @ quoted table @ '': '' @
                debug_constraint from)), tbl))"

section \<open>Actions and plans\<close>

fun apply_action :: "schema \<Rightarrow> migration_action \<Rightarrow> schema applied" where
  "apply_action schema (CreateTable table columns constraints) = create_table schema table columns constraints"
| "apply_action schema (DeleteTable table) = delete_table schema table"
| "apply_action schema (RenameTable from to) = rename_table schema from to"
| "apply_action schema (AddColumn table column _) = add_column schema table column"
| "apply_action schema (DeleteColumn table column) = delete_column schema table column"
| "apply_action schema (RenameColumn table from to) = rename_column schema table from to"
| "apply_action schema (ModifyColumnType table column new_type _ _ _) =
     modify_column_type schema table column new_type"
| "apply_action schema (ModifyColumnNullable table column nullable _ _) =
     modify_column_nullable schema table column nullable"
| "apply_action schema (ModifyColumnDefault table column new_default _) =
     modify_column_default schema table column new_default"
| "apply_action schema (ModifyColumnComment table column new_comment) =
     modify_column_comment schema table column new_comment"
| "apply_action schema (AddConstraint table constraint) = add_constraint schema table constraint"
| "apply_action schema (RemoveConstraint table constraint) = remove_constraint schema table constraint"
| "apply_action schema (ReplaceConstraint table from to) = replace_constraint schema table from to"
| "apply_action schema (RemapEnumValues table column mapping) = remap_enum_values schema table column mapping"
| "apply_action schema (DataMigration _ _) = (Inr (), schema)"
| "apply_action schema (RawSql _) = (Inr (), schema)"

fun apply_actions :: "schema \<Rightarrow> migration_action list \<Rightarrow> planner_error + schema" where
  "apply_actions schema [] = Inr schema"
| "apply_actions schema (action # actions) =
     (case apply_action schema action of
        (Inl e, _) \<Rightarrow> Inl e
      | (Inr u, schema') \<Rightarrow> apply_actions schema' actions)"

fun replay_plans :: "schema \<Rightarrow> migration_plan list \<Rightarrow> planner_error + schema" where
  "replay_plans schema [] = Inr schema"
| "replay_plans schema (plan # plans) =
     (case apply_actions schema (plan_actions plan) of
        Inl e \<Rightarrow> Inl e
      | Inr schema' \<Rightarrow> replay_plans schema' plans)"

definition schema_from_plans :: "migration_plan list \<Rightarrow> planner_error + schema" where
  "schema_from_plans plans = replay_plans [] plans"

section \<open>One table at a time\<close>

text \<open>
  Actions other than the creation, deletion and renaming of tables change one table, and what
  they do to it depends on that table only.  \<open>table_step\<close> is what the action does to the table
  alone.
\<close>

fun single_table :: "migration_action \<Rightarrow> bool" where
  "single_table (CreateTable _ _ _) = False"
| "single_table (DeleteTable _) = False"
| "single_table (RenameTable _ _) = False"
| "single_table (RawSql _) = False"
| "single_table (DataMigration _ _) = False"
| "single_table _ = True"

definition table_step :: "migration_action \<Rightarrow> table_def \<Rightarrow> table_def applied" where
  "table_step a t = (case apply_action [t] a of (r, s) \<Rightarrow> (r, hd s))"

definition keeps_name :: "table_name \<Rightarrow> (table_def \<Rightarrow> table_def applied) \<Rightarrow> bool" where
  "keeps_name n f \<longleftrightarrow> (\<forall>t. tbl_name t = n \<longrightarrow> tbl_name (snd (f t)) = n)"

lemma find_table_Some: "find_table s n = Some t \<Longrightarrow> t \<in> set s \<and> tbl_name t = n"
  by (auto simp: find_table_def find_Some_iff)

lemma find_table_None: "find_table s n = None \<longleftrightarrow> n \<notin> tbl_name ` set s"
  by (auto simp: find_table_def find_None_iff)

lemma find_table_append:
  "find_table (s @ u) n = (case find_table s n of None \<Rightarrow> find_table u n | Some t \<Rightarrow> Some t)"
  by (induction s) (auto simp: find_table_def)

lemma find_table_Cons: "find_table (t # s) n = (if tbl_name t = n then Some t else find_table s n)"
  by (simp add: find_table_def)

lemma find_table_update:
  assumes "tbl_name t' = n"
  shows "find_table (update_first (\<lambda>t. tbl_name t = n) (\<lambda>_. t') s) m =
    (if m = n \<and> find_table s n \<noteq> None then Some t' else find_table s m)"
  using assms by (induction s) (auto simp: find_table_def)

lemma names_update:
  assumes "tbl_name t' = n"
  shows "map tbl_name (update_first (\<lambda>t. tbl_name t = n) (\<lambda>_. t') s) = map tbl_name s"
  using assms by (induction s) auto

lemma with_table_single: "tbl_name t = n \<Longrightarrow> with_table [t] n f = (fst (f t), [snd (f t)])"
  by (simp add: with_table_def find_table_def split: prod.splits)

lemma snd_with_table:
  "snd (with_table s n f) = (case find_table s n of None \<Rightarrow> s
     | Some t \<Rightarrow> update_first (\<lambda>t. tbl_name t = n) (\<lambda>_. snd (f t)) s)"
  by (simp add: with_table_def split: option.splits prod.splits)

lemma with_table_names:
  assumes "keeps_name n f"
  shows "map tbl_name (snd (with_table s n f)) = map tbl_name s"
proof (cases "find_table s n")
  case (Some t)
  with find_table_Some assms have "tbl_name (snd (f t)) = n"
    by (auto simp: keeps_name_def)
  from names_update [OF this] Some show ?thesis
    by (simp add: snd_with_table)
qed (simp add: snd_with_table)

lemma find_table_with_table:
  assumes "keeps_name n f"
  shows "find_table (snd (with_table s n f)) m =
    (if m = n then map_option (\<lambda>t. snd (f t)) (find_table s n) else find_table s m)"
proof (cases "find_table s n")
  case (Some t)
  with find_table_Some assms have "tbl_name (snd (f t)) = n"
    by (auto simp: keeps_name_def)
  from find_table_update [OF this] Some show ?thesis
    by (simp add: snd_with_table)
qed (simp add: snd_with_table)

lemma fst_with_table:
  "fst (with_table s n f) = (case find_table s n of None \<Rightarrow> Inl (TableNotFound n) | Some t \<Rightarrow> fst (f t))"
  by (simp add: with_table_def split: option.splits prod.splits)

lemma keeps_nameI: "(\<And>t. tbl_name t = n \<Longrightarrow> tbl_name (snd (f t)) = n) \<Longrightarrow> keeps_name n f"
  by (simp add: keeps_name_def)

lemma clear_inline_fields [simp]:
  "tbl_name (clear_inline_constraint_fields n t c) = tbl_name t"
  "tbl_constraints (clear_inline_constraint_fields n t c) = tbl_constraints t"
  "tbl_description (clear_inline_constraint_fields n t c) = tbl_description t"
  by (cases c; simp add: clear_inline_constraint_fields_def)+

lemma normalize_columns_name: "normalize (t\<lparr>tbl_columns := cs\<rparr>) = Inr t' \<Longrightarrow> tbl_name t' = tbl_name t"
  using normalize_fields by fastforce

lemma single_table_form:
  assumes "single_table a"
  obtains n f where "action_table_name a = Some n" and "keeps_name n f"
    and "\<And>s. apply_action s a = with_table s n f"
proof -
  have col: "\<exists>f. keeps_name n f \<and> (\<forall>s. with_column s n c g = with_table s n f)" for n c g
    unfolding with_column_def
    by (rule exI, intro conjI allI) (rule keeps_nameI, auto)
  note defs = modify_column_type_def remap_enum_values_def modify_column_nullable_def
    modify_column_default_def modify_column_comment_def
  have "\<exists>n f. action_table_name a = Some n \<and> keeps_name n f \<and> (\<forall>s. apply_action s a = with_table s n f)"
    using assms
  proof (cases a)
    case (AddColumn n c x)
    then show ?thesis
      by (auto simp: add_column_def dest: normalize_columns_name split: sum.splits
          intro!: exI [of _ n] exI keeps_nameI)
  qed (use col in \<open>auto simp: defs delete_column_def rename_column_def add_constraint_def
      remove_constraint_def replace_constraint_def Let_def intro!: exI keeps_nameI\<close>)
  then show thesis using that by blast
qed

lemma apply_single_table:
  assumes "single_table a" and "action_table_name a = Some n"
  shows "apply_action s a = with_table s n (table_step a)"
proof -
  obtain m f where f: "action_table_name a = Some m" "\<And>s. apply_action s a = with_table s m f"
    using single_table_form [OF assms(1)] by blast
  have "table_step a t = f t" if "tbl_name t = n" for t
    using f assms(2) that by (simp add: table_step_def with_table_single)
  then have "with_table s n f = with_table s n (table_step a)"
    by (auto simp: with_table_def dest: find_table_Some split: option.splits)
  with f assms(2) show ?thesis by simp
qed

lemma table_step_keeps:
  assumes "single_table a" and "action_table_name a = Some n"
  shows "keeps_name n (table_step a)"
proof -
  obtain m f where f: "action_table_name a = Some m" "keeps_name m f" "\<And>s. apply_action s a = with_table s m f"
    using single_table_form [OF assms(1)] by blast
  then show ?thesis
    using assms(2) by (auto simp: table_step_def with_table_single keeps_name_def)
qed

section \<open>The abstract schema\<close>

text \<open>
  A schema promises to be a finite map from table names to tables.  \<open>abs_apply\<close> says what each
  action does to such a map; \<open>apply_action\<close> implements it as long as table names are distinct,
  which it keeps.
\<close>

definition rename_refs :: "table_name \<Rightarrow> table_name \<Rightarrow> table_def \<Rightarrow> table_def" where
  "rename_refs from to t = t\<lparr>tbl_constraints := map (rename_ref_table from to) (tbl_constraints t)\<rparr>"

definition abs_apply ::
  "(table_name \<rightharpoonup> table_def) \<Rightarrow> migration_action \<Rightarrow> (table_name \<rightharpoonup> table_def) applied" where
  "abs_apply m a =
     (case a of
        CreateTable n cols cs \<Rightarrow>
          (case m n of
             Some _ \<Rightarrow> (Inl (TableExists n), m)
           | None \<Rightarrow>
               (case create_table [] n cols cs of
                  (Inr _, [t]) \<Rightarrow> (Inr (), m(n \<mapsto> t))
                | (r, _) \<Rightarrow> (r, m)))
      | DeleteTable n \<Rightarrow>
          (case m n of None \<Rightarrow> (Inl (TableNotFound n), m) | Some _ \<Rightarrow> (Inr (), m(n := None)))
      | RenameTable from to \<Rightarrow>
          (case (m to, m from) of
             (Some _, _) \<Rightarrow> (Inl (TableExists to), m)
           | (None, None) \<Rightarrow> (Inl (TableNotFound from), m)
           | (None, Some t) \<Rightarrow>
               (Inr (), map_option (rename_refs from to) \<circ> m(from := None, to \<mapsto> t\<lparr>tbl_name := to\<rparr>)))
      | RawSql _ \<Rightarrow> (Inr (), m)
      | DataMigration _ _ \<Rightarrow> (Inr (), m)
      | _ \<Rightarrow>
          (case action_table_name a of
             None \<Rightarrow> (Inr (), m)
           | Some n \<Rightarrow>
               (case m n of
                  None \<Rightarrow> (Inl (TableNotFound n), m)
                | Some t \<Rightarrow> (case table_step a t of (r, t') \<Rightarrow> (r, m(n \<mapsto> t'))))))"

abbreviation names_distinct :: "schema \<Rightarrow> bool" where
  "names_distinct s \<equiv> distinct (map tbl_name s)"

lemma create_table_cases:
  obtains e where "create_table s n cols cs = (Inl e, s)"
  | t where "create_table s n cols cs = (Inr (), s @ [t])" and "tbl_name t = n" and "n \<notin> tbl_name ` set s"
proof -
  have "tbl_name t = n" if "normalize \<lparr>tbl_name = n, tbl_description = None, tbl_columns = cols,
      tbl_constraints = cs\<rparr> = Inr t" for t
    using normalize_fields [OF that] by simp
  then show thesis
    using that unfolding create_table_def by (fastforce simp: list_ex_iff split: if_splits sum.splits)
qed

lemma create_table_lift:
  assumes "n \<notin> tbl_name ` set s"
  shows "create_table s n cols cs =
    (case create_table [] n cols cs of (r, ts) \<Rightarrow> (r, s @ ts))"
  using assms by (auto simp: create_table_def list_ex_iff split: sum.splits)

lemma create_table_empty_cases:
  obtains e where "create_table [] n cols cs = (Inl e, [])"
  | t where "create_table [] n cols cs = (Inr (), [t])" and "tbl_name t = n"
  by (rule create_table_cases [of "[]" n cols cs]) auto

lemma filter_length_eq: "length (filter P xs) = length xs \<longleftrightarrow> (\<forall>x \<in> set xs. P x)"
  by (metis filter_id_conv filter_True length_filter_less nat_neq_iff)

lemma delete_table_result:
  "fst (delete_table s n) = (if n \<in> tbl_name ` set s then Inr () else Inl (TableNotFound n))"
  "snd (delete_table s n) = filter (\<lambda>t. tbl_name t \<noteq> n) s"
  by (auto simp: delete_table_def Let_def filter_length_eq)

lemma find_table_filter:
  "find_table (filter (\<lambda>t. tbl_name t \<noteq> n) s) m = (if m = n then None else find_table s m)"
  by (induction s) (auto simp: find_table_Cons find_table_None)

lemma find_table_map:
  "(\<And>t. tbl_name (f t) = tbl_name t) \<Longrightarrow> find_table (map f s) m = map_option f (find_table s m)"
  by (induction s) (auto simp: find_table_Cons find_table_def)

lemma rename_refs_fields [simp]:
  "tbl_name (rename_refs from to t) = tbl_name t" "tbl_columns (rename_refs from to t) = tbl_columns t"
  by (simp_all add: rename_refs_def)

lemma rename_table_result:
  "rename_table s from to =
     (if to \<in> tbl_name ` set s then (Inl (TableExists to), s)
      else case find_table s from of
        None \<Rightarrow> (Inl (TableNotFound from), s)
      | Some t \<Rightarrow> (Inr (), map (rename_refs from to)
          (update_first (\<lambda>t. tbl_name t = from) (\<lambda>_. t\<lparr>tbl_name := to\<rparr>) s)))"
  unfolding rename_refs_def
  by (auto simp: rename_table_def with_table_def list_ex_iff split: option.splits)

lemma find_table_renamed:
  assumes "names_distinct s" and "find_table s from = Some t" and "to \<notin> tbl_name ` set s"
  shows "find_table (update_first (\<lambda>t. tbl_name t = from) (\<lambda>_. t\<lparr>tbl_name := to\<rparr>) s) m =
    ((find_table s)(from := None, to \<mapsto> t\<lparr>tbl_name := to\<rparr>)) m"
  using assms
proof (induction s)
  case (Cons u s)
  show ?case
  proof (cases "tbl_name u = from")
    case True
    with Cons.prems have "find_table s from = None"
      by (auto simp: find_table_None)
    with True Cons.prems show ?thesis
      by (auto simp: find_table_Cons)
  next
    case False
    with Cons show ?thesis
      by (auto simp: find_table_Cons)
  qed
qed (simp add: find_table_def)

lemma names_renamed:
  assumes "names_distinct s" and "to \<notin> tbl_name ` set s"
  shows "names_distinct (update_first (\<lambda>t. tbl_name t = from) (\<lambda>_. t\<lparr>tbl_name := to\<rparr>) s)"
  using assms
proof (induction s)
  case (Cons u s)
  have "set (map tbl_name (update_first (\<lambda>t. tbl_name t = from) (\<lambda>_. t\<lparr>tbl_name := to\<rparr>) s))
      \<subseteq> insert to (tbl_name ` set s)"
    by (induction s) auto
  with Cons show ?case by auto
qed simp

lemma apply_action_distinct:
  assumes "names_distinct s"
  shows "names_distinct (snd (apply_action s a))"
proof (cases "single_table a")
  case True
  then obtain n f where "keeps_name n f" "apply_action s a = with_table s n f"
    by (metis single_table_form)
  with assms show ?thesis by (simp add: with_table_names)
next
  case False
  then show ?thesis
  proof (cases a)
    case (CreateTable n cols cs)
    with assms show ?thesis by (cases rule: create_table_cases [of s n cols cs]) auto
  next
    case (DeleteTable n)
    with assms show ?thesis by (simp add: delete_table_result distinct_map_filter)
  next
    case (RenameTable old new)
    with assms names_renamed [OF assms, of new] show ?thesis
      by (auto simp: rename_table_result comp_def split: option.splits)
  qed (use assms in auto)
qed

lemma apply_action_abs:
  assumes "names_distinct s"
  shows "(case apply_action s a of (r, s') \<Rightarrow> (r, find_table s')) = abs_apply (find_table s) a"
proof (cases "single_table a")
  case True
  then obtain n where n: "action_table_name a = Some n"
    by (metis single_table_form)
  have *: "abs_apply (find_table s) a =
      (case find_table s n of
         None \<Rightarrow> (Inl (TableNotFound n), find_table s)
       | Some t \<Rightarrow> (case table_step a t of (r, t') \<Rightarrow> (r, (find_table s)(n \<mapsto> t'))))"
    using True n by (cases a) (auto simp: abs_apply_def)
  let ?w = "with_table s n (table_step a)"
  have "find_table (snd ?w) =
      (\<lambda>m. if m = n then map_option (\<lambda>t. snd (table_step a t)) (find_table s n) else find_table s m)"
    using find_table_with_table [OF table_step_keeps [OF True n]] by blast
  moreover have "fst ?w = (case find_table s n of None \<Rightarrow> Inl (TableNotFound n) | Some t \<Rightarrow> fst (table_step a t))"
    by (rule fst_with_table)
  ultimately show ?thesis
    unfolding * apply_single_table [OF True n]
    by (cases "find_table s n") (auto simp: case_prod_beta fun_eq_iff)
next
  case False
  then show ?thesis
  proof (cases a)
    case (CreateTable n cols cs)
    show ?thesis
    proof (cases "find_table s n")
      case None
      then have "n \<notin> tbl_name ` set s" by (simp add: find_table_None)
      then have lift: "create_table s n cols cs = (case create_table [] n cols cs of (r, ts) \<Rightarrow> (r, s @ ts))"
        by (rule create_table_lift)
      show ?thesis
        by (rule create_table_empty_cases [of n cols cs])
          (auto simp: CreateTable None abs_apply_def lift find_table_append find_table_Cons fun_eq_iff
            find_table_def [of "[]"] split: option.splits)
    next
      case (Some t)
      then have "n \<in> tbl_name ` set s" using find_table_Some by fastforce
      with Some CreateTable show ?thesis
        by (auto simp: create_table_def abs_apply_def list_ex_iff)
    qed
  next
    case (DeleteTable n)
    then show ?thesis
      using find_table_None [of s n] delete_table_result [of s n]
      by (cases "find_table s n") (auto simp: abs_apply_def case_prod_beta find_table_filter fun_eq_iff)
  next
    case (RenameTable old new)
    then show ?thesis
      using find_table_None [of s new] find_table_renamed [OF assms, of old _ new]
      by (cases "find_table s new"; cases "find_table s old")
        (auto simp: abs_apply_def rename_table_result find_table_map fun_eq_iff)
  qed (auto simp: abs_apply_def)
qed

section \<open>Errors leave the schema alone\<close>

lemma update_first_same:
  "find_table s n = Some t \<Longrightarrow> update_first (\<lambda>t. tbl_name t = n) (\<lambda>_. t) s = s"
  by (induction s) (auto simp: find_table_Cons)

lemma with_table_error:
  assumes "with_table s n f = (Inl e, s')" and "\<And>t t'. f t = (Inl e, t') \<Longrightarrow> t' = t"
  shows "s' = s"
  using assms update_first_same [of s n]
  by (auto simp: with_table_def split: option.splits prod.splits)

lemma with_column_error: "with_column s n c f = (Inl e, s') \<Longrightarrow> s' = s"
  unfolding with_column_def by (erule with_table_error) (auto split: if_splits)

lemma columns_update_same: "cs = tbl_columns t \<Longrightarrow> t\<lparr>tbl_columns := cs\<rparr> = t"
  by simp

lemma apply_action_error:
  assumes "apply_action s a = (Inl e, s')"
  shows "s' = s \<or> (\<exists>n c x m. a = AddColumn n c x \<and> e = TableValidation m)"
proof (cases a)
  case (CreateTable n cols cs)
  with assms show ?thesis by (cases rule: create_table_cases [of s n cols cs]) auto
next
  case (DeleteTable n)
  with assms show ?thesis by (auto simp: delete_table_def Let_def filter_length_eq split: if_splits)
next
  case (RenameTable old new)
  with assms show ?thesis by (auto simp: rename_table_result split: if_splits option.splits)
next
  case (AddColumn n c x)
  then have "s' = s" if "\<forall>m. e \<noteq> TableValidation m"
    using assms that
    by (auto simp: add_column_def split: if_splits sum.splits elim!: with_table_error)
  with AddColumn show ?thesis by blast
next
  case (DeleteColumn n c)
  with assms show ?thesis
    by (auto simp: delete_column_def Let_def filter_length_eq filter_id_conv split: if_splits elim!: with_table_error)
next
  case (RenameColumn n old new)
  with assms show ?thesis
    by (auto simp: rename_column_def split: if_splits elim!: with_table_error)
next
  case (AddConstraint n c)
  with assms show ?thesis
    by (auto simp: add_constraint_def elim!: with_table_error)
next
  case (RemoveConstraint n c)
  with assms show ?thesis
    by (auto simp: remove_constraint_def elim!: with_table_error)
next
  case (ReplaceConstraint n c d)
  with assms show ?thesis
    by (auto simp: replace_constraint_def split: if_splits elim!: with_table_error)
qed (use assms with_column_error in \<open>auto simp: modify_column_type_def remap_enum_values_def
    modify_column_nullable_def modify_column_default_def modify_column_comment_def\<close>)

section \<open>Invariants of a replay\<close>

text \<open>
  What a replay keeps: a property of schemas that every admitted action keeps when it succeeds
  holds after every successful run of admitted actions.
\<close>

locale schema_invariant =
  fixes inv :: "schema \<Rightarrow> bool"
    and admitted :: "migration_action \<Rightarrow> bool"
  assumes keep: "inv s \<Longrightarrow> admitted a \<Longrightarrow> apply_action s a = (Inr (), s') \<Longrightarrow> inv s'"
begin

lemma apply_actions_inv:
  "apply_actions s as = Inr s' \<Longrightarrow> inv s \<Longrightarrow> list_all admitted as \<Longrightarrow> inv s'"
proof (induction as arbitrary: s)
  case (Cons a as)
  then obtain s1 where "apply_action s a = (Inr (), s1)" "apply_actions s1 as = Inr s'"
    by (auto split: sum.splits prod.splits)
  with Cons keep show ?case by auto
qed simp

lemma replay_plans_inv:
  "replay_plans s ps = Inr s' \<Longrightarrow> inv s \<Longrightarrow> list_all (\<lambda>p. list_all admitted (plan_actions p)) ps \<Longrightarrow> inv s'"
proof (induction ps arbitrary: s)
  case (Cons p ps)
  then obtain s1 where "apply_actions s (plan_actions p) = Inr s1" "replay_plans s1 ps = Inr s'"
    by (auto split: sum.splits)
  with Cons apply_actions_inv show ?case by auto
qed simp

end

interpretation names: schema_invariant names_distinct "\<lambda>_. True"
proof
  fix s a s' assume "names_distinct s" "apply_action s a = (Inr (), s')"
  then show "names_distinct s'" using apply_action_distinct [of s a] by simp
qed

text \<open>Actions that leave the table \<open>n\<close> alone.\<close>

definition leaves_alone :: "table_name \<Rightarrow> migration_action \<Rightarrow> bool" where
  "leaves_alone n a \<longleftrightarrow> action_table_name a \<noteq> Some n \<and> (\<forall>old new. a \<noteq> RenameTable old new)"

lemma apply_action_frame:
  assumes "leaves_alone n a"
  shows "find_table (snd (apply_action s a)) n = find_table s n"
proof (cases "single_table a")
  case True
  then obtain m f where "action_table_name a = Some m" "keeps_name m f" "apply_action s a = with_table s m f"
    by (metis single_table_form)
  with assms show ?thesis by (auto simp: leaves_alone_def find_table_with_table)
next
  case False
  then show ?thesis
  proof (cases a)
    case (CreateTable m cols cs)
    with assms show ?thesis
      by (cases rule: create_table_cases [of s m cols cs])
        (auto simp: leaves_alone_def find_table_append find_table_Cons find_table_def [of "[]"]
          split: option.splits)
  qed (use assms in \<open>auto simp: leaves_alone_def delete_table_result find_table_filter\<close>)
qed

interpretation frame: schema_invariant "\<lambda>s. find_table s n = x" "leaves_alone n" for n x
proof
  fix s a s' assume "find_table s n = x" "leaves_alone n a" "apply_action s a = (Inr (), s')"
  then show "find_table s' n = x" using apply_action_frame [of n a s] by simp
qed

text \<open>Column names stay distinct unless a column is renamed (the code does not check the new name).\<close>

abbreviation columns_distinct :: "table_def \<Rightarrow> bool" where
  "columns_distinct t \<equiv> distinct (map col_name (tbl_columns t))"

fun keeps_columns_distinct :: "migration_action \<Rightarrow> bool" where
  "keeps_columns_distinct (CreateTable _ cols _) = distinct (map col_name cols)"
| "keeps_columns_distinct (RenameColumn _ _ _) = False"
| "keeps_columns_distinct _ = True"

lemma col_names_update_first [update_simps]:
  "(\<And>c. col_name (f c) = col_name c) \<Longrightarrow> map col_name (update_first P f cs) = map col_name cs"
  by (rule map_update_first)

lemma col_names_clear_columns_field [update_simps]:
  "(\<And>c. col_name (f c) = col_name c) \<Longrightarrow> map col_name (clear_columns_field ns f cs) = map col_name cs"
  unfolding clear_columns_field_def by (induction ns arbitrary: cs) (simp_all add: update_simps)

lemma col_names_clear_unique [update_simps]: "map col_name (clear_unique_fields n ns cs) = map col_name cs"
  by (auto simp: clear_unique_fields_def Let_def update_simps comp_def
      split: option.splits list.splits str_or_bool_or_array.splits)

lemma col_names_clear_index [update_simps]: "map col_name (clear_index_fields t n ns cs) = map col_name cs"
  by (auto simp: clear_index_fields_def Let_def update_simps comp_def
      split: option.splits list.splits str_or_bool_or_array.splits)

lemma col_names_clear_inline [update_simps]:
  "map col_name (tbl_columns (clear_inline_constraint_fields n t c)) = map col_name (tbl_columns t)"
  by (cases c) (simp_all add: clear_inline_constraint_fields_def update_simps)


lemma table_step_columns_distinct:
  assumes "single_table a" and "keeps_columns_distinct a" and "columns_distinct t"
    and "action_table_name a = Some (tbl_name t)"
  shows "columns_distinct (snd (table_step a t))"
proof (cases a)
  case (AddColumn n c x)
  show ?thesis
  proof (cases "normalize (t\<lparr>tbl_columns := tbl_columns t @ [c]\<rparr>)")
    case (Inr u)
    from normalize_fields [OF this] Inr AddColumn assms show ?thesis
      by (auto simp: table_step_def add_column_def with_table_single list_ex_iff)
  qed (use AddColumn assms in \<open>simp add: table_step_def add_column_def with_table_single\<close>)
next
  case (DeleteColumn n c)
  then show ?thesis
    using assms by (auto simp: table_step_def delete_column_def with_table_single Let_def distinct_map_filter)
qed (use assms in \<open>auto simp: table_step_def with_table_single with_column_def modify_column_type_def
    remap_enum_values_def modify_column_nullable_def modify_column_default_def modify_column_comment_def
    add_constraint_def remove_constraint_def replace_constraint_def update_simps\<close>)

lemma set_update_first: "set (update_first P (\<lambda>_. y) xs) \<subseteq> insert y (set xs)"
  by (induction xs) auto

lemma rename_table_columns:
  assumes "t \<in> set (snd (rename_table s old new))"
  shows "\<exists>u \<in> set s. tbl_columns t = tbl_columns u"
proof (cases "new \<in> tbl_name ` set s")
  case False
  show ?thesis
  proof (cases "find_table s old")
    case (Some u)
    with assms False obtain v where "v \<in> set (update_first (\<lambda>t. tbl_name t = old) (\<lambda>_. u\<lparr>tbl_name := new\<rparr>) s)"
      "tbl_columns t = tbl_columns v"
      by (auto simp: rename_table_result)
    with set_update_first find_table_Some [OF Some] show ?thesis by fastforce
  qed (use assms False in \<open>auto simp: rename_table_result\<close>)
qed (use assms in \<open>auto simp: rename_table_result\<close>)

lemma create_table_columns:
  "create_table s n cols cs = (Inr (), s') \<Longrightarrow> \<exists>t. s' = s @ [t] \<and> tbl_columns t = cols"
  by (auto simp: create_table_def split: if_splits sum.splits dest: normalize_fields)

interpretation cols: schema_invariant "list_all columns_distinct" keeps_columns_distinct
proof
  fix s a s'
  assume s: "list_all columns_distinct s" and a: "keeps_columns_distinct a"
    and ap: "apply_action s a = (Inr (), s')"
  show "list_all columns_distinct s'"
  proof (cases "single_table a")
    case True
    then obtain n where n: "action_table_name a = Some n" by (metis single_table_form)
    have w: "with_table s n (table_step a) = (Inr (), s')"
      using ap apply_single_table [OF True n] by simp
    then obtain t where t: "find_table s n = Some t"
      and s': "s' = update_first (\<lambda>t. tbl_name t = n) (\<lambda>_. snd (table_step a t)) s"
      using snd_with_table [of s n "table_step a"] by (cases "find_table s n") (auto simp: with_table_def)
    have "columns_distinct (snd (table_step a t))"
      using table_step_columns_distinct [OF True a] find_table_Some [OF t] s n by (auto simp: list_all_iff)
    with s set_update_first show ?thesis unfolding s' by (fastforce simp: list_all_iff)
  next
    case False
    then show ?thesis
    proof (cases a)
      case (CreateTable n cols cs)
      with a ap s show ?thesis by (auto dest!: create_table_columns)
    next
      case (RenameTable old new)
      with ap s show ?thesis
        using rename_table_columns [of _ s old new] by (fastforce simp: list_all_iff)
    next
      case (DeleteTable n)
      with ap s delete_table_result(2) [of s n] show ?thesis by (auto simp: list_all_iff)
    qed (use ap s in auto)
  qed
qed

section \<open>What single operations do\<close>

text \<open>The columns a constraint mentions, on both sides of a foreign key.\<close>

fun mentioned_columns :: "table_constraint \<Rightarrow> column_name set" where
  "mentioned_columns (ForeignKey _ columns _ ref_columns _ _ _) = set columns \<union> set ref_columns"
| "mentioned_columns c = set (constraint_columns c)"

lemma rename_column_refs_back: "to \<notin> set cs \<Longrightarrow> rename_column_refs to from (rename_column_refs from to cs) = cs"
  by (induction cs) (auto simp: rename_column_refs_def)

lemma rename_column_in_constraint_back:
  "to \<notin> mentioned_columns c \<Longrightarrow>
   rename_column_in_constraint to from (rename_column_in_constraint from to c) = c"
  by (cases c) (simp_all add: rename_column_refs_back)

lemma rename_columns_back:
  "to \<notin> col_name ` set cs \<Longrightarrow>
   update_first (\<lambda>c. col_name c = to) (\<lambda>c. c\<lparr>col_name := from\<rparr>)
     (update_first (\<lambda>c. col_name c = from) (\<lambda>c. c\<lparr>col_name := to\<rparr>) cs) = cs"
  by (induction cs) (auto simp: update_first_absent)

lemma update_first_hits:
  "\<exists>c \<in> set cs. P c \<Longrightarrow> \<exists>c \<in> set (update_first P f cs). \<exists>d. c = f d"
  by (induction cs) auto

lemma with_table_twice:
  assumes "find_table s n = Some t" and "f t = (Inr (), t')" and "tbl_name t' = n" and "g t' = (Inr (), t)"
  shows "\<exists>s'. with_table s n f = (Inr (), s') \<and> with_table s' n g = (Inr (), s)"
proof -
  let ?s' = "update_first (\<lambda>t. tbl_name t = n) (\<lambda>_. t') s"
  have "with_table s n f = (Inr (), ?s')"
    using assms by (simp add: with_table_def)
  moreover have "find_table ?s' n = Some t'"
    using assms find_table_update [of t' n s n] by simp
  moreover have "update_first (\<lambda>t. tbl_name t = n) (\<lambda>_. t) ?s' = s"
    using assms(1,3) by (induction s) (auto simp: find_table_Cons)
  ultimately show ?thesis
    using assms(4) by (simp add: with_table_def)
qed

lemma rename_column_back:
  assumes "find_table s n = Some t" and "from \<in> col_name ` set (tbl_columns t)"
    and "to \<notin> col_name ` set (tbl_columns t)"
    and "\<forall>c \<in> set (tbl_constraints t). to \<notin> mentioned_columns c"
  shows "\<exists>s'. rename_column s n from to = (Inr (), s') \<and> rename_column s' n to from = (Inr (), s)"
proof -
  let ?t' = "t\<lparr>tbl_columns := update_first (\<lambda>c. col_name c = from) (\<lambda>c. c\<lparr>col_name := to\<rparr>) (tbl_columns t),
    tbl_constraints := rename_column_in_constraints from to (tbl_constraints t)\<rparr>"
  have "\<exists>c \<in> set (tbl_columns t). col_name c = from" using assms(2) by auto
  then have "list_ex (\<lambda>c. col_name c = to)
      (update_first (\<lambda>c. col_name c = from) (\<lambda>c. c\<lparr>col_name := to\<rparr>) (tbl_columns t))"
    using update_first_hits [of "tbl_columns t" "\<lambda>c. col_name c = from" "\<lambda>c. c\<lparr>col_name := to\<rparr>"]
    by (auto simp: list_ex_iff intro!: bexI)
  moreover have "map (rename_column_in_constraint to from) (map (rename_column_in_constraint from to)
      (tbl_constraints t)) = tbl_constraints t"
    using assms(4) by (auto simp: rename_column_in_constraint_back intro: map_idI)
  ultimately show ?thesis
    unfolding rename_column_def using assms find_table_Some [OF assms(1)] rename_columns_back [OF assms(3), of "from"]
    by (intro with_table_twice [of s n t _ ?t'])
      (auto simp: list_ex_iff rename_column_in_constraints_def)
qed

lemma scrub_constraint_columns:
  "d \<in> set (scrub_constraint column c) \<Longrightarrow>
     constraint_columns d = filter (\<lambda>x. x \<noteq> column) (constraint_columns c) \<and>
     (constraint_columns d = [] \<longrightarrow> (\<exists>n e k. d = Check n e k)) \<and> constraint_kind_of d = constraint_kind_of c"
  by (cases c) (auto simp: scrubbed_def Let_def split: if_splits)

lemma scrub_constraint_unaffected:
  "column \<notin> set (constraint_columns c) \<Longrightarrow> constraint_columns c \<noteq> [] \<or> (\<exists>n e k. c = Check n e k) \<Longrightarrow>
   scrub_constraint column c = [c]"
  by (cases c) (auto simp: scrubbed_def Let_def filter_id_conv filter_empty_conv neq_Nil_conv)

lemma delete_column_effect:
  assumes "delete_column s n column = (Inr (), s')"
  obtains t t' where "find_table s n = Some t" and "find_table s' n = Some t'"
    and "tbl_columns t' = filter (\<lambda>c. col_name c \<noteq> column) (tbl_columns t)"
    and "tbl_constraints t' = drop_column_from_constraints column (tbl_constraints t)"
    and "column \<in> col_name ` set (tbl_columns t)"
proof -
  obtain t where t: "find_table s n = Some t"
    using assms by (auto simp: delete_column_def with_table_def split: option.splits)
  have "\<not> (\<forall>c \<in> set (tbl_columns t). col_name c \<noteq> column)"
    using assms t by (auto simp: delete_column_def with_table_def Let_def filter_length_eq split: if_splits)
  moreover from this have "find_table s' n = Some (t\<lparr>tbl_columns := filter (\<lambda>c. col_name c \<noteq> column) (tbl_columns t),
      tbl_constraints := drop_column_from_constraints column (tbl_constraints t)\<rparr>)"
    using assms t find_table_Some [OF t]
    by (auto simp: delete_column_def with_table_def Let_def filter_length_eq find_table_update split: if_splits)
  ultimately show thesis using t that by auto
qed

lemma drop_column_constraints:
  assumes "d \<in> set (drop_column_from_constraints column cs)"
  shows "column \<notin> set (constraint_columns d)" "constraint_columns d = [] \<Longrightarrow> \<exists>n e k. d = Check n e k"
  using assms scrub_constraint_columns by (fastforce simp: drop_column_from_constraints_def)+

lemma create_delete_back:
  assumes "create_table s n cols cs = (Inr (), s')"
  shows "delete_table s' n = (Inr (), s)"
proof (cases rule: create_table_cases [of s n cols cs])
  case (2 t)
  with assms have s': "s' = s @ [t]" by simp
  from 2(3) have "\<forall>u \<in> set s. tbl_name u \<noteq> n" by blast
  then have "filter (\<lambda>t. tbl_name t \<noteq> n) s = s" by (simp add: filter_id_conv)
  with 2 s' show ?thesis by (simp add: delete_table_def)
qed (use assms in simp)

text \<open>A foreign key of \<open>s\<close> refers to the table \<open>n\<close>.\<close>

definition referenced :: "schema \<Rightarrow> table_name \<Rightarrow> bool" where
  "referenced s n \<longleftrightarrow>
     (\<exists>t \<in> set s. \<exists>name cols rcs od ou k. ForeignKey name cols n rcs od ou k \<in> set (tbl_constraints t))"

lemma rename_ref_table_refers:
  "ForeignKey name cols n rcs od ou k = rename_ref_table from to c \<Longrightarrow> n = from \<Longrightarrow> n = to"
  by (cases c) (auto split: if_splits)

lemma rename_table_no_dangling:
  assumes "rename_table s from to = (Inr (), s')"
  shows "\<not> referenced s' from"
proof -
  have "to \<noteq> from"
    using assms by (auto simp: rename_table_result find_table_None dest: find_table_Some split: if_splits option.splits)
  with assms rename_ref_table_refers show ?thesis
    by (fastforce simp: rename_table_result referenced_def rename_refs_def split: if_splits option.splits)
qed

end
