(* ===== verification/Diff_Schemas.thy ===== *)
theory Diff_Schemas
  imports Diff_Ordering Apply_Action
begin

text \<open>
  Diffing two schema snapshots into a plan (\<open>vespertide-planner/src/diff/\<close>: \<open>columns.rs\<close>,
  \<open>constraints.rs\<close>, \<open>tables.rs\<close>, \<open>mod.rs\<close>) and the next plan of a history (\<open>plan.rs\<close>).
  The functions that push to the action list return the actions they push.
\<close>

type_synonym columns_map = "(string, column_def) omap"
type_synonym tables_map = "(string, table_def) omap"

definition columns_by_name :: "column_def list \<Rightarrow> columns_map" where
  "columns_by_name cols = om_collect (map (\<lambda>c. (col_name c, c)) cols)"

definition tables_by_name :: "table_def list \<Rightarrow> tables_map" where
  "tables_by_name tables = om_collect (map (\<lambda>t. (tbl_name t, t)) tables)"

section \<open>Columns\<close>

fun compute_integer_enum_remapping :: "column_type \<Rightarrow> column_type \<Rightarrow> (int, int) omap" where
  "compute_integer_enum_remapping (Complex (Enum _ (EnumInteger from_items)))
     (Complex (Enum _ (EnumInteger to_items))) =
     (if from_items = to_items then []
      else if from_items = [] \<or> to_items = [] then []
      else
        let to_by_name = om_collect (map (\<lambda>nv. (nv_name nv, nv_value nv)) to_items)
        in om_collect (List.map_filter (\<lambda>from_item.
             case om_lookup to_by_name (nv_name from_item) of
               None \<Rightarrow> None
             | Some new_val \<Rightarrow>
                 if new_val \<noteq> nv_value from_item then Some (nv_value from_item, new_val) else None) from_items))"
| "compute_integer_enum_remapping _ _ = []"

definition diff_integer_enum_remappings ::
  "table_name \<Rightarrow> columns_map \<Rightarrow> columns_map \<Rightarrow> migration_action list" where
  "diff_integer_enum_remappings table from_cols to_cols =
     List.map_filter (\<lambda>(col, to_def).
       case om_lookup from_cols col of
         None \<Rightarrow> None
       | Some from_def \<Rightarrow>
           let mapping = compute_integer_enum_remapping (col_type from_def) (col_type to_def)
           in if mapping = [] then None else Some (RemapEnumValues table col mapping)) to_cols"

definition deleted_column_names :: "columns_map \<Rightarrow> columns_map \<Rightarrow> column_name list" where
  "deleted_column_names from_cols to_cols =
     filter (\<lambda>col. \<not> om_contains to_cols col) (om_keys from_cols)"

definition diff_deleted_columns ::
  "table_name \<Rightarrow> columns_map \<Rightarrow> columns_map \<Rightarrow> migration_action list \<times> column_name list" where
  "diff_deleted_columns table from_cols to_cols =
     (let deleted = deleted_column_names from_cols to_cols
      in (map (DeleteColumn table) deleted, deleted))"

fun needs_enum_rename :: "column_type \<Rightarrow> column_type \<Rightarrow> bool" where
  "needs_enum_rename (Complex (Enum old_name old_values)) (Complex (Enum new_name new_values)) =
     (old_name \<noteq> new_name \<and> \<not> enum_is_integer old_values \<and> \<not> enum_is_integer new_values)"
| "needs_enum_rename _ _ = False"

definition diff_column_types :: "table_name \<Rightarrow> columns_map \<Rightarrow> columns_map \<Rightarrow> migration_action list" where
  "diff_column_types table from_cols to_cols =
     List.map_filter (\<lambda>(col, to_def).
       case om_lookup from_cols col of
         None \<Rightarrow> None
       | Some from_def \<Rightarrow>
           let needs_type_migration = requires_migration (col_type from_def) (col_type to_def);
               needs_rename = (\<not> needs_type_migration \<and>
                 needs_enum_rename (col_type from_def) (col_type to_def))
           in if needs_type_migration \<or> needs_rename
              then Some (ModifyColumnType table col (col_type to_def) None None None) else None) to_cols"

definition diff_column_nullability :: "table_name \<Rightarrow> columns_map \<Rightarrow> columns_map \<Rightarrow> migration_action list" where
  "diff_column_nullability table from_cols to_cols =
     List.map_filter (\<lambda>(col, to_def).
       case om_lookup from_cols col of
         None \<Rightarrow> None
       | Some from_def \<Rightarrow>
           if col_nullable from_def \<noteq> col_nullable to_def
           then Some (ModifyColumnNullable table col (col_nullable to_def) None None) else None) to_cols"

definition diff_column_defaults :: "table_name \<Rightarrow> columns_map \<Rightarrow> columns_map \<Rightarrow> migration_action list" where
  "diff_column_defaults table from_cols to_cols =
     List.map_filter (\<lambda>(col, to_def).
       case om_lookup from_cols col of
         None \<Rightarrow> None
       | Some from_def \<Rightarrow>
           if default_option_eq (col_default from_def) (col_default to_def) then None
           else
             let from_default = map_option to_sql (col_default from_def);
                 to_default = map_option to_sql (col_default to_def)
             in if from_default \<noteq> to_default
                then Some (ModifyColumnDefault table col to_default None) else None) to_cols"

definition diff_column_comments :: "table_name \<Rightarrow> columns_map \<Rightarrow> columns_map \<Rightarrow> migration_action list" where
  "diff_column_comments table from_cols to_cols =
     List.map_filter (\<lambda>(col, to_def).
       case om_lookup from_cols col of
         None \<Rightarrow> None
       | Some from_def \<Rightarrow>
           if col_comment from_def \<noteq> col_comment to_def
           then Some (ModifyColumnComment table col (col_comment to_def)) else None) to_cols"

definition stripped_column :: "column_def \<Rightarrow> column_def" where
  "stripped_column def = \<lparr>col_name = col_name def, col_type = col_type def,
     col_nullable = col_nullable def, col_default = col_default def, col_comment = col_comment def,
     col_primary_key = None, col_unique = None, col_index = None, col_foreign_key = None\<rparr>"

definition diff_added_columns :: "table_name \<Rightarrow> columns_map \<Rightarrow> columns_map \<Rightarrow> migration_action list" where
  "diff_added_columns table from_cols to_cols =
     List.map_filter (\<lambda>(col, def).
       if om_contains from_cols col then None
       else Some (AddColumn table (stripped_column def) None)) to_cols"

definition diff_columns ::
  "table_name \<Rightarrow> table_def \<Rightarrow> table_def \<Rightarrow> migration_action list \<times> column_name list" where
  "diff_columns table from_tbl to_tbl =
     (let from_cols = columns_by_name (tbl_columns from_tbl);
          to_cols = columns_by_name (tbl_columns to_tbl);
          (deletions, deleted_columns) = diff_deleted_columns table from_cols to_cols
      in (deletions @
          diff_column_types table from_cols to_cols @
          diff_integer_enum_remappings table from_cols to_cols @
          diff_column_nullability table from_cols to_cols @
          diff_column_defaults table from_cols to_cols @
          diff_column_comments table from_cols to_cols @
          diff_added_columns table from_cols to_cols,
          deleted_columns))"

section \<open>Constraints\<close>

datatype identity_key =
    IdPrimaryKey
  | IdForeignKey "string list" string "string list"
  | IdCheck string
  | IdUnique "string list"
  | IdIndex "string list"

definition sorted_column_refs :: "string list \<Rightarrow> string list" where
  "sorted_column_refs columns = (if 1 < length columns then sort columns else columns)"

fun constraint_identity_key :: "table_constraint \<Rightarrow> identity_key" where
  "constraint_identity_key (PrimaryKey _ _ _) = IdPrimaryKey"
| "constraint_identity_key (ForeignKey _ columns ref_table ref_columns _ _ _) =
     IdForeignKey (sorted_column_refs columns) ref_table (sorted_column_refs ref_columns)"
| "constraint_identity_key (Check name _ _) = IdCheck name"
| "constraint_identity_key (Unique _ columns _) = IdUnique (sorted_column_refs columns)"
| "constraint_identity_key (Index _ columns) = IdIndex (sorted_column_refs columns)"

text \<open>\<open>to_index.entry(key).or_default().push(ti)\<close> on a map only ever asked by key.\<close>

fun push_candidate :: "'k \<Rightarrow> nat \<Rightarrow> ('k \<times> nat list) list \<Rightarrow> ('k \<times> nat list) list" where
  "push_candidate key ti [] = [(key, [ti])]"
| "push_candidate key ti ((k, tis) # rest) =
     (if k = key then (k, tis @ [ti]) # rest else (k, tis) # push_candidate key ti rest)"

definition build_to_index ::
  "table_constraint list \<Rightarrow> table_constraint list \<Rightarrow> (identity_key \<times> nat list) list" where
  "build_to_index from_constraints to_constraints =
     fold (\<lambda>(ti, c) idx.
       if c \<notin> set from_constraints then push_candidate (constraint_identity_key c) ti idx else idx)
       (enumerated to_constraints) []"

text \<open>
  The pairing loop of \<open>diff_replaced_constraints\<close>: the state is the pairs made so far; the
  used targets are their second components.
\<close>

definition pair_step ::
  "table_constraint list \<Rightarrow> (identity_key \<times> nat list) list \<Rightarrow> nat \<times> table_constraint \<Rightarrow>
     (nat \<times> nat) list \<Rightarrow> (nat \<times> nat) list" where
  "pair_step to_constraints to_index entry pairs =
     (case entry of (fi, from_constraint) \<Rightarrow>
        if from_constraint \<in> set to_constraints then pairs
        else (case map_of to_index (constraint_identity_key from_constraint) of
                None \<Rightarrow> pairs
              | Some candidates \<Rightarrow>
                  (case find (\<lambda>ti. ti \<notin> snd ` set pairs) candidates of
                     None \<Rightarrow> pairs
                   | Some ti \<Rightarrow> pairs @ [(fi, ti)])))"

definition replaced_pairs :: "table_constraint list \<Rightarrow> table_constraint list \<Rightarrow> (nat \<times> nat) list" where
  "replaced_pairs from_constraints to_constraints =
     fold (pair_step to_constraints (build_to_index from_constraints to_constraints))
       (enumerated from_constraints) []"

definition diff_replaced_constraints ::
  "table_name \<Rightarrow> table_constraint list \<Rightarrow> table_constraint list \<Rightarrow>
     migration_action list \<times> nat list \<times> nat list" where
  "diff_replaced_constraints table from_constraints to_constraints =
     (let pairs = replaced_pairs from_constraints to_constraints
      in (map (\<lambda>(fi, ti). ReplaceConstraint table (from_constraints ! fi) (to_constraints ! ti)) pairs,
          map fst pairs, map snd pairs))"

definition diff_removed_constraints ::
  "table_name \<Rightarrow> table_constraint list \<Rightarrow> table_constraint list \<Rightarrow> column_name list \<Rightarrow> nat list \<Rightarrow>
     migration_action list" where
  "diff_removed_constraints table from_constraints to_constraints deleted_columns replaced_from =
     List.map_filter (\<lambda>(fi, from_constraint).
       if from_constraint \<in> set to_constraints \<or> fi \<in> set replaced_from then None
       else
         let columns = constraint_columns from_constraint;
             all_columns_deleted = (columns \<noteq> [] \<and> list_all (\<lambda>col. col \<in> set deleted_columns) columns)
         in if all_columns_deleted then None else Some (RemoveConstraint table from_constraint))
       (enumerated from_constraints)"

definition diff_added_constraints ::
  "table_name \<Rightarrow> table_constraint list \<Rightarrow> table_constraint list \<Rightarrow> nat list \<Rightarrow> migration_action list" where
  "diff_added_constraints table from_constraints to_constraints replaced_to =
     List.map_filter (\<lambda>(ti, to_constraint).
       if to_constraint \<in> set from_constraints \<or> ti \<in> set replaced_to then None
       else Some (AddConstraint table to_constraint)) (enumerated to_constraints)"

definition diff_constraints ::
  "table_name \<Rightarrow> table_def \<Rightarrow> table_def \<Rightarrow> column_name list \<Rightarrow> migration_action list" where
  "diff_constraints table from_tbl to_tbl deleted_columns =
     (let fs = tbl_constraints from_tbl;
          ts = tbl_constraints to_tbl;
          (replacements, replaced_from, replaced_to) = diff_replaced_constraints table fs ts
      in replacements @
         diff_removed_constraints table fs ts deleted_columns replaced_from @
         diff_added_constraints table fs ts replaced_to)"

section \<open>Tables\<close>

definition normalize_schema :: "table_def list \<Rightarrow> planner_error + table_def list" where
  "normalize_schema tables =
     collect_results (map (\<lambda>t. map_sum (\<lambda>e. TableValidation (''Failed to normalize table '' @
       quoted (tbl_name t) @ '': '' @ display_table_validation_error e)) id (normalize t)) tables)"

definition diff_deleted_tables :: "tables_map \<Rightarrow> tables_map \<Rightarrow> migration_action list" where
  "diff_deleted_tables from_map to_map =
     map DeleteTable (filter (\<lambda>name. \<not> om_contains to_map name) (om_keys from_map))"

definition diff_created_tables ::
  "tables_map \<Rightarrow> tables_map \<Rightarrow> tables_map \<Rightarrow> planner_error + migration_action list" where
  "diff_created_tables from_map to_map to_original_map =
     (let new_tables = map snd (filter (\<lambda>(name, _). \<not> om_contains from_map name) to_map)
      in case topological_sort_tables new_tables of
           Inl e \<Rightarrow> Inl e
         | Inr sorted_new_tables \<Rightarrow>
             collect_results (map (\<lambda>tbl.
               case om_lookup to_original_map (tbl_name tbl) of
                 None \<Rightarrow> Inl (TableValidation (''normalized table '' @ quoted (tbl_name tbl) @
                   '' missing original table''))
               | Some original_tbl \<Rightarrow>
                   Inr (CreateTable (tbl_name original_tbl) (tbl_columns original_tbl)
                     (tbl_constraints original_tbl))) sorted_new_tables))"

definition diff_existing_table :: "string \<Rightarrow> tables_map \<Rightarrow> table_def \<Rightarrow> migration_action list" where
  "diff_existing_table name from_map to_tbl =
     (case om_lookup from_map name of
        None \<Rightarrow> []
      | Some from_tbl \<Rightarrow>
          let (column_actions, deleted_columns) = diff_columns name from_tbl to_tbl
          in column_actions @ diff_constraints name from_tbl to_tbl deleted_columns)"

text \<open>
  Below the threshold the table diffs are pushed in turn; from it on they are computed in
  parallel, collected in order and flattened.
\<close>

definition diff_existing_tables :: "nat \<Rightarrow> tables_map \<Rightarrow> tables_map \<Rightarrow> migration_action list" where
  "diff_existing_tables par_threshold from_map to_map =
     (if length to_map < par_threshold
      then fold (\<lambda>(name, to_tbl) actions. actions @ diff_existing_table name from_map to_tbl) to_map []
      else concat (map (\<lambda>(name, to_tbl). diff_existing_table name from_map to_tbl) to_map))"

definition validate_tables :: "table_def list \<Rightarrow> planner_error + unit" where
  "validate_tables tables =
     for_each (\<lambda>t. map_sum (\<lambda>e. TableValidation (display_table_validation_error e)) id
       (validate_unique_column_names t)) tables"

definition diff_schemas ::
  "nat \<Rightarrow> table_def list \<Rightarrow> table_def list \<Rightarrow> planner_error + migration_plan" where
  "diff_schemas par_threshold from to =
     (case validate_tables (from @ to) of
        Inl e \<Rightarrow> Inl e
      | Inr u \<Rightarrow>
     (case normalize_schema from of
        Inl e \<Rightarrow> Inl e
      | Inr from_normalized \<Rightarrow>
     (case normalize_schema to of
        Inl e \<Rightarrow> Inl e
      | Inr to_normalized \<Rightarrow>
          let from_map = tables_by_name from_normalized;
              to_map = tables_by_name to_normalized;
              to_original_map = tables_by_name to;
              deletions = diff_deleted_tables from_map to_map;
              changes = diff_existing_tables par_threshold from_map to_map
          in (case diff_created_tables from_map to_map to_original_map of
               Inl e \<Rightarrow> Inl e
             | Inr creations \<Rightarrow>
                 let actions = sort_delete_tables (deletions @ changes @ creations) from_map;
                     actions' = sort_create_before_add_constraint actions;
                     actions'' = sort_enum_default_dependencies actions' from_map
                 in Inr \<lparr>plan_id = [], plan_comment = None, plan_created_at = None,
                         plan_version = 0, plan_actions = actions''\<rparr>))))"

section \<open>The next plan\<close>

definition saturating_succ :: "32 word \<Rightarrow> 32 word" where
  "saturating_succ w = (if w = - 1 then w else w + 1)"

definition max_version :: "migration_plan list \<Rightarrow> 32 word" where
  "max_version plans =
     (case map plan_version plans of [] \<Rightarrow> 0 | v # vs \<Rightarrow> fold max vs v)"

definition plan_next_migration_with_baseline ::
  "nat \<Rightarrow> table_def list \<Rightarrow> migration_plan list \<Rightarrow> table_def list \<Rightarrow> planner_error + migration_plan" where
  "plan_next_migration_with_baseline par_threshold current applied_plans baseline =
     map_sum id (\<lambda>plan. plan\<lparr>plan_version := saturating_succ (max_version applied_plans)\<rparr>)
       (diff_schemas par_threshold baseline current)"

definition plan_next_migration ::
  "nat \<Rightarrow> table_def list \<Rightarrow> migration_plan list \<Rightarrow> planner_error + migration_plan" where
  "plan_next_migration par_threshold current applied_plans =
     (case schema_from_plans applied_plans of
        Inl e \<Rightarrow> Inl e
      | Inr baseline \<Rightarrow> plan_next_migration_with_baseline par_threshold current applied_plans baseline)"

section \<open>A schema has no difference from itself\<close>

lemma om_collect_lookup_entry: "(k, v) \<in> set (om_collect kvs) \<Longrightarrow> om_lookup (om_collect kvs) k = Some v"
  using om.entries_lookup [OF om_invar_collect [of kvs], of k v] by blast

lemma columns_by_name_entry: "(k, c) \<in> set (columns_by_name cs) \<Longrightarrow> om_lookup (columns_by_name cs) k = Some c"
  unfolding columns_by_name_def by (rule om_collect_lookup_entry)

lemma tables_by_name_entry: "(k, t) \<in> set (tables_by_name ts) \<Longrightarrow> om_lookup (tables_by_name ts) k = Some t"
  unfolding tables_by_name_def by (rule om_collect_lookup_entry)

lemma map_filter_Nil: "(\<And>x. x \<in> set xs \<Longrightarrow> f x = None) \<Longrightarrow> List.map_filter f xs = []"
  by (induction xs) (auto simp: List.map_filter_simps)

lemma compute_remapping_same [simp]: "compute_integer_enum_remapping ty ty = []"
  by (cases "(ty, ty)" rule: compute_integer_enum_remapping.cases) auto

lemma needs_enum_rename_same [simp]: "\<not> needs_enum_rename ty ty"
  by (cases "(ty, ty)" rule: needs_enum_rename.cases) auto

lemma diff_columns_same: "diff_columns n t t = ([], [])"
proof -
  let ?m = "columns_by_name (tbl_columns t)"
  note entry = columns_by_name_entry [of _ _ "tbl_columns t"]
  have "deleted_column_names ?m ?m = []"
    by (auto simp: deleted_column_names_def om_keys_def om_simps filter_empty_conv)
  moreover have "diff_column_types n ?m ?m = []" "diff_integer_enum_remappings n ?m ?m = []"
    "diff_column_nullability n ?m ?m = []" "diff_column_defaults n ?m ?m = []" "diff_column_comments n ?m ?m = []"
    unfolding diff_column_types_def diff_integer_enum_remappings_def diff_column_nullability_def
      diff_column_defaults_def diff_column_comments_def
    by (rule map_filter_Nil; auto dest!: entry)+
  moreover have "diff_added_columns n ?m ?m = []"
    unfolding diff_added_columns_def by (rule map_filter_Nil) (auto simp: om_contains_def dest!: entry)
  ultimately show ?thesis
    by (simp add: diff_columns_def diff_deleted_columns_def)
qed

lemma set_enumerated: "set (enumerated xs) = {(i, xs ! i) |i. i < length xs}"
  by (auto simp: enumerated_def in_set_enumerate_eq)

lemma pair_step_same: "c \<in> set ts \<Longrightarrow> pair_step ts idx (i, c) ps = ps"
  by (simp add: pair_step_def)

lemma fold_fixed: "(\<And>x. x \<in> set xs \<Longrightarrow> f x s = s) \<Longrightarrow> fold f xs s = s"
  by (induction xs) auto

lemma diff_constraints_same_set:
  assumes "set (tbl_constraints t) = set (tbl_constraints u)"
  shows "diff_constraints n t u ds = []"
proof -
  have "replaced_pairs (tbl_constraints t) (tbl_constraints u) = []"
    unfolding replaced_pairs_def
    by (rule fold_fixed) (use assms nth_mem in \<open>fastforce simp: set_enumerated intro!: pair_step_same\<close>)
  moreover have "tbl_constraints t ! i \<in> set (tbl_constraints u)" if "i < length (tbl_constraints t)" for i
    using assms that nth_mem by metis
  then have "diff_removed_constraints n (tbl_constraints t) (tbl_constraints u) ds rs = []" for rs
    unfolding diff_removed_constraints_def by (intro map_filter_Nil) (auto simp: set_enumerated)
  moreover have "tbl_constraints u ! i \<in> set (tbl_constraints t)" if "i < length (tbl_constraints u)" for i
    using assms that nth_mem by metis
  then have "diff_added_constraints n (tbl_constraints t) (tbl_constraints u) rs = []" for rs
    unfolding diff_added_constraints_def by (intro map_filter_Nil) (auto simp: set_enumerated)
  ultimately show ?thesis
    by (simp add: diff_constraints_def diff_replaced_constraints_def Let_def)
qed

lemma diff_existing_same:
  "(name, t) \<in> set (tables_by_name ts) \<Longrightarrow> diff_existing_table name (tables_by_name ts) t = []"
  by (simp add: diff_existing_table_def tables_by_name_entry diff_columns_same diff_constraints_same_set)

text \<open>Both branches of the threshold push the same actions in the same order.\<close>

lemma fold_append_concat: "fold (\<lambda>x ys. ys @ f x) xs acc = acc @ concat (map f xs)"
  by (induction xs arbitrary: acc) auto

lemma diff_existing_tables_concat:
  "diff_existing_tables p fm tm = concat (map (\<lambda>(name, t). diff_existing_table name fm t) tm)"
  using fold_append_concat [of "\<lambda>(name, t). diff_existing_table name fm t" tm "[]"]
  by (simp add: diff_existing_tables_def case_prod_unfold)

lemma sorts_Nil [simp]:
  "sort_delete_tables [] m = []" "sort_create_before_add_constraint [] = []"
  "sort_enum_default_dependencies [] m = []"
  using sort_delete_tables_mset [of "[]" m] sort_enum_mset [of "[]" m]
  by (simp_all add: sort_create_before_add_constraint_def List.map_filter_simps)

definition empty_plan :: migration_plan where
  "empty_plan = \<lparr>plan_id = [], plan_comment = None, plan_created_at = None, plan_version = 0, plan_actions = []\<rparr>"

lemma validate_tables_ok:
  "validate_tables ts = Inr u \<longleftrightarrow> (\<forall>t \<in> set ts. columns_distinct t)"
proof -
  have "map_sum f id r = Inr () \<longleftrightarrow> r = Inr ()" for f :: "table_validation_error \<Rightarrow> planner_error" and r
    by (cases r) auto
  then show ?thesis by (simp add: validate_tables_def for_each_Inr)
qed

lemma normalize_schema_ok:
  "normalize_schema ts = Inr us \<longleftrightarrow> list_all2 (\<lambda>t u. normalize t = Inr u) ts us"
proof -
  have "map_sum f id r = Inr u \<longleftrightarrow> r = Inr u"
    for f :: "table_validation_error \<Rightarrow> planner_error" and r and u :: table_def
    by (cases r) auto
  then show ?thesis by (simp add: normalize_schema_def collect_results_Inr)
qed

lemma diff_schemas_maps:
  assumes "\<forall>t \<in> set f. columns_distinct t" and "\<forall>t \<in> set t. columns_distinct t"
    and "normalize_schema f = Inr fn" and "normalize_schema t = Inr tn"
  shows "diff_schemas p f t =
    (case diff_created_tables (tables_by_name fn) (tables_by_name tn) (tables_by_name t) of
       Inl e \<Rightarrow> Inl e
     | Inr creations \<Rightarrow> Inr (empty_plan\<lparr>plan_actions :=
         sort_enum_default_dependencies (sort_create_before_add_constraint (sort_delete_tables
           (diff_deleted_tables (tables_by_name fn) (tables_by_name tn) @
            concat (map (\<lambda>(name, t). diff_existing_table name (tables_by_name fn) t) (tables_by_name tn)) @ creations)
           (tables_by_name fn))) (tables_by_name fn)\<rparr>))"
proof -
  have "validate_tables (f @ t) = Inr ()" using assms(1,2) by (auto simp: validate_tables_ok)
  with assms(3,4) show ?thesis
    by (simp add: diff_schemas_def Let_def diff_existing_tables_concat empty_plan_def split: sum.splits)
qed

lemma diff_schemas_same:
  assumes "\<forall>t \<in> set s. columns_distinct t" and "normalize_schema s = Inr n"
  shows "diff_schemas p s s = Inr empty_plan"
proof -
  let ?m = "tables_by_name n"
  have "diff_deleted_tables ?m ?m = []"
    by (auto simp: diff_deleted_tables_def om_keys_def om_simps filter_empty_conv)
  moreover have "concat (map (\<lambda>(name, t). diff_existing_table name ?m t) ?m) = []"
    by (auto simp: diff_existing_same)
  moreover have "filter (\<lambda>(name, _). \<not> om_contains ?m name) ?m = []"
    by (auto simp: filter_empty_conv om_contains_def dest!: tables_by_name_entry)
  then have "diff_created_tables ?m ?m (tables_by_name s) = Inr []"
    by (simp add: diff_created_tables_def topological_sort_tables_def)
  ultimately show ?thesis
    unfolding diff_schemas_maps [OF assms(1,1,2,2)] by (simp only: append_Nil sorts_Nil sum.case) (simp add: empty_plan_def)
qed

section \<open>From nothing to a schema\<close>

lemma diff_schemas_no_changes:
  assumes "\<forall>t \<in> set f. columns_distinct t" and "\<forall>t \<in> set t. columns_distinct t"
    and "normalize_schema f = Inr fn" and "normalize_schema t = Inr tn"
    and "tbl_name ` set fn = tbl_name ` set tn"
    and "\<And>name u. (name, u) \<in> set (tables_by_name tn) \<Longrightarrow> diff_existing_table name (tables_by_name fn) u = []"
  shows "diff_schemas p f t = Inr empty_plan"
proof -
  let ?fm = "tables_by_name fn" and ?tm = "tables_by_name tn"
  have keys: "set (map fst ?fm) = tbl_name ` set fn" "set (map fst ?tm) = tbl_name ` set tn"
    unfolding tables_by_name_def by (simp_all only: om_keys_collect) (simp_all add: image_image)
  have "diff_deleted_tables ?fm ?tm = []"
    using keys assms(5) by (auto simp: diff_deleted_tables_def om_keys_def om_simps filter_empty_conv)
  moreover have "concat (map (\<lambda>(name, t). diff_existing_table name ?fm t) ?tm) = []"
    using assms(6) by auto
  moreover have "filter (\<lambda>(name, _). \<not> om_contains ?fm name) ?tm = []"
  proof -
    have "om_contains ?fm name" if "(name, u) \<in> set ?tm" for name u
      using that keys assms(5) unfolding om_contains_iff by (metis fst_conv image_eqI list.set_map)
    then show ?thesis by (auto simp: filter_empty_conv)
  qed
  then have "diff_created_tables ?fm ?tm (tables_by_name t) = Inr []"
    by (simp add: diff_created_tables_def topological_sort_tables_def)
  ultimately show ?thesis
    unfolding diff_schemas_maps [OF assms(1-4)] by (simp only: append_Nil sorts_Nil sum.case) (simp add: empty_plan_def)
qed

text \<open>\<open>CreateTable\<close> carries no description.\<close>

definition undescribed :: "table_def \<Rightarrow> table_def" where
  "undescribed t = t\<lparr>tbl_description := None\<rparr>"

lemma undescribed_fields [simp]:
  "tbl_name (undescribed t) = tbl_name t" "tbl_columns (undescribed t) = tbl_columns t"
  "tbl_constraints (undescribed t) = tbl_constraints t"
  by (simp_all add: undescribed_def)

lemma normalize_undescribed: "normalize (undescribed t) = map_sum id undescribed (normalize t)"
proof -
  have "index_requests (undescribed t) = index_requests t" by (rule index_requests_columns) simp
  moreover have "unique_requests (undescribed t) = unique_requests t" by (rule unique_requests_columns) simp
  moreover have "add_primary_key_constraint (undescribed t) cs = add_primary_key_constraint t cs" for cs
    using collect_primary_key_columns_columns [of "undescribed t" t] by (simp add: add_primary_key_constraint_def)
  ultimately show ?thesis
    by (auto simp: normalize_eq normalized_constraints_def undescribed_def split: sum.splits)
qed

definition creation :: "table_def \<Rightarrow> migration_action" where
  "creation t = CreateTable (tbl_name t) (tbl_columns t) (tbl_constraints t)"

lemma apply_creations:
  assumes "list_all2 (\<lambda>t u. normalize t = Inr u) ts us" and "distinct (map tbl_name s @ map tbl_name ts)"
  shows "apply_actions s (map creation ts) = Inr (s @ map undescribed us)"
  using assms
proof (induction ts us arbitrary: s rule: list_all2_induct)
  case (Cons t ts u us)
  have eq: "\<lparr>tbl_name = tbl_name t, tbl_description = None, tbl_columns = tbl_columns t,
      tbl_constraints = tbl_constraints t\<rparr> = undescribed t"
    by (simp add: undescribed_def)
  have "tbl_name t \<notin> tbl_name ` set s" using Cons.prems by auto
  then have fresh: "\<not> list_ex (\<lambda>v. tbl_name v = tbl_name t) s"
    unfolding list_ex_iff by (metis image_eqI)
  have "tbl_name u = tbl_name t" using Cons(1) normalize_fields by blast
  then have "apply_actions (s @ [undescribed u]) (map creation ts) = Inr ((s @ [undescribed u]) @ map undescribed us)"
    using Cons.prems by (intro Cons.IH) auto
  moreover have "create_table s (tbl_name t) (tbl_columns t) (tbl_constraints t) = (Inr (), s @ [undescribed u])"
    using Cons(1) fresh by (simp add: create_table_def eq normalize_undescribed)
  ultimately show ?case by (simp add: creation_def [of t])
qed simp

lemma sort_delete_none:
  assumes "\<forall>a \<in> set A. \<not> is_delete_table a"
  shows "sort_delete_tables A m = A"
proof -
  obtain B where "sort_delete_tables A m = B" "length B = length A"
    "\<And>i. i < length A \<Longrightarrow> \<not> is_delete_table (A ! i) \<Longrightarrow> B ! i = A ! i"
    by (rule sort_delete_tables_spec [of A m]) (assumption | blast)+
  with assms show ?thesis by (auto intro: nth_equalityI)
qed

lemma sort_create_all:
  assumes "\<forall>a \<in> set A. is_create_table a"
  shows "sort_create_before_add_constraint A = A"
  using assms create_not_refs
  by (auto simp: sort_create_partition Let_def filter_id_conv filter_empty_conv)

lemma sort_enum_none:
  assumes "\<forall>a \<in> set A. \<forall>t c ty f n z. a \<noteq> ModifyColumnType t c ty f n z"
  shows "sort_enum_default_dependencies A m = A"
proof -
  obtain tcs dcs where f: "fold record_change (enumerated A) ([], []) = (tcs, dcs)"
    and len: "length (sort_enum_default_dependencies A m) = length A"
    and sp: "\<And>l. l < length A \<Longrightarrow> sort_enum_default_dependencies A m ! l \<noteq> A ! l \<Longrightarrow>
       \<exists>k i j ty. om_lookup tcs k = Some (i, ty) \<and> enum_default_swap m dcs (k, (i, ty)) = Some (i, j) \<and> (l = i \<or> l = j)"
    by (rule sort_enum_spec [of A m]) (assumption | blast)+
  have "om_lookup tcs k \<noteq> Some (i, ty)" for k i ty
  proof
    assume "om_lookup tcs k = Some (i, ty)"
    then have "om_lookup tcs (fst k, snd k) = Some (i, ty)" by simp
    then obtain f n z where "i < length A" "A ! i = ModifyColumnType (fst k) (snd k) ty f n z"
      using record_change_sound [OF f] by blast
    with assms nth_mem show False by metis
  qed
  with sp len show ?thesis by (intro nth_equalityI) auto
qed

lemma sorts_creations:
  assumes "\<forall>a \<in> set A. is_create_table a"
  shows "sort_enum_default_dependencies (sort_create_before_add_constraint (sort_delete_tables A m)) m' = A"
proof -
  have "\<not> is_delete_table a" "a \<noteq> ModifyColumnType t c ty f n z" if "is_create_table a" for a t c ty f n z
    using that by (cases a; simp add: is_delete_table_def)+
  with assms show ?thesis by (simp add: sort_delete_none sort_create_all sort_enum_none)
qed


lemma normalize_schema_names: "normalize_schema ts = Inr tn \<Longrightarrow> map tbl_name tn = map tbl_name ts"
  unfolding normalize_schema_ok
  by (induction ts tn rule: list_all2_induct) (auto dest: normalize_fields)

lemma normalize_schema_original:
  assumes "normalize_schema ts = Inr tn" and "distinct (map tbl_name ts)" and "r \<in> set tn"
  obtains t where "t \<in> set ts" and "normalize t = Inr r"
    and "om_lookup (tables_by_name ts) (tbl_name r) = Some t"
proof -
  obtain i where i: "i < length tn" "tn ! i = r" using assms(3) by (metis in_set_conv_nth)
  then have "i < length ts" "normalize (ts ! i) = Inr r"
    using assms(1) by (auto simp: normalize_schema_ok list_all2_conv_all_nth)
  moreover from this have "om_lookup (tables_by_name ts) (tbl_name r) = Some (ts ! i)"
    using om_lookup_by_name [OF assms(2), of "ts ! i"] normalize_fields [of "ts ! i" r]
    by (simp add: tables_by_name_def)
  ultimately show thesis using that [of "ts ! i"] nth_mem by blast
qed

lemma tables_by_name_mset:
  assumes "distinct (map tbl_name ts)"
  shows "mset (map snd (tables_by_name ts)) = mset ts"
proof -
  have "distinct (map fst (map (\<lambda>t. (tbl_name t, t)) ts))" using assms by (simp add: comp_def)
  from om_collect_mset [OF this] have "image_mset snd (mset (tables_by_name ts)) = image_mset snd (mset (map (\<lambda>t. (tbl_name t, t)) ts))"
    by (simp add: tables_by_name_def)
  then show ?thesis by (simp add: multiset.map_comp comp_def)
qed

lemma diff_created_from_nothing:
  assumes "normalize_schema ts = Inr tn" and "distinct (map tbl_name ts)"
    and "diff_created_tables [] (tables_by_name tn) (tables_by_name ts) = Inr cs"
  obtains os rs where "cs = map creation os" and "list_all2 (\<lambda>t u. normalize t = Inr u) os rs"
    and "mset rs = mset tn"
proof -
  let ?N = "map snd (tables_by_name tn)"
  have dn: "distinct (map tbl_name tn)" using assms(1,2) normalize_schema_names by metis
  have mN: "mset ?N = mset tn" by (rule tables_by_name_mset [OF dn])
  then have dN: "distinct (map tbl_name ?N)" using dn by (metis mset_eq_imp_distinct_iff mset_map)
  have flt: "filter (\<lambda>(name, _). \<not> om_contains [] name) (tables_by_name tn) = tables_by_name tn"
    by (auto simp: filter_id_conv om_contains_def om_lookup_def)
  obtain rs where rs: "topological_sort_tables ?N = Inr rs"
    and c: "collect_results (map (\<lambda>tbl. case om_lookup (tables_by_name ts) (tbl_name tbl) of
        None \<Rightarrow> Inl (TableValidation (''normalized table '' @ quoted (tbl_name tbl) @ '' missing original table''))
      | Some o' \<Rightarrow> Inr (CreateTable (tbl_name o') (tbl_columns o') (tbl_constraints o'))) rs) = Inr cs"
    using assms(3) unfolding diff_created_tables_def Let_def flt by (auto split: sum.splits)
  have m: "mset rs = mset tn" using topological_sort_ok(1) [OF dN rs] mN by simp
  have orig: "\<exists>t. normalize t = Inr r \<and> om_lookup (tables_by_name ts) (tbl_name r) = Some t" if "r \<in> set rs" for r
    using normalize_schema_original [OF assms(1,2), of r] that m by (metis set_mset_mset)
  define os where "os = map (\<lambda>r. the (om_lookup (tables_by_name ts) (tbl_name r))) rs"
  have "list_all2 (\<lambda>t u. normalize t = Inr u) os rs"
    by (auto simp: os_def list.rel_map intro!: list.rel_refl_strong dest!: orig)
  moreover have "cs = map creation os"
    using c orig by (fastforce simp: os_def collect_results_Inr list_all2_conv_all_nth creation_def
        intro!: nth_equalityI split: option.splits)
  ultimately show thesis using that m by blast
qed

lemma diff_from_nothing:
  assumes "distinct (map tbl_name ts)" and "diff_schemas p [] ts = Inr plan"
  obtains tn rs where "normalize_schema ts = Inr tn" and "mset rs = mset tn"
    and "\<forall>t \<in> set ts. columns_distinct t"
    and "apply_actions [] (plan_actions plan) = Inr (map undescribed rs)"
proof -
  have cd: "\<forall>t \<in> set ts. columns_distinct t"
  proof -
    obtain u where "validate_tables ts = Inr u"
      using assms(2) by (cases "validate_tables ts") (simp_all add: diff_schemas_def)
    then show ?thesis by (simp add: validate_tables_ok)
  qed
  then have v: "validate_tables ts = Inr ()" by (simp add: validate_tables_ok)
  have nf: "normalize_schema [] = Inr []" by (simp add: normalize_schema_def)
  obtain tn where tn: "normalize_schema ts = Inr tn"
    using assms(2) v nf by (cases "normalize_schema ts") (simp_all add: diff_schemas_def)
  have e: "tables_by_name [] = []" by (simp add: tables_by_name_def om_collect_def)
  have none: "diff_deleted_tables [] m = []" "diff_existing_table n [] t = []" for m n t
    by (simp_all add: diff_deleted_tables_def om_keys_def diff_existing_table_def om_lookup_def)
  have c0: "concat (map (\<lambda>(name, t). diff_existing_table name [] t) (tables_by_name tn)) = []"
    by (auto simp: none(2))
  have d0: "\<forall>t \<in> set ([] :: table_def list). columns_distinct t" by simp
  obtain cs where
    cs: "diff_created_tables [] (tables_by_name tn) (tables_by_name ts) = Inr cs"
    and plan: "plan_actions plan = sort_enum_default_dependencies (sort_create_before_add_constraint
        (sort_delete_tables cs [])) []"
    using assms(2) unfolding diff_schemas_maps [OF d0 cd nf tn] e none(1) c0 append_Nil
    by (auto split: sum.splits)
  obtain os rs where os: "cs = map creation os" "list_all2 (\<lambda>t u. normalize t = Inr u) os rs" "mset rs = mset tn"
    by (rule diff_created_from_nothing [OF tn assms(1) cs])
  have "plan_actions plan = map creation os"
    unfolding plan os(1) by (rule sorts_creations) (auto simp: creation_def)
  moreover have "map tbl_name rs = map tbl_name os"
    using os(2) by (induction os rs rule: list_all2_induct) (auto dest: normalize_fields)
  moreover have "distinct (map tbl_name rs)"
    using os(3) assms(1) normalize_schema_names [OF tn] by (metis mset_eq_imp_distinct_iff mset_map)
  ultimately have "apply_actions [] (plan_actions plan) = Inr ([] @ map undescribed rs)"
    using apply_creations [OF os(2), of "[]"] by simp
  with that [OF tn os(3) cd] show thesis by simp
qed


lemma undescribed_normalized:
  assumes "normalize t = Inr u"
  shows "normalize (undescribed u) = Inr (undescribed u)"
  using normalize_twice [OF assms] by (simp add: normalize_undescribed)

lemma diff_columns_columns: "tbl_columns t = tbl_columns u \<Longrightarrow> diff_columns n t u = ([], [])"
  using diff_columns_same [of n t] by (simp add: diff_columns_def)

lemma tables_by_name_lookup:
  "distinct (map tbl_name ts) \<Longrightarrow> t \<in> set ts \<Longrightarrow> om_lookup (tables_by_name ts) (tbl_name t) = Some t"
  unfolding tables_by_name_def by (rule om_lookup_by_name)

lemma tables_by_name_set: "(n, t) \<in> set (tables_by_name ts) \<Longrightarrow> t \<in> set ts \<and> n = tbl_name t"
  by (auto simp: tables_by_name_def om_collect_entry dest!: map_of_SomeD)

lemma diff_from_nothing_again:
  assumes "distinct (map tbl_name ts)" and "diff_schemas p [] ts = Inr plan"
  obtains tn s where "normalize_schema ts = Inr tn" and "apply_actions [] (plan_actions plan) = Inr s"
    and "mset s = image_mset undescribed (mset tn)" and "diff_schemas q s ts = Inr empty_plan"
proof -
  obtain tn rs where tn: "normalize_schema ts = Inr tn" and m: "mset rs = mset tn"
    and cd: "\<forall>t \<in> set ts. columns_distinct t"
    and ap: "apply_actions [] (plan_actions plan) = Inr (map undescribed rs)"
    by (rule diff_from_nothing [OF assms])
  let ?s = "map undescribed rs"
  have set_rs: "set rs = set tn" using m by (rule mset_eq_setD)
  have orig: "\<exists>t \<in> set ts. normalize t = Inr r" if "r \<in> set rs" for r
    using normalize_schema_original [OF tn assms(1), of r] that set_rs by metis
  have ns: "normalize_schema ?s = Inr ?s"
    by (auto simp: normalize_schema_ok list.rel_map intro!: list.rel_refl_strong
        dest!: orig undescribed_normalized)
  have cs: "\<forall>t \<in> set ?s. columns_distinct t"
    using orig cd by (fastforce dest: normalize_fields)
  have dn: "distinct (map tbl_name tn)" using assms(1) normalize_schema_names [OF tn] by simp
  then have ds: "distinct (map tbl_name ?s)"
    using m by (simp add: comp_def) (metis mset_eq_imp_distinct_iff mset_map)
  have "diff_existing_table name (tables_by_name ?s) u = []" if "(name, u) \<in> set (tables_by_name tn)" for name u
  proof -
    have u: "u \<in> set rs" "name = tbl_name u" using tables_by_name_set [OF that] set_rs by auto
    then have "om_lookup (tables_by_name ?s) name = Some (undescribed u)"
      using tables_by_name_lookup [OF ds, of "undescribed u"] by simp
    then show ?thesis
      by (simp add: diff_existing_table_def diff_columns_columns diff_constraints_same_set)
  qed
  then have "diff_schemas q ?s ts = Inr empty_plan"
    using set_rs by (intro diff_schemas_no_changes [OF cs cd ns tn]) (auto simp: image_image)
  with tn ap m that show thesis by simp
qed

section \<open>Versions\<close>

lemma fold_max_upper:
  fixes v :: "'a::linorder"
  shows "v \<le> fold max vs v \<and> (\<forall>w \<in> set vs. w \<le> fold max vs v)"
proof (induction vs arbitrary: v)
  case (Cons w vs)
  from Cons [of "max w v"] show ?case by (auto simp: max_def split: if_splits)
qed simp

lemma max_version_upper: "q \<in> set plans \<Longrightarrow> plan_version q \<le> max_version plans"
  using fold_max_upper [of "plan_version (hd plans)" "map plan_version (tl plans)"]
  by (cases plans) (auto simp: max_version_def)

lemma saturating_succ_less: "w \<noteq> - 1 \<Longrightarrow> w < saturating_succ w"
  using inc_less_eq_triv_imp [of w] by (auto simp: saturating_succ_def simp flip: not_le)

lemma next_version:
  assumes "plan_next_migration p current plans = Inr plan" and "q \<in> set plans"
  shows "plan_version q < plan_version plan \<or> plan_version q = - 1 \<and> plan_version plan = - 1"
proof -
  have v: "plan_version plan = saturating_succ (max_version plans)"
    using assms(1) by (auto simp: plan_next_migration_def plan_next_migration_with_baseline_def
        map_sum_def split: sum.splits)
  have le: "plan_version q \<le> max_version plans" using assms(2) by (rule max_version_upper)
  show ?thesis
  proof (cases "max_version plans = - 1")
    case True
    then show ?thesis using v by (metis saturating_succ_def word_order.not_eq_extremum)
  next
    case False
    then show ?thesis using v le saturating_succ_less [OF False] by auto
  qed
qed

lemma replay_append:
  "replay_plans s (ps @ qs) = (case replay_plans s ps of Inl e \<Rightarrow> Inl e | Inr s' \<Rightarrow> replay_plans s' qs)"
  by (induction ps arbitrary: s) (auto split: sum.splits)

lemma schema_from_plans_snoc:
  "schema_from_plans (ps @ [p]) =
     (case schema_from_plans ps of Inl e \<Rightarrow> Inl e | Inr s \<Rightarrow> apply_actions s (plan_actions p))"
  by (auto simp: schema_from_plans_def replay_append split: sum.splits)

end
