(* ===== verification/Validate_Schema.thy ===== *)
theory Validate_Schema
  imports Check_Analysis Diff_Schemas
begin

text \<open>
  Schema validation (\<open>vespertide-planner/src/validate/\<close>: \<open>enums.rs\<close>, \<open>foreign_keys.rs\<close>,
  \<open>schema.rs\<close>), and what it means to pass it: the rules of a valid table and a valid schema are stated
  on their own (\<open>column_ok\<close>, \<open>constraint_ok\<close>, \<open>table_ok\<close>, \<open>schema_ok\<close>) and the code accepts exactly
  the schemas that obey them.
\<close>

section \<open>Columns\<close>

definition extract_enum_value :: "string \<Rightarrow> string option" where
  "extract_enum_value value =
     (let trimmed = trim value in
      if trimmed = [] then None
      else if CHR ''('' \<in> set trimmed \<or> CHR '')'' \<in> set trimmed \<or>
              eq_ignore_ascii_case trimmed ''null'' \<or>
              eq_ignore_ascii_case trimmed ''current_timestamp'' \<or>
              eq_ignore_ascii_case trimmed ''now'' then None
      else if (hd trimmed = CHR 0x27 \<and> last trimmed = CHR 0x27 \<or>
               hd trimmed = CHR 0x22 \<and> last trimmed = CHR 0x22) \<and> 2 \<le> length trimmed
           then Some (butlast (tl trimmed))
      else Some trimmed)"

definition validate_enum_value ::
  "string \<Rightarrow> string \<Rightarrow> enum_values \<Rightarrow> string \<Rightarrow> string \<Rightarrow> string \<Rightarrow> planner_error + unit" where
  "validate_enum_value value enum_name vs table_name column_name value_type =
     (case extract_enum_value value of
        None \<Rightarrow> Inr ()
      | Some extracted \<Rightarrow>
          if \<not> contains_value vs extracted
          then Inl (InvalidEnumDefault
            \<lparr>ied_enum_name = enum_name, ied_table_name = table_name, ied_column_name = column_name,
             ied_value_type = value_type, ied_value = extracted,
             ied_allowed = variant_names_joined vs '', ''\<rparr>)
          else Inr ())"

definition validate_enum_variants :: "string \<Rightarrow> string \<Rightarrow> string \<Rightarrow> enum_values \<Rightarrow> planner_error + unit" where
  "validate_enum_variants table_name column name vs =
     (case vs of
        EnumString variants \<Rightarrow>
          (case first_dup [] variants of
             Some variant \<Rightarrow> Inl (DuplicateEnumVariantName name table_name column variant)
           | None \<Rightarrow> Inr ())
      | EnumInteger variants \<Rightarrow>
          (case first_dup [] (map nv_name variants) of
             Some variant \<Rightarrow> Inl (DuplicateEnumVariantName name table_name column variant)
           | None \<Rightarrow>
               (case find (\<lambda>v. \<not> in_i32 (nv_value v)) variants of
                  Some v \<Rightarrow> Inl (TableValidation (''integer enum value '' @ int_to_string (nv_value v) @
                    '' is outside i32 range for enum '' @ quoted name @ '' in column '' @
                    quoted (table_name @ ''.'' @ column)))
                | None \<Rightarrow>
                    (case first_dup [] (map nv_value variants) of
                       Some v \<Rightarrow> Inl (DuplicateEnumValue name table_name column v)
                     | None \<Rightarrow> Inr ()))))"

definition validate_column :: "column_def \<Rightarrow> string \<Rightarrow> planner_error + unit" where
  "validate_column column table_name =
     (case col_type column of
        Complex (Numeric precision scale) \<Rightarrow>
          if scale > precision
          then Inl (TableValidation (''numeric column '' @ quoted (table_name @ ''.'' @ col_name column) @
            '' scale ('' @ nat_to_string scale @ '') must be <= precision ('' @ nat_to_string precision @ '')''))
          else Inr ()
      | Complex (Enum name vs) \<Rightarrow>
          (case validate_enum_variants table_name (col_name column) name vs of
             Inl e \<Rightarrow> Inl e
           | Inr _ \<Rightarrow>
               (case col_default column of
                  None \<Rightarrow> Inr ()
                | Some dflt \<Rightarrow> validate_enum_value (to_sql dflt) name vs table_name (col_name column) ''default''))
      | _ \<Rightarrow> Inr ())"

section \<open>Constraints\<close>

text \<open>The map from the name of each table to its column names.\<close>

type_synonym columns_map = "(string, string list) omap"

definition table_columns_map :: "table_def list \<Rightarrow> columns_map" where
  "table_columns_map schema = om_collect (map (\<lambda>t. (tbl_name t, map col_name (tbl_columns t))) schema)"

definition validate_foreign_key_constraint ::
  "string \<Rightarrow> string list \<Rightarrow> columns_map \<Rightarrow> string list \<Rightarrow> string \<Rightarrow> string list \<Rightarrow> planner_error + unit" where
  "validate_foreign_key_constraint table_name table_columns table_map columns ref_table ref_columns =
     (if columns = [] then Inl (EmptyConstraintColumns table_name ''ForeignKey'')
      else if ref_columns = [] then Inl (EmptyConstraintColumns ref_table ''ForeignKey (ref_columns)'')
      else
        (case om_lookup table_map ref_table of
           None \<Rightarrow> Inl (ForeignKeyTableNotFound table_name (join '', '' columns) ref_table)
         | Some ref_table_columns \<Rightarrow>
             (case find (\<lambda>col. col \<notin> set table_columns) columns of
                Some col \<Rightarrow> Inl (ConstraintColumnNotFound table_name ''ForeignKey'' col)
              | None \<Rightarrow>
                  (case find (\<lambda>ref_col. ref_col \<notin> set ref_table_columns) ref_columns of
                     Some ref_col \<Rightarrow>
                       Inl (ForeignKeyColumnNotFound table_name (join '', '' columns) ref_table ref_col)
                   | None \<Rightarrow>
                       if length columns \<noteq> length ref_columns
                       then Inl (ForeignKeyColumnNotFound table_name
                         (''column count mismatch: '' @ nat_to_string (length columns) @ '' != '' @
                          nat_to_string (length ref_columns)) ref_table [])
                       else Inr ()))))"

definition validate_named_constraint_columns ::
  "string \<Rightarrow> string \<Rightarrow> string list \<Rightarrow> string list \<Rightarrow> planner_error + unit" where
  "validate_named_constraint_columns table_name label columns table_columns =
     (if columns = [] then Inl (EmptyConstraintColumns table_name label)
      else
        (case find (\<lambda>col. col \<notin> set table_columns) columns of
           Some col \<Rightarrow> Inl (ConstraintColumnNotFound table_name label col)
         | None \<Rightarrow> Inr ()))"

fun validate_constraint ::
  "table_constraint \<Rightarrow> string \<Rightarrow> string list \<Rightarrow> columns_map \<Rightarrow> planner_error + unit" where
  "validate_constraint (PrimaryKey _ columns _) table_name table_columns table_map =
     validate_named_constraint_columns table_name ''PrimaryKey'' columns table_columns"
| "validate_constraint (Unique _ columns _) table_name table_columns table_map =
     validate_named_constraint_columns table_name ''Unique'' columns table_columns"
| "validate_constraint (ForeignKey _ columns ref_table ref_columns _ _ _) table_name table_columns table_map =
     validate_foreign_key_constraint table_name table_columns table_map columns ref_table ref_columns"
| "validate_constraint (Check _ _ _) table_name table_columns table_map = Inr ()"
| "validate_constraint (Index name columns) table_name table_columns table_map =
     (let index_name = (case name of None \<Rightarrow> ''(unnamed)'' | Some n \<Rightarrow> n)
      in if columns = [] then Inl (EmptyConstraintColumns table_name (''Index('' @ index_name @ '')''))
         else (case find (\<lambda>col. col \<notin> set table_columns) columns of
                 Some col \<Rightarrow> Inl (IndexColumnNotFound table_name index_name col)
               | None \<Rightarrow> Inr ()))"

section \<open>Tables\<close>

definition pk_columns_of :: "table_def \<Rightarrow> string list" where
  "pk_columns_of table =
     concat (map (\<lambda>c. case c of PrimaryKey _ columns _ \<Rightarrow> columns | _ \<Rightarrow> []) (tbl_constraints table)) @
     map col_name (filter (\<lambda>c. col_primary_key c \<noteq> None) (tbl_columns table))"

definition check_has_primary_key :: "table_def \<Rightarrow> planner_error + unit" where
  "check_has_primary_key table =
     (let has_table_pk = list_ex is_primary_key (tbl_constraints table);
          has_inline_pk = list_ex (\<lambda>c. col_primary_key c \<noteq> None) (tbl_columns table)
      in if \<not> has_table_pk \<and> \<not> has_inline_pk then Inl (MissingPrimaryKey (tbl_name table)) else Inr ())"

definition check_pk_not_null :: "table_def \<Rightarrow> planner_error + unit" where
  "check_pk_not_null table =
     for_each (\<lambda>column.
       if col_name column \<in> set (pk_columns_of table) \<and> col_nullable column
       then Inl (PrimaryKeyColumnNullable (tbl_name table) (col_name column)) else Inr ())
     (tbl_columns table)"

definition auto_increment_error :: "table_def \<Rightarrow> string \<Rightarrow> column_def \<Rightarrow> planner_error + unit" where
  "auto_increment_error table name column =
     (if \<not> supports_auto_increment (col_type column)
      then Inl (InvalidAutoIncrement (tbl_name table) name (display_label (col_type column))) else Inr ())"

definition check_pk_auto_increment :: "table_def \<Rightarrow> planner_error + unit" where
  "check_pk_auto_increment table =
     for_each (\<lambda>constraint. case constraint of
         PrimaryKey True columns _ \<Rightarrow>
           for_each (\<lambda>name. case find (\<lambda>c. col_name c = name) (tbl_columns table) of
               Some column \<Rightarrow> auto_increment_error table name column
             | None \<Rightarrow> Inr ()) columns
       | _ \<Rightarrow> Inr ()) (tbl_constraints table)"

fun pk_syntax_auto_increment :: "primary_key_syntax \<Rightarrow> bool" where
  "pk_syntax_auto_increment (PkBool _) = False"
| "pk_syntax_auto_increment (PkObject d) = pk_auto_increment d"

definition check_inline_auto_increment :: "table_def \<Rightarrow> planner_error + unit" where
  "check_inline_auto_increment table =
     for_each (\<lambda>column. case col_primary_key column of
         Some pk_syntax \<Rightarrow>
           if pk_syntax_auto_increment pk_syntax then auto_increment_error table (col_name column) column else Inr ()
       | None \<Rightarrow> Inr ()) (tbl_columns table)"

definition validate_table :: "table_def \<Rightarrow> columns_map \<Rightarrow> planner_error + unit" where
  "validate_table table table_map =
     for_each (\<lambda>step. step)
       [check_has_primary_key table,
        check_pk_not_null table,
        check_pk_auto_increment table,
        check_inline_auto_increment table,
        for_each (\<lambda>column. validate_column column (tbl_name table)) (tbl_columns table),
        for_each (\<lambda>constraint.
          validate_constraint constraint (tbl_name table) (map col_name (tbl_columns table)) table_map)
          (tbl_constraints table)]"

definition validate_table_entry :: "table_def \<Rightarrow> columns_map \<Rightarrow> planner_error + unit" where
  "validate_table_entry table table_map =
     (case validate_unique_column_names table of
        Inl e \<Rightarrow> Inl (TableValidation (display_table_validation_error e))
      | Inr _ \<Rightarrow>
          for_each (\<lambda>step. step)
            [validate_table table table_map,
             validate_default_vs_check table,
             validate_between_boundary_order table,
             validate_self_contradiction table])"

section \<open>Schemas\<close>

fun duplicate_names :: "string list \<Rightarrow> string list \<Rightarrow> string list" where
  "duplicate_names seen [] = []"
| "duplicate_names seen (n # ns) =
     (if n \<in> set seen then n # duplicate_names seen ns else duplicate_names (n # seen) ns)"

definition err_of :: "'e + 'a \<Rightarrow> 'e option" where
  "err_of r = (case r of Inl e \<Rightarrow> Some e | Inr _ \<Rightarrow> None)"

definition find_schema_violations :: "table_def list \<Rightarrow> planner_error list" where
  "find_schema_violations schema =
     (let table_map = table_columns_map schema
      in map DuplicateTableName (duplicate_names [] (map tbl_name schema)) @
         List.map_filter (\<lambda>table. err_of (validate_table_entry table table_map)) schema)"

text \<open>The contract of the batch errors: no error, the single error as it is, or all of them.\<close>

definition batch_errors :: "planner_error list \<Rightarrow> planner_error + unit" where
  "batch_errors violations =
     (case violations of [] \<Rightarrow> Inr () | [v] \<Rightarrow> Inl v | _ \<Rightarrow> Inl (Multiple violations))"

definition validate_schema :: "table_def list \<Rightarrow> planner_error + unit" where
  "validate_schema schema = batch_errors (find_schema_violations schema)"

section \<open>Foreign keys without an index\<close>

record missing_fk_supporting_index =
  mfi_table :: string
  mfi_constraint_name :: "string option"
  mfi_columns :: "string list"
  mfi_ref_table :: string
  mfi_ref_columns :: "string list"
  mfi_suggested_index_name :: string

fun covering_columns :: "table_constraint \<Rightarrow> string list option" where
  "covering_columns (PrimaryKey _ columns _) = Some columns"
| "covering_columns (Unique _ columns _) = Some columns"
| "covering_columns (Index _ columns) = Some columns"
| "covering_columns _ = None"

definition has_covering_index :: "string list list \<Rightarrow> string list \<Rightarrow> bool" where
  "has_covering_index covering_prefixes fk_columns =
     list_ex (\<lambda>idx_cols. take (length fk_columns) idx_cols = fk_columns) covering_prefixes"

definition build_suggested_index_name :: "string \<Rightarrow> string list \<Rightarrow> string" where
  "build_suggested_index_name table columns = ''ix_'' @ table @ ''__'' @ join_column_names columns ''_''"

definition missing_fk_supporting_indexes_for_table :: "table_def \<Rightarrow> missing_fk_supporting_index list" where
  "missing_fk_supporting_indexes_for_table table =
     (let covering_prefixes = List.map_filter covering_columns (tbl_constraints table)
      in List.map_filter (\<lambda>c. case c of
             ForeignKey name columns ref_table ref_columns _ _ _ \<Rightarrow>
               if columns \<noteq> [] \<and> \<not> has_covering_index covering_prefixes columns
               then Some \<lparr>mfi_table = tbl_name table, mfi_constraint_name = name, mfi_columns = columns,
                 mfi_ref_table = ref_table, mfi_ref_columns = ref_columns,
                 mfi_suggested_index_name = build_suggested_index_name (tbl_name table) columns\<rparr>
               else None
           | _ \<Rightarrow> None) (tbl_constraints table))"

definition find_missing_fk_supporting_indexes :: "table_def list \<Rightarrow> missing_fk_supporting_index list" where
  "find_missing_fk_supporting_indexes schema = concat (map missing_fk_supporting_indexes_for_table schema)"

section \<open>The rules of a valid schema\<close>

definition enum_ok :: "enum_values \<Rightarrow> bool" where
  "enum_ok vs \<longleftrightarrow> distinct (enum_names vs) \<and>
     (case vs of EnumInteger ns \<Rightarrow> distinct (map nv_value ns) \<and> (\<forall>v \<in> set ns. in_i32 (nv_value v)) | _ \<Rightarrow> True)"

definition column_ok :: "column_def \<Rightarrow> bool" where
  "column_ok c \<longleftrightarrow>
     (\<forall>p s. col_type c = Complex (Numeric p s) \<longrightarrow> s \<le> p) \<and>
     (\<forall>n vs. col_type c = Complex (Enum n vs) \<longrightarrow> enum_ok vs \<and>
       (\<forall>d v. col_default c = Some d \<longrightarrow> extract_enum_value (to_sql d) = Some v \<longrightarrow> contains_value vs v))"

definition names_of :: "table_def \<Rightarrow> string set" where
  "names_of t = col_name ` set (tbl_columns t)"

text \<open>The columns of a constraint exist; those a foreign key refers to exist in the table it names.\<close>

definition constraint_ok :: "table_def list \<Rightarrow> table_def \<Rightarrow> table_constraint \<Rightarrow> bool" where
  "constraint_ok schema t k \<longleftrightarrow>
     (case k of Check _ _ _ \<Rightarrow> True | _ \<Rightarrow> constraint_columns k \<noteq> [] \<and> set (constraint_columns k) \<subseteq> names_of t) \<and>
     (case k of
        ForeignKey _ columns ref_table ref_columns _ _ _ \<Rightarrow>
          length columns = length ref_columns \<and>
          (\<exists>u \<in> set schema. tbl_name u = ref_table \<and> set ref_columns \<subseteq> names_of u)
      | _ \<Rightarrow> True)"

definition primary_key_ok :: "table_def \<Rightarrow> bool" where
  "primary_key_ok t \<longleftrightarrow>
     (Bex (set (tbl_constraints t)) is_primary_key \<or> (\<exists>c \<in> set (tbl_columns t). col_primary_key c \<noteq> None)) \<and>
     (\<forall>c \<in> set (tbl_columns t). col_name c \<in> set (pk_columns_of t) \<longrightarrow> \<not> col_nullable c) \<and>
     (\<forall>cols s c. PrimaryKey True cols s \<in> set (tbl_constraints t) \<longrightarrow> c \<in> set (tbl_columns t) \<longrightarrow>
        col_name c \<in> set cols \<longrightarrow> supports_auto_increment (col_type c)) \<and>
     (\<forall>c \<in> set (tbl_columns t). \<forall>p. col_primary_key c = Some p \<longrightarrow> pk_syntax_auto_increment p \<longrightarrow>
        supports_auto_increment (col_type c))"

definition checks_ok :: "table_def \<Rightarrow> bool" where
  "checks_ok t \<longleftrightarrow>
     (\<forall>n s k. Check n s k \<in> set (tbl_constraints t) \<longrightarrow>
        collect_reversed_between (parse s) = [] \<and> find_contradiction (parse s) = None \<and>
        (\<forall>c \<in> set (tbl_columns t). \<forall>d simple. col_default c = Some d \<longrightarrow>
           extract_simple_column_check (parse s) (col_name c) = Some simple \<longrightarrow> check_satisfied simple d))"

definition table_ok :: "table_def list \<Rightarrow> table_def \<Rightarrow> bool" where
  "table_ok schema t \<longleftrightarrow>
     distinct (map col_name (tbl_columns t)) \<and> primary_key_ok t \<and>
     (\<forall>c \<in> set (tbl_columns t). column_ok c) \<and>
     (\<forall>k \<in> set (tbl_constraints t). constraint_ok schema t k) \<and> checks_ok t"

definition schema_ok :: "table_def list \<Rightarrow> bool" where
  "schema_ok schema \<longleftrightarrow> distinct (map tbl_name schema) \<and> (\<forall>t \<in> set schema. table_ok schema t)"

section \<open>Validation accepts exactly the valid schemas\<close>

lemma case_find_Inr:
  "(case find P xs of Some x \<Rightarrow> Inl (f x) | None \<Rightarrow> r) = Inr u \<longleftrightarrow> (\<forall>x \<in> set xs. \<not> P x) \<and> r = Inr u"
  by (induction xs) auto

lemma case_dup_Inr:
  "(case first_dup [] xs of Some x \<Rightarrow> Inl (f x) | None \<Rightarrow> r) = Inr u \<longleftrightarrow> distinct xs \<and> r = Inr u"
  using first_dup_None [of "[]" xs] by (cases "first_dup [] xs") auto

lemma validate_enum_variants_ok: "validate_enum_variants t c n vs = Inr u \<longleftrightarrow> enum_ok vs"
  by (cases vs) (auto simp: validate_enum_variants_def enum_ok_def case_find_Inr case_dup_Inr cong: option.case_cong)

lemma validate_enum_value_ok:
  "validate_enum_value x n vs t c k = Inr u \<longleftrightarrow> (\<forall>v. extract_enum_value x = Some v \<longrightarrow> contains_value vs v)"
  by (auto simp: validate_enum_value_def split: option.splits)

lemma case_sum_Inr: "(case r of Inl e \<Rightarrow> Inl e | Inr x \<Rightarrow> s) = Inr u \<longleftrightarrow> (\<exists>v. r = Inr v) \<and> s = Inr u"
  by (cases r) auto

lemma validate_column_ok: "validate_column c t = Inr u \<longleftrightarrow> column_ok c"
  by (auto simp: validate_column_def column_ok_def case_sum_Inr validate_enum_variants_ok validate_enum_value_ok
      split: column_type.splits complex_column_type.splits option.splits)

lemma lookup_table_columns_map:
  assumes "distinct (map tbl_name schema)"
  shows "om_lookup (table_columns_map schema) n = Some cs \<longleftrightarrow>
    (\<exists>t \<in> set schema. tbl_name t = n \<and> cs = map col_name (tbl_columns t))"
proof -
  let ?kvs = "map (\<lambda>t. (tbl_name t, map col_name (tbl_columns t))) schema"
  have "distinct (map fst (rev ?kvs))" using assms by (simp add: rev_map [symmetric] comp_def)
  then have "map_of (rev ?kvs) n = Some cs \<longleftrightarrow> (n, cs) \<in> set ?kvs" by simp
  then show ?thesis by (auto simp: table_columns_map_def om_simps)
qed

lemma validate_named_ok:
  "validate_named_constraint_columns t l cols tcs = Inr u \<longleftrightarrow> cols \<noteq> [] \<and> set cols \<subseteq> set tcs"
  by (auto simp: validate_named_constraint_columns_def case_find_Inr)

lemma validate_foreign_key_ok:
  "validate_foreign_key_constraint t tcs m cols r rcols = Inr u \<longleftrightarrow>
    cols \<noteq> [] \<and> set cols \<subseteq> set tcs \<and> length cols = length rcols \<and> (\<exists>cs. om_lookup m r = Some cs \<and> set rcols \<subseteq> set cs)"
  by (auto simp: validate_foreign_key_constraint_def case_find_Inr split: option.splits)

lemma validate_constraint_ok:
  assumes "distinct (map tbl_name schema)"
  shows "validate_constraint k n (map col_name (tbl_columns t)) (table_columns_map schema) = Inr u \<longleftrightarrow>
    constraint_ok schema t k"
proof (cases k)
  case (ForeignKey a cols r rcols od ou os)
  have "(\<exists>cs. om_lookup (table_columns_map schema) r = Some cs \<and> set rcols \<subseteq> set cs) \<longleftrightarrow>
      (\<exists>u \<in> set schema. tbl_name u = r \<and> set rcols \<subseteq> names_of u)"
    unfolding lookup_table_columns_map [OF assms] names_of_def by (metis set_map)
  then show ?thesis
    by (simp add: ForeignKey validate_foreign_key_ok constraint_ok_def) (auto simp: names_of_def)
qed (auto simp: validate_named_ok constraint_ok_def names_of_def Let_def case_find_Inr)

lemma if_Inr: "(if b then Inl e else r) = Inr u \<longleftrightarrow> \<not> b \<and> r = Inr u"
  by simp

lemma find_by_name:
  assumes "distinct (map f xs)"
  shows "find (\<lambda>x. f x = n) xs = Some x \<longleftrightarrow> x \<in> set xs \<and> f x = n"
  using assms by (induction xs) auto

lemma auto_increment_error_ok: "auto_increment_error t n c = Inr u \<longleftrightarrow> supports_auto_increment (col_type c)"
  by (simp add: auto_increment_error_def)

lemma check_pk_auto_increment_ok:
  assumes "distinct (map col_name (tbl_columns t))"
  shows "check_pk_auto_increment t = Inr u \<longleftrightarrow>
    (\<forall>cols s c. PrimaryKey True cols s \<in> set (tbl_constraints t) \<longrightarrow> c \<in> set (tbl_columns t) \<longrightarrow>
       col_name c \<in> set cols \<longrightarrow> supports_auto_increment (col_type c))"
proof -
  have inner: "(case find (\<lambda>c. col_name c = n) (tbl_columns t) of
       Some c \<Rightarrow> auto_increment_error t n c | None \<Rightarrow> Inr ()) = Inr () \<longleftrightarrow>
      (\<forall>c \<in> set (tbl_columns t). col_name c = n \<longrightarrow> supports_auto_increment (col_type c))" for n
  proof -
    have "\<forall>x. find (\<lambda>c. col_name c = n) (tbl_columns t) = Some x \<longleftrightarrow> x \<in> set (tbl_columns t) \<and> col_name x = n"
      using find_by_name [OF assms, of n] by blast
    then show ?thesis
      by (cases "find (\<lambda>c. col_name c = n) (tbl_columns t)") (simp_all add: auto_increment_error_ok, metis)
  qed
  show ?thesis
    by (auto simp: check_pk_auto_increment_def for_each_Inr inner split: table_constraint.splits bool.splits)
qed

lemma primary_key_ok_iff:
  assumes "distinct (map col_name (tbl_columns t))"
  shows "primary_key_ok t \<longleftrightarrow> check_has_primary_key t = Inr () \<and> check_pk_not_null t = Inr () \<and>
    check_pk_auto_increment t = Inr () \<and> check_inline_auto_increment t = Inr ()"
  unfolding primary_key_ok_def check_pk_auto_increment_ok [OF assms] check_has_primary_key_def check_pk_not_null_def
    check_inline_auto_increment_def
  by (auto simp: for_each_Inr auto_increment_error_ok list_ex_iff Let_def split: option.splits)

lemma for_each_steps [simp]:
  "for_each (\<lambda>step. step) [] = Inr u"
  "for_each (\<lambda>step. step) (r # rs) = Inr u \<longleftrightarrow> r = Inr () \<and> for_each (\<lambda>step. step) rs = Inr u"
  by (simp_all add: for_each_Inr del: for_each.simps)

lemma validate_table_ok:
  assumes "distinct (map tbl_name schema)" and "distinct (map col_name (tbl_columns t))"
  shows "validate_table t (table_columns_map schema) = Inr u \<longleftrightarrow>
    primary_key_ok t \<and> (\<forall>c \<in> set (tbl_columns t). column_ok c) \<and> (\<forall>k \<in> set (tbl_constraints t). constraint_ok schema t k)"
  unfolding validate_table_def primary_key_ok_iff [OF assms(2)]
  by (simp add: for_each_Inr validate_column_ok validate_constraint_ok [OF assms(1)] del: for_each.simps)

lemma first_error_Inr: "first_error es = Inr u \<longleftrightarrow> es = []"
  by (auto simp: first_error_def split: list.splits)

lemma checks_ok_iff:
  "checks_ok t \<longleftrightarrow> validate_default_vs_check t = Inr () \<and> validate_between_boundary_order t = Inr () \<and>
    validate_self_contradiction t = Inr ()"
proof -
  have default: "default_against t c d k = Inr () \<longleftrightarrow>
      (\<forall>n s y simple. k = Check n s y \<longrightarrow> extract_simple_column_check (parse s) (col_name c) = Some simple \<longrightarrow>
        check_satisfied simple d)" for c d k
    by (auto simp: default_against_def split: table_constraint.splits option.splits)
  have between: "find_between_boundary_reversals t = [] \<longleftrightarrow>
      (\<forall>n s y. Check n s y \<in> set (tbl_constraints t) \<longrightarrow> collect_reversed_between (parse s) = [])"
    by (force simp: find_between_boundary_reversals_def split: table_constraint.splits)
  have contra: "find_self_contradictions t = [] \<longleftrightarrow>
      (\<forall>n s y. Check n s y \<in> set (tbl_constraints t) \<longrightarrow> find_contradiction (parse s) = None)"
    by (force simp: find_self_contradictions_def map_filter_def filter_empty_conv split: table_constraint.splits)
  show ?thesis
    unfolding checks_ok_def validate_between_boundary_order_def validate_self_contradiction_def first_error_Inr between contra
    by (simp add: validate_default_vs_check_def for_each_Inr default option.case_eq_if del: for_each.simps) (fastforce)
qed

lemma duplicate_names_Nil: "duplicate_names seen ns = [] \<longleftrightarrow> distinct ns \<and> set seen \<inter> set ns = {}"
  by (induction ns arbitrary: seen) auto

lemma err_of_None: "err_of r = None \<longleftrightarrow> r = Inr ()"
  by (cases r) (auto simp: err_of_def)

lemma validate_table_entry_ok:
  assumes "distinct (map tbl_name schema)"
  shows "err_of (validate_table_entry t (table_columns_map schema)) = None \<longleftrightarrow> table_ok schema t"
proof (cases "distinct (map col_name (tbl_columns t))")
  case True
  then have u: "validate_unique_column_names t = Inr ()" by simp
  show ?thesis
    using True by (auto simp: err_of_None validate_table_entry_def u validate_table_ok [OF assms True] checks_ok_iff table_ok_def
        simp del: for_each.simps validate_unique_column_names_ok)
next
  case False
  then obtain e where "validate_unique_column_names t = Inl e" by (cases "validate_unique_column_names t") auto
  then show ?thesis using False by (simp add: err_of_None validate_table_entry_def table_ok_def)
qed

lemma find_schema_violations_Nil: "find_schema_violations schema = [] \<longleftrightarrow> schema_ok schema"
proof (cases "distinct (map tbl_name schema)")
  case True
  then show ?thesis
    using validate_table_entry_ok [OF True]
    by (auto simp: find_schema_violations_def schema_ok_def duplicate_names_Nil Let_def map_filter_def filter_empty_conv)
next
  case False
  then have "duplicate_names [] (map tbl_name schema) \<noteq> []" by (simp add: duplicate_names_Nil)
  then show ?thesis using False by (simp add: find_schema_violations_def schema_ok_def Let_def)
qed

lemma validate_schema_ok: "validate_schema schema = Inr u \<longleftrightarrow> schema_ok schema"
  unfolding validate_schema_def find_schema_violations_Nil [symmetric]
  by (auto simp: batch_errors_def split: list.splits)

text \<open>Every table with a problem contributes one error, after those of the duplicate names.\<close>

lemma duplicate_names_count: "length (duplicate_names seen ns) + card (set ns - set seen) = length ns"
proof (induction ns arbitrary: seen)
  case (Cons n ns)
  show ?case
  proof (cases "n \<in> set seen")
    case True
    then show ?thesis using Cons [of seen] by (simp add: insert_Diff_if)
  next
    case False
    have "insert n (set ns) - set seen = insert n (set ns - set (n # seen))" using False by auto
    then show ?thesis using Cons [of "n # seen"] False by simp
  qed
qed simp

lemma find_schema_violations_count:
  "length (find_schema_violations schema) =
    length schema - card (tbl_name ` set schema) +
    length (filter (\<lambda>t. err_of (validate_table_entry t (table_columns_map schema)) \<noteq> None) schema)"
proof -
  have "length (duplicate_names [] (map tbl_name schema)) = length schema - card (tbl_name ` set schema)"
    using duplicate_names_count [of "[]" "map tbl_name schema"] by simp
  then show ?thesis by (simp add: find_schema_violations_def Let_def map_filter_def)
qed

lemma set_map_filter: "set (List.map_filter f xs) = {y. \<exists>x \<in> set xs. f x = Some y}"
  by (force simp: map_filter_def)

text \<open>A foreign key is reported when no index starts with its columns.\<close>

lemma missing_index_iff:
  "(\<exists>m \<in> set (missing_fk_supporting_indexes_for_table t). mfi_columns m = cols) \<longleftrightarrow>
    cols \<noteq> [] \<and> (\<exists>n r rcols od ou os. ForeignKey n cols r rcols od ou os \<in> set (tbl_constraints t)) \<and>
    \<not> (\<exists>k \<in> set (tbl_constraints t). \<exists>ix rest. covering_columns k = Some ix \<and> ix = cols @ rest)"
proof -
  have prefix: "take (length cs) y = cs \<longleftrightarrow> (\<exists>rest. y = cs @ rest)" for cs y :: "string list"
    by (metis append_eq_conv_conj)
  have cover: "has_covering_index (List.map_filter covering_columns ks) cs \<longleftrightarrow>
      (\<exists>k \<in> set ks. \<exists>ix rest. covering_columns k = Some ix \<and> ix = cs @ rest)" for ks cs
    unfolding has_covering_index_def list_ex_iff prefix set_map_filter by blast
  show ?thesis
    unfolding cover [symmetric]
  proof (intro iffI)
    assume "\<exists>m \<in> set (missing_fk_supporting_indexes_for_table t). mfi_columns m = cols"
    then obtain m k where mk: "mfi_columns m = cols" "k \<in> set (tbl_constraints t)"
        "(case k of ForeignKey name columns ref_table ref_columns _ _ _ \<Rightarrow>
            if columns \<noteq> [] \<and> \<not> has_covering_index (List.map_filter covering_columns (tbl_constraints t)) columns
            then Some \<lparr>mfi_table = tbl_name t, mfi_constraint_name = name, mfi_columns = columns,
              mfi_ref_table = ref_table, mfi_ref_columns = ref_columns,
              mfi_suggested_index_name = build_suggested_index_name (tbl_name t) columns\<rparr>
            else None
          | _ \<Rightarrow> None) = Some m"
      by (auto simp only: missing_fk_supporting_indexes_for_table_def set_map_filter Let_def mem_Collect_eq)
    then show "cols \<noteq> [] \<and> (\<exists>n r rcols od ou os. ForeignKey n cols r rcols od ou os \<in> set (tbl_constraints t)) \<and>
        \<not> has_covering_index (List.map_filter covering_columns (tbl_constraints t)) cols"
      by (cases k) (auto split: if_splits, blast)
  next
    assume r: "cols \<noteq> [] \<and> (\<exists>n r rcols od ou os. ForeignKey n cols r rcols od ou os \<in> set (tbl_constraints t)) \<and>
        \<not> has_covering_index (List.map_filter covering_columns (tbl_constraints t)) cols"
    then obtain n ref rcols od ou os where k: "ForeignKey n cols ref rcols od ou os \<in> set (tbl_constraints t)" by blast
    let ?m = "\<lparr>mfi_table = tbl_name t, mfi_constraint_name = n, mfi_columns = cols, mfi_ref_table = ref,
        mfi_ref_columns = rcols, mfi_suggested_index_name = build_suggested_index_name (tbl_name t) cols\<rparr>"
    have "?m \<in> set (missing_fk_supporting_indexes_for_table t)"
      unfolding missing_fk_supporting_indexes_for_table_def Let_def set_map_filter mem_Collect_eq
      using r by (intro bexI [OF _ k]) simp
    then show "\<exists>m \<in> set (missing_fk_supporting_indexes_for_table t). mfi_columns m = cols" by force
  qed
qed

end
