(* ===== verification/Validate_Plan.thy ===== *)
theory Validate_Plan
  imports Validate_Schema
begin

text \<open>
  Validation of migration plans (\<open>vespertide-planner/src/validate/plan.rs\<close>): the actions that need a fill
  value, the enum values an action removes, and the errors of a plan.  Below the parallel threshold and
  above it the code computes the same list, in the order of the actions.
\<close>

section \<open>Actions\<close>

fun validate_action :: "migration_action \<Rightarrow> planner_error + unit" where
  "validate_action (AddColumn table column fill_with) =
     (if \<not> col_nullable column \<and> col_default column = None \<and> fill_with = None
      then Inl (MissingFillWith table (col_name column))
      else (case col_type column of
              Complex (Enum name vs) \<Rightarrow>
                for_each (\<lambda>step. step)
                  [case fill_with of
                     Some fill \<Rightarrow> validate_enum_value fill name vs table (col_name column) ''fill_with''
                   | None \<Rightarrow> Inr (),
                   case col_default column of
                     Some dflt \<Rightarrow> validate_enum_value (to_sql dflt) name vs table (col_name column) ''default''
                   | None \<Rightarrow> Inr ()]
            | _ \<Rightarrow> Inr ()))"
| "validate_action (ModifyColumnNullable table column nullable fill_with delete_null_rows) =
     (if \<not> nullable \<and> fill_with = None \<and> delete_null_rows \<noteq> Some True
      then Inl (MissingFillWith table column) else Inr ())"
| "validate_action (ModifyColumnType table column new_type fill_with _ _) =
     (case (fill_with, new_type) of
        (Some fw, Complex (Enum name vs)) \<Rightarrow>
          for_each (\<lambda>replacement. validate_enum_value replacement name vs table column ''fill_with'') (map snd fw)
      | _ \<Rightarrow> Inr ())"
| "validate_action (DataMigration sql u) =
     (case data_migration_ddl_violation (DataMigration sql u) of
        Some (keyword, statement) \<Rightarrow> Inl (DataMigrationContainsDdl keyword (sql_preview statement))
      | None \<Rightarrow> Inr ())"
| "validate_action _ = Inr ()"

definition find_plan_violations :: "migration_plan \<Rightarrow> planner_error list" where
  "find_plan_violations plan = List.map_filter (\<lambda>action. err_of (validate_action action)) (plan_actions plan)"

definition validate_migration_plan :: "migration_plan \<Rightarrow> planner_error + unit" where
  "validate_migration_plan plan = batch_errors (find_plan_violations plan)"

section \<open>Missing fill values\<close>

record fill_with_required =
  fwr_action_index :: nat
  fwr_table :: string
  fwr_column :: string
  fwr_action_type :: string
  fwr_column_type :: string
  fwr_default_value :: string
  fwr_enum_values :: "string list option"
  fwr_has_foreign_key :: bool

definition find_baseline_column :: "table_def list \<Rightarrow> string \<Rightarrow> string \<Rightarrow> column_def option" where
  "find_baseline_column schema table column =
     Option.bind (find_table schema table) (\<lambda>t. find (\<lambda>c. col_name c = column) (tbl_columns t))"

fun fk_over :: "string \<Rightarrow> table_constraint \<Rightarrow> bool" where
  "fk_over column (ForeignKey _ columns _ _ _ _ _) = list_ex (\<lambda>c. c = column) columns"
| "fk_over column _ = False"

fun missing_fill_with_for_action ::
  "nat \<Rightarrow> migration_action \<Rightarrow> table_def list \<Rightarrow> fill_with_required option" where
  "missing_fill_with_for_action idx (AddColumn table column fill_with) current_schema =
     (if \<not> col_nullable column \<and> col_default column = None \<and> fill_with = None
      then Some \<lparr>fwr_action_index = idx, fwr_table = table, fwr_column = col_name column,
        fwr_action_type = ''AddColumn'', fwr_column_type = to_display_string (col_type column),
        fwr_default_value = default_fill_value (col_type column),
        fwr_enum_values = enum_variant_names (col_type column), fwr_has_foreign_key = False\<rparr>
      else None)"
| "missing_fill_with_for_action idx (ModifyColumnNullable table column nullable fill_with delete_null_rows) current_schema =
     (if \<not> nullable \<and> fill_with = None \<and> delete_null_rows \<noteq> Some True
      then
        let col_def = find_baseline_column current_schema table column;
            has_foreign_key = (case find_table current_schema table of
              Some t \<Rightarrow> list_ex (fk_over column) (tbl_constraints t) | None \<Rightarrow> False)
        in if (case col_def of Some c \<Rightarrow> col_default c \<noteq> None | None \<Rightarrow> False) then None
           else
             let (col_type_str, default_val, enum_vals) = (case col_def of
                   Some c \<Rightarrow> (to_display_string (col_type c), default_fill_value (col_type c), enum_variant_names (col_type c))
                 | None \<Rightarrow> (column, [CHR 0x27, CHR 0x27], None))
             in Some \<lparr>fwr_action_index = idx, fwr_table = table, fwr_column = column,
                  fwr_action_type = ''ModifyColumnNullable'', fwr_column_type = col_type_str,
                  fwr_default_value = default_val, fwr_enum_values = enum_vals,
                  fwr_has_foreign_key = has_foreign_key\<rparr>
      else None)"
| "missing_fill_with_for_action idx _ current_schema = None"

definition find_missing_fill_with :: "migration_plan \<Rightarrow> table_def list \<Rightarrow> fill_with_required list" where
  "find_missing_fill_with plan current_schema =
     List.map_filter (\<lambda>(idx, action). missing_fill_with_for_action idx action current_schema)
       (enumerated (plan_actions plan))"

section \<open>Removed enum values\<close>

record enum_fill_with_required =
  efr_action_index :: nat
  efr_table :: string
  efr_column :: string
  efr_removed_values :: "string list"
  efr_remaining_values :: "string list"

fun missing_enum_fill_with_for_action ::
  "nat \<Rightarrow> migration_action \<Rightarrow> table_def list \<Rightarrow> enum_fill_with_required option" where
  "missing_enum_fill_with_for_action idx (ModifyColumnType table column new_type fill_with _ _) current_schema =
     (let old_type = map_option col_type (find_baseline_column current_schema table column)
      in case (old_type, new_type) of
           (Some (Complex (Enum _ (EnumString old_values))), Complex (Enum _ (EnumString new_values))) \<Rightarrow>
             (let removed = filter (\<lambda>v. v \<notin> set new_values) old_values
              in if removed = [] then None
                 else
                   let all_covered = (case fill_with of Some fw \<Rightarrow> list_all (om_contains fw) removed | None \<Rightarrow> False)
                   in if all_covered then None
                      else
                        let uncovered = (case fill_with of
                              Some fw \<Rightarrow> filter (\<lambda>r. \<not> om_contains fw r) removed | None \<Rightarrow> removed)
                        in Some \<lparr>efr_action_index = idx, efr_table = table, efr_column = column,
                             efr_removed_values = uncovered, efr_remaining_values = new_values\<rparr>)
         | _ \<Rightarrow> None)"
| "missing_enum_fill_with_for_action idx _ current_schema = None"

definition find_missing_enum_fill_with :: "migration_plan \<Rightarrow> table_def list \<Rightarrow> enum_fill_with_required list" where
  "find_missing_enum_fill_with plan current_schema =
     List.map_filter (\<lambda>(idx, action). missing_enum_fill_with_for_action idx action current_schema)
       (enumerated (plan_actions plan))"

section \<open>What a validated plan guarantees\<close>

lemma batch_errors_Inr: "batch_errors es = Inr u \<longleftrightarrow> es = []"
  by (auto simp: batch_errors_def split: list.splits)

lemma map_filter_empty: "List.map_filter f xs = [] \<longleftrightarrow> (\<forall>x \<in> set xs. f x = None)"
  by (auto simp: map_filter_def filter_empty_conv)

lemma validate_plan_iff:
  "validate_migration_plan plan = Inr u \<longleftrightarrow> (\<forall>a \<in> set (plan_actions plan). validate_action a = Inr ())"
  by (simp add: validate_migration_plan_def batch_errors_Inr find_plan_violations_def map_filter_empty err_of_None)

lemma enumerated_iff: "(\<exists>i. (i, x) \<in> set (enumerated xs)) \<longleftrightarrow> x \<in> set xs"
proof -
  have "snd ` set (enumerated xs) = set xs"
    unfolding enumerated_def set_map [symmetric] by simp
  then show ?thesis by force
qed

text \<open>A column that is made \<open>NOT NULL\<close> while it has a default in the schema.\<close>

fun sets_not_null_with_default :: "table_def list \<Rightarrow> migration_action \<Rightarrow> bool" where
  "sets_not_null_with_default schema (ModifyColumnNullable table column nullable fill_with delete_null_rows) =
     (\<not> nullable \<and> fill_with = None \<and> delete_null_rows \<noteq> Some True \<and>
      (\<exists>c. find_baseline_column schema table column = Some c \<and> col_default c \<noteq> None))"
| "sets_not_null_with_default schema _ = False"

definition missing_fill_error :: "migration_action \<Rightarrow> bool" where
  "missing_fill_error a \<longleftrightarrow> (\<exists>t c. validate_action a = Inl (MissingFillWith t c))"

lemma validate_enum_value_no_fill: "validate_enum_value x n vs t c k \<noteq> Inl (MissingFillWith t' c')"
  by (auto simp: validate_enum_value_def split: option.splits)

lemma missing_fill_error_iff:
  "missing_fill_error a \<longleftrightarrow> missing_fill_with_for_action i a schema \<noteq> None \<or> sets_not_null_with_default schema a"
proof (cases a)
  case (AddColumn t c f)
  then show ?thesis
    using validate_enum_value_no_fill
    by (auto simp: missing_fill_error_def split: column_type.splits complex_column_type.splits option.splits sum.splits)
next
  case (ModifyColumnNullable t c n f d)
  then show ?thesis by (auto simp: missing_fill_error_def Let_def split: option.splits prod.splits)
next
  case (ModifyColumnType t c ty f s u)
  have "validate_action a \<noteq> Inl (MissingFillWith t' c')" for t' c'
    using validate_enum_value_no_fill
    by (auto simp: ModifyColumnType dest!: for_each_Inl split: option.splits column_type.splits complex_column_type.splits)
  then show ?thesis by (simp add: ModifyColumnType missing_fill_error_def)
next
  case (DataMigration s u)
  then show ?thesis by (auto simp: missing_fill_error_def split: option.splits)
qed (simp_all add: missing_fill_error_def)

text \<open>The interactive check and the final validation agree on which plans lack a fill value, columns with
  a default apart.\<close>

lemma missing_fill_in_plan:
  "(\<exists>a. a \<in> set (plan_actions plan) \<and> missing_fill_error a) \<longleftrightarrow>
   (\<exists>f. f \<in> set (find_missing_fill_with plan schema)) \<or>
   (\<exists>a. a \<in> set (plan_actions plan) \<and> sets_not_null_with_default schema a)"
proof -
  have "(\<exists>f. f \<in> set (find_missing_fill_with plan schema)) \<longleftrightarrow>
      (\<exists>i a. (i, a) \<in> set (enumerated (plan_actions plan)) \<and> missing_fill_with_for_action i a schema \<noteq> None)"
    unfolding ex_in_conv set_empty find_missing_fill_with_def map_filter_empty by force
  then show ?thesis using missing_fill_error_iff enumerated_iff by metis
qed

lemma no_missing_fill_with:
  assumes "find_missing_fill_with plan schema = []"
    and "a \<in> set (plan_actions plan)" and "\<not> sets_not_null_with_default schema a"
  shows "\<not> missing_fill_error a"
proof -
  obtain i where "(i, a) \<in> set (enumerated (plan_actions plan))" using assms(2) enumerated_iff by metis
  then have "missing_fill_with_for_action i a schema = None"
    using assms(1) by (auto simp: find_missing_fill_with_def map_filter_empty)
  then show ?thesis using missing_fill_error_iff assms(3) by blast
qed

text \<open>Every value an enum column may hold is kept or replaced by a value of the new enum.\<close>

lemma enum_values_covered:
  assumes "validate_migration_plan plan = Inr ()" and "find_missing_enum_fill_with plan schema = []"
    and a: "ModifyColumnType table column (Complex (Enum n (EnumString new_values))) fill_with s u \<in> set (plan_actions plan)"
    and "find_baseline_column schema table column = Some c" and "col_type c = Complex (Enum m (EnumString old_values))"
    and "v \<in> set old_values"
  shows "v \<in> set new_values \<or>
    (\<exists>fw w. fill_with = Some fw \<and> om_lookup fw v = Some w \<and>
      (\<forall>x. extract_enum_value w = Some x \<longrightarrow> x \<in> set new_values))"
proof (cases "v \<in> set new_values")
  case False
  obtain i where i: "(i, ModifyColumnType table column (Complex (Enum n (EnumString new_values))) fill_with s u)
      \<in> set (enumerated (plan_actions plan))"
    using a enumerated_iff by metis
  have "missing_enum_fill_with_for_action i
      (ModifyColumnType table column (Complex (Enum n (EnumString new_values))) fill_with s u) schema = None"
    using assms(2) i by (auto simp: find_missing_enum_fill_with_def map_filter_empty)
  moreover have "filter (\<lambda>v. v \<notin> set new_values) old_values \<noteq> []" using False assms(6) by (simp add: filter_empty_conv) blast
  ultimately obtain fw where fw: "fill_with = Some fw" "\<forall>r \<in> set old_values. r \<notin> set new_values \<longrightarrow> om_contains fw r"
    using assms(4,5) by (auto simp: Let_def list_all_iff split: if_splits option.splits)
  then obtain w where w: "om_lookup fw v = Some w" using False assms(6) by (auto simp: om_contains_def)
  then have "w \<in> set (map snd fw)" by (force simp: om_lookup_def dest: map_of_SomeD)
  moreover have "for_each (\<lambda>r. validate_enum_value r n (EnumString new_values) table column ''fill_with'') (map snd fw) = Inr ()"
    using assms(1) a fw(1) by (force simp: validate_plan_iff simp del: for_each.simps)
  ultimately have "\<forall>x. extract_enum_value w = Some x \<longrightarrow> x \<in> set new_values"
    by (auto simp: for_each_Inr validate_enum_value_ok list_ex_iff)
  then show ?thesis using fw(1) w by blast
qed simp

end
