(* ===== verification/Cascade_Reach.thy ===== *)
theory Cascade_Reach
  imports Validate_Plan
begin

text \<open>
  The reach of a new \<open>ON DELETE CASCADE\<close> foreign key
  (\<open>vespertide-planner/src/validate/cascade_reach.rs\<close>): the cascade graph and the depth-first walk with
  an explicit stack and a visited set.  The walk ends, and reaches the tables a delete can reach.
\<close>

section \<open>The cascade graph\<close>

datatype cascade_risk_level = Deep | HighFanout | CriticalReach

record cascade_reach_warning =
  crw_action_index :: nat
  crw_origin_child_table :: string
  crw_origin_columns :: "string list"
  crw_parent_table :: string
  crw_depth :: nat
  crw_reached_tables :: "string list"
  crw_max_fanout :: nat
  crw_risk_level :: cascade_risk_level

type_synonym cascade_graph = "(string, string list) omap"

definition DEEP_THRESHOLD :: nat where "DEEP_THRESHOLD = 3"
definition HIGH_FANOUT_THRESHOLD :: nat where "HIGH_FANOUT_THRESHOLD = 3"

text \<open>\<open>graph.entry(parent).or_default().push(child)\<close>.\<close>

definition graph_push :: "string \<Rightarrow> string \<Rightarrow> cascade_graph \<Rightarrow> cascade_graph" where
  "graph_push parent child g =
     om_insert parent ((case om_lookup g parent of Some cs \<Rightarrow> cs | None \<Rightarrow> []) @ [child]) g"

definition cascade_fk_of :: "table_constraint \<Rightarrow> string option" where
  "cascade_fk_of c =
     (case c of ForeignKey _ _ ref_table _ (Some Cascade) _ _ \<Rightarrow> Some ref_table | _ \<Rightarrow> None)"

definition baseline_cascade_edges :: "table_def list \<Rightarrow> (string \<times> string) list" where
  "baseline_cascade_edges baseline =
     concat (map (\<lambda>table. List.map_filter (\<lambda>c. map_option (\<lambda>p. (p, tbl_name table)) (cascade_fk_of c))
       (tbl_constraints table)) baseline)"

definition plan_cascade_edges :: "migration_plan \<Rightarrow> (string \<times> string) list" where
  "plan_cascade_edges plan =
     List.map_filter (\<lambda>action. case action of
         AddConstraint table c \<Rightarrow> map_option (\<lambda>p. (p, table)) (cascade_fk_of c)
       | _ \<Rightarrow> None) (plan_actions plan)"

definition build_cascade_graph :: "table_def list \<Rightarrow> migration_plan \<Rightarrow> cascade_graph" where
  "build_cascade_graph baseline plan =
     fold (\<lambda>(p, c). graph_push p c) (baseline_cascade_edges baseline @ plan_cascade_edges plan) []"

section \<open>The depth-first walk\<close>

record dfs_state =
  dfs_visited :: "string list"
  dfs_max_depth :: nat
  dfs_max_fanout :: nat
  dfs_reached :: "string list"

text \<open>The stack is a list with its top at the head; the children are pushed in order.\<close>

definition push_children :: "string list \<Rightarrow> nat \<Rightarrow> (string \<times> nat) list \<Rightarrow> (string \<times> nat) list" where
  "push_children children depth stack = fold (\<lambda>child st. (child, depth) # st) children stack"

definition dfs_visit :: "cascade_graph \<Rightarrow> string \<Rightarrow> nat \<Rightarrow> dfs_state \<Rightarrow> dfs_state" where
  "dfs_visit graph node depth s =
     (let s1 = s\<lparr>dfs_visited := node # dfs_visited s\<rparr>;
          s2 = (if depth > 0
                then s1\<lparr>dfs_reached := dfs_reached s1 @ [node], dfs_max_depth := max (dfs_max_depth s1) depth\<rparr>
                else s1)
      in case om_lookup graph node of
           Some children \<Rightarrow> s2\<lparr>dfs_max_fanout := max (dfs_max_fanout s2) (length children)\<rparr>
         | None \<Rightarrow> s2)"

lemma dfs_visit_visited [simp]: "dfs_visited (dfs_visit graph node depth s) = node # dfs_visited s"
  by (simp add: dfs_visit_def Let_def split: option.splits)

function dfs_loop :: "cascade_graph \<Rightarrow> (string \<times> nat) list \<Rightarrow> dfs_state \<Rightarrow> dfs_state" where
  "dfs_loop graph [] s = s"
| "dfs_loop graph ((node, depth) # stack) s =
     (if node \<in> set (dfs_visited s) then dfs_loop graph stack s
      else dfs_loop graph
        (case om_lookup graph node of Some children \<Rightarrow> push_children children (depth + 1) stack | None \<Rightarrow> stack)
        (dfs_visit graph node depth s))"
  by pat_completeness auto

text \<open>Each step visits a node that has children, or leaves the stack shorter.\<close>

termination
proof (relation "inv_image (less_than <*lex*> less_than)
    (\<lambda>(graph, stack, s). (card (set (map fst graph) - set (dfs_visited s)), length stack))")
  fix graph :: cascade_graph and node depth stack and s :: dfs_state
  let ?keys = "set (map fst graph)"
  assume new: "node \<notin> set (dfs_visited s)"
  show "((graph, case om_lookup graph node of Some children \<Rightarrow> push_children children (depth + 1) stack | None \<Rightarrow> stack,
      dfs_visit graph node depth s), graph, (node, depth) # stack, s)
    \<in> inv_image (less_than <*lex*> less_than)
      (\<lambda>(graph, stack, s). (card (set (map fst graph) - set (dfs_visited s)), length stack))"
  proof (cases "om_lookup graph node")
    case None
    then have "node \<notin> ?keys" by (simp add: om_lookup_def map_of_eq_None_iff)
    then have "?keys - insert node (set (dfs_visited s)) = ?keys - set (dfs_visited s)" by auto
    then show ?thesis using None by simp
  next
    case (Some children)
    then have "node \<in> ?keys" by (force simp: om_lookup_def dest: map_of_SomeD)
    then have "card (?keys - insert node (set (dfs_visited s))) < card (?keys - set (dfs_visited s))"
      using new by (intro psubset_card_mono) auto
    then show ?thesis using Some by simp
  qed
qed auto

definition dfs_cascade :: "cascade_graph \<Rightarrow> string \<Rightarrow> nat \<times> string list \<times> nat" where
  "dfs_cascade graph start =
     (let s = dfs_loop graph [(start, 0)]
            \<lparr>dfs_visited = [], dfs_max_depth = 0, dfs_max_fanout = 0, dfs_reached = []\<rparr>
      in (dfs_max_depth s, dfs_reached s, dfs_max_fanout s))"

definition classify_risk :: "nat \<Rightarrow> nat \<Rightarrow> cascade_risk_level option" where
  "classify_risk depth max_fanout =
     (let deep = depth \<ge> DEEP_THRESHOLD; high_fanout = max_fanout \<ge> HIGH_FANOUT_THRESHOLD
      in if deep \<and> high_fanout then Some CriticalReach
         else if deep then Some Deep
         else if high_fanout then Some HighFanout
         else None)"

definition cascade_warning_of :: "cascade_graph \<Rightarrow> nat \<times> migration_action \<Rightarrow> cascade_reach_warning option" where
  "cascade_warning_of graph entry =
     (case entry of
        (idx, AddConstraint table (ForeignKey _ columns ref_table _ (Some Cascade) _ _)) \<Rightarrow>
          (let (depth, reached, max_fanout) = dfs_cascade graph ref_table
           in map_option (\<lambda>risk_level.
                \<lparr>crw_action_index = idx, crw_origin_child_table = table, crw_origin_columns = columns,
                 crw_parent_table = ref_table, crw_depth = depth, crw_reached_tables = reached,
                 crw_max_fanout = max_fanout, crw_risk_level = risk_level\<rparr>) (classify_risk depth max_fanout))
      | _ \<Rightarrow> None)"

definition find_cascade_reach_violations :: "migration_plan \<Rightarrow> table_def list \<Rightarrow> cascade_reach_warning list" where
  "find_cascade_reach_violations plan baseline =
     List.map_filter (cascade_warning_of (build_cascade_graph baseline plan)) (enumerated (plan_actions plan))"

section \<open>The walk reaches exactly the descendants\<close>

definition children_of :: "cascade_graph \<Rightarrow> string \<Rightarrow> string list" where
  "children_of g n = (case om_lookup g n of Some cs \<Rightarrow> cs | None \<Rightarrow> [])"

definition graph_edges :: "cascade_graph \<Rightarrow> (string \<times> string) set" where
  "graph_edges g = {(p, c). c \<in> set (children_of g p)}"

lemma push_children_set: "set (push_children cs d st) = (\<lambda>c. (c, d)) ` set cs \<union> set st"
  unfolding push_children_def by (induction cs arbitrary: st) auto

lemma push_children_fst: "fst ` set (push_children cs d st) = set cs \<union> fst ` set st"
  by (force simp: push_children_set)

lemma push_children_all: "(\<forall>(n, d) \<in> set (push_children cs e st). P d) \<longleftrightarrow> (cs \<noteq> [] \<longrightarrow> P e) \<and> (\<forall>(n, d) \<in> set st. P d)"
  by (cases cs) (auto simp: push_children_set)

lemma dfs_stack_children:
  "(case om_lookup g n of Some cs \<Rightarrow> push_children cs d st | None \<Rightarrow> st) = push_children (children_of g n) d st"
  by (auto simp: children_of_def push_children_def split: option.splits)

lemma dfs_visit_simps [simp]:
  "dfs_max_fanout (dfs_visit g n d s) = max (dfs_max_fanout s) (length (children_of g n))"
  "dfs_reached (dfs_visit g n d s) = (if d > 0 then dfs_reached s @ [n] else dfs_reached s)"
  "dfs_max_depth (dfs_visit g n d s) = (if d > 0 then max (dfs_max_depth s) d else dfs_max_depth s)"
  by (auto simp: dfs_visit_def children_of_def Let_def split: option.splits)

definition dfs_inv :: "cascade_graph \<Rightarrow> string \<Rightarrow> (string \<times> nat) list \<Rightarrow> dfs_state \<Rightarrow> bool" where
  "dfs_inv g start st s \<longleftrightarrow>
     set (dfs_visited s) \<union> fst ` set st \<subseteq> (graph_edges g)\<^sup>* `` {start} \<and>
     graph_edges g `` set (dfs_visited s) \<subseteq> set (dfs_visited s) \<union> fst ` set st \<and>
     (dfs_visited s = [] \<and> dfs_reached s = [] \<and> st = [(start, 0)] \<or>
      start \<in> set (dfs_visited s) \<and> (\<forall>(n, d) \<in> set st. 0 < d)) \<and>
     set (dfs_reached s) = set (dfs_visited s) - {start} \<and> distinct (dfs_reached s) \<and>
     dfs_max_depth s \<le> length (dfs_reached s) \<and> (\<forall>(n, d) \<in> set st. d \<le> length (dfs_reached s) + 1) \<and>
     (\<forall>v \<in> set (dfs_visited s). length (children_of g v) \<le> dfs_max_fanout s) \<and>
     (dfs_max_fanout s = 0 \<or> (\<exists>v \<in> set (dfs_visited s). length (children_of g v) = dfs_max_fanout s))"

lemma dfs_inv_skip: "dfs_inv g start ((n, d) # st) s \<Longrightarrow> n \<in> set (dfs_visited s) \<Longrightarrow> dfs_inv g start st s"
  unfolding dfs_inv_def by auto

lemma dfs_inv_visit:
  assumes "dfs_inv g start ((n, d) # st) s" and "n \<notin> set (dfs_visited s)"
  shows "dfs_inv g start (push_children (children_of g n) (d + 1) st) (dfs_visit g n d s)"
proof -
  have n: "(start, n) \<in> (graph_edges g)\<^sup>*" using assms(1) by (auto simp: dfs_inv_def)
  have edges: "graph_edges g `` {n} = set (children_of g n)" by (auto simp: graph_edges_def)
  have reach: "set (children_of g n) \<subseteq> (graph_edges g)\<^sup>* `` {start}"
    using n by (auto simp: edges [symmetric] intro: rtrancl_into_rtrancl)
  let ?st = "push_children (children_of g n) (d + 1) st" and ?s = "dfs_visit g n d s"
  have sub: "set (dfs_visited ?s) \<union> fst ` set ?st \<subseteq> (graph_edges g)\<^sup>* `` {start}"
    using assms(1) reach n by (auto simp: push_children_fst dfs_inv_def)
  have closed: "graph_edges g `` set (dfs_visited ?s) \<subseteq> set (dfs_visited ?s) \<union> fst ` set ?st"
    using assms(1) edges by (auto simp: push_children_fst dfs_inv_def)
  have fanout: "\<forall>v \<in> set (dfs_visited ?s). length (children_of g v) \<le> dfs_max_fanout ?s"
    using assms(1) by (auto simp: dfs_inv_def intro: le_trans)
  have "dfs_max_fanout s = 0 \<or> (\<exists>v \<in> set (dfs_visited s). length (children_of g v) = dfs_max_fanout s)"
    using assms(1) by (auto simp: dfs_inv_def)
  then have attained: "dfs_max_fanout ?s = 0 \<or> (\<exists>v \<in> set (dfs_visited ?s). length (children_of g v) = dfs_max_fanout ?s)"
    by (auto simp: max_def)
  have c: "d = 0 \<and> n = start \<and> st = [] \<and> dfs_visited s = [] \<and> dfs_reached s = [] \<or>
      0 < d \<and> n \<noteq> start \<and> start \<in> set (dfs_visited s) \<and> (\<forall>(n, d) \<in> set st. 0 < d)"
    using assms unfolding dfs_inv_def by force
  have stack: "start \<in> set (dfs_visited ?s) \<and> (\<forall>(n, d) \<in> set ?st. 0 < d)"
    using c unfolding push_children_all by auto
  have "set (dfs_reached s) = set (dfs_visited s) - {start}" "distinct (dfs_reached s)"
    "dfs_max_depth s \<le> length (dfs_reached s)" "d \<le> length (dfs_reached s) + 1"
    "\<forall>(n, d) \<in> set st. d \<le> length (dfs_reached s) + 1"
    using assms(1) unfolding dfs_inv_def by simp_all
  then have "set (dfs_reached ?s) = set (dfs_visited ?s) - {start} \<and> distinct (dfs_reached ?s)"
    and "dfs_max_depth ?s \<le> length (dfs_reached ?s) \<and> (\<forall>(n, d) \<in> set ?st. d \<le> length (dfs_reached ?s) + 1)"
    using c assms(2) unfolding push_children_all by auto
  with stack show ?thesis using sub closed fanout attained unfolding dfs_inv_def by blast
qed

lemma dfs_loop_inv: "dfs_inv g start st s \<Longrightarrow> dfs_inv g start [] (dfs_loop g st s)"
proof (induction g st s rule: dfs_loop.induct)
  case (2 g n d st s)
  then show ?case
    using dfs_inv_skip [OF 2(3)] dfs_inv_visit [OF 2(3)] by (cases "n \<in> set (dfs_visited s)") (simp_all add: dfs_stack_children)
qed simp

lemma dfs_cascade_reach:
  assumes "dfs_cascade g start = (depth, reached, fanout)"
  shows "set reached = (graph_edges g)\<^sup>* `` {start} - {start}" and "distinct reached" and "depth \<le> length reached"
    and "fanout = Max ((\<lambda>t. length (children_of g t)) ` (graph_edges g)\<^sup>* `` {start})"
proof -
  let ?s0 = "\<lparr>dfs_visited = [], dfs_max_depth = 0, dfs_max_fanout = 0, dfs_reached = []\<rparr>"
  define s where "s = dfs_loop g [(start, 0)] ?s0"
  have "dfs_inv g start [(start, 0)] ?s0" by (simp add: dfs_inv_def)
  then have inv: "dfs_inv g start [] s" unfolding s_def by (rule dfs_loop_inv)
  have r: "depth = dfs_max_depth s" "reached = dfs_reached s" "fanout = dfs_max_fanout s"
    using assms by (simp_all add: dfs_cascade_def s_def Let_def)
  have start: "start \<in> set (dfs_visited s)" using inv by (auto simp: dfs_inv_def)
  have closed: "graph_edges g `` set (dfs_visited s) \<subseteq> set (dfs_visited s)" using inv by (auto simp: dfs_inv_def)
  have "t \<in> set (dfs_visited s)" if "(start, t) \<in> (graph_edges g)\<^sup>*" for t
    using that by (induction rule: rtrancl_induct) (use start closed in auto)
  then have visited: "set (dfs_visited s) = (graph_edges g)\<^sup>* `` {start}" using inv by (auto simp: dfs_inv_def)
  show "set reached = (graph_edges g)\<^sup>* `` {start} - {start}" "distinct reached" "depth \<le> length reached"
    using inv visited r by (auto simp: dfs_inv_def)
  have "fanout \<in> (\<lambda>t. length (children_of g t)) ` set (dfs_visited s)"
  proof (cases "fanout = 0")
    case True
    then have "length (children_of g start) = 0" using inv start r by (auto simp: dfs_inv_def)
    then show ?thesis using start True by (metis image_eqI)
  next
    case False
    then show ?thesis using inv r by (force simp: dfs_inv_def)
  qed
  moreover have "\<forall>t \<in> set (dfs_visited s). length (children_of g t) \<le> fanout" using inv r by (simp add: dfs_inv_def)
  ultimately have "Max ((\<lambda>t. length (children_of g t)) ` set (dfs_visited s)) = fanout"
    by (intro Max_eqI) auto
  then show "fanout = Max ((\<lambda>t. length (children_of g t)) ` (graph_edges g)\<^sup>* `` {start})"
    by (simp add: visited)
qed

text \<open>The edges of the graph are the cascading foreign keys.\<close>

lemma children_graph_push: "children_of (graph_push p c g) n = (if n = p then children_of g p @ [c] else children_of g n)"
  by (simp add: children_of_def graph_push_def om_simps)

lemma children_build:
  "children_of (fold (\<lambda>(p, c). graph_push p c) es g) n = children_of g n @ map snd (filter (\<lambda>e. fst e = n) es)"
  by (induction es arbitrary: g) (auto simp: children_graph_push)

definition cascade_edges :: "table_def list \<Rightarrow> migration_plan \<Rightarrow> (string \<times> string) set" where
  "cascade_edges baseline plan =
     {(p, c). (\<exists>t \<in> set baseline. tbl_name t = c \<and>
         (\<exists>n cols rcols ou os. ForeignKey n cols p rcols (Some Cascade) ou os \<in> set (tbl_constraints t))) \<or>
       (\<exists>n cols rcols ou os. AddConstraint c (ForeignKey n cols p rcols (Some Cascade) ou os) \<in> set (plan_actions plan))}"

lemma cascade_fk_of_Some:
  "cascade_fk_of c = Some p \<longleftrightarrow> (\<exists>n cols rcols ou os. c = ForeignKey n cols p rcols (Some Cascade) ou os)"
  by (auto simp: cascade_fk_of_def split: table_constraint.splits option.splits reference_action.splits)

lemma baseline_edge_iff:
  "(p, c) \<in> set (baseline_cascade_edges baseline) \<longleftrightarrow> (\<exists>t \<in> set baseline. tbl_name t = c \<and>
         (\<exists>n cols rcols ou os. ForeignKey n cols p rcols (Some Cascade) ou os \<in> set (tbl_constraints t)))"
proof -
  have "(p, c) \<in> set (baseline_cascade_edges baseline) \<longleftrightarrow>
      (\<exists>t \<in> set baseline. \<exists>k \<in> set (tbl_constraints t). cascade_fk_of k = Some p \<and> tbl_name t = c)"
    by (auto simp: baseline_cascade_edges_def set_map_filter)
  then show ?thesis unfolding cascade_fk_of_Some by metis
qed

lemma plan_edge_iff:
  "(p, c) \<in> set (plan_cascade_edges plan) \<longleftrightarrow>
    (\<exists>n cols rcols ou os. AddConstraint c (ForeignKey n cols p rcols (Some Cascade) ou os) \<in> set (plan_actions plan))"
proof -
  have "(case a of AddConstraint t k \<Rightarrow> map_option (\<lambda>p. (p, t)) (cascade_fk_of k) | _ \<Rightarrow> None) = Some (p, c) \<longleftrightarrow>
      (\<exists>n cols rcols ou os. a = AddConstraint c (ForeignKey n cols p rcols (Some Cascade) ou os))" for a
    by (cases a) (auto simp: cascade_fk_of_Some)
  then show ?thesis unfolding plan_cascade_edges_def set_map_filter mem_Collect_eq by metis
qed

lemma graph_edges_build: "graph_edges (build_cascade_graph baseline plan) = cascade_edges baseline plan"
proof -
  have "(p, c) \<in> graph_edges (build_cascade_graph baseline plan) \<longleftrightarrow>
      (p, c) \<in> set (baseline_cascade_edges baseline) \<or> (p, c) \<in> set (plan_cascade_edges plan)" for p c
  proof -
    have "children_of (build_cascade_graph baseline plan) p =
        map snd (filter (\<lambda>e. fst e = p) (baseline_cascade_edges baseline @ plan_cascade_edges plan))"
      unfolding build_cascade_graph_def children_build by (simp add: children_of_def om_lookup_def)
    then show ?thesis by (force simp: graph_edges_def)
  qed
  then show ?thesis
    unfolding baseline_edge_iff plan_edge_iff cascade_edges_def by (intro set_eqI) (simp add: split_paired_all)
qed

end
