(* ===== verification/Dangling_Fk.thy ===== *)
theory Dangling_Fk
  imports Validate_Plan
begin

text \<open>
  Foreign keys that a drop leaves dangling (\<open>vespertide-planner/src/validate/dangling_fk_drops.rs\<close>), and
  what a plan without a report leaves behind when it is replayed.  A \<open>BTreeSet\<close> of reports is the
  sorted list of its elements.
\<close>

section \<open>Dropped targets\<close>

record dangling_fk_drop =
  dfd_dropped_table :: string
  dfd_dropped_column :: "string option"
  dfd_referencing_table :: string
  dfd_referencing_constraint :: "string option"

datatype dropped_target = WholeTable | DroppedColumn string

type_synonym drop_set = "(string \<times> string option) list"

definition collect_drop_set :: "migration_plan \<Rightarrow> drop_set" where
  "collect_drop_set plan =
     List.map_filter (\<lambda>action. case action of
         DeleteTable table \<Rightarrow> Some (table, None)
       | DeleteColumn table column \<Rightarrow> Some (table, Some column)
       | _ \<Rightarrow> None) (plan_actions plan)"

definition ref_target_dropped :: "drop_set \<Rightarrow> string \<Rightarrow> string \<Rightarrow> dropped_target option" where
  "ref_target_dropped drop_set ref_table ref_column =
     (if (ref_table, None) \<in> set drop_set then Some WholeTable
      else if (ref_table, Some ref_column) \<in> set drop_set then Some (DroppedColumn ref_column)
      else None)"

section \<open>Foreign keys that survive the plan\<close>

record surviving_fk =
  sfk_owner_table :: string
  sfk_name :: "string option"
  sfk_ref_table :: string
  sfk_ref_columns :: "string list"

type_synonym removed_fk_key = "string \<times> string option \<times> string list \<times> string"

definition removed_fk_key_of :: "string \<Rightarrow> table_constraint \<Rightarrow> removed_fk_key option" where
  "removed_fk_key_of table c =
     (case c of ForeignKey name columns ref_table _ _ _ _ \<Rightarrow> Some (table, name, columns, ref_table) | _ \<Rightarrow> None)"

definition collect_explicitly_removed_fks :: "migration_plan \<Rightarrow> removed_fk_key list" where
  "collect_explicitly_removed_fks plan =
     List.map_filter (\<lambda>action. case action of
         RemoveConstraint table c \<Rightarrow> removed_fk_key_of table c
       | ReplaceConstraint table from _ \<Rightarrow> removed_fk_key_of table from
       | _ \<Rightarrow> None) (plan_actions plan)"

definition surviving_of :: "string \<Rightarrow> table_constraint \<Rightarrow> surviving_fk option" where
  "surviving_of owner c =
     (case c of
        ForeignKey name _ ref_table ref_columns _ _ _ \<Rightarrow>
          Some \<lparr>sfk_owner_table = owner, sfk_name = name, sfk_ref_table = ref_table, sfk_ref_columns = ref_columns\<rparr>
      | _ \<Rightarrow> None)"

definition baseline_surviving :: "drop_set \<Rightarrow> removed_fk_key list \<Rightarrow> table_def \<Rightarrow> surviving_fk list" where
  "baseline_surviving drop_set removed table =
     (let owner = tbl_name table in
      if (owner, None) \<in> set drop_set then []
      else List.map_filter (\<lambda>c. case c of
             ForeignKey name columns ref_table _ _ _ _ \<Rightarrow>
               if list_ex (\<lambda>col. (owner, Some col) \<in> set drop_set) columns then None
               else if (owner, name, columns, ref_table) \<in> set removed then None
               else surviving_of owner c
           | _ \<Rightarrow> None) (tbl_constraints table))"

definition plan_surviving :: "drop_set \<Rightarrow> migration_action \<Rightarrow> surviving_fk list" where
  "plan_surviving drop_set action =
     (case action of
        CreateTable table _ constraints \<Rightarrow>
          if (table, None) \<in> set drop_set then [] else List.map_filter (surviving_of table) constraints
      | AddConstraint table c \<Rightarrow>
          if (table, None) \<in> set drop_set then [] else List.map_filter (surviving_of table) [c]
      | _ \<Rightarrow> [])"

definition collect_surviving_fks :: "migration_plan \<Rightarrow> table_def list \<Rightarrow> drop_set \<Rightarrow> surviving_fk list" where
  "collect_surviving_fks plan baseline drop_set =
     concat (map (baseline_surviving drop_set (collect_explicitly_removed_fks plan)) baseline) @
     concat (map (plan_surviving drop_set) (plan_actions plan))"

definition dangling_of :: "drop_set \<Rightarrow> surviving_fk \<Rightarrow> string \<Rightarrow> dangling_fk_drop option" where
  "dangling_of drop_set fk ref_col =
     map_option (\<lambda>dropped.
       \<lparr>dfd_dropped_table = sfk_ref_table fk,
        dfd_dropped_column = (case dropped of WholeTable \<Rightarrow> None | DroppedColumn c \<Rightarrow> Some c),
        dfd_referencing_table = sfk_owner_table fk, dfd_referencing_constraint = sfk_name fk\<rparr>)
       (ref_target_dropped drop_set (sfk_ref_table fk) ref_col)"

text \<open>The derived order of the drops; the \<open>BTreeSet\<close> is iterated in it.\<close>

fun compare_option :: "'a::linorder option \<Rightarrow> 'a option \<Rightarrow> ordering" where
  "compare_option None None = Equal"
| "compare_option None (Some _) = Less"
| "compare_option (Some _) None = Greater"
| "compare_option (Some a) (Some b) = compare a b"

definition then_with :: "ordering \<Rightarrow> ordering \<Rightarrow> ordering" where
  "then_with a b = (if a = Equal then b else a)"

definition dangling_cmp :: "dangling_fk_drop \<Rightarrow> dangling_fk_drop \<Rightarrow> ordering" where
  "dangling_cmp a b =
     then_with (compare (dfd_dropped_table a) (dfd_dropped_table b))
       (then_with (compare_option (dfd_dropped_column a) (dfd_dropped_column b))
         (then_with (compare (dfd_referencing_table a) (dfd_referencing_table b))
           (compare_option (dfd_referencing_constraint a) (dfd_referencing_constraint b))))"

definition find_dangling_fk_drops :: "migration_plan \<Rightarrow> table_def list \<Rightarrow> dangling_fk_drop list" where
  "find_dangling_fk_drops plan baseline =
     (let drop_set = collect_drop_set plan
      in if drop_set = [] then []
         else sort_by dangling_cmp (remdups (concat (map (\<lambda>fk.
           List.map_filter (dangling_of drop_set fk) (sfk_ref_columns fk))
           (collect_surviving_fks plan baseline drop_set)))))"

section \<open>Reports\<close>

lemma drop_set_iff:
  "(t, d) \<in> set (collect_drop_set plan) \<longleftrightarrow>
    (case d of None \<Rightarrow> DeleteTable t | Some c \<Rightarrow> DeleteColumn t c) \<in> set (plan_actions plan)"
proof -
  have "(case a of DeleteTable table \<Rightarrow> Some (table, None) | DeleteColumn table column \<Rightarrow> Some (table, Some column)
      | _ \<Rightarrow> None) = Some (t, d) \<longleftrightarrow> a = (case d of None \<Rightarrow> DeleteTable t | Some c \<Rightarrow> DeleteColumn t c)" for a
    by (cases a; cases d) auto
  then show ?thesis unfolding collect_drop_set_def set_map_filter mem_Collect_eq by simp
qed

lemma drop_set_table: "(t, None) \<in> set (collect_drop_set plan) \<longleftrightarrow> DeleteTable t \<in> set (plan_actions plan)"
  and drop_set_column: "(t, Some c) \<in> set (collect_drop_set plan) \<longleftrightarrow> DeleteColumn t c \<in> set (plan_actions plan)"
  by (simp_all add: drop_set_iff)

lemma no_dangling_iff:
  "find_dangling_fk_drops plan baseline = [] \<longleftrightarrow>
    (\<forall>fk \<in> set (collect_surviving_fks plan baseline (collect_drop_set plan)). \<forall>c \<in> set (sfk_ref_columns fk).
      DeleteTable (sfk_ref_table fk) \<notin> set (plan_actions plan) \<and>
      DeleteColumn (sfk_ref_table fk) c \<notin> set (plan_actions plan))"
proof -
  have "sort_by dangling_cmp xs = [] \<longleftrightarrow> xs = []" for xs
    by (metis length_0_conv length_sort_by)
  then have "find_dangling_fk_drops plan baseline = [] \<longleftrightarrow>
    (\<forall>fk \<in> set (collect_surviving_fks plan baseline (collect_drop_set plan)). \<forall>c \<in> set (sfk_ref_columns fk).
      ref_target_dropped (collect_drop_set plan) (sfk_ref_table fk) c = None)"
    by (auto simp: find_dangling_fk_drops_def Let_def map_filter_empty dangling_of_def ref_target_dropped_def)
  then show ?thesis
    by (auto simp: ref_target_dropped_def drop_set_table drop_set_column)
qed

lemma removed_key_iff:
  "(owner, name, cols, ref) \<in> set (collect_explicitly_removed_fks plan) \<longleftrightarrow>
    (\<exists>rcols od ou os. RemoveConstraint owner (ForeignKey name cols ref rcols od ou os) \<in> set (plan_actions plan) \<or>
      (\<exists>to. ReplaceConstraint owner (ForeignKey name cols ref rcols od ou os) to \<in> set (plan_actions plan)))"
proof -
  have key: "removed_fk_key_of t k = Some (owner, name, cols, ref) \<longleftrightarrow>
      t = owner \<and> (\<exists>rcols od ou os. k = ForeignKey name cols ref rcols od ou os)" for t k
    by (cases k) (auto simp: removed_fk_key_of_def)
  have "(case a of RemoveConstraint table c \<Rightarrow> removed_fk_key_of table c
       | ReplaceConstraint table from _ \<Rightarrow> removed_fk_key_of table from | _ \<Rightarrow> None) = Some (owner, name, cols, ref) \<longleftrightarrow>
      (\<exists>rcols od ou os. a = RemoveConstraint owner (ForeignKey name cols ref rcols od ou os) \<or>
        (\<exists>to. a = ReplaceConstraint owner (ForeignKey name cols ref rcols od ou os) to))" for a
    by (cases a) (auto simp: key)
  then show ?thesis unfolding collect_explicitly_removed_fks_def set_map_filter mem_Collect_eq by metis
qed

lemma baseline_fk_survives:
  assumes "t \<in> set baseline" and "ForeignKey name cols ref rcols od ou os \<in> set (tbl_constraints t)"
    and "DeleteTable (tbl_name t) \<notin> set (plan_actions plan)"
    and "\<forall>c \<in> set cols. DeleteColumn (tbl_name t) c \<notin> set (plan_actions plan)"
    and "(tbl_name t, name, cols, ref) \<notin> set (collect_explicitly_removed_fks plan)"
  shows "\<lparr>sfk_owner_table = tbl_name t, sfk_name = name, sfk_ref_table = ref, sfk_ref_columns = rcols\<rparr>
    \<in> set (collect_surviving_fks plan baseline (collect_drop_set plan))"
proof -
  have "\<lparr>sfk_owner_table = tbl_name t, sfk_name = name, sfk_ref_table = ref, sfk_ref_columns = rcols\<rparr>
    \<in> set (baseline_surviving (collect_drop_set plan) (collect_explicitly_removed_fks plan) t)"
    using assms(3-5) by (auto simp: baseline_surviving_def Let_def drop_set_table set_map_filter surviving_of_def list_ex_iff
        drop_set_column intro!: bexI [OF _ assms(2)])
  then show ?thesis using assms(1) by (auto simp: collect_surviving_fks_def)
qed

section \<open>Plans that only remove\<close>

fun is_removal :: "migration_action \<Rightarrow> bool" where
  "is_removal (DeleteTable _) = True"
| "is_removal (DeleteColumn _ _) = True"
| "is_removal (RemoveConstraint _ _) = True"
| "is_removal _ = False"

definition fks_of :: "table_def \<Rightarrow> table_constraint set" where
  "fks_of t = {k \<in> set (tbl_constraints t). constraint_kind_of k = KindForeignKey}"

definition fks_single_column :: "schema \<Rightarrow> bool" where
  "fks_single_column s \<longleftrightarrow> (\<forall>t \<in> set s. \<forall>k \<in> fks_of t. length (constraint_columns k) = 1)"

text \<open>What is gone from a table after an action, and what a list of removals leaves of a schema.\<close>

definition gone :: "migration_action \<Rightarrow> table_def \<Rightarrow> bool" where
  "gone a t \<longleftrightarrow> a \<noteq> DeleteTable (tbl_name t) \<and>
     (\<forall>k \<in> fks_of t. a \<noteq> RemoveConstraint (tbl_name t) k \<and>
       (\<forall>c \<in> set (constraint_columns k). a \<noteq> DeleteColumn (tbl_name t) c))"

definition shrinks :: "schema \<Rightarrow> migration_action list \<Rightarrow> schema \<Rightarrow> bool" where
  "shrinks s as s' \<longleftrightarrow>
     (\<forall>t' \<in> set s'. (\<forall>a \<in> set as. gone a t') \<and> (\<exists>t \<in> set s. tbl_name t = tbl_name t' \<and> fks_of t' \<subseteq> fks_of t)) \<and>
     (\<forall>t \<in> set s. DeleteTable (tbl_name t) \<notin> set as \<longrightarrow> (\<exists>t' \<in> set s'. tbl_name t' = tbl_name t \<and>
        (\<forall>c \<in> names_of t. DeleteColumn (tbl_name t) c \<notin> set as \<longrightarrow> c \<in> names_of t')))"

lemma gone_mono: "gone a t \<Longrightarrow> tbl_name t' = tbl_name t \<Longrightarrow> fks_of t' \<subseteq> fks_of t \<Longrightarrow> gone a t'"
  unfolding gone_def by auto

lemma shrinks_trans:
  assumes "shrinks s as s1" and "shrinks s1 bs s2"
  shows "shrinks s (as @ bs) s2"
  unfolding shrinks_def
proof (intro conjI ballI impI)
  fix t2 assume "t2 \<in> set s2"
  then obtain t1 where t1: "t1 \<in> set s1" "tbl_name t1 = tbl_name t2" "fks_of t2 \<subseteq> fks_of t1" "\<forall>b \<in> set bs. gone b t2"
    using assms(2) unfolding shrinks_def by blast
  then obtain t where t: "t \<in> set s" "tbl_name t = tbl_name t1" "fks_of t1 \<subseteq> fks_of t" "\<forall>a \<in> set as. gone a t1"
    using assms(1) unfolding shrinks_def by blast
  show "gone a t2" if "a \<in> set (as @ bs)" for a
    using that t(4) t1 gone_mono [of a t1 t2] by auto
  show "\<exists>t \<in> set s. tbl_name t = tbl_name t2 \<and> fks_of t2 \<subseteq> fks_of t"
    using t t1 by auto
next
  fix t assume t: "t \<in> set s" "DeleteTable (tbl_name t) \<notin> set (as @ bs)"
  then obtain t1 where t1: "t1 \<in> set s1" "tbl_name t1 = tbl_name t"
      "\<forall>c \<in> names_of t. DeleteColumn (tbl_name t) c \<notin> set as \<longrightarrow> c \<in> names_of t1"
    using assms(1) unfolding shrinks_def by fastforce
  then obtain t2 where "t2 \<in> set s2" "tbl_name t2 = tbl_name t1"
      "\<forall>c \<in> names_of t1. DeleteColumn (tbl_name t1) c \<notin> set bs \<longrightarrow> c \<in> names_of t2"
    using assms(2) t(2) unfolding shrinks_def by fastforce
  then show "\<exists>t2 \<in> set s2. tbl_name t2 = tbl_name t \<and>
      (\<forall>c \<in> names_of t. DeleteColumn (tbl_name t) c \<notin> set (as @ bs) \<longrightarrow> c \<in> names_of t2)"
    using t1 by auto
qed

lemma shrinks_single: "shrinks s as s' \<Longrightarrow> fks_single_column s \<Longrightarrow> fks_single_column s'"
  unfolding shrinks_def fks_single_column_def by blast

lemma set_update_table:
  assumes "names_distinct s" and "find_table s n = Some t"
  shows "set (update_first (\<lambda>t. tbl_name t = n) (\<lambda>_. t1) s) = insert t1 {u \<in> set s. tbl_name u \<noteq> n}"
  using assms by (induction s) (auto simp: find_table_def image_iff split: if_splits)

lemma shrinks_table:
  assumes "names_distinct s" and "find_table s n = Some t"
    and s': "s' = update_first (\<lambda>t. tbl_name t = n) (\<lambda>_. t1) s" and "tbl_name t1 = n"
    and a: "(\<exists>c. a = DeleteColumn n c) \<or> (\<exists>k. a = RemoveConstraint n k)"
    and "fks_of t1 \<subseteq> fks_of t" and "gone a t1" and "\<forall>c \<in> names_of t. a \<noteq> DeleteColumn n c \<longrightarrow> c \<in> names_of t1"
  shows "shrinks s [a] s'"
proof -
  have set_s': "set s' = insert t1 {u \<in> set s. tbl_name u \<noteq> n}" unfolding s' by (rule set_update_table [OF assms(1,2)])
  have t: "t \<in> set s" "tbl_name t = n" using find_table_Some [OF assms(2)] by auto
  have uniq: "u = t" if "u \<in> set s" "tbl_name u = n" for u
    using that t assms(1) by (auto simp: distinct_map dest: inj_onD)
  have "gone a u" if "tbl_name u \<noteq> n" for u
    using a that by (auto simp: gone_def)
  moreover have "\<exists>t' \<in> set s'. tbl_name t' = tbl_name u \<and>
      (\<forall>c \<in> names_of u. DeleteColumn (tbl_name u) c \<notin> set [a] \<longrightarrow> c \<in> names_of t')" if u: "u \<in> set s" for u
  proof (cases "tbl_name u = n")
    case True
    then have "u = t" using uniq u by blast
    then show ?thesis using assms(4,8) t(2) by (auto simp: set_s')
  qed (use u in \<open>auto simp: set_s'\<close>)
  ultimately show ?thesis
    unfolding shrinks_def using assms(4,6,7) t by (auto simp: set_s')
qed

lemma fks_of_clear_inline: "fks_of (clear_inline_constraint_fields n t k) = fks_of t"
  "names_of (clear_inline_constraint_fields n t k) = names_of t"
proof -
  show "fks_of (clear_inline_constraint_fields n t k) = fks_of t" by (simp add: fks_of_def)
  have "col_name ` set (tbl_columns (clear_inline_constraint_fields n t k)) = col_name ` set (tbl_columns t)"
    unfolding set_map [symmetric] by (simp add: update_simps)
  then show "names_of (clear_inline_constraint_fields n t k) = names_of t" by (simp add: names_of_def)
qed

lemma removal_shrinks:
  assumes "apply_action s a = (Inr (), s')" and "is_removal a" and "names_distinct s" and "fks_single_column s"
  shows "shrinks s [a] s'"
proof (cases a)
  case (DeleteTable n)
  then have "s' = filter (\<lambda>t. tbl_name t \<noteq> n) s" using assms(1) by (auto simp: delete_table_def Let_def split: if_splits)
  then show ?thesis by (auto simp: DeleteTable shrinks_def gone_def)
next
  case (DeleteColumn n c)
  then obtain t where t: "find_table s n = Some t"
    using assms(1) by (auto simp: delete_column_def with_table_def split: option.splits)
  let ?t1 = "t\<lparr>tbl_columns := filter (\<lambda>d. col_name d \<noteq> c) (tbl_columns t),
      tbl_constraints := drop_column_from_constraints c (tbl_constraints t)\<rparr>"
  have name: "tbl_name t = n" and ts: "t \<in> set s" using find_table_Some [OF t] by auto
  have s': "s' = update_first (\<lambda>t. tbl_name t = n) (\<lambda>_. ?t1) s"
    using assms(1) t by (auto simp: DeleteColumn delete_column_def with_table_def Let_def split: if_splits)
  have scrub: "k = k0" if "k \<in> set (scrub_constraint c k0)" "k0 \<in> fks_of t" for k k0
  proof -
    have "length (constraint_columns k0) = 1" using assms(4) that(2) ts by (simp add: fks_single_column_def)
    then show ?thesis using that by (cases k0) (auto simp: fks_of_def scrubbed_def Let_def length_Suc_conv split: if_splits)
  qed
  have sub: "fks_of ?t1 \<subseteq> fks_of t"
  proof
    fix k assume k: "k \<in> fks_of ?t1"
    then obtain k0 where k0: "k0 \<in> set (tbl_constraints t)" "k \<in> set (scrub_constraint c k0)"
      by (auto simp: fks_of_def drop_column_from_constraints_def)
    then have "k0 \<in> fks_of t" using k scrub_constraint_columns [OF k0(2)] by (auto simp: fks_of_def)
    then show "k \<in> fks_of t" using scrub [OF k0(2)] by simp
  qed
  have "gone a ?t1"
    using drop_column_constraints(1) by (fastforce simp: gone_def fks_of_def DeleteColumn name)
  then show ?thesis
    using shrinks_table [OF assms(3) t s', of a] sub by (auto simp: name DeleteColumn names_of_def)
next
  case (RemoveConstraint n k)
  then obtain t where t: "find_table s n = Some t"
    using assms(1) by (auto simp: remove_constraint_def with_table_def split: option.splits)
  let ?t1 = "clear_inline_constraint_fields n (t\<lparr>tbl_constraints := filter (\<lambda>c. c \<noteq> k) (tbl_constraints t)\<rparr>) k"
  have name: "tbl_name t = n" using find_table_Some [OF t] by auto
  have s': "s' = update_first (\<lambda>t. tbl_name t = n) (\<lambda>_. ?t1) s"
    using assms(1) t by (auto simp: RemoveConstraint remove_constraint_def with_table_def)
  have fks: "fks_of ?t1 = fks_of t - {k}" unfolding fks_of_clear_inline by (auto simp: fks_of_def)
  have "names_of ?t1 = names_of t" unfolding fks_of_clear_inline by (simp add: names_of_def)
  moreover have "tbl_name ?t1 = n" by (simp add: name)
  moreover from this have "gone a ?t1" using fks by (auto simp: gone_def RemoveConstraint)
  ultimately show ?thesis
    using shrinks_table [OF assms(3) t s', of a] fks by (auto simp: RemoveConstraint)
qed (use assms(2) in simp_all)

lemma removals_shrink:
  assumes "apply_actions s as = Inr s'" and "list_all is_removal as" and "names_distinct s" and "fks_single_column s"
  shows "shrinks s as s'"
  using assms
proof (induction as arbitrary: s)
  case Nil
  then show ?case by (auto simp: shrinks_def)
next
  case (Cons a as)
  then obtain s1 where s1: "apply_action s a = (Inr (), s1)" "apply_actions s1 as = Inr s'"
    by (auto split: prod.splits sum.splits)
  have step: "shrinks s [a] s1" using removal_shrinks [OF s1(1)] Cons.prems by simp
  have "names_distinct s1" using apply_action_distinct [OF Cons.prems(3), of a] s1(1) by simp
  then have "shrinks s1 as s'" using Cons.IH [OF s1(2)] Cons.prems shrinks_single [OF step] by simp
  then show ?case using shrinks_trans [OF step] by fastforce
qed

text \<open>Every foreign key finds its table and its columns.\<close>

definition fks_resolve :: "schema \<Rightarrow> bool" where
  "fks_resolve s \<longleftrightarrow> (\<forall>t \<in> set s. \<forall>name cols ref rcols od ou os.
     ForeignKey name cols ref rcols od ou os \<in> set (tbl_constraints t) \<longrightarrow>
     (\<exists>u \<in> set s. tbl_name u = ref \<and> set rcols \<subseteq> names_of u))"

text \<open>A foreign key the plan removes by its key is the one that is removed.\<close>

definition removals_exact :: "migration_plan \<Rightarrow> schema \<Rightarrow> bool" where
  "removals_exact plan s \<longleftrightarrow> (\<forall>t \<in> set s. \<forall>name cols ref rcols od ou os.
     ForeignKey name cols ref rcols od ou os \<in> set (tbl_constraints t) \<longrightarrow>
     (tbl_name t, name, cols, ref) \<in> set (collect_explicitly_removed_fks plan) \<longrightarrow>
     RemoveConstraint (tbl_name t) (ForeignKey name cols ref rcols od ou os) \<in> set (plan_actions plan))"

lemma no_dangling_after_removals:
  assumes "find_dangling_fk_drops plan baseline = []" and "apply_actions baseline (plan_actions plan) = Inr s'"
    and "list_all is_removal (plan_actions plan)" and "names_distinct baseline" and "fks_single_column baseline"
    and "fks_resolve baseline" and "removals_exact plan baseline"
    and nonempty: "\<forall>t \<in> set baseline. \<forall>name cols ref rcols od ou os.
      ForeignKey name cols ref rcols od ou os \<in> set (tbl_constraints t) \<longrightarrow> rcols \<noteq> []"
  shows "fks_resolve s'"
  unfolding fks_resolve_def
proof (intro ballI allI impI)
  fix t' name cols ref rcols od ou os
  let ?k = "ForeignKey name cols ref rcols od ou os"
  assume t': "t' \<in> set s'" and k': "?k \<in> set (tbl_constraints t')"
  have sh: "shrinks baseline (plan_actions plan) s'" by (rule removals_shrink [OF assms(2-5)])
  obtain t where t: "t \<in> set baseline" "tbl_name t = tbl_name t'" "fks_of t' \<subseteq> fks_of t" and g: "\<forall>a \<in> set (plan_actions plan). gone a t'"
    using sh t' unfolding shrinks_def by blast
  have kf: "?k \<in> fks_of t'" using k' by (simp add: fks_of_def)
  then have k: "?k \<in> set (tbl_constraints t)" using t(3) by (auto simp: fks_of_def)
  have "DeleteTable (tbl_name t) \<notin> set (plan_actions plan)" "\<forall>c \<in> set cols. DeleteColumn (tbl_name t) c \<notin> set (plan_actions plan)"
    "RemoveConstraint (tbl_name t) ?k \<notin> set (plan_actions plan)"
    using g kf unfolding gone_def t(2) by fastforce+
  then have fk: "\<lparr>sfk_owner_table = tbl_name t, sfk_name = name, sfk_ref_table = ref, sfk_ref_columns = rcols\<rparr>
      \<in> set (collect_surviving_fks plan baseline (collect_drop_set plan))"
    using baseline_fk_survives [OF t(1) k] assms(7) t(1) k unfolding removals_exact_def by blast
  then have kept: "DeleteTable ref \<notin> set (plan_actions plan)" "\<forall>c \<in> set rcols. DeleteColumn ref c \<notin> set (plan_actions plan)"
    using assms(1) nonempty t(1) k unfolding no_dangling_iff by fastforce+
  obtain u where u: "u \<in> set baseline" "tbl_name u = ref" "set rcols \<subseteq> names_of u"
    using assms(6) t(1) k unfolding fks_resolve_def by blast
  then obtain u' where "u' \<in> set s'" "tbl_name u' = ref" "\<forall>c \<in> names_of u. DeleteColumn ref c \<notin> set (plan_actions plan) \<longrightarrow> c \<in> names_of u'"
    using sh kept(1) unfolding shrinks_def by blast
  then show "\<exists>u \<in> set s'. tbl_name u = ref \<and> set rcols \<subseteq> names_of u" using u(3) kept(2) by blast
qed

section \<open>What the scan does not see\<close>

text \<open>
  A column of a composite foreign key is dropped, and so is the table it refers to: the scan takes the
  foreign key for gone, the replay keeps it over the other column.
\<close>

definition composite_child :: table_def where
  "composite_child = \<lparr>tbl_name = ''child'', tbl_description = None,
     tbl_columns = [column_def_new ''a'' (Simple Integer) False, column_def_new ''b'' (Simple Integer) False],
     tbl_constraints = [ForeignKey None [''a'', ''b''] ''parent'' [''x'', ''y''] None None NullifyOrphans]\<rparr>"

definition composite_parent :: table_def where
  "composite_parent = \<lparr>tbl_name = ''parent'', tbl_description = None,
     tbl_columns = [column_def_new ''x'' (Simple Integer) False, column_def_new ''y'' (Simple Integer) False],
     tbl_constraints = [PrimaryKey False [''x'', ''y''] default_pk_addition_strategy]\<rparr>"

definition composite_plan :: migration_plan where
  "composite_plan = \<lparr>plan_id = [], plan_comment = None, plan_created_at = None, plan_version = 1,
     plan_actions = [DeleteColumn ''child'' ''a'', DeleteTable ''parent'']\<rparr>"

lemma composite_fk_left_dangling:
  "find_dangling_fk_drops composite_plan [composite_child, composite_parent] = [] \<and>
   apply_actions [composite_child, composite_parent] (plan_actions composite_plan) =
     Inr [composite_child\<lparr>tbl_columns := [column_def_new ''b'' (Simple Integer) False],
       tbl_constraints := [ForeignKey None [''b''] ''parent'' [''x'', ''y''] None None NullifyOrphans]\<rparr>]"
  by code_simp

text \<open>The foreign key that replaces another is not checked.\<close>

definition replaced_plan :: migration_plan where
  "replaced_plan = \<lparr>plan_id = [], plan_comment = None, plan_created_at = None, plan_version = 1,
     plan_actions = [ReplaceConstraint ''child''
       (ForeignKey None [''a'', ''b''] ''parent'' [''x'', ''y''] None None NullifyOrphans)
       (ForeignKey None [''a'', ''b''] ''parent'' [''x'', ''y''] (Some Cascade) None NullifyOrphans),
       DeleteTable ''parent'']\<rparr>"

lemma replaced_fk_left_dangling:
  "find_dangling_fk_drops replaced_plan [composite_child, composite_parent] = [] \<and>
   apply_actions [composite_child, composite_parent] (plan_actions replaced_plan) =
     Inr [composite_child\<lparr>tbl_constraints :=
       [ForeignKey None [''a'', ''b''] ''parent'' [''x'', ''y''] (Some Cascade) None NullifyOrphans]\<rparr>]"
  by code_simp

end
