(* ===== verification/Plan_Risks.thy ===== *)
theory Plan_Risks
  imports Validate_Plan
begin

text \<open>
  The static scans of a plan for risks of its constraints (\<open>vespertide-planner/src/validate/\<close>):
  dropped constraints, primary keys turned into unique constraints, foreign keys on new and on populated
  columns, changed policies, new primary keys and unique constraints, raw SQL in the history, and drops
  that leave a foreign key dangling.
\<close>

section \<open>Dropped constraints\<close>

definition right_arrow :: string where
  "right_arrow = [CHR 0xE2, CHR 0x86, CHR 0x92]"

record constraint_drop_warning =
  cdw_action_index :: nat
  cdw_table :: string
  cdw_kind :: constraint_kind
  cdw_label :: string
  cdw_columns :: "string list"

definition label_with_name :: "string option \<Rightarrow> string \<Rightarrow> string" where
  "label_with_name name text = (case name of Some n \<Rightarrow> n @ '' '' @ text | None \<Rightarrow> text)"

fun constraint_label :: "table_constraint \<Rightarrow> string" where
  "constraint_label (PrimaryKey _ columns _) = ''PRIMARY KEY ('' @ join_column_names columns '', '' @ '')''"
| "constraint_label (Unique name columns _) =
     label_with_name name (''UNIQUE ('' @ join_column_names columns '', '' @ '')'')"
| "constraint_label (ForeignKey name columns ref_table _ _ _ _) =
     label_with_name name (''FK ('' @ join_column_names columns '', '' @ '') -> '' @ ref_table)"
| "constraint_label (Check name expr _) = name @ '' CHECK ('' @ expr @ '')''"
| "constraint_label (Index name columns) =
     label_with_name name (''INDEX ('' @ join_column_names columns '', '' @ '')'')"

definition constraint_drop_for_action :: "nat \<Rightarrow> migration_action \<Rightarrow> constraint_drop_warning option" where
  "constraint_drop_for_action idx action =
     (case action of
        RemoveConstraint table constraint \<Rightarrow>
          (let kind = constraint_kind_of constraint
           in if kind = KindIndex then None
              else Some \<lparr>cdw_action_index = idx, cdw_table = table, cdw_kind = kind,
                cdw_label = constraint_label constraint, cdw_columns = constraint_columns constraint\<rparr>)
      | _ \<Rightarrow> None)"

definition find_constraint_drops_without_replacement :: "migration_plan \<Rightarrow> constraint_drop_warning list" where
  "find_constraint_drops_without_replacement plan =
     List.map_filter (\<lambda>(idx, action). constraint_drop_for_action idx action) (enumerated (plan_actions plan))"

section \<open>Primary keys and unique constraints that change places\<close>

datatype key_kind = KeyPrimary | KeyUnique

type_synonym constraint_key = "string \<times> string list"

definition constraint_key_new :: "string \<Rightarrow> string list \<Rightarrow> constraint_key" where
  "constraint_key_new table columns = (table, sort columns)"

text \<open>The derived order of a key: by table, then by the column list.\<close>

definition constraint_key_cmp :: "constraint_key \<Rightarrow> constraint_key \<Rightarrow> ordering" where
  "constraint_key_cmp a b =
     (case compare (fst a) (fst b) of Equal \<Rightarrow> compare (snd a) (snd b) | c \<Rightarrow> c)"

fun classify_constraint :: "table_constraint \<Rightarrow> (key_kind \<times> string list) option" where
  "classify_constraint (PrimaryKey _ columns _) = Some (KeyPrimary, columns)"
| "classify_constraint (Unique _ columns _) = Some (KeyUnique, columns)"
| "classify_constraint _ = None"

definition fk_hint_of :: "string \<Rightarrow> string list \<Rightarrow> table_def \<Rightarrow> table_constraint \<Rightarrow> string option" where
  "fk_hint_of target_table target_columns table c =
     (case c of
        ForeignKey name columns ref_table ref_columns _ _ _ \<Rightarrow>
          if ref_table \<noteq> target_table then None
          else if set ref_columns \<noteq> set target_columns then None
          else Some (tbl_name table @ ''.'' @
            (case name of Some n \<Rightarrow> n | None \<Rightarrow> ''('' @ join_column_names columns '', '' @ '')''))
      | _ \<Rightarrow> None)"

definition render_fk_hint :: "table_def list \<Rightarrow> string \<Rightarrow> string list \<Rightarrow> string" where
  "render_fk_hint baseline target_table target_columns =
     (let hits = concat (map (\<lambda>table.
           List.map_filter (fk_hint_of target_table target_columns table) (tbl_constraints table)) baseline)
      in if hits = [] then []
         else ''Foreign keys referencing this column set: '' @ join '', '' hits @ ''.'')"

definition removed_keys :: "migration_plan \<Rightarrow> (constraint_key \<times> key_kind) list" where
  "removed_keys plan =
     List.map_filter (\<lambda>action. case action of
         RemoveConstraint table constraint \<Rightarrow>
           map_option (\<lambda>(kind, columns). (constraint_key_new table columns, kind)) (classify_constraint constraint)
       | _ \<Rightarrow> None) (plan_actions plan)"

definition added_keys :: "migration_plan \<Rightarrow> (constraint_key \<times> key_kind) list" where
  "added_keys plan =
     List.map_filter (\<lambda>action. case action of
         AddConstraint table constraint \<Rightarrow>
           map_option (\<lambda>(kind, columns). (constraint_key_new table columns, kind)) (classify_constraint constraint)
       | _ \<Rightarrow> None) (plan_actions plan)"

text \<open>The maps are filled in plan order, the last entry of a key wins; the loop visits the keys in order.\<close>

definition type_change_of ::
  "table_def list \<Rightarrow> (constraint_key \<times> key_kind) list \<Rightarrow> (constraint_key \<times> key_kind) list \<Rightarrow>
    constraint_key \<Rightarrow> planner_error option" where
  "type_change_of baseline removes adds key =
     (case (map_of (rev removes) key, map_of (rev adds) key) of
        (Some remove_kind, Some add_kind) \<Rightarrow>
          if remove_kind = add_kind then None
          else Some (ConstraintTypeChanged
            (if remove_kind = KeyPrimary then ''PK '' @ right_arrow @ '' UQ'' else ''UQ '' @ right_arrow @ '' PK'')
            (fst key) (join '', '' (snd key)) (render_fk_hint baseline (fst key) (snd key)))
      | _ \<Rightarrow> None)"

definition find_constraint_type_changes :: "migration_plan \<Rightarrow> table_def list \<Rightarrow> planner_error list" where
  "find_constraint_type_changes plan baseline =
     List.map_filter (type_change_of baseline (removed_keys plan) (added_keys plan))
       (sort_by constraint_key_cmp (remdups (map fst (removed_keys plan))))"

definition tables_gaining_pk :: "migration_plan \<Rightarrow> string list" where
  "tables_gaining_pk plan =
     List.map_filter (\<lambda>action. case action of
         AddConstraint table (PrimaryKey _ _ _) \<Rightarrow> Some table
       | CreateTable table _ constraints \<Rightarrow> if list_ex is_primary_key constraints then Some table else None
       | _ \<Rightarrow> None) (plan_actions plan)"

definition tables_dropped :: "migration_plan \<Rightarrow> string list" where
  "tables_dropped plan =
     List.map_filter (\<lambda>action. case action of DeleteTable table \<Rightarrow> Some table | _ \<Rightarrow> None) (plan_actions plan)"

definition find_primary_key_removals :: "migration_plan \<Rightarrow> planner_error list" where
  "find_primary_key_removals plan =
     List.map_filter (\<lambda>action. case action of
         RemoveConstraint table (PrimaryKey _ columns _) \<Rightarrow>
           if table \<in> set (tables_dropped plan) \<or> table \<in> set (tables_gaining_pk plan) then None
           else Some (PrimaryKeyRemovedWithoutReplacement table (join_column_names columns '', ''))
       | _ \<Rightarrow> None) (plan_actions plan)"

section \<open>New foreign keys\<close>

definition added_fk_pairs :: "migration_plan \<Rightarrow> (string \<times> string) list" where
  "added_fk_pairs plan =
     concat (map (\<lambda>action. case action of
         AddConstraint table (ForeignKey _ columns _ _ _ _ _) \<Rightarrow> map (\<lambda>c. (table, c)) columns
       | _ \<Rightarrow> []) (plan_actions plan))"

definition find_addcolumn_fk_nullable_violations :: "migration_plan \<Rightarrow> planner_error list" where
  "find_addcolumn_fk_nullable_violations plan =
     List.map_filter (\<lambda>action. case action of
         AddColumn table column fill_with \<Rightarrow>
           (let has_value = (fill_with \<noteq> None \<or> col_default column \<noteq> None);
                in_inline_fk = (col_foreign_key column \<noteq> None);
                in_paired_fk = list_ex (\<lambda>(t, c). t = table \<and> c = col_name column) (added_fk_pairs plan)
            in if \<not> has_value \<or> col_nullable column then None
               else if in_inline_fk \<or> in_paired_fk
               then Some (AddColumnWithFkRequiresNullable table (col_name column)) else None)
       | _ \<Rightarrow> None) (plan_actions plan)"

record fk_orphan_addition_warning =
  foa_action_index :: nat
  foa_table :: string
  foa_constraint_name :: "string option"
  foa_columns :: "string list"
  foa_ref_table :: string
  foa_ref_columns :: "string list"
  foa_all_columns_nullable :: bool

definition fk_orphan_addition_of ::
  "table_def list \<Rightarrow> nat \<times> migration_action \<Rightarrow> fk_orphan_addition_warning option" where
  "fk_orphan_addition_of baseline entry =
     (case entry of
        (idx, AddConstraint table (ForeignKey name columns ref_table ref_columns _ _ _)) \<Rightarrow>
          (case find_table baseline table of
             None \<Rightarrow> None
           | Some table_def \<Rightarrow>
               let baseline_columns = map col_name (tbl_columns table_def);
                   all_existing = list_all (\<lambda>c. c \<in> set baseline_columns) columns;
                   all_columns_nullable = list_all (\<lambda>c.
                     case find (\<lambda>cd. col_name cd = c) (tbl_columns table_def) of
                       Some cd \<Rightarrow> col_nullable cd | None \<Rightarrow> False) columns
               in if \<not> all_existing then None
                  else Some \<lparr>foa_action_index = idx, foa_table = table, foa_constraint_name = name,
                    foa_columns = columns, foa_ref_table = ref_table, foa_ref_columns = ref_columns,
                    foa_all_columns_nullable = all_columns_nullable\<rparr>)
      | _ \<Rightarrow> None)"

definition find_fk_orphan_additions :: "migration_plan \<Rightarrow> table_def list \<Rightarrow> fk_orphan_addition_warning list" where
  "find_fk_orphan_additions plan baseline =
     List.map_filter (fk_orphan_addition_of baseline) (enumerated (plan_actions plan))"

record policy_delta =
  pd_before :: "reference_action option"
  pd_after :: "reference_action option"

record fk_policy_change_warning =
  fpc_action_index :: nat
  fpc_table :: string
  fpc_constraint_name :: "string option"
  fpc_columns :: "string list"
  fpc_ref_table :: string
  fpc_ref_columns :: "string list"
  fpc_on_delete_change :: "policy_delta option"
  fpc_on_update_change :: "policy_delta option"

fun normalise_policy :: "reference_action option \<Rightarrow> reference_action option" where
  "normalise_policy (Some NoAction) = None"
| "normalise_policy None = None"
| "normalise_policy other = other"

definition diff_policy :: "reference_action option \<Rightarrow> reference_action option \<Rightarrow> policy_delta option" where
  "diff_policy before after =
     (if normalise_policy before = normalise_policy after then None
      else Some \<lparr>pd_before = before, pd_after = after\<rparr>)"

fun render_reference_action :: "reference_action option \<Rightarrow> string" where
  "render_reference_action (Some Cascade) = ''CASCADE''"
| "render_reference_action (Some Restrict) = ''RESTRICT''"
| "render_reference_action (Some SetNull) = ''SET NULL''"
| "render_reference_action (Some SetDefault) = ''SET DEFAULT''"
| "render_reference_action (Some NoAction) = ''NO ACTION''"
| "render_reference_action None = ''NO ACTION''"

definition fk_policy_change_of :: "nat \<times> migration_action \<Rightarrow> fk_policy_change_warning option" where
  "fk_policy_change_of entry =
     (case entry of
        (idx, ReplaceConstraint table
           (ForeignKey from_name from_cols from_ref_table from_ref_cols from_on_delete from_on_update _)
           (ForeignKey to_name to_cols to_ref_table to_ref_cols to_on_delete to_on_update _)) \<Rightarrow>
          (let on_delete_change = diff_policy from_on_delete to_on_delete;
               on_update_change = diff_policy from_on_update to_on_update
           in if on_delete_change = None \<and> on_update_change = None then None
              else Some
                \<lparr>fpc_action_index = idx, fpc_table = table,
                 fpc_constraint_name = (case to_name of Some n \<Rightarrow> Some n | None \<Rightarrow> from_name),
                 fpc_columns = (if to_cols = [] then from_cols else to_cols),
                 fpc_ref_table = (if to_ref_table = [] then from_ref_table else to_ref_table),
                 fpc_ref_columns = (if to_ref_cols = [] then from_ref_cols else to_ref_cols),
                 fpc_on_delete_change = on_delete_change, fpc_on_update_change = on_update_change\<rparr>)
      | _ \<Rightarrow> None)"

definition find_fk_policy_changes :: "migration_plan \<Rightarrow> fk_policy_change_warning list" where
  "find_fk_policy_changes plan = List.map_filter fk_policy_change_of (enumerated (plan_actions plan))"

section \<open>New primary keys\<close>

datatype pk_addition_kind = ExistingColumns | NewColumns | MixedColumns

record primary_key_addition_warning =
  pka_action_index :: nat
  pka_table :: string
  pka_columns :: "string list"
  pka_kind :: pk_addition_kind
  pka_nullable_columns :: "string list"
  pka_duplicate_possible :: bool
  pka_auto_cleanup_capable :: bool

definition pk_addition_kind_of :: "table_def \<Rightarrow> string list \<Rightarrow> pk_addition_kind" where
  "pk_addition_kind_of table_def columns =
     (let n_existing = length (filter (\<lambda>c. c \<in> set (map col_name (tbl_columns table_def))) columns)
      in if n_existing = 0 then NewColumns
         else if n_existing = length columns then ExistingColumns
         else MixedColumns)"

definition pk_nullable_columns :: "table_def \<Rightarrow> string list \<Rightarrow> string list" where
  "pk_nullable_columns table_def columns =
     List.map_filter (\<lambda>c. map_option col_name
       (find (\<lambda>cd. col_name cd = c \<and> col_nullable cd) (tbl_columns table_def))) columns"

definition covered_by_unique :: "table_def \<Rightarrow> string list \<Rightarrow> bool" where
  "covered_by_unique table_def columns =
     list_ex (\<lambda>c. case c of Unique _ uc _ \<Rightarrow> set uc = set columns | _ \<Rightarrow> False) (tbl_constraints table_def)"

definition primary_key_addition_of ::
  "table_def list \<Rightarrow> nat \<times> migration_action \<Rightarrow> primary_key_addition_warning option" where
  "primary_key_addition_of baseline entry =
     (case entry of
        (idx, AddConstraint table (PrimaryKey _ columns _)) \<Rightarrow>
          (case find_table baseline table of
             None \<Rightarrow> None
           | Some table_def \<Rightarrow>
               if pk_addition_kind_of table_def columns \<noteq> ExistingColumns then None
               else
                 let nullable_columns = pk_nullable_columns table_def columns;
                     covered = covered_by_unique table_def columns
                 in if covered \<and> nullable_columns = [] then None
                    else Some \<lparr>pka_action_index = idx, pka_table = table, pka_columns = columns,
                      pka_kind = ExistingColumns, pka_nullable_columns = nullable_columns,
                      pka_duplicate_possible = (\<not> covered),
                      pka_auto_cleanup_capable = (\<not> covered \<and> length columns = 1)\<rparr>)
      | _ \<Rightarrow> None)"

definition find_primary_key_additions :: "migration_plan \<Rightarrow> table_def list \<Rightarrow> primary_key_addition_warning list" where
  "find_primary_key_additions plan baseline =
     List.map_filter (primary_key_addition_of baseline) (enumerated (plan_actions plan))"

section \<open>New unique constraints\<close>

datatype pk_kind =
    SingleAutoCleanupCapable string
  | SingleInsideUniqueSet string
  | CompositePk "string list"
  | NoPk

record fk_reference =
  fkr_child_table :: string
  fkr_constraint_name :: "string option"
  fkr_child_columns :: "string list"

record unique_addition_warning =
  uaw_action_index :: nat
  uaw_table :: string
  uaw_constraint_name :: "string option"
  uaw_columns :: "string list"
  uaw_pk_kind :: pk_kind
  uaw_fk_references :: "fk_reference list"

fun pk_columns_opt :: "table_constraint \<Rightarrow> string list option" where
  "pk_columns_opt (PrimaryKey _ columns _) = Some columns"
| "pk_columns_opt _ = None"

definition inline_pk_columns :: "column_def list \<Rightarrow> string list" where
  "inline_pk_columns columns = map col_name (filter (\<lambda>c. col_primary_key c \<noteq> None) columns)"

definition resolve_pk_kind :: "table_def \<Rightarrow> string list \<Rightarrow> pk_kind" where
  "resolve_pk_kind table_def unique_columns =
     (case (case find_map pk_columns_opt (tbl_constraints table_def) of
              Some cols \<Rightarrow> cols
            | None \<Rightarrow> inline_pk_columns (tbl_columns table_def)) of
        [] \<Rightarrow> NoPk
      | [pk] \<Rightarrow> if pk \<in> set unique_columns then SingleInsideUniqueSet pk else SingleAutoCleanupCapable pk
      | pk_columns \<Rightarrow> CompositePk pk_columns)"

definition fk_reference_of :: "string \<Rightarrow> string list \<Rightarrow> table_def \<Rightarrow> table_constraint \<Rightarrow> fk_reference option" where
  "fk_reference_of target_table target_columns table c =
     (case c of
        ForeignKey name columns ref_table ref_columns _ _ _ \<Rightarrow>
          if ref_table \<noteq> target_table then None
          else if set ref_columns \<noteq> set target_columns then None
          else Some \<lparr>fkr_child_table = tbl_name table, fkr_constraint_name = name, fkr_child_columns = columns\<rparr>
      | _ \<Rightarrow> None)"

definition collect_fk_references :: "table_def list \<Rightarrow> string \<Rightarrow> string list \<Rightarrow> fk_reference list" where
  "collect_fk_references baseline target_table target_columns =
     concat (map (\<lambda>tbl. List.map_filter (fk_reference_of target_table target_columns tbl) (tbl_constraints tbl)) baseline)"

definition unique_addition_of :: "table_def list \<Rightarrow> nat \<times> migration_action \<Rightarrow> unique_addition_warning option" where
  "unique_addition_of baseline entry =
     (case entry of
        (idx, AddConstraint table (Unique name columns _)) \<Rightarrow>
          (case find_table baseline table of
             None \<Rightarrow> None
           | Some table_def \<Rightarrow>
               if \<not> list_all (\<lambda>c. c \<in> set (map col_name (tbl_columns table_def))) columns then None
               else Some \<lparr>uaw_action_index = idx, uaw_table = table, uaw_constraint_name = name,
                 uaw_columns = columns, uaw_pk_kind = resolve_pk_kind table_def columns,
                 uaw_fk_references = collect_fk_references baseline table columns\<rparr>)
      | _ \<Rightarrow> None)"

definition find_unique_additions :: "migration_plan \<Rightarrow> table_def list \<Rightarrow> unique_addition_warning list" where
  "find_unique_additions plan baseline =
     List.map_filter (unique_addition_of baseline) (enumerated (plan_actions plan))"

section \<open>Raw SQL in applied migrations\<close>

record raw_sql_replay_hazard =
  rsh_version :: "32 word"
  rsh_count :: nat

fun is_raw_sql :: "migration_action \<Rightarrow> bool" where
  "is_raw_sql (RawSql _) = True"
| "is_raw_sql _ = False"

definition find_raw_sql_replay_hazards :: "migration_plan list \<Rightarrow> raw_sql_replay_hazard list" where
  "find_raw_sql_replay_hazards plans =
     List.map_filter (\<lambda>plan.
       let count = length (filter is_raw_sql (plan_actions plan))
       in if count > 0 then Some \<lparr>rsh_version = plan_version plan, rsh_count = count\<rparr> else None) plans"

end
