(* ===== verification/Type_Risks.thy ===== *)
theory Type_Risks
  imports Complex_Main Plan_Risks
begin

text \<open>
  The static scans of a plan for risks of types and defaults (\<open>vespertide-planner/src/validate/\<close>): types
  that narrow, time zone conversions, changed defaults, and identity columns that run out of numbers.
  The matrix of narrowing types is compared with the values a type can hold.
\<close>

section \<open>Narrowing types\<close>

datatype narrowing_kind =
    VarcharLength nat nat
  | CharLength nat nat
  | VarcharToCharShorter nat nat
  | CharToVarcharShorter nat nat
  | NumericScale nat nat
  | NumericIntegerDigits nat nat
  | IntegerSize string string
  | FloatSize string string
  | TextToVarchar nat
  | TextToChar nat
  | TimestamptzToTimestamp

fun length_narrowing :: "narrowing_kind \<Rightarrow> bool" where
  "length_narrowing (VarcharLength _ _) = True"
| "length_narrowing (CharLength _ _) = True"
| "length_narrowing (VarcharToCharShorter _ _) = True"
| "length_narrowing (CharToVarcharShorter _ _) = True"
| "length_narrowing (TextToVarchar _) = True"
| "length_narrowing (TextToChar _) = True"
| "length_narrowing _ = False"

definition postgres_impact :: "narrowing_kind \<Rightarrow> string" where
  "postgres_impact k =
     (if length_narrowing k then ''rejects ALTER with '' @ ticked ''value too long'' @ '' if any row violates''
      else case k of
        NumericScale _ _ \<Rightarrow> ''rejects ALTER with '' @ ticked ''numeric field overflow'' @ '' if any row violates''
      | NumericIntegerDigits _ _ \<Rightarrow> ''rejects ALTER with '' @ ticked ''numeric field overflow'' @ '' if any row violates''
      | IntegerSize _ _ \<Rightarrow> ''rejects ALTER with '' @ ticked ''out of range'' @ '' if any row violates''
      | FloatSize _ _ \<Rightarrow> ''silently loses precision (downcast)''
      | _ \<Rightarrow> ''drops timezone; values reinterpreted as session timezone'')"

definition mysql_impact :: "narrowing_kind \<Rightarrow> string" where
  "mysql_impact k =
     (if length_narrowing k then ''SILENTLY truncates values past the new length (warning only)''
      else case k of
        NumericScale _ _ \<Rightarrow> ''silently rounds extra decimal digits''
      | NumericIntegerDigits _ _ \<Rightarrow> ''rejects (or silently clips on non-strict sql_mode)''
      | IntegerSize _ _ \<Rightarrow> ''rejects on strict sql_mode; silently clamps otherwise''
      | FloatSize _ _ \<Rightarrow> ''silently loses precision (downcast)''
      | _ \<Rightarrow> ''rebinds session timezone interpretation'')"

definition sqlite_impact :: "narrowing_kind \<Rightarrow> string" where
  "sqlite_impact k =
     (if length_narrowing k then ''length advisory only '' @ em_dash @ '' no enforcement''
      else case k of
        NumericScale _ _ \<Rightarrow> ''stored as NUMERIC affinity; precision not enforced''
      | NumericIntegerDigits _ _ \<Rightarrow> ''stored as NUMERIC affinity; precision not enforced''
      | IntegerSize _ _ \<Rightarrow> ''INTEGER affinity '' @ em_dash @ '' no size enforcement''
      | FloatSize _ _ \<Rightarrow> ''REAL affinity '' @ em_dash @ '' no size enforcement''
      | _ \<Rightarrow> ''stored as TEXT '' @ em_dash @ '' no timezone semantics'')"

text \<open>\<open>saturating_sub\<close> is the subtraction of natural numbers.\<close>

definition simple_narrowing :: "simple_column_type \<Rightarrow> simple_column_type \<Rightarrow> narrowing_kind option" where
  "simple_narrowing a b =
     (if a = BigInt \<and> b = Integer then Some (IntegerSize ''bigint'' ''integer'')
      else if a = BigInt \<and> b = SmallInt then Some (IntegerSize ''bigint'' ''smallint'')
      else if a = Integer \<and> b = SmallInt then Some (IntegerSize ''integer'' ''smallint'')
      else if a = DoublePrecision \<and> b = Real then Some (FloatSize ''double precision'' ''real'')
      else if a = Timestamptz \<and> b = Timestamp then Some TimestamptzToTimestamp
      else None)"

definition is_narrowing :: "column_type \<Rightarrow> column_type \<Rightarrow> narrowing_kind option" where
  "is_narrowing from to =
     (case (from, to) of
        (Complex (Varchar a), Complex (Varchar b)) \<Rightarrow> if b < a then Some (VarcharLength a b) else None
      | (Complex (CharN a), Complex (CharN b)) \<Rightarrow> if b < a then Some (CharLength a b) else None
      | (Complex (Varchar a), Complex (CharN b)) \<Rightarrow> if b < a then Some (VarcharToCharShorter a b) else None
      | (Complex (CharN a), Complex (Varchar b)) \<Rightarrow> if b < a then Some (CharToVarcharShorter a b) else None
      | (Simple a, Complex (Varchar n)) \<Rightarrow> if a = Text then Some (TextToVarchar n) else None
      | (Simple a, Complex (CharN n)) \<Rightarrow> if a = Text then Some (TextToChar n) else None
      | (Complex (Numeric p1 s1), Complex (Numeric p2 s2)) \<Rightarrow>
          if s2 < s1 then Some (NumericScale s1 s2)
          else if p2 - s2 < p1 - s1 then Some (NumericIntegerDigits (p1 - s1) (p2 - s2))
          else None
      | (Simple a, Simple b) \<Rightarrow> simple_narrowing a b
      | _ \<Rightarrow> None)"

record type_narrowing_warning =
  tnw_action_index :: nat
  tnw_table :: string
  tnw_column :: string
  tnw_kind :: narrowing_kind
  tnw_from_display :: string
  tnw_to_display :: string

definition type_narrowing_of :: "table_def list \<Rightarrow> nat \<times> migration_action \<Rightarrow> type_narrowing_warning option" where
  "type_narrowing_of baseline entry =
     (case entry of
        (idx, ModifyColumnType table column new_type _ _ _) \<Rightarrow>
          (case find_baseline_column baseline table column of
             None \<Rightarrow> None
           | Some c \<Rightarrow>
               map_option (\<lambda>kind.
                 \<lparr>tnw_action_index = idx, tnw_table = table, tnw_column = column, tnw_kind = kind,
                  tnw_from_display = to_display_string (col_type c),
                  tnw_to_display = to_display_string new_type\<rparr>) (is_narrowing (col_type c) new_type))
      | _ \<Rightarrow> None)"

definition find_type_narrowings :: "migration_plan \<Rightarrow> table_def list \<Rightarrow> type_narrowing_warning list" where
  "find_type_narrowings plan baseline =
     List.map_filter (type_narrowing_of baseline) (enumerated (plan_actions plan))"

section \<open>Time zones\<close>

datatype timezone_conversion_direction = NaiveToAware | AwareToNaive

fun timezone_direction_label :: "timezone_conversion_direction \<Rightarrow> string" where
  "timezone_direction_label NaiveToAware = ''timestamp -> timestamptz''"
| "timezone_direction_label AwareToNaive = ''timestamptz -> timestamp''"

record timezone_conversion_warning =
  tzw_action_index :: nat
  tzw_table :: string
  tzw_column :: string
  tzw_direction :: timezone_conversion_direction
  tzw_current_timezone :: "string option"

definition classify_direction :: "column_type \<Rightarrow> column_type \<Rightarrow> timezone_conversion_direction option" where
  "classify_direction from to =
     (if from = Simple Timestamp \<and> to = Simple Timestamptz then Some NaiveToAware
      else if from = Simple Timestamptz \<and> to = Simple Timestamp then Some AwareToNaive
      else None)"

definition timezone_conversion_of ::
  "table_def list \<Rightarrow> nat \<times> migration_action \<Rightarrow> timezone_conversion_warning option" where
  "timezone_conversion_of baseline entry =
     (case entry of
        (idx, ModifyColumnType table column new_type _ _ timezone) \<Rightarrow>
          (case find_baseline_column baseline table column of
             None \<Rightarrow> None
           | Some c \<Rightarrow>
               map_option (\<lambda>direction.
                 \<lparr>tzw_action_index = idx, tzw_table = table, tzw_column = column, tzw_direction = direction,
                  tzw_current_timezone = timezone\<rparr>) (classify_direction (col_type c) new_type))
      | _ \<Rightarrow> None)"

definition find_timezone_conversions :: "migration_plan \<Rightarrow> table_def list \<Rightarrow> timezone_conversion_warning list" where
  "find_timezone_conversions plan baseline =
     List.map_filter (timezone_conversion_of baseline) (enumerated (plan_actions plan))"

section \<open>Changed defaults\<close>

datatype default_change_kind =
    AddedDefault | RemovedDefault | LiteralToLiteral | LiteralToFunction | FunctionToLiteral | FunctionToFunction

datatype risk_level = RiskHigh | RiskMedium | RiskLow

record default_change_warning =
  dcw_action_index :: nat
  dcw_table :: string
  dcw_column :: string
  dcw_old_default :: "string option"
  dcw_new_default :: "string option"
  dcw_kind :: default_change_kind

fun default_risk_level :: "default_change_kind \<Rightarrow> risk_level" where
  "default_risk_level LiteralToFunction = RiskHigh"
| "default_risk_level AddedDefault = RiskMedium"
| "default_risk_level RemovedDefault = RiskMedium"
| "default_risk_level FunctionToLiteral = RiskMedium"
| "default_risk_level LiteralToLiteral = RiskLow"
| "default_risk_level FunctionToFunction = RiskLow"

fun default_change_label :: "default_change_kind \<Rightarrow> string" where
  "default_change_label AddedDefault = ''added default''"
| "default_change_label RemovedDefault = ''removed default''"
| "default_change_label LiteralToLiteral = ''literal '' @ right_arrow @ '' literal''"
| "default_change_label LiteralToFunction = ''literal '' @ right_arrow @ '' function''"
| "default_change_label FunctionToLiteral = ''function '' @ right_arrow @ '' literal''"
| "default_change_label FunctionToFunction = ''function '' @ right_arrow @ '' function''"

definition is_function_expr :: "string \<Rightarrow> bool" where
  "is_function_expr s =
     (let trimmed = trim s in
      if trimmed = [] then False
      else if CHR ''('' \<in> set trimmed then True
      else list_ex (eq_ignore_ascii_case trimmed)
        [''CURRENT_TIMESTAMP'', ''CURRENT_DATE'', ''CURRENT_TIME'', ''LOCALTIMESTAMP'', ''LOCALTIME'',
         ''CURRENT_USER'', ''SESSION_USER''])"

definition classify_default_change :: "string option \<Rightarrow> string option \<Rightarrow> default_change_kind" where
  "classify_default_change old new =
     (case (old, new) of
        (None, Some _) \<Rightarrow> AddedDefault
      | (Some _, None) \<Rightarrow> RemovedDefault
      | (Some o', Some n) \<Rightarrow>
          (case (is_function_expr o', is_function_expr n) of
             (False, True) \<Rightarrow> LiteralToFunction
           | (True, False) \<Rightarrow> FunctionToLiteral
           | (False, False) \<Rightarrow> LiteralToLiteral
           | (True, True) \<Rightarrow> FunctionToFunction)
      | (None, None) \<Rightarrow> LiteralToLiteral)"

definition lookup_old_default :: "table_def list \<Rightarrow> string \<Rightarrow> string \<Rightarrow> string option" where
  "lookup_old_default baseline table column =
     (case find_table baseline table of
        None \<Rightarrow> None
      | Some t \<Rightarrow> (case find (\<lambda>c. col_name c = column) (tbl_columns t) of
            None \<Rightarrow> None
          | Some c \<Rightarrow> map_option to_sql (col_default c)))"

definition collect_columns_with_value_change :: "migration_plan \<Rightarrow> (string \<times> string) list" where
  "collect_columns_with_value_change plan =
     List.map_filter (\<lambda>action. case action of
         ModifyColumnType table column _ _ _ _ \<Rightarrow> Some (table, column)
       | RemapEnumValues table column _ \<Rightarrow> Some (table, column)
       | _ \<Rightarrow> None) (plan_actions plan)"

definition default_change_of ::
  "migration_plan \<Rightarrow> table_def list \<Rightarrow> nat \<times> migration_action \<Rightarrow> default_change_warning option" where
  "default_change_of plan baseline entry =
     (case entry of
        (idx, ModifyColumnDefault table column new_default _) \<Rightarrow>
          if (table, column) \<in> set (collect_columns_with_value_change plan) then None
          else
            let old_default = lookup_old_default baseline table column
            in Some \<lparr>dcw_action_index = idx, dcw_table = table, dcw_column = column,
                 dcw_old_default = old_default, dcw_new_default = new_default,
                 dcw_kind = classify_default_change old_default new_default\<rparr>
      | _ \<Rightarrow> None)"

definition find_default_changes :: "migration_plan \<Rightarrow> table_def list \<Rightarrow> default_change_warning list" where
  "find_default_changes plan baseline =
     List.map_filter (default_change_of plan baseline) (enumerated (plan_actions plan))"

section \<open>Identity columns that run out\<close>

datatype sequence_exhaustion_kind =
    PrimaryExposure
  | PkTypeNarrowing simple_column_type
  | ForeignKeyMismatch string simple_column_type

datatype sequence_risk_level = SequenceHigh | SequenceMedium

record sequence_exhaustion_warning =
  sew_action_index :: nat
  sew_table :: string
  sew_column :: string
  sew_current_type :: simple_column_type
  sew_recommended_type :: simple_column_type
  sew_risk_level :: sequence_risk_level
  sew_kind :: sequence_exhaustion_kind

definition simple_int_type_of :: "column_type \<Rightarrow> simple_column_type option" where
  "simple_int_type_of ty =
     (case ty of Simple s \<Rightarrow> if s = SmallInt \<or> s = Integer \<or> s = BigInt then Some s else None | _ \<Rightarrow> None)"

definition is_risky_int_type :: "simple_column_type \<Rightarrow> bool" where
  "is_risky_int_type ty \<longleftrightarrow> ty = SmallInt \<or> ty = Integer"

fun classify_risky_int_type :: "simple_column_type \<Rightarrow> (simple_column_type \<times> sequence_risk_level) option" where
  "classify_risky_int_type SmallInt = Some (SmallInt, SequenceHigh)"
| "classify_risky_int_type Integer = Some (Integer, SequenceMedium)"
| "classify_risky_int_type _ = None"

fun int_type_rank :: "simple_column_type \<Rightarrow> nat" where
  "int_type_rank SmallInt = 0"
| "int_type_rank Integer = 1"
| "int_type_rank BigInt = 2"
| "int_type_rank _ = 3"

definition is_narrower_than :: "simple_column_type \<Rightarrow> simple_column_type \<Rightarrow> bool" where
  "is_narrower_than child parent \<longleftrightarrow> int_type_rank child < int_type_rank parent"

definition pk_columns_from :: "column_def list \<Rightarrow> table_constraint list \<Rightarrow> string list" where
  "pk_columns_from columns constraints =
     (case find_map pk_columns_opt constraints of
        Some cols \<Rightarrow> cols
      | None \<Rightarrow> inline_pk_columns columns)"

definition single_pk_type_from_create_table ::
  "column_def list \<Rightarrow> table_constraint list \<Rightarrow> simple_column_type option" where
  "single_pk_type_from_create_table columns constraints =
     (case pk_columns_from columns constraints of
        [name] \<Rightarrow> Option.bind (find (\<lambda>c. col_name c = name) columns) (\<lambda>col. simple_int_type_of (col_type col))
      | _ \<Rightarrow> None)"

definition single_pk_column_with_type :: "table_def \<Rightarrow> (string \<times> simple_column_type) option" where
  "single_pk_column_with_type table =
     (case pk_columns_from (tbl_columns table) (tbl_constraints table) of
        [name] \<Rightarrow> Option.bind (find (\<lambda>c. col_name c = name) (tbl_columns table))
          (\<lambda>col. map_option (\<lambda>ty. (name, ty)) (simple_int_type_of (col_type col)))
      | _ \<Rightarrow> None)"

definition risky_single_pk_columns :: "table_def \<Rightarrow> (string \<times> simple_column_type) list" where
  "risky_single_pk_columns table =
     (case single_pk_column_with_type table of
        None \<Rightarrow> []
      | Some (name, ty) \<Rightarrow> if is_risky_int_type ty then [(name, ty)] else [])"

definition single_pk_with_auto_increment ::
  "column_def list \<Rightarrow> table_constraint list \<Rightarrow> (string \<times> simple_column_type) option" where
  "single_pk_with_auto_increment columns constraints =
     (case find_map (\<lambda>c. case c of PrimaryKey True [name] _ \<Rightarrow> Some name | _ \<Rightarrow> None) constraints of
        Some name \<Rightarrow> Option.bind (find (\<lambda>c. col_name c = name) columns)
          (\<lambda>col. map_option (\<lambda>ty. (name, ty)) (simple_int_type_of (col_type col)))
      | None \<Rightarrow> None)"

definition inline_fk_parent_table :: "column_def \<Rightarrow> string option" where
  "inline_fk_parent_table col =
     (case col_foreign_key col of
        None \<Rightarrow> None
      | Some (FkString s) \<Rightarrow> map_option fst (split_once ''.'' s)
      | Some (FkReference r) \<Rightarrow> map_option fst (split_once ''.'' (rs_references r))
      | Some (FkObject d) \<Rightarrow> Some (fkd_ref_table d))"

definition is_single_pk_column :: "table_def \<Rightarrow> string \<Rightarrow> bool" where
  "is_single_pk_column table column \<longleftrightarrow> pk_columns_from (tbl_columns table) (tbl_constraints table) = [column]"

definition sequence_warning ::
  "nat \<Rightarrow> string \<Rightarrow> string \<Rightarrow> simple_column_type \<Rightarrow> sequence_exhaustion_kind \<Rightarrow> sequence_exhaustion_warning list" where
  "sequence_warning idx table column ty kind =
     (case classify_risky_int_type ty of
        None \<Rightarrow> []
      | Some (current, risk) \<Rightarrow>
          [\<lparr>sew_action_index = idx, sew_table = table, sew_column = column, sew_current_type = current,
            sew_recommended_type = BigInt, sew_risk_level = risk, sew_kind = kind\<rparr>])"

text \<open>The map from a table to the integer type of its primary key: the plan's tables overwrite those before.\<close>

definition pk_type_map :: "migration_plan \<Rightarrow> table_def list \<Rightarrow> (string \<times> simple_column_type) list" where
  "pk_type_map plan baseline =
     rev (List.map_filter (\<lambda>t. map_option (\<lambda>(_, ty). (tbl_name t, ty)) (single_pk_column_with_type t)) baseline @
       List.map_filter (\<lambda>action. case action of
           CreateTable table columns constraints \<Rightarrow>
             map_option (\<lambda>ty. (table, ty)) (single_pk_type_from_create_table columns constraints)
         | _ \<Rightarrow> None) (plan_actions plan))"

definition child_narrower_warning ::
  "(string \<times> simple_column_type) list \<Rightarrow> nat \<Rightarrow> string \<Rightarrow> column_def \<Rightarrow> string \<Rightarrow> sequence_exhaustion_warning list" where
  "child_narrower_warning pk_types idx table col parent_table =
     (case (map_of pk_types parent_table, simple_int_type_of (col_type col)) of
        (Some parent_ty, Some child_ty) \<Rightarrow>
          if is_narrower_than child_ty parent_ty
          then sequence_warning idx table (col_name col) child_ty (ForeignKeyMismatch parent_table parent_ty)
          else []
      | _ \<Rightarrow> [])"

definition sequence_risks_of ::
  "migration_plan \<Rightarrow> table_def list \<Rightarrow> nat \<times> migration_action \<Rightarrow> sequence_exhaustion_warning list" where
  "sequence_risks_of plan baseline entry =
     (let risky = concat (map (\<lambda>t. map (\<lambda>(c, _). (tbl_name t, c)) (risky_single_pk_columns t)) baseline);
          pk_types = pk_type_map plan baseline
      in case entry of
           (idx, CreateTable table columns constraints) \<Rightarrow>
             (case single_pk_with_auto_increment columns constraints of
                Some (name, ty) \<Rightarrow> sequence_warning idx table name ty PrimaryExposure
              | None \<Rightarrow> []) @
             concat (map (\<lambda>col. case inline_fk_parent_table col of
                 None \<Rightarrow> []
               | Some parent_table \<Rightarrow> child_narrower_warning pk_types idx table col parent_table) columns)
         | (idx, AddConstraint table (PrimaryKey True [name] _)) \<Rightarrow>
             if (table, name) \<in> set risky then []
             else (case find_baseline_column baseline table name of
                     None \<Rightarrow> []
                   | Some col \<Rightarrow>
                       (case simple_int_type_of (col_type col) of
                          None \<Rightarrow> []
                        | Some ty \<Rightarrow> sequence_warning idx table name ty PrimaryExposure))
         | (idx, AddConstraint table (ForeignKey _ [name] ref_table _ _ _ _)) \<Rightarrow>
             (case find_baseline_column baseline table name of
                None \<Rightarrow> []
              | Some col \<Rightarrow> child_narrower_warning pk_types idx table col ref_table)
         | (idx, ModifyColumnType table column new_type _ _ _) \<Rightarrow>
             (case find_table baseline table of
                None \<Rightarrow> []
              | Some table_def \<Rightarrow>
                  (case find (\<lambda>c. col_name c = column) (tbl_columns table_def) of
                     None \<Rightarrow> []
                   | Some col \<Rightarrow>
                       (case (simple_int_type_of (col_type col), simple_int_type_of new_type) of
                          (Some from_ty, Some to_ty) \<Rightarrow>
                            if from_ty \<noteq> BigInt \<or> \<not> is_risky_int_type to_ty then []
                            else if \<not> is_single_pk_column table_def column then []
                            else sequence_warning idx table column to_ty (PkTypeNarrowing BigInt)
                        | _ \<Rightarrow> [])))
         | _ \<Rightarrow> [])"

definition find_sequence_exhaustion_risks ::
  "migration_plan \<Rightarrow> table_def list \<Rightarrow> sequence_exhaustion_warning list" where
  "find_sequence_exhaustion_risks plan baseline =
     concat (map (sequence_risks_of plan baseline) (enumerated (plan_actions plan)))"

section \<open>The values a type can hold\<close>

datatype stored_value = StoredText string | StoredInt int | StoredDecimal rat

text \<open>A decimal of precision \<open>p\<close> and scale \<open>s\<close> is a number of at most \<open>p\<close> digits, \<open>s\<close> of them after the point.\<close>

definition text_limit :: "column_type \<Rightarrow> nat option" where
  "text_limit ty = (case ty of Complex (Varchar n) \<Rightarrow> Some n | Complex (CharN n) \<Rightarrow> Some n | _ \<Rightarrow> None)"

definition int_bits_of :: "column_type \<Rightarrow> nat option" where
  "int_bits_of ty =
     (if ty = Simple SmallInt then Some 15 else if ty = Simple Integer then Some 31
      else if ty = Simple BigInt then Some 63 else None)"

primrec holds_value :: "stored_value \<Rightarrow> column_type \<Rightarrow> bool" where
  "holds_value (StoredText s) ty \<longleftrightarrow> ty = Simple Text \<or> (\<exists>n. text_limit ty = Some n \<and> length s \<le> n)"
| "holds_value (StoredInt i) ty \<longleftrightarrow> (\<exists>w. int_bits_of ty = Some w \<and> - (2 ^ w) \<le> i \<and> i < 2 ^ w)"
| "holds_value (StoredDecimal q) ty \<longleftrightarrow>
     (\<exists>p s. ty = Complex (Numeric p s) \<and> (\<exists>k :: int. q = of_int k / 10 ^ s \<and> \<bar>k\<bar> < 10 ^ p))"

text \<open>The types whose values compare: text, integers, decimals.\<close>

definition text_type :: "column_type \<Rightarrow> bool" where
  "text_type ty \<longleftrightarrow> ty = Simple Text \<or> text_limit ty \<noteq> None"

definition int_type :: "column_type \<Rightarrow> bool" where
  "int_type ty \<longleftrightarrow> int_bits_of ty \<noteq> None"

definition decimal_type :: "column_type \<Rightarrow> bool" where
  "decimal_type ty \<longleftrightarrow> (\<exists>p s. ty = Complex (Numeric p s) \<and> 0 < p \<and> s \<le> p)"

definition comparable_types :: "column_type \<Rightarrow> column_type \<Rightarrow> bool" where
  "comparable_types a b \<longleftrightarrow>
     text_type a \<and> text_type b \<or> int_type a \<and> int_type b \<or> decimal_type a \<and> decimal_type b"

lemma text_longer: "(\<exists>s :: string. P (length s)) \<longleftrightarrow> (\<exists>n. P n)"
  by (metis length_replicate)

lemma numeric_included:
  assumes "s1 \<le> s2" and "p1 - s1 \<le> p2 - s2" and "s1 \<le> p1" and "s2 \<le> p2" and "\<bar>k\<bar> < (10 :: int) ^ p1"
  shows "\<exists>j. of_int k / (10 :: rat) ^ s1 = of_int j / 10 ^ s2 \<and> \<bar>j\<bar> < 10 ^ p2"
proof (intro exI conjI)
  let ?j = "k * 10 ^ (s2 - s1)"
  have "(10 :: rat) ^ s2 = 10 ^ s1 * 10 ^ (s2 - s1)" using assms(1) by (simp flip: power_add)
  then show "of_int k / (10 :: rat) ^ s1 = of_int ?j / 10 ^ s2" by (simp add: field_simps)
  have "\<bar>?j\<bar> < 10 ^ p1 * 10 ^ (s2 - s1)" using assms(5) by (simp add: abs_mult)
  also have "\<dots> = 10 ^ (p1 + (s2 - s1))" by (simp add: power_add)
  also have "\<dots> \<le> 10 ^ p2" using assms(1-4) by (intro power_increasing) auto
  finally show "\<bar>?j\<bar> < 10 ^ p2" .
qed

lemma numeric_scale_lost:
  assumes "s2 < s1"
  shows "(1 :: rat) / 10 ^ s1 \<noteq> of_int j / 10 ^ s2"
proof
  assume "(1 :: rat) / 10 ^ s1 = of_int j / 10 ^ s2"
  then have "(10 :: rat) ^ s2 = of_int j * 10 ^ s1" by (simp add: field_simps)
  then have "of_int (10 ^ s2) = (of_int (j * 10 ^ s1) :: rat)" by simp
  then have eq: "(10 :: int) ^ s2 = j * 10 ^ s1" by (simp only: of_int_eq_iff)
  have "(10 :: int) ^ s2 < 10 ^ s1" using assms by simp
  moreover have "0 < j" using eq by (metis zero_less_mult_pos2 zero_less_numeral zero_less_power)
  then have "(10 :: int) ^ s1 \<le> j * 10 ^ s1" by simp
  ultimately show False using eq by simp
qed

lemma numeric_digits_lost:
  assumes "s2 \<le> p2" and "\<bar>j\<bar> < (10 :: int) ^ p2"
  shows "(10 :: rat) ^ (p2 - s2) \<noteq> of_int j / 10 ^ s2"
proof
  assume "(10 :: rat) ^ (p2 - s2) = of_int j / 10 ^ s2"
  then have "of_int j = (10 :: rat) ^ (p2 - s2) * 10 ^ s2" by (simp add: field_simps)
  then have "of_int j = (of_int (10 ^ p2) :: rat)" using assms(1) by (simp flip: power_add)
  then have "j = 10 ^ p2" by (simp only: of_int_eq_iff)
  then show False using assms(2) by simp
qed

lemma numeric_narrowing:
  assumes "0 < p1" and "s1 \<le> p1" and "s2 \<le> p2"
  shows "is_narrowing (Complex (Numeric p1 s1)) (Complex (Numeric p2 s2)) \<noteq> None \<longleftrightarrow>
    (\<exists>v. holds_value v (Complex (Numeric p1 s1)) \<and> \<not> holds_value v (Complex (Numeric p2 s2)))"
proof -
  have none: "holds_value v (Complex (Numeric p2 s2))" if "s1 \<le> s2" "p1 - s1 \<le> p2 - s2"
      and v: "holds_value v (Complex (Numeric p1 s1))" for v
    using numeric_included [OF that(1,2) assms(2,3)] v
    by (cases v) (auto simp: text_limit_def int_bits_of_def)
  consider (scale) "s2 < s1" | (digits) "s1 \<le> s2" "p2 - s2 < p1 - s1" | (fits) "s1 \<le> s2" "p1 - s1 \<le> p2 - s2"
    by linarith
  then show ?thesis
  proof cases
    case scale
    have "(1 :: int) < 10 ^ p1" using assms(1) by simp
    then have "holds_value (StoredDecimal (1 / 10 ^ s1)) (Complex (Numeric p1 s1))"
      by (auto intro!: exI [of _ 1])
    moreover have "\<not> holds_value (StoredDecimal (1 / 10 ^ s1)) (Complex (Numeric p2 s2))"
      using numeric_scale_lost [OF scale] by auto
    ultimately show ?thesis using scale by (simp add: is_narrowing_def del: holds_value.simps) blast
  next
    case digits
    let ?q = "(10 :: rat) ^ (p2 - s2)"
    have "?q = of_int (10 ^ (p2 - s2 + s1)) / 10 ^ s1" by (simp add: power_add)
    moreover have "\<bar>(10 :: int) ^ (p2 - s2 + s1)\<bar> < 10 ^ p1" using digits(2) by simp
    ultimately have "holds_value (StoredDecimal ?q) (Complex (Numeric p1 s1))" by auto
    moreover have "\<not> holds_value (StoredDecimal ?q) (Complex (Numeric p2 s2))"
      using numeric_digits_lost [OF assms(3)] by auto
    ultimately show ?thesis using digits by (simp add: is_narrowing_def del: holds_value.simps) blast
  next
    case fits
    then show ?thesis using none by (auto simp: is_narrowing_def)
  qed
qed

lemma text_narrowing:
  assumes "text_type a" and "text_type b"
  shows "is_narrowing a b \<noteq> None \<longleftrightarrow> (\<exists>v. holds_value v a \<and> \<not> holds_value v b)"
proof -
  have text_only: "(\<exists>v. holds_value v a \<and> \<not> holds_value v b) \<longleftrightarrow>
      (\<exists>n. (a = Simple Text \<or> (\<exists>m. text_limit a = Some m \<and> n \<le> m)) \<and>
           \<not> (b = Simple Text \<or> (\<exists>m. text_limit b = Some m \<and> n \<le> m)))"
  proof -
    have "\<not> holds_value (StoredInt i) a" "\<not> holds_value (StoredDecimal q) a" for i q
      using assms(1) by (auto simp: text_type_def text_limit_def int_bits_of_def)
    then have "(\<exists>v. holds_value v a \<and> \<not> holds_value v b) \<longleftrightarrow>
        (\<exists>s. holds_value (StoredText s) a \<and> \<not> holds_value (StoredText s) b)"
      by (metis stored_value.exhaust)
    then show ?thesis
      unfolding holds_value.simps
      using text_longer [of "\<lambda>n. (a = Simple Text \<or> (\<exists>m. text_limit a = Some m \<and> n \<le> m)) \<and>
        \<not> (b = Simple Text \<or> (\<exists>m. text_limit b = Some m \<and> n \<le> m))"] by simp
  qed
  have long: "\<exists>n. \<not> n \<le> m" for m :: nat by (rule exI [of _ "Suc m"]) simp
  have between: "(\<exists>n. n \<le> x \<and> \<not> n \<le> y) \<longleftrightarrow> y < x" for x y :: nat by (metis le_trans not_le order_refl)
  show ?thesis
    unfolding text_only using assms long
    by (auto simp: text_type_def text_limit_def is_narrowing_def simple_narrowing_def between
        split: column_type.splits complex_column_type.splits if_splits)
qed

lemma int_range:
  "(\<exists>i :: int. (- (2 ^ w) \<le> i \<and> i < 2 ^ w) \<and> \<not> (- (2 ^ u) \<le> i \<and> i < 2 ^ u)) \<longleftrightarrow> u < w"
proof
  assume "u < w"
  then have "(2 :: int) ^ u < 2 ^ w" by simp
  moreover have "- (2 ^ w) \<le> (2 :: int) ^ u" by (metis (no_types) neg_le_0_iff_le order_trans zero_le_numeral zero_le_power)
  ultimately show "\<exists>i :: int. (- (2 ^ w) \<le> i \<and> i < 2 ^ w) \<and> \<not> (- (2 ^ u) \<le> i \<and> i < 2 ^ u)"
    by (intro exI [of _ "2 ^ u"]) auto
next
  assume i: "\<exists>i :: int. (- (2 ^ w) \<le> i \<and> i < 2 ^ w) \<and> \<not> (- (2 ^ u) \<le> i \<and> i < 2 ^ u)"
  show "u < w"
  proof (rule ccontr)
    assume "\<not> u < w"
    then have "(2 :: int) ^ w \<le> 2 ^ u" by simp
    moreover obtain x :: int where "- (2 ^ w) \<le> x" "x < 2 ^ w" "\<not> (- (2 ^ u) \<le> x \<and> x < 2 ^ u)" using i by blast
    ultimately show False by linarith
  qed
qed

lemma int_narrowing:
  assumes "int_type a" and "int_type b"
  shows "is_narrowing a b \<noteq> None \<longleftrightarrow> (\<exists>v. holds_value v a \<and> \<not> holds_value v b)"
proof -
  have "(\<exists>v. holds_value v a \<and> \<not> holds_value v b) \<longleftrightarrow> (\<exists>i. holds_value (StoredInt i) a \<and> \<not> holds_value (StoredInt i) b)"
  proof -
    have "\<not> holds_value (StoredText s) a" "\<not> holds_value (StoredDecimal q) a" for s q
      using assms(1) by (auto simp: int_type_def text_limit_def int_bits_of_def split: if_splits)
    then show ?thesis by (metis stored_value.exhaust)
  qed
  also have "\<dots> \<longleftrightarrow> is_narrowing a b \<noteq> None"
    using assms by (auto simp: int_type_def int_bits_of_def is_narrowing_def simple_narrowing_def int_range
        split: if_splits)
  finally show ?thesis by simp
qed

lemma is_narrowing_iff:
  assumes "comparable_types a b"
  shows "is_narrowing a b \<noteq> None \<longleftrightarrow> (\<exists>v. holds_value v a \<and> \<not> holds_value v b)"
  using assms text_narrowing int_narrowing numeric_narrowing
  unfolding comparable_types_def decimal_type_def by blast

end
