(* ===== verification/Drop_Resolution.thy ===== *)
theory Drop_Resolution
  imports Plan_Risks
begin

text \<open>
  Drops that may be renames (\<open>vespertide-planner/src/drop_resolution.rs\<close>): the candidates a drop is
  offered, and the rewriting of a plan once the user has picked one.  What the rewritten actions do to
  the table is proved from the application of actions.
\<close>

section \<open>Candidates\<close>

datatype drop_target =
    DropColumnTarget string string string
  | DropTableTarget string

fun drop_target_label :: "drop_target \<Rightarrow> string" where
  "drop_target_label (DropColumnTarget table column _) = table @ ''.'' @ column"
| "drop_target_label (DropTableTarget name) = name"

datatype match_quality = MatchExact | MatchSameType | MatchDifferent

record rename_candidate =
  rc_target_name :: string
  rc_match_quality :: match_quality
  rc_differences :: "string list"

record drop_resolution =
  dr_action_index :: nat
  dr_target :: drop_target
  dr_candidates :: "rename_candidate list"

definition render_column_type :: "column_def \<Rightarrow> string" where
  "render_column_type c = to_display_string (col_type c) @ (if col_nullable c then [] else '' NOT NULL'')"

definition render_default :: "default_value option \<Rightarrow> string" where
  "render_default d = (case d of Some v \<Rightarrow> to_sql v | None \<Rightarrow> ''(none)'')"

definition arrow_text :: "string \<Rightarrow> string \<Rightarrow> string" where
  "arrow_text a b = a @ '' '' @ right_arrow @ '' '' @ b"

definition column_differences :: "column_def \<Rightarrow> column_def \<Rightarrow> string list" where
  "column_differences dropped added =
     (if col_type dropped \<noteq> col_type added
      then [''type: '' @ arrow_text (render_column_type dropped) (render_column_type added)] else []) @
     (if col_nullable dropped \<noteq> col_nullable added
      then [''nullable: '' @ arrow_text (bool_to_string (col_nullable dropped)) (bool_to_string (col_nullable added))]
      else []) @
     (if \<not> default_option_eq (col_default dropped) (col_default added)
      then [''default: '' @ arrow_text (render_default (col_default dropped)) (render_default (col_default added))]
      else [])"

definition column_candidate :: "column_def option \<Rightarrow> column_def \<Rightarrow> rename_candidate" where
  "column_candidate dropped_opt added =
     (case dropped_opt of
        None \<Rightarrow> \<lparr>rc_target_name = col_name added, rc_match_quality = MatchDifferent,
          rc_differences = [''dropped column not found in baseline'']\<rparr>
      | Some dropped \<Rightarrow>
          let differences = column_differences dropped added
          in \<lparr>rc_target_name = col_name added,
              rc_match_quality = (if differences = [] then MatchExact
                else if col_type dropped = col_type added then MatchSameType else MatchDifferent),
              rc_differences = differences\<rparr>)"

definition table_candidate :: "string list \<Rightarrow> string \<Rightarrow> column_def list \<Rightarrow> rename_candidate" where
  "table_candidate baseline_columns new_name new_columns =
     (let added = map col_name new_columns;
          only_in_baseline = oset (filter (\<lambda>c. c \<notin> set added) baseline_columns);
          only_in_new = oset (filter (\<lambda>c. c \<notin> set baseline_columns) added);
          differences =
            (if only_in_baseline \<noteq> [] then [''removed columns: '' @ join '', '' only_in_baseline] else []) @
            (if only_in_new \<noteq> [] then [''added columns: '' @ join '', '' only_in_new] else [])
      in \<lparr>rc_target_name = new_name,
          rc_match_quality = (if differences = [] then MatchExact else MatchDifferent),
          rc_differences = differences\<rparr>)"

fun match_rank :: "match_quality \<Rightarrow> nat" where
  "match_rank MatchExact = 0"
| "match_rank MatchSameType = 1"
| "match_rank MatchDifferent = 2"

definition candidate_cmp :: "rename_candidate \<Rightarrow> rename_candidate \<Rightarrow> ordering" where
  "candidate_cmp a b =
     (case compare (match_rank (rc_match_quality a)) (match_rank (rc_match_quality b)) of
        Equal \<Rightarrow> compare (rc_target_name a) (rc_target_name b)
      | c \<Rightarrow> c)"

definition sort_candidates :: "rename_candidate list \<Rightarrow> rename_candidate list" where
  "sort_candidates candidates = sort_by candidate_cmp candidates"

definition resolve_column_drop ::
  "nat \<Rightarrow> string \<Rightarrow> string \<Rightarrow> migration_plan \<Rightarrow> table_def list \<Rightarrow> drop_resolution" where
  "resolve_column_drop action_index table column plan baseline =
     (let dropped = find_baseline_column baseline table column;
          column_type = (case dropped of None \<Rightarrow> ''(unknown)'' | Some c \<Rightarrow> render_column_type c);
          candidates = List.map_filter (\<lambda>action. case action of
              AddColumn add_table added _ \<Rightarrow>
                if add_table = table then Some (column_candidate dropped added) else None
            | _ \<Rightarrow> None) (plan_actions plan)
      in \<lparr>dr_action_index = action_index, dr_target = DropColumnTarget table column column_type,
          dr_candidates = sort_candidates candidates\<rparr>)"

definition resolve_table_drop :: "nat \<Rightarrow> string \<Rightarrow> migration_plan \<Rightarrow> table_def list \<Rightarrow> drop_resolution" where
  "resolve_table_drop action_index table plan baseline =
     (let baseline_columns = (case find_table baseline table of
            Some t \<Rightarrow> map col_name (tbl_columns t) | None \<Rightarrow> []);
          candidates = List.map_filter (\<lambda>action. case action of
              CreateTable new_name columns _ \<Rightarrow> Some (table_candidate baseline_columns new_name columns)
            | _ \<Rightarrow> None) (plan_actions plan)
      in \<lparr>dr_action_index = action_index, dr_target = DropTableTarget table,
          dr_candidates = sort_candidates candidates\<rparr>)"

definition find_drop_resolutions :: "migration_plan \<Rightarrow> table_def list \<Rightarrow> drop_resolution list" where
  "find_drop_resolutions plan baseline =
     List.map_filter (\<lambda>(idx, action). case action of
         DeleteColumn table column \<Rightarrow> Some (resolve_column_drop idx table column plan baseline)
       | DeleteTable table \<Rightarrow> Some (resolve_table_drop idx table plan baseline)
       | _ \<Rightarrow> None) (enumerated (plan_actions plan))"

section \<open>Rewriting the plan\<close>

datatype drop_choice = DropIt | RenameTo string

datatype drop_resolution_error =
    DropActionMissing string
  | TargetActionMissing string

text \<open>\<open>Vec::remove\<close> and \<open>Vec::insert\<close>; the indices are in range wherever the code uses them.\<close>

definition remove_at :: "nat \<Rightarrow> 'a list \<Rightarrow> 'a list" where
  "remove_at i xs = take i xs @ drop (Suc i) xs"

definition insert_at :: "nat \<Rightarrow> 'a \<Rightarrow> 'a list \<Rightarrow> 'a list" where
  "insert_at i x xs = take i xs @ x # drop i xs"

definition insert_all_at :: "nat \<Rightarrow> 'a list \<Rightarrow> 'a list \<Rightarrow> 'a list" where
  "insert_all_at i ys xs = fold (\<lambda>(offset, y). insert_at (i + offset) y) (enumerated ys) xs"

text \<open>The changes of the properties of a column, under its name in the new declaration.\<close>

definition column_changes :: "string \<Rightarrow> column_def \<Rightarrow> column_def \<Rightarrow> migration_action list" where
  "column_changes table old new =
     (if col_type old \<noteq> col_type new
      then [ModifyColumnType table (col_name new) (col_type new) None None None] else []) @
     (if col_nullable old \<noteq> col_nullable new
      then [ModifyColumnNullable table (col_name new) (col_nullable new) None None] else []) @
     (if \<not> default_option_eq (col_default old) (col_default new)
      then [ModifyColumnDefault table (col_name new) (map_option to_sql (col_default new)) None] else [])"

fun deletes_column :: "string \<Rightarrow> string \<Rightarrow> migration_action \<Rightarrow> bool" where
  "deletes_column table column (DeleteColumn t c) = (t = table \<and> c = column)"
| "deletes_column table column _ = False"

fun added_column :: "string \<Rightarrow> string \<Rightarrow> migration_action \<Rightarrow> column_def option" where
  "added_column table name (AddColumn t column _) = (if t = table \<and> col_name column = name then Some column else None)"
| "added_column table name _ = None"

definition apply_column_rename ::
  "migration_action list \<Rightarrow> table_def list \<Rightarrow> string \<Rightarrow> string \<Rightarrow> string \<Rightarrow> drop_resolution_error + migration_action list" where
  "apply_column_rename actions baseline table old_column new_column =
     (case position (deletes_column table old_column) actions of
        None \<Rightarrow> Inl (DropActionMissing (''DeleteColumn '' @ table @ ''.'' @ old_column))
      | Some delete_idx \<Rightarrow>
          (case position (\<lambda>a. added_column table new_column a \<noteq> None) actions of
             None \<Rightarrow> Inl (TargetActionMissing (''AddColumn '' @ table @ ''.'' @ new_column))
           | Some add_idx \<Rightarrow>
               let added = the (added_column table new_column (actions ! add_idx));
                   follow_ups = (case find_baseline_column baseline table old_column of
                     Some old \<Rightarrow> column_changes table old added | None \<Rightarrow> []);
                   lo = min delete_idx add_idx;
                   hi = max delete_idx add_idx;
                   rest = remove_at lo (remove_at hi actions)
               in Inr (insert_all_at (lo + 1) follow_ups (insert_at lo (RenameColumn table old_column new_column) rest))))"

fun deletes_table :: "string \<Rightarrow> migration_action \<Rightarrow> bool" where
  "deletes_table name (DeleteTable t) = (t = name)"
| "deletes_table name _ = False"

fun created_table_named :: "string \<Rightarrow> migration_action \<Rightarrow> (column_def list \<times> table_constraint list) option" where
  "created_table_named name (CreateTable t columns constraints) = (if t = name then Some (columns, constraints) else None)"
| "created_table_named name _ = None"

text \<open>The maps by name are collected in order, so the last column of a name stands for it.\<close>

definition column_by_name :: "column_def list \<Rightarrow> string \<Rightarrow> column_def option" where
  "column_by_name columns name = map_of (rev (map (\<lambda>c. (col_name c, c)) columns)) name"

definition diff_renamed_columns :: "string \<Rightarrow> column_def list \<Rightarrow> column_def list \<Rightarrow> migration_action list" where
  "diff_renamed_columns table old new =
     map (\<lambda>c. DeleteColumn table (col_name c)) (filter (\<lambda>c. column_by_name new (col_name c) = None) old) @
     map (\<lambda>c. AddColumn table c None) (filter (\<lambda>c. column_by_name old (col_name c) = None) new) @
     concat (map (\<lambda>c. case column_by_name old (col_name c) of
         Some old_col \<Rightarrow> column_changes table old_col c | None \<Rightarrow> []) new)"

definition diff_renamed_constraints ::
  "string \<Rightarrow> table_constraint list \<Rightarrow> table_constraint list \<Rightarrow> migration_action list" where
  "diff_renamed_constraints table old new =
     map (RemoveConstraint table) (filter (\<lambda>c. c \<notin> set new) old) @
     map (AddConstraint table) (filter (\<lambda>c. c \<notin> set old) new)"

definition apply_table_rename ::
  "migration_action list \<Rightarrow> table_def list \<Rightarrow> string \<Rightarrow> string \<Rightarrow> drop_resolution_error + migration_action list" where
  "apply_table_rename actions baseline old_name new_name =
     (case position (deletes_table old_name) actions of
        None \<Rightarrow> Inl (DropActionMissing (''DeleteTable '' @ old_name))
      | Some delete_idx \<Rightarrow>
          (case position (\<lambda>a. created_table_named new_name a \<noteq> None) actions of
             None \<Rightarrow> Inl (TargetActionMissing (''CreateTable '' @ new_name))
           | Some create_idx \<Rightarrow>
               let (new_columns, new_constraints) = the (created_table_named new_name (actions ! create_idx));
                   follow_ups = RenameTable old_name new_name #
                     (case find_table baseline old_name of
                        Some old \<Rightarrow> diff_renamed_columns new_name (tbl_columns old) new_columns @
                          diff_renamed_constraints new_name (tbl_constraints old) new_constraints
                      | None \<Rightarrow> []);
                   lo = min delete_idx create_idx;
                   hi = max delete_idx create_idx
               in Inr (insert_all_at lo follow_ups (remove_at lo (remove_at hi actions)))))"

definition apply_drop_resolution ::
  "migration_plan \<Rightarrow> table_def list \<Rightarrow> drop_resolution \<Rightarrow> drop_choice \<Rightarrow> drop_resolution_error + migration_plan" where
  "apply_drop_resolution plan baseline resolution choice =
     (case choice of
        DropIt \<Rightarrow> Inr plan
      | RenameTo target \<Rightarrow>
          map_sum id (\<lambda>actions. plan\<lparr>plan_actions := actions\<rparr>)
            (case dr_target resolution of
               DropColumnTarget table column _ \<Rightarrow> apply_column_rename (plan_actions plan) baseline table column target
             | DropTableTarget name \<Rightarrow> apply_table_rename (plan_actions plan) baseline name target))"

section \<open>Candidates are sorted and complete\<close>

lemma insert_all_at_splice:
  assumes "i \<le> length xs"
  shows "insert_all_at i ys xs = take i xs @ ys @ drop i xs"
proof -
  have "fold (\<lambda>(offset, y). insert_at (i + offset) y) (enumerate n ys) zs = take (i + n) zs @ ys @ drop (i + n) zs"
    if "i + n \<le> length zs" for n zs
    using that
  proof (induction ys arbitrary: n zs)
    case (Cons y ys)
    have len: "i + Suc n \<le> length (insert_at (i + n) y zs)" using Cons.prems by (simp add: insert_at_def)
    have "take (i + Suc n) (insert_at (i + n) y zs) = take (i + n) zs @ [y]"
      "drop (i + Suc n) (insert_at (i + n) y zs) = drop (i + n) zs"
      using Cons.prems by (simp_all add: insert_at_def min_def)
    then show ?case using Cons.IH [OF len] by simp
  qed simp
  from this [of 0 xs] show ?thesis using assms by (simp add: insert_all_at_def enumerated_def)
qed

lemma resolve_column_complete:
  "AddColumn table c f \<in> set (plan_actions plan) \<Longrightarrow>
   column_candidate (find_baseline_column baseline table column) c
     \<in> set (dr_candidates (resolve_column_drop i table column plan baseline))"
  by (force simp: resolve_column_drop_def Let_def sort_candidates_def set_map_filter)

lemma exact_candidate_iff:
  "rc_match_quality (column_candidate (Some d) c) = MatchExact \<longleftrightarrow>
     col_type d = col_type c \<and> col_nullable d = col_nullable c \<and> default_option_eq (col_default d) (col_default c)"
  by (simp add: column_candidate_def column_differences_def Let_def)

section \<open>A renamed column takes the properties of the new declaration\<close>

definition renamed_like :: "column_def \<Rightarrow> column_def \<Rightarrow> column_def" where
  "renamed_like added c =
     c\<lparr>col_name := col_name added, col_type := col_type added, col_nullable := col_nullable added,
       col_default := if default_option_eq (col_default c) (col_default added) then col_default c
         else map_option (\<lambda>d. DefString (to_sql d)) (col_default added)\<rparr>"

lemma with_column_table:
  assumes "find_table s n = Some t" and "c \<in> col_name ` set (tbl_columns t)"
  shows "\<exists>s'. with_column s n c f = (Inr (), s') \<and>
    find_table s' n = Some (t\<lparr>tbl_columns := update_first (\<lambda>d. col_name d = c) f (tbl_columns t)\<rparr>) \<and>
    (\<forall>m. m \<noteq> n \<longrightarrow> find_table s' m = find_table s m)"
  using assms find_table_Some [OF assms(1)]
  by (auto simp: with_column_def with_table_def list_ex_iff find_table_update image_iff)

lemma apply_actions_append_ok:
  "apply_actions s as = Inr s1 \<Longrightarrow> apply_actions s (as @ bs) = apply_actions s1 bs"
  by (induction as arbitrary: s) (auto split: prod.splits sum.splits)

lemma update_first_twice:
  "(\<And>x. P x \<Longrightarrow> P (f x)) \<Longrightarrow> update_first P g (update_first P f xs) = update_first P (\<lambda>x. g (f x)) xs"
  by (induction xs) auto

lemma update_first_cong_found:
  "(\<And>x. find P xs = Some x \<Longrightarrow> f x = g x) \<Longrightarrow> update_first P f xs = update_first P g xs"
  by (induction xs) auto

lemma update_first_id: "update_first P (\<lambda>x. x) xs = xs"
  by (induction xs) auto

lemma update_first_renamed:
  assumes "new \<notin> col_name ` set cols"
  shows "update_first (\<lambda>c. col_name c = new) g (update_first (\<lambda>c. col_name c = old) (\<lambda>c. c\<lparr>col_name := new\<rparr>) cols) =
    update_first (\<lambda>c. col_name c = old) (\<lambda>c. g (c\<lparr>col_name := new\<rparr>)) cols"
  using assms by (induction cols) auto

lemma names_update_first: "(\<And>d. col_name (f d) = col_name d) \<Longrightarrow> col_name ` set (update_first P f cols) = col_name ` set cols"
  by (induction cols) auto

text \<open>One optional change of a column.\<close>

lemma optional_change:
  assumes "find_table s n = Some t" and "c \<in> col_name ` set (tbl_columns t)"
    and "\<And>s. apply_action s a = with_column s n c f"
  shows "\<exists>s'. apply_actions s (if b then [a] else []) = Inr s' \<and>
    find_table s' n = Some (t\<lparr>tbl_columns := update_first (\<lambda>d. col_name d = c) (\<lambda>d. if b then f d else d) (tbl_columns t)\<rparr>) \<and>
    (\<forall>m. m \<noteq> n \<longrightarrow> find_table s' m = find_table s m)"
proof (cases b)
  case True
  then show ?thesis using with_column_table [OF assms(1,2), of f] by (auto simp: assms(3))
qed (simp add: assms(1) update_first_id)

definition changed_like :: "column_def \<Rightarrow> column_def \<Rightarrow> column_def \<Rightarrow> column_def" where
  "changed_like old added c =
     (let c1 = (if col_type old \<noteq> col_type added then c\<lparr>col_type := col_type added\<rparr> else c);
          c2 = (if col_nullable old \<noteq> col_nullable added then c1\<lparr>col_nullable := col_nullable added\<rparr> else c1)
      in if \<not> default_option_eq (col_default old) (col_default added)
         then c2\<lparr>col_default := map_option DefString (map_option to_sql (col_default added))\<rparr> else c2)"

lemma column_changes_effect:
  assumes "find_table s n = Some t" and "col_name added \<in> col_name ` set (tbl_columns t)"
  shows "\<exists>s'. apply_actions s (column_changes n old added) = Inr s' \<and>
    find_table s' n = Some (t\<lparr>tbl_columns := update_first (\<lambda>d. col_name d = col_name added) (changed_like old added) (tbl_columns t)\<rparr>) \<and>
    (\<forall>m. m \<noteq> n \<longrightarrow> find_table s' m = find_table s m)"
proof -
  let ?new = "col_name added"
  let ?P = "\<lambda>d. col_name d = ?new"
  let ?b1 = "col_type old \<noteq> col_type added" and ?b2 = "col_nullable old \<noteq> col_nullable added"
    and ?b3 = "\<not> default_option_eq (col_default old) (col_default added)"
  let ?f1 = "\<lambda>d. if ?b1 then d\<lparr>col_type := col_type added\<rparr> else d"
  let ?f2 = "\<lambda>d. if ?b2 then d\<lparr>col_nullable := col_nullable added\<rparr> else d"
  let ?f3 = "\<lambda>d. if ?b3 then d\<lparr>col_default := map_option DefString (map_option to_sql (col_default added))\<rparr> else d"
  obtain s1 where s1: "apply_actions s (if ?b1 then [ModifyColumnType n ?new (col_type added) None None None] else []) = Inr s1"
      "find_table s1 n = Some (t\<lparr>tbl_columns := update_first ?P ?f1 (tbl_columns t)\<rparr>)"
      "\<forall>m. m \<noteq> n \<longrightarrow> find_table s1 m = find_table s m"
    using optional_change [OF assms, where a = "ModifyColumnType n ?new (col_type added) None None None"
        and f = "\<lambda>d. d\<lparr>col_type := col_type added\<rparr>"] by (auto simp: modify_column_type_def)
  have n1: "?new \<in> col_name ` set (tbl_columns (t\<lparr>tbl_columns := update_first ?P ?f1 (tbl_columns t)\<rparr>))"
    using assms(2) by (simp add: names_update_first)
  obtain s2 where s2: "apply_actions s1 (if ?b2 then [ModifyColumnNullable n ?new (col_nullable added) None None] else []) = Inr s2"
      "find_table s2 n = Some (t\<lparr>tbl_columns := update_first ?P ?f2 (update_first ?P ?f1 (tbl_columns t))\<rparr>)"
      "\<forall>m. m \<noteq> n \<longrightarrow> find_table s2 m = find_table s1 m"
    using optional_change [OF s1(2) n1, where a = "ModifyColumnNullable n ?new (col_nullable added) None None"
        and f = "\<lambda>d. d\<lparr>col_nullable := col_nullable added\<rparr>"] by (auto simp: modify_column_nullable_def)
  have n2: "?new \<in> col_name ` set (tbl_columns (t\<lparr>tbl_columns := update_first ?P ?f2 (update_first ?P ?f1 (tbl_columns t))\<rparr>))"
    using assms(2) by (simp add: names_update_first)
  obtain s3 where s3: "apply_actions s2 (if ?b3 then [ModifyColumnDefault n ?new (map_option to_sql (col_default added)) None] else []) = Inr s3"
      "find_table s3 n = Some (t\<lparr>tbl_columns := update_first ?P ?f3 (update_first ?P ?f2 (update_first ?P ?f1 (tbl_columns t)))\<rparr>)"
      "\<forall>m. m \<noteq> n \<longrightarrow> find_table s3 m = find_table s2 m"
    using optional_change [OF s2(2) n2, where a = "ModifyColumnDefault n ?new (map_option to_sql (col_default added)) None"
        and f = "\<lambda>d. d\<lparr>col_default := map_option DefString (map_option to_sql (col_default added))\<rparr>"]
    by (auto simp: modify_column_default_def)
  have "apply_actions s (column_changes n old added) = Inr s3"
    unfolding column_changes_def using apply_actions_append_ok [OF s1(1)] apply_actions_append_ok [OF s2(1)] s3(1)
    by simp
  moreover have "update_first ?P ?f3 (update_first ?P ?f2 (update_first ?P ?f1 (tbl_columns t))) =
      update_first ?P (changed_like old added) (tbl_columns t)"
    by (simp add: update_first_twice changed_like_def [abs_def] Let_def)
  ultimately show ?thesis using s1(3) s2(3) s3 by auto
qed

lemma changed_like_renamed:
  "changed_like old added (old\<lparr>col_name := col_name added\<rparr>) = renamed_like added old"
  by (cases old) (auto simp: changed_like_def renamed_like_def Let_def option.map_comp comp_def)

lemma column_rename_effect:
  assumes t: "find_table s n = Some t" and old: "find_baseline_column s n old_name = Some old"
    and fresh: "col_name added \<notin> col_name ` set (tbl_columns t)"
  shows "\<exists>s'. apply_actions s (RenameColumn n old_name (col_name added) # column_changes n old added) = Inr s' \<and>
    find_table s' n = Some (t\<lparr>tbl_columns := update_first (\<lambda>c. col_name c = old_name) (renamed_like added) (tbl_columns t),
      tbl_constraints := rename_column_in_constraints old_name (col_name added) (tbl_constraints t)\<rparr>) \<and>
    (\<forall>m. m \<noteq> n \<longrightarrow> find_table s' m = find_table s m)"
proof -
  let ?new = "col_name added"
  have found: "find (\<lambda>c. col_name c = old_name) (tbl_columns t) = Some old" using old t by (simp add: find_baseline_column_def)
  then have mem: "old \<in> set (tbl_columns t)" "col_name old = old_name" by (auto simp: find_Some_iff)
  let ?t1 = "t\<lparr>tbl_columns := update_first (\<lambda>c. col_name c = old_name) (\<lambda>c. c\<lparr>col_name := ?new\<rparr>) (tbl_columns t),
      tbl_constraints := rename_column_in_constraints old_name ?new (tbl_constraints t)\<rparr>"
  have name: "tbl_name t = n" using find_table_Some [OF t] by simp
  have "rename_column s n old_name ?new = (Inr (), update_first (\<lambda>t. tbl_name t = n) (\<lambda>_. ?t1) s)"
    using t mem by (auto simp: rename_column_def with_table_def list_ex_iff)
  then obtain s1 where s1: "apply_action s (RenameColumn n old_name ?new) = (Inr (), s1)" "find_table s1 n = Some ?t1"
      "\<forall>m. m \<noteq> n \<longrightarrow> find_table s1 m = find_table s m"
    using t name by (auto simp: find_table_update)
  have "?new \<in> col_name ` set (update_first (\<lambda>c. col_name c = old_name) (\<lambda>c. c\<lparr>col_name := ?new\<rparr>) cols)"
    if "find (\<lambda>c. col_name c = old_name) cols = Some old" for cols
    using that by (induction cols) (auto split: if_splits)
  then have "?new \<in> col_name ` set (tbl_columns ?t1)" using found by simp
  then obtain s2 where s2: "apply_actions s1 (column_changes n old added) = Inr s2"
      "find_table s2 n = Some (?t1\<lparr>tbl_columns := update_first (\<lambda>d. col_name d = ?new) (changed_like old added) (tbl_columns ?t1)\<rparr>)"
      "\<forall>m. m \<noteq> n \<longrightarrow> find_table s2 m = find_table s1 m"
    using column_changes_effect [OF s1(2), of added old] by blast
  have "update_first (\<lambda>d. col_name d = ?new) (changed_like old added) (tbl_columns ?t1) =
      update_first (\<lambda>c. col_name c = old_name) (renamed_like added) (tbl_columns t)"
    using update_first_renamed [OF fresh, of "changed_like old added" old_name] found changed_like_renamed
    by (auto intro!: update_first_cong_found)
  then show ?thesis using s1 s2 by auto
qed

text \<open>Where the rename stands in the rewritten plan.\<close>

lemma position_split: "(\<forall>x \<in> set xs. \<not> P x) \<Longrightarrow> P y \<Longrightarrow> position P (xs @ y # zs) = Some (length xs)"
  by (induction xs) auto

lemma splice_two:
  assumes "i < j" and "j < length xs"
  shows "insert_all_at (i + 1) ys (insert_at i y (remove_at i (remove_at j xs))) =
    take i xs @ y # ys @ take (j - Suc i) (drop (Suc i) xs) @ drop (Suc j) xs"
proof -
  have r: "remove_at i (remove_at j xs) = take i xs @ take (j - Suc i) (drop (Suc i) xs) @ drop (Suc j) xs"
    using assms by (simp add: remove_at_def drop_take min_def)
  have "insert_at i y (remove_at i (remove_at j xs)) = take i xs @ y # take (j - Suc i) (drop (Suc i) xs) @ drop (Suc j) xs"
    unfolding r using assms by (simp add: insert_at_def)
  then show ?thesis using assms by (simp add: insert_all_at_splice)
qed

lemma column_rename_splice:
  assumes "\<forall>a \<in> set (xs @ ys). \<not> deletes_column n old_name a \<and> added_column n new_name a = None"
    and "find_baseline_column s n old_name = Some old" and "col_name added = new_name"
  shows "apply_column_rename (xs @ DeleteColumn n old_name # ys @ AddColumn n added f # zs) s n old_name new_name =
      Inr (xs @ RenameColumn n old_name new_name # column_changes n old added @ ys @ zs)"
    and "apply_column_rename (xs @ AddColumn n added f # ys @ DeleteColumn n old_name # zs) s n old_name new_name =
      Inr (xs @ RenameColumn n old_name new_name # column_changes n old added @ ys @ zs)"
proof -
  let ?as = "xs @ DeleteColumn n old_name # ys @ AddColumn n added f # zs"
  have "position (deletes_column n old_name) ?as = Some (length xs)"
    using assms(1) by (intro position_split) auto
  moreover have "position (\<lambda>a. added_column n new_name a \<noteq> None) ((xs @ DeleteColumn n old_name # ys) @ AddColumn n added f # zs)
      = Some (length (xs @ DeleteColumn n old_name # ys))"
    using assms(1,3) by (intro position_split) auto
  ultimately show "apply_column_rename ?as s n old_name new_name =
      Inr (xs @ RenameColumn n old_name new_name # column_changes n old added @ ys @ zs)"
    using splice_two [of "length xs" "length xs + Suc (length ys)" ?as] assms(2,3)
    by (simp add: apply_column_rename_def Let_def nth_append)
next
  let ?as = "xs @ AddColumn n added f # ys @ DeleteColumn n old_name # zs"
  have "position (deletes_column n old_name) ((xs @ AddColumn n added f # ys) @ DeleteColumn n old_name # zs) =
      Some (length (xs @ AddColumn n added f # ys))"
    using assms(1) by (intro position_split) auto
  moreover have "position (\<lambda>a. added_column n new_name a \<noteq> None) ?as = Some (length xs)"
    using assms(1,3) by (intro position_split) auto
  ultimately show "apply_column_rename ?as s n old_name new_name =
      Inr (xs @ RenameColumn n old_name new_name # column_changes n old added @ ys @ zs)"
    using splice_two [of "length xs" "length xs + Suc (length ys)" ?as] assms(2,3)
    by (simp add: apply_column_rename_def Let_def nth_append)
qed

lemma resolved_rename_replays:
  assumes "find_table s n = Some t" and "find_baseline_column s n old_name = Some old"
    and "col_name added \<notin> col_name ` set (tbl_columns t)"
    and "actions = [DeleteColumn n old_name, AddColumn n added f] \<or> actions = [AddColumn n added f, DeleteColumn n old_name]"
  shows "\<exists>rewritten s'. apply_column_rename actions s n old_name (col_name added) = Inr rewritten \<and>
    apply_actions s rewritten = Inr s' \<and>
    find_table s' n = Some (t\<lparr>tbl_columns := update_first (\<lambda>c. col_name c = old_name) (renamed_like added) (tbl_columns t),
      tbl_constraints := rename_column_in_constraints old_name (col_name added) (tbl_constraints t)\<rparr>) \<and>
    (\<forall>m. m \<noteq> n \<longrightarrow> find_table s' m = find_table s m)"
  using column_rename_splice [of "[]" "[]" n old_name "col_name added" s old added f "[]", OF _ assms(2)]
    column_rename_effect [OF assms(1-3)] assms(4)
  by (elim disjE) (simp_all del: apply_actions.simps apply_action.simps)

text \<open>The comment of the new declaration is lost.\<close>

lemma rename_keeps_comment: "col_comment (renamed_like added c) = col_comment c"
  by (simp add: renamed_like_def)

end
