(* ===== verification/Sql_Statement.thy ===== *)
theory Sql_Statement
  imports Apply_Action
begin

text \<open>
  The statements that query generation produces: \<open>crates/vespertide-query/src/sql/types.rs\<close> and
  \<open>error.rs\<close>.  Most statements are values of the external crate sea-query, made by calls of its
  builders; a datatype here records those calls, in their order, and nothing of what sea-query does with
  them.  The text of such a statement is a parameter, the \<open>renderer\<close>.
\<close>

section \<open>Backends and errors\<close>

datatype database_backend = Postgres | MySql | Sqlite

fun debug_backend :: "database_backend \<Rightarrow> string" where
  "debug_backend Postgres = ''Postgres''"
| "debug_backend MySql = ''MySql''"
| "debug_backend Sqlite = ''Sqlite''"

datatype query_error =
    UnsupportedConstraint
  | InvalidColumnType database_backend string
  | SchemaError string
  | BackendError database_backend string
  | UnsupportedAction string
  | OtherError string

fun display_query_error :: "query_error \<Rightarrow> string" where
  "display_query_error UnsupportedConstraint = ''unsupported table constraint''"
| "display_query_error (InvalidColumnType b m) = ''invalid column type for '' @ debug_backend b @ '': '' @ m"
| "display_query_error (SchemaError m) = ''schema error: '' @ m"
| "display_query_error (BackendError b m) = ''backend error ('' @ debug_backend b @ ''): '' @ m"
| "display_query_error (UnsupportedAction m) = ''unsupported action: '' @ m"
| "display_query_error (OtherError m) = m"

section \<open>The builder calls\<close>

datatype sea_type =
    SeaSmallInteger | SeaInteger | SeaBigInteger | SeaFloat | SeaDouble | SeaText | SeaBoolean
  | SeaDate | SeaTime | SeaTimestamp | SeaTimestampTz | SeaInterval | SeaBinary | SeaUuid | SeaJson
  | SeaCustom string
  | SeaStringLen nat
  | SeaDecimalLen nat nat
  | SeaCharLen nat
  | SeaEnumeration string "string list"

datatype sea_spec = SpecNotNull | SpecDefault string | SpecPrimaryKey | SpecAutoIncrement

record sea_column =
  sc_name :: string
  sc_type :: sea_type
  sc_specs :: "sea_spec list"

datatype sea_fk_action = FkCascade | FkRestrict | FkSetNull | FkSetDefault | FkNoAction

record sea_foreign_key =
  sfk_key_name :: string
  sfk_from_table :: string
  sfk_from_columns :: "string list"
  sfk_to_table :: string
  sfk_to_columns :: "string list"
  sfk_on_delete :: "sea_fk_action option"
  sfk_on_update :: "sea_fk_action option"

text \<open>An index inside \<open>CREATE TABLE\<close> has no table of its own.\<close>

record sea_index =
  six_name :: string
  six_table :: "string option"
  six_unique :: bool
  six_columns :: "string list"

datatype sea_table_element =
    ElemPrimaryKey "string list"
  | ElemIndex sea_index
  | ElemForeignKey sea_foreign_key

record sea_create_table =
  sct_table :: string
  sct_columns :: "sea_column list"
  sct_elements :: "sea_table_element list"

datatype sea_alter =
    AlterAddColumn sea_column
  | AlterModifyColumn sea_column
  | AlterDropColumn string
  | AlterRenameColumn string string

datatype sea_expr = ExprCust string | ExprVal string

datatype sea_select_item = SelectColumn string | SelectExprAs sea_expr string

record sea_insert =
  sin_table :: string
  sin_columns :: "string list"
  sin_select :: "sea_select_item list"
  sin_from :: string

text \<open>\<open>SET column = value\<close>, with an optional \<open>WHERE column = value\<close>.\<close>

record sea_update =
  sup_table :: string
  sup_column :: string
  sup_value :: sea_expr
  sup_where :: "(string \<times> string) option"

section \<open>Built queries\<close>

record raw_sql =
  raw_postgres :: string
  raw_mysql :: string
  raw_sqlite :: string

definition raw_uniform :: "string \<Rightarrow> raw_sql" where
  "raw_uniform sql = \<lparr>raw_postgres = sql, raw_mysql = sql, raw_sqlite = sql\<rparr>"

definition raw_per_backend :: "string \<Rightarrow> string \<Rightarrow> string \<Rightarrow> raw_sql" where
  "raw_per_backend postgres mysql sqlite = \<lparr>raw_postgres = postgres, raw_mysql = mysql, raw_sqlite = sqlite\<rparr>"

definition raw_postgres_only :: "string \<Rightarrow> raw_sql" where
  "raw_postgres_only sql = \<lparr>raw_postgres = sql, raw_mysql = [], raw_sqlite = []\<rparr>"

datatype built_query =
    QCreateTable sea_create_table
  | QDropTable string
  | QAlterTable string sea_alter
  | QCreateIndex sea_index
  | QDropIndex string string
  | QRenameTable string string
  | QCreateForeignKey sea_foreign_key
  | QDropForeignKey string string
  | QInsert sea_insert
  | QUpdate sea_update
  | QRaw raw_sql

type_synonym renderer = "database_backend \<Rightarrow> built_query \<Rightarrow> string"

fun raw_for :: "database_backend \<Rightarrow> raw_sql \<Rightarrow> string" where
  "raw_for Postgres raw = raw_postgres raw"
| "raw_for MySql raw = raw_mysql raw"
| "raw_for Sqlite raw = raw_sqlite raw"

text \<open>\<open>BuiltQuery::build\<close>: raw text is taken as it is, everything else goes through sea-query.\<close>

definition build_text :: "renderer \<Rightarrow> built_query \<Rightarrow> database_backend \<Rightarrow> string" where
  "build_text render q backend = (case q of QRaw raw \<Rightarrow> raw_for backend raw | _ \<Rightarrow> render backend q)"

abbreviation raw :: "string \<Rightarrow> built_query" where
  "raw sql \<equiv> QRaw (raw_uniform sql)"

type_synonym queries = "query_error + built_query list"

end
