(* ===== verification/Sql_Text.thy ===== *)
theory Sql_Text
  imports Sql_Statement Naming
begin

text \<open>
  The pieces of SQL text: quoted identifiers, default values and fill values per backend, of
  \<open>crates/vespertide-query/src/sql/helpers.rs\<close> and \<open>sql/fill_with.rs\<close>.  Texts are lists of bytes; every
  byte the code looks for is ASCII.
\<close>

section \<open>Identifiers\<close>

fun ident_delim :: "database_backend \<Rightarrow> char" where
  "ident_delim MySql = CHR 0x60"
| "ident_delim _ = CHR 0x22"

text \<open>The fast path of the code, for a name without the delimiter, is the same function on such names.\<close>

definition quote_ident :: "string \<Rightarrow> database_backend \<Rightarrow> string" where
  "quote_ident name backend =
     (let delim = ident_delim backend
      in if delim \<notin> set name then [delim] @ name @ [delim]
         else [delim] @ concat (map (\<lambda>c. if c = delim then [delim, delim] else [c]) name) @ [delim])"

definition quote_idents :: "string list \<Rightarrow> database_backend \<Rightarrow> string" where
  "quote_idents names backend = join '', '' (map (\<lambda>n. quote_ident n backend) names)"

definition build_pg_alter_column_sql :: "string \<Rightarrow> string \<Rightarrow> string \<Rightarrow> string" where
  "build_pg_alter_column_sql table column suffix =
     ''ALTER TABLE '' @ quote_ident table Postgres @ '' ALTER COLUMN '' @ quote_ident column Postgres @ '' '' @ suffix"

section \<open>Casts\<close>

definition UUID_FUNCTION_SPELLINGS :: "string list" where
  "UUID_FUNCTION_SPELLINGS = [''gen_random_uuid()'', ''uuid()'', ''lower(hex(randomblob(16)))'']"

definition TIMESTAMP_FUNCTION_SPELLINGS :: "string list" where
  "TIMESTAMP_FUNCTION_SPELLINGS = [''current_timestamp()'', ''now()'', ''current_timestamp'', ''getdate()'']"

definition matches_any_spelling :: "string \<Rightarrow> string list \<Rightarrow> bool" where
  "matches_any_spelling value spellings = list_ex (\<lambda>s. eq_ignore_ascii_case value s) spellings"

record cast_scan =
  cs_in_quote :: bool
  cs_depth :: nat
  cs_pending :: "nat option"
  cs_last :: "nat option"

definition cast_step :: "cast_scan \<Rightarrow> nat \<times> char \<Rightarrow> cast_scan" where
  "cast_step s entry =
     (let (index, byte) = entry in
      if cs_in_quote s then
        s\<lparr>cs_in_quote := (byte \<noteq> CHR 0x27), cs_pending := None\<rparr>
      else if byte = CHR 0x27 then s\<lparr>cs_in_quote := True, cs_pending := None\<rparr>
      else if byte = CHR ''('' then s\<lparr>cs_depth := cs_depth s + 1, cs_pending := None\<rparr>
      else if byte = CHR '')'' then s\<lparr>cs_depth := cs_depth s - 1, cs_pending := None\<rparr>
      else if byte = CHR '':'' then
        (case cs_pending s of
           Some start \<Rightarrow> s\<lparr>cs_pending := None, cs_last := (if cs_depth s = 0 then Some start else cs_last s)\<rparr>
         | None \<Rightarrow> s\<lparr>cs_pending := Some index\<rparr>)
      else s\<lparr>cs_pending := None\<rparr>)"

definition cast_start :: cast_scan where
  "cast_start = \<lparr>cs_in_quote = False, cs_depth = 0, cs_pending = None, cs_last = None\<rparr>"

definition find_last_top_level_cast :: "string \<Rightarrow> nat option" where
  "find_last_top_level_cast expr =
     (let s = foldl cast_step cast_start (enumerated expr)
      in if cs_in_quote s then None else cs_last s)"

definition parse_pg_type_cast :: "string \<Rightarrow> (string \<times> string) option" where
  "parse_pg_type_cast expr =
     (let trimmed = trim expr
      in case find_last_top_level_cast trimmed of
           None \<Rightarrow> None
         | Some split \<Rightarrow>
             (let value = trim (take split trimmed);
                  cast_type = to_lowercase (trim (drop (split + 2) trimmed))
              in if value = [] \<or> cast_type = [] then None else Some (value, cast_type)))"

definition pg_type_to_mysql_cast :: "string \<Rightarrow> string" where
  "pg_type_to_mysql_cast pg_type =
     (if pg_type \<in> {''json'', ''jsonb''} then ''JSON''
      else if pg_type \<in> {''integer'', ''int'', ''int4'', ''smallint'', ''int2'', ''bigint'', ''int8''} then ''SIGNED''
      else if pg_type \<in> {''real'', ''float4'', ''double precision'', ''float8'', ''numeric'', ''decimal''} then ''DECIMAL''
      else if pg_type \<in> {''boolean'', ''bool''} then ''UNSIGNED''
      else if pg_type = ''date'' then ''DATE''
      else if pg_type = ''time'' then ''TIME''
      else if pg_type \<in> {''timestamp'', ''timestamptz'', ''timestamp with time zone'', ''timestamp without time zone''}
        then ''DATETIME''
      else if pg_type = ''bytea'' then ''BINARY''
      else ''CHAR'')"

fun convert_type_cast :: "string \<Rightarrow> string \<Rightarrow> database_backend \<Rightarrow> string" where
  "convert_type_cast value cast_type Postgres = value @ ''::'' @ cast_type"
| "convert_type_cast value cast_type MySql = ''CAST('' @ value @ '' AS '' @ pg_type_to_mysql_cast cast_type @ '')''"
| "convert_type_cast value cast_type Sqlite = value"

text \<open>The split is inside the text, so that what is left of it is shorter.\<close>

definition scan_below :: "nat \<Rightarrow> cast_scan \<Rightarrow> bool" where
  "scan_below n s \<longleftrightarrow> (\<forall>i. cs_pending s = Some i \<or> cs_last s = Some i \<longrightarrow> i < n)"

lemma cast_step_below: "scan_below n s \<Longrightarrow> i < n \<Longrightarrow> scan_below n (cast_step s (i, c))"
  by (auto simp: scan_below_def cast_step_def Let_def split: option.splits if_splits)

lemma cast_fold_below:
  "scan_below n s \<Longrightarrow> \<forall>e \<in> set es. fst e < n \<Longrightarrow> scan_below n (foldl cast_step s es)"
proof (induction es arbitrary: s)
  case (Cons e es)
  then show ?case using cast_step_below [of n s "fst e" "snd e"] by simp
qed simp

lemma find_last_top_level_cast_bound:
  assumes "find_last_top_level_cast expr = Some i"
  shows "i < length expr"
proof -
  have "\<forall>e \<in> set (enumerated expr). fst e < length expr"
    by (auto simp: enumerated_def in_set_enumerate_eq)
  then have "scan_below (length expr) (foldl cast_step cast_start (enumerated expr))"
    by (intro cast_fold_below) (auto simp: scan_below_def cast_start_def)
  then show ?thesis using assms by (auto simp: find_last_top_level_cast_def scan_below_def Let_def split: if_splits)
qed

lemma length_trim_le: "length (trim s) \<le> length s"
  unfolding trim_def trim_start_def trim_end_def
  by (metis length_dropWhile_le length_rev le_trans)

lemma parse_pg_type_cast_shorter:
  assumes "parse_pg_type_cast expr = Some (value, cast_type)"
  shows "length value < length expr"
proof -
  obtain i where i: "find_last_top_level_cast (trim expr) = Some i" "value = trim (take i (trim expr))"
    using assms by (auto simp: parse_pg_type_cast_def Let_def split: option.splits if_splits)
  have "length value \<le> i" using i(2) length_trim_le [of "take i (trim expr)"] by simp
  also have "i < length (trim expr)" by (rule find_last_top_level_cast_bound [OF i(1)])
  also have "\<dots> \<le> length expr" by (rule length_trim_le)
  finally show ?thesis .
qed

function convert_cast_chain :: "string \<Rightarrow> string \<Rightarrow> database_backend \<Rightarrow> string" where
  "convert_cast_chain value cast_type backend =
     (let inner = (case parse_pg_type_cast value of
            Some (inner_value, inner_cast) \<Rightarrow> convert_cast_chain inner_value inner_cast backend
          | None \<Rightarrow> value)
      in convert_type_cast inner cast_type backend)"
  by pat_completeness auto
termination by (relation "measure (length \<circ> fst)") (auto dest: parse_pg_type_cast_shorter)

declare convert_cast_chain.simps [simp del]

section \<open>Default values\<close>

definition convert_default_for_backend :: "string \<Rightarrow> database_backend \<Rightarrow> string" where
  "convert_default_for_backend dflt backend =
     (if matches_any_spelling dflt UUID_FUNCTION_SPELLINGS then
        (case backend of Postgres \<Rightarrow> ''gen_random_uuid()'' | MySql \<Rightarrow> ''(UUID())'' | Sqlite \<Rightarrow> ''lower(hex(randomblob(16)))'')
      else if matches_any_spelling dflt TIMESTAMP_FUNCTION_SPELLINGS then ''CURRENT_TIMESTAMP''
      else case parse_pg_type_cast dflt of
             Some (value, cast_type) \<Rightarrow> convert_cast_chain value cast_type backend
           | None \<Rightarrow> dflt)"

definition is_enum_type :: "column_type \<Rightarrow> bool" where
  "is_enum_type ty = (case ty of Complex (Enum _ _) \<Rightarrow> True | _ \<Rightarrow> False)"

definition needs_quoting :: "string \<Rightarrow> bool" where
  "needs_quoting default_str =
     (let trimmed = trim default_str
      in if trimmed = [] then True
         else if hd trimmed = CHR 0x27 \<or> hd trimmed = CHR 0x22 then False
         else if CHR ''('' \<in> set trimmed \<or> CHR '')'' \<in> set trimmed then False
         else if eq_ignore_ascii_case trimmed ''null'' then False
         else if eq_ignore_ascii_case trimmed ''current_timestamp'' \<or> eq_ignore_ascii_case trimmed ''current_date'' \<or>
                 eq_ignore_ascii_case trimmed ''current_time'' then False
         else True)"

definition normalize_enum_default :: "column_type \<Rightarrow> string \<Rightarrow> string" where
  "normalize_enum_default ty value =
     (if is_enum_type ty \<and> needs_quoting value then CHR 0x27 # value @ [CHR 0x27] else value)"

section \<open>Fill values\<close>

definition normalize_fill_with :: "string option \<Rightarrow> string option" where
  "normalize_fill_with fill_with = map_option (\<lambda>s. if s = [] then [CHR 0x27, CHR 0x27] else s) fill_with"

definition COMPOSITE_SQL_KEYWORDS :: "string list" where
  "COMPOSITE_SQL_KEYWORDS =
     [''case'', ''when'', ''then'', ''else'', ''end'', ''select'', ''from'', ''where'', ''union'', ''join'', ''between'']"

definition is_one_complete_quoted_literal :: "string \<Rightarrow> bool" where
  "is_one_complete_quoted_literal value =
     (foldl (\<lambda>s byte. case s of
          None \<Rightarrow> None
        | Some in_quote \<Rightarrow> if byte = CHR 0x27 then Some (\<not> in_quote) else if \<not> in_quote then None else Some in_quote)
        (Some False) value = Some False)"

definition is_single_sql_atom :: "string \<Rightarrow> bool" where
  "is_single_sql_atom value =
     (if value = [] then False
      else if hd value = CHR 0x27 then is_one_complete_quoted_literal value
      else \<not> list_ex (\<lambda>c. is_whitespace c \<or>
             c \<in> {CHR ''('', CHR '')'', CHR '','', CHR '';'', CHR 0x27, CHR 0x22}) value)"

text \<open>\<open>str::split\<close> at the characters with a property.\<close>

fun split_at :: "(char \<Rightarrow> bool) \<Rightarrow> string \<Rightarrow> string list" where
  "split_at p [] = [[]]"
| "split_at p (c # cs) = (if p c then [] # split_at p cs else (case split_at p cs of w # ws \<Rightarrow> (c # w) # ws | [] \<Rightarrow> [[c]]))"

definition contains_composite_keyword :: "string \<Rightarrow> bool" where
  "contains_composite_keyword value =
     list_ex (\<lambda>word. matches_any_spelling word COMPOSITE_SQL_KEYWORDS)
       (split_at (\<lambda>c. \<not> is_ascii_alphanumeric c \<and> c \<noteq> CHR ''_'') value)"

definition is_simple_literal_fill :: "string \<Rightarrow> bool" where
  "is_simple_literal_fill fill =
     (let trimmed = trim fill
      in if matches_any_spelling trimmed UUID_FUNCTION_SPELLINGS \<or> matches_any_spelling trimmed TIMESTAMP_FUNCTION_SPELLINGS
         then True
         else if contains_composite_keyword trimmed then False
         else is_single_sql_atom (case find_last_top_level_cast trimmed of
                Some split \<Rightarrow> trim (take split trimmed)
              | None \<Rightarrow> trimmed))"

definition convert_fill_with_for_backend :: "string \<Rightarrow> database_backend \<Rightarrow> string" where
  "convert_fill_with_for_backend fill backend =
     (if backend = Postgres \<or> \<not> is_simple_literal_fill fill then fill else convert_default_for_backend fill backend)"

end
