(* ===== verification/Sql_Reading.thy ===== *)
theory Sql_Reading
  imports Sql_Text
begin

text \<open>
  What the text helpers promise: a quoted identifier reads back as the name, a default for SQLite has no
  cast left, and a cast literal keeps its text on every backend.
\<close>

section \<open>Quoted identifiers read back\<close>

text \<open>How SQL reads a quoted identifier: a doubled delimiter stands for one, a single one closes.\<close>

fun read_delimited :: "char \<Rightarrow> string \<Rightarrow> (string \<times> string) option" where
  "read_delimited q [] = None"
| "read_delimited q [c] = (if c = q then Some ([], []) else None)"
| "read_delimited q (c # d # s) =
     (if c = q
      then (if d = q then map_option (\<lambda>(b, r). (c # b, r)) (read_delimited q s) else Some ([], d # s))
      else map_option (\<lambda>(b, r). (c # b, r)) (read_delimited q (d # s)))"

fun read_ident :: "database_backend \<Rightarrow> string \<Rightarrow> (string \<times> string) option" where
  "read_ident b [] = None"
| "read_ident b (c # s) = (if c = ident_delim b then read_delimited (ident_delim b) s else None)"

definition doubled :: "char \<Rightarrow> string \<Rightarrow> string" where
  "doubled q s = concat (map (\<lambda>c. if c = q then [q, q] else [c]) s)"

lemma doubled_simps [simp]:
  "doubled q [] = []"
  "doubled q (c # s) = (if c = q then [q, q] else [c]) @ doubled q s"
  by (simp_all add: doubled_def)

lemma doubled_plain: "q \<notin> set s \<Longrightarrow> doubled q s = s"
  by (induction s) auto

lemma quote_ident_doubled: "quote_ident name b = ident_delim b # doubled (ident_delim b) name @ [ident_delim b]"
  by (simp add: quote_ident_def Let_def doubled_plain) (simp add: doubled_def)

lemma read_delimited_plain:
  "c \<noteq> q \<Longrightarrow> s \<noteq> [] \<Longrightarrow> read_delimited q (c # s) = map_option (\<lambda>(b, r). (c # b, r)) (read_delimited q s)"
  by (cases s) auto

lemma read_delimited_doubled:
  assumes "rest = [] \<or> hd rest \<noteq> q"
  shows "read_delimited q (doubled q s @ q # rest) = Some (s, rest)"
proof (induction s)
  case Nil
  from assms show ?case by (cases rest) auto
next
  case (Cons c s)
  then show ?case by (cases "c = q") (simp_all add: read_delimited_plain)
qed

lemma quote_ident_reads_back:
  assumes "rest = [] \<or> hd rest \<noteq> ident_delim b"
  shows "read_ident b (quote_ident name b @ rest) = Some (name, rest)"
  using read_delimited_doubled [OF assms] by (simp add: quote_ident_doubled)

section \<open>No cast is left on SQLite\<close>

lemma cast_chain_sqlite: "parse_pg_type_cast (convert_cast_chain v t Sqlite) = None"
proof (induction v t Sqlite rule: convert_cast_chain.induct)
  case (1 v t)
  then show ?case
    by (cases "parse_pg_type_cast v") (auto simp: convert_cast_chain.simps [of v t])
qed

lemma special_defaults_castless:
  "parse_pg_type_cast ''lower(hex(randomblob(16)))'' = None"
  "parse_pg_type_cast ''CURRENT_TIMESTAMP'' = None"
  by code_simp+

lemma default_sqlite_castless: "parse_pg_type_cast (convert_default_for_backend d Sqlite) = None"
  using cast_chain_sqlite special_defaults_castless
  by (auto simp: convert_default_for_backend_def split: option.splits)

section \<open>A cast literal keeps its text\<close>

definition sql_literal :: "string \<Rightarrow> string" where
  "sql_literal s = CHR 0x27 # escape_sql_string_literal s @ [CHR 0x27]"

lemma sql_literal_doubled: "sql_literal s = CHR 0x27 # doubled (CHR 0x27) s @ [CHR 0x27]"
  by (simp add: sql_literal_def escape_is_quote_doubled quote_doubled_def doubled_def)

definition quiet :: "bool \<Rightarrow> nat option \<Rightarrow> cast_scan" where
  "quiet q l = \<lparr>cs_in_quote = q, cs_depth = 0, cs_pending = None, cs_last = l\<rparr>"

lemma cast_step_quiet:
  "cast_step (quiet True l) (i, c) = quiet (c \<noteq> CHR 0x27) l"
  "cast_step (quiet False l) (i, CHR 0x27) = quiet True l"
  by (simp_all add: quiet_def cast_step_def)

lemma scan_doubled:
  "foldl cast_step (quiet True l) (enumerate n (doubled (CHR 0x27) s)) = quiet True l"
  by (induction s arbitrary: n) (simp_all add: cast_step_quiet)

lemma scan_literal: "foldl cast_step (quiet False l) (enumerate n (sql_literal s)) = quiet False l"
  by (simp add: sql_literal_doubled enumerate_append_eq scan_doubled cast_step_quiet)

lemma cast_start_quiet: "cast_start = quiet False None"
  by (simp add: cast_start_def quiet_def)

definition cast_name :: "string \<Rightarrow> bool" where
  "cast_name t \<longleftrightarrow> t \<noteq> [] \<and> trim t = t \<and> (\<forall>c \<in> set t. c \<noteq> CHR 0x27 \<and> c \<noteq> CHR '':'')"

lemma scan_cast_name:
  assumes "\<forall>c \<in> set t. c \<noteq> CHR 0x27 \<and> c \<noteq> CHR '':''" and "\<not> cs_in_quote s"
  shows "\<not> cs_in_quote (foldl cast_step s (enumerate n t)) \<and> cs_last (foldl cast_step s (enumerate n t)) = cs_last s"
  using assms
proof (induction t arbitrary: s n)
  case (Cons c t)
  have "\<not> cs_in_quote (cast_step s (n, c))" "cs_last (cast_step s (n, c)) = cs_last s"
    using Cons.prems by (auto simp: cast_step_def)
  then show ?case using Cons.IH [of "cast_step s (n, c)" "Suc n"] Cons.prems by simp
qed simp

lemma find_cast_of_literal:
  assumes "\<forall>c \<in> set t. c \<noteq> CHR 0x27 \<and> c \<noteq> CHR '':''"
  shows "find_last_top_level_cast (sql_literal s @ ''::'' @ t) = Some (length (sql_literal s))"
proof -
  let ?n = "length (sql_literal s)"
  let ?q = "quiet False (Some ?n)"
  have colons: "cast_step (cast_step (quiet False None) (?n, CHR '':'')) (Suc ?n, CHR '':'') = ?q"
    by (simp add: quiet_def cast_step_def)
  have "foldl cast_step cast_start (enumerated (sql_literal s @ ''::'' @ t)) =
      foldl cast_step ?q (enumerate (Suc (Suc ?n)) t)"
    by (simp add: enumerated_def enumerate_append_eq cast_start_quiet scan_literal colons)
  moreover have "\<not> cs_in_quote ?q" "cs_last ?q = Some ?n" by (simp_all add: quiet_def)
  ultimately show ?thesis
    using scan_cast_name [OF assms, of ?q] by (simp add: find_last_top_level_cast_def Let_def)
qed

lemma no_cast_in_literal: "find_last_top_level_cast (sql_literal s) = None"
  using scan_literal [of None 0 s]
  by (simp add: find_last_top_level_cast_def enumerated_def cast_start_quiet quiet_def)

lemma trim_ends:
  assumes "s \<noteq> []" and "\<not> is_whitespace (hd s)" and "\<not> is_whitespace (last s)"
  shows "trim s = s"
proof -
  have "trim_start s = s" using assms(1,2) by (cases s) (simp_all add: trim_start_def)
  moreover have "trim_end s = s" using assms(1,3) by (cases s rule: rev_cases) (simp_all add: trim_end_def)
  ultimately show ?thesis by (simp add: trim_def)
qed

lemma trim_literal: "trim (sql_literal s) = sql_literal s"
  by (rule trim_ends) (simp_all add: sql_literal_def is_whitespace_def is_ascii_whitespace_def)

lemma trim_casted:
  assumes "cast_name t"
  shows "trim (sql_literal s @ ''::'' @ t) = sql_literal s @ ''::'' @ t"
proof (rule trim_ends)
  have t: "t \<noteq> []" "trim t = t" using assms by (auto simp: cast_name_def)
  obtain u where u: "t = rev (dropWhile is_whitespace u)"
    using t(2) by (metis trim_def trim_end_def)
  then have "dropWhile is_whitespace u \<noteq> []" using t(1) by auto
  then have "\<not> is_whitespace (last t)" using u by (simp add: last_rev hd_dropWhile)
  with t(1) show "\<not> is_whitespace (last (sql_literal s @ ''::'' @ t))" by simp
qed (simp_all add: sql_literal_def is_whitespace_def is_ascii_whitespace_def)

lemma parse_casted_literal:
  assumes "cast_name t"
  shows "parse_pg_type_cast (sql_literal s @ ''::'' @ t) = Some (sql_literal s, to_lowercase t)"
proof -
  have t: "t \<noteq> []" "trim t = t" "\<forall>c \<in> set t. c \<noteq> CHR 0x27 \<and> c \<noteq> CHR '':''" using assms by (auto simp: cast_name_def)
  have "to_lowercase t \<noteq> []" using t(1) by (simp add: to_lowercase_def)
  moreover have "sql_literal s \<noteq> []" by (simp add: sql_literal_def)
  ultimately show ?thesis
    using trim_casted [OF assms, of s] find_cast_of_literal [OF t(3), of s] t(2)
    by (simp add: parse_pg_type_cast_def trim_literal)
qed

lemma no_spelling_of_literal:
  "\<not> matches_any_spelling (sql_literal s @ r) UUID_FUNCTION_SPELLINGS"
  "\<not> matches_any_spelling (sql_literal s @ r) TIMESTAMP_FUNCTION_SPELLINGS"
  by (simp_all add: matches_any_spelling_def UUID_FUNCTION_SPELLINGS_def TIMESTAMP_FUNCTION_SPELLINGS_def
      eq_ignore_ascii_case_def sql_literal_def to_lowercase_def to_ascii_lowercase_def is_ascii_uppercase_def)

lemma casted_literal_converted:
  assumes "cast_name t"
  shows "convert_default_for_backend (sql_literal s @ ''::'' @ t) b =
    (case b of
       Postgres \<Rightarrow> sql_literal s @ ''::'' @ to_lowercase t
     | MySql \<Rightarrow> ''CAST('' @ sql_literal s @ '' AS '' @ pg_type_to_mysql_cast (to_lowercase t) @ '')''
     | Sqlite \<Rightarrow> sql_literal s)"
proof -
  have "parse_pg_type_cast (sql_literal s) = None"
    by (simp add: parse_pg_type_cast_def trim_literal no_cast_in_literal)
  then show ?thesis
    using parse_casted_literal [OF assms, of s] no_spelling_of_literal [of s "''::'' @ t"]
    by (cases b) (simp_all add: convert_default_for_backend_def convert_cast_chain.simps [of "sql_literal s"])
qed

end
