(* ===== verification/Sql_Create.thy ===== *)
theory Sql_Create
  imports Sql_Text
begin

text \<open>
  Column definitions, \<open>CREATE TABLE\<close> and the SQLite rebuild of a table: \<open>sql/create_table.rs\<close>,
  \<open>sql/delete_table.rs\<close>, \<open>sql/rename_table.rs\<close>, \<open>sql/rename_column.rs\<close> and the rest of
  \<open>sql/helpers.rs\<close>.  A helper of the code that sets attributes of a mutable builder returns what it
  sets.
\<close>

section \<open>Column types\<close>

definition apply_timestamptz_type :: "database_backend \<Rightarrow> sea_type" where
  "apply_timestamptz_type backend = (if backend = Postgres then SeaTimestampTz else SeaTimestamp)"

definition apply_interval_type :: "database_backend \<Rightarrow> sea_type" where
  "apply_interval_type backend = (if backend = Postgres then SeaInterval else SeaText)"

definition apply_postgres_text_fallback_type :: "database_backend \<Rightarrow> string \<Rightarrow> sea_type" where
  "apply_postgres_text_fallback_type backend postgres_type =
     (if backend = Postgres then SeaCustom postgres_type else SeaText)"

fun apply_simple_column_type :: "simple_column_type \<Rightarrow> database_backend \<Rightarrow> sea_type" where
  "apply_simple_column_type SmallInt backend = SeaSmallInteger"
| "apply_simple_column_type Integer backend = SeaInteger"
| "apply_simple_column_type BigInt backend = SeaBigInteger"
| "apply_simple_column_type Real backend = SeaFloat"
| "apply_simple_column_type DoublePrecision backend = SeaDouble"
| "apply_simple_column_type Text backend = SeaText"
| "apply_simple_column_type Boolean backend = SeaBoolean"
| "apply_simple_column_type Date backend = SeaDate"
| "apply_simple_column_type Time backend = SeaTime"
| "apply_simple_column_type Timestamp backend = SeaTimestamp"
| "apply_simple_column_type Timestamptz backend = apply_timestamptz_type backend"
| "apply_simple_column_type Interval backend = apply_interval_type backend"
| "apply_simple_column_type Bytea backend = SeaBinary"
| "apply_simple_column_type Uuid backend = SeaUuid"
| "apply_simple_column_type Json backend = SeaJson"
| "apply_simple_column_type Inet backend = apply_postgres_text_fallback_type backend ''INET''"
| "apply_simple_column_type Cidr backend = apply_postgres_text_fallback_type backend ''CIDR''"
| "apply_simple_column_type Macaddr backend = apply_postgres_text_fallback_type backend ''MACADDR''"
| "apply_simple_column_type Xml backend = apply_postgres_text_fallback_type backend ''XML''"

text \<open>
  The \<open>debug_assert!\<close> that the scale is at most the precision is not in release builds, and schema
  validation rejects such a column before.
\<close>

definition apply_numeric_type :: "nat \<Rightarrow> nat \<Rightarrow> database_backend \<Rightarrow> sea_type" where
  "apply_numeric_type precision scale backend =
     (let safe_precision = min precision 28;
          safe_scale = min scale safe_precision
      in if backend = Sqlite then SeaDouble else SeaDecimalLen safe_precision safe_scale)"

fun apply_complex_column_type :: "complex_column_type \<Rightarrow> string \<Rightarrow> database_backend \<Rightarrow> sea_type" where
  "apply_complex_column_type (Varchar n) table backend = SeaStringLen n"
| "apply_complex_column_type (Numeric precision scale) table backend = apply_numeric_type precision scale backend"
| "apply_complex_column_type (CharN n) table backend = SeaCharLen n"
| "apply_complex_column_type (Custom custom_type) table backend = SeaCustom custom_type"
| "apply_complex_column_type (Enum name (EnumInteger _)) table backend = SeaInteger"
| "apply_complex_column_type (Enum name (EnumString variants)) table backend =
     SeaEnumeration (build_enum_type_name table name) variants"

fun apply_column_type_with_table :: "column_type \<Rightarrow> string \<Rightarrow> database_backend \<Rightarrow> sea_type" where
  "apply_column_type_with_table (Simple ty) table backend = apply_simple_column_type ty backend"
| "apply_column_type_with_table (Complex ty) table backend = apply_complex_column_type ty table backend"

fun to_sea_fk_action :: "reference_action \<Rightarrow> sea_fk_action" where
  "to_sea_fk_action Cascade = FkCascade"
| "to_sea_fk_action Restrict = FkRestrict"
| "to_sea_fk_action SetNull = FkSetNull"
| "to_sea_fk_action SetDefault = FkSetDefault"
| "to_sea_fk_action NoAction = FkNoAction"

fun is_string_default :: "default_value \<Rightarrow> bool" where
  "is_string_default (DefString _) = True"
| "is_string_default _ = False"

definition column_default_sql :: "database_backend \<Rightarrow> column_def \<Rightarrow> default_value \<Rightarrow> string" where
  "column_default_sql backend column dflt =
     (let converted = convert_default_for_backend (to_sql dflt) backend;
          final_default = (if is_enum_type (col_type column) \<and> is_string_default dflt \<and> needs_quoting converted
            then CHR 0x27 # converted @ [CHR 0x27] else converted)
      in if backend = Sqlite \<and> CHR ''('' \<in> set final_default \<and> \<not> starts_with final_default ''(''
         then ''('' @ final_default @ '')'' else final_default)"

definition build_sea_column_def_with_table :: "database_backend \<Rightarrow> string \<Rightarrow> column_def \<Rightarrow> sea_column" where
  "build_sea_column_def_with_table backend table column =
     \<lparr>sc_name = col_name column,
      sc_type = apply_column_type_with_table (col_type column) table backend,
      sc_specs =
        (if col_nullable column then [] else [SpecNotNull]) @
        (case col_default column of
           None \<Rightarrow> []
         | Some dflt \<Rightarrow> [SpecDefault (column_default_sql backend column dflt)])\<rparr>"

section \<open>Enum types\<close>

fun build_create_enum_type_sql :: "string \<Rightarrow> column_type \<Rightarrow> raw_sql option" where
  "build_create_enum_type_sql table (Complex (Enum name vals)) =
     (if enum_is_integer vals then None
      else Some (raw_postgres_only (''CREATE TYPE '' @ quote_ident (build_enum_type_name table name) Postgres @
             '' AS ENUM ('' @ sql_values_joined vals '', '' @ '')'')))"
| "build_create_enum_type_sql table _ = None"

fun build_drop_enum_type_sql :: "string \<Rightarrow> column_type \<Rightarrow> raw_sql option" where
  "build_drop_enum_type_sql table (Complex (Enum name _)) =
     Some (raw_postgres_only (''DROP TYPE '' @ quote_ident (build_enum_type_name table name) Postgres))"
| "build_drop_enum_type_sql table _ = None"

section \<open>CHECK clauses\<close>

definition check_clause :: "string \<Rightarrow> string \<Rightarrow> string" where
  "check_clause name expr = ''CONSTRAINT '' @ quote_ident name Sqlite @ '' CHECK ('' @ expr @ '')''"

fun build_sqlite_enum_check_clause :: "string \<Rightarrow> string \<Rightarrow> column_type \<Rightarrow> string option" where
  "build_sqlite_enum_check_clause table column (Complex (Enum _ vals)) =
     Some (check_clause (build_check_constraint_name table column)
       (quote_ident column Sqlite @ '' IN ('' @ sql_values_joined vals '', '' @ '')''))"
| "build_sqlite_enum_check_clause table column _ = None"

definition collect_sqlite_enum_check_clauses :: "string \<Rightarrow> column_def list \<Rightarrow> string list" where
  "collect_sqlite_enum_check_clauses table columns =
     List.map_filter (\<lambda>c. build_sqlite_enum_check_clause table (col_name c) (col_type c)) columns"

fun explicit_check_clause :: "table_constraint \<Rightarrow> string option" where
  "explicit_check_clause (Check name expr _) = Some (check_clause name expr)"
| "explicit_check_clause _ = None"

definition extract_check_clauses :: "table_constraint list \<Rightarrow> string list" where
  "extract_check_clauses constraints = List.map_filter explicit_check_clause constraints"

text \<open>The loop that keeps what the set has not seen, starting from the enum clauses.\<close>

fun retain_unseen :: "string set \<Rightarrow> string list \<Rightarrow> string list" where
  "retain_unseen seen [] = []"
| "retain_unseen seen (c # cs) = (if c \<in> seen then retain_unseen seen cs else c # retain_unseen (insert c seen) cs)"

definition collect_all_check_clauses ::
  "string \<Rightarrow> column_def list \<Rightarrow> table_constraint list \<Rightarrow> string list" where
  "collect_all_check_clauses table columns constraints =
     (let clauses = collect_sqlite_enum_check_clauses table columns
      in clauses @ retain_unseen (set clauses) (extract_check_clauses constraints))"

section \<open>Indexes and foreign keys\<close>

definition sea_unique_index :: "string option \<Rightarrow> string \<Rightarrow> string list \<Rightarrow> string option \<Rightarrow> sea_index" where
  "sea_unique_index on_table table columns name =
     \<lparr>six_name = build_unique_constraint_name table columns name, six_table = on_table, six_unique = True,
      six_columns = columns\<rparr>"

definition sea_plain_index :: "string \<Rightarrow> string list \<Rightarrow> string option \<Rightarrow> sea_index" where
  "sea_plain_index table columns name =
     \<lparr>six_name = build_index_name table columns name, six_table = Some table, six_unique = False,
      six_columns = columns\<rparr>"

definition sea_fk ::
  "string \<Rightarrow> string option \<Rightarrow> string list \<Rightarrow> string \<Rightarrow> string list \<Rightarrow> reference_action option \<Rightarrow>
   reference_action option \<Rightarrow> sea_foreign_key" where
  "sea_fk table name columns ref_table ref_columns on_delete on_update =
     \<lparr>sfk_key_name = build_foreign_key_name table columns name, sfk_from_table = table, sfk_from_columns = columns,
      sfk_to_table = ref_table, sfk_to_columns = ref_columns,
      sfk_on_delete = map_option to_sea_fk_action on_delete,
      sfk_on_update = map_option to_sea_fk_action on_update\<rparr>"

section \<open>\<open>CREATE TABLE\<close>\<close>

fun is_unique :: "table_constraint \<Rightarrow> bool" where
  "is_unique (Unique _ _ _) = True"
| "is_unique _ = False"

fun auto_increment_key_columns :: "table_constraint \<Rightarrow> string list" where
  "auto_increment_key_columns (PrimaryKey auto_increment columns _) = (if auto_increment then columns else [])"
| "auto_increment_key_columns _ = []"

definition collect_auto_increment_columns :: "table_constraint list \<Rightarrow> string set" where
  "collect_auto_increment_columns constraints = set (concat (map auto_increment_key_columns constraints))"

text \<open>The scan the code skips when no key is auto-incremented would find nothing.\<close>

definition add_create_table_columns ::
  "database_backend \<Rightarrow> string \<Rightarrow> column_def list \<Rightarrow> table_constraint list \<Rightarrow> sea_column list" where
  "add_create_table_columns backend table columns constraints =
     (let has_table_primary_key = list_ex is_primary_key constraints;
          auto_increment_columns = collect_auto_increment_columns constraints
      in map (\<lambda>column.
           let col = build_sea_column_def_with_table backend table column;
               key = (if col_primary_key column \<noteq> None \<and> \<not> has_table_primary_key then [SpecPrimaryKey] else []);
               auto = (if col_name column \<in> auto_increment_columns \<and> supports_auto_increment (col_type column)
                 then (if backend = Sqlite then [SpecPrimaryKey] else []) @ [SpecAutoIncrement] else [])
           in col\<lparr>sc_specs := sc_specs col @ key @ auto\<rparr>) columns)"

definition should_skip_sqlite_auto_increment_pk ::
  "database_backend \<Rightarrow> column_def list \<Rightarrow> string list \<Rightarrow> bool \<Rightarrow> bool" where
  "should_skip_sqlite_auto_increment_pk backend columns pk_cols auto_increment \<longleftrightarrow>
     backend = Sqlite \<and> auto_increment \<and>
     list_all (\<lambda>name. list_ex (\<lambda>c. col_name c = name \<and> supports_auto_increment (col_type c)) columns) pk_cols"

definition create_primary_key_element ::
  "database_backend \<Rightarrow> column_def list \<Rightarrow> string list \<Rightarrow> bool \<Rightarrow> sea_table_element list" where
  "create_primary_key_element backend columns pk_cols auto_increment =
     (if should_skip_sqlite_auto_increment_pk backend columns pk_cols auto_increment then []
      else [ElemPrimaryKey pk_cols])"

definition add_mysql_unique_constraint ::
  "database_backend \<Rightarrow> string \<Rightarrow> string list \<Rightarrow> string option \<Rightarrow> sea_table_element list" where
  "add_mysql_unique_constraint backend table unique_cols name =
     (if backend \<noteq> MySql then [] else [ElemIndex (sea_unique_index None table unique_cols name)])"

fun add_foreign_key_constraint :: "string \<Rightarrow> table_constraint \<Rightarrow> sea_table_element list" where
  "add_foreign_key_constraint table (ForeignKey name cols ref_table ref_cols on_delete on_update _) =
     [ElemForeignKey (sea_fk table name cols ref_table ref_cols on_delete on_update)]"
| "add_foreign_key_constraint table _ = []"

fun create_table_element ::
  "database_backend \<Rightarrow> string \<Rightarrow> column_def list \<Rightarrow> table_constraint \<Rightarrow> sea_table_element list" where
  "create_table_element backend table columns (PrimaryKey auto_increment pk_cols _) =
     create_primary_key_element backend columns pk_cols auto_increment"
| "create_table_element backend table columns (Unique name unique_cols _) =
     add_mysql_unique_constraint backend table unique_cols name"
| "create_table_element backend table columns (ForeignKey name cols ref_table ref_cols on_delete on_update orphans) =
     add_foreign_key_constraint table (ForeignKey name cols ref_table ref_cols on_delete on_update orphans)"
| "create_table_element backend table columns (Check _ _ _) = []"
| "create_table_element backend table columns (Index _ _) = []"

definition add_create_table_constraints ::
  "database_backend \<Rightarrow> string \<Rightarrow> column_def list \<Rightarrow> table_constraint list \<Rightarrow> sea_table_element list" where
  "add_create_table_constraints backend table columns constraints =
     concat (map (create_table_element backend table columns) constraints)"

definition build_create_table_for_backend ::
  "database_backend \<Rightarrow> string \<Rightarrow> column_def list \<Rightarrow> table_constraint list \<Rightarrow> sea_create_table" where
  "build_create_table_for_backend backend table columns constraints =
     \<lparr>sct_table = table,
      sct_columns = add_create_table_columns backend table columns constraints,
      sct_elements = add_create_table_constraints backend table columns constraints\<rparr>"

text \<open>\<open>rfind\<close> of a character, and the two \<open>insert_str\<close> calls at its position.\<close>

definition rfind_char :: "char \<Rightarrow> string \<Rightarrow> nat option" where
  "rfind_char c s = (if c \<in> set s then Some (length s - 1 - length (takeWhile (\<lambda>x. x \<noteq> c) (rev s))) else None)"

definition inject_clauses :: "string \<Rightarrow> string list \<Rightarrow> string" where
  "inject_clauses sql clauses =
     (case rfind_char CHR '')'' sql of
        None \<Rightarrow> sql
      | Some pos \<Rightarrow> take pos sql @ '', '' @ join '', '' clauses @ drop pos sql)"

definition build_create_with_checks ::
  "renderer \<Rightarrow> database_backend \<Rightarrow> sea_create_table \<Rightarrow> string list \<Rightarrow> built_query" where
  "build_create_with_checks render backend create_stmt check_clauses =
     (if check_clauses = [] then QCreateTable create_stmt
      else raw (inject_clauses (render backend (QCreateTable create_stmt)) check_clauses))"

fun create_enum_types :: "string \<Rightarrow> string set \<Rightarrow> column_def list \<Rightarrow> built_query list" where
  "create_enum_types table created [] = []"
| "create_enum_types table created (column # columns) =
     (case col_type column of
        Complex (Enum name _) \<Rightarrow>
          if name \<in> created then create_enum_types table created columns
          else (case build_create_enum_type_sql table (col_type column) of
                  Some sql \<Rightarrow> [QRaw sql]
                | None \<Rightarrow> []) @ create_enum_types table (insert name created) columns
      | _ \<Rightarrow> create_enum_types table created columns)"

fun create_unique_index :: "string \<Rightarrow> table_constraint \<Rightarrow> built_query list" where
  "create_unique_index table (Unique name cols _) = [QCreateIndex (sea_unique_index (Some table) table cols name)]"
| "create_unique_index table _ = []"

fun create_plain_index :: "string \<Rightarrow> table_constraint \<Rightarrow> built_query list" where
  "create_plain_index table (Index name cols) = [QCreateIndex (sea_plain_index table cols name)]"
| "create_plain_index table _ = []"

definition create_table_queries ::
  "renderer \<Rightarrow> database_backend \<Rightarrow> string \<Rightarrow> column_def list \<Rightarrow> table_constraint list \<Rightarrow> built_query list" where
  "create_table_queries render backend table columns constraints =
     (let create_table_stmt = (if backend = MySql \<or> \<not> list_ex is_unique constraints
            then build_create_table_for_backend backend table columns constraints
            else build_create_table_for_backend backend table columns (filter (\<lambda>c. \<not> is_unique c) constraints));
          create_query = (if backend = Sqlite
            then build_create_with_checks render backend create_table_stmt (collect_sqlite_enum_check_clauses table columns)
            else QCreateTable create_table_stmt);
          unique_queries = (if backend = Postgres \<or> backend = Sqlite
            then concat (map (create_unique_index table) constraints) else [])
      in create_enum_types table {} columns @ [create_query] @ unique_queries @
         concat (map (create_plain_index table) constraints))"

definition build_create_table ::
  "renderer \<Rightarrow> database_backend \<Rightarrow> string \<Rightarrow> column_def list \<Rightarrow> table_constraint list \<Rightarrow> queries" where
  "build_create_table render backend table columns constraints =
     (case normalize \<lparr>tbl_name = table, tbl_description = None, tbl_columns = columns, tbl_constraints = constraints\<rparr> of
        Inl e \<Rightarrow> Inl (SchemaError (''Failed to normalize table '' @ quoted table @ '': '' @
                   display_table_validation_error e))
      | Inr normalized \<Rightarrow>
          Inr (create_table_queries render backend table (tbl_columns normalized) (tbl_constraints normalized)))"

section \<open>Small builders\<close>

definition build_delete_table :: "string \<Rightarrow> built_query" where
  "build_delete_table table = QDropTable table"

definition build_rename_table :: "string \<Rightarrow> string \<Rightarrow> built_query" where
  "build_rename_table from to = QRenameTable from to"

definition build_rename_column :: "string \<Rightarrow> string \<Rightarrow> string \<Rightarrow> built_query" where
  "build_rename_column table from to = QAlterTable table (AlterRenameColumn from to)"

definition build_drop_index_query :: "string \<Rightarrow> string \<Rightarrow> built_query" where
  "build_drop_index_query table index_name = QDropIndex table index_name"

section \<open>Rebuilding a SQLite table\<close>

definition build_sqlite_temp_table_create ::
  "renderer \<Rightarrow> database_backend \<Rightarrow> string \<Rightarrow> string \<Rightarrow> column_def list \<Rightarrow> table_constraint list \<Rightarrow> built_query" where
  "build_sqlite_temp_table_create render backend temp_table table columns constraints =
     build_create_with_checks render backend (build_create_table_for_backend backend temp_table columns constraints)
       (collect_all_check_clauses table columns constraints)"

definition build_copy_into_temp_table :: "string \<Rightarrow> string \<Rightarrow> column_def list \<Rightarrow> built_query" where
  "build_copy_into_temp_table table temp_table columns =
     QInsert \<lparr>sin_table = temp_table, sin_columns = map col_name columns,
       sin_select = map (\<lambda>c. SelectColumn (col_name c)) columns, sin_from = table\<rparr>"

definition rebuilt_index :: "string \<Rightarrow> string \<Rightarrow> string list \<Rightarrow> bool \<Rightarrow> built_query" where
  "rebuilt_index table index_name columns unique =
     raw ((if unique then ''CREATE UNIQUE INDEX'' else ''CREATE INDEX'') @ '' '' @ quote_ident index_name Sqlite @
          '' ON '' @ quote_ident table Sqlite @ '' ('' @ quote_idents columns Sqlite @ '')'')"

fun recreate_index :: "string \<Rightarrow> table_constraint \<Rightarrow> built_query list" where
  "recreate_index table (Index name columns) = [rebuilt_index table (build_index_name table columns name) columns False]"
| "recreate_index table (Unique name columns _) =
     [rebuilt_index table (build_unique_constraint_name table columns name) columns True]"
| "recreate_index table _ = []"

definition recreate_indexes_after_rebuild ::
  "string \<Rightarrow> table_constraint list \<Rightarrow> table_constraint list \<Rightarrow> built_query list" where
  "recreate_indexes_after_rebuild table constraints pending_constraints =
     concat (map (recreate_index table) (filter (\<lambda>c. c \<notin> set pending_constraints) constraints))"

definition build_sqlite_table_rebuild ::
  "renderer \<Rightarrow> database_backend \<Rightarrow> string \<Rightarrow> column_def list \<Rightarrow> table_constraint list \<Rightarrow> column_def list \<Rightarrow>
   table_constraint list \<Rightarrow> table_constraint list \<Rightarrow> built_query list" where
  "build_sqlite_table_rebuild render backend table create_columns create_constraints copy_columns
       recreate_constraints pending_constraints =
     (let temp_table = table @ ''_temp''
      in [build_sqlite_temp_table_create render backend temp_table table create_columns create_constraints,
          build_copy_into_temp_table table temp_table copy_columns,
          build_delete_table table,
          build_rename_table temp_table table] @
         recreate_indexes_after_rebuild table recreate_constraints pending_constraints)"

section \<open>Lookups\<close>

definition require_table_in_schema :: "schema \<Rightarrow> string \<Rightarrow> string \<Rightarrow> query_error + table_def" where
  "require_table_in_schema schema table context =
     (case find_table schema table of
        Some t \<Rightarrow> Inr t
      | None \<Rightarrow> Inl (SchemaError (''Table '' @ quoted table @ '' not found in current schema. '' @ context @ ''.'')))"

definition find_column :: "table_def \<Rightarrow> string \<Rightarrow> column_def option" where
  "find_column t column = find (\<lambda>c. col_name c = column) (tbl_columns t)"

definition require_column_in_table :: "table_def \<Rightarrow> string \<Rightarrow> query_error + column_def" where
  "require_column_in_table table_def column =
     (case find_column table_def column of
        Some c \<Rightarrow> Inr c
      | None \<Rightarrow> Inl (SchemaError (''Column '' @ quoted column @ '' not found in table '' @
                  quoted (tbl_name table_def) @ ''.'')))"

definition find_column_in_schema :: "schema \<Rightarrow> string \<Rightarrow> string \<Rightarrow> column_def option" where
  "find_column_in_schema schema table column =
     (case find_table schema table of None \<Rightarrow> None | Some t \<Rightarrow> find_column t column)"

section \<open>Changing one attribute of a column\<close>

definition build_mysql_modify_column_with ::
  "string \<Rightarrow> string \<Rightarrow> schema \<Rightarrow> string \<Rightarrow> (column_def \<Rightarrow> column_def) \<Rightarrow> query_error + built_query" where
  "build_mysql_modify_column_with table column current_schema context mutator =
     (case require_table_in_schema current_schema table context of
        Inl e \<Rightarrow> Inl e
      | Inr table_def \<Rightarrow>
          (case require_column_in_table table_def column of
             Inl e \<Rightarrow> Inl e
           | Inr column_def \<Rightarrow>
               Inr (QAlterTable table (AlterModifyColumn
                 (build_sea_column_def_with_table MySql table (mutator column_def))))))"

definition build_sqlite_modify_column_with ::
  "renderer \<Rightarrow> string \<Rightarrow> string \<Rightarrow> schema \<Rightarrow> table_constraint list \<Rightarrow> string \<Rightarrow> (column_def \<Rightarrow> column_def) \<Rightarrow>
   queries" where
  "build_sqlite_modify_column_with render table column current_schema pending_constraints context mutator =
     (case require_table_in_schema current_schema table context of
        Inl e \<Rightarrow> Inl e
      | Inr table_def \<Rightarrow>
          Inr (build_sqlite_table_rebuild render Sqlite table
            (update_first (\<lambda>c. col_name c = column) mutator (tbl_columns table_def))
            (tbl_constraints table_def) (tbl_columns table_def) (tbl_constraints table_def) pending_constraints))"

end
