(* ===== verification/Sql_Columns.thy ===== *)
theory Sql_Columns
  imports Sql_Create
begin

text \<open>
  The statements of the column actions (\<open>sql/add_column.rs\<close>, \<open>sql/modify_column_default.rs\<close>,
  \<open>sql/modify_column_nullable.rs\<close>, \<open>sql/modify_column_comment.rs\<close>, \<open>sql/delete_column/\<close>,
  \<open>sql/remap_enum_values.rs\<close>) and of data migrations (\<open>sql/data_migration.rs\<close>).
\<close>

section \<open>Adding a column\<close>

definition build_add_column_alter_for_backend :: "database_backend \<Rightarrow> string \<Rightarrow> column_def \<Rightarrow> built_query" where
  "build_add_column_alter_for_backend backend table column =
     QAlterTable table (AlterAddColumn (build_sea_column_def_with_table backend table column))"

definition is_enum_column :: "column_def \<Rightarrow> bool" where
  "is_enum_column column = (case col_type column of Complex (Enum _ _) \<Rightarrow> True | _ \<Rightarrow> False)"

definition add_column_fill_expr :: "database_backend \<Rightarrow> column_def \<Rightarrow> string option \<Rightarrow> sea_expr" where
  "add_column_fill_expr backend column fill_with =
     (case normalize_fill_with fill_with of
        Some fill \<Rightarrow> ExprCust (normalize_enum_default (col_type column) (convert_fill_with_for_backend fill backend))
      | None \<Rightarrow>
          (case col_default column of
             Some dflt \<Rightarrow>
               ExprCust (normalize_enum_default (col_type column) (convert_default_for_backend (to_sql dflt) backend))
           | None \<Rightarrow> ExprCust ''NULL''))"

definition add_column_rebuild ::
  "renderer \<Rightarrow> database_backend \<Rightarrow> string \<Rightarrow> column_def \<Rightarrow> string option \<Rightarrow> table_def \<Rightarrow> table_constraint list \<Rightarrow>
   built_query list" where
  "add_column_rebuild render backend table column fill_with table_def pending_constraints =
     (let new_columns = tbl_columns table_def @ [column];
          temp_table = table @ ''_temp'';
          names = map col_name (tbl_columns table_def);
          insert_query = QInsert \<lparr>sin_table = temp_table, sin_columns = names @ [col_name column],
            sin_select = map SelectColumn names @
              [SelectExprAs (add_column_fill_expr backend column fill_with) (col_name column)],
            sin_from = table\<rparr>
      in [build_sqlite_temp_table_create render backend temp_table table new_columns (tbl_constraints table_def),
          insert_query, build_delete_table table, build_rename_table temp_table table] @
         recreate_indexes_after_rebuild table (tbl_constraints table_def) pending_constraints)"

definition add_column_direct :: "database_backend \<Rightarrow> string \<Rightarrow> column_def \<Rightarrow> string option \<Rightarrow> built_query list" where
  "add_column_direct backend table column fill_with =
     (case build_create_enum_type_sql table (col_type column) of Some sql \<Rightarrow> [QRaw sql] | None \<Rightarrow> []) @
     (if \<not> col_nullable column \<and> col_default column = None \<and> fill_with \<noteq> None then
        [build_add_column_alter_for_backend backend table (column\<lparr>col_nullable := True\<rparr>)] @
        (case normalize_fill_with fill_with of
           Some fill \<Rightarrow> [QUpdate \<lparr>sup_table = table, sup_column = col_name column,
             sup_value = ExprCust (convert_fill_with_for_backend fill backend), sup_where = None\<rparr>]
         | None \<Rightarrow> []) @
        [QAlterTable table (AlterModifyColumn (build_sea_column_def_with_table backend table column))]
      else [build_add_column_alter_for_backend backend table column])"

definition build_add_column ::
  "renderer \<Rightarrow> database_backend \<Rightarrow> string \<Rightarrow> column_def \<Rightarrow> string option \<Rightarrow> schema \<Rightarrow> table_constraint list \<Rightarrow>
   queries" where
  "build_add_column render backend table column fill_with current_schema pending_constraints =
     (if backend = Sqlite \<and> (\<not> col_nullable column \<or> is_enum_column column) then
        (case require_table_in_schema current_schema table
                ''SQLite requires current schema information to add columns'' of
           Inl e \<Rightarrow> Inl e
         | Inr table_def \<Rightarrow>
             Inr (add_column_rebuild render backend table column fill_with table_def pending_constraints))
      else Inr (add_column_direct backend table column fill_with))"

section \<open>Changing the default\<close>

definition set_default :: "string option \<Rightarrow> column_def \<Rightarrow> column_def" where
  "set_default new_default c = c\<lparr>col_default := map_option DefString new_default\<rparr>"

definition build_modify_column_default ::
  "renderer \<Rightarrow> database_backend \<Rightarrow> string \<Rightarrow> string \<Rightarrow> string option \<Rightarrow> string option \<Rightarrow> schema \<Rightarrow>
   table_constraint list \<Rightarrow> queries" where
  "build_modify_column_default render backend table column new_default backfill current_schema pending_constraints =
     (let changed = (case backend of
            Postgres \<Rightarrow>
              (case new_default of
                 Some default_value \<Rightarrow>
                   let normalized_default = (case find_column_in_schema current_schema table column of
                         Some c \<Rightarrow> normalize_enum_default (col_type c) default_value
                       | None \<Rightarrow> default_value)
                   in Inr [raw (build_pg_alter_column_sql table column (''SET DEFAULT '' @ normalized_default))]
               | None \<Rightarrow> Inr [raw (build_pg_alter_column_sql table column ''DROP DEFAULT'')])
          | MySql \<Rightarrow>
              map_sum id (\<lambda>q. [q]) (build_mysql_modify_column_with table column current_schema
                ''MySQL requires current schema information to modify column defaults'' (set_default new_default))
          | Sqlite \<Rightarrow>
              build_sqlite_modify_column_with render table column current_schema pending_constraints
                ''SQLite requires current schema information to modify column defaults'' (set_default new_default))
      in case changed of
           Inl e \<Rightarrow> Inl e
         | Inr queries \<Rightarrow>
             Inr (queries @ (case backfill of
               Some v \<Rightarrow> [raw (''UPDATE '' @ quote_ident table backend @ '' SET '' @ quote_ident column backend @
                 '' = '' @ v)]
             | None \<Rightarrow> [])))"

section \<open>Changing nullability\<close>

definition nullable_cleanup ::
  "database_backend \<Rightarrow> string \<Rightarrow> string \<Rightarrow> bool \<Rightarrow> string option \<Rightarrow> bool \<Rightarrow> built_query list" where
  "nullable_cleanup backend table column nullable fill_with delete_null_rows =
     (if \<not> nullable \<and> delete_null_rows then
        [raw (''DELETE FROM '' @ quote_ident table backend @ '' WHERE '' @ quote_ident column backend @ '' IS NULL'')]
      else if \<not> nullable then
        (case normalize_fill_with fill_with of
           Some fill \<Rightarrow>
             [raw (''UPDATE '' @ quote_ident table backend @ '' SET '' @ quote_ident column backend @ '' = '' @
                convert_fill_with_for_backend fill backend @ '' WHERE '' @ quote_ident column backend @ '' IS NULL'')]
         | None \<Rightarrow> [])
      else [])"

definition build_modify_column_nullable ::
  "renderer \<Rightarrow> database_backend \<Rightarrow> string \<Rightarrow> string \<Rightarrow> bool \<Rightarrow> string option \<Rightarrow> bool \<Rightarrow> schema \<Rightarrow>
   table_constraint list \<Rightarrow> queries" where
  "build_modify_column_nullable render backend table column nullable fill_with delete_null_rows current_schema
       pending_constraints =
     (let altered = (case backend of
            Postgres \<Rightarrow>
              Inr [raw (build_pg_alter_column_sql table column (if nullable then ''DROP NOT NULL'' else ''SET NOT NULL''))]
          | MySql \<Rightarrow>
              map_sum id (\<lambda>q. [q]) (build_mysql_modify_column_with table column current_schema
                ''MySQL requires current schema information to modify column nullability''
                (\<lambda>c. c\<lparr>col_nullable := nullable\<rparr>))
          | Sqlite \<Rightarrow>
              build_sqlite_modify_column_with render table column current_schema pending_constraints
                ''SQLite requires current schema information to modify column nullability''
                (\<lambda>c. c\<lparr>col_nullable := nullable\<rparr>))
      in case altered of
           Inl e \<Rightarrow> Inl e
         | Inr queries \<Rightarrow>
             Inr (nullable_cleanup backend table column nullable fill_with delete_null_rows @ queries))"

section \<open>Changing a comment\<close>

definition comment_literal :: "string \<Rightarrow> string" where
  "comment_literal comment = CHR 0x27 # escape_sql_string_literal comment @ [CHR 0x27]"

definition build_modify_column_comment ::
  "renderer \<Rightarrow> database_backend \<Rightarrow> string \<Rightarrow> string \<Rightarrow> string option \<Rightarrow> schema \<Rightarrow> queries" where
  "build_modify_column_comment render backend table column new_comment current_schema =
     (case backend of
        Postgres \<Rightarrow>
          Inr [raw (''COMMENT ON COLUMN '' @ quote_ident table backend @ ''.'' @ quote_ident column backend @ '' IS '' @
            (case new_comment of Some comment \<Rightarrow> comment_literal comment | None \<Rightarrow> ''NULL''))]
      | MySql \<Rightarrow>
          (case require_table_in_schema current_schema table
                  ''MySQL requires current schema information to modify column comments'' of
             Inl e \<Rightarrow> Inl e
           | Inr table_def \<Rightarrow>
               (case require_column_in_table table_def column of
                  Inl e \<Rightarrow> Inl e
                | Inr column_def \<Rightarrow>
                    let sea_col = build_sea_column_def_with_table backend table (column_def\<lparr>col_comment := new_comment\<rparr>);
                        base_sql = render backend (QAlterTable table (AlterModifyColumn sea_col))
                    in Inr [raw (case new_comment of
                         Some comment \<Rightarrow> base_sql @ '' COMMENT '' @ comment_literal comment
                       | None \<Rightarrow> base_sql)]))
      | Sqlite \<Rightarrow> Inr [])"

section \<open>Deleting a column\<close>

definition drop_type_queries :: "string \<Rightarrow> column_type option \<Rightarrow> built_query list" where
  "drop_type_queries table column_type =
     (case column_type of
        None \<Rightarrow> []
      | Some ty \<Rightarrow> (case build_drop_enum_type_sql table ty of Some sql \<Rightarrow> [QRaw sql] | None \<Rightarrow> []))"

definition build_direct_delete_column :: "string \<Rightarrow> string \<Rightarrow> column_type option \<Rightarrow> built_query list" where
  "build_direct_delete_column table column column_type =
     QAlterTable table (AlterDropColumn column) # drop_type_queries table column_type"

definition contains_text :: "string \<Rightarrow> string \<Rightarrow> bool" where
  "contains_text s pat = list_ex (\<lambda>i. starts_with (drop i s) pat) [0..<Suc (length s)]"

fun kept_without_column :: "string \<Rightarrow> table_constraint \<Rightarrow> bool" where
  "kept_without_column column (Check _ expr _) =
     (\<not> contains_text expr ([CHR 0x22] @ column @ [CHR 0x22]) \<and> \<not> contains_text expr column)"
| "kept_without_column column c = (column \<notin> set (constraint_columns c))"

definition build_delete_column_sqlite_temp_table ::
  "renderer \<Rightarrow> string \<Rightarrow> string \<Rightarrow> table_def \<Rightarrow> column_type option \<Rightarrow> table_constraint list \<Rightarrow> built_query list" where
  "build_delete_column_sqlite_temp_table render table column table_def column_type pending_constraints =
     (let new_columns = filter (\<lambda>c. col_name c \<noteq> column) (tbl_columns table_def);
          new_constraints = filter (kept_without_column column) (tbl_constraints table_def)
      in build_sqlite_table_rebuild render Sqlite table new_columns new_constraints new_columns new_constraints
           pending_constraints @ drop_type_queries table column_type)"

text \<open>
  The walk over the constraints: either one of them asks for a rebuild (\<open>None\<close>), or the indexes to
  drop first.
\<close>

fun sqlite_index_drops :: "string \<Rightarrow> string \<Rightarrow> table_constraint list \<Rightarrow> built_query list option" where
  "sqlite_index_drops table column [] = Some []"
| "sqlite_index_drops table column (Check name expr strategy # cs) =
     (if contains_text expr column then None else sqlite_index_drops table column cs)"
| "sqlite_index_drops table column (ForeignKey name cols ref_table ref_cols od ou orphan # cs) =
     (if column \<in> set cols then None else sqlite_index_drops table column cs)"
| "sqlite_index_drops table column (PrimaryKey ai cols strategy # cs) =
     (if column \<in> set cols then None else sqlite_index_drops table column cs)"
| "sqlite_index_drops table column (Unique name cols strategy # cs) =
     (if column \<in> set cols
      then map_option (\<lambda>qs. build_drop_index_query table (build_unique_constraint_name table cols name) # qs)
             (sqlite_index_drops table column cs)
      else sqlite_index_drops table column cs)"
| "sqlite_index_drops table column (Index name cols # cs) =
     (if column \<in> set cols
      then map_option (\<lambda>qs. build_drop_index_query table (build_index_name table cols name) # qs)
             (sqlite_index_drops table column cs)
      else sqlite_index_drops table column cs)"

text \<open>\<open>Inl\<close> is the rebuild to return, \<open>Inr\<close> the statements pushed before the direct path.\<close>

definition sqlite_constraint_handling ::
  "renderer \<Rightarrow> string \<Rightarrow> string \<Rightarrow> table_def \<Rightarrow> column_type option \<Rightarrow> table_constraint list \<Rightarrow>
   built_query list + built_query list" where
  "sqlite_constraint_handling render table column table_def column_type pending_constraints =
     (let rebuild = build_delete_column_sqlite_temp_table render table column table_def column_type pending_constraints
      in if (case find_column table_def column of Some c \<Rightarrow> is_enum_type (col_type c) | None \<Rightarrow> False) then Inl rebuild
         else case sqlite_index_drops table column (tbl_constraints table_def) of
                None \<Rightarrow> Inl rebuild
              | Some drops \<Rightarrow> Inr drops)"

definition build_delete_column ::
  "renderer \<Rightarrow> database_backend \<Rightarrow> string \<Rightarrow> string \<Rightarrow> column_type option \<Rightarrow> schema \<Rightarrow> table_constraint list \<Rightarrow>
   built_query list" where
  "build_delete_column render backend table column column_type current_schema pending_constraints =
     (case (if backend = Sqlite then find_table current_schema table else None) of
        None \<Rightarrow> build_direct_delete_column table column column_type
      | Some table_def \<Rightarrow>
          (case sqlite_constraint_handling render table column table_def column_type pending_constraints of
             Inl rebuild \<Rightarrow> rebuild
           | Inr drops \<Rightarrow> drops @ build_direct_delete_column table column column_type))"

section \<open>Renumbering enum values\<close>

definition remap_arm :: "string \<Rightarrow> int \<times> int \<Rightarrow> string" where
  "remap_arm qc p = ''WHEN '' @ qc @ '' = '' @ int_to_string (fst p) @ '' THEN '' @ int_to_string (snd p)"

definition build_remap_enum_values ::
  "database_backend \<Rightarrow> string \<Rightarrow> string \<Rightarrow> (int, int) omap \<Rightarrow> queries" where
  "build_remap_enum_values backend table column mapping =
     (if mapping = [] then Inr []
      else let qt = quote_ident table backend; qc = quote_ident column backend
           in Inr [raw (''UPDATE '' @ qt @ '' SET '' @ qc @ '' = CASE '' @ join '' '' (map (remap_arm qc) mapping) @
                '' END WHERE '' @ qc @ '' IN ('' @ join '', '' (map (\<lambda>p. int_to_string (fst p)) mapping) @ '')'')])"

section \<open>Data migrations\<close>

definition build_data_migration :: "data_migration_sql \<Rightarrow> built_query list" where
  "build_data_migration sql = [QRaw (raw_per_backend (sql_postgres sql) (sql_mysql sql) (sql_sqlite sql))]"

end
