(* ===== verification/Sql_Constraints.thy ===== *)
theory Sql_Constraints
  imports Sql_Create
begin

text \<open>
  The statements of the constraint actions: \<open>sql/add_constraint/\<close>, \<open>sql/remove_constraint/\<close> and
  \<open>sql/replace_constraint.rs\<close>.
\<close>

section \<open>The key rows are told apart by\<close>

fun primary_key_columns :: "table_constraint \<Rightarrow> string list option" where
  "primary_key_columns (PrimaryKey _ columns _) = Some columns"
| "primary_key_columns _ = None"

definition try_resolve_single_pk_column :: "string \<Rightarrow> schema \<Rightarrow> string list \<Rightarrow> string option" where
  "try_resolve_single_pk_column table current_schema cols =
     (case find_table current_schema table of
        None \<Rightarrow> None
      | Some table_def \<Rightarrow>
          (case (case find_map primary_key_columns (tbl_constraints table_def) of
                   Some columns \<Rightarrow> (case columns of [c] \<Rightarrow> Some c | _ \<Rightarrow> None)
                 | None \<Rightarrow>
                     (case filter (\<lambda>c. col_primary_key c \<noteq> None) (tbl_columns table_def) of
                        [c] \<Rightarrow> Some (col_name c)
                      | _ \<Rightarrow> None)) of
             None \<Rightarrow> None
           | Some pk_column \<Rightarrow> if pk_column \<in> set cols then None else Some pk_column))"

fun keep_aggregate :: "keep_policy \<Rightarrow> string" where
  "keep_aggregate KeepFirst = ''MIN''"
| "keep_aggregate KeepLast = ''MAX''"

definition duplicate_delete :: "database_backend \<Rightarrow> string \<Rightarrow> string \<Rightarrow> keep_policy \<Rightarrow> string list \<Rightarrow> built_query" where
  "duplicate_delete backend table pk_column keep columns =
     raw (''DELETE FROM '' @ quote_ident table backend @ '' WHERE '' @ quote_ident pk_column backend @
       '' NOT IN (SELECT '' @ keep_aggregate keep @ ''('' @ quote_ident pk_column backend @ '') FROM '' @
       quote_ident table backend @ '' GROUP BY '' @ quote_idents columns backend @ '')'')"

section \<open>SQLite: the table with the constraint added\<close>

fun constraints_overlap :: "table_constraint \<Rightarrow> table_constraint \<Rightarrow> bool" where
  "constraints_overlap (ForeignKey _ a_cols _ _ _ _ _) (ForeignKey _ b_cols _ _ _ _ _) = (a_cols = b_cols)"
| "constraints_overlap (PrimaryKey _ a_cols _) (PrimaryKey _ b_cols _) = (a_cols = b_cols)"
| "constraints_overlap (Check a_name a_expr _) (Check b_name b_expr _) = (a_name = b_name \<and> a_expr = b_expr)"
| "constraints_overlap _ _ = False"

fun merge_loop :: "table_constraint \<Rightarrow> bool \<Rightarrow> table_constraint list \<Rightarrow> table_constraint list" where
  "merge_loop constraint replaced [] = (if replaced then [] else [constraint])"
| "merge_loop constraint replaced (c # cs) =
     (if constraints_overlap c constraint
      then (if replaced then [] else [constraint]) @ merge_loop constraint True cs
      else c # merge_loop constraint replaced cs)"

definition merge_constraint :: "table_constraint list \<Rightarrow> table_constraint \<Rightarrow> table_constraint list" where
  "merge_constraint existing constraint = merge_loop constraint False existing"

definition rebuild_sqlite_table_with_added_constraint ::
  "renderer \<Rightarrow> database_backend \<Rightarrow> string \<Rightarrow> table_constraint \<Rightarrow> schema \<Rightarrow> table_constraint list \<Rightarrow> queries" where
  "rebuild_sqlite_table_with_added_constraint render backend table constraint current_schema pending_constraints =
     (case require_table_in_schema current_schema table
             ''SQLite requires current schema information to add constraints'' of
        Inl e \<Rightarrow> Inl e
      | Inr table_def \<Rightarrow>
          Inr (build_sqlite_table_rebuild render backend table (tbl_columns table_def)
            (merge_constraint (tbl_constraints table_def) constraint) (tbl_columns table_def)
            (tbl_constraints table_def) pending_constraints))"

text \<open>\<open>queries.extend(f(..)?)\<close> after the queries already built.\<close>

definition extend_queries :: "built_query list \<Rightarrow> queries \<Rightarrow> queries" where
  "extend_queries qs r = (case r of Inl e \<Rightarrow> Inl e | Inr added \<Rightarrow> Inr (qs @ added))"

section \<open>Adding a key\<close>

fun build_pk_pre_cleanup ::
  "database_backend \<Rightarrow> string \<Rightarrow> string list \<Rightarrow> primary_key_addition_strategy \<Rightarrow> schema \<Rightarrow> built_query list" where
  "build_pk_pre_cleanup backend table new_pk_columns (PkDeleteDuplicates keep) current_schema =
     (case try_resolve_single_pk_column table current_schema new_pk_columns of
        None \<Rightarrow> []
      | Some old_pk_column \<Rightarrow> [duplicate_delete backend table old_pk_column keep new_pk_columns])"

definition build_primary_key ::
  "renderer \<Rightarrow> database_backend \<Rightarrow> string \<Rightarrow> string list \<Rightarrow> primary_key_addition_strategy \<Rightarrow> table_constraint \<Rightarrow>
   schema \<Rightarrow> table_constraint list \<Rightarrow> queries" where
  "build_primary_key render backend table columns strategy constraint current_schema pending_constraints =
     (let cleanup = build_pk_pre_cleanup backend table columns strategy current_schema
      in if backend = Sqlite then
           extend_queries cleanup
             (rebuild_sqlite_table_with_added_constraint render backend table constraint current_schema pending_constraints)
         else
           let pg_sql = ''ALTER TABLE '' @ quote_ident table Postgres @ '' ADD PRIMARY KEY ('' @
                 quote_idents columns Postgres @ '')'';
               mysql_sql = ''ALTER TABLE '' @ quote_ident table MySql @ '' ADD PRIMARY KEY ('' @
                 quote_idents columns MySql @ '')''
           in Inr (cleanup @ [QRaw (raw_per_backend pg_sql mysql_sql pg_sql)]))"

section \<open>Adding a unique constraint or an index\<close>

fun build_pre_cleanup_delete ::
  "database_backend \<Rightarrow> string \<Rightarrow> string list \<Rightarrow> unique_constraint_strategy \<Rightarrow> schema \<Rightarrow> queries" where
  "build_pre_cleanup_delete backend table columns (UniqueDeleteDuplicates keep) current_schema =
     (case try_resolve_single_pk_column table current_schema columns of
        None \<Rightarrow> Inr []
      | Some pk_column \<Rightarrow> Inr [duplicate_delete backend table pk_column keep columns])"

definition build_unique_index :: "string \<Rightarrow> string option \<Rightarrow> string list \<Rightarrow> built_query" where
  "build_unique_index table name columns = QCreateIndex (sea_unique_index (Some table) table columns name)"

definition build_unique ::
  "database_backend \<Rightarrow> string \<Rightarrow> string option \<Rightarrow> string list \<Rightarrow> unique_constraint_strategy \<Rightarrow> schema \<Rightarrow> queries" where
  "build_unique backend table name columns strategy current_schema =
     (case build_pre_cleanup_delete backend table columns strategy current_schema of
        Inl e \<Rightarrow> Inl e
      | Inr queries \<Rightarrow> Inr (queries @ [build_unique_index table name columns]))"

definition build_index :: "string \<Rightarrow> string option \<Rightarrow> string list \<Rightarrow> built_query list" where
  "build_index table name columns = [QCreateIndex (sea_plain_index table columns name)]"

section \<open>Adding a foreign key\<close>

definition render_fk_action_clause :: "string \<Rightarrow> reference_action option \<Rightarrow> string" where
  "render_fk_action_clause pre action =
     (case action of None \<Rightarrow> [] | Some a \<Rightarrow> '' '' @ pre @ '' '' @ to_sql_keyword a)"

definition fk_not_exists :: "database_backend \<Rightarrow> string \<Rightarrow> string list \<Rightarrow> string \<Rightarrow> string list \<Rightarrow> string" where
  "fk_not_exists backend child_table child_columns ref_table ref_columns =
     (let join_terms = map (\<lambda>(c, r). quote_ident ref_table backend @ ''.'' @ quote_ident r backend @ '' = '' @
            quote_ident child_table backend @ ''.'' @ quote_ident c backend) (zip child_columns ref_columns)
      in ''NOT EXISTS (SELECT 1 FROM '' @ quote_ident ref_table backend @ '' WHERE '' @ join '' AND '' join_terms @ '')'')"

definition build_fk_orphan_cleanup ::
  "database_backend \<Rightarrow> string \<Rightarrow> string list \<Rightarrow> string \<Rightarrow> string list \<Rightarrow> foreign_key_orphan_strategy \<Rightarrow> queries" where
  "build_fk_orphan_cleanup backend child_table child_columns ref_table ref_columns strategy =
     (if length child_columns \<noteq> length ref_columns then
        Inl (SchemaError (''FK on '' @ quoted child_table @ '': child columns ('' @ nat_to_string (length child_columns) @
          '') and ref columns ('' @ nat_to_string (length ref_columns) @ '') length mismatch''))
      else if child_columns = [] then Inr []
      else
        let not_exists = fk_not_exists backend child_table child_columns ref_table ref_columns
        in Inr [raw (if strategy = NullifyOrphans then
             ''UPDATE '' @ quote_ident child_table backend @ '' SET '' @
             join '', '' (map (\<lambda>c. quote_ident c backend @ '' = NULL'') child_columns) @ '' WHERE ('' @
             join '' OR '' (map (\<lambda>c. quote_ident c backend @ '' IS NOT NULL'') child_columns) @ '') AND '' @ not_exists
           else ''DELETE FROM '' @ quote_ident child_table backend @ '' WHERE '' @ not_exists)])"

definition build_foreign_key ::
  "renderer \<Rightarrow> database_backend \<Rightarrow> string \<Rightarrow> string option \<Rightarrow> string list \<Rightarrow> string \<Rightarrow> string list \<Rightarrow>
   reference_action option \<Rightarrow> reference_action option \<Rightarrow> foreign_key_orphan_strategy \<Rightarrow> table_constraint \<Rightarrow> schema \<Rightarrow>
   table_constraint list \<Rightarrow> queries" where
  "build_foreign_key render backend table name columns ref_table ref_columns on_delete on_update orphan_strategy
       constraint current_schema pending_constraints =
     (case build_fk_orphan_cleanup backend table columns ref_table ref_columns orphan_strategy of
        Inl e \<Rightarrow> Inl e
      | Inr cleanup \<Rightarrow>
          if backend = Sqlite then
            extend_queries cleanup
              (rebuild_sqlite_table_with_added_constraint render backend table constraint current_schema pending_constraints)
          else if backend = Postgres then
            let quoted_table = quote_ident table backend;
                quoted_name = quote_ident (build_foreign_key_name table columns name) backend
            in Inr (cleanup @
                 [raw (''ALTER TABLE '' @ quoted_table @ '' ADD CONSTRAINT '' @ quoted_name @ '' FOREIGN KEY ('' @
                    quote_idents columns backend @ '') REFERENCES '' @ quote_ident ref_table backend @ '' ('' @
                    quote_idents ref_columns backend @ '')'' @ render_fk_action_clause ''ON DELETE'' on_delete @
                    render_fk_action_clause ''ON UPDATE'' on_update @ '' NOT VALID''),
                  raw (''ALTER TABLE '' @ quoted_table @ '' VALIDATE CONSTRAINT '' @ quoted_name)])
          else Inr (cleanup @ [QCreateForeignKey (sea_fk table name columns ref_table ref_columns on_delete on_update)]))"

section \<open>Adding a check\<close>

fun build_check_violation_cleanup ::
  "database_backend \<Rightarrow> string \<Rightarrow> string \<Rightarrow> check_violation_strategy \<Rightarrow> queries" where
  "build_check_violation_cleanup backend table expr (NullifyViolatingColumn column) =
     Inr [raw (''UPDATE '' @ quote_ident table backend @ '' SET '' @ quote_ident column backend @
            '' = NULL WHERE NOT ('' @ expr @ '')'')]"
| "build_check_violation_cleanup backend table expr DeleteViolatingRows =
     Inr [raw (''DELETE FROM '' @ quote_ident table backend @ '' WHERE NOT ('' @ expr @ '')'')]"

definition build_check ::
  "renderer \<Rightarrow> database_backend \<Rightarrow> string \<Rightarrow> string \<Rightarrow> string \<Rightarrow> check_violation_strategy \<Rightarrow> table_constraint \<Rightarrow> schema \<Rightarrow>
   table_constraint list \<Rightarrow> queries" where
  "build_check render backend table name expr strategy constraint current_schema pending_constraints =
     (case build_check_violation_cleanup backend table expr strategy of
        Inl e \<Rightarrow> Inl e
      | Inr cleanup \<Rightarrow>
          if backend = Sqlite then
            extend_queries cleanup
              (rebuild_sqlite_table_with_added_constraint render backend table constraint current_schema pending_constraints)
          else
            let quoted_table = quote_ident table backend; quoted_name = quote_ident name backend;
                add = ''ALTER TABLE '' @ quoted_table @ '' ADD CONSTRAINT '' @ quoted_name @ '' CHECK ('' @ expr @ '')''
            in if backend = Postgres
               then Inr (cleanup @ [raw (add @ '' NOT VALID''),
                           raw (''ALTER TABLE '' @ quoted_table @ '' VALIDATE CONSTRAINT '' @ quoted_name)])
               else Inr (cleanup @ [raw add]))"

section \<open>Adding any constraint\<close>

fun build_add_constraint ::
  "renderer \<Rightarrow> database_backend \<Rightarrow> string \<Rightarrow> table_constraint \<Rightarrow> schema \<Rightarrow> table_constraint list \<Rightarrow> queries" where
  "build_add_constraint render backend table (PrimaryKey ai columns strategy) current_schema pending =
     build_primary_key render backend table columns strategy (PrimaryKey ai columns strategy) current_schema pending"
| "build_add_constraint render backend table (Unique name columns strategy) current_schema pending =
     build_unique backend table name columns strategy current_schema"
| "build_add_constraint render backend table (ForeignKey name columns ref_table ref_columns od ou orphans)
       current_schema pending =
     build_foreign_key render backend table name columns ref_table ref_columns od ou orphans
       (ForeignKey name columns ref_table ref_columns od ou orphans) current_schema pending"
| "build_add_constraint render backend table (Index name columns) current_schema pending =
     Inr (build_index table name columns)"
| "build_add_constraint render backend table (Check name expr strategy) current_schema pending =
     build_check render backend table name expr strategy (Check name expr strategy) current_schema pending"

section \<open>Removing a constraint\<close>

definition pg_drop_constraint :: "string \<Rightarrow> string \<Rightarrow> built_query" where
  "pg_drop_constraint table name =
     raw (''ALTER TABLE '' @ quote_ident table Postgres @ '' DROP CONSTRAINT '' @ quote_ident name Postgres)"

fun postgres_remove_constraint :: "string \<Rightarrow> table_constraint \<Rightarrow> built_query list" where
  "postgres_remove_constraint table (PrimaryKey _ _ _) = [pg_drop_constraint table (table @ ''_pkey'')]"
| "postgres_remove_constraint table (Unique name columns _) =
     [raw (''DROP INDEX '' @ quote_ident (build_unique_constraint_name table columns name) Postgres)]"
| "postgres_remove_constraint table (ForeignKey name columns _ _ _ _ _) =
     [QDropForeignKey table (build_foreign_key_name table columns name)]"
| "postgres_remove_constraint table (Index name columns) =
     [build_drop_index_query table (build_index_name table columns name)]"
| "postgres_remove_constraint table (Check name _ _) = [pg_drop_constraint table name]"

definition mysql_alter :: "string \<Rightarrow> string \<Rightarrow> built_query" where
  "mysql_alter table change = raw (''ALTER TABLE '' @ quote_ident table MySql @ '' '' @ change)"

fun mysql_remove_constraint :: "string \<Rightarrow> table_constraint \<Rightarrow> built_query list" where
  "mysql_remove_constraint table (PrimaryKey _ _ _) = [mysql_alter table ''DROP PRIMARY KEY'']"
| "mysql_remove_constraint table (Unique name columns _) =
     [mysql_alter table (''DROP INDEX '' @ quote_ident (build_unique_constraint_name table columns name) MySql)]"
| "mysql_remove_constraint table (ForeignKey name columns _ _ _ _ _) =
     [mysql_alter table (''DROP FOREIGN KEY '' @ quote_ident (build_foreign_key_name table columns name) MySql)]"
| "mysql_remove_constraint table (Index name columns) =
     [build_drop_index_query table (build_index_name table columns name)]"
| "mysql_remove_constraint table (Check name _ _) = [mysql_alter table (''DROP CHECK '' @ quote_ident name MySql)]"

fun requires_rebuild :: "table_constraint \<Rightarrow> bool" where
  "requires_rebuild (Index _ _) = False"
| "requires_rebuild _ = True"

fun same_named_or_column_constraint ::
  "string option \<Rightarrow> string list \<Rightarrow> string option \<Rightarrow> string list \<Rightarrow> bool" where
  "same_named_or_column_constraint (Some candidate_name) candidate_columns (Some removed_name) removed_columns =
     (candidate_name = removed_name)"
| "same_named_or_column_constraint _ candidate_columns _ removed_columns = (candidate_columns = removed_columns)"

fun same_constraint :: "table_constraint \<Rightarrow> table_constraint \<Rightarrow> bool" where
  "same_constraint (PrimaryKey _ _ _) (PrimaryKey _ _ _) = True"
| "same_constraint (Unique n1 c1 _) (Unique n2 c2 _) = same_named_or_column_constraint n1 c1 n2 c2"
| "same_constraint (ForeignKey n1 c1 _ _ _ _ _) (ForeignKey n2 c2 _ _ _ _ _) =
     same_named_or_column_constraint n1 c1 n2 c2"
| "same_constraint (Check n1 _ _) (Check n2 _ _) = (n1 = n2)"
| "same_constraint _ _ = False"

definition constraints_without :: "table_def \<Rightarrow> table_constraint \<Rightarrow> table_constraint list" where
  "constraints_without table_def removed =
     filter (\<lambda>candidate. \<not> same_constraint candidate removed) (tbl_constraints table_def)"

definition sqlite_remove_constraint ::
  "renderer \<Rightarrow> string \<Rightarrow> table_constraint \<Rightarrow> schema \<Rightarrow> table_constraint list \<Rightarrow> queries" where
  "sqlite_remove_constraint render table constraint current_schema pending_constraints =
     (case require_table_in_schema current_schema table
             ''SQLite requires current schema information to remove constraints'' of
        Inl e \<Rightarrow> Inl e
      | Inr table_def \<Rightarrow>
          let new_constraints = constraints_without table_def constraint
          in Inr (build_sqlite_table_rebuild render Sqlite table (tbl_columns table_def) new_constraints
               (tbl_columns table_def)
               (if is_unique constraint then new_constraints else tbl_constraints table_def) pending_constraints))"

fun constraint_kind_text :: "table_constraint \<Rightarrow> string" where
  "constraint_kind_text (PrimaryKey _ _ _) = ''primary key''"
| "constraint_kind_text (Unique _ _ _) = ''unique''"
| "constraint_kind_text (ForeignKey _ _ _ _ _ _ _) = ''foreign key''"
| "constraint_kind_text (Index _ _) = ''index''"
| "constraint_kind_text (Check _ _ _) = ''check''"

definition build_drop_index :: "string \<Rightarrow> table_constraint \<Rightarrow> queries" where
  "build_drop_index table constraint =
     (case constraint of
        Index name columns \<Rightarrow> Inr [build_drop_index_query table (build_index_name table columns name)]
      | _ \<Rightarrow> Inl (BackendError Sqlite (''SQLite constraint '' @ quoted (constraint_kind_text constraint) @
               '' requires a table rebuild'')))"

definition build_remove_constraint ::
  "renderer \<Rightarrow> database_backend \<Rightarrow> string \<Rightarrow> table_constraint \<Rightarrow> schema \<Rightarrow> table_constraint list \<Rightarrow> queries" where
  "build_remove_constraint render backend table constraint current_schema pending_constraints =
     (if backend = Sqlite \<and> requires_rebuild constraint then
        sqlite_remove_constraint render table constraint current_schema pending_constraints
      else if backend = Postgres then Inr (postgres_remove_constraint table constraint)
      else if backend = MySql then Inr (mysql_remove_constraint table constraint)
      else build_drop_index table constraint)"

section \<open>Replacing a constraint\<close>

definition build_sqlite_constraint_replace ::
  "renderer \<Rightarrow> database_backend \<Rightarrow> string \<Rightarrow> table_constraint \<Rightarrow> table_constraint \<Rightarrow> schema \<Rightarrow>
   table_constraint list \<Rightarrow> queries" where
  "build_sqlite_constraint_replace render backend table from to current_schema pending_constraints =
     (case require_table_in_schema current_schema table
             ''SQLite requires current schema information to replace constraints'' of
        Inl e \<Rightarrow> Inl e
      | Inr table_def \<Rightarrow>
          Inr (build_sqlite_table_rebuild render backend table (tbl_columns table_def)
            (map (\<lambda>c. if c = from then to else c) (tbl_constraints table_def))
            (tbl_columns table_def) (tbl_constraints table_def) pending_constraints))"

definition build_direct_foreign_key_replace ::
  "string \<Rightarrow> string option \<Rightarrow> string list \<Rightarrow> string option \<Rightarrow> string list \<Rightarrow> string \<Rightarrow> string list \<Rightarrow>
   reference_action option \<Rightarrow> reference_action option \<Rightarrow> built_query list" where
  "build_direct_foreign_key_replace table old_name old_columns new_name new_columns ref_table ref_columns on_delete
       on_update =
     [QDropForeignKey table (build_foreign_key_name table old_columns old_name),
      QCreateForeignKey (sea_fk table new_name new_columns ref_table ref_columns on_delete on_update)]"

definition with_constraint_replaced :: "schema \<Rightarrow> string \<Rightarrow> table_constraint \<Rightarrow> table_constraint \<Rightarrow> schema" where
  "with_constraint_replaced current_schema table from to =
     map (\<lambda>t. if tbl_name t = table
              then t\<lparr>tbl_constraints := filter (\<lambda>c. c \<noteq> from) (tbl_constraints t) @ [to]\<rparr> else t) current_schema"

definition build_replace_constraint ::
  "renderer \<Rightarrow> database_backend \<Rightarrow> string \<Rightarrow> table_constraint \<Rightarrow> table_constraint \<Rightarrow> schema \<Rightarrow>
   table_constraint list \<Rightarrow> queries" where
  "build_replace_constraint render backend table from to current_schema pending_constraints =
     (if backend = Sqlite then
        build_sqlite_constraint_replace render backend table from to current_schema pending_constraints
      else case (from, to) of
        (ForeignKey old_name old_columns _ _ _ _ _,
         ForeignKey new_name new_columns ref_table ref_columns on_delete on_update _) \<Rightarrow>
          Inr (build_direct_foreign_key_replace table old_name old_columns new_name new_columns ref_table ref_columns
            on_delete on_update)
      | _ \<Rightarrow>
          (case build_remove_constraint render backend table from current_schema pending_constraints of
             Inl e \<Rightarrow> Inl e
           | Inr queries \<Rightarrow>
               extend_queries queries (build_add_constraint render backend table to
                 (with_constraint_replaced current_schema table from to) pending_constraints)))"

end
