(* ===== verification/Sql_Types.thy ===== *)
theory Sql_Types
  imports Type_Risks Sql_Create
begin

text \<open>
  The statements of a column type change (\<open>sql/modify_column_type/\<close>): the statements that make the
  rows fit first, the change itself on each backend, and the enum types of PostgreSQL.  The warning
  about quoted replacements that the code prints once to stderr is left out.
\<close>

section \<open>Debug text\<close>

fun debug_simple_type :: "simple_column_type \<Rightarrow> string" where
  "debug_simple_type SmallInt = ''SmallInt''"
| "debug_simple_type Integer = ''Integer''"
| "debug_simple_type BigInt = ''BigInt''"
| "debug_simple_type Real = ''Real''"
| "debug_simple_type DoublePrecision = ''DoublePrecision''"
| "debug_simple_type Text = ''Text''"
| "debug_simple_type Boolean = ''Boolean''"
| "debug_simple_type Date = ''Date''"
| "debug_simple_type Time = ''Time''"
| "debug_simple_type Timestamp = ''Timestamp''"
| "debug_simple_type Timestamptz = ''Timestamptz''"
| "debug_simple_type Interval = ''Interval''"
| "debug_simple_type Bytea = ''Bytea''"
| "debug_simple_type Uuid = ''Uuid''"
| "debug_simple_type Json = ''Json''"
| "debug_simple_type Inet = ''Inet''"
| "debug_simple_type Cidr = ''Cidr''"
| "debug_simple_type Macaddr = ''Macaddr''"
| "debug_simple_type Xml = ''Xml''"

definition debug_num_value :: "num_value \<Rightarrow> string" where
  "debug_num_value v = ''NumValue { name: '' @ debug_str (nv_name v) @ '', value: '' @ int_to_string (nv_value v) @ '' }''"

fun debug_enum_values :: "enum_values \<Rightarrow> string" where
  "debug_enum_values (EnumString vs) = ''String('' @ debug_list debug_str vs @ '')''"
| "debug_enum_values (EnumInteger vs) = ''Integer('' @ debug_list debug_num_value vs @ '')''"

fun debug_complex_type :: "complex_column_type \<Rightarrow> string" where
  "debug_complex_type (Varchar n) = ''Varchar { length: '' @ nat_to_string n @ '' }''"
| "debug_complex_type (Numeric p s) =
     ''Numeric { precision: '' @ nat_to_string p @ '', scale: '' @ nat_to_string s @ '' }''"
| "debug_complex_type (CharN n) = ''Char { length: '' @ nat_to_string n @ '' }''"
| "debug_complex_type (Custom t) = ''Custom { custom_type: '' @ debug_str t @ '' }''"
| "debug_complex_type (Enum name vs) =
     ''Enum { name: '' @ debug_str name @ '', values: '' @ debug_enum_values vs @ '' }''"

fun debug_column_type :: "column_type \<Rightarrow> string" where
  "debug_column_type (Simple ty) = ''Simple('' @ debug_simple_type ty @ '')''"
| "debug_column_type (Complex ty) = ''Complex('' @ debug_complex_type ty @ '')''"

definition debug_from_to :: "string \<Rightarrow> nat \<Rightarrow> nat \<Rightarrow> string" where
  "debug_from_to variant a b = variant @ '' { from: '' @ nat_to_string a @ '', to: '' @ nat_to_string b @ '' }''"

fun debug_narrowing_kind :: "narrowing_kind \<Rightarrow> string" where
  "debug_narrowing_kind (VarcharLength a b) = debug_from_to ''VarcharLength'' a b"
| "debug_narrowing_kind (CharLength a b) = debug_from_to ''CharLength'' a b"
| "debug_narrowing_kind (VarcharToCharShorter a b) = debug_from_to ''VarcharToCharShorter'' a b"
| "debug_narrowing_kind (CharToVarcharShorter a b) = debug_from_to ''CharToVarcharShorter'' a b"
| "debug_narrowing_kind (NumericScale a b) =
     ''NumericScale { from_scale: '' @ nat_to_string a @ '', to_scale: '' @ nat_to_string b @ '' }''"
| "debug_narrowing_kind (NumericIntegerDigits a b) =
     ''NumericIntegerDigits { from_int_digits: '' @ nat_to_string a @ '', to_int_digits: '' @ nat_to_string b @ '' }''"
| "debug_narrowing_kind (IntegerSize a b) = ''IntegerSize { from: '' @ debug_str a @ '', to: '' @ debug_str b @ '' }''"
| "debug_narrowing_kind (FloatSize a b) = ''FloatSize { from: '' @ debug_str a @ '', to: '' @ debug_str b @ '' }''"
| "debug_narrowing_kind (TextToVarchar n) = ''TextToVarchar { to_length: '' @ nat_to_string n @ '' }''"
| "debug_narrowing_kind (TextToChar n) = ''TextToChar { to_length: '' @ nat_to_string n @ '' }''"
| "debug_narrowing_kind TimestamptzToTimestamp = ''TimestamptzToTimestamp''"

section \<open>Making the rows fit\<close>

fun length_function :: "database_backend \<Rightarrow> string" where
  "length_function MySql = ''CHAR_LENGTH''"
| "length_function Postgres = ''LENGTH''"
| "length_function Sqlite = ''length''"

definition ten_pow_string :: "nat \<Rightarrow> string" where
  "ten_pow_string n = CHR ''1'' # replicate (min n 38) (CHR ''0'')"

definition integer_bounds :: "string \<Rightarrow> int \<times> int" where
  "integer_bounds target =
     (if target = ''smallint'' then (- (2 ^ 15), 2 ^ 15 - 1)
      else if target = ''integer'' then (- (2 ^ 31), 2 ^ 31 - 1)
      else (i64_min, i64_max))"

definition too_long :: "database_backend \<Rightarrow> string \<Rightarrow> nat \<Rightarrow> string" where
  "too_long backend column n = length_function backend @ ''('' @ quote_ident column backend @ '') > '' @ nat_to_string n"

fun violation_predicate :: "database_backend \<Rightarrow> string \<Rightarrow> narrowing_kind \<Rightarrow> query_error + string" where
  "violation_predicate backend column (VarcharLength _ b) = Inr (too_long backend column b)"
| "violation_predicate backend column (CharLength _ b) = Inr (too_long backend column b)"
| "violation_predicate backend column (VarcharToCharShorter _ b) = Inr (too_long backend column b)"
| "violation_predicate backend column (CharToVarcharShorter _ b) = Inr (too_long backend column b)"
| "violation_predicate backend column (TextToVarchar n) = Inr (too_long backend column n)"
| "violation_predicate backend column (TextToChar n) = Inr (too_long backend column n)"
| "violation_predicate backend column (NumericScale _ to_scale) =
     Inr (quote_ident column backend @ '' <> ROUND('' @ quote_ident column backend @ '', '' @
          nat_to_string to_scale @ '')'')"
| "violation_predicate backend column (NumericIntegerDigits _ to_int_digits) =
     Inr (''ABS('' @ quote_ident column backend @ '') >= '' @ ten_pow_string to_int_digits)"
| "violation_predicate backend column (IntegerSize _ target) =
     (let (lo, hi) = integer_bounds target; c = quote_ident column backend
      in Inr (c @ '' > '' @ int_to_string hi @ '' OR '' @ c @ '' < '' @ int_to_string lo))"
| "violation_predicate backend column (FloatSize a b) =
     Inl (UnsupportedAction (''narrowing_strategy='' @ debug_narrowing_kind (FloatSize a b) @
       '' cannot generate a violation predicate (every value is affected by precision downcast)''))"
| "violation_predicate backend column TimestamptzToTimestamp =
     Inl (UnsupportedAction (''narrowing_strategy on timestamptz->timestamp is not supported '' @
       ''(every row is reinterpreted; pre-clean via fill_with timezone prompt instead)''))"

definition string_left_update :: "database_backend \<Rightarrow> string \<Rightarrow> string \<Rightarrow> nat \<Rightarrow> built_query" where
  "string_left_update backend table column new_len =
     (let c = quote_ident column backend; n = nat_to_string new_len;
          shortened = (if backend = Sqlite then ''substr('' @ c @ '', 1, '' @ n @ '')'' else ''LEFT('' @ c @ '', '' @ n @ '')'')
      in raw (''UPDATE '' @ quote_ident table backend @ '' SET '' @ c @ '' = '' @ shortened @ '' WHERE '' @
           too_long backend column new_len))"

definition numeric_round_update :: "database_backend \<Rightarrow> string \<Rightarrow> string \<Rightarrow> nat \<Rightarrow> built_query" where
  "numeric_round_update backend table column new_scale =
     (let c = quote_ident column backend
      in raw (''UPDATE '' @ quote_ident table backend @ '' SET '' @ c @ '' = ROUND('' @ c @ '', '' @
           nat_to_string new_scale @ '')''))"

fun narrowed_length :: "narrowing_kind \<Rightarrow> nat option" where
  "narrowed_length (VarcharLength _ b) = Some b"
| "narrowed_length (CharLength _ b) = Some b"
| "narrowed_length (VarcharToCharShorter _ b) = Some b"
| "narrowed_length (CharToVarcharShorter _ b) = Some b"
| "narrowed_length (TextToVarchar n) = Some n"
| "narrowed_length (TextToChar n) = Some n"
| "narrowed_length _ = None"

definition build_truncate :: "database_backend \<Rightarrow> string \<Rightarrow> string \<Rightarrow> narrowing_kind \<Rightarrow> queries" where
  "build_truncate backend table column kind =
     (case narrowed_length kind of
        Some new_len \<Rightarrow> Inr [string_left_update backend table column new_len]
      | None \<Rightarrow>
          (case kind of
             NumericScale _ to_scale \<Rightarrow> Inr [numeric_round_update backend table column to_scale]
           | _ \<Rightarrow> Inl (UnsupportedAction (''narrowing_strategy=truncate is not defined for '' @
                    debug_narrowing_kind kind @ ''; use '' @ [CHR 0x60] @ ''delete'' @ [CHR 0x60] @ '' or '' @ [CHR 0x60] @
                    ''set_to_value'' @ [CHR 0x60] @ '' instead''))))"

definition build_delete :: "database_backend \<Rightarrow> string \<Rightarrow> string \<Rightarrow> narrowing_kind \<Rightarrow> queries" where
  "build_delete backend table column kind =
     (case violation_predicate backend column kind of
        Inl e \<Rightarrow> Inl e
      | Inr predicate \<Rightarrow> Inr [raw (''DELETE FROM '' @ quote_ident table backend @ '' WHERE '' @ predicate)])"

definition build_set_to_value ::
  "database_backend \<Rightarrow> string \<Rightarrow> string \<Rightarrow> narrowing_kind \<Rightarrow> string \<Rightarrow> queries" where
  "build_set_to_value backend table column kind v =
     (case violation_predicate backend column kind of
        Inl e \<Rightarrow> Inl e
      | Inr predicate \<Rightarrow>
          Inr [raw (''UPDATE '' @ quote_ident table backend @ '' SET '' @ quote_ident column backend @ '' = '' @ v @
                 '' WHERE '' @ predicate)])"

definition lookup_old_type :: "string \<Rightarrow> string \<Rightarrow> schema \<Rightarrow> column_type option" where
  "lookup_old_type table column baseline =
     (case find_table baseline table of None \<Rightarrow> None | Some t \<Rightarrow> map_option col_type (find_column t column))"

definition build_narrowing_preprocess ::
  "database_backend \<Rightarrow> string \<Rightarrow> string \<Rightarrow> column_type \<Rightarrow> narrowing_strategy \<Rightarrow> schema \<Rightarrow> queries" where
  "build_narrowing_preprocess backend table column new_type strategy baseline =
     (case lookup_old_type table column baseline of
        None \<Rightarrow> Inr []
      | Some old_type \<Rightarrow>
          (case is_narrowing old_type new_type of
             None \<Rightarrow> Inr []
           | Some kind \<Rightarrow>
               (case strategy of
                  Truncate \<Rightarrow> build_truncate backend table column kind
                | SetToValue v \<Rightarrow> build_set_to_value backend table column kind v
                | DeleteRow \<Rightarrow> build_delete backend table column kind)))"

section \<open>Replacing removed enum labels\<close>

definition strip_legacy_outer_quotes :: "string \<Rightarrow> string" where
  "strip_legacy_outer_quotes replacement =
     (case strip_prefix [CHR 0x27] replacement of
        None \<Rightarrow> replacement
      | Some inner \<Rightarrow> (case strip_suffix [CHR 0x27] inner of None \<Rightarrow> replacement | Some bare \<Rightarrow> bare))"

definition build_fill_with_updates :: "string \<Rightarrow> string \<Rightarrow> (string, string) omap \<Rightarrow> built_query list" where
  "build_fill_with_updates table column fill_with =
     map (\<lambda>(removed_value, replacement).
       QUpdate \<lparr>sup_table = table, sup_column = column, sup_value = ExprVal (strip_legacy_outer_quotes replacement),
         sup_where = Some (column, removed_value)\<rparr>) fill_with"

definition fill_with_updates :: "string \<Rightarrow> string \<Rightarrow> (string, string) omap option \<Rightarrow> built_query list" where
  "fill_with_updates table column fill_with =
     (case fill_with of None \<Rightarrow> [] | Some fw \<Rightarrow> build_fill_with_updates table column fw)"

section \<open>SQLite: the rebuild\<close>

definition build_modify_column_type_sqlite_temp_table ::
  "renderer \<Rightarrow> database_backend \<Rightarrow> string \<Rightarrow> string \<Rightarrow> column_type \<Rightarrow> (string, string) omap option \<Rightarrow> schema \<Rightarrow>
   table_constraint list \<Rightarrow> queries" where
  "build_modify_column_type_sqlite_temp_table render backend table column new_type fill_with current_schema
       pending_constraints =
     (case require_table_in_schema current_schema table
             ''SQLite requires current schema information to modify column types'' of
        Inl e \<Rightarrow> Inl e
      | Inr table_def \<Rightarrow>
          (case position (\<lambda>c. col_name c = column) (tbl_columns table_def) of
             None \<Rightarrow> Inl (SchemaError (''Column '' @ quoted column @ '' not found in table '' @ quoted table))
           | Some i \<Rightarrow>
               let new_columns = (tbl_columns table_def)
                     [i := (tbl_columns table_def ! i)\<lparr>col_type := new_type\<rparr>]
               in Inr (fill_with_updates table column fill_with @
                    build_sqlite_table_rebuild render backend table new_columns (tbl_constraints table_def) new_columns
                      (tbl_constraints table_def) pending_constraints)))"

section \<open>PostgreSQL and MySQL: the direct change\<close>

record direct_context =
  dc_backend :: database_backend
  dc_table :: string
  dc_column :: string
  dc_new_type :: column_type
  dc_fill_with :: "(string, string) omap option"
  dc_current_schema :: schema
  dc_old_type :: "column_type option"

definition old_column_type :: "schema \<Rightarrow> string \<Rightarrow> string \<Rightarrow> column_type option" where
  "old_column_type current_schema table column = map_option col_type (find_column_in_schema current_schema table column)"

definition postgres_raw :: "string \<Rightarrow> built_query" where
  "postgres_raw sql = QRaw (raw_postgres_only sql)"

definition pg_alter_column :: "string \<Rightarrow> string \<Rightarrow> string \<Rightarrow> built_query" where
  "pg_alter_column table column suffix = postgres_raw (build_pg_alter_column_sql table column suffix)"

definition needs_postgres_enum_migration :: "direct_context \<Rightarrow> bool" where
  "needs_postgres_enum_migration ctx \<longleftrightarrow>
     dc_backend ctx = Postgres \<and>
     (case (dc_old_type ctx, dc_new_type ctx) of
        (Some (Complex (Enum old_name old_values)), Complex (Enum new_name new_values)) \<Rightarrow>
          old_name \<noteq> new_name \<or> old_values \<noteq> new_values
      | _ \<Rightarrow> False)"

definition column_default :: "direct_context \<Rightarrow> default_value option" where
  "column_default ctx =
     (case find_column_in_schema (dc_current_schema ctx) (dc_table ctx) (dc_column ctx) of
        None \<Rightarrow> None
      | Some c \<Rightarrow> col_default c)"

definition build_postgres_enum_migration :: "direct_context \<Rightarrow> built_query list" where
  "build_postgres_enum_migration ctx =
     (case (dc_old_type ctx, dc_new_type ctx) of
        (Some (Complex (Enum old_enum_name _)), Complex (Enum new_enum_name new_values)) \<Rightarrow>
          let table = dc_table ctx; column = dc_column ctx;
              old_type_name = build_enum_type_name table old_enum_name;
              names_differ = old_enum_name \<noteq> new_enum_name;
              target_type_name = (if names_differ then build_enum_type_name table new_enum_name
                                  else old_type_name @ ''_new'');
              target = quote_ident target_type_name Postgres;
              old = quote_ident old_type_name Postgres;
              dflt = column_default ctx
          in fill_with_updates table column (dc_fill_with ctx) @
             [postgres_raw (''CREATE TYPE '' @ target @ '' AS ENUM ('' @ sql_values_joined new_values '', '' @ '')'')] @
             (if dflt \<noteq> None then [pg_alter_column table column ''DROP DEFAULT''] else []) @
             [pg_alter_column table column (''TYPE '' @ target @ '' USING '' @ quote_ident column Postgres @
                ''::text::'' @ target),
              postgres_raw (''DROP TYPE '' @ old)] @
             (if names_differ then [] else [postgres_raw (''ALTER TYPE '' @ target @ '' RENAME TO '' @ old)]) @
             (case dflt of
                Some default_value \<Rightarrow>
                  [pg_alter_column table column (''SET DEFAULT '' @
                     normalize_enum_default (dc_new_type ctx) (to_sql default_value))]
              | None \<Rightarrow> [])
      | _ \<Rightarrow> [])"

definition create_new_enum_type_if_needed :: "direct_context \<Rightarrow> built_query list" where
  "create_new_enum_type_if_needed ctx =
     (case dc_new_type ctx of
        Complex (Enum new_name _) \<Rightarrow>
          if (case dc_old_type ctx of Some (Complex (Enum old_name _)) \<Rightarrow> old_name \<noteq> new_name | _ \<Rightarrow> True)
          then (case build_create_enum_type_sql (dc_table ctx) (dc_new_type ctx) of Some sql \<Rightarrow> [QRaw sql] | None \<Rightarrow> [])
          else []
      | _ \<Rightarrow> [])"

definition preserve_mysql_column_attributes :: "direct_context \<Rightarrow> sea_spec list" where
  "preserve_mysql_column_attributes ctx =
     (case (if dc_backend ctx = MySql
            then find_column_in_schema (dc_current_schema ctx) (dc_table ctx) (dc_column ctx) else None) of
        None \<Rightarrow> []
      | Some column_def \<Rightarrow>
          (if col_nullable column_def then [] else [SpecNotNull]) @
          (case col_default column_def of
             None \<Rightarrow> []
           | Some dflt \<Rightarrow>
               [SpecDefault (normalize_enum_default (dc_new_type ctx)
                  (convert_default_for_backend (to_sql dflt) (dc_backend ctx)))]))"

definition drop_old_enum_type_if_needed :: "direct_context \<Rightarrow> built_query list" where
  "drop_old_enum_type_if_needed ctx =
     (case dc_old_type ctx of
        Some (Complex (Enum old_name _)) \<Rightarrow>
          if (case dc_new_type ctx of Complex (Enum new_name _) \<Rightarrow> old_name \<noteq> new_name | _ \<Rightarrow> True)
          then [postgres_raw (''DROP TYPE '' @ quote_ident (build_enum_type_name (dc_table ctx) old_name) Postgres)]
          else []
      | _ \<Rightarrow> [])"

definition build_standard_type_modification :: "direct_context \<Rightarrow> built_query list" where
  "build_standard_type_modification ctx =
     fill_with_updates (dc_table ctx) (dc_column ctx) (dc_fill_with ctx) @
     create_new_enum_type_if_needed ctx @
     [QAlterTable (dc_table ctx) (AlterModifyColumn
        \<lparr>sc_name = dc_column ctx,
         sc_type = apply_column_type_with_table (dc_new_type ctx) (dc_table ctx) (dc_backend ctx),
         sc_specs = preserve_mysql_column_attributes ctx\<rparr>)] @
     drop_old_enum_type_if_needed ctx"

definition build_modify_column_type_direct ::
  "database_backend \<Rightarrow> string \<Rightarrow> string \<Rightarrow> column_type \<Rightarrow> (string, string) omap option \<Rightarrow> schema \<Rightarrow>
   built_query list" where
  "build_modify_column_type_direct backend table column new_type fill_with current_schema =
     (let ctx = \<lparr>dc_backend = backend, dc_table = table, dc_column = column, dc_new_type = new_type,
                 dc_fill_with = fill_with, dc_current_schema = current_schema,
                 dc_old_type = old_column_type current_schema table column\<rparr>
      in if needs_postgres_enum_migration ctx then build_postgres_enum_migration ctx
         else build_standard_type_modification ctx)"

section \<open>The whole change\<close>

definition build_modify_column_type ::
  "renderer \<Rightarrow> database_backend \<Rightarrow> string \<Rightarrow> string \<Rightarrow> column_type \<Rightarrow> (string, string) omap option \<Rightarrow> schema \<Rightarrow>
   table_constraint list \<Rightarrow> queries" where
  "build_modify_column_type render backend table column new_type fill_with current_schema pending_constraints =
     (if backend = Sqlite then
        build_modify_column_type_sqlite_temp_table render backend table column new_type fill_with current_schema
          pending_constraints
      else Inr (build_modify_column_type_direct backend table column new_type fill_with current_schema))"

definition build_pg_alter_with_timezone :: "string \<Rightarrow> string \<Rightarrow> column_type \<Rightarrow> string \<Rightarrow> built_query option" where
  "build_pg_alter_with_timezone table column new_type tz =
     (let qc = quote_ident column Postgres;
          at_zone = qc @ '' AT TIME ZONE '' @ CHR 0x27 # escape_sql_string_literal tz @ [CHR 0x27];
          alter = (\<lambda>target using_expr. raw (''ALTER TABLE '' @ quote_ident table Postgres @ '' ALTER COLUMN '' @ qc @
            '' TYPE '' @ target @ '' USING '' @ using_expr))
      in case new_type of
           Simple Timestamptz \<Rightarrow> Some (alter ''timestamptz'' at_zone)
         | Simple Timestamp \<Rightarrow> Some (alter ''timestamp'' (''('' @ at_zone @ '')::timestamp''))
         | _ \<Rightarrow> None)"

definition build_modify_column_type_with_timezone ::
  "renderer \<Rightarrow> database_backend \<Rightarrow> string \<Rightarrow> string \<Rightarrow> column_type \<Rightarrow> (string, string) omap option \<Rightarrow>
   string option \<Rightarrow> schema \<Rightarrow> table_constraint list \<Rightarrow> queries" where
  "build_modify_column_type_with_timezone render backend table column new_type fill_with timezone current_schema
       pending_constraints =
     (case (if backend = Postgres then timezone else None) of
        Some tz \<Rightarrow>
          (case build_pg_alter_with_timezone table column new_type tz of
             Some q \<Rightarrow> Inr [q]
           | None \<Rightarrow> Inl (UnsupportedAction (''timezone metadata is only valid when converting to/from '' @
                     ''timestamp/timestamptz; got new_type = '' @ debug_column_type new_type)))
      | None \<Rightarrow>
          build_modify_column_type render backend table column new_type fill_with current_schema pending_constraints)"

definition build_with_narrowing_preprocess ::
  "renderer \<Rightarrow> database_backend \<Rightarrow> string \<Rightarrow> string \<Rightarrow> column_type \<Rightarrow> (string, string) omap option \<Rightarrow>
   narrowing_strategy option \<Rightarrow> string option \<Rightarrow> schema \<Rightarrow> table_constraint list \<Rightarrow> queries" where
  "build_with_narrowing_preprocess render backend table column new_type fill_with narrowing_strategy timezone
       current_schema pending_constraints =
     (case (case narrowing_strategy of
              Some strategy \<Rightarrow> build_narrowing_preprocess backend table column new_type strategy current_schema
            | None \<Rightarrow> Inr []) of
        Inl e \<Rightarrow> Inl e
      | Inr queries \<Rightarrow>
          (case build_modify_column_type_with_timezone render backend table column new_type fill_with timezone
                  current_schema pending_constraints of
             Inl e \<Rightarrow> Inl e
           | Inr added \<Rightarrow> Inr (queries @ added)))"

end
