(* ===== verification/Sql_Builder.thy ===== *)
theory Sql_Builder
  imports Sql_Columns Sql_Constraints Sql_Types
begin

text \<open>
  Query generation for one action (\<open>sql/mod.rs\<close>) and for a whole plan, in sequence, in parallel and
  inside a transaction (\<open>builder/\<close>).
\<close>

section \<open>One action\<close>

text \<open>The other actions are \<open>unreachable!\<close> here, and never dispatched here.\<close>

fun build_constraint_action_queries ::
  "renderer \<Rightarrow> database_backend \<Rightarrow> migration_action \<Rightarrow> schema \<Rightarrow> table_constraint list \<Rightarrow> queries" where
  "build_constraint_action_queries render backend (AddConstraint table constraint) current_schema pending =
     build_add_constraint render backend table constraint current_schema pending"
| "build_constraint_action_queries render backend (RemoveConstraint table constraint) current_schema pending =
     build_remove_constraint render backend table constraint current_schema pending"
| "build_constraint_action_queries render backend (ReplaceConstraint table from to) current_schema pending =
     build_replace_constraint render backend table from to current_schema pending"

fun build_action_queries_with_pending ::
  "renderer \<Rightarrow> database_backend \<Rightarrow> migration_action \<Rightarrow> schema \<Rightarrow> table_constraint list \<Rightarrow> queries" where
  "build_action_queries_with_pending render backend (CreateTable table columns constraints) current_schema pending =
     build_create_table render backend table columns constraints"
| "build_action_queries_with_pending render backend (DeleteTable table) current_schema pending =
     Inr [build_delete_table table]"
| "build_action_queries_with_pending render backend (AddColumn table column fill_with) current_schema pending =
     build_add_column render backend table column fill_with current_schema pending"
| "build_action_queries_with_pending render backend (RenameColumn table from to) current_schema pending =
     Inr [build_rename_column table from to]"
| "build_action_queries_with_pending render backend (DeleteColumn table column) current_schema pending =
     Inr (build_delete_column render backend table column
       (map_option col_type (find_column_in_schema current_schema table column)) current_schema pending)"
| "build_action_queries_with_pending render backend
       (ModifyColumnType table column new_type fill_with narrowing_strategy timezone) current_schema pending =
     build_with_narrowing_preprocess render backend table column new_type fill_with narrowing_strategy timezone
       current_schema pending"
| "build_action_queries_with_pending render backend
       (ModifyColumnNullable table column nullable fill_with delete_null_rows) current_schema pending =
     build_modify_column_nullable render backend table column nullable fill_with
       (case delete_null_rows of Some b \<Rightarrow> b | None \<Rightarrow> False) current_schema pending"
| "build_action_queries_with_pending render backend
       (ModifyColumnDefault table column new_default backfill) current_schema pending =
     build_modify_column_default render backend table column new_default backfill current_schema pending"
| "build_action_queries_with_pending render backend
       (ModifyColumnComment table column new_comment) current_schema pending =
     build_modify_column_comment render backend table column new_comment current_schema"
| "build_action_queries_with_pending render backend (RenameTable from to) current_schema pending =
     Inr [build_rename_table from to]"
| "build_action_queries_with_pending render backend (RawSql sql) current_schema pending = Inr [raw sql]"
| "build_action_queries_with_pending render backend (DataMigration sql _) current_schema pending =
     Inr (build_data_migration sql)"
| "build_action_queries_with_pending render backend (RemapEnumValues table column mapping) current_schema pending =
     build_remap_enum_values backend table column mapping"
| "build_action_queries_with_pending render backend (AddConstraint table constraint) current_schema pending =
     build_constraint_action_queries render backend (AddConstraint table constraint) current_schema pending"
| "build_action_queries_with_pending render backend (RemoveConstraint table constraint) current_schema pending =
     build_constraint_action_queries render backend (RemoveConstraint table constraint) current_schema pending"
| "build_action_queries_with_pending render backend (ReplaceConstraint table from to) current_schema pending =
     build_constraint_action_queries render backend (ReplaceConstraint table from to) current_schema pending"

definition build_action_queries ::
  "renderer \<Rightarrow> database_backend \<Rightarrow> migration_action \<Rightarrow> schema \<Rightarrow> queries" where
  "build_action_queries render backend action current_schema =
     build_action_queries_with_pending render backend action current_schema []"

section \<open>Plans\<close>

record plan_queries =
  pq_action :: migration_action
  pq_postgres :: "built_query list"
  pq_mysql :: "built_query list"
  pq_sqlite :: "built_query list"

fun action_target_table :: "migration_action \<Rightarrow> string option" where
  "action_target_table (RenameTable _ _) = None"
| "action_target_table (RawSql _) = None"
| "action_target_table action = action_table_name action"

fun pending_of :: "string \<Rightarrow> migration_action \<Rightarrow> table_constraint option" where
  "pending_of table (AddConstraint t constraint) =
     (if t = table then
        (case constraint of Index _ _ \<Rightarrow> Some constraint | Unique _ _ _ \<Rightarrow> Some constraint | _ \<Rightarrow> None)
      else None)"
| "pending_of table _ = None"

definition pending_constraints_for_action ::
  "migration_plan \<Rightarrow> nat \<Rightarrow> migration_action \<Rightarrow> table_constraint list" where
  "pending_constraints_for_action plan action_index action =
     (case action_target_table action of
        None \<Rightarrow> []
      | Some table \<Rightarrow> List.map_filter (pending_of table) (drop (action_index + 1) (plan_actions plan)))"

text \<open>The three \<open>?\<close> calls of one action, in their order.\<close>

definition action_plan_queries ::
  "renderer \<Rightarrow> migration_action \<Rightarrow> schema \<Rightarrow> table_constraint list \<Rightarrow> query_error + plan_queries" where
  "action_plan_queries render action schema pending =
     (case build_action_queries_with_pending render Postgres action schema pending of
        Inl e \<Rightarrow> Inl e
      | Inr postgres_queries \<Rightarrow>
          (case build_action_queries_with_pending render MySql action schema pending of
             Inl e \<Rightarrow> Inl e
           | Inr mysql_queries \<Rightarrow>
               (case build_action_queries_with_pending render Sqlite action schema pending of
                  Inl e \<Rightarrow> Inl e
                | Inr sqlite_queries \<Rightarrow>
                    Inr \<lparr>pq_action = action, pq_postgres = postgres_queries, pq_mysql = mysql_queries,
                         pq_sqlite = sqlite_queries\<rparr>)))"

subsection \<open>In sequence\<close>

text \<open>The result of \<open>apply_action\<close> is dropped: an action that fails leaves the schema as it left it.\<close>

fun sequential_loop ::
  "renderer \<Rightarrow> migration_plan \<Rightarrow> schema \<Rightarrow> (nat \<times> migration_action) list \<Rightarrow> query_error + plan_queries list" where
  "sequential_loop render plan evolving_schema [] = Inr []"
| "sequential_loop render plan evolving_schema ((i, action) # rest) =
     (case action_plan_queries render action evolving_schema (pending_constraints_for_action plan i action) of
        Inl e \<Rightarrow> Inl e
      | Inr pq \<Rightarrow>
          (case sequential_loop render plan (snd (apply_action evolving_schema action)) rest of
             Inl e \<Rightarrow> Inl e
           | Inr pqs \<Rightarrow> Inr (pq # pqs)))"

definition build_plan_queries_sequentially ::
  "renderer \<Rightarrow> migration_plan \<Rightarrow> schema \<Rightarrow> query_error + plan_queries list" where
  "build_plan_queries_sequentially render plan current_schema =
     sequential_loop render plan current_schema (enumerated (plan_actions plan))"

subsection \<open>In parallel\<close>

record prepared_action =
  pa_action :: migration_action
  pa_schema :: schema
  pa_pending :: "table_constraint list"

fun prepare_loop :: "migration_plan \<Rightarrow> schema \<Rightarrow> (nat \<times> migration_action) list \<Rightarrow> prepared_action list" where
  "prepare_loop plan evolving_schema [] = []"
| "prepare_loop plan evolving_schema ((i, action) # rest) =
     \<lparr>pa_action = action, pa_schema = evolving_schema, pa_pending = pending_constraints_for_action plan i action\<rparr> #
     prepare_loop plan (snd (apply_action evolving_schema action)) rest"

definition prepare_actions :: "migration_plan \<Rightarrow> schema \<Rightarrow> prepared_action list" where
  "prepare_actions plan current_schema = prepare_loop plan current_schema (enumerated (plan_actions plan))"

definition build_prepared_action_queries :: "renderer \<Rightarrow> prepared_action \<Rightarrow> query_error + plan_queries" where
  "build_prepared_action_queries render prepared =
     action_plan_queries render (pa_action prepared) (pa_schema prepared) (pa_pending prepared)"

text \<open>
  Collecting a parallel iterator of results keeps the order of the items; when several items fail
  which error comes back depends on the threads.  The choice among the errors is a parameter.
\<close>

type_synonym error_choice = "query_error list \<Rightarrow> query_error"

definition par_collect :: "error_choice \<Rightarrow> (query_error + 'a) list \<Rightarrow> query_error + 'a list" where
  "par_collect pick results =
     (case List.map_filter (\<lambda>r. case r of Inl e \<Rightarrow> Some e | Inr _ \<Rightarrow> None) results of
        [] \<Rightarrow> collect_results results
      | errors \<Rightarrow> Inl (pick errors))"

definition build_plan_queries_in_parallel ::
  "renderer \<Rightarrow> error_choice \<Rightarrow> migration_plan \<Rightarrow> schema \<Rightarrow> query_error + plan_queries list" where
  "build_plan_queries_in_parallel render pick plan current_schema =
     par_collect pick (map (build_prepared_action_queries render) (prepare_actions plan current_schema))"

text \<open>The threshold is 10,000 unless an environment variable overrides it.\<close>

definition build_plan_queries ::
  "renderer \<Rightarrow> error_choice \<Rightarrow> nat \<Rightarrow> migration_plan \<Rightarrow> schema \<Rightarrow> query_error + plan_queries list" where
  "build_plan_queries render pick threshold plan current_schema =
     (if length (plan_actions plan) < threshold then build_plan_queries_sequentially render plan current_schema
      else build_plan_queries_in_parallel render pick plan current_schema)"

section \<open>Transactions\<close>

fun backend_queries :: "database_backend \<Rightarrow> plan_queries \<Rightarrow> built_query list" where
  "backend_queries Postgres pq = pq_postgres pq"
| "backend_queries MySql pq = pq_mysql pq"
| "backend_queries Sqlite pq = pq_sqlite pq"

fun backend_queries_mut ::
  "database_backend \<Rightarrow> (built_query list \<Rightarrow> built_query list) \<Rightarrow> plan_queries \<Rightarrow> plan_queries" where
  "backend_queries_mut Postgres f pq = pq\<lparr>pq_postgres := f (pq_postgres pq)\<rparr>"
| "backend_queries_mut MySql f pq = pq\<lparr>pq_mysql := f (pq_mysql pq)\<rparr>"
| "backend_queries_mut Sqlite f pq = pq\<lparr>pq_sqlite := f (pq_sqlite pq)\<rparr>"

definition rposition :: "('a \<Rightarrow> bool) \<Rightarrow> 'a list \<Rightarrow> nat option" where
  "rposition P xs = map_option (\<lambda>i. length xs - 1 - i) (position P (rev xs))"

definition wrap_backend_queries :: "database_backend \<Rightarrow> plan_queries list \<Rightarrow> plan_queries list" where
  "wrap_backend_queries backend pqs =
     (case position (\<lambda>pq. backend_queries backend pq \<noteq> []) pqs of
        None \<Rightarrow> pqs
      | Some first_idx \<Rightarrow>
          let last_idx = (case rposition (\<lambda>pq. backend_queries backend pq \<noteq> []) pqs of
                Some i \<Rightarrow> i | None \<Rightarrow> first_idx);
              opened = pqs[first_idx := backend_queries_mut backend (\<lambda>qs. raw ''BEGIN;'' # qs) (pqs ! first_idx)]
          in opened[last_idx := backend_queries_mut backend (\<lambda>qs. qs @ [raw ''COMMIT;'']) (opened ! last_idx)])"

definition into_transactional :: "plan_queries list \<Rightarrow> plan_queries list" where
  "into_transactional pqs =
     wrap_backend_queries Sqlite (wrap_backend_queries MySql (wrap_backend_queries Postgres pqs))"

definition build_plan_queries_with_options ::
  "renderer \<Rightarrow> error_choice \<Rightarrow> nat \<Rightarrow> migration_plan \<Rightarrow> schema \<Rightarrow> bool \<Rightarrow> query_error + plan_queries list" where
  "build_plan_queries_with_options render pick threshold plan current_schema wrap_in_transaction =
     (case build_plan_queries render pick threshold plan current_schema of
        Inl e \<Rightarrow> Inl e
      | Inr queries \<Rightarrow> if wrap_in_transaction then Inr (into_transactional queries) else Inr queries)"

end
