(* ===== verification/Sql_Plan.thy ===== *)
theory Sql_Plan
  imports Sql_Builder
begin

text \<open>
  What holds of query generation for whole plans: the parallel builder against the sequential one, the
  transaction around the statements, and when generation succeeds.
\<close>

section \<open>Parallel and sequential\<close>

fun succeeded :: "'e + 'a \<Rightarrow> bool" where
  "succeeded (Inl _) = False"
| "succeeded (Inr _) = True"

lemma sequential_is_collect:
  "sequential_loop render plan s es =
     collect_results (map (build_prepared_action_queries render) (prepare_loop plan s es))"
  by (induction plan s es rule: prepare_loop.induct)
    (simp_all add: build_prepared_action_queries_def split: sum.splits)

lemma sequential_prepared:
  "build_plan_queries_sequentially render plan s =
     collect_results (map (build_prepared_action_queries render) (prepare_actions plan s))"
  by (simp add: build_plan_queries_sequentially_def prepare_actions_def sequential_is_collect)

lemma collect_results_Inl_mem: "collect_results rs = Inl e \<Longrightarrow> Inl e \<in> set rs"
  by (induction rs) (auto split: sum.splits)

definition errors_of :: "('e + 'a) list \<Rightarrow> 'e list" where
  "errors_of results = List.map_filter (\<lambda>r. case r of Inl e \<Rightarrow> Some e | Inr _ \<Rightarrow> None) results"

lemma errors_of_simps [simp]:
  "errors_of [] = []"
  "errors_of (Inl e # rs) = e # errors_of rs"
  "errors_of (Inr x # rs) = errors_of rs"
  by (simp_all add: errors_of_def List.map_filter_simps)

lemma set_errors_of: "set (errors_of rs) = {e. Inl e \<in> set rs}"
proof (induction rs)
  case (Cons r rs)
  then show ?case by (cases r) auto
qed simp

lemma collect_results_errors: "errors_of rs = [] \<longleftrightarrow> succeeded (collect_results rs)"
proof (induction rs)
  case (Cons r rs)
  then show ?case by (cases r) (auto split: sum.splits)
qed simp

lemma par_collect_eq:
  "par_collect pick rs = (if errors_of rs = [] then collect_results rs else Inl (pick (errors_of rs)))"
  by (simp add: par_collect_def errors_of_def split: list.splits)

text \<open>A choice picks one of the errors there are.\<close>

definition fair_choice :: "error_choice \<Rightarrow> bool" where
  "fair_choice pick \<longleftrightarrow> (\<forall>es. es \<noteq> [] \<longrightarrow> pick es \<in> set es)"

lemma parallel_eq_sequential:
  assumes "fair_choice pick"
  shows "case build_plan_queries_sequentially render plan s of
      Inr pqs \<Rightarrow> build_plan_queries render pick threshold plan s = Inr pqs
    | Inl _ \<Rightarrow> \<exists>p e. p \<in> set (prepare_actions plan s) \<and> build_prepared_action_queries render p = Inl e \<and>
        build_plan_queries render pick threshold plan s = Inl e"
proof -
  let ?rs = "map (build_prepared_action_queries render) (prepare_actions plan s)"
  note seq = sequential_prepared [of render plan s]
  have par: "build_plan_queries_in_parallel render pick plan s =
      (if errors_of ?rs = [] then collect_results ?rs else Inl (pick (errors_of ?rs)))"
    by (simp add: build_plan_queries_in_parallel_def par_collect_eq)
  show ?thesis
  proof (cases "collect_results ?rs")
    case (Inr pqs)
    then have "errors_of ?rs = []" by (simp add: collect_results_errors)
    with Inr seq par show ?thesis by (simp add: build_plan_queries_def)
  next
    case (Inl e)
    then have ne: "errors_of ?rs \<noteq> []" by (simp add: collect_results_errors)
    then have "pick (errors_of ?rs) \<in> set (errors_of ?rs)" using assms by (auto simp: fair_choice_def)
    then have mem: "Inl (pick (errors_of ?rs)) \<in> set ?rs" by (simp add: set_errors_of)
    have "Inl e \<in> set ?rs" using Inl by (rule collect_results_Inl_mem)
    then show ?thesis using Inl seq par ne mem
      by (cases "length (plan_actions plan) < threshold") (auto simp: build_plan_queries_def)
  qed
qed

section \<open>Transactions\<close>

definition stream :: "database_backend \<Rightarrow> plan_queries list \<Rightarrow> built_query list" where
  "stream backend pqs = concat (map (backend_queries backend) pqs)"

lemma backend_queries_mut [simp]:
  "backend_queries b (backend_queries_mut b' f pq) = (if b = b' then f (backend_queries b pq) else backend_queries b pq)"
  by (cases b; cases b') auto

lemma pq_action_mut [simp]: "pq_action (backend_queries_mut b f pq) = pq_action pq"
  by (cases b) auto

lemma position_first:
  "position P xs = Some i \<Longrightarrow> \<exists>x. i < length xs \<and> xs ! i = x \<and> P x \<and> (\<forall>y \<in> set (take i xs). \<not> P y)"
proof (induction xs arbitrary: i)
  case (Cons x xs)
  then show ?case by (cases "P x") (auto simp: nth_Cons')
qed simp

lemma position_None: "position P xs = None \<longleftrightarrow> (\<forall>x \<in> set xs. \<not> P x)"
  by (induction xs) auto

lemma rposition_last:
  assumes "rposition P xs = Some i"
  shows "i < length xs \<and> P (xs ! i) \<and> (\<forall>y \<in> set (drop (Suc i) xs). \<not> P y)"
proof -
  obtain j where j: "position P (rev xs) = Some j" "i = length xs - 1 - j"
    using assms by (auto simp: rposition_def)
  then have b: "j < length xs" "P (rev xs ! j)" "\<forall>y \<in> set (take j (rev xs)). \<not> P y"
    using position_first [OF j(1)] by auto
  have "rev xs ! j = xs ! i" using b(1) j(2) by (simp add: rev_nth)
  moreover have "drop (Suc i) xs = rev (take j (rev xs))"
    using b(1) j(2) by (simp add: rev_take Suc_diff_Suc)
  ultimately show ?thesis using b j(2) by auto
qed

lemma stream_update:
  "i < length pqs \<Longrightarrow>
     stream b (pqs[i := x]) = stream b (take i pqs) @ backend_queries b x @ stream b (drop (Suc i) pqs)"
  by (simp add: stream_def upd_conv_take_nth_drop)

lemma stream_at:
  "i < length pqs \<Longrightarrow>
     stream b pqs = stream b (take i pqs) @ backend_queries b (pqs ! i) @ stream b (drop (Suc i) pqs)"
  using stream_update [of i pqs b "pqs ! i"] by simp

lemma stream_empty: "stream b pqs = [] \<longleftrightarrow> (\<forall>pq \<in> set pqs. backend_queries b pq = [])"
  by (simp add: stream_def)

lemma map_mut_update:
  "\<forall>pq. f (g pq) = f pq \<Longrightarrow> map f (xs[i := g (xs ! i)]) = map f xs"
  by (cases "i < length xs") (simp_all add: map_update list_update_same_conv list_update_beyond)

lemma wrap_other_backend:
  assumes "b \<noteq> b'"
  shows "map (backend_queries b) (wrap_backend_queries b' pqs) = map (backend_queries b) pqs"
  using assms by (simp add: wrap_backend_queries_def Let_def map_mut_update split: option.splits)

lemma wrap_actions: "map pq_action (wrap_backend_queries b pqs) = map pq_action pqs"
  by (simp add: wrap_backend_queries_def Let_def map_mut_update split: option.splits)

definition in_transaction :: "built_query list \<Rightarrow> built_query list" where
  "in_transaction qs = (if qs = [] then [] else raw ''BEGIN;'' # qs @ [raw ''COMMIT;''])"

lemma wrap_own_backend: "stream b (wrap_backend_queries b pqs) = in_transaction (stream b pqs)"
proof (cases "position (\<lambda>pq. backend_queries b pq \<noteq> []) pqs")
  case None
  then have "stream b pqs = []" by (simp add: position_None stream_empty)
  with None show ?thesis by (simp add: wrap_backend_queries_def in_transaction_def)
next
  case (Some i)
  let ?P = "\<lambda>pq. backend_queries b pq \<noteq> []"
  have i: "i < length pqs" "?P (pqs ! i)" "\<forall>y \<in> set (take i pqs). \<not> ?P y"
    using position_first [OF Some] by auto
  have "position ?P (rev pqs) \<noteq> None" using i(1,2) by (auto simp: position_None)
  then obtain j where j: "rposition ?P pqs = Some j" by (auto simp: rposition_def)
  note l = rposition_last [OF j]
  have "i \<le> j"
  proof (rule ccontr)
    assume "\<not> i \<le> j"
    then have "pqs ! i \<in> set (drop (Suc j) pqs)"
      using i(1) by (auto simp: in_set_conv_nth intro!: exI [of _ "i - Suc j"])
    with l i(2) show False by blast
  qed
  let ?o = "pqs[i := backend_queries_mut b (\<lambda>qs. raw ''BEGIN;'' # qs) (pqs ! i)]"
  have pre: "stream b (take i pqs) = []" using i(3) by (simp add: stream_empty)
  have ne: "stream b pqs \<noteq> []" using i(1,2) by (auto simp: stream_empty)
  have opened: "stream b ?o = raw ''BEGIN;'' # stream b pqs"
    using stream_update [OF i(1), of b "backend_queries_mut b (\<lambda>qs. raw ''BEGIN;'' # qs) (pqs ! i)"]
      stream_at [OF i(1), of b] pre by simp
  have "drop (Suc j) ?o = drop (Suc j) pqs" using \<open>i \<le> j\<close> by simp
  then have post: "stream b (drop (Suc j) ?o) = []" using l by (simp add: stream_empty)
  have jo: "j < length ?o" using l by simp
  have "stream b (wrap_backend_queries b pqs) =
      stream b (?o[j := backend_queries_mut b (\<lambda>qs. qs @ [raw ''COMMIT;'']) (?o ! j)])"
    using Some j by (simp add: wrap_backend_queries_def Let_def)
  also have "\<dots> = stream b ?o @ [raw ''COMMIT;'']"
    using stream_update [OF jo, of b "backend_queries_mut b (\<lambda>qs. qs @ [raw ''COMMIT;'']) (?o ! j)"]
      stream_at [OF jo, of b] post by simp
  finally show ?thesis using opened ne by (simp add: in_transaction_def)
qed

lemma transaction_wraps:
  "stream b (into_transactional pqs) = in_transaction (stream b pqs) \<and>
   map pq_action (into_transactional pqs) = map pq_action pqs"
proof
  have eq: "stream b' (wrap_backend_queries b'' qs) = (if b' = b'' then in_transaction (stream b' qs) else stream b' qs)"
    for b' b'' qs
    using wrap_own_backend [of b' qs] wrap_other_backend [of b' b'' qs]
    by (cases "b' = b''") (auto simp: stream_def)
  show "stream b (into_transactional pqs) = in_transaction (stream b pqs)"
    by (cases b) (simp_all add: into_transactional_def eq)
  show "map pq_action (into_transactional pqs) = map pq_action pqs"
    by (simp add: into_transactional_def wrap_actions)
qed

section \<open>When generation succeeds\<close>

fun is_foreign_key :: "table_constraint \<Rightarrow> bool" where
  "is_foreign_key (ForeignKey _ _ _ _ _ _ _) = True"
| "is_foreign_key _ = False"

fun key_widths_agree :: "table_constraint \<Rightarrow> bool" where
  "key_widths_agree (ForeignKey _ columns _ ref_columns _ _ _) = (length columns = length ref_columns)"
| "key_widths_agree _ = True"

text \<open>The kinds of narrowing a strategy has statements for.\<close>

fun strategy_supported :: "narrowing_strategy \<Rightarrow> narrowing_kind \<Rightarrow> bool" where
  "strategy_supported Truncate kind = (narrowed_length kind \<noteq> None \<or> (\<exists>a b. kind = NumericScale a b))"
| "strategy_supported _ kind = (kind \<noteq> TimestamptzToTimestamp \<and> (\<forall>a b. kind \<noteq> FloatSize a b))"

definition narrowing_supported :: "schema \<Rightarrow> string \<Rightarrow> string \<Rightarrow> column_type \<Rightarrow> narrowing_strategy option \<Rightarrow> bool" where
  "narrowing_supported s table column new_type strategy =
     (case (strategy, lookup_old_type table column s) of
        (Some st, Some old_type) \<Rightarrow>
          (case is_narrowing old_type new_type of Some kind \<Rightarrow> strategy_supported st kind | None \<Rightarrow> True)
      | _ \<Rightarrow> True)"

text \<open>What an action needs, beyond being one that replay accepts, for all three backends to have statements.\<close>

fun generable :: "schema \<Rightarrow> migration_action \<Rightarrow> bool" where
  "generable s (AddConstraint table constraint) = key_widths_agree constraint"
| "generable s (ReplaceConstraint table from to) =
     (is_foreign_key from \<and> is_foreign_key to \<or> key_widths_agree to)"
| "generable s (ModifyColumnType table column new_type _ strategy timezone) =
     (narrowing_supported s table column new_type strategy \<and>
      (timezone = None \<or> new_type = Simple Timestamp \<or> new_type = Simple Timestamptz))"
| "generable s _ = True"

named_theorems query_builders

lemmas builder_definitions [query_builders] =
  build_create_table_def build_add_column_def build_modify_column_default_def build_modify_column_nullable_def
  build_modify_column_comment_def build_mysql_modify_column_with_def build_sqlite_modify_column_with_def
  require_table_in_schema_def require_column_in_table_def build_remap_enum_values_def

lemmas constraint_definitions [query_builders] =
  build_primary_key_def build_unique_def build_foreign_key_def build_check_def extend_queries_def
  rebuild_sqlite_table_with_added_constraint_def build_fk_orphan_cleanup_def build_remove_constraint_def
  sqlite_remove_constraint_def build_drop_index_def build_sqlite_constraint_replace_def

lemma succeeded_iff: "succeeded r \<longleftrightarrow> (\<exists>x. r = Inr x)"
  by (cases r) auto

lemma applied_with_table: "fst (with_table s n f) = Inr u \<Longrightarrow> \<exists>t. find_table s n = Some t \<and> fst (f t) = Inr u"
  by (auto simp: fst_with_table split: option.splits)

lemma applied_with_column:
  assumes "fst (with_column s n c f) = Inr u"
  shows "\<exists>t d. find_table s n = Some t \<and> find_column t c = Some d"
proof -
  obtain t where t: "find_table s n = Some t" "list_ex (\<lambda>d. col_name d = c) (tbl_columns t)"
    using assms by (auto simp: with_column_def dest!: applied_with_table split: if_splits)
  then have "find_column t c \<noteq> None" by (auto simp: find_column_def find_None_iff list_ex_iff)
  with t(1) show ?thesis by auto
qed

lemma add_constraint_generated:
  assumes "find_table s t = Some d"
  shows "succeeded (build_add_constraint render b t c s pending) \<longleftrightarrow> key_widths_agree c"
  using assms
  by (cases c)
    (auto simp: query_builders Let_def split: option.splits sum.splits if_splits
       unique_constraint_strategy.splits primary_key_addition_strategy.splits check_violation_strategy.splits
       elim!: build_pre_cleanup_delete.elims build_check_violation_cleanup.elims)

lemma add_constraint_no_rebuild:
  assumes "b \<noteq> Sqlite"
  shows "succeeded (build_add_constraint render b t c s pending) \<longleftrightarrow> key_widths_agree c"
  using assms
  by (cases c)
    (auto simp: query_builders Let_def split: option.splits sum.splits if_splits
       elim!: build_pre_cleanup_delete.elims build_check_violation_cleanup.elims)

lemma remove_constraint_generated:
  assumes "find_table s t = Some d"
  shows "succeeded (build_remove_constraint render b t c s pending)"
  using assms by (cases b; cases c) (auto simp: query_builders Let_def)

lemma remove_constraint_no_rebuild:
  assumes "b \<noteq> Sqlite"
  shows "succeeded (build_remove_constraint render b t c s pending)"
  using assms by (cases b) (auto simp: query_builders)

lemma succeeded_extend [simp]: "succeeded (extend_queries qs r) = succeeded r"
  by (cases r) (simp_all add: extend_queries_def)

lemma succeeded_case_extend:
  "succeeded (case r of Inl e \<Rightarrow> Inl e | Inr x \<Rightarrow> f x) \<longleftrightarrow> (\<exists>x. r = Inr x \<and> succeeded (f x))"
  by (cases r) auto

lemma replace_constraint_generated:
  assumes "find_table s t = Some d" and "b \<noteq> Sqlite"
  shows "succeeded (build_replace_constraint render b t from to s pending) \<longleftrightarrow>
    is_foreign_key from \<and> is_foreign_key to \<or> key_widths_agree to"
proof (cases "is_foreign_key from \<and> is_foreign_key to")
  case True
  then show ?thesis using assms(2)
    by (cases "from"; cases to) (simp_all add: build_replace_constraint_def)
next
  case False
  have "build_replace_constraint render b t from to s pending =
      (case build_remove_constraint render b t from s pending of
         Inl e \<Rightarrow> Inl e
       | Inr queries \<Rightarrow>
           extend_queries queries (build_add_constraint render b t to (with_constraint_replaced s t from to) pending))"
    using False assms(2) by (auto simp: build_replace_constraint_def split: table_constraint.splits)
  moreover obtain qs where "build_remove_constraint render b t from s pending = Inr qs"
    using remove_constraint_no_rebuild [OF assms(2)] by (meson succeeded_iff)
  ultimately show ?thesis using False add_constraint_no_rebuild [OF assms(2)] by auto
qed

lemma replace_constraint_rebuilt:
  "find_table s t = Some d \<Longrightarrow> succeeded (build_replace_constraint render Sqlite t from to s pending)"
  by (simp add: build_replace_constraint_def query_builders)

lemma violation_predicate_generated:
  "succeeded (violation_predicate b c kind) \<longleftrightarrow> kind \<noteq> TimestamptzToTimestamp \<and> (\<forall>x y. kind \<noteq> FloatSize x y)"
  by (cases kind) (simp_all add: Let_def split: prod.splits)

lemma narrowing_generated:
  "succeeded (build_narrowing_preprocess b t c ty st s) \<longleftrightarrow> narrowing_supported s t c ty (Some st)"
proof -
  have "succeeded (build_delete b t c kind) \<longleftrightarrow> strategy_supported DeleteRow kind"
    "succeeded (build_set_to_value b t c kind v) \<longleftrightarrow> strategy_supported (SetToValue v) kind" for kind v
    using violation_predicate_generated [of b c kind]
    by (auto simp: build_delete_def build_set_to_value_def split: sum.splits)
  moreover have "succeeded (build_truncate b t c kind) \<longleftrightarrow> strategy_supported Truncate kind" for kind
    by (cases kind) (simp_all add: build_truncate_def)
  ultimately show ?thesis
    by (cases st) (auto simp: build_narrowing_preprocess_def narrowing_supported_def split: option.splits)
qed

lemma timezone_statement:
  "build_pg_alter_with_timezone t c ty tz \<noteq> None \<longleftrightarrow> ty = Simple Timestamp \<or> ty = Simple Timestamptz"
  by (auto simp: build_pg_alter_with_timezone_def Let_def split: column_type.splits simple_column_type.splits)

lemma position_of_column: "find_column d c = Some x \<Longrightarrow> \<exists>i. position (\<lambda>e. col_name e = c) (tbl_columns d) = Some i"
proof -
  assume "find_column d c = Some x"
  then have "\<not> (\<forall>y \<in> set (tbl_columns d). col_name y \<noteq> c)"
    by (force simp: find_column_def find_Some_iff)
  then show ?thesis using position_None [of "\<lambda>e. col_name e = c"] by (metis (mono_tags, lifting) not_Some_eq)
qed

lemma timezone_missing:
  "build_pg_alter_with_timezone t c ty tz = None \<longleftrightarrow> ty \<noteq> Simple Timestamp \<and> ty \<noteq> Simple Timestamptz"
  using timezone_statement [of t c ty tz] by blast

lemma modify_type_generated:
  assumes "find_table s t = Some d" and "find_column d c = Some x"
  shows "succeeded (build_modify_column_type_with_timezone render b t c ty fw tz s pending) \<longleftrightarrow>
    b \<noteq> Postgres \<or> tz = None \<or> ty = Simple Timestamp \<or> ty = Simple Timestamptz"
proof (cases "if b = Postgres then tz else None")
  case None
  then show ?thesis
    using assms position_of_column [OF assms(2)]
    by (cases b) (auto simp: build_modify_column_type_with_timezone_def build_modify_column_type_def
      build_modify_column_type_sqlite_temp_table_def require_table_in_schema_def Let_def)
next
  case (Some z)
  then show ?thesis using timezone_missing [of t c ty z]
    by (cases "build_pg_alter_with_timezone t c ty z")
      (auto simp: build_modify_column_type_with_timezone_def split: if_splits)
qed

lemma type_change_generated:
  assumes "find_table s t = Some d" and "find_column d c = Some x"
  shows "succeeded (build_with_narrowing_preprocess render b t c ty fw st tz s pending) \<longleftrightarrow>
    narrowing_supported s t c ty st \<and>
    (b \<noteq> Postgres \<or> tz = None \<or> ty = Simple Timestamp \<or> ty = Simple Timestamptz)"
proof -
  have *: "succeeded (case (case st of Some strategy \<Rightarrow> build_narrowing_preprocess b t c ty strategy s | None \<Rightarrow> Inr []) of
        Inl e \<Rightarrow> Inl e | Inr q \<Rightarrow> (case r of Inl e \<Rightarrow> Inl e | Inr added \<Rightarrow> Inr (q @ added))) \<longleftrightarrow>
      narrowing_supported s t c ty st \<and> succeeded r" for r :: queries
  proof (cases st)
    case None
    then show ?thesis by (cases r) (simp_all add: narrowing_supported_def)
  next
    case (Some strategy)
    then show ?thesis using narrowing_generated [of b t c ty strategy s]
      by (cases r; cases "build_narrowing_preprocess b t c ty strategy s") simp_all
  qed
  show ?thesis
    unfolding build_with_narrowing_preprocess_def * using modify_type_generated [OF assms] by simp
qed

lemma action_plan_succeeds:
  "succeeded (action_plan_queries render a s pending) \<longleftrightarrow>
     (\<forall>b. succeeded (build_action_queries_with_pending render b a s pending))"
proof -
  have all: "(\<forall>b. P b) \<longleftrightarrow> P Postgres \<and> P MySql \<and> P Sqlite" for P
    by (metis database_backend.exhaust)
  show ?thesis
    by (auto simp: all action_plan_queries_def succeeded_iff split: sum.splits)
qed

lemma column_change_generated:
  assumes "find_table s t = Some d" and "find_column d c = Some x"
  shows "succeeded (build_modify_column_default render b t c df bf s pending)"
    and "succeeded (build_modify_column_nullable render b t c nl fw dr s pending)"
    and "succeeded (build_modify_column_comment render b t c cm s)"
proof -
  show "succeeded (build_modify_column_default render b t c df bf s pending)"
    using assms by (cases b; cases df) (simp_all add: query_builders Let_def)
  show "succeeded (build_modify_column_nullable render b t c nl fw dr s pending)"
    and "succeeded (build_modify_column_comment render b t c cm s)"
    using assms by (cases b; simp add: query_builders Let_def)+
qed

text \<open>An action that replay accepts has its statements on every backend just when it is generable.\<close>

lemma generated_after_replay:
  assumes "fst (apply_action s a) = Inr u"
  shows "succeeded (action_plan_queries render a s pending) \<longleftrightarrow> generable s a"
proof (cases a)
  case (CreateTable t cols cs)
  then show ?thesis using assms
    by (auto simp: action_plan_succeeds create_table_def build_create_table_def split: sum.splits if_splits)
next
  case (AddColumn t c fw)
  with assms obtain d where "find_table s t = Some d" by (auto simp: add_column_def dest: applied_with_table)
  then show ?thesis using AddColumn
    by (simp add: action_plan_succeeds build_add_column_def require_table_in_schema_def)
next
  case (ModifyColumnType t c ty fw st tz)
  with assms obtain d x where dx: "find_table s t = Some d" "find_column d c = Some x"
    by (auto simp: modify_column_type_def dest!: applied_with_column)
  have "(\<forall>b. b = Postgres \<longrightarrow> Q) \<longleftrightarrow> Q" for Q by blast
  then show ?thesis using ModifyColumnType type_change_generated [OF dx] by (auto simp: action_plan_succeeds)
next
  case (ModifyColumnNullable t c nl fw dr)
  with assms obtain d x where dx: "find_table s t = Some d" "find_column d c = Some x"
    by (auto simp: modify_column_nullable_def dest!: applied_with_column)
  then show ?thesis using ModifyColumnNullable column_change_generated(2) [OF dx] by (simp add: action_plan_succeeds)
next
  case (ModifyColumnDefault t c df bf)
  with assms obtain d x where dx: "find_table s t = Some d" "find_column d c = Some x"
    by (auto simp: modify_column_default_def dest!: applied_with_column)
  then show ?thesis using ModifyColumnDefault column_change_generated(1) [OF dx] by (simp add: action_plan_succeeds)
next
  case (ModifyColumnComment t c cm)
  with assms obtain d x where dx: "find_table s t = Some d" "find_column d c = Some x"
    by (auto simp: modify_column_comment_def dest!: applied_with_column)
  then show ?thesis using ModifyColumnComment column_change_generated(3) [OF dx] by (simp add: action_plan_succeeds)
next
  case (AddConstraint t c)
  with assms obtain d where "find_table s t = Some d" by (auto simp: add_constraint_def dest: applied_with_table)
  then show ?thesis using AddConstraint add_constraint_generated by (simp add: action_plan_succeeds)
next
  case (RemoveConstraint t c)
  with assms obtain d where "find_table s t = Some d" by (auto simp: remove_constraint_def dest: applied_with_table)
  then show ?thesis using RemoveConstraint remove_constraint_generated by (simp add: action_plan_succeeds)
next
  case (ReplaceConstraint t f c)
  with assms obtain d where d: "find_table s t = Some d" by (auto simp: replace_constraint_def dest: applied_with_table)
  have "(\<forall>b. succeeded (build_replace_constraint render b t f c s pending)) \<longleftrightarrow>
      is_foreign_key f \<and> is_foreign_key c \<or> key_widths_agree c"
    using replace_constraint_generated [OF d, of _ render f c pending] replace_constraint_rebuilt [OF d]
    by (metis database_backend.distinct(5) database_backend.exhaust)
  then show ?thesis using ReplaceConstraint by (simp add: action_plan_succeeds)
next
  case (RemapEnumValues t c m)
  then show ?thesis by (simp add: action_plan_succeeds build_remap_enum_values_def Let_def)
qed (simp_all add: action_plan_succeeds)

subsection \<open>Whole plans\<close>

fun generable_plan :: "schema \<Rightarrow> migration_action list \<Rightarrow> bool" where
  "generable_plan s [] = True"
| "generable_plan s (a # as) = (generable s a \<and> generable_plan (snd (apply_action s a)) as)"

lemma sequential_loop_succeeds:
  assumes "apply_actions s (map snd es) = Inr s'"
  shows "succeeded (sequential_loop render plan s es) \<longleftrightarrow> generable_plan s (map snd es)"
  using assms
proof (induction es arbitrary: s)
  case (Cons e es)
  obtain i a where e: "e = (i, a)" by force
  obtain u where ok: "fst (apply_action s a) = Inr u" and rest: "apply_actions (snd (apply_action s a)) (map snd es) = Inr s'"
    using Cons.prems e by (auto split: prod.splits sum.splits)
  show ?case
    using Cons.IH [OF rest] generated_after_replay [OF ok, of render "pending_constraints_for_action plan i a"] e
    by (auto simp: succeeded_case_extend succeeded_iff split: sum.splits)
qed simp

lemma generated_plan:
  assumes "apply_actions s (plan_actions plan) = Inr s'"
  shows "succeeded (build_plan_queries render pick threshold plan s) \<longleftrightarrow> generable_plan s (plan_actions plan)"
proof -
  have actions: "map snd (enumerated (plan_actions plan)) = plan_actions plan"
    by (simp add: enumerated_def)
  have "succeeded (build_plan_queries render pick threshold plan s) \<longleftrightarrow>
      succeeded (build_plan_queries_sequentially render plan s)"
    by (simp add: build_plan_queries_def build_plan_queries_in_parallel_def par_collect_eq sequential_prepared
        collect_results_errors)
  with sequential_loop_succeeds [of s "enumerated (plan_actions plan)" s' render plan] assms actions
  show ?thesis by (simp add: build_plan_queries_sequentially_def)
qed

end
