(* ===== verification/Sql_Meaning.thy ===== *)
theory Sql_Meaning
  imports Sql_Constraints Sql_Columns
begin

text \<open>
  What the clean-up statements do to the rows of a table.  The statements are a small syntax with a
  printer and a meaning: the printer gives the text the code emits, the meaning follows SQL (NULL is
  \<open>None\<close>, conditions are three-valued and a row counts when its condition is true, a name in a subquery
  means the innermost table that has it, \<open>GROUP BY\<close> puts NULLs together).
\<close>

section \<open>Statements\<close>

type_synonym 'v sql_row = "string \<Rightarrow> 'v option"
type_synonym 'v tables = "string \<Rightarrow> 'v sql_row list"
type_synonym column_ref = "string \<times> string"

datatype condition =
    AnyNotNull "string list"
  | Both condition condition
  | NotExists string "(column_ref \<times> column_ref) list"
  | NotAggregate string string keep_policy "string list"

datatype statement =
    DeleteWhere string condition
  | NullifyWhere string "string list" condition

subsection \<open>Text\<close>

definition ref_text :: "database_backend \<Rightarrow> column_ref \<Rightarrow> string" where
  "ref_text b q = quote_ident (fst q) b @ ''.'' @ quote_ident (snd q) b"

fun condition_text :: "database_backend \<Rightarrow> condition \<Rightarrow> string" where
  "condition_text b (AnyNotNull cols) = join '' OR '' (map (\<lambda>c. quote_ident c b @ '' IS NOT NULL'') cols)"
| "condition_text b (Both p q) = ''('' @ condition_text b p @ '') AND '' @ condition_text b q"
| "condition_text b (NotExists table eqs) =
     ''NOT EXISTS (SELECT 1 FROM '' @ quote_ident table b @ '' WHERE '' @
     join '' AND '' (map (\<lambda>(x, y). ref_text b x @ '' = '' @ ref_text b y) eqs) @ '')''"
| "condition_text b (NotAggregate table key keep cols) =
     quote_ident key b @ '' NOT IN (SELECT '' @ (case keep of KeepFirst \<Rightarrow> ''MIN'' | KeepLast \<Rightarrow> ''MAX'') @
     ''('' @ quote_ident key b @ '') FROM '' @ quote_ident table b @ '' GROUP BY '' @ quote_idents cols b @ '')''"

fun statement_text :: "database_backend \<Rightarrow> statement \<Rightarrow> string" where
  "statement_text b (DeleteWhere table p) = ''DELETE FROM '' @ quote_ident table b @ '' WHERE '' @ condition_text b p"
| "statement_text b (NullifyWhere table cols p) =
     ''UPDATE '' @ quote_ident table b @ '' SET '' @ join '', '' (map (\<lambda>c. quote_ident c b @ '' = NULL'') cols) @
     '' WHERE '' @ condition_text b p"

subsection \<open>Meaning\<close>

fun sql_and :: "bool option \<Rightarrow> bool option \<Rightarrow> bool option" where
  "sql_and (Some False) q = Some False"
| "sql_and p (Some False) = Some False"
| "sql_and (Some True) q = q"
| "sql_and None q = None"

definition sql_eq :: "'v option \<Rightarrow> 'v option \<Rightarrow> bool option" where
  "sql_eq x y = (case (x, y) of (Some v, Some w) \<Rightarrow> Some (v = w) | _ \<Rightarrow> None)"

definition sql_not_in :: "'v option \<Rightarrow> 'v option list \<Rightarrow> bool option" where
  "sql_not_in x ys =
     (if ys = [] then Some True
      else case x of
        None \<Rightarrow> None
      | Some _ \<Rightarrow> if x \<in> set ys then Some False else if None \<in> set ys then None else Some True)"

text \<open>A qualified column inside the subquery over \<open>table\<close>: the inner row hides an outer table of that name.\<close>

definition scoped :: "string \<Rightarrow> 'v sql_row \<Rightarrow> 'v sql_row \<Rightarrow> column_ref \<Rightarrow> 'v option" where
  "scoped table inner outer q = (if fst q = table then inner (snd q) else outer (snd q))"

definition present :: "'v option list \<Rightarrow> 'v list" where
  "present vs = List.map_filter id vs"

fun pick_by :: "keep_policy \<Rightarrow> 'v :: linorder \<Rightarrow> 'v \<Rightarrow> 'v" where
  "pick_by KeepFirst = min"
| "pick_by KeepLast = max"

definition aggregate :: "keep_policy \<Rightarrow> 'v :: linorder option list \<Rightarrow> 'v option" where
  "aggregate keep vs = (case present vs of [] \<Rightarrow> None | w # ws \<Rightarrow> Some (fold (pick_by keep) ws w))"

definition group_of :: "'v sql_row list \<Rightarrow> string list \<Rightarrow> 'v sql_row \<Rightarrow> 'v sql_row list" where
  "group_of rows cols r = filter (\<lambda>q. map q cols = map r cols) rows"

definition group_aggregates :: "'v :: linorder sql_row list \<Rightarrow> string \<Rightarrow> keep_policy \<Rightarrow> string list \<Rightarrow> 'v option list" where
  "group_aggregates rows key keep cols = map (\<lambda>r. aggregate keep (map (\<lambda>q. q key) (group_of rows cols r))) rows"

fun truth :: "'v :: linorder tables \<Rightarrow> 'v sql_row \<Rightarrow> condition \<Rightarrow> bool option" where
  "truth db r (AnyNotNull cols) = Some (list_ex (\<lambda>c. r c \<noteq> None) cols)"
| "truth db r (Both p q) = sql_and (truth db r p) (truth db r q)"
| "truth db r (NotExists table eqs) =
     Some (\<not> list_ex (\<lambda>p. list_all (\<lambda>(x, y). sql_eq (scoped table p r x) (scoped table p r y) = Some True) eqs) (db table))"
| "truth db r (NotAggregate table key keep cols) = sql_not_in (r key) (group_aggregates (db table) key keep cols)"

definition nullified :: "string list \<Rightarrow> 'v sql_row \<Rightarrow> 'v sql_row" where
  "nullified cols r = (\<lambda>c. if c \<in> set cols then None else r c)"

fun run_statement :: "'v :: linorder tables \<Rightarrow> statement \<Rightarrow> 'v tables" where
  "run_statement db (DeleteWhere table p) = db(table := filter (\<lambda>r. truth db r p \<noteq> Some True) (db table))"
| "run_statement db (NullifyWhere table cols p) =
     db(table := map (\<lambda>r. if truth db r p = Some True then nullified cols r else r) (db table))"

section \<open>Keeping one row of each group\<close>

definition duplicate_statement :: "string \<Rightarrow> string \<Rightarrow> keep_policy \<Rightarrow> string list \<Rightarrow> statement" where
  "duplicate_statement table key keep cols = DeleteWhere table (NotAggregate table key keep cols)"

lemma duplicate_delete_text: "duplicate_delete b table key keep cols = raw (statement_text b (duplicate_statement table key keep cols))"
  by (cases keep) (simp_all add: duplicate_delete_def duplicate_statement_def)

definition keyed :: "string \<Rightarrow> 'v sql_row list \<Rightarrow> bool" where
  "keyed key rows \<longleftrightarrow> distinct (map (\<lambda>r. r key) rows) \<and> (\<forall>r \<in> set rows. r key \<noteq> None)"

lemma present_Cons [simp]:
  "present [] = []" "present (Some v # vs) = v # present vs" "present (None # vs) = present vs"
  by (simp_all add: present_def List.map_filter_simps)

lemma set_present: "set (present vs) = {v. Some v \<in> set vs}"
proof (induction vs)
  case (Cons v vs)
  then show ?case by (cases v) auto
qed simp

fun at_end :: "keep_policy \<Rightarrow> 'v :: linorder \<Rightarrow> 'v \<Rightarrow> bool" where
  "at_end KeepFirst x y = (x \<le> y)"
| "at_end KeepLast x y = (y \<le> x)"

lemma pick_fold:
  "fold (pick_by keep) ws w \<in> set (w # ws) \<and> (\<forall>x \<in> set (w # ws). at_end keep (fold (pick_by keep) ws w) x)"
proof (induction ws arbitrary: w)
  case (Cons v ws)
  have v: "pick_by keep v w \<in> {v, w} \<and> at_end keep (pick_by keep v w) v \<and> at_end keep (pick_by keep v w) w"
    by (cases keep) (auto simp: min_def max_def)
  have trans: "at_end keep x y \<Longrightarrow> at_end keep y z \<Longrightarrow> at_end keep x z" for x y z :: 'a
    by (cases keep) auto
  let ?p = "pick_by keep v w"
  have ih: "fold (pick_by keep) ws ?p \<in> insert ?p (set ws)" "at_end keep (fold (pick_by keep) ws ?p) ?p"
    "\<forall>x \<in> set ws. at_end keep (fold (pick_by keep) ws ?p) x"
    using Cons.IH [of ?p] by simp_all
  have "at_end keep (fold (pick_by keep) ws ?p) v" "at_end keep (fold (pick_by keep) ws ?p) w"
    using trans [OF ih(2)] v by blast+
  then show ?case using ih(1,3) v by auto
next
  case Nil
  show ?case by (cases keep) auto
qed

lemma aggregate_some:
  assumes "Some v \<in> set vs"
  shows "\<exists>w. aggregate keep vs = Some w \<and> Some w \<in> set vs \<and> (\<forall>x. Some x \<in> set vs \<longrightarrow> at_end keep w x)"
proof -
  have "v \<in> set (present vs)" using assms by (simp add: set_present)
  then obtain w ws where p: "present vs = w # ws" by (cases "present vs") auto
  have m: "x \<in> set (w # ws) \<longleftrightarrow> Some x \<in> set vs" for x using set_present [of vs] p by auto
  have "fold (pick_by keep) ws w \<in> set (w # ws)" "\<And>x. x \<in> set (w # ws) \<Longrightarrow> at_end keep (fold (pick_by keep) ws w) x"
    using pick_fold [of keep ws w] by blast+
  then show ?thesis unfolding m using p by (simp add: aggregate_def)
qed

lemma at_end_antisym: "at_end keep x y \<Longrightarrow> at_end keep y x \<Longrightarrow> x = y"
  by (cases keep) auto

lemma group_of_eq: "map q cols = map r cols \<Longrightarrow> group_of rows cols q = group_of rows cols r"
  by (simp add: group_of_def)

lemma keyed_value: "keyed key rows \<Longrightarrow> q \<in> set rows \<Longrightarrow> \<exists>v. q key = Some v"
  by (auto simp: keyed_def)

text \<open>Each group has one aggregate, the key of one of its rows and of no other group's.\<close>

lemma group_aggregate:
  assumes "keyed key rows" and "r \<in> set rows"
  shows "\<exists>k \<in> set rows. map k cols = map r cols \<and> aggregate keep (map (\<lambda>q. q key) (group_of rows cols r)) = k key \<and>
    (\<forall>q \<in> set rows. map q cols = map r cols \<longrightarrow> at_end keep (the (k key)) (the (q key)))"
proof -
  let ?g = "map (\<lambda>q. q key) (group_of rows cols r)"
  obtain v where v: "r key = Some v" using keyed_value [OF assms] by blast
  have "Some v \<in> set ?g" using assms(2) v by (auto simp: group_of_def intro!: image_eqI [of _ _ r])
  from aggregate_some [OF this, of keep] obtain w where
    w: "aggregate keep ?g = Some w" "Some w \<in> set ?g" "\<forall>x. Some x \<in> set ?g \<longrightarrow> at_end keep w x" by blast
  then obtain k where k: "k \<in> set rows" "map k cols = map r cols" "k key = Some w" by (auto simp: group_of_def)
  have "at_end keep w (the (q key))" if q: "q \<in> set rows" "map q cols = map r cols" for q
  proof -
    obtain x where x: "q key = Some x" using keyed_value [OF assms(1) q(1)] by blast
    then have "Some x \<in> set ?g" using q by (auto simp: group_of_def intro!: image_eqI [of _ _ q])
    with w(3) x show ?thesis by simp
  qed
  then show ?thesis using k w(1) by auto
qed

lemma keyed_inj: "keyed key rows \<Longrightarrow> q \<in> set rows \<Longrightarrow> r \<in> set rows \<Longrightarrow> q key = r key \<Longrightarrow> q = r"
  by (auto simp: keyed_def distinct_map inj_on_def)

lemma kept_iff:
  assumes "keyed key rows" and "r \<in> set rows"
  shows "sql_not_in (r key) (group_aggregates rows key keep cols) \<noteq> Some True \<longleftrightarrow>
    aggregate keep (map (\<lambda>q. q key) (group_of rows cols r)) = r key"
proof -
  obtain v where v: "r key = Some v" using keyed_value [OF assms] by blast
  have nonnull: "None \<notin> set (group_aggregates rows key keep cols)"
  proof
    assume "None \<in> set (group_aggregates rows key keep cols)"
    then obtain q where q: "q \<in> set rows" "aggregate keep (map (\<lambda>p. p key) (group_of rows cols q)) = None"
      by (auto simp: group_aggregates_def)
    from group_aggregate [OF assms(1) q(1), of cols keep] obtain k where "k \<in> set rows" "k key = None"
      using q(2) by auto
    with keyed_value [OF assms(1)] show False by fastforce
  qed
  have ne: "group_aggregates rows key keep cols \<noteq> []" using assms(2) by (auto simp: group_aggregates_def)
  have "r key \<in> set (group_aggregates rows key keep cols) \<longleftrightarrow>
      aggregate keep (map (\<lambda>q. q key) (group_of rows cols r)) = r key"
  proof
    assume "r key \<in> set (group_aggregates rows key keep cols)"
    then obtain q where q: "q \<in> set rows" "aggregate keep (map (\<lambda>p. p key) (group_of rows cols q)) = r key"
      by (auto simp: group_aggregates_def)
    obtain k where k: "k \<in> set rows" "map k cols = map q cols" "k key = r key"
      using group_aggregate [OF assms(1) q(1), of cols keep] q(2) by auto
    have "k = r" using keyed_inj [OF assms(1) k(1) assms(2) k(3)] .
    with k(2) have "group_of rows cols r = group_of rows cols q" by (simp add: group_of_eq)
    with q(2) show "aggregate keep (map (\<lambda>q. q key) (group_of rows cols r)) = r key" by simp
  next
    assume "aggregate keep (map (\<lambda>q. q key) (group_of rows cols r)) = r key"
    then show "r key \<in> set (group_aggregates rows key keep cols)"
      using assms(2) by (auto simp: group_aggregates_def intro!: image_eqI [of _ _ r])
  qed
  then show ?thesis using v nonnull ne by (auto simp: sql_not_in_def)
qed

lemma distinct_map_filter_inj:
  assumes "distinct xs" and "\<And>x y. x \<in> set xs \<Longrightarrow> y \<in> set xs \<Longrightarrow> P x \<Longrightarrow> P y \<Longrightarrow> f x = f y \<Longrightarrow> x = y"
  shows "distinct (map f (filter P xs))"
  using assms by (auto simp: distinct_map inj_on_def)

lemma duplicate_statement_keeps_one:
  fixes keep :: keep_policy and cols :: "string list"
  assumes "keyed key (db table)"
  defines "kept \<equiv> run_statement db (duplicate_statement table key keep cols) table"
  shows "distinct (map (\<lambda>r. map r cols) kept) \<and>
    set (map (\<lambda>r. map r cols) kept) = set (map (\<lambda>r. map r cols) (db table)) \<and>
    (\<forall>k \<in> set kept. k \<in> set (db table) \<and>
       (\<forall>q \<in> set (db table). map q cols = map k cols \<longrightarrow> at_end keep (the (k key)) (the (q key))))"
proof -
  let ?rows = "db table"
  let ?best = "\<lambda>r. aggregate keep (map (\<lambda>q. q key) (group_of ?rows cols r))"
  have kept: "kept = filter (\<lambda>r. ?best r = r key) ?rows"
    using kept_iff [OF assms(1)] by (simp add: kept_def duplicate_statement_def cong: filter_cong)
  have best: "\<exists>k \<in> set ?rows. map k cols = map r cols \<and> ?best r = k key \<and>
      (\<forall>q \<in> set ?rows. map q cols = map r cols \<longrightarrow> at_end keep (the (k key)) (the (q key)))" if "r \<in> set ?rows" for r
    using group_aggregate [OF assms(1) that] .
  have "distinct ?rows" using assms(1) by (auto simp: keyed_def distinct_map)
  then have "distinct (map (\<lambda>r. map r cols) kept)"
    unfolding kept
  proof (rule distinct_map_filter_inj)
    fix x y assume "x \<in> set ?rows" "y \<in> set ?rows" "?best x = x key" "?best y = y key" "map x cols = map y cols"
    then show "x = y" using keyed_inj [OF assms(1)] group_of_eq [of x cols y ?rows] by metis
  qed
  moreover have cover: "\<exists>k \<in> set kept. map r cols = map k cols" if r: "r \<in> set ?rows" for r
  proof -
    obtain k where k: "k \<in> set ?rows" "map k cols = map r cols" "?best r = k key" using best [OF r] by blast
    then have "?best k = k key" using group_of_eq [OF k(2), of ?rows] by simp
    then have "k \<in> set kept" using k(1) by (simp add: kept)
    with k(2) show ?thesis by metis
  qed
  moreover have sub: "set kept \<subseteq> set ?rows" unfolding kept by (rule filter_is_subset)
  have "set (map (\<lambda>r. map r cols) kept) = set (map (\<lambda>r. map r cols) ?rows)"
    unfolding set_map
  proof (rule equalityI [OF image_mono [OF sub] image_subsetI])
    fix r assume "r \<in> set ?rows"
    from cover [OF this] show "map r cols \<in> (\<lambda>r. map r cols) ` set kept" by (metis image_eqI)
  qed
  moreover have "at_end keep (the (k key)) (the (q key))"
    if k: "k \<in> set kept" and q: "q \<in> set ?rows" "map q cols = map k cols" for k q
  proof -
    have k': "k \<in> set ?rows" "?best k = k key" using k unfolding kept by simp_all
    show ?thesis using best [OF k'(1)] k'(2) q by metis
  qed
  ultimately show ?thesis using sub by blast
qed

text \<open>The statement before a new unique constraint leaves one row of each group, the first or the last.\<close>

lemma unique_cleanup:
  fixes db :: "'v :: linorder tables"
  assumes "try_resolve_single_pk_column table s cols = Some key" and "keyed key (db table)"
  shows "\<exists>st. build_unique b table name cols (UniqueDeleteDuplicates keep) s =
      Inr [raw (statement_text b st), build_unique_index table name cols] \<and>
    (let kept = run_statement db st table in
       distinct (map (\<lambda>r. map r cols) kept) \<and>
       set (map (\<lambda>r. map r cols) kept) = set (map (\<lambda>r. map r cols) (db table)) \<and>
       (\<forall>k \<in> set kept. k \<in> set (db table) \<and>
          (\<forall>q \<in> set (db table). map q cols = map k cols \<longrightarrow> at_end keep (the (k key)) (the (q key)))))"
proof -
  have "build_unique b table name cols (UniqueDeleteDuplicates keep) s =
      Inr [raw (statement_text b (duplicate_statement table key keep cols)), build_unique_index table name cols]"
    by (simp add: build_unique_def assms(1) duplicate_delete_text)
  then show ?thesis
    using duplicate_statement_keeps_one [where db = db and table = table and key = key and cols = cols and keep = keep, OF assms(2)]
    unfolding Let_def by blast
qed

section \<open>Orphans of a foreign key\<close>

text \<open>The join terms of the subquery: a column of the parent against one of the child.\<close>

definition join_pairs :: "string \<Rightarrow> string list \<Rightarrow> string \<Rightarrow> string list \<Rightarrow> (column_ref \<times> column_ref) list" where
  "join_pairs child cols ref ref_cols = map (\<lambda>(c, r). ((ref, r), (child, c))) (zip cols ref_cols)"

definition fk_statement ::
  "string \<Rightarrow> string list \<Rightarrow> string \<Rightarrow> string list \<Rightarrow> foreign_key_orphan_strategy \<Rightarrow> statement" where
  "fk_statement child cols ref ref_cols strategy =
     (let orphan = NotExists ref (join_pairs child cols ref ref_cols)
      in if strategy = NullifyOrphans then NullifyWhere child cols (Both (AnyNotNull cols) orphan)
         else DeleteWhere child orphan)"

lemma fk_cleanup_text:
  assumes "length cols = length ref_cols" and "cols \<noteq> []"
  shows "build_fk_orphan_cleanup b child cols ref ref_cols strategy =
    Inr [raw (statement_text b (fk_statement child cols ref ref_cols strategy))]"
proof -
  have "map (\<lambda>(x, y). ref_text b x @ '' = '' @ ref_text b y) (join_pairs child cols ref ref_cols) =
      map (\<lambda>(c, r). quote_ident ref b @ ''.'' @ quote_ident r b @ '' = '' @ quote_ident child b @ ''.'' @ quote_ident c b)
        (zip cols ref_cols)"
    unfolding join_pairs_def map_map by (rule map_cong) (auto simp: ref_text_def)
  then show ?thesis
    using assms by (simp add: build_fk_orphan_cleanup_def fk_not_exists_def fk_statement_def Let_def)
qed

text \<open>What the foreign key asks of a row: a NULL in it, or a parent row (\<open>MATCH SIMPLE\<close>).\<close>

definition has_parent :: "'v sql_row list \<Rightarrow> string list \<Rightarrow> string list \<Rightarrow> 'v sql_row \<Rightarrow> bool" where
  "has_parent parents cols ref_cols r \<longleftrightarrow>
     (\<exists>p \<in> set parents. \<forall>(c, rc) \<in> set (zip cols ref_cols). r c \<noteq> None \<and> p rc = r c)"

definition fk_holds :: "'v sql_row list \<Rightarrow> string list \<Rightarrow> string list \<Rightarrow> 'v sql_row \<Rightarrow> bool" where
  "fk_holds parents cols ref_cols r \<longleftrightarrow> (\<exists>c \<in> set cols. r c = None) \<or> has_parent parents cols ref_cols r"

lemma sql_eq_true: "sql_eq x y = Some True \<longleftrightarrow> y \<noteq> None \<and> x = y"
  by (cases x; cases y) (auto simp: sql_eq_def)

lemma orphan_truth:
  assumes "child \<noteq> ref"
  shows "truth db r (NotExists ref (join_pairs child cols ref ref_cols)) =
    Some (\<not> has_parent (db ref) cols ref_cols r)"
  using assms
  by (simp add: has_parent_def list_ex_iff list_all_iff scoped_def sql_eq_true split_def join_pairs_def
      del: not_None_eq)

lemma sql_and_some: "sql_and (Some p) (Some q) = Some (p \<and> q)"
  by (cases p; cases q) auto

lemma fk_cleanup_rows:
  assumes "child \<noteq> ref"
  shows "run_statement db (fk_statement child cols ref ref_cols NullifyOrphans) child =
      map (\<lambda>r. if (\<exists>c \<in> set cols. r c \<noteq> None) \<and> \<not> has_parent (db ref) cols ref_cols r
               then nullified cols r else r) (db child)"
    and "run_statement db (fk_statement child cols ref ref_cols DeleteOrphans) child =
      filter (has_parent (db ref) cols ref_cols) (db child)"
  by (simp_all add: fk_statement_def orphan_truth [OF assms] sql_and_some list_ex_iff del: truth.simps(3))

text \<open>After the clean-up the constraint holds, and rows that had a parent are as they were.\<close>

lemma fk_cleanup_sound:
  fixes db :: "'v :: linorder tables" and ref_cols :: "string list" and strategy :: foreign_key_orphan_strategy
  assumes "child \<noteq> ref" and "cols \<noteq> []"
  defines "after \<equiv> run_statement db (fk_statement child cols ref ref_cols strategy)"
  shows "(\<forall>r \<in> set (after child). fk_holds (db ref) cols ref_cols r) \<and>
    (\<forall>r \<in> set (db child). has_parent (db ref) cols ref_cols r \<longrightarrow> r \<in> set (after child)) \<and> after ref = db ref"
proof (cases strategy)
  case NullifyOrphans
  have "after child = map (\<lambda>r. if (\<exists>c \<in> set cols. r c \<noteq> None) \<and> \<not> has_parent (db ref) cols ref_cols r
      then nullified cols r else r) (db child)"
    by (simp add: after_def NullifyOrphans fk_cleanup_rows(1) [OF assms(1)])
  moreover have "after ref = db ref" using assms(1) by (simp add: after_def NullifyOrphans fk_statement_def Let_def)
  ultimately show ?thesis using assms(2)
    by (cases cols) (auto simp: fk_holds_def nullified_def)
next
  case DeleteOrphans
  have "after child = filter (has_parent (db ref) cols ref_cols) (db child)"
    by (simp add: after_def DeleteOrphans fk_cleanup_rows(2) [OF assms(1)])
  moreover have "after ref = db ref" using assms(1) by (simp add: after_def DeleteOrphans fk_statement_def Let_def)
  ultimately show ?thesis by (simp add: fk_holds_def)
qed

lemma foreign_key_cleanup:
  fixes db :: "'v :: linorder tables"
  assumes "child \<noteq> ref" and "cols \<noteq> []" and "length cols = length ref_cols"
  shows "\<exists>st. build_fk_orphan_cleanup b child cols ref ref_cols strategy = Inr [raw (statement_text b st)] \<and>
    (\<forall>r \<in> set (run_statement db st child). fk_holds (db ref) cols ref_cols r) \<and>
    (\<forall>r \<in> set (db child). has_parent (db ref) cols ref_cols r \<longrightarrow> r \<in> set (run_statement db st child)) \<and>
    run_statement db st ref = db ref"
  using fk_cleanup_text [OF assms(3,2)] fk_cleanup_sound [OF assms(1,2)] by blast

text \<open>
  On a table that refers to itself the inner table hides the outer one, so that the condition asks
  whether any row is its own parent, whatever the row at hand.
\<close>

definition own_parent :: "string list \<Rightarrow> string list \<Rightarrow> 'v sql_row \<Rightarrow> bool" where
  "own_parent cols ref_cols r \<longleftrightarrow> (\<forall>(c, rc) \<in> set (zip cols ref_cols). r c \<noteq> None \<and> r rc = r c)"

lemma self_orphan_truth:
  "truth db r (NotExists t (join_pairs t cols t ref_cols)) =
     Some (\<not> (\<exists>p \<in> set (db t). own_parent cols ref_cols p))"
  by (simp add: own_parent_def list_ex_iff list_all_iff scoped_def sql_eq_true split_def join_pairs_def
      del: not_None_eq)

lemma nullified_absent: "\<not> (\<exists>c \<in> set cols. r c \<noteq> None) \<Longrightarrow> nullified cols r = r"
  by (auto simp: nullified_def)

lemma self_reference_rows:
  assumes "\<forall>p \<in> set (db t). \<not> own_parent cols ref_cols p"
  shows "run_statement db (fk_statement t cols t ref_cols NullifyOrphans) t = map (nullified cols) (db t)"
    and "run_statement db (fk_statement t cols t ref_cols DeleteOrphans) t = []"
proof -
  have no: "\<not> (\<exists>p \<in> set (db t). own_parent cols ref_cols p)" using assms by blast
  have same: "(if \<exists>c \<in> set cols. r c \<noteq> None then nullified cols r else r) = nullified cols r" for r :: "'a sql_row"
    using nullified_absent [of cols r] by auto
  show "run_statement db (fk_statement t cols t ref_cols NullifyOrphans) t = map (nullified cols) (db t)"
    by (simp add: fk_statement_def self_orphan_truth no sql_and_some list_ex_iff same del: truth.simps(3) not_None_eq)
  show "run_statement db (fk_statement t cols t ref_cols DeleteOrphans) t = []"
    by (simp add: fk_statement_def self_orphan_truth no del: truth.simps(3))
qed

lemma self_reference_cleanup:
  fixes db :: "'v :: linorder tables"
  assumes "\<forall>p \<in> set (db t). \<not> own_parent cols ref_cols p" and "cols \<noteq> []" and "length cols = length ref_cols"
  shows "\<exists>st. build_fk_orphan_cleanup b t cols t ref_cols strategy = Inr [raw (statement_text b st)] \<and>
    run_statement db st t = (if strategy = NullifyOrphans then map (nullified cols) (db t) else [])"
  using fk_cleanup_text [OF assms(3,2)] self_reference_rows [where db = db and t = t and cols = cols and ref_cols = ref_cols, OF assms(1)]
  by (cases strategy) (metis foreign_key_orphan_strategy.distinct(1))+

section \<open>Renumbering the values of an integer enum\<close>

text \<open>\<open>UPDATE .. SET c = CASE WHEN c = old THEN new .. END WHERE c IN (old, ..)\<close> on the stored integers.\<close>

fun case_value :: "(int \<times> int) list \<Rightarrow> int option \<Rightarrow> int option" where
  "case_value [] x = None"
| "case_value ((old, new) # arms) x = (if sql_eq x (Some old) = Some True then Some new else case_value arms x)"

definition remap_rows :: "string \<Rightarrow> (int, int) omap \<Rightarrow> int sql_row list \<Rightarrow> int sql_row list" where
  "remap_rows column mapping rows =
     (if mapping = [] then rows
      else map (\<lambda>r. if list_ex (\<lambda>p. sql_eq (r column) (Some (fst p)) = Some True) mapping
                    then r(column := case_value mapping (r column)) else r) rows)"

text \<open>The label a stored value stands for.\<close>

definition label_of :: "num_value list \<Rightarrow> int \<Rightarrow> string option" where
  "label_of items v = map_option nv_name (find (\<lambda>i. nv_value i = v) items)"

definition remapped :: "(int, int) omap \<Rightarrow> int \<Rightarrow> int" where
  "remapped mapping v = (case om_lookup mapping v of Some n \<Rightarrow> n | None \<Rightarrow> v)"

lemma case_value_lookup: "case_value mapping (Some v) = om_lookup mapping v"
  by (induction mapping) (auto simp: sql_eq_def om_lookup_def)

lemma case_member: "list_ex (\<lambda>p. sql_eq x (Some (fst p)) = Some True) mapping \<longleftrightarrow> (\<exists>v n. x = Some v \<and> om_lookup mapping v = Some n)"
  by (induction mapping) (auto simp: sql_eq_true om_lookup_def)

lemma remap_rows_eq:
  "remap_rows column mapping rows = map (\<lambda>r. r(column := map_option (remapped mapping) (r column))) rows"
proof (cases "mapping = []")
  case True
  moreover have "remapped [] = (\<lambda>v. v)" by (simp add: fun_eq_iff remapped_def om_lookup_def)
  ultimately show ?thesis by (simp add: remap_rows_def option.map_ident)
next
  case False
  have "(if list_ex (\<lambda>p. sql_eq (r column) (Some (fst p)) = Some True) mapping
        then r(column := case_value mapping (r column)) else r) =
      r(column := map_option (remapped mapping) (r column))" for r :: "int sql_row"
    by (cases "r column") (auto simp: case_member case_value_lookup remapped_def split: option.splits)
  then show ?thesis using False by (simp add: remap_rows_def)
qed

definition remap_items :: "(int, int) omap \<Rightarrow> num_value list \<Rightarrow> num_value list" where
  "remap_items mapping items =
     map (\<lambda>item. case om_lookup mapping (nv_value item) of Some n \<Rightarrow> item\<lparr>nv_value := n\<rparr> | None \<Rightarrow> item) items"

lemma remap_items_value: "map nv_value (remap_items mapping items) = map (remapped mapping \<circ> nv_value) items"
  "map nv_name (remap_items mapping items) = map nv_name items"
  by (auto simp: remap_items_def remapped_def split: option.splits)

lemma find_SomeD: "find P xs = Some x \<Longrightarrow> x \<in> set xs \<and> P x"
  by (auto simp: find_Some_iff)

lemma remap_keeps_label:
  assumes "distinct (map nv_value (remap_items mapping items))" and "label_of items v = Some n"
  shows "label_of (remap_items mapping items) (remapped mapping v) = Some n"
  using assms
proof (induction items)
  case (Cons i items)
  let ?i = "case om_lookup mapping (nv_value i) of Some n \<Rightarrow> i\<lparr>nv_value := n\<rparr> | None \<Rightarrow> i"
  have hd: "remap_items mapping (i # items) = ?i # remap_items mapping items" by (simp add: remap_items_def)
  have i: "nv_value ?i = remapped mapping (nv_value i)" "nv_name ?i = nv_name i"
    by (simp_all add: remapped_def split: option.splits)
  show ?case
  proof (cases "nv_value i = v")
    case True
    then show ?thesis using Cons.prems(2) i by (simp add: hd label_of_def)
  next
    case False
    then have rest: "label_of items v = Some n" using Cons.prems(2) by (simp add: label_of_def)
    then obtain j where "j \<in> set items" "nv_value j = v"
      by (auto simp: label_of_def dest: find_SomeD)
    then have "remapped mapping v \<in> set (map nv_value (remap_items mapping items))"
      by (auto simp: remap_items_value(1))
    then have "nv_value ?i \<noteq> remapped mapping v" using Cons.prems(1) hd by auto
    moreover have "label_of (remap_items mapping items) (remapped mapping v) = Some n"
      using Cons.IH rest Cons.prems(1) hd by simp
    ultimately show ?thesis by (simp add: hd label_of_def)
  qed
qed (simp add: label_of_def)

definition remap_text :: "database_backend \<Rightarrow> string \<Rightarrow> string \<Rightarrow> (int \<times> int) list \<Rightarrow> string" where
  "remap_text b table column arms =
     ''UPDATE '' @ quote_ident table b @ '' SET '' @ quote_ident column b @ '' = CASE '' @
     join '' '' (map (\<lambda>(old, new). ''WHEN '' @ quote_ident column b @ '' = '' @ int_to_string old @ '' THEN '' @
       int_to_string new) arms) @
     '' END WHERE '' @ quote_ident column b @ '' IN ('' @ join '', '' (map (\<lambda>(old, _). int_to_string old) arms) @ '')''"

lemma remap_statement:
  assumes "mapping \<noteq> []" and "remap_type mapping (Complex (Enum e (EnumInteger items))) = Complex (Enum e (EnumInteger items'))"
    and "distinct (map nv_value items')" and "r column = Some v" and "label_of items v = Some n"
  shows "build_remap_enum_values b table column mapping = Inr [raw (remap_text b table column mapping)] \<and>
    (\<exists>w. map (\<lambda>r. r column) (remap_rows column mapping [r]) = [Some w] \<and> label_of items' w = Some n)"
proof
  have arm: "(\<lambda>(old, new). ''WHEN '' @ q @ '' = '' @ int_to_string old @ '' THEN '' @ int_to_string new) = remap_arm q" for q
    by (rule ext) (auto simp: remap_arm_def)
  show "build_remap_enum_values b table column mapping = Inr [raw (remap_text b table column mapping)]"
    unfolding remap_text_def arm using assms(1) by (simp add: build_remap_enum_values_def split_def Let_def)
  have "items' = remap_items mapping items" using assms(2) by (simp add: remap_items_def)
  then show "\<exists>w. map (\<lambda>r. r column) (remap_rows column mapping [r]) = [Some w] \<and> label_of items' w = Some n"
    using remap_keeps_label [of mapping items v n] assms(3-5) by (simp add: remap_rows_eq)
qed

end
