(* ===== verification/Sql_Rebuild.thy ===== *)
theory Sql_Rebuild
  imports Sql_Meaning
begin

text \<open>
  What the SQLite rebuild of a table does to its rows, and which parts of a table definition the
  statements of \<open>CREATE TABLE\<close> and of the rebuild leave out.
\<close>

section \<open>Copying rows\<close>

text \<open>A stored table is its column names and rows.\<close>

type_synonym 'v store = "string \<Rightarrow> (string list \<times> 'v sql_row list) option"

fun select_value :: "(sea_expr \<Rightarrow> 'v sql_row \<Rightarrow> 'v option) \<Rightarrow> 'v sql_row \<Rightarrow> sea_select_item \<Rightarrow> 'v option" where
  "select_value eval r (SelectColumn c) = r c"
| "select_value eval r (SelectExprAs e _) = eval e r"

definition inserted_row :: "(sea_expr \<Rightarrow> 'v sql_row \<Rightarrow> 'v option) \<Rightarrow> sea_insert \<Rightarrow> 'v sql_row \<Rightarrow> 'v sql_row" where
  "inserted_row eval ins r =
     (\<lambda>c. case map_of (zip (sin_columns ins) (map (select_value eval r) (sin_select ins))) c of
            Some v \<Rightarrow> v | None \<Rightarrow> None)"

text \<open>\<open>INSERT INTO t (cols) SELECT items FROM s\<close>.\<close>

definition insert_select :: "(sea_expr \<Rightarrow> 'v sql_row \<Rightarrow> 'v option) \<Rightarrow> sea_insert \<Rightarrow> 'v store \<Rightarrow> 'v store" where
  "insert_select eval ins db =
     (case (db (sin_from ins), db (sin_table ins)) of
        (Some (_, src), Some (cols, dst)) \<Rightarrow> db(sin_table ins \<mapsto> (cols, dst @ map (inserted_row eval ins) src))
      | _ \<Rightarrow> db)"

definition restricted :: "string list \<Rightarrow> 'v sql_row \<Rightarrow> 'v sql_row" where
  "restricted cols r = (\<lambda>c. if c \<in> set cols then r c else None)"

lemma map_of_zip_map: "map_of (zip xs (map f xs)) x = (if x \<in> set xs then Some (f x) else None)"
  by (induction xs) auto

lemma copied_row:
  "build_copy_into_temp_table t temp cols = QInsert ins \<Longrightarrow> inserted_row eval ins r = restricted (map col_name cols) r"
  by (auto simp: build_copy_into_temp_table_def inserted_row_def restricted_def map_of_zip_map comp_def
      map_of_zip_map [of "map col_name cols" r, unfolded map_map comp_def])

section \<open>An engine\<close>

text \<open>
  What SQLite does with the statements of a rebuild.  The text of a \<open>CREATE\<close> statement that carries
  CHECK clauses is not taken apart here: that it creates the empty table is a law asked of it.
\<close>

definition engine_laws ::
  "(built_query \<Rightarrow> 'v store \<Rightarrow> 'v store) \<Rightarrow> (sea_expr \<Rightarrow> 'v sql_row \<Rightarrow> 'v option) \<Rightarrow> bool" where
  "engine_laws exec eval \<longleftrightarrow>
     (\<forall>ins db. exec (QInsert ins) db = insert_select eval ins db) \<and>
     (\<forall>t db. exec (QDropTable t) db = db(t := None)) \<and>
     (\<forall>a b db. a \<noteq> b \<longrightarrow> exec (QRenameTable a b) db = db(a := None, b := db a)) \<and>
     (\<forall>t index cols unique db. exec (rebuilt_index t index cols unique) db = db)"

definition creates_empty :: "(built_query \<Rightarrow> 'v store \<Rightarrow> 'v store) \<Rightarrow> built_query \<Rightarrow> string \<Rightarrow> string list \<Rightarrow> bool" where
  "creates_empty exec q t cols \<longleftrightarrow> (\<forall>db. db t = None \<longrightarrow> exec q db = db(t \<mapsto> (cols, [])))"

definition run_queries :: "(built_query \<Rightarrow> 'v store \<Rightarrow> 'v store) \<Rightarrow> built_query list \<Rightarrow> 'v store \<Rightarrow> 'v store" where
  "run_queries exec qs db = fold exec qs db"

lemma run_queries_simps [simp]:
  "run_queries exec [] db = db"
  "run_queries exec (q # qs) db = run_queries exec qs (exec q db)"
  "run_queries exec (qs @ rs) db = run_queries exec rs (run_queries exec qs db)"
  by (simp_all add: run_queries_def)

lemma engine_lawsD:
  assumes "engine_laws exec eval"
  shows "exec (QInsert ins) db = insert_select eval ins db"
    and "exec (QDropTable t) db = db(t := None)"
    and "a \<noteq> b \<Longrightarrow> exec (QRenameTable a b) db = db(a := None, b := db a)"
    and "exec (rebuilt_index t index cols unique) db = db"
  using assms by (simp_all add: engine_laws_def)

lemma run_indexes:
  assumes "engine_laws exec eval"
  shows "run_queries exec (recreate_indexes_after_rebuild t cs pending) db = db"
proof -
  have one: "run_queries exec (recreate_index t c) db = db" for c db
    by (cases c) (simp_all add: engine_lawsD(4) [OF assms])
  have "run_queries exec (concat (map (recreate_index t) xs)) db = db" for xs
    by (induction xs) (simp_all add: one)
  then show ?thesis by (simp add: recreate_indexes_after_rebuild_def)
qed

lemma temp_fresh [simp]: "t @ ''_temp'' \<noteq> t" "t \<noteq> t @ ''_temp''"
  by simp_all

text \<open>The four statements shared by every rebuild.\<close>

lemma run_rebuild:
  assumes "engine_laws exec eval"
    and "creates_empty exec create (t @ ''_temp'') cols"
    and "sin_table ins = t @ ''_temp''" and "sin_from ins = t"
    and "db t = Some (old_cols, rows)" and "db (t @ ''_temp'') = None"
  shows "run_queries exec ([create, QInsert ins, build_delete_table t, build_rename_table (t @ ''_temp'') t] @
      recreate_indexes_after_rebuild t cs pending) db =
    db(t \<mapsto> (cols, map (inserted_row eval ins) rows))"
proof -
  let ?temp = "t @ ''_temp''"
  have c: "exec create db = db(?temp \<mapsto> (cols, []))" using assms(2,6) by (simp add: creates_empty_def)
  have i: "exec (QInsert ins) (exec create db) = db(?temp \<mapsto> (cols, map (inserted_row eval ins) rows))"
    using assms(3,4,5) by (simp add: c engine_lawsD(1) [OF assms(1)] insert_select_def)
  show ?thesis
    using assms(6) by (simp add: i run_indexes [OF assms(1)] build_delete_table_def build_rename_table_def
        engine_lawsD(2,3) [OF assms(1)] fun_eq_iff)
qed

lemma rebuild_keeps_rows:
  assumes "engine_laws exec eval"
    and "creates_empty exec (build_sqlite_temp_table_create render b (t @ ''_temp'') t ccols ccs) (t @ ''_temp'')
           (map col_name ccols)"
    and "db t = Some (old_cols, rows)" and "db (t @ ''_temp'') = None"
  shows "run_queries exec (build_sqlite_table_rebuild render b t ccols ccs copied rcs pending) db =
    db(t \<mapsto> (map col_name ccols, map (restricted (map col_name copied)) rows))"
proof -
  obtain ins where ins: "build_copy_into_temp_table t (t @ ''_temp'') copied = QInsert ins"
      "sin_table ins = t @ ''_temp''" "sin_from ins = t"
    by (simp add: build_copy_into_temp_table_def)
  have row: "inserted_row eval ins = restricted (map col_name copied)"
    by (rule ext) (rule copied_row [OF ins(1)])
  show ?thesis
    using run_rebuild [OF assms(1,2) ins(2,3) assms(3,4), of rcs pending]
    by (simp add: build_sqlite_table_rebuild_def ins(1) row Let_def)
qed

text \<open>An engine on which the laws hold, for tables without CHECK clauses.\<close>

fun plain_engine :: "(sea_expr \<Rightarrow> 'v sql_row \<Rightarrow> 'v option) \<Rightarrow> built_query \<Rightarrow> 'v store \<Rightarrow> 'v store" where
  "plain_engine eval (QCreateTable st) db = db(sct_table st \<mapsto> (map sc_name (sct_columns st), []))"
| "plain_engine eval (QInsert ins) db = insert_select eval ins db"
| "plain_engine eval (QDropTable t) db = db(t := None)"
| "plain_engine eval (QRenameTable a b) db = db(a := None, b := db a)"
| "plain_engine eval _ db = db"

lemma plain_engine_laws: "engine_laws (plain_engine eval) eval"
  by (simp add: engine_laws_def rebuilt_index_def)

lemma plain_engine_creates:
  assumes "collect_all_check_clauses t cols cs = []"
  shows "creates_empty (plain_engine eval) (build_sqlite_temp_table_create render b temp t cols cs) temp (map col_name cols)"
proof -
  have "map sc_name (add_create_table_columns b temp cols cs) = map col_name cols"
    by (simp add: add_create_table_columns_def build_sea_column_def_with_table_def Let_def)
  then show ?thesis
    using assms by (simp add: creates_empty_def build_sqlite_temp_table_create_def build_create_with_checks_def
        build_create_table_for_backend_def)
qed

text \<open>Adding a column fills it in every row.\<close>

lemma filled_row:
  assumes "n \<notin> set names"
  shows "map_of (zip (names @ [n]) (map f names @ [v])) c = (if c = n then Some v else if c \<in> set names then Some (f c) else None)"
proof -
  have "map_of (zip names (map f names)) c = (if c \<in> set names then Some (f c) else None)" by (rule map_of_zip_map)
  moreover have "c = n \<Longrightarrow> map_of (zip names (map f names)) c = None" using assms by (simp add: map_of_zip_map)
  ultimately show ?thesis by (auto simp: map_add_Some_iff map_add_def split: option.splits)
qed

lemma inserted_filled:
  assumes "n \<notin> set names"
  shows "inserted_row eval \<lparr>sin_table = a, sin_columns = names @ [n],
      sin_select = map SelectColumn names @ [SelectExprAs e n], sin_from = b\<rparr> r = (restricted names r)(n := eval e r)"
proof
  fix c
  have "map (select_value eval r) (map SelectColumn names @ [SelectExprAs e n]) = map r names @ [eval e r]" by simp
  then show "inserted_row eval \<lparr>sin_table = a, sin_columns = names @ [n],
      sin_select = map SelectColumn names @ [SelectExprAs e n], sin_from = b\<rparr> r c = ((restricted names r)(n := eval e r)) c"
    unfolding inserted_row_def sea_insert.simps by (simp only: filled_row [OF assms]) (simp add: restricted_def)
qed

lemma add_column_fills:
  fixes fill_with :: "string option"
  assumes "engine_laws exec eval"
    and "creates_empty exec
           (build_sqlite_temp_table_create render Sqlite (t @ ''_temp'') t (tbl_columns d @ [column]) (tbl_constraints d))
           (t @ ''_temp'') (map col_name (tbl_columns d) @ [col_name column])"
    and "db t = Some (map col_name (tbl_columns d), rows)" and "db (t @ ''_temp'') = None"
    and "find_table s t = Some d" and "\<not> col_nullable column \<or> is_enum_column column"
    and "col_name column \<notin> col_name ` set (tbl_columns d)"
  defines "fill \<equiv> add_column_fill_expr Sqlite column fill_with"
  shows "\<exists>qs. build_add_column render Sqlite t column fill_with s pending = Inr qs \<and>
    run_queries exec qs db = db(t \<mapsto> (map col_name (tbl_columns d) @ [col_name column],
      map (\<lambda>r. (restricted (map col_name (tbl_columns d)) r)(col_name column := eval fill r)) rows))"
proof -
  let ?names = "map col_name (tbl_columns d)"
  let ?ins = "\<lparr>sin_table = t @ ''_temp'', sin_columns = ?names @ [col_name column],
    sin_select = map SelectColumn ?names @ [SelectExprAs fill (col_name column)], sin_from = t\<rparr>"
  have row: "inserted_row eval ?ins r = (restricted ?names r)(col_name column := eval fill r)" for r
    by (rule inserted_filled) (use assms(7) in simp)
  have "build_add_column render Sqlite t column fill_with s pending =
      Inr (add_column_rebuild render Sqlite t column fill_with d pending)"
    using assms(5,6) by (simp add: build_add_column_def require_table_in_schema_def)
  moreover have "run_queries exec (add_column_rebuild render Sqlite t column fill_with d pending) db =
      db(t \<mapsto> (?names @ [col_name column], map (inserted_row eval ?ins) rows))"
    using run_rebuild [OF assms(1,2), of ?ins, OF _ _ assms(3,4), of "tbl_constraints d" pending]
    by (simp add: add_column_rebuild_def Let_def fill_def)
  moreover have "map (inserted_row eval ?ins) rows =
      map (\<lambda>r. (restricted ?names r)(col_name column := eval fill r)) rows"
    by (rule map_cong [OF refl row])
  ultimately show ?thesis by metis
qed

section \<open>What \<open>CREATE TABLE\<close> leaves out\<close>

fun is_check :: "table_constraint \<Rightarrow> bool" where
  "is_check (Check _ _ _) = True"
| "is_check _ = False"

definition same_keys :: "table_constraint list \<Rightarrow> table_constraint list \<Rightarrow> bool" where
  "same_keys cs ds \<longleftrightarrow> filter is_primary_key cs = filter is_primary_key ds"

lemma list_ex_filter: "list_ex P xs \<longleftrightarrow> filter P xs \<noteq> []"
  by (induction xs) auto

lemma auto_increment_filter: "collect_auto_increment_columns cs = collect_auto_increment_columns (filter is_primary_key cs)"
proof (induction cs)
  case (Cons c cs)
  then show ?case by (cases c) (auto simp: collect_auto_increment_columns_def)
qed simp

lemma columns_same_keys:
  "same_keys cs ds \<Longrightarrow> add_create_table_columns b t cols cs = add_create_table_columns b t cols ds"
  using auto_increment_filter [of cs] auto_increment_filter [of ds]
  by (simp add: add_create_table_columns_def same_keys_def list_ex_filter)

lemma concat_map_filter_out: "(\<And>x. P x \<Longrightarrow> f x = []) \<Longrightarrow> concat (map f (filter (\<lambda>x. \<not> P x) xs)) = concat (map f xs)"
  by (induction xs) auto

lemma check_adds_nothing:
  "is_check c \<Longrightarrow> create_table_element b t cols c = []"
  "is_check c \<Longrightarrow> create_unique_index t c = []"
  "is_check c \<Longrightarrow> create_plain_index t c = []"
  by (cases c; simp)+

lemma filter_swap: "filter P (filter Q xs) = filter Q (filter P xs)"
  by (simp add: conj_commute)

lemma keys_without_checks: "same_keys (filter (\<lambda>c. \<not> is_check c) cs) cs"
proof -
  have "\<not> is_check c" if "is_primary_key c" for c using that by (cases c) auto
  then show ?thesis by (auto simp: same_keys_def intro: filter_cong)
qed

lemma create_without_checks:
  "build_create_table_for_backend b t cols (filter (\<lambda>c. \<not> is_check c) cs) = build_create_table_for_backend b t cols cs"
  using columns_same_keys [OF keys_without_checks]
  by (simp add: build_create_table_for_backend_def add_create_table_constraints_def
      concat_map_filter_out check_adds_nothing)

lemma create_table_ignores_checks:
  "create_table_queries render b t cols (filter (\<lambda>c. \<not> is_check c) cs) = create_table_queries render b t cols cs"
proof -
  have u: "list_ex is_unique (filter (\<lambda>c. \<not> is_check c) cs) = list_ex is_unique cs"
  proof (induction cs)
    case (Cons c cs)
    then show ?case by (cases c) auto
  qed simp
  have "filter (\<lambda>c. \<not> is_unique c) (filter (\<lambda>c. \<not> is_check c) cs) = filter (\<lambda>c. \<not> is_check c) (filter (\<lambda>c. \<not> is_unique c) cs)"
    by (rule filter_swap)
  then show ?thesis
    by (simp only: create_table_queries_def Let_def u create_without_checks concat_map_filter_out check_adds_nothing)
qed

section \<open>What the rebuild leaves out\<close>

fun index_like :: "table_constraint \<Rightarrow> bool" where
  "index_like (Unique _ _ _) = True"
| "index_like (Index _ _) = True"
| "index_like _ = False"

lemma index_like_inert:
  assumes "index_like c"
  shows "create_table_element Sqlite t cols c = []" "explicit_check_clause c = None" "\<not> is_primary_key c"
  using assms by (cases c; simp add: add_mysql_unique_constraint_def)+

definition replaced_in :: "table_constraint list \<Rightarrow> table_constraint \<Rightarrow> table_constraint \<Rightarrow> table_constraint list" where
  "replaced_in cs old new = map (\<lambda>c. if c = old then new else c) cs"

lemma replaced_in_inert:
  assumes "index_like old" and "index_like new"
  shows "concat (map (create_table_element Sqlite t cols) (replaced_in cs old new)) = concat (map (create_table_element Sqlite t cols) cs)"
    and "extract_check_clauses (replaced_in cs old new) = extract_check_clauses cs"
    and "same_keys (replaced_in cs old new) cs"
  using index_like_inert [OF assms(1)] index_like_inert [OF assms(2)]
  by (induction cs) (auto simp: replaced_in_def extract_check_clauses_def List.map_filter_simps same_keys_def
    split: option.splits)

lemma sqlite_replace_ignores_new_index:
  assumes "index_like old" and "index_like new" and "find_table s t = Some d"
  shows "build_replace_constraint render Sqlite t old new s pending =
    Inr (build_sqlite_table_rebuild render Sqlite t (tbl_columns d) (tbl_constraints d) (tbl_columns d)
      (tbl_constraints d) pending)"
proof -
  have "build_sqlite_temp_table_create render Sqlite temp t cols (replaced_in cs old new) =
      build_sqlite_temp_table_create render Sqlite temp t cols cs" for temp cols cs
    using replaced_in_inert [OF assms(1,2)]
    by (simp add: build_sqlite_temp_table_create_def build_create_table_for_backend_def collect_all_check_clauses_def
        add_create_table_constraints_def columns_same_keys [OF replaced_in_inert(3) [OF assms(1,2)]])
  then show ?thesis
    using assms(3) by (simp add: build_replace_constraint_def build_sqlite_constraint_replace_def
        require_table_in_schema_def build_sqlite_table_rebuild_def replaced_in_def [symmetric] Let_def)
qed

section \<open>Inline keys\<close>

lemma create_table_column_specs:
  assumes "c \<in> set cols" and "col_primary_key c \<noteq> None" and "\<not> list_ex is_primary_key cs"
  shows "\<exists>sc \<in> set (sct_columns (build_create_table_for_backend b t cols cs)).
    sc_name sc = col_name c \<and> SpecPrimaryKey \<in> set (sc_specs sc)"
  using assms
  by (auto simp: build_create_table_for_backend_def add_create_table_columns_def Let_def
      build_sea_column_def_with_table_def)

lemma removed_key_created_again:
  assumes "find_table s t = Some d" and "c \<in> set (tbl_columns d)" and "col_primary_key c \<noteq> None"
  shows "\<exists>stmt clauses rest.
    build_remove_constraint render Sqlite t (PrimaryKey ai cols strategy) s pending =
      Inr (build_create_with_checks render Sqlite stmt clauses # rest) \<and>
    (\<exists>sc \<in> set (sct_columns stmt). sc_name sc = col_name c \<and> SpecPrimaryKey \<in> set (sc_specs sc))"
proof -
  let ?cs = "constraints_without d (PrimaryKey ai cols strategy)"
  have none: "\<not> list_ex is_primary_key ?cs"
  proof -
    have "\<not> is_primary_key x" if "\<not> same_constraint x (PrimaryKey ai cols strategy)" for x
      using that by (cases x) auto
    then show ?thesis by (auto simp: constraints_without_def list_ex_iff)
  qed
  show ?thesis
    using create_table_column_specs [OF assms(2,3) none] assms(1)
    by (force simp: build_remove_constraint_def sqlite_remove_constraint_def require_table_in_schema_def Let_def
        build_sqlite_table_rebuild_def build_sqlite_temp_table_create_def)
qed

end
