(* ===== verification/Sql_Narrowing.thy ===== *)
theory Sql_Narrowing
  imports Sql_Types
begin

text \<open>
  The condition that selects the rows a narrower column type has no room for: its text, its meaning, and
  the values it finds.
\<close>

section \<open>Tests on stored values\<close>

datatype value_test =
    LongerThan nat
  | NotRounded nat
  | AtLeastPower nat
  | Outside int int

fun test_text :: "database_backend \<Rightarrow> string \<Rightarrow> value_test \<Rightarrow> string" where
  "test_text b column (LongerThan n) = length_function b @ ''('' @ quote_ident column b @ '') > '' @ nat_to_string n"
| "test_text b column (NotRounded n) =
     quote_ident column b @ '' <> ROUND('' @ quote_ident column b @ '', '' @ nat_to_string n @ '')''"
| "test_text b column (AtLeastPower n) =
     ''ABS('' @ quote_ident column b @ '') >= '' @ CHR ''1'' # replicate n (CHR ''0'')"
| "test_text b column (Outside lo hi) =
     quote_ident column b @ '' > '' @ int_to_string hi @ '' OR '' @ quote_ident column b @ '' < '' @ int_to_string lo"

fun test_of :: "narrowing_kind \<Rightarrow> value_test option" where
  "test_of (NumericScale _ s) = Some (NotRounded s)"
| "test_of (NumericIntegerDigits _ n) = Some (AtLeastPower (min n 38))"
| "test_of (IntegerSize _ target) = Some (Outside (fst (integer_bounds target)) (snd (integer_bounds target)))"
| "test_of (FloatSize _ _) = None"
| "test_of TimestamptzToTimestamp = None"
| "test_of kind = map_option LongerThan (narrowed_length kind)"

lemma violation_predicate_text:
  "test_of kind = Some t \<Longrightarrow> violation_predicate b column kind = Inr (test_text b column t)"
  by (cases kind) (auto simp: too_long_def ten_pow_string_def split_def Let_def)

lemma violation_predicate_none: "test_of kind = None \<longleftrightarrow> (\<exists>e. violation_predicate b column kind = Inl e)"
  by (cases kind) (auto simp: split_def Let_def)

definition rounded :: "nat \<Rightarrow> rat \<Rightarrow> rat" where
  "rounded s q = of_int (round (q * 10 ^ s)) / 10 ^ s"

text \<open>Whether the value answers true; a value of another kind does not occur in such a column.\<close>

fun answers :: "value_test \<Rightarrow> stored_value \<Rightarrow> bool" where
  "answers (LongerThan n) (StoredText s) = (n < length s)"
| "answers (NotRounded n) (StoredDecimal q) = (q \<noteq> rounded n q)"
| "answers (AtLeastPower n) (StoredDecimal q) = (10 ^ n \<le> \<bar>q\<bar>)"
| "answers (Outside lo hi) (StoredInt i) = (hi < i \<or> i < lo)"
| "answers _ _ = False"

section \<open>The values that are found\<close>

text \<open>The kinds whose condition is exact: every kind with a condition but the loss of decimal places.\<close>

definition exact_kind :: "narrowing_kind \<Rightarrow> bool" where
  "exact_kind kind \<longleftrightarrow> test_of kind \<noteq> None \<and> (\<forall>a b. kind \<noteq> NumericScale a b) \<and>
     (\<forall>a n. kind = NumericIntegerDigits a n \<longrightarrow> n \<le> 38)"

lemma text_answers:
  assumes "is_narrowing a b = Some kind" and "text_type a" and "text_type b" and "holds_value v a"
  shows "\<exists>n. test_of kind = Some (LongerThan n) \<and> (answers (LongerThan n) v \<longleftrightarrow> \<not> holds_value v b)"
  using assms
  by (cases v)
    (auto simp: is_narrowing_def simple_narrowing_def text_type_def text_limit_def int_bits_of_def
      split: column_type.splits complex_column_type.splits simple_column_type.splits if_splits)

lemma int_answers:
  assumes "is_narrowing a b = Some kind" and "int_type a" and "int_type b" and "holds_value v a"
  shows "\<exists>lo hi. test_of kind = Some (Outside lo hi) \<and> (answers (Outside lo hi) v \<longleftrightarrow> \<not> holds_value v b)"
  using assms
  by (cases v)
    (auto simp: is_narrowing_def simple_narrowing_def int_type_def text_limit_def int_bits_of_def integer_bounds_def
      split: column_type.splits if_splits)

lemma decimal_answers:
  assumes "is_narrowing a b = Some (NumericIntegerDigits m n)" and "decimal_type a" and "decimal_type b"
    and "holds_value v a" and "n \<le> 38"
  shows "answers (AtLeastPower (min n 38)) v \<longleftrightarrow> \<not> holds_value v b"
proof -
  obtain p1 s1 p2 s2 where ab: "a = Complex (Numeric p1 s1)" "b = Complex (Numeric p2 s2)" "s2 \<le> p2"
    using assms(2,3) by (auto simp: decimal_type_def)
  then have s: "s1 \<le> s2" "n = p2 - s2" using assms(1) by (auto simp: is_narrowing_def split: if_splits)
  obtain q k where v: "v = StoredDecimal q" "q = of_int k / 10 ^ s1"
    using assms(4) ab(1) by (cases v) (auto simp: text_limit_def int_bits_of_def)
  let ?j = "k * 10 ^ (s2 - s1)"
  have pow: "(10 :: rat) ^ s2 = 10 ^ s1 * 10 ^ (s2 - s1)" using s(1) by (simp add: power_add [symmetric])
  have q: "q = of_int ?j / 10 ^ s2" using v(2) by (simp add: pow field_simps)
  have p: "(10 :: rat) ^ p2 = 10 ^ n * 10 ^ s2" using ab(3) s(2) by (simp add: power_add [symmetric])
  have bound: "\<bar>q\<bar> < 10 ^ n \<longleftrightarrow> \<bar>?j\<bar> < 10 ^ p2"
  proof -
    have "\<bar>q\<bar> < 10 ^ n \<longleftrightarrow> \<bar>of_int ?j :: rat\<bar> < 10 ^ p2" unfolding q p by (simp add: abs_div field_simps)
    also have "\<dots> \<longleftrightarrow> of_int \<bar>?j\<bar> < (of_int (10 ^ p2) :: rat)" by simp
    finally show ?thesis by (simp only: of_int_less_iff)
  qed
  have "holds_value v b \<longleftrightarrow> \<bar>?j\<bar> < 10 ^ p2"
  proof
    assume "holds_value v b"
    then obtain i where "q = of_int i / 10 ^ s2" "\<bar>i\<bar> < 10 ^ p2" using v(1) ab(2) by auto
    then have "of_int ?j = (of_int i :: rat)" using q by (simp only:) (simp add: field_simps)
    then have "?j = i" by (simp only: of_int_eq_iff)
    with \<open>\<bar>i\<bar> < 10 ^ p2\<close> show "\<bar>?j\<bar> < 10 ^ p2" by simp
  next
    assume "\<bar>?j\<bar> < 10 ^ p2"
    then have "\<exists>i :: int. q = of_int i / 10 ^ s2 \<and> \<bar>i\<bar> < 10 ^ p2" using q by blast
    then show "holds_value v b" using v(1) ab(2) by simp
  qed
  then show ?thesis using v(1) bound assms(5) by (auto simp: min_def not_less)
qed

lemma narrowing_condition_exact:
  assumes "is_narrowing a b = Some kind" and "comparable_types a b" and "exact_kind kind" and "holds_value v a"
  shows "\<exists>t. violation_predicate backend column kind = Inr (test_text backend column t) \<and>
    (answers t v \<longleftrightarrow> \<not> holds_value v b)"
  using assms(2) unfolding comparable_types_def
proof (elim disjE conjE)
  assume "text_type a" "text_type b"
  from text_answers [OF assms(1) this assms(4)] show ?thesis using violation_predicate_text by blast
next
  assume "int_type a" "int_type b"
  from int_answers [OF assms(1) this assms(4)] show ?thesis using violation_predicate_text by blast
next
  assume d: "decimal_type a" "decimal_type b"
  then obtain m n where kind: "kind = NumericIntegerDigits m n" "n \<le> 38"
    using assms(1,3) by (auto simp: decimal_type_def is_narrowing_def exact_kind_def split: if_splits)
  then have "test_of kind = Some (AtLeastPower (min n 38))" by simp
  from violation_predicate_text [OF this] decimal_answers [OF assms(1) [unfolded kind(1)] d assms(4) kind(2)]
  show ?thesis by blast
qed

text \<open>
  When decimal places and integer digits are lost together the kind is the loss of places, and its
  condition passes over values that have too many integer digits.
\<close>

definition missed_from :: column_type where "missed_from = Complex (Numeric 10 4)"
definition missed_to :: column_type where "missed_to = Complex (Numeric 5 2)"
definition missed_value :: stored_value where "missed_value = StoredDecimal 99999"

lemma scale_condition_misses:
  "is_narrowing missed_from missed_to = Some (NumericScale 4 2) \<and> holds_value missed_value missed_from \<and>
   test_of (NumericScale 4 2) = Some (NotRounded 2) \<and> \<not> answers (NotRounded 2) missed_value \<and>
   \<not> holds_value missed_value missed_to"
proof -
  have "(99999 :: rat) = of_int 999990000 / 10 ^ 4" by simp
  then have h: "holds_value missed_value missed_from"
    by (auto simp: missed_value_def missed_from_def intro!: exI [of _ "999990000 :: int"])
  have "k = 9999900" if "(99999 :: rat) = of_int k / 10 ^ 2" for k :: int
  proof -
    have "of_int k = (of_int 9999900 :: rat)" using that by simp
    then show ?thesis by (simp only: of_int_eq_iff)
  qed
  then have n: "\<not> holds_value missed_value missed_to" by (auto simp: missed_value_def missed_to_def)
  have "round ((99999 :: rat) * 10 ^ 2) = 9999900"
    using round_of_int [of "9999900", where 'a = rat] by simp
  then have "rounded 2 99999 = 99999" by (simp add: rounded_def)
  with h n show ?thesis by (simp add: missed_value_def missed_from_def missed_to_def is_narrowing_def)
qed

end
