(* ===== verification/Migration_Runtime.thy ===== *)
theory Migration_Runtime
  imports Sql_Statement
begin

text \<open>
  The migration runner: \<open>crates/vespertide/src/runtime.rs\<close>, with the options and errors of
  \<open>crates/vespertide-core/src/migration.rs\<close>.

  The database is reached through the external crate sea-orm.  A \<open>connection\<close> is a parameter: what each
  call answers and what it does to the state \<open>'d\<close> behind it.  An error of the database is its displayed
  text.  The progress lines on stderr are left out.
\<close>

section \<open>Options and errors\<close>

record migration_options =
  version_table :: string

definition migration_options_new :: "string \<Rightarrow> migration_options" where
  "migration_options_new table = \<lparr>version_table = table\<rparr>"

definition default_migration_options :: migration_options where
  "default_migration_options = \<lparr>version_table = ''vespertide_migrations''\<rparr>"

datatype migration_error =
    NotImplemented
  | DatabaseError string
  | Database string "string option"
  | IdMismatch "32 word" string string

fun display_migration_error :: "migration_error \<Rightarrow> string" where
  "display_migration_error NotImplemented = ''migration execution is not yet implemented''"
| "display_migration_error (DatabaseError m) = ''database error: '' @ m"
| "display_migration_error (Database m _) = ''database error: '' @ m"
| "display_migration_error (IdMismatch v expected found) =
     ''migration id mismatch for version '' @ nat_to_string (unat v) @ '': expected '' @ quoted expected @
     '', found '' @ quoted found @ '' in database''"

definition database_error :: "string \<Rightarrow> string \<Rightarrow> migration_error" where
  "database_error message e = Database message (Some e)"

definition migration_error_from :: "string \<Rightarrow> migration_error" where
  "migration_error_from e = Database e (Some e)"

section \<open>Embedded migrations\<close>

record embedded_migration =
  em_version :: "32 word"
  em_migration_id :: string
  em_comment :: string
  em_postgres_sql_blob :: string
  em_mysql_sql_blob :: string
  em_sqlite_sql_blob :: string

definition embedded_migration_new ::
  "32 word \<Rightarrow> string \<Rightarrow> string \<Rightarrow> string \<Rightarrow> string \<Rightarrow> string \<Rightarrow> embedded_migration" where
  "embedded_migration_new version migration_id comment postgres mysql sqlite =
     \<lparr>em_version = version, em_migration_id = migration_id, em_comment = comment,
      em_postgres_sql_blob = postgres, em_mysql_sql_blob = mysql, em_sqlite_sql_blob = sqlite\<rparr>"

fun sql_blob :: "embedded_migration \<Rightarrow> database_backend \<Rightarrow> string" where
  "sql_blob m MySql = em_mysql_sql_blob m"
| "sql_blob m Sqlite = em_sqlite_sql_blob m"
| "sql_blob m _ = em_postgres_sql_blob m"

text \<open>\<open>split\<close> on a character, and \<open>split_terminator\<close>, which leaves out an empty last part.\<close>

fun split_char :: "char \<Rightarrow> string \<Rightarrow> string list" where
  "split_char sep [] = [[]]"
| "split_char sep (c # s) =
     (if c = sep then [] # split_char sep s
      else case split_char sep s of p # ps \<Rightarrow> (c # p) # ps | [] \<Rightarrow> [[c]])"

definition split_terminator :: "char \<Rightarrow> string \<Rightarrow> string list" where
  "split_terminator sep s =
     (let parts = split_char sep s in if last parts = [] then butlast parts else parts)"

definition split_sql_blob :: "string \<Rightarrow> string list" where
  "split_sql_blob blob = filter (\<lambda>sql. sql \<noteq> []) (split_terminator (CHR 0x00) blob)"

section \<open>Timeouts\<close>

record runtime_options =
  opt_lock_timeout_ms :: "64 word option"
  opt_statement_timeout_ms :: "64 word option"

definition from_millis :: "64 word option \<Rightarrow> 64 word option \<Rightarrow> runtime_options" where
  "from_millis lock statement = \<lparr>opt_lock_timeout_ms = lock, opt_statement_timeout_ms = statement\<rparr>"

definition default_runtime_options :: runtime_options where
  "default_runtime_options = \<lparr>opt_lock_timeout_ms = None, opt_statement_timeout_ms = None\<rparr>"

definition is_noop :: "runtime_options \<Rightarrow> bool" where
  "is_noop options \<longleftrightarrow> opt_lock_timeout_ms options = None \<and> opt_statement_timeout_ms options = None"

definition u64_to_string :: "64 word \<Rightarrow> string" where
  "u64_to_string w = nat_to_string (unat w)"

text \<open>\<open>u64::div_ceil\<close>.\<close>

definition div_ceil :: "64 word \<Rightarrow> 64 word \<Rightarrow> 64 word" where
  "div_ceil a b = (if a mod b > 0 then a div b + 1 else a div b)"

definition pre_txn_timeout_sql :: "database_backend \<Rightarrow> runtime_options \<Rightarrow> string list" where
  "pre_txn_timeout_sql backend options =
     (case (backend, opt_lock_timeout_ms options) of
        (Sqlite, Some ms) \<Rightarrow> [''PRAGMA busy_timeout = '' @ u64_to_string ms]
      | _ \<Rightarrow> [])"

definition lock_wait_seconds :: "64 word \<Rightarrow> 64 word" where
  "lock_wait_seconds ms = max (div_ceil ms 1000) 1"

definition optional_statement :: "('a \<Rightarrow> string) \<Rightarrow> 'a option \<Rightarrow> string list" where
  "optional_statement f x = (case x of None \<Rightarrow> [] | Some v \<Rightarrow> [f v])"

fun in_txn_timeout_sql :: "database_backend \<Rightarrow> runtime_options \<Rightarrow> string list" where
  "in_txn_timeout_sql Postgres options =
     optional_statement (\<lambda>ms. ''SET LOCAL lock_timeout = '' @ u64_to_string ms) (opt_lock_timeout_ms options) @
     optional_statement (\<lambda>ms. ''SET LOCAL statement_timeout = '' @ u64_to_string ms) (opt_statement_timeout_ms options)"
| "in_txn_timeout_sql MySql options =
     optional_statement (\<lambda>ms. ''SET SESSION innodb_lock_wait_timeout = '' @ u64_to_string (lock_wait_seconds ms))
       (opt_lock_timeout_ms options) @
     optional_statement (\<lambda>ms. ''SET SESSION max_execution_time = '' @ u64_to_string ms) (opt_statement_timeout_ms options)"
| "in_txn_timeout_sql Sqlite options = []"

section \<open>The connection\<close>

text \<open>
  A row of the version table as \<open>try_get\<close> reads it: the version as an \<open>i32\<close> and the id as a \<open>String\<close>,
  each \<open>None\<close> when the value does not convert.
\<close>

record version_row =
  vr_version :: "32 word option"
  vr_id :: "string option"

text \<open>
  \<open>con_rollback\<close> is what dropping an open transaction does.
\<close>

record 'd connection =
  con_backend :: database_backend
  con_execute :: "string \<Rightarrow> 'd \<Rightarrow> (string + unit) \<times> 'd"
  con_query_one :: "string \<Rightarrow> 'd \<Rightarrow> (string + version_row option) \<times> 'd"
  con_query_all :: "string \<Rightarrow> 'd \<Rightarrow> (string + version_row list) \<times> 'd"
  con_begin :: "'d \<Rightarrow> (string + unit) \<times> 'd"
  con_commit :: "'d \<Rightarrow> (string + unit) \<times> 'd"
  con_rollback :: "'d \<Rightarrow> 'd"

text \<open>A fallible computation on the database, and \<open>?\<close> as its sequencing.\<close>

type_synonym ('d, 'a) db_io = "'d \<Rightarrow> (migration_error + 'a) \<times> 'd"

definition and_then :: "('d, 'a) db_io \<Rightarrow> ('a \<Rightarrow> ('d, 'b) db_io) \<Rightarrow> ('d, 'b) db_io" where
  "and_then m f d = (case m d of (Inl e, d') \<Rightarrow> (Inl e, d') | (Inr x, d') \<Rightarrow> f x d')"

definition done_io :: "'a \<Rightarrow> ('d, 'a) db_io" where
  "done_io x d = (Inr x, d)"

text \<open>\<open>.map_err(|e| database_error(format!("{what}: {e}"), e))\<close>.\<close>

definition in_context :: "string \<Rightarrow> ('d \<Rightarrow> (string + 'a) \<times> 'd) \<Rightarrow> ('d, 'a) db_io" where
  "in_context what m d =
     (case m d of (Inl e, d') \<Rightarrow> (Inl (database_error (what @ '': '' @ e) e), d') | (Inr x, d') \<Rightarrow> (Inr x, d'))"

fun execute_each :: "'d connection \<Rightarrow> (string \<Rightarrow> string) \<Rightarrow> string list \<Rightarrow> ('d, unit) db_io" where
  "execute_each con what [] = done_io ()"
| "execute_each con what (sql # sqls) =
     and_then (in_context (what sql) (con_execute con sql)) (\<lambda>_. execute_each con what sqls)"

section \<open>The runner\<close>

fun quote_char :: "database_backend \<Rightarrow> string" where
  "quote_char MySql = [CHR 0x60]"
| "quote_char _ = [CHR 0x22]"

definition quoted_table :: "database_backend \<Rightarrow> string \<Rightarrow> string" where
  "quoted_table backend table = quote_char backend @ table @ quote_char backend"

definition create_version_table_sql :: "database_backend \<Rightarrow> string \<Rightarrow> string" where
  "create_version_table_sql backend table =
     ''CREATE TABLE IF NOT EXISTS '' @ quoted_table backend table @
     '' (version INTEGER PRIMARY KEY, id TEXT DEFAULT '' @ [CHR 0x27, CHR 0x27] @
     '', created_at TIMESTAMP DEFAULT CURRENT_TIMESTAMP)''"

definition alter_version_table_sql :: "database_backend \<Rightarrow> string \<Rightarrow> string" where
  "alter_version_table_sql backend table =
     ''ALTER TABLE '' @ quoted_table backend table @ '' ADD COLUMN id TEXT DEFAULT '' @ [CHR 0x27, CHR 0x27]"

definition select_version_sql :: "database_backend \<Rightarrow> string \<Rightarrow> string" where
  "select_version_sql backend table = ''SELECT MAX(version) as version FROM '' @ quoted_table backend table"

definition select_ids_sql :: "database_backend \<Rightarrow> string \<Rightarrow> string" where
  "select_ids_sql backend table = ''SELECT version, id FROM '' @ quoted_table backend table"

definition insert_version_sql :: "database_backend \<Rightarrow> string \<Rightarrow> embedded_migration \<Rightarrow> string" where
  "insert_version_sql backend table m =
     ''INSERT INTO '' @ quoted_table backend table @ '' (version, id) VALUES ('' @ nat_to_string (unat (em_version m)) @
     '', '' @ quoted (em_migration_id m) @ '')''"

text \<open>\<open>u32::try_from(i32)\<close>: the same bits when the sign bit is clear.\<close>

definition u32_from_i32 :: "32 word \<Rightarrow> 32 word option" where
  "u32_from_i32 i = (if sint i < 0 then None else Some i)"

definition version_of_row :: "version_row option \<Rightarrow> 32 word" where
  "version_of_row row =
     (let version_i32 = (case row of None \<Rightarrow> 0 | Some r \<Rightarrow> (case vr_version r of None \<Rightarrow> 0 | Some i \<Rightarrow> i))
      in case u32_from_i32 version_i32 of None \<Rightarrow> 0 | Some v \<Rightarrow> v)"

definition collect_step :: "(32 word \<rightharpoonup> string) \<Rightarrow> version_row \<Rightarrow> (32 word \<rightharpoonup> string)" where
  "collect_step version_ids row =
     (case vr_version row of
        None \<Rightarrow> version_ids
      | Some i \<Rightarrow>
          let id = (case vr_id row of None \<Rightarrow> [] | Some s \<Rightarrow> s)
          in case u32_from_i32 i of None \<Rightarrow> version_ids | Some v \<Rightarrow> version_ids(v \<mapsto> id))"

definition collect_version_ids :: "version_row list \<Rightarrow> (32 word \<rightharpoonup> string)" where
  "collect_version_ids rows = foldl collect_step Map.empty rows"

definition id_mismatch :: "(32 word \<rightharpoonup> string) \<Rightarrow> embedded_migration \<Rightarrow> migration_error option" where
  "id_mismatch version_ids m =
     (case version_ids (em_version m) of
        None \<Rightarrow> None
      | Some db_id \<Rightarrow>
          if em_migration_id m \<noteq> [] \<and> db_id \<noteq> [] \<and> db_id \<noteq> em_migration_id m
          then Some (IdMismatch (em_version m) (em_migration_id m) db_id) else None)"

definition apply_migration :: "'d connection \<Rightarrow> string \<Rightarrow> embedded_migration \<Rightarrow> ('d, unit) db_io" where
  "apply_migration con table m =
     and_then
       (execute_each con (\<lambda>sql. ''Failed to execute SQL '' @ quoted sql) (split_sql_blob (sql_blob m (con_backend con))))
       (\<lambda>_. in_context ''Failed to insert version''
          (con_execute con (insert_version_sql (con_backend con) table m)))"

fun apply_pending ::
  "'d connection \<Rightarrow> string \<Rightarrow> 32 word \<Rightarrow> (32 word \<rightharpoonup> string) \<Rightarrow> embedded_migration list \<Rightarrow> ('d, unit) db_io" where
  "apply_pending con table version version_ids [] = done_io ()"
| "apply_pending con table version version_ids (m # ms) =
     (if version \<ge> em_version m then apply_pending con table version version_ids ms
      else case id_mismatch version_ids m of
        Some e \<Rightarrow> (\<lambda>d. (Inl e, d))
      | None \<Rightarrow> and_then (apply_migration con table m) (\<lambda>_. apply_pending con table version version_ids ms))"

definition apply_timeouts :: "'d connection \<Rightarrow> runtime_options \<Rightarrow> string list \<Rightarrow> ('d, unit) db_io" where
  "apply_timeouts con options sqls =
     (if is_noop options then done_io ()
      else execute_each con (\<lambda>sql. ''Failed to apply timeout '' @ quoted sql) sqls)"

text \<open>Everything between \<open>begin\<close> and \<open>commit\<close>.\<close>

definition transaction_body ::
  "'d connection \<Rightarrow> string \<Rightarrow> embedded_migration list \<Rightarrow> runtime_options \<Rightarrow> ('d, unit) db_io" where
  "transaction_body con table ms options =
     and_then (apply_timeouts con options (in_txn_timeout_sql (con_backend con) options)) (\<lambda>_.
     and_then (in_context ''Failed to read version'' (con_query_one con (select_version_sql (con_backend con) table))) (\<lambda>row.
     and_then (in_context ''Failed to read version ids'' (con_query_all con (select_ids_sql (con_backend con) table))) (\<lambda>rows.
     apply_pending con table (version_of_row row) (collect_version_ids rows) ms)))"

text \<open>On an error inside the transaction its value is dropped.\<close>

definition run_transaction ::
  "'d connection \<Rightarrow> string \<Rightarrow> embedded_migration list \<Rightarrow> runtime_options \<Rightarrow> ('d, unit) db_io" where
  "run_transaction con table ms options =
     and_then (in_context ''Failed to begin transaction'' (con_begin con)) (\<lambda>_ d.
       case transaction_body con table ms options d of
         (Inl e, d') \<Rightarrow> (Inl e, con_rollback con d')
       | (Inr _, d') \<Rightarrow> in_context ''Failed to commit transaction'' (con_commit con) d')"

definition run_embedded_migrations_with_options ::
  "'d connection \<Rightarrow> string \<Rightarrow> embedded_migration list \<Rightarrow> runtime_options \<Rightarrow> ('d, unit) db_io" where
  "run_embedded_migrations_with_options con table ms options =
     and_then (in_context ''Failed to create version table''
       (con_execute con (create_version_table_sql (con_backend con) table))) (\<lambda>_ d.
     let (_, d') = con_execute con (alter_version_table_sql (con_backend con) table) d
     in and_then (apply_timeouts con options (pre_txn_timeout_sql (con_backend con) options))
          (\<lambda>_. run_transaction con table ms options) d')"

definition run_embedded_migrations ::
  "'d connection \<Rightarrow> string \<Rightarrow> embedded_migration list \<Rightarrow> ('d, unit) db_io" where
  "run_embedded_migrations con table ms =
     run_embedded_migrations_with_options con table ms default_runtime_options"

end
