(* ===== verification/Project_Files.thy ===== *)
theory Project_Files
  imports Validate_Schema Validate_Plan
begin

text \<open>
  A project on disk: its configuration (\<open>crates/vespertide-config/src\<close>), the names of migration files
  (\<open>crates/vespertide-cli/src/utils.rs\<close>) and the loading of migrations and models
  (\<open>crates/vespertide-loader/src\<close>).  The file system and the parsers of serde are parameters.
\<close>

section \<open>Configuration\<close>

datatype file_format = FormatJson | FormatYaml | FormatYml

fun format_extension :: "file_format \<Rightarrow> string" where
  "format_extension FormatJson = ''json''"
| "format_extension FormatYaml = ''yaml''"
| "format_extension FormatYml = ''yml''"

definition default_file_format :: file_format where
  "default_file_format = FormatJson"

datatype name_case = SnakeCase | CamelCase | PascalCase

fun serde_rename_all :: "name_case \<Rightarrow> string" where
  "serde_rename_all SnakeCase = ''snake_case''"
| "serde_rename_all CamelCase = ''camelCase''"
| "serde_rename_all PascalCase = ''PascalCase''"

record seaorm_config =
  so_extra_enum_derives :: "string list"
  so_extra_model_derives :: "string list"
  so_enum_naming_case :: name_case
  so_vespera_schema_type :: bool

definition default_extra_enum_derives :: "string list" where
  "default_extra_enum_derives = [''vespera::Schema'']"

definition default_enum_naming_case :: name_case where
  "default_enum_naming_case = CamelCase"

definition default_vespera_schema_type :: bool where
  "default_vespera_schema_type = True"

definition default_seaorm_config :: seaorm_config where
  "default_seaorm_config =
     \<lparr>so_extra_enum_derives = default_extra_enum_derives, so_extra_model_derives = [],
      so_enum_naming_case = default_enum_naming_case, so_vespera_schema_type = default_vespera_schema_type\<rparr>"

record django_config =
  dj_app_label :: "string option"

record vespertide_config =
  cfg_models_dir :: string
  cfg_migrations_dir :: string
  cfg_table_naming_case :: name_case
  cfg_column_naming_case :: name_case
  cfg_model_format :: file_format
  cfg_migration_format :: file_format
  cfg_migration_filename_pattern :: string
  cfg_model_export_dir :: string
  cfg_seaorm :: seaorm_config
  cfg_django :: django_config
  cfg_prefix :: string
  cfg_lock_timeout_ms :: "64 word option"
  cfg_statement_timeout_ms :: "64 word option"

definition default_migration_filename_pattern :: string where
  "default_migration_filename_pattern = ''%04v_%m''"

definition default_model_export_dir :: string where
  "default_model_export_dir = ''src/models''"

definition default_config :: vespertide_config where
  "default_config =
     \<lparr>cfg_models_dir = ''models'', cfg_migrations_dir = ''migrations'', cfg_table_naming_case = SnakeCase,
      cfg_column_naming_case = SnakeCase, cfg_model_format = FormatJson, cfg_migration_format = FormatJson,
      cfg_migration_filename_pattern = default_migration_filename_pattern,
      cfg_model_export_dir = default_model_export_dir, cfg_seaorm = default_seaorm_config,
      cfg_django = \<lparr>dj_app_label = None\<rparr>, cfg_prefix = [], cfg_lock_timeout_ms = None,
      cfg_statement_timeout_ms = None\<rparr>"

definition apply_prefix :: "vespertide_config \<Rightarrow> string \<Rightarrow> string" where
  "apply_prefix config table_name =
     (if cfg_prefix config = [] then table_name else cfg_prefix config @ table_name)"

section \<open>Names of migration files\<close>

text \<open>
  The loop over the comment: what is written so far and whether a separator is due.
\<close>

fun sanitize_loop :: "string \<Rightarrow> bool \<Rightarrow> string \<Rightarrow> string" where
  "sanitize_loop out pending_separator [] = out"
| "sanitize_loop out pending_separator (ch # chs) =
     (if is_whitespace ch then sanitize_loop out (out \<noteq> []) chs
      else
        let out' = (if pending_separator then out @ ''_'' else out)
        in if is_ascii_alphanumeric ch then sanitize_loop (out' @ [to_ascii_lowercase ch]) False chs
           else sanitize_loop (out' @ ''_'') False chs)"

definition sanitize_comment :: "string option \<Rightarrow> string" where
  "sanitize_comment comment = (case comment of None \<Rightarrow> [] | Some c \<Rightarrow> sanitize_loop [] False c)"

definition zero_padded :: "nat \<Rightarrow> 32 word \<Rightarrow> string" where
  "zero_padded width version =
     (let digits = nat_to_string (unat version) in replicate (width - length digits) (CHR ''0'') @ digits)"

definition parse_usize :: "string \<Rightarrow> nat option" where
  "parse_usize s =
     (if s \<noteq> [] \<and> list_all is_ascii_digit s \<and> digits_to_nat s < 2 ^ 64 then Some (digits_to_nat s) else None)"

definition padded_version :: "string \<Rightarrow> 32 word \<Rightarrow> string" where
  "padded_version digits version =
     (let width = (case parse_usize digits of None \<Rightarrow> 0 | Some w \<Rightarrow> w)
      in if width = 0 then zero_padded 4 version else zero_padded width version)"

lemma length_after_digits: "length (tl (dropWhile P (tl s))) \<le> length s"
  by (metis diff_le_self le_trans length_dropWhile_le length_tl)

text \<open>The scan copies what is not a placeholder character by character.\<close>

function render_name_loop :: "32 word \<Rightarrow> string \<Rightarrow> string \<Rightarrow> string" where
  "render_name_loop version comment [] = []"
| "render_name_loop version comment (c # rest) =
     (if c \<noteq> CHR ''%'' \<or> rest = [] then c # render_name_loop version comment rest
      else if hd rest = CHR ''v'' then zero_padded 4 version @ render_name_loop version comment (tl rest)
      else if hd rest = CHR ''m'' then comment @ render_name_loop version comment (tl rest)
      else if hd rest = CHR ''0'' then
        (let digits = takeWhile is_ascii_digit (tl rest); after = dropWhile is_ascii_digit (tl rest)
         in if after \<noteq> [] \<and> hd after = CHR ''v''
            then padded_version digits version @ render_name_loop version comment (tl after)
            else c # render_name_loop version comment rest)
      else c # render_name_loop version comment rest)"
  by pat_completeness auto
termination
  by (relation "measure (\<lambda>(_, _, s). length s)")
     (auto simp del: length_tl simp: less_Suc_eq_le length_after_digits intro: length_tl [THEN eq_refl, THEN le_trans])

definition trim_separators :: "string \<Rightarrow> string" where
  "trim_separators name = rev (dropWhile (\<lambda>c. c = CHR ''_'' \<or> c = CHR ''-'' \<or> c = CHR ''.'') (rev name))"

definition render_migration_name :: "string \<Rightarrow> 32 word \<Rightarrow> string \<Rightarrow> string" where
  "render_migration_name pattern version sanitized_comment =
     (let name = trim_separators (render_name_loop version sanitized_comment pattern)
      in if name = [] then zero_padded 4 version else name)"

definition migration_filename_with_format_and_pattern ::
  "32 word \<Rightarrow> string option \<Rightarrow> file_format \<Rightarrow> string \<Rightarrow> string" where
  "migration_filename_with_format_and_pattern version comment format pattern =
     render_migration_name pattern version (sanitize_comment comment) @ ''.vespertide.'' @ format_extension format"

section \<open>Files\<close>

text \<open>\<open>Path::extension\<close>: what follows the last dot of the file name, unless the dot comes first.\<close>

definition file_name :: "string \<Rightarrow> string" where
  "file_name path = rev (takeWhile (\<lambda>c. c \<noteq> CHR ''/'') (rev path))"

definition path_extension :: "string \<Rightarrow> string option" where
  "path_extension path =
     (let r = rev (file_name path); ext = takeWhile (\<lambda>c. c \<noteq> CHR ''.'') r; stem = drop (length ext + 1) r
      in if file_name path = ''..'' \<or> CHR ''.'' \<notin> set r \<or> stem = [] then None else Some (rev ext))"

definition has_supported_extension :: "string \<Rightarrow> bool" where
  "has_supported_extension path \<longleftrightarrow> path_extension path \<in> {Some ''json'', Some ''yaml'', Some ''yml''}"

text \<open>
  The file system and serde.  \<open>fs_read_dir\<close> gives the entries of a directory, each of which may fail;
  an error is its text.
\<close>

record file_system =
  fs_exists :: "string \<Rightarrow> bool"
  fs_is_file :: "string \<Rightarrow> bool"
  fs_read_dir :: "string \<Rightarrow> string + (string + string) list"
  fs_read_to_string :: "string \<Rightarrow> string + string"
  fs_plan_from_json :: "string \<Rightarrow> string + migration_plan"
  fs_plan_from_yaml :: "string \<Rightarrow> string + migration_plan"
  fs_table_from_json :: "string \<Rightarrow> string + table_def"
  fs_table_from_yaml :: "string \<Rightarrow> string + table_def"

text \<open>An error of anyhow: its contexts, the outermost first.\<close>

type_synonym error_chain = "string list"

definition with_context :: "string \<Rightarrow> string + 'a \<Rightarrow> error_chain + 'a" where
  "with_context what r = map_sum (\<lambda>e. [what, e]) id r"

fun collect_entries :: "file_system \<Rightarrow> (string + string) list \<Rightarrow> error_chain + string list" where
  "collect_entries fs [] = Inr []"
| "collect_entries fs (entry # entries) =
     (case entry of
        Inl e \<Rightarrow> Inl [''read directory entry'', e]
      | Inr path \<Rightarrow>
          map_sum id (\<lambda>paths. if fs_is_file fs path \<and> has_supported_extension path then path # paths else paths)
            (collect_entries fs entries))"

definition collect_migration_paths :: "file_system \<Rightarrow> string \<Rightarrow> error_chain + string list" where
  "collect_migration_paths fs dir =
     (case with_context ''read migrations directory'' (fs_read_dir fs dir) of
        Inl e \<Rightarrow> Inl e
      | Inr entries \<Rightarrow> collect_entries fs entries)"

definition load_migration_file :: "file_system \<Rightarrow> string \<Rightarrow> error_chain + migration_plan" where
  "load_migration_file fs path =
     (case with_context (''read migration file: '' @ path) (fs_read_to_string fs path) of
        Inl e \<Rightarrow> Inl e
      | Inr content \<Rightarrow>
          (case with_context (''parse migration: '' @ path)
                  (if path_extension path = Some ''json'' then fs_plan_from_json fs content
                   else fs_plan_from_yaml fs content) of
             Inl e \<Rightarrow> Inl e
           | Inr plan \<Rightarrow>
               (case validate_migration_plan plan of
                  Inl e \<Rightarrow> Inl [''validate migration: '' @ path, display_planner_error e]
                | Inr _ \<Rightarrow> Inr plan)))"

definition load_migration_file_internal :: "file_system \<Rightarrow> string \<Rightarrow> string + migration_plan" where
  "load_migration_file_internal fs path =
     (case fs_read_to_string fs path of
        Inl e \<Rightarrow> Inl (''Failed to read migration file '' @ path @ '': '' @ e)
      | Inr content \<Rightarrow>
          (case (if path_extension path = Some ''json''
                 then map_sum (\<lambda>e. ''Failed to parse JSON migration '' @ path @ '': '' @ e) id (fs_plan_from_json fs content)
                 else map_sum (\<lambda>e. ''Failed to parse YAML migration '' @ path @ '': '' @ e) id (fs_plan_from_yaml fs content)) of
             Inl e \<Rightarrow> Inl e
           | Inr plan \<Rightarrow>
               (case validate_migration_plan plan of
                  Inl e \<Rightarrow> Inl (''Failed to validate migration '' @ path @ '': '' @ display_planner_error e)
                | Inr _ \<Rightarrow> Inr plan)))"

text \<open>
  Both branches of \<open>map_paths_with_threshold\<close> give the results in the order of the paths, so that the
  first error in that order is the one returned.
\<close>

definition map_paths_with_threshold :: "(string \<Rightarrow> 'e + 'a) \<Rightarrow> string list \<Rightarrow> ('e + 'a) list" where
  "map_paths_with_threshold f paths = map f paths"

definition sort_plans :: "migration_plan list \<Rightarrow> migration_plan list" where
  "sort_plans plans = sort_key plan_version plans"

definition load_migrations :: "file_system \<Rightarrow> vespertide_config \<Rightarrow> error_chain + migration_plan list" where
  "load_migrations fs config =
     (let dir = cfg_migrations_dir config in
      if \<not> fs_exists fs dir then Inr []
      else case collect_migration_paths fs dir of
        Inl e \<Rightarrow> Inl e
      | Inr paths \<Rightarrow>
          map_sum id sort_plans (collect_results (map_paths_with_threshold (load_migration_file fs) paths)))"

definition path_join :: "string \<Rightarrow> string \<Rightarrow> string" where
  "path_join root rel = (if starts_with rel ''/'' then rel else if ends_with root ''/'' \<or> root = [] then root @ rel else root @ ''/'' @ rel)"

text \<open>With the configuration that was read from the project root.\<close>

definition load_migrations_from_dir ::
  "file_system \<Rightarrow> string \<Rightarrow> string + vespertide_config \<Rightarrow> string + migration_plan list" where
  "load_migrations_from_dir fs project_root loaded_config =
     (case loaded_config of
        Inl e \<Rightarrow> Inl (''Failed to load config: '' @ e)
      | Inr config \<Rightarrow>
          (let dir = path_join project_root (cfg_migrations_dir config) in
           if \<not> fs_exists fs dir then Inr []
           else case collect_migration_paths fs dir of
             Inl e \<Rightarrow> Inl (hd e)
           | Inr paths \<Rightarrow>
               map_sum id sort_plans (collect_results (map_paths_with_threshold (load_migration_file_internal fs) paths))))"

definition load_model_file :: "file_system \<Rightarrow> string \<Rightarrow> error_chain + table_def" where
  "load_model_file fs path =
     (case with_context (''read model file: '' @ path) (fs_read_to_string fs path) of
        Inl e \<Rightarrow> Inl e
      | Inr content \<Rightarrow>
          (case (if path_extension path = Some ''json''
                 then with_context (''parse JSON model: '' @ path) (fs_table_from_json fs content)
                 else with_context (''parse YAML model: '' @ path) (fs_table_from_yaml fs content)) of
             Inl e \<Rightarrow> Inl e
           | Inr table \<Rightarrow>
               (case validate_unique_column_names table of
                  Inl e \<Rightarrow> Inl [''validate model: '' @ path, display_table_validation_error e]
                | Inr _ \<Rightarrow> Inr table)))"

definition normalize_loaded :: "table_def \<Rightarrow> error_chain + table_def" where
  "normalize_loaded t =
     (case normalize t of
        Inl e \<Rightarrow> Inl [''Failed to normalize table '' @ quoted (tbl_name t) @ '': '' @ display_table_validation_error e]
      | Inr n \<Rightarrow> Inr n)"

text \<open>
  \<open>load_models\<close> after the walk over the model directory, whose paths are an argument: the tables are
  returned as they were written, the normalized ones are validated.
\<close>

definition load_models :: "file_system \<Rightarrow> string list \<Rightarrow> error_chain + table_def list" where
  "load_models fs paths =
     (case collect_results (map_paths_with_threshold (load_model_file fs) paths) of
        Inl e \<Rightarrow> Inl e
      | Inr tables \<Rightarrow>
          if tables = [] then Inr tables
          else case collect_results (map normalize_loaded tables) of
            Inl e \<Rightarrow> Inl e
          | Inr normalized_tables \<Rightarrow>
              (case validate_schema normalized_tables of
                 Inl e \<Rightarrow> Inl [''schema validation failed: '' @ display_planner_error e]
               | Inr _ \<Rightarrow> Inr tables))"

definition load_normalized_model_file_internal :: "file_system \<Rightarrow> string \<Rightarrow> string + table_def" where
  "load_normalized_model_file_internal fs path =
     (case load_model_file fs path of
        Inl e \<Rightarrow> Inl (''Failed to '' @ join '': '' e)
      | Inr table \<Rightarrow>
          (case normalize table of
             Inl e \<Rightarrow> Inl (''Failed to normalize table '' @ quoted (tbl_name table) @ '': '' @ display_table_validation_error e)
           | Inr n \<Rightarrow> Inr n))"

end
