(* ===== verification/Migration_Embed.thy ===== *)
theory Migration_Embed
  imports Sql_Builder Migration_Runtime Project_Files
begin

text \<open>
  The macro that embeds migrations in a program: \<open>crates/vespertide-macro/src/lib.rs\<close>.  Parsing the
  macro's input (syn), the path of the facade crate (proc-macro-crate) and the tokenizer that reads the
  generated text back are external; the text itself is modelled.
\<close>

section \<open>Blocks\<close>

record macro_input =
  mi_pool :: string
  mi_version_table :: "string option"
  mi_verbose :: bool

record migration_block =
  mb_version :: "32 word"
  mb_migration_id :: string
  mb_comment :: string
  mb_pg_sqls :: "string list"
  mb_mysql_sqls :: "string list"
  mb_sqlite_sqls :: "string list"

definition statement_texts :: "renderer \<Rightarrow> database_backend \<Rightarrow> plan_queries list \<Rightarrow> string list" where
  "statement_texts render backend pqs =
     concat (map (\<lambda>pq. map (\<lambda>q. build_text render q backend) (backend_queries backend pq)) pqs)"

definition block_of_queries :: "renderer \<Rightarrow> migration_plan \<Rightarrow> plan_queries list \<Rightarrow> migration_block" where
  "block_of_queries render migration pqs =
     \<lparr>mb_version = plan_version migration, mb_migration_id = plan_id migration,
      mb_comment = (case plan_comment migration of None \<Rightarrow> [] | Some c \<Rightarrow> c),
      mb_pg_sqls = statement_texts render Postgres pqs, mb_mysql_sqls = statement_texts render MySql pqs,
      mb_sqlite_sqls = statement_texts render Sqlite pqs\<rparr>"

text \<open>The baseline after the migration is the second component; the results of the actions are dropped.\<close>

definition build_migration_block ::
  "renderer \<Rightarrow> error_choice \<Rightarrow> nat \<Rightarrow> migration_plan \<Rightarrow> schema \<Rightarrow> string + migration_block \<times> schema" where
  "build_migration_block render pick threshold migration baseline_schema =
     (case build_plan_queries render pick threshold migration baseline_schema of
        Inl e \<Rightarrow> Inl (''Failed to build queries for migration version '' @
                   nat_to_string (unat (plan_version migration)) @ '': '' @ display_query_error e)
      | Inr pqs \<Rightarrow>
          Inr (block_of_queries render migration pqs,
               foldl (\<lambda>s a. snd (apply_action s a)) baseline_schema (plan_actions migration)))"

fun build_blocks ::
  "renderer \<Rightarrow> error_choice \<Rightarrow> nat \<Rightarrow> string \<Rightarrow> schema \<Rightarrow> migration_plan list \<Rightarrow> string + migration_block list" where
  "build_blocks render pick threshold pre baseline_schema [] = Inr []"
| "build_blocks render pick threshold pre baseline_schema (migration # migrations) =
     (case build_migration_block render pick threshold (plan_with_prefix migration pre) baseline_schema of
        Inl e \<Rightarrow> Inl e
      | Inr (block, baseline_schema') \<Rightarrow>
          map_sum id (\<lambda>blocks. block # blocks)
            (build_blocks render pick threshold pre baseline_schema' migrations))"

section \<open>The generated code\<close>

definition newline :: string where
  "newline = [CHR 0x0A]"

definition sql_blob_text :: "string list \<Rightarrow> string" where
  "sql_blob_text sqls = concat (map (\<lambda>sql. sql @ [CHR 0x00]) sqls)"

definition write_sql_blob :: "string \<Rightarrow> string list \<Rightarrow> string" where
  "write_sql_blob ident sqls = ''static '' @ ident @ '': &str = '' @ debug_str (sql_blob_text sqls) @ '';'' @ newline"

definition render_opt_u64 :: "64 word option \<Rightarrow> string" where
  "render_opt_u64 value = (case value of None \<Rightarrow> ''None'' | Some v \<Rightarrow> ''Some('' @ u64_to_string v @ ''u64)'')"

definition blob_ident :: "migration_block \<Rightarrow> string \<Rightarrow> string" where
  "blob_ident b suffix = ''__V'' @ nat_to_string (unat (mb_version b)) @ suffix"

definition write_block_blobs :: "migration_block \<Rightarrow> string" where
  "write_block_blobs b =
     write_sql_blob (blob_ident b ''_PG'') (mb_pg_sqls b) @
     write_sql_blob (blob_ident b ''_MYSQL'') (mb_mysql_sqls b) @
     write_sql_blob (blob_ident b ''_SQLITE'') (mb_sqlite_sqls b)"

definition write_block_entry :: "string \<Rightarrow> migration_block \<Rightarrow> string" where
  "write_block_entry krate b =
     krate @ ''::runtime::EmbeddedMigration::new('' @ nat_to_string (unat (mb_version b)) @ ''u32, '' @
     debug_str (mb_migration_id b) @ '', '' @ debug_str (mb_comment b) @ '', '' @ blob_ident b ''_PG'' @ '', '' @
     blob_ident b ''_MYSQL'' @ '', '' @ blob_ident b ''_SQLITE'' @ ''),'' @ newline"

definition runner_call ::
  "string \<Rightarrow> string \<Rightarrow> bool \<Rightarrow> 64 word option \<Rightarrow> 64 word option \<Rightarrow> string" where
  "runner_call krate table verbose lock_timeout_ms statement_timeout_ms =
     (if lock_timeout_ms = None \<and> statement_timeout_ms = None
      then krate @ ''::runtime::run_embedded_migrations(__pool, '' @ debug_str table @ '', '' @ bool_to_string verbose @
        '', __VESPERTIDE_MIGRATIONS).await''
      else krate @ ''::runtime::run_embedded_migrations_with_options(__pool, '' @ debug_str table @ '', '' @
        bool_to_string verbose @ '', __VESPERTIDE_MIGRATIONS, '' @ krate @
        ''::runtime::MigrationRuntimeOptions::from_millis('' @ render_opt_u64 lock_timeout_ms @ '', '' @
        render_opt_u64 statement_timeout_ms @ '')).await'') @ newline"

definition generate_migration_code ::
  "string \<Rightarrow> string \<Rightarrow> string \<Rightarrow> migration_block list \<Rightarrow> bool \<Rightarrow> 64 word option \<Rightarrow> 64 word option \<Rightarrow> string" where
  "generate_migration_code krate pool table migration_blocks verbose lock_timeout_ms statement_timeout_ms =
     ''{'' @ newline @ concat (map write_block_blobs migration_blocks) @
     ''static __VESPERTIDE_MIGRATIONS: &['' @ krate @ ''::runtime::EmbeddedMigration] = &['' @ newline @
     concat (map (write_block_entry krate) migration_blocks) @ ''];'' @ newline @
     ''async {'' @ newline @ ''let __pool = &'' @ pool @ '';'' @ newline @
     runner_call krate table verbose lock_timeout_ms statement_timeout_ms @
     ''}'' @ newline @ ''}'' @ newline"

section \<open>The macro\<close>

text \<open>
  The configuration, the loaded migrations and the crate path are the results of the calls that find
  them.  The first component of the result is the table, the blocks and the timeouts the code is made of.
\<close>

definition vespertide_migration_impl ::
  "renderer \<Rightarrow> error_choice \<Rightarrow> nat \<Rightarrow> macro_input \<Rightarrow> string + vespertide_config \<Rightarrow> string + migration_plan list \<Rightarrow>
   string + string \<Rightarrow> string + string" where
  "vespertide_migration_impl render pick threshold input loaded_config loaded_migrations crate_path =
     (case loaded_config of
        Inl e \<Rightarrow> Inl (''Failed to load config at compile time: '' @ e)
      | Inr config \<Rightarrow>
          (let table = (case mi_version_table input of
                 None \<Rightarrow> apply_prefix config ''vespertide_version'' | Some vt \<Rightarrow> apply_prefix config vt)
           in case loaded_migrations of
                Inl e \<Rightarrow> Inl (''Failed to load migrations at compile time: '' @ e)
              | Inr migrations \<Rightarrow>
                  (case build_blocks render pick threshold (cfg_prefix config) [] migrations of
                     Inl e \<Rightarrow> Inl e
                   | Inr blocks \<Rightarrow>
                       (case crate_path of
                          Inl e \<Rightarrow> Inl (''vespertide crate not found in Cargo.toml dependencies: '' @ e)
                        | Inr krate \<Rightarrow>
                            Inr (generate_migration_code krate (mi_pool input) table blocks (mi_verbose input)
                              (cfg_lock_timeout_ms config) (cfg_statement_timeout_ms config))))))"

text \<open>The constant that the entry of a block in the generated code denotes.\<close>

definition embedded_of_block :: "migration_block \<Rightarrow> embedded_migration" where
  "embedded_of_block b =
     embedded_migration_new (mb_version b) (mb_migration_id b) (mb_comment b) (sql_blob_text (mb_pg_sqls b))
       (sql_blob_text (mb_mysql_sqls b)) (sql_blob_text (mb_sqlite_sqls b))"

end
