(* ===== verification/Runtime_Laws.thy ===== *)
theory Runtime_Laws
  imports Migration_Runtime
begin

text \<open>
  What the migration runner does to a database: the version table and the log of executed migration
  statements as an abstraction of the state behind a connection, the laws of a transactional engine over
  it, and the runner as a function on the abstraction.
\<close>

section \<open>Transactional engines\<close>

text \<open>The rows of the version table, and the migration statements that have taken effect.\<close>

type_synonym db_view = "(32 word \<times> string) list \<times> string list"

definition applied_version :: "(32 word \<times> string) list \<Rightarrow> 32 word" where
  "applied_version rows = foldl max 0 (map fst rows)"

definition migration_statements :: "'d connection \<Rightarrow> embedded_migration \<Rightarrow> string list" where
  "migration_statements con m = split_sql_blob (sql_blob m (con_backend con))"

definition housekeeping :: "'d connection \<Rightarrow> string \<Rightarrow> runtime_options \<Rightarrow> string set" where
  "housekeeping con table options =
     {create_version_table_sql (con_backend con) table, alter_version_table_sql (con_backend con) table} \<union>
     set (pre_txn_timeout_sql (con_backend con) options) \<union> set (in_txn_timeout_sql (con_backend con) options)"

definition statement_laws ::
  "'d connection \<Rightarrow> string \<Rightarrow> runtime_options \<Rightarrow> embedded_migration list \<Rightarrow> ('d \<Rightarrow> db_view) \<Rightarrow> bool" where
  "statement_laws con table options ms view \<longleftrightarrow>
     (\<forall>sql \<in> housekeeping con table options. \<forall>d. view (snd (con_execute con sql d)) = view d) \<and>
     (\<forall>m \<in> set ms. \<forall>sql \<in> set (migration_statements con m). \<forall>d d'. con_execute con sql d = (Inr (), d') \<longrightarrow>
        view d' = (fst (view d), snd (view d) @ [sql])) \<and>
     (\<forall>m \<in> set ms. \<forall>d d'. con_execute con (insert_version_sql (con_backend con) table m) d = (Inr (), d') \<longrightarrow>
        view d' = (fst (view d) @ [(em_version m, em_migration_id m)], snd (view d)))"

text \<open>
  Versions are stored as signed 32-bit integers; the laws of the two queries are asked for a table whose
  versions have a clear sign bit.
\<close>

definition query_laws :: "'d connection \<Rightarrow> string \<Rightarrow> ('d \<Rightarrow> db_view) \<Rightarrow> bool" where
  "query_laws con table view \<longleftrightarrow>
     (\<forall>d d' row. (\<forall>v \<in> fst ` set (fst (view d)). 0 \<le> sint v) \<longrightarrow>
        con_query_one con (select_version_sql (con_backend con) table) d = (Inr row, d') \<longrightarrow>
        view d' = view d \<and> version_of_row row = applied_version (fst (view d))) \<and>
     (\<forall>d d' rows. con_query_all con (select_ids_sql (con_backend con) table) d = (Inr rows, d') \<longrightarrow>
        view d' = view d \<and> (\<forall>r \<in> set rows. \<forall>v. vr_version r = Some v \<longrightarrow> v \<in> fst ` set (fst (view d))))"

text \<open>\<open>saved\<close> is what the open transaction goes back to.\<close>

definition transaction_laws :: "'d connection \<Rightarrow> ('d \<Rightarrow> db_view) \<Rightarrow> ('d \<Rightarrow> db_view) \<Rightarrow> bool" where
  "transaction_laws con view saved \<longleftrightarrow>
     (\<forall>sql d. saved (snd (con_execute con sql d)) = saved d) \<and>
     (\<forall>sql d. saved (snd (con_query_one con sql d)) = saved d) \<and>
     (\<forall>sql d. saved (snd (con_query_all con sql d)) = saved d) \<and>
     (\<forall>d r t. con_begin con d = (r, t) \<longrightarrow> view t = view d \<and> (r = Inr () \<longrightarrow> saved t = view d)) \<and>
     (\<forall>t. view (con_rollback con t) = saved t) \<and>
     (\<forall>t r d. con_commit con t = (r, d) \<longrightarrow> view d = (if r = Inr () then view t else saved t))"

section \<open>The loops\<close>

lemma and_then_cases:
  "and_then m f d = (r, d') \<longleftrightarrow>
     (\<exists>e. m d = (Inl e, d') \<and> r = Inl e) \<or> (\<exists>x d1. m d = (Inr x, d1) \<and> f x d1 = (r, d'))"
  by (auto simp: and_then_def split: prod.splits sum.splits)

lemma in_context_cases:
  "in_context what m d = (r, d') \<longleftrightarrow>
     (\<exists>e. m d = (Inl e, d') \<and> r = Inl (database_error (what @ '': '' @ e) e)) \<or> (\<exists>x. m d = (Inr x, d') \<and> r = Inr x)"
  by (auto simp: in_context_def split: prod.splits sum.splits)

definition database_failure :: "migration_error + 'a \<Rightarrow> bool" where
  "database_failure r \<longleftrightarrow> (case r of Inl (Database _ _) \<Rightarrow> True | Inl _ \<Rightarrow> False | Inr _ \<Rightarrow> True)"

lemma database_failure_simps [simp]:
  "database_failure (Inr x)" "database_failure (Inl (database_error m e))"
  "database_failure (Inl (IdMismatch v a b)) \<longleftrightarrow> False"
  by (simp_all add: database_failure_def database_error_def)

lemma execute_each_saved:
  assumes "\<forall>sql d. saved (snd (con_execute con sql d)) = saved d" and "execute_each con what sqls d = (r, d')"
  shows "saved d' = saved d \<and> database_failure r"
  using assms(2)
proof (induction sqls arbitrary: d)
  case Nil
  then show ?case by (auto simp: done_io_def)
next
  case (Cons sql sqls)
  from Cons.prems have "(\<exists>e. con_execute con sql d = (Inl e, d') \<and> database_failure r) \<or>
      (\<exists>d1. con_execute con sql d = (Inr (), d1) \<and> execute_each con what sqls d1 = (r, d'))"
    by (auto simp: and_then_cases in_context_cases)
  then show ?case
  proof
    assume "\<exists>e. con_execute con sql d = (Inl e, d') \<and> database_failure r"
    then show ?thesis using assms(1) by (metis snd_conv)
  next
    assume "\<exists>d1. con_execute con sql d = (Inr (), d1) \<and> execute_each con what sqls d1 = (r, d')"
    then obtain d1 where "con_execute con sql d = (Inr (), d1)" "execute_each con what sqls d1 = (r, d')" by blast
    then show ?thesis using Cons.IH assms(1) by (metis snd_conv)
  qed
qed

lemma execute_each_view:
  assumes "\<forall>sql \<in> set sqls. \<forall>d d'. con_execute con sql d = (Inr (), d') \<longrightarrow> view d' = f sql (view d)"
    and "execute_each con what sqls d = (Inr (), d')"
  shows "view d' = foldl (\<lambda>v sql. f sql v) (view d) sqls"
  using assms
proof (induction sqls arbitrary: d)
  case Nil
  then show ?case by (simp add: done_io_def)
next
  case (Cons sql sqls)
  then obtain d1 where "con_execute con sql d = (Inr (), d1)" "execute_each con what sqls d1 = (Inr (), d')"
    by (auto simp: and_then_cases in_context_cases)
  then show ?case using Cons.IH [of d1] Cons.prems(1) by simp
qed

lemma execute_each_keeps_view:
  assumes "\<forall>sql \<in> set sqls. \<forall>d. view (snd (con_execute con sql d)) = view d"
    and "execute_each con what sqls d = (r, d')"
  shows "view d' = view d"
  using assms
proof (induction sqls arbitrary: d)
  case Nil
  then show ?case by (simp add: done_io_def)
next
  case (Cons sql sqls)
  from Cons.prems(2) have "con_execute con sql d = (Inl (projl (fst (con_execute con sql d))), d') \<or>
      (\<exists>d1. con_execute con sql d = (Inr (), d1) \<and> execute_each con what sqls d1 = (r, d'))"
    by (auto simp: and_then_cases in_context_cases)
  then show ?case using Cons.IH Cons.prems(1) by (metis list.set_intros snd_conv)
qed

definition pending_migrations :: "32 word \<Rightarrow> embedded_migration list \<Rightarrow> embedded_migration list" where
  "pending_migrations version ms = filter (\<lambda>m. version < em_version m) ms"

lemma pending_migrations_simps [simp]:
  "pending_migrations v [] = []"
  "pending_migrations v (m # ms) = (if v < em_version m then m # pending_migrations v ms else pending_migrations v ms)"
  by (simp_all add: pending_migrations_def)

definition migrated :: "'d connection \<Rightarrow> embedded_migration list \<Rightarrow> db_view \<Rightarrow> db_view" where
  "migrated con ms v =
     (fst v @ map (\<lambda>m. (em_version m, em_migration_id m)) ms, snd v @ concat (map (migration_statements con) ms))"

lemma migrated_simps [simp]:
  "migrated con [] v = v"
  "migrated con (m # ms) v =
     migrated con ms (fst v @ [(em_version m, em_migration_id m)], snd v @ migration_statements con m)"
  by (simp_all add: migrated_def)

lemma logged_fold: "foldl (\<lambda>v sql. (fst v, snd v @ [sql])) v sqls = (fst v, snd v @ sqls)"
  by (induction sqls arbitrary: v) simp_all

lemma apply_migration_view:
  assumes "statement_laws con table options ms view" and "m \<in> set ms"
    and "apply_migration con table m d = (Inr (), d')"
  shows "view d' = migrated con [m] (view d)"
proof -
  obtain d1 where run: "execute_each con (\<lambda>sql. ''Failed to execute SQL '' @ quoted sql) (migration_statements con m) d = (Inr (), d1)"
      "con_execute con (insert_version_sql (con_backend con) table m) d1 = (Inr (), d')"
    using assms(3) by (auto simp: apply_migration_def and_then_cases in_context_cases migration_statements_def)
  have "view d1 = (fst (view d), snd (view d) @ migration_statements con m)"
    using execute_each_view [of "migration_statements con m" con view "\<lambda>sql v. (fst v, snd v @ [sql])", OF _ run(1)]
      assms(1,2) by (simp add: statement_laws_def logged_fold)
  moreover have "view d' = (fst (view d1) @ [(em_version m, em_migration_id m)], snd (view d1))"
    using assms(1,2) run(2) unfolding statement_laws_def by blast
  ultimately show ?thesis by simp
qed

lemma apply_migration_saved:
  assumes "transaction_laws con view saved" and "apply_migration con table m d = (r, d')"
  shows "saved d' = saved d \<and> database_failure r"
proof -
  have keep: "\<forall>sql d. saved (snd (con_execute con sql d)) = saved d" using assms(1) by (simp add: transaction_laws_def)
  consider (stop) e where
      "execute_each con (\<lambda>sql. ''Failed to execute SQL '' @ quoted sql) (migration_statements con m) d = (Inl e, d')" "r = Inl e"
    | (go) d1 where
      "execute_each con (\<lambda>sql. ''Failed to execute SQL '' @ quoted sql) (migration_statements con m) d = (Inr (), d1)"
      "in_context ''Failed to insert version'' (con_execute con (insert_version_sql (con_backend con) table m)) d1 = (r, d')"
    using assms(2) by (auto simp: apply_migration_def and_then_cases migration_statements_def)
  then show ?thesis
  proof cases
    case stop
    then show ?thesis using execute_each_saved [OF keep stop(1)] by (simp add: database_failure_def)
  next
    case go
    then show ?thesis using execute_each_saved [OF keep go(1)] keep [rule_format, of "insert_version_sql (con_backend con) table m" d1]
      by (auto simp: in_context_cases)
  qed
qed

lemma id_mismatch_absent: "version_ids (em_version m) = None \<Longrightarrow> id_mismatch version_ids m = None"
  by (simp add: id_mismatch_def)

lemma apply_pending_effect:
  assumes "statement_laws con table options all view" and "transaction_laws con view saved" and "set ms \<subseteq> set all"
    and "\<forall>v. version < v \<longrightarrow> version_ids v = None"
    and "apply_pending con table version version_ids ms d = (r, d')"
  shows "saved d' = saved d \<and> database_failure r \<and> (r = Inr () \<longrightarrow> view d' = migrated con (pending_migrations version ms) (view d))"
  using assms(3,5)
proof (induction ms arbitrary: d)
  case Nil
  then show ?case by (auto simp: done_io_def)
next
  case (Cons m ms)
  show ?case
  proof (cases "version < em_version m")
    case False
    then have "apply_pending con table version version_ids ms d = (r, d')" using Cons.prems(2) by (simp add: leI)
    then show ?thesis using Cons.IH [of d] Cons.prems(1) False by simp
  next
    case True
    then have below: "\<not> em_version m \<le> version" by (simp add: not_le)
    from True have none: "id_mismatch version_ids m = None" using assms(4) by (simp add: id_mismatch_absent)
    consider (stop) e where "apply_migration con table m d = (Inl e, d')" "r = Inl e"
      | (go) d1 where "apply_migration con table m d = (Inr (), d1)"
          "apply_pending con table version version_ids ms d1 = (r, d')"
      using Cons.prems(2) below none by (auto simp: and_then_cases)
    then show ?thesis
    proof cases
      case stop
      then show ?thesis using apply_migration_saved [OF assms(2) stop(1)] by (simp add: database_failure_def)
    next
      case go
      have "view d1 = migrated con [m] (view d)"
        using apply_migration_view [OF assms(1) _ go(1)] Cons.prems(1) by simp
      then show ?thesis
        using Cons.IH [OF _ go(2)] Cons.prems(1) apply_migration_saved [OF assms(2) go(1)] True by simp
    qed
  qed
qed

section \<open>The runner on the abstraction\<close>

lemma fold_max_above: "(x :: 'a :: linorder) \<le> foldl max x xs"
  by (induction xs arbitrary: x) (auto intro: order_trans [OF max.cobounded1])

lemma fold_max_member: "v \<in> set xs \<Longrightarrow> (v :: 'a :: linorder) \<le> foldl max x xs"
proof (induction xs arbitrary: x)
  case (Cons y ys)
  then show ?case using fold_max_above [of "max x y" ys] by auto
qed simp

lemma applied_version_upper: "v \<in> fst ` set rows \<Longrightarrow> v \<le> applied_version rows"
  by (simp add: applied_version_def fold_max_member)

lemma collect_ids_known:
  assumes "\<forall>r \<in> set rows. \<forall>v. vr_version r = Some v \<longrightarrow> v \<in> V" and "\<forall>v. M v \<noteq> None \<longrightarrow> v \<in> V"
  shows "foldl collect_step M rows v \<noteq> None \<longrightarrow> v \<in> V"
  using assms
proof (induction rows arbitrary: M)
  case (Cons r rows)
  have "\<forall>v. collect_step M r v \<noteq> None \<longrightarrow> v \<in> V"
    using Cons.prems by (auto simp: collect_step_def u32_from_i32_def Let_def split: option.splits if_splits)
  then show ?case using Cons.IH [of "collect_step M r"] Cons.prems(1) by simp
qed simp

lemma newer_versions_unknown:
  assumes "\<forall>r \<in> set rows. \<forall>v. vr_version r = Some v \<longrightarrow> v \<in> fst ` set recorded"
    and "applied_version recorded < v"
  shows "collect_version_ids rows v = None"
proof (rule ccontr)
  assume "collect_version_ids rows v \<noteq> None"
  then have "v \<in> fst ` set recorded"
    using collect_ids_known [OF assms(1), of Map.empty v] by (simp add: collect_version_ids_def)
  then show False using applied_version_upper [of v recorded] assms(2) by simp
qed

definition lawful_engine ::
  "'d connection \<Rightarrow> string \<Rightarrow> runtime_options \<Rightarrow> embedded_migration list \<Rightarrow> ('d \<Rightarrow> db_view) \<Rightarrow> ('d \<Rightarrow> db_view) \<Rightarrow> bool" where
  "lawful_engine con table options ms view saved \<longleftrightarrow>
     statement_laws con table options ms view \<and> query_laws con table view \<and> transaction_laws con view saved"

lemma timeouts_keep:
  assumes "lawful_engine con table options ms view saved" and "set sqls \<subseteq> housekeeping con table options"
    and "apply_timeouts con options sqls d = (r, d')"
  shows "view d' = view d \<and> saved d' = saved d \<and> database_failure r"
proof -
  have keep: "\<forall>sql \<in> set sqls. \<forall>d. view (snd (con_execute con sql d)) = view d"
    using assms(1,2) unfolding lawful_engine_def statement_laws_def by (meson subsetD)
  have saved: "\<forall>sql d. saved (snd (con_execute con sql d)) = saved d"
    using assms(1) unfolding lawful_engine_def transaction_laws_def by blast
  show ?thesis
    using assms(3) execute_each_keeps_view [OF keep] execute_each_saved [OF saved]
    by (auto simp: apply_timeouts_def done_io_def split: if_splits)
qed

lemma transaction_body_effect:
  assumes lawful: "lawful_engine con table options ms view saved"
    and small: "\<forall>v \<in> fst ` set (fst (view d)). 0 \<le> sint v"
    and run: "transaction_body con table ms options d = (r, d')"
  shows "saved d' = saved d \<and> database_failure r \<and>
    (r = Inr () \<longrightarrow> view d' = migrated con (pending_migrations (applied_version (fst (view d))) ms) (view d))"
proof -
  note laws = lawful [unfolded lawful_engine_def]
  have keeps: "\<forall>sql d. saved (snd (con_query_one con sql d)) = saved d" "\<forall>sql d. saved (snd (con_query_all con sql d)) = saved d"
    using laws by (auto simp: transaction_laws_def)
  have timeouts: "set (in_txn_timeout_sql (con_backend con) options) \<subseteq> housekeeping con table options"
    by (auto simp: housekeeping_def)
  let ?t = "apply_timeouts con options (in_txn_timeout_sql (con_backend con) options)"
  let ?q = "con_query_one con (select_version_sql (con_backend con) table)"
  let ?a = "con_query_all con (select_ids_sql (con_backend con) table)"
  consider (e1) e where "?t d = (Inl e, d')" "r = Inl e"
    | (e2) d1 e where "?t d = (Inr (), d1)" "?q d1 = (Inl e, d')" "database_failure r" "r \<noteq> Inr ()"
    | (e3) d1 row d2 e where "?t d = (Inr (), d1)" "?q d1 = (Inr row, d2)" "?a d2 = (Inl e, d')" "database_failure r" "r \<noteq> Inr ()"
    | (ok) d1 row d2 rows d3 where "?t d = (Inr (), d1)" "?q d1 = (Inr row, d2)" "?a d2 = (Inr rows, d3)"
        "apply_pending con table (version_of_row row) (collect_version_ids rows) ms d3 = (r, d')"
    using run unfolding transaction_body_def and_then_cases in_context_cases by auto
  then show ?thesis
  proof cases
    case e1
    then show ?thesis using timeouts_keep [OF lawful timeouts e1(1)] by (simp add: database_failure_def)
  next
    case e2
    then show ?thesis using timeouts_keep [OF lawful timeouts e2(1)] keeps(1) by (metis snd_conv)
  next
    case e3
    then show ?thesis using timeouts_keep [OF lawful timeouts e3(1)] keeps by (metis snd_conv)
  next
    case ok
    have d1: "view d1 = view d" "saved d1 = saved d" using timeouts_keep [OF lawful timeouts ok(1)] by auto
    have d2: "view d2 = view d" "version_of_row row = applied_version (fst (view d))" "saved d2 = saved d"
      using laws ok(2) small d1 keeps(1) unfolding query_laws_def by (metis snd_conv)+
    have d3: "view d3 = view d" "saved d3 = saved d"
      and known: "\<forall>r \<in> set rows. \<forall>v. vr_version r = Some v \<longrightarrow> v \<in> fst ` set (fst (view d))"
      using laws ok(3) d2 keeps(2) unfolding query_laws_def by (metis snd_conv)+
    have "\<forall>v. applied_version (fst (view d)) < v \<longrightarrow> collect_version_ids rows v = None"
      using newer_versions_unknown [OF known] by blast
    note body = apply_pending_effect [where view = view and saved = saved and options = options and all = ms, OF _ _ subset_refl this]
    show ?thesis using body [of con table d3 r d'] ok(4) laws d2(2) d3 by auto
  qed
qed

text \<open>
  The runner either records every migration above the applied version and executes its statements, in
  their order, or leaves everything as it was; it never reports an id mismatch.
\<close>

definition runner_outcome ::
  "'d connection \<Rightarrow> embedded_migration list \<Rightarrow> db_view \<Rightarrow> migration_error + unit \<Rightarrow> db_view \<Rightarrow> bool" where
  "runner_outcome con ms before r after \<longleftrightarrow>
     (case r of
        Inr _ \<Rightarrow> after = migrated con (pending_migrations (applied_version (fst before)) ms) before
      | Inl e \<Rightarrow> after = before \<and> (\<forall>v expected found. e \<noteq> IdMismatch v expected found))"

lemma database_failure_no_mismatch: "database_failure (Inl e) \<Longrightarrow> e \<noteq> IdMismatch v a b"
  by (auto simp: database_failure_def)

lemma run_transaction_effect:
  assumes lawful: "lawful_engine con table options ms view saved"
    and small: "\<forall>v \<in> fst ` set (fst (view d)). 0 \<le> sint v"
    and run: "run_transaction con table ms options d = (r, d')"
  shows "runner_outcome con ms (view d) r (view d')"
proof -
  note laws = lawful [unfolded lawful_engine_def]
  have starts: "view t = view d" "b = Inr () \<longrightarrow> saved t = view d" if "con_begin con d = (b, t)" for b t
    using laws that unfolding transaction_laws_def by blast+
  have "(\<exists>e. con_begin con d = (Inl e, d') \<and> database_failure r \<and> r \<noteq> Inr ()) \<or>
      (\<exists>t. con_begin con d = (Inr (), t) \<and> (case transaction_body con table ms options t of
         (Inl e, d') \<Rightarrow> (Inl e, con_rollback con d')
       | (Inr _, d') \<Rightarrow> in_context ''Failed to commit transaction'' (con_commit con) d') = (r, d'))"
    using run unfolding run_transaction_def and_then_cases in_context_cases by auto
  then show ?thesis
  proof (elim disjE exE conjE)
    fix e
    assume "con_begin con d = (Inl e, d')" "database_failure r" "r \<noteq> Inr ()"
    then show ?thesis using starts(1) database_failure_no_mismatch by (cases r) (auto simp: runner_outcome_def)
  next
    fix t
    assume start: "con_begin con d = (Inr (), t)"
      and rest: "(case transaction_body con table ms options t of
         (Inl e, d') \<Rightarrow> (Inl e, con_rollback con d')
       | (Inr _, d') \<Rightarrow> in_context ''Failed to commit transaction'' (con_commit con) d') = (r, d')"
    obtain x d2 where body: "transaction_body con table ms options t = (x, d2)" by fastforce
    have d2: "saved d2 = view d" "database_failure x"
      "x = Inr () \<longrightarrow> view d2 = migrated con (pending_migrations (applied_version (fst (view d))) ms) (view d)"
      using transaction_body_effect [OF lawful _ body] starts [OF start] small by auto
    show ?thesis
    proof (cases x)
      case (Inl e)
      then have "r = Inl e" "d' = con_rollback con d2" using rest body by auto
      then show ?thesis
        using d2 Inl laws database_failure_no_mismatch by (auto simp: runner_outcome_def transaction_laws_def)
    next
      case (Inr u)
      then have "in_context ''Failed to commit transaction'' (con_commit con) d2 = (r, d')" using rest body by simp
      then consider (fails) e where "con_commit con d2 = (Inl e, d')" "r = Inl (database_error (''Failed to commit transaction: '' @ e) e)"
        | (commits) "con_commit con d2 = (Inr (), d')" "r = Inr ()"
        by (auto simp: in_context_cases)
      then show ?thesis
      proof cases
        case fails
        then have "view d' = saved d2" using laws unfolding transaction_laws_def by fastforce
        then show ?thesis using fails d2 by (simp add: runner_outcome_def database_error_def)
      next
        case commits
        then have "view d' = view d2" using laws unfolding transaction_laws_def by fastforce
        then show ?thesis using commits d2 Inr by (simp add: runner_outcome_def)
      qed
    qed
  qed
qed

lemma runner_effect:
  assumes lawful: "lawful_engine con table options ms view saved"
    and small: "\<forall>v \<in> fst ` set (fst (view d)). 0 \<le> sint v"
    and run: "run_embedded_migrations_with_options con table ms options d = (r, d')"
  shows "runner_outcome con ms (view d) r (view d')"
proof -
  note laws = lawful [unfolded lawful_engine_def]
  have keep: "view (snd (con_execute con sql d)) = view d" if "sql \<in> housekeeping con table options" for sql d
    using laws that unfolding statement_laws_def by blast
  have house: "create_version_table_sql (con_backend con) table \<in> housekeeping con table options"
    "alter_version_table_sql (con_backend con) table \<in> housekeeping con table options"
    "set (pre_txn_timeout_sql (con_backend con) options) \<subseteq> housekeeping con table options"
    by (auto simp: housekeeping_def)
  let ?t = "apply_timeouts con options (pre_txn_timeout_sql (con_backend con) options)"
  let ?x = "\<lambda>d. snd (con_execute con (alter_version_table_sql (con_backend con) table) d)"
  consider (e1) e where "con_execute con (create_version_table_sql (con_backend con) table) d = (Inl e, d')"
        "database_failure r" "r \<noteq> Inr ()"
    | (e2) d1 e where "con_execute con (create_version_table_sql (con_backend con) table) d = (Inr (), d1)"
        "?t (?x d1) = (Inl e, d')" "r = Inl e"
    | (ok) d1 d2 where "con_execute con (create_version_table_sql (con_backend con) table) d = (Inr (), d1)"
        "?t (?x d1) = (Inr (), d2)" "run_transaction con table ms options d2 = (r, d')"
    using run unfolding run_embedded_migrations_with_options_def and_then_cases in_context_cases Let_def split_def
    by auto
  then show ?thesis
  proof cases
    case e1
    then show ?thesis using keep [OF house(1), of d] database_failure_no_mismatch
      by (cases r) (auto simp: runner_outcome_def)
  next
    case e2
    then show ?thesis
      using keep [OF house(1), of d] keep [OF house(2), of d1] timeouts_keep [OF lawful house(3) e2(2)]
        database_failure_no_mismatch
      by (auto simp: runner_outcome_def database_failure_def split: migration_error.splits)
  next
    case ok
    have "view d2 = view d"
      using keep [OF house(1), of d] keep [OF house(2), of d1] timeouts_keep [OF lawful house(3) ok(2)] ok(1) by simp
    then show ?thesis using run_transaction_effect [OF lawful _ ok(3)] small by simp
  qed
qed

text \<open>After a run that succeeded nothing is pending, so that a second run changes nothing.\<close>

lemma pending_after_run:
  "pending_migrations (applied_version (fst (migrated con (pending_migrations (applied_version (fst v)) ms) v))) ms = []"
proof -
  let ?v' = "fst (migrated con (pending_migrations (applied_version (fst v)) ms) v)"
  have "\<not> applied_version ?v' < em_version m" if "m \<in> set ms" for m
  proof (cases "applied_version (fst v) < em_version m")
    case True
    then have "em_version m \<in> fst ` set ?v'" using that by (force simp: migrated_def pending_migrations_def)
    then show ?thesis using applied_version_upper by (simp add: not_less)
  next
    case False
    have "applied_version (fst v) \<le> applied_version ?v'"
      by (simp add: migrated_def applied_version_def foldl_append fold_max_above)
    then show ?thesis using False by auto
  qed
  then show ?thesis by (simp add: pending_migrations_def filter_empty_conv)
qed

lemma second_run_keeps:
  assumes "lawful_engine con table options ms view saved"
    and rows: "\<forall>v \<in> fst ` set (fst (view d)). 0 \<le> sint v" and "\<forall>m \<in> set ms. 0 \<le> sint (em_version m)"
    and "run_embedded_migrations_with_options con table ms options d = (Inr (), d1)"
    and "run_embedded_migrations_with_options con table ms options d1 = (r, d2)"
  shows "view d2 = view d1"
proof -
  let ?p = "pending_migrations (applied_version (fst (view d))) ms"
  have first: "view d1 = migrated con ?p (view d)"
    using runner_effect [OF assms(1) rows assms(4)] by (simp add: runner_outcome_def)
  have "\<forall>v \<in> fst ` set (fst (view d1)). 0 \<le> sint v"
    using rows assms(3) by (auto simp: first migrated_def pending_migrations_def)
  from runner_effect [OF assms(1) this assms(5)] show ?thesis
    using pending_after_run [of con "view d" ms]
    by (cases r) (simp_all add: runner_outcome_def first migrated_def)
qed

section \<open>A plain engine\<close>

record plain_database =
  pd_view :: db_view
  pd_saved :: db_view

definition plain_execute ::
  "(string \<Rightarrow> (32 word \<times> string) option) \<Rightarrow> string set \<Rightarrow> string \<Rightarrow> plain_database \<Rightarrow> (string + unit) \<times> plain_database" where
  "plain_execute recorded silent sql d =
     (Inr (), case recorded sql of
        Some row \<Rightarrow> d\<lparr>pd_view := (fst (pd_view d) @ [row], snd (pd_view d))\<rparr>
      | None \<Rightarrow> if sql \<in> silent then d else d\<lparr>pd_view := (fst (pd_view d), snd (pd_view d) @ [sql])\<rparr>)"

definition plain_connection ::
  "database_backend \<Rightarrow> (string \<Rightarrow> (32 word \<times> string) option) \<Rightarrow> string set \<Rightarrow> plain_database connection" where
  "plain_connection b recorded silent =
     \<lparr>con_backend = b,
      con_execute = plain_execute recorded silent,
      con_query_one = (\<lambda>_ d. (Inr (Some \<lparr>vr_version = (if fst (pd_view d) = [] then None
         else Some (applied_version (fst (pd_view d)))), vr_id = None\<rparr>), d)),
      con_query_all = (\<lambda>_ d. (Inr (map (\<lambda>(v, i). \<lparr>vr_version = Some v, vr_id = Some i\<rparr>) (fst (pd_view d))), d)),
      con_begin = (\<lambda>d. (Inr (), d\<lparr>pd_saved := pd_view d\<rparr>)),
      con_commit = (\<lambda>d. (Inr (), d)),
      con_rollback = (\<lambda>d. d\<lparr>pd_view := pd_saved d\<rparr>)\<rparr>"

lemma applied_version_cases: "applied_version rows \<in> insert 0 (fst ` set rows)"
proof -
  have "foldl max (x :: 'a :: linorder) xs \<in> insert x (set xs)" for x xs
    by (induction xs arbitrary: x) (auto simp: max_def)
  from this [of 0 "map fst rows"] show ?thesis by (auto simp: applied_version_def)
qed

lemma plain_version:
  assumes "\<forall>v \<in> fst ` set rows. 0 \<le> sint v"
  shows "version_of_row (Some \<lparr>vr_version = (if rows = [] then None else Some (applied_version rows)), vr_id = None\<rparr>) =
    applied_version rows"
proof (cases "rows = []")
  case True
  then show ?thesis by (simp add: version_of_row_def u32_from_i32_def applied_version_def)
next
  case False
  have "0 \<le> sint (applied_version rows)"
    using applied_version_cases [of rows] assms by (elim insertE) auto
  then show ?thesis using False by (simp add: version_of_row_def u32_from_i32_def)
qed

lemma plain_lawful:
  assumes "\<forall>sql \<in> housekeeping con table options. recorded sql = None \<and> sql \<in> silent"
    and "\<forall>m \<in> set ms. \<forall>sql \<in> set (migration_statements con m). recorded sql = None \<and> sql \<notin> silent"
    and "\<forall>m \<in> set ms. recorded (insert_version_sql b table m) = Some (em_version m, em_migration_id m)"
    and con: "con = plain_connection b recorded silent"
  shows "lawful_engine con table options ms pd_view pd_saved"
proof -
  have c: "con_backend con = b" "con_execute con = plain_execute recorded silent" by (simp_all add: con plain_connection_def)
  have "statement_laws con table options ms pd_view"
    using assms(1-3) by (auto simp: statement_laws_def c plain_execute_def)
  moreover have "query_laws con table pd_view"
    unfolding query_laws_def con plain_connection_def by (auto simp: plain_version rev_image_eqI)
  moreover have "transaction_laws con pd_view pd_saved"
    by (auto simp: transaction_laws_def con plain_connection_def plain_execute_def split: option.splits)
  ultimately show ?thesis by (simp add: lawful_engine_def)
qed

end
