(* ===== verification/Migration_History.thy ===== *)
theory Migration_History
  imports Migration_Embed Runtime_Laws Sql_Plan
begin

text \<open>
  From the migration files to the database: the blobs of the embedded migrations split into the generated
  statements again, their literals in the generated code read back, and a run on an empty database
  executes the statements of every plan on the schema that the plans before it produce.
\<close>

section \<open>Blobs\<close>

lemma split_char_terminated:
  "sep \<notin> set s \<Longrightarrow> split_char sep (s @ sep # rest) = s # split_char sep rest"
  by (induction s) auto

lemma split_blob_text:
  "\<forall>sql \<in> set sqls. CHR 0x00 \<notin> set sql \<Longrightarrow> split_char (CHR 0x00) (sql_blob_text sqls) = sqls @ [[]]"
  by (induction sqls) (auto simp: sql_blob_text_def split_char_terminated)

lemma split_sql_blob_text:
  assumes "\<forall>sql \<in> set sqls. CHR 0x00 \<notin> set sql"
  shows "split_sql_blob (sql_blob_text sqls) = filter (\<lambda>sql. sql \<noteq> []) sqls"
  using split_blob_text [OF assms] by (simp add: split_sql_blob_def split_terminator_def Let_def)

section \<open>String literals of the generated code\<close>

text \<open>A reader of Rust string literals, from behind the opening quote.\<close>

definition hex_value :: "char \<Rightarrow> nat option" where
  "hex_value c =
     (if is_ascii_digit c then Some (of_char c - 48)
      else if CHR ''a'' \<le> c \<and> c \<le> CHR ''f'' then Some (of_char c - 87)
      else if CHR ''A'' \<le> c \<and> c \<le> CHR ''F'' then Some (of_char c - 55) else None)"

fun hex_number :: "nat \<Rightarrow> string \<Rightarrow> nat option" where
  "hex_number n [] = Some n"
| "hex_number n (c # s) = (case hex_value c of None \<Rightarrow> None | Some d \<Rightarrow> hex_number (16 * n + d) s)"

definition simple_escape :: "char \<Rightarrow> char option" where
  "simple_escape c =
     (if c = CHR ''0'' then Some (CHR 0x00) else if c = CHR ''t'' then Some (CHR 0x09)
      else if c = CHR ''r'' then Some (CHR 0x0D) else if c = CHR ''n'' then Some (CHR 0x0A)
      else if c = CHR 0x22 then Some (CHR 0x22) else if c = CHR 0x5C then Some (CHR 0x5C)
      else if c = CHR 0x27 then Some (CHR 0x27) else None)"

definition read_escape :: "string \<Rightarrow> (char \<times> string) option" where
  "read_escape s =
     (case s of
        [] \<Rightarrow> None
      | c # r \<Rightarrow>
          if c = CHR ''u'' then
            (case r of
               [] \<Rightarrow> None
             | b # digits \<Rightarrow>
                 let hex = takeWhile (\<lambda>x. x \<noteq> CHR 0x7D) digits; after = dropWhile (\<lambda>x. x \<noteq> CHR 0x7D) digits
                 in if b \<noteq> CHR 0x7B \<or> hex = [] \<or> after = [] then None
                    else case hex_number 0 hex of
                           Some n \<Rightarrow> if n < 256 then Some (char_of n, tl after) else None
                         | None \<Rightarrow> None)
          else map_option (\<lambda>x. (x, r)) (simple_escape c))"

lemma read_escape_shorter: "read_escape s = Some (c, r) \<Longrightarrow> length r < length s"
proof -
  have "length (dropWhile P t) \<le> length t" for P and t :: string by (rule length_dropWhile_le)
  then have "length (tl (dropWhile P t)) < Suc (Suc (length t))" for P and t :: string
    by (metis diff_le_self le_SucI le_trans length_tl less_Suc_eq_le)
  then show "read_escape s = Some (c, r) \<Longrightarrow> length r < length s"
    by (auto simp: read_escape_def Let_def simp del: length_tl split: list.splits if_splits option.splits)
qed

function read_rust_str :: "string \<Rightarrow> (string \<times> string) option" where
  "read_rust_str [] = None"
| "read_rust_str (c # s) =
     (if c = CHR 0x22 then Some ([], s)
      else if c = CHR 0x5C then
        (case read_escape s of
           None \<Rightarrow> None
         | Some (x, r) \<Rightarrow> map_option (\<lambda>(t, rest). (x # t, rest)) (read_rust_str r))
      else map_option (\<lambda>(t, rest). (c # t, rest)) (read_rust_str s))"
  by pat_completeness auto
termination by (relation "measure length") (auto dest: read_escape_shorter)

declare read_rust_str.simps(2) [simp del]

lemma hex_value_digit: "d < 16 \<Longrightarrow> hex_value (hex_digit d) = Some d \<and> hex_digit d \<noteq> CHR 0x7D"
proof -
  have "\<forall>d \<in> set [0..<16]. hex_value (hex_digit d) = Some d \<and> hex_digit d \<noteq> CHR 0x7D" by code_simp
  then show "d < 16 \<Longrightarrow> hex_value (hex_digit d) = Some d \<and> hex_digit d \<noteq> CHR 0x7D" by simp
qed

lemma read_escaped_char:
  "read_rust_str (escape_debug_char c @ s) = map_option (\<lambda>(t, rest). (c # t, rest)) (read_rust_str s)"
proof -
  consider (simple) e where "simple_escape e = Some c" "e \<noteq> CHR ''u''" "escape_debug_char c = [CHR 0x5C, e]"
    | (one) "(of_char c :: nat) < 16"
        "escape_debug_char c = [CHR 0x5C, CHR ''u'', CHR 0x7B, hex_digit (of_char c), CHR 0x7D]"
    | (two) "16 \<le> (of_char c :: nat)" "(of_char c :: nat) < 256"
        "escape_debug_char c = [CHR 0x5C, CHR ''u'', CHR 0x7B, hex_digit (of_char c div 16), hex_digit (of_char c mod 16), CHR 0x7D]"
    | (plain) "escape_debug_char c = [c]" "c \<noteq> CHR 0x22" "c \<noteq> CHR 0x5C"
    unfolding escape_debug_char_def Let_def simple_escape_def by (force split: if_splits)
  then show ?thesis
  proof cases
    case simple
    then show ?thesis by (simp add: read_rust_str.simps(2) read_escape_def)
  next
    case one
    then show ?thesis
      using hex_value_digit [OF one(1)]
      by (simp add: read_rust_str.simps(2) read_escape_def Let_def)
  next
    case two
    have digits: "of_char c div 16 < (16 :: nat)" "of_char c mod 16 < (16 :: nat)"
      using two(2) by (intro less_mult_imp_div_less) simp_all
    have "16 * (of_char c div 16) + of_char c mod 16 = (of_char c :: nat)" by simp
    then show ?thesis
      using two hex_value_digit [OF digits(1)] hex_value_digit [OF digits(2)]
      by (simp add: read_rust_str.simps(2) read_escape_def Let_def)
  next
    case plain
    then show ?thesis by (simp add: read_rust_str.simps(2))
  qed
qed

lemma read_debug_str: "read_rust_str (tl (debug_str s) @ rest) = Some (s, rest)"
proof -
  have "read_rust_str (concat (map escape_debug_char s) @ CHR 0x22 # rest) = Some (s, rest)"
    by (induction s) (simp_all add: read_rust_str.simps(2) read_escaped_char)
  then show ?thesis by (simp add: debug_str_def)
qed

section \<open>The history of a project\<close>

lemma replayed_baseline:
  "apply_actions s as = Inr s' \<Longrightarrow> foldl (\<lambda>s a. snd (apply_action s a)) s as = s'"
  by (induction as arbitrary: s) (auto split: prod.splits sum.splits)

text \<open>The plans as the macro sees them, and the schema each of them meets.\<close>

definition prefixed :: "string \<Rightarrow> migration_plan list \<Rightarrow> migration_plan list" where
  "prefixed pre plans = map (\<lambda>p. plan_with_prefix p pre) plans"

lemma prefixed_simps [simp]:
  "prefixed pre [] = []" "prefixed pre (p # ps) = plan_with_prefix p pre # prefixed pre ps"
  by (simp_all add: prefixed_def)

fun generable_history :: "schema \<Rightarrow> migration_plan list \<Rightarrow> bool" where
  "generable_history s [] = True"
| "generable_history s (p # ps) =
     (generable_plan s (plan_actions p) \<and>
      generable_history (foldl (\<lambda>s a. snd (apply_action s a)) s (plan_actions p)) ps)"

lemma succeeded_map_sum: "succeeded (map_sum id f r) \<longleftrightarrow> succeeded r"
  by (cases r) (simp_all add: succeeded_iff)

lemma build_blocks_succeeds:
  assumes "replay_plans s (prefixed pre plans) = Inr s'"
  shows "succeeded (build_blocks render pick threshold pre s plans) \<longleftrightarrow> generable_history s (prefixed pre plans)"
  using assms
proof (induction plans arbitrary: s)
  case Nil
  then show ?case by (simp add: succeeded_iff)
next
  case (Cons p plans)
  let ?p = "plan_with_prefix p pre"
  obtain s1 where step: "apply_actions s (plan_actions ?p) = Inr s1" and rest: "replay_plans s1 (prefixed pre plans) = Inr s'"
    using Cons.prems by (auto split: sum.splits)
  have base: "foldl (\<lambda>s a. snd (apply_action s a)) s (plan_actions ?p) = s1" by (rule replayed_baseline [OF step])
  show ?case
    using generated_plan [OF step, of render pick threshold] Cons.IH [OF rest]
    by (cases "build_plan_queries render pick threshold ?p s")
      (simp_all add: build_migration_block_def base succeeded_iff succeeded_map_sum [unfolded succeeded_iff])
qed

text \<open>The statements of every plan, on the schema that the plans before it produce.\<close>

fun history_queries ::
  "renderer \<Rightarrow> error_choice \<Rightarrow> nat \<Rightarrow> schema \<Rightarrow> migration_plan list \<Rightarrow> plan_queries list list" where
  "history_queries render pick threshold s [] = []"
| "history_queries render pick threshold s (p # ps) =
     (case build_plan_queries render pick threshold p s of
        Inl _ \<Rightarrow> []
      | Inr pqs \<Rightarrow> pqs # history_queries render pick threshold
          (case apply_actions s (plan_actions p) of Inr s' \<Rightarrow> s' | Inl _ \<Rightarrow> s) ps)"

fun block_sqls :: "database_backend \<Rightarrow> migration_block \<Rightarrow> string list" where
  "block_sqls Postgres b = mb_pg_sqls b"
| "block_sqls MySql b = mb_mysql_sqls b"
| "block_sqls Sqlite b = mb_sqlite_sqls b"

lemma block_sqls_of_queries: "block_sqls b (block_of_queries render p pqs) = statement_texts render b pqs"
  by (cases b) (simp_all add: block_of_queries_def)

lemma sql_blob_of_block: "sql_blob (embedded_of_block bl) b = sql_blob_text (block_sqls b bl)"
  by (cases b) (simp_all add: embedded_of_block_def embedded_migration_new_def)

lemma build_blocks_contents:
  assumes "replay_plans s (prefixed pre plans) = Inr s'" and "build_blocks render pick threshold pre s plans = Inr blocks"
  shows "map (\<lambda>bl. (mb_version bl, mb_migration_id bl)) blocks = map (\<lambda>p. (plan_version p, plan_id p)) plans \<and>
    map (block_sqls b) blocks =
      map (statement_texts render b) (history_queries render pick threshold s (prefixed pre plans))"
  using assms
proof (induction plans arbitrary: s blocks)
  case (Cons p plans)
  let ?p = "plan_with_prefix p pre"
  obtain s1 where step: "apply_actions s (plan_actions ?p) = Inr s1" and rest: "replay_plans s1 (prefixed pre plans) = Inr s'"
    using Cons.prems(1) by (auto split: sum.splits)
  have base: "foldl (\<lambda>s a. snd (apply_action s a)) s (plan_actions ?p) = s1" by (rule replayed_baseline [OF step])
  obtain pqs where pqs: "build_plan_queries render pick threshold ?p s = Inr pqs"
    using Cons.prems(2) by (auto simp: build_migration_block_def split: sum.splits)
  then obtain bs where bs: "build_blocks render pick threshold pre s1 plans = Inr bs" "blocks = block_of_queries render ?p pqs # bs"
    using Cons.prems(2) by (cases "build_blocks render pick threshold pre s1 plans") (auto simp: build_migration_block_def base)
  have "plan_version ?p = plan_version p" "plan_id ?p = plan_id p" by (simp_all add: plan_with_prefix_def)
  then show ?case
    using Cons.IH [OF rest bs(1)] bs(2) pqs step by (simp add: block_sqls_of_queries) (simp add: block_of_queries_def)
qed simp

definition executed :: "renderer \<Rightarrow> database_backend \<Rightarrow> plan_queries list \<Rightarrow> string list" where
  "executed render b pqs = filter (\<lambda>sql. sql \<noteq> []) (statement_texts render b pqs)"

lemma history_runs:
  assumes replay: "replay_plans [] (prefixed pre plans) = Inr s"
    and built: "build_blocks render pick threshold pre [] plans = Inr blocks"
    and lawful: "lawful_engine con table options (map embedded_of_block blocks) view saved"
    and fresh: "view d = ([], [])" and versions: "\<forall>p \<in> set plans. 0 < plan_version p"
    and texts: "\<forall>pqs \<in> set (history_queries render pick threshold [] (prefixed pre plans)).
      \<forall>sql \<in> set (statement_texts render (con_backend con) pqs). CHR 0x00 \<notin> set sql"
    and run: "run_embedded_migrations_with_options con table (map embedded_of_block blocks) options d = (Inr (), d')"
  shows "view d' = (map (\<lambda>p. (plan_version p, plan_id p)) plans,
    concat (map (executed render (con_backend con)) (history_queries render pick threshold [] (prefixed pre plans))))"
proof -
  let ?b = "con_backend con"
  let ?qs = "history_queries render pick threshold [] (prefixed pre plans)"
  have keys: "map (\<lambda>bl. (mb_version bl, mb_migration_id bl)) blocks = map (\<lambda>p. (plan_version p, plan_id p)) plans"
    and sqls: "map (block_sqls ?b) blocks = map (statement_texts render ?b) ?qs"
    using build_blocks_contents [OF replay built] by auto
  have ident: "em_version (embedded_of_block bl) = mb_version bl" "em_migration_id (embedded_of_block bl) = mb_migration_id bl" for bl
    by (simp_all add: embedded_of_block_def embedded_migration_new_def)
  have "\<forall>bl \<in> set blocks. 0 < mb_version bl"
  proof
    fix bl assume "bl \<in> set blocks"
    then have "(mb_version bl, mb_migration_id bl) \<in> set (map (\<lambda>bl. (mb_version bl, mb_migration_id bl)) blocks)" by auto
    then show "0 < mb_version bl" using versions unfolding keys by auto
  qed
  then have all: "pending_migrations 0 (map embedded_of_block blocks) = map embedded_of_block blocks"
    by (simp add: pending_migrations_def filter_map comp_def ident cong: filter_cong)
  have "runner_outcome con (map embedded_of_block blocks) (view d) (Inr ()) (view d')"
    by (rule runner_effect [OF lawful _ run]) (simp add: fresh)
  then have "view d' = migrated con (map embedded_of_block blocks) ([], [])"
    by (simp add: runner_outcome_def fresh applied_version_def all)
  also have "\<dots> = (map (\<lambda>bl. (mb_version bl, mb_migration_id bl)) blocks,
      concat (map (\<lambda>bl. split_sql_blob (sql_blob_text (block_sqls ?b bl))) blocks))"
    by (simp add: migrated_def comp_def ident migration_statements_def sql_blob_of_block)
  also have "concat (map (\<lambda>bl. split_sql_blob (sql_blob_text (block_sqls ?b bl))) blocks) =
      concat (map (\<lambda>sqls. split_sql_blob (sql_blob_text sqls)) (map (block_sqls ?b) blocks))"
    by (simp add: comp_def)
  also have "\<dots> = concat (map (executed render ?b) ?qs)"
    unfolding sqls map_map
    by (rule arg_cong [of _ _ concat], rule map_cong [OF refl])
      (use texts in \<open>simp add: executed_def split_sql_blob_text\<close>)
  finally show ?thesis by (simp add: keys)
qed

end
