(* ===== verification/Migration_Example.thy ===== *)
theory Migration_Example
  imports Migration_History
begin

text \<open>Two migrations on an engine that has run the first, and a history of two plans on an empty one.\<close>

section \<open>A run\<close>

definition mx_one :: embedded_migration where
  "mx_one = embedded_migration_new 1 ''m1'' [] [] [] (sql_blob_text [''CREATE A''])"

definition mx_two :: embedded_migration where
  "mx_two = embedded_migration_new 2 ''m2'' [] [] [] (sql_blob_text [''CREATE B'', ''CREATE C''])"

definition mx_recorded :: "embedded_migration list \<Rightarrow> string \<Rightarrow> (32 word \<times> string) option" where
  "mx_recorded ms = map_of (map (\<lambda>m. (insert_version_sql Sqlite ''v'' m, (em_version m, em_migration_id m))) ms)"

definition mx_silent :: "string set" where
  "mx_silent = {create_version_table_sql Sqlite ''v'', alter_version_table_sql Sqlite ''v''}"

definition mx_connection :: "embedded_migration list \<Rightarrow> plain_database connection" where
  "mx_connection ms = plain_connection Sqlite (mx_recorded ms) mx_silent"

definition mx_start :: plain_database where
  "mx_start = \<lparr>pd_view = ([(1, ''m1'')], [''CREATE A'']), pd_saved = ([], [])\<rparr>"

definition mx_end :: plain_database where
  "mx_end = \<lparr>pd_view = ([(1, ''m1''), (2, ''m2'')], [''CREATE A'', ''CREATE B'', ''CREATE C'']),
     pd_saved = ([(1, ''m1'')], [''CREATE A''])\<rparr>"

lemma mx_backend [simp]: "con_backend (mx_connection ms) = Sqlite"
  by (simp add: mx_connection_def plain_connection_def)

lemma mx_connection_lawful:
  assumes "mx_recorded ms (create_version_table_sql Sqlite ''v'') = None"
    and "mx_recorded ms (alter_version_table_sql Sqlite ''v'') = None"
    and "list_all (\<lambda>m. list_all (\<lambda>sql. mx_recorded ms sql = None \<and> sql \<notin> mx_silent) (split_sql_blob (sql_blob m Sqlite))) ms"
    and "list_all (\<lambda>m. mx_recorded ms (insert_version_sql Sqlite ''v'' m) = Some (em_version m, em_migration_id m)) ms"
  shows "lawful_engine (mx_connection ms) ''v'' default_runtime_options ms pd_view pd_saved"
proof (rule plain_lawful)
  show "mx_connection ms = plain_connection Sqlite (mx_recorded ms) mx_silent" by (simp add: mx_connection_def)
  show "\<forall>sql \<in> housekeeping (mx_connection ms) ''v'' default_runtime_options. mx_recorded ms sql = None \<and> sql \<in> mx_silent"
    using assms(1,2) by (auto simp: housekeeping_def mx_silent_def pre_txn_timeout_sql_def default_runtime_options_def)
  show "\<forall>m \<in> set ms. \<forall>sql \<in> set (migration_statements (mx_connection ms) m). mx_recorded ms sql = None \<and> sql \<notin> mx_silent"
    using assms(3) by (simp add: migration_statements_def list_all_iff)
  show "\<forall>m \<in> set ms. mx_recorded ms (insert_version_sql Sqlite ''v'' m) = Some (em_version m, em_migration_id m)"
    using assms(4) by (simp add: list_all_iff)
qed

lemma mx_lawful: "lawful_engine (mx_connection [mx_one, mx_two]) ''v'' default_runtime_options [mx_one, mx_two] pd_view pd_saved"
  by (rule mx_connection_lawful) code_simp+

lemma mx_run:
  "run_embedded_migrations_with_options (mx_connection [mx_one, mx_two]) ''v'' [mx_one, mx_two] default_runtime_options
     mx_start = (Inr (), mx_end)"
  by code_simp

lemma mx_run_again:
  "run_embedded_migrations_with_options (mx_connection [mx_one, mx_two]) ''v'' [mx_one, mx_two] default_runtime_options
     mx_end = (Inr (), mx_end\<lparr>pd_saved := pd_view mx_end\<rparr>)"
  by code_simp

section \<open>A history\<close>

text \<open>A table is created and dropped again, with a raw statement each; sea-query's texts are a fixed word here.\<close>

definition mx_render :: renderer where
  "mx_render b q = ''STATEMENT''"

definition mx_plan :: "32 word \<Rightarrow> string \<Rightarrow> migration_action list \<Rightarrow> migration_plan" where
  "mx_plan v i as = \<lparr>plan_id = i, plan_comment = None, plan_created_at = None, plan_version = v, plan_actions = as\<rparr>"

definition mx_plans :: "migration_plan list" where
  "mx_plans =
     [mx_plan 1 ''m1'' [CreateTable ''t'' [column_def_new ''id'' (Simple Integer) False] [], RawSql ''CREATE A''],
      mx_plan 2 ''m2'' [DeleteTable ''t'', RawSql ''CREATE B'']]"

definition mx_block :: "32 word \<Rightarrow> string \<Rightarrow> string list \<Rightarrow> migration_block" where
  "mx_block v i sqls =
     \<lparr>mb_version = v, mb_migration_id = i, mb_comment = [], mb_pg_sqls = sqls, mb_mysql_sqls = sqls, mb_sqlite_sqls = sqls\<rparr>"

definition mx_blocks :: "migration_block list" where
  "mx_blocks = [mx_block 1 ''m1'' [''STATEMENT'', ''CREATE A''], mx_block 2 ''m2'' [''STATEMENT'', ''CREATE B'']]"

lemma mx_replay: "replay_plans [] (prefixed [] mx_plans) = Inr []"
  by code_simp

lemma mx_built: "build_blocks mx_render hd 10 [] [] mx_plans = Inr mx_blocks"
  by code_simp

abbreviation "mx_embedded \<equiv> map embedded_of_block mx_blocks"

lemma mx_history_lawful: "lawful_engine (mx_connection mx_embedded) ''v'' default_runtime_options mx_embedded pd_view pd_saved"
  by (rule mx_connection_lawful) code_simp+

definition mx_empty :: plain_database where
  "mx_empty = \<lparr>pd_view = ([], []), pd_saved = ([], [])\<rparr>"

definition mx_full :: plain_database where
  "mx_full = \<lparr>pd_view = ([(1, ''m1''), (2, ''m2'')], [''STATEMENT'', ''CREATE A'', ''STATEMENT'', ''CREATE B'']),
     pd_saved = ([], [])\<rparr>"

lemma mx_history_run:
  "run_embedded_migrations_with_options (mx_connection mx_embedded) ''v'' mx_embedded default_runtime_options mx_empty =
     (Inr (), mx_full)"
  by code_simp

lemma mx_history_texts:
  "list_all (\<lambda>pqs. list_all (\<lambda>sql. CHR 0x00 \<notin> set sql) (statement_texts mx_render Sqlite pqs))
     (history_queries mx_render hd 10 [] (prefixed [] mx_plans))"
  by code_simp

section \<open>Files\<close>

definition fs_example :: file_system where
  "fs_example =
     \<lparr>fs_exists = (\<lambda>_. True), fs_is_file = (\<lambda>_. True),
      fs_read_dir = (\<lambda>_. Inr [Inr ''m/2.json'', Inr ''m/x.txt'', Inr ''m/1.yml'']), fs_read_to_string = Inr,
      fs_plan_from_json = (\<lambda>_. Inr (mx_plan 2 ''b'' [])), fs_plan_from_yaml = (\<lambda>_. Inr (mx_plan 1 ''a'' [])),
      fs_table_from_json = (\<lambda>_. Inl []), fs_table_from_yaml = (\<lambda>_. Inl [])\<rparr>"

lemma fs_example_loads: "load_migrations fs_example default_config = Inr [mx_plan 1 ''a'' [], mx_plan 2 ''b'' []]"
  by code_simp

end
