(* ===== verification/Project_Laws.thy ===== *)
theory Project_Laws
  imports Project_Files
begin

text \<open>
  Names of migration files determine their version under the default pattern, and a loaded history is
  sorted, validated and complete.
\<close>

section \<open>File names\<close>

lemma digits_leading_zeros: "digits_to_nat (replicate k (CHR ''0'') @ s) = digits_to_nat s"
  by (induction k) (simp_all add: digits_to_nat_def char_digit_def)

lemma zero_padded_digits: "list_all is_ascii_digit (zero_padded k v)"
  using nat_to_string_digits by (auto simp: zero_padded_def Let_def list_all_iff is_ascii_digit_def)

lemma zero_padded_value: "digits_to_nat (zero_padded k v) = unat v"
  by (simp add: zero_padded_def Let_def digits_leading_zeros nat_to_string_digits)

lemma zero_padded_nonempty: "zero_padded k v \<noteq> []"
  using nat_to_string_digits by (auto simp: zero_padded_def Let_def)

lemma trim_separators_append:
  assumes "s \<noteq> []" and "last s \<notin> {CHR ''_'', CHR ''-'', CHR ''.''}"
  shows "trim_separators (s @ t) = s @ trim_separators t"
proof -
  obtain u c where "s = u @ [c]" using assms(1) by (cases s rule: rev_cases) auto
  then show ?thesis using assms(2) by (simp add: trim_separators_def dropWhile_append)
qed

text \<open>The version that a file name starts with.\<close>

definition leading_version :: "string \<Rightarrow> nat" where
  "leading_version name = digits_to_nat (takeWhile is_ascii_digit name)"

lemma default_pattern_name:
  "render_name_loop v comment ''%04v_%m'' = zero_padded 4 v @ ''_'' @ comment"
  by (simp add: is_ascii_digit_def padded_version_def parse_usize_def digits_to_nat_def char_digit_def Let_def)

lemma filename_version:
  "leading_version (migration_filename_with_format_and_pattern v comment format default_migration_filename_pattern) = unat v"
proof -
  let ?z = "zero_padded 4 v"
  have digits: "\<forall>c \<in> set ?z. is_ascii_digit c" using zero_padded_digits by (simp add: list_all_iff)
  have "is_ascii_digit (last ?z)" using digits zero_padded_nonempty by simp
  then have last: "last ?z \<notin> {CHR ''_'', CHR ''-'', CHR ''.''}" by (auto simp: is_ascii_digit_def)
  have sep: "takeWhile is_ascii_digit (trim_separators (''_'' @ s) @ CHR ''.'' # t) = []" for s t
  proof (cases "trim_separators (''_'' @ s)")
    case (Cons c r)
    have "''_'' @ s = (c # r) @ rev (takeWhile (\<lambda>c. c = CHR ''_'' \<or> c = CHR ''-'' \<or> c = CHR ''.'') (rev (''_'' @ s)))"
      unfolding Cons [symmetric] trim_separators_def rev_append [symmetric] takeWhile_dropWhile_id rev_rev_ident ..
    then have "c = CHR ''_''" by simp
    then show ?thesis using Cons by (simp add: is_ascii_digit_def)
  qed (simp add: is_ascii_digit_def)
  show ?thesis
    using sep [of "sanitize_comment comment" "''vespertide.'' @ format_extension format"] digits last zero_padded_nonempty
    unfolding migration_filename_with_format_and_pattern_def render_migration_name_def default_migration_filename_pattern_def
      default_pattern_name Let_def leading_version_def
    by (simp add: trim_separators_append zero_padded_value)
qed

section \<open>Loaded histories\<close>

text \<open>The supported files of a directory, in the order of its entries.\<close>

definition supported_files :: "file_system \<Rightarrow> (string + string) list \<Rightarrow> string list" where
  "supported_files fs entries =
     filter (\<lambda>path. fs_is_file fs path \<and> has_supported_extension path) (concat (map (case_sum (\<lambda>_. []) (\<lambda>p. [p])) entries))"

lemma collect_entries_supported:
  "collect_entries fs entries = Inr paths \<Longrightarrow> paths = supported_files fs entries \<and> (\<forall>e \<in> set entries. \<not> isl e)"
proof (induction entries arbitrary: paths)
  case (Cons e entries)
  then show ?case
    by (cases "collect_entries fs entries") (auto simp: supported_files_def split: sum.splits)
qed (simp add: supported_files_def)

lemma loaded_file_valid: "load_migration_file fs path = Inr plan \<Longrightarrow> validate_migration_plan plan = Inr ()"
  by (auto simp: load_migration_file_def split: sum.splits)

lemma load_migrations_history:
  assumes "load_migrations fs config = Inr plans" and "fs_exists fs (cfg_migrations_dir config)"
  shows "\<exists>entries. fs_read_dir fs (cfg_migrations_dir config) = Inr entries \<and>
    sorted (map plan_version plans) \<and> (\<forall>p \<in> set plans. validate_migration_plan p = Inr ()) \<and>
    image_mset Inr (mset plans) = mset (map (load_migration_file fs) (supported_files fs entries))"
proof -
  obtain entries where entries: "fs_read_dir fs (cfg_migrations_dir config) = Inr entries"
    using assms
    by (cases "fs_read_dir fs (cfg_migrations_dir config)")
       (auto simp: load_migrations_def Let_def collect_migration_paths_def with_context_def)
  obtain paths where paths: "collect_entries fs entries = Inr paths"
    using assms entries by (auto simp: load_migrations_def Let_def collect_migration_paths_def with_context_def split: sum.splits)
  obtain loaded where loaded: "collect_results (map (load_migration_file fs) paths) = Inr loaded" "plans = sort_plans loaded"
    using assms entries paths
    by (cases "collect_results (map (load_migration_file fs) paths)")
       (auto simp: load_migrations_def Let_def collect_migration_paths_def with_context_def map_paths_with_threshold_def split: sum.splits)
  have each: "list_all2 (\<lambda>path plan. load_migration_file fs path = Inr plan) paths loaded"
    using loaded(1) by (simp add: collect_results_Inr)
  then have "map (load_migration_file fs) paths = map Inr loaded"
    by (induction rule: list_all2_induct) auto
  then have "image_mset Inr (mset plans) = mset (map (load_migration_file fs) (supported_files fs entries))"
    using collect_entries_supported [OF paths] loaded(2) by (simp add: sort_plans_def flip: mset_map)
  moreover have "\<forall>p \<in> set loaded. validate_migration_plan p = Inr ()"
    using each by (induction rule: list_all2_induct) (auto intro: loaded_file_valid)
  then have "\<forall>p \<in> set plans. validate_migration_plan p = Inr ()" using loaded(2) by (simp add: sort_plans_def)
  ultimately show ?thesis using entries loaded(2) by (simp add: sort_plans_def)
qed

end
