(* ===== verification/Revision_Steps.thy ===== *)
theory Revision_Steps
  imports Project_Files Plan_Risks Type_Risks Cascade_Reach Dangling_Fk Check_Analysis Drop_Resolution Diff_Schemas
begin

text \<open>
  The steps of the revision command: \<open>emit.rs\<close>, \<open>parse.rs\<close>, \<open>timezones.rs\<close> and the prompts under
  \<open>crates/vespertide-cli/src/commands/revision\<close>.  What the user answers is a parameter: a menu answers the
  index of an item, a confirmation a truth value, an input a text.  Colours and what is only printed are
  left out.
\<close>

section \<open>Changing an action in place\<close>

text \<open>\<open>if let Some(action) = plan.actions.get_mut(i)\<close>.\<close>

definition modify_at :: "nat \<Rightarrow> (migration_action \<Rightarrow> migration_action) \<Rightarrow> migration_plan \<Rightarrow> migration_plan" where
  "modify_at i f plan =
     (if i < length (plan_actions plan)
      then plan\<lparr>plan_actions := (plan_actions plan)[i := f (plan_actions plan ! i)]\<rparr> else plan)"

section \<open>Fill values and deleted rows\<close>

type_synonym fill_values = "(string \<times> string) \<rightharpoonup> string"

fun fill_action :: "fill_values \<Rightarrow> migration_action \<Rightarrow> migration_action" where
  "fill_action fill_values (AddColumn table column None) =
     AddColumn table column (fill_values (table, col_name column))"
| "fill_action fill_values (ModifyColumnNullable table column nullable None delete_null_rows) =
     ModifyColumnNullable table column nullable (fill_values (table, column)) delete_null_rows"
| "fill_action fill_values action = action"

definition apply_fill_with_to_plan :: "migration_plan \<Rightarrow> fill_values \<Rightarrow> migration_plan" where
  "apply_fill_with_to_plan plan fill_values =
     plan\<lparr>plan_actions := map (fill_action fill_values) (plan_actions plan)\<rparr>"

fun delete_nulls_action :: "(string \<times> string) set \<Rightarrow> migration_action \<Rightarrow> migration_action" where
  "delete_nulls_action delete_set (ModifyColumnNullable table column nullable fill_with delete_null_rows) =
     ModifyColumnNullable table column nullable fill_with
       (if \<not> nullable \<and> delete_null_rows = None \<and> (table, column) \<in> delete_set then Some True else delete_null_rows)"
| "delete_nulls_action delete_set action = action"

definition apply_delete_null_rows_to_plan :: "migration_plan \<Rightarrow> (string \<times> string) set \<Rightarrow> migration_plan" where
  "apply_delete_null_rows_to_plan plan delete_set =
     plan\<lparr>plan_actions := map (delete_nulls_action delete_set) (plan_actions plan)\<rparr>"

definition om_extend :: "('k :: linorder, 'v) omap \<Rightarrow> ('k, 'v) omap \<Rightarrow> ('k, 'v) omap" where
  "om_extend m entries = fold (\<lambda>(k, v). om_insert k v) entries m"

fun enum_fill_action :: "(string, string) omap \<Rightarrow> migration_action \<Rightarrow> migration_action" where
  "enum_fill_action mappings (ModifyColumnType table column new_type fill_with narrowing_strategy timezone) =
     ModifyColumnType table column new_type
       (Some (case fill_with of Some existing \<Rightarrow> om_extend existing mappings | None \<Rightarrow> mappings))
       narrowing_strategy timezone"
| "enum_fill_action mappings action = action"

definition apply_enum_fill_with_to_plan ::
  "migration_plan \<Rightarrow> (nat \<times> (string, string) omap) list \<Rightarrow> migration_plan" where
  "apply_enum_fill_with_to_plan plan collected =
     foldl (\<lambda>plan (action_index, mappings). modify_at action_index (enum_fill_action mappings) plan) plan collected"

section \<open>Recreated tables\<close>

datatype recreate_reason = AddColumnWithFk | AddFkToExistingColumn

record recreate_table_required =
  rtr_table :: string
  rtr_column :: string
  rtr_reason :: recreate_reason

definition plan_fk_columns :: "migration_plan \<Rightarrow> (string \<times> string) list" where
  "plan_fk_columns plan =
     concat (map (\<lambda>action. case action of
         AddConstraint table (ForeignKey _ columns _ _ _ _ _) \<Rightarrow> map (Pair table) columns | _ \<Rightarrow> [])
       (plan_actions plan))"

definition plan_added_columns :: "migration_plan \<Rightarrow> (string \<times> string) list" where
  "plan_added_columns plan =
     List.map_filter (\<lambda>action. case action of
         AddColumn table column _ \<Rightarrow> Some (table, col_name column) | _ \<Rightarrow> None) (plan_actions plan)"

definition required_column :: "column_def \<Rightarrow> bool" where
  "required_column column \<longleftrightarrow> \<not> col_nullable column \<and> col_default column = None"

definition recreate_for_added :: "(string \<times> string) list \<Rightarrow> migration_action \<Rightarrow> recreate_table_required option" where
  "recreate_for_added fk_columns action =
     (case action of
        AddColumn table column _ \<Rightarrow>
          if (col_foreign_key column \<noteq> None \<or> (table, col_name column) \<in> set fk_columns) \<and> required_column column
          then Some \<lparr>rtr_table = table, rtr_column = col_name column, rtr_reason = AddColumnWithFk\<rparr> else None
      | _ \<Rightarrow> None)"

definition recreate_for_existing ::
  "(string \<times> string) list \<Rightarrow> table_def list \<Rightarrow> migration_action \<Rightarrow> recreate_table_required list" where
  "recreate_for_existing added_columns current_models action =
     (case action of
        AddConstraint table (ForeignKey _ columns _ _ _ _ _) \<Rightarrow>
          map (\<lambda>column. \<lparr>rtr_table = table, rtr_column = column, rtr_reason = AddFkToExistingColumn\<rparr>)
            (filter (\<lambda>column. (table, column) \<notin> set added_columns \<and>
                (case find_baseline_column current_models table column of
                   Some col_def \<Rightarrow> required_column col_def | None \<Rightarrow> False)) columns)
      | _ \<Rightarrow> [])"

definition find_non_nullable_fk_add_columns ::
  "migration_plan \<Rightarrow> table_def list \<Rightarrow> recreate_table_required list" where
  "find_non_nullable_fk_add_columns plan current_models =
     List.map_filter (recreate_for_added (plan_fk_columns plan)) (plan_actions plan) @
     concat (map (recreate_for_existing (plan_added_columns plan) current_models) (plan_actions plan))"

fun recreated_target :: "migration_action \<Rightarrow> string option" where
  "recreated_target (AddColumn table _ _) = Some table"
| "recreated_target (DeleteColumn table _) = Some table"
| "recreated_target (RenameColumn table _ _) = Some table"
| "recreated_target (ModifyColumnType table _ _ _ _ _) = Some table"
| "recreated_target (ModifyColumnNullable table _ _ _ _) = Some table"
| "recreated_target (ModifyColumnDefault table _ _ _) = Some table"
| "recreated_target (ModifyColumnComment table _ _) = Some table"
| "recreated_target (AddConstraint table _) = Some table"
| "recreated_target (RemoveConstraint table _) = Some table"
| "recreated_target (ReplaceConstraint table _ _) = Some table"
| "recreated_target _ = None"

definition recreation :: "table_def list \<Rightarrow> string \<Rightarrow> migration_action list" where
  "recreation current_models table_name =
     (case find_table current_models table_name of
        None \<Rightarrow> []
      | Some model \<Rightarrow> [DeleteTable table_name, CreateTable (tbl_name model) (tbl_columns model) (tbl_constraints model)])"

definition rewrite_plan_for_recreation ::
  "migration_plan \<Rightarrow> recreate_table_required list \<Rightarrow> table_def list \<Rightarrow> migration_plan" where
  "rewrite_plan_for_recreation plan recreate_tables current_models =
     (let tables_to_recreate = oset (map rtr_table recreate_tables)
      in plan\<lparr>plan_actions :=
           filter (\<lambda>action. case recreated_target action of
               None \<Rightarrow> True | Some t \<Rightarrow> t \<notin> set tables_to_recreate) (plan_actions plan) @
           concat (map (recreation current_models) tables_to_recreate)\<rparr>)"

definition handle_recreate_requirements ::
  "(recreate_table_required list \<Rightarrow> error_chain + bool) \<Rightarrow> migration_plan \<Rightarrow> table_def list \<Rightarrow> error_chain + migration_plan" where
  "handle_recreate_requirements prompt_fn plan current_models =
     (let recreate_tables = find_non_nullable_fk_add_columns plan current_models in
      if recreate_tables = [] then Inr plan
      else case prompt_fn recreate_tables of
        Inl e \<Rightarrow> Inl e
      | Inr False \<Rightarrow> Inl [''Migration cancelled. To proceed without recreation, make the column nullable or '' @
          ''add it with a default value that references an existing row.'']
      | Inr True \<Rightarrow> Inr (rewrite_plan_for_recreation plan recreate_tables current_models))"

section \<open>Command line arguments\<close>

definition parse_fill_arg :: "string \<Rightarrow> ((string \<times> string) \<times> string) option" where
  "parse_fill_arg arg =
     (case split_once ''='' arg of
        None \<Rightarrow> None
      | Some (key, v) \<Rightarrow> map_option (\<lambda>target. (target, v)) (split_once ''.'' key))"

definition parse_fill_with_args :: "string list \<Rightarrow> fill_values" where
  "parse_fill_with_args args =
     foldl (\<lambda>m arg. case parse_fill_arg arg of None \<Rightarrow> m | Some (target, v) \<Rightarrow> m(target \<mapsto> v)) Map.empty args"

definition parse_delete_null_rows_args :: "string list \<Rightarrow> (string \<times> string) set" where
  "parse_delete_null_rows_args args = set (List.map_filter (split_once ''.'') args)"

section \<open>Time zones\<close>

definition KNOWN_IANA :: "string list" where
  "KNOWN_IANA =
     [''UTC'', ''Africa/Cairo'', ''Africa/Johannesburg'', ''Africa/Lagos'', ''America/Buenos_Aires'',
      ''America/Chicago'', ''America/Denver'', ''America/Los_Angeles'', ''America/Mexico_City'',
      ''America/New_York'', ''America/Sao_Paulo'', ''America/Toronto'', ''Asia/Bangkok'', ''Asia/Dubai'',
      ''Asia/Hong_Kong'', ''Asia/Kolkata'', ''Asia/Seoul'', ''Asia/Shanghai'', ''Asia/Singapore'',
      ''Asia/Tokyo'', ''Australia/Melbourne'', ''Australia/Perth'', ''Australia/Sydney'', ''Europe/Berlin'',
      ''Europe/London'', ''Europe/Madrid'', ''Europe/Moscow'', ''Europe/Paris'', ''Europe/Rome'',
      ''Pacific/Auckland'']"

definition parse_two_digit :: "string \<Rightarrow> nat option" where
  "parse_two_digit bytes =
     (if length bytes \<noteq> 2 \<or> \<not> is_ascii_digit (bytes ! 0) \<or> \<not> is_ascii_digit (bytes ! 1) then None
      else Some (char_digit (bytes ! 0) * 10 + char_digit (bytes ! 1)))"

definition validate_offset :: "string \<Rightarrow> string + unit" where
  "validate_offset input =
     (if length input \<noteq> 6 then Inl (''expected 6 characters, got '' @ nat_to_string (length input))
      else if input ! 0 \<noteq> CHR ''+'' \<and> input ! 0 \<noteq> CHR ''-'' then
        Inl (''must start with '' @ quoted ''+'' @ '' or '' @ quoted ''-'')
      else if input ! 3 \<noteq> CHR '':'' then Inl (''hours and minutes must be separated by '' @ quoted '':'')
      else case parse_two_digit (take 2 (drop 1 input)) of
        None \<Rightarrow> Inl ''hour part must be two digits''
      | Some hh \<Rightarrow>
          (case parse_two_digit (take 2 (drop 4 input)) of
             None \<Rightarrow> Inl ''minute part must be two digits''
           | Some mm \<Rightarrow>
               if hh > 14 then Inl (''hour '' @ nat_to_string hh @ '' exceeds maximum (14)'')
               else if mm > 59 then Inl (''minute '' @ nat_to_string mm @ '' exceeds 59'')
               else Inr ()))"

definition validate_timezone :: "string \<Rightarrow> string + string" where
  "validate_timezone input =
     (let trimmed = trim input in
      if trimmed = [] then Inl ''Timezone is required.''
      else if trimmed \<in> set KNOWN_IANA then Inr trimmed
      else case validate_offset trimmed of
        Inr _ \<Rightarrow> Inr trimmed
      | Inl why \<Rightarrow> Inl (quoted trimmed @ '' is not in the IANA whitelist and is not a valid numeric offset ('' @ why @
          ''). Use one of '' @ debug_list debug_str (take 5 KNOWN_IANA) @ '' or a literal like '' @ quoted ''+09:00'' @ ''.''))"

end
