(* ===== verification/Revision_Prompts.thy ===== *)
theory Revision_Prompts
  imports Revision_Steps
begin

text \<open>
  The prompts of the revision command and what their answers do to the plan:
  \<open>crates/vespertide-cli/src/commands/revision/prompts\<close>.  Of a menu the model has the outcomes of its
  items; the external crates dialoguer (which item is selected) and strsim (the edit distance of two
  words) are parameters.
\<close>

section \<open>Fill values\<close>

definition wrap_if_spaces :: "string \<Rightarrow> string" where
  "wrap_if_spaces v =
     (if v = [] then v
      else if starts_with v [CHR 0x27] \<and> ends_with v [CHR 0x27] then v
      else if CHR '' '' \<in> set v then quoted v
      else v)"

definition format_type_info :: "string \<Rightarrow> string \<Rightarrow> string" where
  "format_type_info column_type default_value = '' ('' @ column_type @ '', default: '' @ default_value @ '')''"

definition format_fill_with_prompt :: "string \<Rightarrow> string \<Rightarrow> string" where
  "format_fill_with_prompt table column = ''  Enter fill value for '' @ table @ ''.'' @ column"

definition prompt_fill_with_value :: "error_chain + string \<Rightarrow> error_chain + string" where
  "prompt_fill_with_value answer = map_sum id wrap_if_spaces answer"

definition prompt_enum_value :: "error_chain + nat \<Rightarrow> string list \<Rightarrow> error_chain + string" where
  "prompt_enum_value selection enum_values = map_sum id (\<lambda>i. quoted (enum_values ! i)) selection"

text \<open>\<open>trim_start_matches\<close> and \<open>trim_end_matches\<close> take every quote away.\<close>

definition strip_enum_quotes :: "string \<Rightarrow> string" where
  "strip_enum_quotes v =
     rev (dropWhile (\<lambda>c. c = CHR 0x27) (rev (dropWhile (\<lambda>c. c = CHR 0x27) v)))"

definition prompt_enum_value_bare :: "error_chain + nat \<Rightarrow> string list \<Rightarrow> error_chain + string" where
  "prompt_enum_value_bare selection values = map_sum id strip_enum_quotes (prompt_enum_value selection values)"

fun collect_fill_with_values ::
  "(string \<Rightarrow> string \<Rightarrow> error_chain + string) \<Rightarrow> (string \<Rightarrow> string list \<Rightarrow> error_chain + string) \<Rightarrow>
   fill_with_required list \<Rightarrow> fill_values \<Rightarrow> error_chain + fill_values" where
  "collect_fill_with_values prompt_fn enum_prompt_fn [] fill_values = Inr fill_values"
| "collect_fill_with_values prompt_fn enum_prompt_fn (item # missing) fill_values =
     (let prompt = format_fill_with_prompt (fwr_table item) (fwr_column item)
      in case (case fwr_enum_values item of
                 Some enum_values \<Rightarrow> enum_prompt_fn prompt enum_values
               | None \<Rightarrow> prompt_fn prompt (fwr_default_value item)) of
           Inl e \<Rightarrow> Inl e
         | Inr v \<Rightarrow> collect_fill_with_values prompt_fn enum_prompt_fn missing
             (fill_values((fwr_table item, fwr_column item) \<mapsto> v)))"

text \<open>The keys to delete and the items that still need a value.\<close>

fun split_deletions ::
  "(string \<Rightarrow> string \<Rightarrow> error_chain + bool) \<Rightarrow> (string \<times> string) set \<Rightarrow> fill_with_required list \<Rightarrow>
   error_chain + (string \<times> string) list \<times> fill_with_required list" where
  "split_deletions prompt_fn delete_set [] = Inr ([], [])"
| "split_deletions prompt_fn delete_set (item # missing) =
     (let key = (fwr_table item, fwr_column item);
          in_delete_set = key \<in> delete_set
      in case (if fwr_has_foreign_key item \<and> \<not> in_delete_set then prompt_fn (fwr_table item) (fwr_column item)
               else Inr in_delete_set) of
           Inl e \<Rightarrow> Inl e
         | Inr deletes \<Rightarrow>
             map_sum id (\<lambda>(to_delete, remaining).
               if deletes then (key # to_delete, remaining) else (to_delete, item # remaining))
               (split_deletions prompt_fn delete_set missing))"

fun mark_deletion :: "(string \<times> string) list \<Rightarrow> migration_action \<Rightarrow> migration_action" where
  "mark_deletion to_delete (ModifyColumnNullable table column nullable fill_with delete_null_rows) =
     ModifyColumnNullable table column nullable fill_with
       (if (table, column) \<in> set to_delete then Some True else delete_null_rows)"
| "mark_deletion to_delete action = action"

definition handle_delete_null_rows ::
  "(string \<Rightarrow> string \<Rightarrow> error_chain + bool) \<Rightarrow> (string \<times> string) set \<Rightarrow> migration_plan \<Rightarrow> fill_with_required list \<Rightarrow>
   error_chain + migration_plan \<times> fill_with_required list" where
  "handle_delete_null_rows prompt_fn delete_set plan missing =
     map_sum id (\<lambda>(to_delete, remaining).
         (plan\<lparr>plan_actions := map (mark_deletion to_delete) (plan_actions plan)\<rparr>, remaining))
       (split_deletions prompt_fn delete_set missing)"

section \<open>Replaced enum values\<close>

definition SIMILARITY_THRESHOLD :: nat where
  "SIMILARITY_THRESHOLD = 3"

definition candidate_step ::
  "(string \<Rightarrow> string \<Rightarrow> nat) \<Rightarrow> string \<Rightarrow> (nat \<times> string) option \<Rightarrow> string \<Rightarrow> (nat \<times> string) option" where
  "candidate_step levenshtein removed best candidate =
     (let d = levenshtein removed candidate in
      if d > SIMILARITY_THRESHOLD then best
      else case best of
        None \<Rightarrow> Some (d, candidate)
      | Some (current_d, c) \<Rightarrow> if d < current_d then Some (d, candidate) else Some (current_d, c))"

definition best_rename_candidate :: "(string \<Rightarrow> string \<Rightarrow> nat) \<Rightarrow> string \<Rightarrow> string list \<Rightarrow> string option" where
  "best_rename_candidate levenshtein removed remaining =
     map_option snd (foldl (candidate_step levenshtein removed) None remaining)"

definition reorder_with_suggestion :: "string list \<Rightarrow> string option \<Rightarrow> string list" where
  "reorder_with_suggestion values suggestion =
     (case suggestion of None \<Rightarrow> values | Some s \<Rightarrow> s # filter (\<lambda>v. v \<noteq> s) values)"

definition enum_prompt_text :: "string \<Rightarrow> string \<Rightarrow> string \<Rightarrow> string" where
  "enum_prompt_text removed table column =
     ''  Replace '' @ quoted removed @ '' in '' @ table @ ''.'' @ column @ '' with''"

text \<open>The second line of the prompt, which shows the suggestion, is left out.\<close>

fun collect_mappings ::
  "(string \<Rightarrow> string \<Rightarrow> nat) \<Rightarrow> (string \<Rightarrow> string list \<Rightarrow> error_chain + string) \<Rightarrow> enum_fill_with_required \<Rightarrow>
   string list \<Rightarrow> (string, string) omap \<Rightarrow> error_chain + (string, string) omap" where
  "collect_mappings levenshtein enum_prompt_fn item [] mappings = Inr mappings"
| "collect_mappings levenshtein enum_prompt_fn item (removed # rest) mappings =
     (let suggestion = best_rename_candidate levenshtein removed (efr_remaining_values item);
          ordered = reorder_with_suggestion (efr_remaining_values item) suggestion
      in case enum_prompt_fn (enum_prompt_text removed (efr_table item) (efr_column item)) ordered of
           Inl e \<Rightarrow> Inl e
         | Inr v \<Rightarrow>
             collect_mappings levenshtein enum_prompt_fn item rest (om_insert removed (strip_enum_quotes v) mappings))"

definition collect_enum_fill_with_values ::
  "(string \<Rightarrow> string \<Rightarrow> nat) \<Rightarrow> (string \<Rightarrow> string list \<Rightarrow> error_chain + string) \<Rightarrow> enum_fill_with_required list \<Rightarrow>
   error_chain + (nat \<times> (string, string) omap) list" where
  "collect_enum_fill_with_values levenshtein enum_prompt_fn missing =
     collect_results (map (\<lambda>item. map_sum id (\<lambda>mappings. (efr_action_index item, mappings))
       (collect_mappings levenshtein enum_prompt_fn item (efr_removed_values item) [])) missing)"

definition handle_missing_enum_fill_with ::
  "(string \<Rightarrow> string \<Rightarrow> nat) \<Rightarrow> (string \<Rightarrow> string list \<Rightarrow> error_chain + string) \<Rightarrow> migration_plan \<Rightarrow> table_def list \<Rightarrow>
   error_chain + migration_plan" where
  "handle_missing_enum_fill_with levenshtein enum_prompt_fn plan current_schema =
     (let missing = find_missing_enum_fill_with plan current_schema in
      if missing = [] then Inr plan
      else map_sum id (apply_enum_fill_with_to_plan plan)
             (collect_enum_fill_with_values levenshtein enum_prompt_fn missing))"

section \<open>Narrowed types\<close>

fun applicable_strategies :: "narrowing_kind \<Rightarrow> string list" where
  "applicable_strategies (NumericIntegerDigits _ _) = [''delete'', ''set_to_value'']"
| "applicable_strategies (IntegerSize _ _) = [''delete'', ''set_to_value'']"
| "applicable_strategies (FloatSize _ _) = []"
| "applicable_strategies TimestamptzToTimestamp = []"
| "applicable_strategies _ = [''truncate'', ''delete'', ''set_to_value'']"

fun is_string_target :: "narrowing_kind \<Rightarrow> bool" where
  "is_string_target (VarcharLength _ _) = True"
| "is_string_target (CharLength _ _) = True"
| "is_string_target (VarcharToCharShorter _ _) = True"
| "is_string_target (CharToVarcharShorter _ _) = True"
| "is_string_target (TextToVarchar _) = True"
| "is_string_target (TextToChar _) = True"
| "is_string_target _ = False"

definition quote_value_for_target :: "string \<Rightarrow> narrowing_kind \<Rightarrow> string" where
  "quote_value_for_target v kind =
     (if \<not> is_string_target kind then v
      else if starts_with v [CHR 0x27] \<and> ends_with v [CHR 0x27] then v
      else quoted (escape_sql_string_literal v))"

definition strategy_of_choice ::
  "string \<Rightarrow> narrowing_kind \<Rightarrow> error_chain + string \<Rightarrow> error_chain + narrowing_strategy" where
  "strategy_of_choice chosen kind typed =
     (if chosen = ''truncate'' then Inr Truncate
      else if chosen = ''delete'' then Inr DeleteRow
      else map_sum id (\<lambda>v. SetToValue (quote_value_for_target v kind)) typed)"

text \<open>\<open>select\<close> is the answer to the menu and \<open>input\<close> the text typed for a warning.\<close>

fun prompt_type_narrowings ::
  "(type_narrowing_warning \<Rightarrow> error_chain + nat) \<Rightarrow> (type_narrowing_warning \<Rightarrow> error_chain + string) \<Rightarrow>
   type_narrowing_warning list \<Rightarrow> error_chain + narrowing_strategy list option" where
  "prompt_type_narrowings select input [] = Inr (Some [])"
| "prompt_type_narrowings select input (w # warnings) =
     (let applicable = applicable_strategies (tnw_kind w) in
      if applicable = [] then Inr None
      else case select w of
        Inl e \<Rightarrow> Inl e
      | Inr selection \<Rightarrow>
          (case strategy_of_choice (applicable ! selection) (tnw_kind w) (input w) of
             Inl e \<Rightarrow> Inl e
           | Inr strategy \<Rightarrow>
               map_sum id (map_option (\<lambda>strategies. strategy # strategies)) (prompt_type_narrowings select input warnings)))"

fun set_narrowing_strategy :: "narrowing_strategy \<Rightarrow> migration_action \<Rightarrow> migration_action" where
  "set_narrowing_strategy strategy (ModifyColumnType table column new_type fill_with _ timezone) =
     ModifyColumnType table column new_type fill_with (Some strategy) timezone"
| "set_narrowing_strategy strategy action = action"

definition apply_narrowing_strategies_to_plan ::
  "migration_plan \<Rightarrow> type_narrowing_warning list \<Rightarrow> narrowing_strategy list \<Rightarrow> migration_plan" where
  "apply_narrowing_strategies_to_plan plan warnings strategies =
     foldl (\<lambda>plan (w, s). modify_at (tnw_action_index w) (set_narrowing_strategy s) plan) plan (zip warnings strategies)"

section \<open>Time zones\<close>

text \<open>\<open>typed\<close> gives the text of each attempt.\<close>

fun prompt_custom_timezone_with_retry :: "(error_chain + string) list \<Rightarrow> error_chain + string option" where
  "prompt_custom_timezone_with_retry [] = Inr None"
| "prompt_custom_timezone_with_retry (typed # attempts) =
     (case typed of
        Inl e \<Rightarrow> Inl e
      | Inr v \<Rightarrow> (case validate_timezone v of
          Inr tz \<Rightarrow> Inr (Some tz) | Inl _ \<Rightarrow> prompt_custom_timezone_with_retry attempts))"

fun prompt_timezone_conversions ::
  "(timezone_conversion_warning \<Rightarrow> error_chain + nat) \<Rightarrow> (timezone_conversion_warning \<Rightarrow> (error_chain + string) list) \<Rightarrow>
   timezone_conversion_warning list \<Rightarrow> error_chain + string list option" where
  "prompt_timezone_conversions select typed [] = Inr (Some [])"
| "prompt_timezone_conversions select typed (w # warnings) =
     (case select w of
        Inl e \<Rightarrow> Inl e
      | Inr selection \<Rightarrow>
          (case (if selection < length KNOWN_IANA then Inr (Some (KNOWN_IANA ! selection))
                 else prompt_custom_timezone_with_retry (take 3 (typed w))) of
             Inl e \<Rightarrow> Inl e
           | Inr None \<Rightarrow> Inr None
           | Inr (Some tz) \<Rightarrow>
               map_sum id (map_option (\<lambda>choices. tz # choices)) (prompt_timezone_conversions select typed warnings)))"

fun set_timezone :: "string \<Rightarrow> migration_action \<Rightarrow> migration_action" where
  "set_timezone choice (ModifyColumnType table column new_type fill_with narrowing_strategy _) =
     ModifyColumnType table column new_type fill_with narrowing_strategy (Some choice)"
| "set_timezone choice action = action"

definition apply_timezone_choices_to_plan ::
  "migration_plan \<Rightarrow> timezone_conversion_warning list \<Rightarrow> string list \<Rightarrow> migration_plan" where
  "apply_timezone_choices_to_plan plan warnings choices =
     foldl (\<lambda>plan (w, c). modify_at (tzw_action_index w) (set_timezone c) plan) plan (zip warnings choices)"

fun is_remap :: "migration_action \<Rightarrow> bool" where
  "is_remap (RemapEnumValues _ _ _) = True"
| "is_remap _ = False"

definition prompt_remap_enum_values :: "error_chain + bool \<Rightarrow> migration_plan \<Rightarrow> error_chain + bool" where
  "prompt_remap_enum_values confirmed plan =
     (if filter is_remap (plan_actions plan) = [] then Inr True else confirmed)"

end
