(* ===== verification/Revision_Choices.thy ===== *)
theory Revision_Choices
  imports Revision_Prompts
begin

text \<open>
  The choices offered for each risk of a plan and what they change in it:
  \<open>prompts/choices_and_apply/mod.rs\<close> and \<open>prompts/drop_recreate_fk_policy.rs\<close>.  \<open>None\<close> among the outcomes
  of a menu is its last item, which cancels the revision.
\<close>

section \<open>Menus\<close>

text \<open>\<open>Ok(outcomes[selection])\<close>.\<close>

definition pick_outcome :: "'a list \<Rightarrow> error_chain + nat \<Rightarrow> error_chain + 'a" where
  "pick_outcome outcomes selection = map_sum id (\<lambda>i. outcomes ! i) selection"

subsection \<open>Defaults\<close>

datatype default_choice = Backfill | SkipBackfill

definition default_change_outcomes :: "default_change_warning \<Rightarrow> default_choice option list" where
  "default_change_outcomes warning =
     (if dcw_new_default warning \<noteq> None then [Some Backfill] else []) @ [Some SkipBackfill, None]"

definition prompt_default_change_resolution ::
  "error_chain + nat \<Rightarrow> default_change_warning \<Rightarrow> error_chain + default_choice option" where
  "prompt_default_change_resolution selection warning = pick_outcome (default_change_outcomes warning) selection"

fun backfill_action :: "migration_action \<Rightarrow> migration_action" where
  "backfill_action (ModifyColumnDefault table column new_default _) =
     ModifyColumnDefault table column new_default new_default"
| "backfill_action action = action"

definition apply_default_choice :: "default_change_warning \<Rightarrow> default_choice \<Rightarrow> migration_plan \<Rightarrow> migration_plan" where
  "apply_default_choice warning choice plan =
     (if choice = Backfill then modify_at (dcw_action_index warning) backfill_action plan else plan)"

subsection \<open>Unique constraints and primary keys\<close>

datatype unique_addition_choice = UniqueDelete keep_policy | UniqueContinue

definition unique_addition_outcomes :: "unique_addition_warning \<Rightarrow> unique_addition_choice option list" where
  "unique_addition_outcomes warning =
     (case uaw_pk_kind warning of
        SingleAutoCleanupCapable _ \<Rightarrow> [Some (UniqueDelete KeepFirst), Some (UniqueDelete KeepLast)]
      | _ \<Rightarrow> []) @ [Some UniqueContinue, None]"

definition prompt_unique_additions ::
  "error_chain + nat \<Rightarrow> unique_addition_warning \<Rightarrow> error_chain + unique_addition_choice option" where
  "prompt_unique_additions selection warning = pick_outcome (unique_addition_outcomes warning) selection"

fun set_unique_strategy :: "unique_addition_choice \<Rightarrow> migration_action \<Rightarrow> migration_action" where
  "set_unique_strategy (UniqueDelete keep) (AddConstraint table (Unique name columns _)) =
     AddConstraint table (Unique name columns (UniqueDeleteDuplicates keep))"
| "set_unique_strategy choice action = action"

definition apply_unique_addition_choice ::
  "unique_addition_warning \<Rightarrow> unique_addition_choice \<Rightarrow> migration_plan \<Rightarrow> migration_plan" where
  "apply_unique_addition_choice warning choice plan =
     modify_at (uaw_action_index warning) (set_unique_strategy choice) plan"

datatype primary_key_addition_choice = PkDelete keep_policy | PkContinue

definition pk_addition_outcomes :: "primary_key_addition_warning \<Rightarrow> primary_key_addition_choice option list" where
  "pk_addition_outcomes warning =
     (if pka_auto_cleanup_capable warning then [Some (PkDelete KeepFirst), Some (PkDelete KeepLast)] else []) @
     [Some PkContinue, None]"

definition prompt_pk_additions ::
  "error_chain + nat \<Rightarrow> primary_key_addition_warning \<Rightarrow> error_chain + primary_key_addition_choice option" where
  "prompt_pk_additions selection warning = pick_outcome (pk_addition_outcomes warning) selection"

fun set_pk_strategy :: "primary_key_addition_choice \<Rightarrow> migration_action \<Rightarrow> migration_action" where
  "set_pk_strategy (PkDelete keep) (AddConstraint table (PrimaryKey auto_increment columns _)) =
     AddConstraint table (PrimaryKey auto_increment columns (PkDeleteDuplicates keep))"
| "set_pk_strategy choice action = action"

definition apply_pk_addition_choice ::
  "primary_key_addition_warning \<Rightarrow> primary_key_addition_choice \<Rightarrow> migration_plan \<Rightarrow> migration_plan" where
  "apply_pk_addition_choice warning choice plan = modify_at (pka_action_index warning) (set_pk_strategy choice) plan"

subsection \<open>Foreign keys and checks\<close>

datatype fk_orphan_choice = OrphanNullify | OrphanDelete

definition fk_orphan_outcomes :: "fk_orphan_addition_warning \<Rightarrow> fk_orphan_choice option list" where
  "fk_orphan_outcomes warning =
     (if foa_all_columns_nullable warning then [Some OrphanNullify, Some OrphanDelete] else [Some OrphanDelete]) @ [None]"

definition prompt_fk_orphan_additions ::
  "error_chain + nat \<Rightarrow> fk_orphan_addition_warning \<Rightarrow> error_chain + fk_orphan_choice option" where
  "prompt_fk_orphan_additions selection warning = pick_outcome (fk_orphan_outcomes warning) selection"

fun orphan_strategy_of :: "fk_orphan_choice \<Rightarrow> foreign_key_orphan_strategy" where
  "orphan_strategy_of OrphanNullify = NullifyOrphans"
| "orphan_strategy_of OrphanDelete = DeleteOrphans"

fun set_orphan_strategy :: "fk_orphan_choice \<Rightarrow> migration_action \<Rightarrow> migration_action" where
  "set_orphan_strategy choice
     (AddConstraint table (ForeignKey name columns ref_table ref_columns on_delete on_update _)) =
   AddConstraint table (ForeignKey name columns ref_table ref_columns on_delete on_update (orphan_strategy_of choice))"
| "set_orphan_strategy choice action = action"

definition apply_fk_orphan_addition_choice ::
  "fk_orphan_addition_warning \<Rightarrow> fk_orphan_choice \<Rightarrow> migration_plan \<Rightarrow> migration_plan" where
  "apply_fk_orphan_addition_choice warning choice plan =
     modify_at (foa_action_index warning) (set_orphan_strategy choice) plan"

datatype check_violation_choice = CheckNullify string | CheckDelete

definition check_addition_outcomes :: "check_addition_warning \<Rightarrow> check_violation_choice option list" where
  "check_addition_outcomes warning =
     (if caw_target_column_nullable warning
      then [Some (CheckNullify (caw_target_column warning)), Some CheckDelete] else [Some CheckDelete]) @ [None]"

definition prompt_check_additions ::
  "error_chain + nat \<Rightarrow> check_addition_warning \<Rightarrow> error_chain + check_violation_choice option" where
  "prompt_check_additions selection warning = pick_outcome (check_addition_outcomes warning) selection"

fun violation_strategy_of :: "check_violation_choice \<Rightarrow> check_violation_strategy" where
  "violation_strategy_of (CheckNullify column) = NullifyViolatingColumn column"
| "violation_strategy_of CheckDelete = DeleteViolatingRows"

fun set_check_strategy :: "check_violation_choice \<Rightarrow> migration_action \<Rightarrow> migration_action" where
  "set_check_strategy choice (AddConstraint table (Check name expr _)) =
     AddConstraint table (Check name expr (violation_strategy_of choice))"
| "set_check_strategy choice action = action"

definition apply_check_addition_choice ::
  "check_addition_warning \<Rightarrow> check_violation_choice \<Rightarrow> migration_plan \<Rightarrow> migration_plan" where
  "apply_check_addition_choice warning choice plan =
     modify_at (caw_action_index warning) (set_check_strategy choice) plan"

subsection \<open>Identity columns\<close>

datatype sequence_exhaustion_choice = ChangeToBigInt | SequenceProceed

fun warning_is_mutable :: "sequence_exhaustion_kind \<Rightarrow> bool" where
  "warning_is_mutable PrimaryExposure = True"
| "warning_is_mutable (PkTypeNarrowing _) = True"
| "warning_is_mutable (ForeignKeyMismatch _ _) = False"

definition sequence_exhaustion_outcomes :: "sequence_exhaustion_warning \<Rightarrow> sequence_exhaustion_choice option list" where
  "sequence_exhaustion_outcomes warning =
     (if warning_is_mutable (sew_kind warning) then [Some ChangeToBigInt] else []) @ [Some SequenceProceed, None]"

definition prompt_sequence_exhaustion ::
  "error_chain + nat \<Rightarrow> sequence_exhaustion_warning \<Rightarrow> error_chain + sequence_exhaustion_choice option" where
  "prompt_sequence_exhaustion selection warning = pick_outcome (sequence_exhaustion_outcomes warning) selection"

fun widen_action :: "string \<Rightarrow> migration_action \<Rightarrow> migration_action" where
  "widen_action column (CreateTable table columns constraints) =
     CreateTable table
       (update_first (\<lambda>col. col_name col = column) (\<lambda>col. col\<lparr>col_type := Simple BigInt\<rparr>) columns) constraints"
| "widen_action column (ModifyColumnType table column' _ fill_with narrowing_strategy timezone) =
     ModifyColumnType table column' (Simple BigInt) fill_with narrowing_strategy timezone"
| "widen_action column action = action"

definition apply_sequence_exhaustion_choice ::
  "sequence_exhaustion_warning \<Rightarrow> sequence_exhaustion_choice \<Rightarrow> migration_plan \<Rightarrow> migration_plan" where
  "apply_sequence_exhaustion_choice warning choice plan =
     (if choice \<noteq> ChangeToBigInt then plan
      else modify_at (sew_action_index warning) (widen_action (sew_column warning)) plan)"

subsection \<open>Warnings that are only confirmed\<close>

text \<open>Cascades, strengthened checks and mismatched literals: proceed or cancel.\<close>

datatype proceed_choice = JustProceed

definition proceed_outcomes :: "proceed_choice option list" where
  "proceed_outcomes = [Some JustProceed, None]"

definition prompt_cascade_reach :: "error_chain + nat \<Rightarrow> cascade_reach_warning \<Rightarrow> error_chain + proceed_choice option" where
  "prompt_cascade_reach selection warning = pick_outcome proceed_outcomes selection"

definition prompt_check_strengthening ::
  "error_chain + nat \<Rightarrow> check_strengthening_warning \<Rightarrow> error_chain + proceed_choice option" where
  "prompt_check_strengthening selection warning = pick_outcome proceed_outcomes selection"

definition prompt_check_type_mismatch ::
  "error_chain + nat \<Rightarrow> check_type_mismatch_warning \<Rightarrow> error_chain + proceed_choice option" where
  "prompt_check_type_mismatch selection warning = pick_outcome proceed_outcomes selection"

section \<open>Drops and policies\<close>

definition confirm_permanent_drop :: "error_chain + bool \<Rightarrow> error_chain + drop_choice option" where
  "confirm_permanent_drop confirmed = map_sum id (\<lambda>yes. if yes then Some DropIt else None) confirmed"

text \<open>The candidates come first, then the permanent drop, then the cancellation.\<close>

definition prompt_drop_resolution ::
  "error_chain + nat \<Rightarrow> error_chain + bool \<Rightarrow> drop_resolution \<Rightarrow> error_chain + drop_choice option" where
  "prompt_drop_resolution selection confirmed resolution =
     (case selection of
        Inl e \<Rightarrow> Inl e
      | Inr i \<Rightarrow>
          (let drop_index = length (dr_candidates resolution); cancel_index = drop_index + 1 in
           if i = cancel_index then Inr None
           else if i = drop_index then confirm_permanent_drop confirmed
           else Inr (Some (RenameTo (rc_target_name (dr_candidates resolution ! i))))))"

definition policy_delta_text :: "string \<Rightarrow> policy_delta \<Rightarrow> string" where
  "policy_delta_text clause d =
     clause @ '' '' @ render_reference_action (pd_before d) @ '' -> '' @ render_reference_action (pd_after d)"

definition format_fk_policy_change_line :: "fk_policy_change_warning \<Rightarrow> string" where
  "format_fk_policy_change_line w =
     (let fk_label = (case fpc_constraint_name w of Some n \<Rightarrow> n | None \<Rightarrow> ''(unnamed)'');
          from = fpc_table w @ ''('' @ join '', '' (fpc_columns w) @ '')'';
          to = fpc_ref_table w @ ''('' @ join '', '' (fpc_ref_columns w) @ '')'';
          deltas = List.map_filter id
            [map_option (policy_delta_text ''ON DELETE'') (fpc_on_delete_change w),
             map_option (policy_delta_text ''ON UPDATE'') (fpc_on_update_change w)]
      in fk_label @ '' '' @ from @ '' -> '' @ to @ '' :: '' @ join '' / '' deltas)"

end
