(* ===== verification/Revision_Command.thy ===== *)
theory Revision_Command
  imports Revision_Choices
begin

text \<open>
  The revision command: \<open>cmd_revision_core\<close> in \<open>crates/vespertide-cli/src/commands/revision/mod.rs\<close> and the
  writing of the file in \<open>write.rs\<close>.  The prompts are functions, as in the source; what the loader
  returned, the new id, the time and the file system are arguments.
\<close>

section \<open>Errors of the plan\<close>

definition dangling_error :: "dangling_fk_drop \<Rightarrow> planner_error" where
  "dangling_error d =
     DanglingForeignKeyAfterDrop (dfd_dropped_table d) (dfd_dropped_column d) (dfd_referencing_table d)
       (dfd_referencing_constraint d)"

definition single_or_multiple_error :: "planner_error list \<Rightarrow> planner_error" where
  "single_or_multiple_error errors = (if length errors = 1 then hd errors else Multiple errors)"

definition dangling_drops_to_planner_error :: "dangling_fk_drop list \<Rightarrow> planner_error option" where
  "dangling_drops_to_planner_error drops =
     (if drops = [] then None else Some (single_or_multiple_error (map dangling_error drops)))"

definition ensure_no_dangling_fk_drops :: "migration_plan \<Rightarrow> table_def list \<Rightarrow> error_chain + unit" where
  "ensure_no_dangling_fk_drops plan baseline_schema =
     (case dangling_drops_to_planner_error (find_dangling_fk_drops plan baseline_schema) of
        Some err \<Rightarrow> Inl [display_planner_error err] | None \<Rightarrow> Inr ())"

definition ensure_no_f12_errors :: "migration_plan \<Rightarrow> table_def list \<Rightarrow> error_chain + unit" where
  "ensure_no_f12_errors plan baseline_schema =
     (let f12_errors = find_constraint_type_changes plan baseline_schema @ find_primary_key_removals plan in
      if f12_errors \<noteq> [] then Inl [display_planner_error (single_or_multiple_error f12_errors)] else Inr ())"

section \<open>Prompts\<close>

record revision_prompt_fns =
  rp_recreate :: "recreate_table_required list \<Rightarrow> error_chain + bool"
  rp_delete_null_rows :: "string \<Rightarrow> string \<Rightarrow> error_chain + bool"
  rp_fill_with :: "string \<Rightarrow> string \<Rightarrow> error_chain + string"
  rp_enum_quoted :: "string \<Rightarrow> string list \<Rightarrow> error_chain + string"
  rp_enum_bare :: "string \<Rightarrow> string list \<Rightarrow> error_chain + string"
  rp_fk_policy_change :: "fk_policy_change_warning list \<Rightarrow> error_chain + bool"
  rp_type_narrowing :: "type_narrowing_warning list \<Rightarrow> error_chain + narrowing_strategy list option"
  rp_timezone_conversion :: "timezone_conversion_warning list \<Rightarrow> error_chain + string list option"
  rp_remap_enum_values :: "migration_plan \<Rightarrow> error_chain + bool"
  rp_drop_resolution :: "drop_resolution \<Rightarrow> error_chain + drop_choice option"
  rp_default_change :: "default_change_warning \<Rightarrow> error_chain + default_choice option"
  rp_unique_addition :: "unique_addition_warning \<Rightarrow> error_chain + unique_addition_choice option"
  rp_fk_orphan_addition :: "fk_orphan_addition_warning \<Rightarrow> error_chain + fk_orphan_choice option"
  rp_check_addition :: "check_addition_warning \<Rightarrow> error_chain + check_violation_choice option"
  rp_pk_addition :: "primary_key_addition_warning \<Rightarrow> error_chain + primary_key_addition_choice option"
  rp_cascade_reach :: "cascade_reach_warning \<Rightarrow> error_chain + proceed_choice option"
  rp_sequence_exhaustion :: "sequence_exhaustion_warning \<Rightarrow> error_chain + sequence_exhaustion_choice option"
  rp_check_strengthening :: "check_strengthening_warning \<Rightarrow> error_chain + proceed_choice option"
  rp_check_type_mismatch :: "check_type_mismatch_warning \<Rightarrow> error_chain + proceed_choice option"

section \<open>The flow of the command\<close>

text \<open>
  An error, a return without a migration (nothing to do, or the user declined), or the value to go on with.
\<close>

datatype revision_outcome = NoChanges | Cancelled string | Written string migration_plan

datatype 'a flow = Fail error_chain | Return revision_outcome | Go 'a

fun flow_bind :: "'a flow \<Rightarrow> ('a \<Rightarrow> 'b flow) \<Rightarrow> 'b flow" where
  "flow_bind (Fail e) f = Fail e"
| "flow_bind (Return r) f = Return r"
| "flow_bind (Go x) f = f x"

fun lift_result :: "error_chain + 'a \<Rightarrow> 'a flow" where
  "lift_result (Inl e) = Fail e"
| "lift_result (Inr x) = Go x"

definition cancelled_unless :: "string \<Rightarrow> error_chain + bool \<Rightarrow> unit flow" where
  "cancelled_unless note answer =
     (case answer of Inl e \<Rightarrow> Fail e | Inr True \<Rightarrow> Go () | Inr False \<Rightarrow> Return (Cancelled note))"

text \<open>A prompt whose \<open>None\<close> cancels.\<close>

definition ask :: "string \<Rightarrow> error_chain + 'c option \<Rightarrow> 'c flow" where
  "ask note answer =
     (case answer of Inl e \<Rightarrow> Fail e | Inr None \<Rightarrow> Return (Cancelled note) | Inr (Some c) \<Rightarrow> Go c)"

text \<open>A loop over the warnings: ask, and change the plan at once.\<close>

fun ask_each ::
  "string \<Rightarrow> ('w \<Rightarrow> error_chain + 'c option) \<Rightarrow> ('w \<Rightarrow> 'c \<Rightarrow> migration_plan \<Rightarrow> migration_plan) \<Rightarrow> 'w list \<Rightarrow>
   migration_plan \<Rightarrow> migration_plan flow" where
  "ask_each note prompt apply_choice [] plan = Go plan"
| "ask_each note prompt apply_choice (w # ws) plan =
     flow_bind (ask note (prompt w)) (\<lambda>c. ask_each note prompt apply_choice ws (apply_choice w c plan))"

definition keep_plan :: "'w \<Rightarrow> 'c \<Rightarrow> migration_plan \<Rightarrow> migration_plan" where
  "keep_plan w c plan = plan"

section \<open>Steps\<close>

text \<open>All choices are made first; then they are applied from the last action to the first.\<close>

fun choose_drops ::
  "(drop_resolution \<Rightarrow> error_chain + drop_choice option) \<Rightarrow> drop_resolution list \<Rightarrow>
   (drop_resolution \<times> drop_choice) list flow" where
  "choose_drops prompt [] = Go []"
| "choose_drops prompt (r # rs) =
     flow_bind (ask ''Drop resolution declined; no migration written.'' (prompt r)) (\<lambda>choice.
     flow_bind (choose_drops prompt rs) (\<lambda>chosen. Go ((r, choice) # chosen)))"

fun display_drop_resolution_error :: "drop_resolution_error \<Rightarrow> string" where
  "display_drop_resolution_error (DropActionMissing m) = ''drop action not found in plan: '' @ m"
| "display_drop_resolution_error (TargetActionMissing m) = ''rename target action not found in plan: '' @ m"

fun apply_drop_choices ::
  "table_def list \<Rightarrow> (drop_resolution \<times> drop_choice) list \<Rightarrow> migration_plan \<Rightarrow> error_chain + migration_plan" where
  "apply_drop_choices baseline [] plan = Inr plan"
| "apply_drop_choices baseline ((r, choice) # chosen) plan =
     (case apply_drop_resolution plan baseline r choice of
        Inl e \<Rightarrow> Inl [''apply drop resolution: '' @ display_drop_resolution_error e]
      | Inr plan' \<Rightarrow> apply_drop_choices baseline chosen plan')"

definition later_first :: "drop_resolution \<times> drop_choice \<Rightarrow> drop_resolution \<times> drop_choice \<Rightarrow> ordering" where
  "later_first a b = compare (dr_action_index (fst b)) (dr_action_index (fst a))"

definition resolve_drops :: "revision_prompt_fns \<Rightarrow> table_def list \<Rightarrow> migration_plan \<Rightarrow> migration_plan flow" where
  "resolve_drops prompts baseline plan =
     flow_bind (choose_drops (rp_drop_resolution prompts) (find_drop_resolutions plan baseline)) (\<lambda>chosen.
       lift_result (apply_drop_choices baseline (sort_by later_first chosen) plan))"

definition reject_fk_nullable :: "migration_plan \<Rightarrow> unit flow" where
  "reject_fk_nullable plan =
     (let edge1_errors = find_addcolumn_fk_nullable_violations plan in
      if edge1_errors = [] then Go () else Fail [display_planner_error (single_or_multiple_error edge1_errors)])"

text \<open>From the unique constraints to the mismatched literals.\<close>

definition resolve_constraint_risks ::
  "revision_prompt_fns \<Rightarrow> table_def list \<Rightarrow> migration_plan \<Rightarrow> migration_plan flow" where
  "resolve_constraint_risks prompts baseline plan =
     flow_bind (ask_each ''Unique addition declined; no migration written.'' (rp_unique_addition prompts)
       apply_unique_addition_choice (find_unique_additions plan baseline) plan) (\<lambda>plan.
     flow_bind (reject_fk_nullable plan) (\<lambda>_.
     flow_bind (ask_each ''FK orphan resolution declined; no migration written.'' (rp_fk_orphan_addition prompts)
       apply_fk_orphan_addition_choice (find_fk_orphan_additions plan baseline) plan) (\<lambda>plan.
     flow_bind (ask_each ''CHECK violation resolution declined; no migration written.'' (rp_check_addition prompts)
       apply_check_addition_choice (find_check_additions plan baseline) plan) (\<lambda>plan.
     flow_bind (ask_each ''PRIMARY KEY resolution declined; no migration written.'' (rp_pk_addition prompts)
       apply_pk_addition_choice (find_primary_key_additions plan baseline) plan) (\<lambda>plan.
     flow_bind (ask_each ''Cascade chain declined; no migration written.'' (rp_cascade_reach prompts)
       keep_plan (find_cascade_reach_violations plan baseline) plan) (\<lambda>plan.
     flow_bind (ask_each ''INT overflow resolution declined; no migration written.'' (rp_sequence_exhaustion prompts)
       apply_sequence_exhaustion_choice (find_sequence_exhaustion_risks plan baseline) plan) (\<lambda>plan.
     flow_bind (ask_each ''CHECK strengthening declined; no migration written.'' (rp_check_strengthening prompts)
       keep_plan (find_check_strengthenings plan baseline) plan) (\<lambda>plan.
     ask_each ''CHECK type mismatch declined; no migration written.'' (rp_check_type_mismatch prompts)
       keep_plan (find_check_type_mismatches plan baseline) plan))))))))"

definition fill_missing_values ::
  "revision_prompt_fns \<Rightarrow> string list \<Rightarrow> string list \<Rightarrow> table_def list \<Rightarrow> migration_plan \<Rightarrow> error_chain + migration_plan" where
  "fill_missing_values prompts fill_with_args delete_null_rows_args baseline plan =
     (let fill_values = parse_fill_with_args fill_with_args;
          delete_set = parse_delete_null_rows_args delete_null_rows_args;
          plan = apply_delete_null_rows_to_plan (apply_fill_with_to_plan plan fill_values) delete_set;
          missing = find_missing_fill_with plan baseline
      in case (if missing = [] then Inr (plan, missing)
               else handle_delete_null_rows (rp_delete_null_rows prompts) delete_set plan missing) of
           Inl e \<Rightarrow> Inl e
         | Inr (plan, missing) \<Rightarrow>
             if missing = [] then Inr plan
             else map_sum id (apply_fill_with_to_plan plan)
                    (collect_fill_with_values (rp_fill_with prompts) (rp_enum_quoted prompts) missing fill_values))"

definition confirm_fk_policies :: "revision_prompt_fns \<Rightarrow> migration_plan \<Rightarrow> unit flow" where
  "confirm_fk_policies prompts plan =
     (let warnings = find_fk_policy_changes plan in
      if warnings = [] then Go ()
      else cancelled_unless ''Review backend code before retrying revision.'' (rp_fk_policy_change prompts warnings))"

definition resolve_narrowings :: "revision_prompt_fns \<Rightarrow> table_def list \<Rightarrow> migration_plan \<Rightarrow> migration_plan flow" where
  "resolve_narrowings prompts baseline plan =
     (let warnings = find_type_narrowings plan baseline in
      if warnings = [] then Go plan
      else flow_bind (ask ''Pre-clean the data manually before retrying revision.'' (rp_type_narrowing prompts warnings))
             (\<lambda>strategies. Go (apply_narrowing_strategies_to_plan plan warnings strategies)))"

definition unresolved_timezones :: "migration_plan \<Rightarrow> table_def list \<Rightarrow> timezone_conversion_warning list" where
  "unresolved_timezones plan baseline =
     filter (\<lambda>w. tzw_current_timezone w = None) (find_timezone_conversions plan baseline)"

text \<open>The note of this cancellation is left out: it has a character that is not ASCII.\<close>

definition resolve_timezones :: "revision_prompt_fns \<Rightarrow> table_def list \<Rightarrow> migration_plan \<Rightarrow> migration_plan flow" where
  "resolve_timezones prompts baseline plan =
     (let warnings = unresolved_timezones plan baseline in
      if warnings = [] then Go plan
      else flow_bind (ask [] (rp_timezone_conversion prompts warnings))
             (\<lambda>choices. Go (apply_timezone_choices_to_plan plan warnings choices)))"

definition resolve_data_risks ::
  "(string \<Rightarrow> string \<Rightarrow> nat) \<Rightarrow> revision_prompt_fns \<Rightarrow> table_def list \<Rightarrow> migration_plan \<Rightarrow> migration_plan flow" where
  "resolve_data_risks levenshtein prompts baseline plan =
     flow_bind (lift_result (handle_missing_enum_fill_with levenshtein (rp_enum_bare prompts) plan baseline)) (\<lambda>plan.
     flow_bind (confirm_fk_policies prompts plan) (\<lambda>_.
     flow_bind (cancelled_unless ''Coordinate with ORM consumers before retrying revision.''
       (rp_remap_enum_values prompts plan)) (\<lambda>_.
     flow_bind (resolve_narrowings prompts baseline plan) (\<lambda>plan.
     flow_bind (resolve_timezones prompts baseline plan) (\<lambda>plan.
     ask_each ''Default-change resolution declined; no migration written.'' (rp_default_change prompts)
       apply_default_choice (find_default_changes plan baseline) plan)))))"

section \<open>The file\<close>

record revision_env =
  env_uuid :: string
  env_now :: string
  env_create_dir :: "string \<Rightarrow> error_chain + unit"
  env_write :: "file_format \<Rightarrow> string \<Rightarrow> migration_plan \<Rightarrow> error_chain + unit"

definition migration_path :: "vespertide_config \<Rightarrow> migration_plan \<Rightarrow> string" where
  "migration_path config plan =
     path_join (cfg_migrations_dir config)
       (migration_filename_with_format_and_pattern (plan_version plan) (plan_comment plan)
         (cfg_migration_format config) (cfg_migration_filename_pattern config))"

definition write_migration_file :: "revision_env \<Rightarrow> vespertide_config \<Rightarrow> migration_plan \<Rightarrow> error_chain + string" where
  "write_migration_file env config plan =
     (case env_create_dir env (cfg_migrations_dir config) of
        Inl e \<Rightarrow> Inl e
      | Inr _ \<Rightarrow>
          map_sum id (\<lambda>_. migration_path config plan)
            (env_write env (cfg_migration_format config) (migration_path config plan) plan))"

definition finish_plan :: "revision_env \<Rightarrow> string \<Rightarrow> migration_plan \<Rightarrow> migration_plan" where
  "finish_plan env message plan =
     plan\<lparr>plan_id := env_uuid env, plan_comment := Some message,
       plan_created_at := (case plan_created_at plan of None \<Rightarrow> Some (env_now env) | Some t \<Rightarrow> Some t)\<rparr>"

section \<open>The command\<close>

definition plan_revision ::
  "nat \<Rightarrow> revision_prompt_fns \<Rightarrow> table_def list \<Rightarrow> migration_plan list \<Rightarrow> error_chain + migration_plan" where
  "plan_revision par_threshold prompts current_models applied_plans =
     (case plan_next_migration par_threshold current_models applied_plans of
        Inl e \<Rightarrow> Inl [''planning error: '' @ display_planner_error e]
      | Inr plan \<Rightarrow> handle_recreate_requirements (rp_recreate prompts) plan current_models)"

definition baseline_of :: "migration_plan list \<Rightarrow> error_chain + table_def list" where
  "baseline_of applied_plans =
     map_sum (\<lambda>e. [''schema reconstruction error: '' @ display_planner_error e]) id (schema_from_plans applied_plans)"

text \<open>Everything between the plan and the file.\<close>

definition resolve_plan ::
  "(string \<Rightarrow> string \<Rightarrow> nat) \<Rightarrow> revision_prompt_fns \<Rightarrow> string list \<Rightarrow> string list \<Rightarrow> table_def list \<Rightarrow>
   migration_plan \<Rightarrow> migration_plan flow" where
  "resolve_plan levenshtein prompts fill_with_args delete_null_rows_args baseline plan =
     flow_bind (resolve_drops prompts baseline plan) (\<lambda>plan.
     flow_bind (lift_result (ensure_no_dangling_fk_drops plan baseline)) (\<lambda>_.
     flow_bind (lift_result (ensure_no_f12_errors plan baseline)) (\<lambda>_.
     flow_bind (resolve_constraint_risks prompts baseline plan) (\<lambda>plan.
     flow_bind (lift_result (fill_missing_values prompts fill_with_args delete_null_rows_args baseline plan)) (\<lambda>plan.
     resolve_data_risks levenshtein prompts baseline plan)))))"

definition cmd_revision_core ::
  "nat \<Rightarrow> (string \<Rightarrow> string \<Rightarrow> nat) \<Rightarrow> revision_env \<Rightarrow> string \<Rightarrow> string list \<Rightarrow> string list \<Rightarrow> revision_prompt_fns \<Rightarrow>
   error_chain + vespertide_config \<Rightarrow> error_chain + table_def list \<Rightarrow> error_chain + migration_plan list \<Rightarrow>
   error_chain + revision_outcome" where
  "cmd_revision_core par_threshold levenshtein env message fill_with_args delete_null_rows_args prompts
     loaded_config loaded_models loaded_plans =
     (case flow_bind (lift_result loaded_config) (\<lambda>config.
        flow_bind (lift_result loaded_models) (\<lambda>current_models.
        flow_bind (lift_result loaded_plans) (\<lambda>applied_plans.
        flow_bind (lift_result (plan_revision par_threshold prompts current_models applied_plans)) (\<lambda>plan.
        if plan_actions plan = [] then Return NoChanges
        else
          flow_bind (lift_result (baseline_of applied_plans)) (\<lambda>baseline_schema.
          flow_bind (resolve_plan levenshtein prompts fill_with_args delete_null_rows_args baseline_schema plan) (\<lambda>plan.
          let plan = finish_plan env message plan in
          flow_bind (lift_result (write_migration_file env config plan)) (\<lambda>path. Go (Written path plan)))))))) of
        Fail e \<Rightarrow> Inl e
      | Return r \<Rightarrow> Inr r
      | Go r \<Rightarrow> Inr r)"

end
