(* ===== verification/Revision_Laws.thy ===== *)
theory Revision_Laws
  imports Revision_Command Project_Laws
begin

text \<open>
  What a plan written by the revision command is known to satisfy.  Each step changes only parts of the
  actions that the later checks do not look at; these parts are erased by projections, so that what one
  step establishes is still there when the file is written.
\<close>

section \<open>What the steps keep\<close>

text \<open>\<open>view\<close> is the part of an action that a step keeps.\<close>

definition keeps :: "(migration_action \<Rightarrow> 'v) \<Rightarrow> (migration_action \<Rightarrow> migration_action) \<Rightarrow> bool" where
  "keeps view f \<longleftrightarrow> (\<forall>a. view (f a) = view a)"

definition plan_view :: "(migration_action \<Rightarrow> 'v) \<Rightarrow> migration_plan \<Rightarrow> 32 word \<times> 'v list" where
  "plan_view view plan = (plan_version plan, map view (plan_actions plan))"

lemma keepsI: "(\<And>a. view (f a) = view a) \<Longrightarrow> keeps view f"
  by (simp add: keeps_def)

lemma plan_view_map: "keeps view f \<Longrightarrow> plan_view view (p\<lparr>plan_actions := map f (plan_actions p)\<rparr>) = plan_view view p"
  by (simp add: plan_view_def keeps_def)

lemma plan_view_modify_at: "keeps view f \<Longrightarrow> plan_view view (modify_at i f p) = plan_view view p"
  by (auto simp: plan_view_def keeps_def modify_at_def map_update list_update_same_conv)

lemma plan_view_modify_each:
  "(\<And>x. keeps view (f x)) \<Longrightarrow> plan_view view (foldl (\<lambda>p x. modify_at (ix x) (f x) p) p xs) = plan_view view p"
  by (induction xs arbitrary: p) (simp_all add: plan_view_modify_at)

lemma plan_view_nth:
  assumes "plan_view view p = plan_view view q"
  shows "length (plan_actions p) = length (plan_actions q) \<and>
    (\<forall>i < length (plan_actions q). view (plan_actions p ! i) = view (plan_actions q ! i))"
proof -
  have eq: "map view (plan_actions p) = map view (plan_actions q)" using assms by (simp add: plan_view_def)
  have len: "length (plan_actions p) = length (plan_actions q)" by (rule map_eq_imp_length_eq [OF eq])
  have "view (plan_actions p ! i) = view (plan_actions q ! i)" if "i < length (plan_actions q)" for i
    using arg_cong [OF eq, of "\<lambda>xs. xs ! i"] that len by simp
  then show ?thesis using len by simp
qed

lemma plan_view_member:
  assumes "plan_view view p = plan_view view q" and "a \<in> set (plan_actions p)"
  shows "\<exists>b \<in> set (plan_actions q). view a = view b"
proof -
  have "view a \<in> set (map view (plan_actions q))" using assms by (simp add: plan_view_def) (metis image_eqI list.set_map)
  then show ?thesis by auto
qed

lemma ask_each_view:
  assumes "\<And>w c p. plan_view view (apply_choice w c p) = plan_view view p"
    and "ask_each note prompt apply_choice ws p = Go q"
  shows "plan_view view q = plan_view view p"
  using assms(2)
proof (induction ws arbitrary: p)
  case (Cons w ws)
  then obtain c where "ask_each note prompt apply_choice ws (apply_choice w c p) = Go q"
    by (cases "ask note (prompt w)") auto
  then show ?case using Cons.IH assms(1) by simp
qed simp

lemma flow_bind_Go: "flow_bind m f = Go y \<longleftrightarrow> (\<exists>x. m = Go x \<and> f x = Go y)"
  by (cases m) auto

lemma lift_result_Go: "lift_result r = Go x \<longleftrightarrow> r = Inr x"
  by (cases r) auto

lemma ask_Go: "ask note answer = Go c \<longleftrightarrow> answer = Inr (Some c)"
  by (auto simp: ask_def split: sum.splits option.splits)

lemmas flow_Go = flow_bind_Go lift_result_Go ask_Go

subsection \<open>The outline of an action\<close>

fun bare_constraint :: "table_constraint \<Rightarrow> table_constraint" where
  "bare_constraint (PrimaryKey ai cols _) = PrimaryKey ai cols default_pk_addition_strategy"
| "bare_constraint (Unique n cols _) = Unique n cols default_unique_strategy"
| "bare_constraint (ForeignKey n cols rt rcs d u _) = ForeignKey n cols rt rcs d u default_fk_orphan_strategy"
| "bare_constraint (Check n e _) = Check n e default_check_violation_strategy"
| "bare_constraint (Index n cols) = Index n cols"

text \<open>No step after the drops changes the outline.\<close>

fun outline :: "migration_action \<Rightarrow> migration_action" where
  "outline (CreateTable t cols ks) = CreateTable t (map (\<lambda>c. c\<lparr>col_type := Simple BigInt\<rparr>) cols) ks"
| "outline (AddColumn t c _) = AddColumn t c None"
| "outline (ModifyColumnType t c _ _ _ _) = ModifyColumnType t c (Simple BigInt) None None None"
| "outline (ModifyColumnNullable t c n _ _) = ModifyColumnNullable t c n None None"
| "outline (ModifyColumnDefault t c d _) = ModifyColumnDefault t c d None"
| "outline (AddConstraint t k) = AddConstraint t (bare_constraint k)"
| "outline a = a"

text \<open>What stays after the fill values are set: all but type changes and backfills.\<close>

fun settled :: "migration_action \<Rightarrow> migration_action" where
  "settled (ModifyColumnType t c ty _ _ _) = ModifyColumnType t c ty None None None"
| "settled (ModifyColumnDefault t c d _) = ModifyColumnDefault t c d None"
| "settled a = a"

text \<open>After the enum labels are mapped, the strategies, time zones and backfills are still to come.\<close>

fun mapped_labels :: "migration_action \<Rightarrow> migration_action" where
  "mapped_labels (ModifyColumnType t c ty fw _ _) = ModifyColumnType t c ty fw None None"
| "mapped_labels (ModifyColumnDefault t c d _) = ModifyColumnDefault t c d None"
| "mapped_labels a = a"

fun with_strategies :: "migration_action \<Rightarrow> migration_action" where
  "with_strategies (ModifyColumnType t c ty fw s _) = ModifyColumnType t c ty fw s None"
| "with_strategies (ModifyColumnDefault t c d _) = ModifyColumnDefault t c d None"
| "with_strategies a = a"

fun with_timezones :: "migration_action \<Rightarrow> migration_action" where
  "with_timezones (ModifyColumnDefault t c d _) = ModifyColumnDefault t c d None"
| "with_timezones a = a"

lemma erase_types_update:
  "map (\<lambda>c. c\<lparr>col_type := T\<rparr>) (update_first P (\<lambda>c. c\<lparr>col_type := U\<rparr>) cs) = map (\<lambda>c. c\<lparr>col_type := T\<rparr>) cs"
  by (induction cs) auto

lemma outline_steps:
  "outline (fill_action vs a) = outline a" "outline (delete_nulls_action ks a) = outline a"
  "outline (mark_deletion ds a) = outline a" "outline (enum_fill_action ms a) = outline a"
  "outline (set_narrowing_strategy s a) = outline a" "outline (set_timezone z a) = outline a"
  "outline (backfill_action a) = outline a" "outline (widen_action col a) = outline a"
  by (induction vs a rule: fill_action.induct; simp) (cases a; simp add: erase_types_update)+

lemma outline_choices:
  "outline (set_unique_strategy uc a) = outline a" "outline (set_pk_strategy pc a) = outline a"
  "outline (set_orphan_strategy oc a) = outline a" "outline (set_check_strategy cc a) = outline a"
  by ((induction uc a rule: set_unique_strategy.induct; simp), (induction pc a rule: set_pk_strategy.induct; simp),
    (induction oc a rule: set_orphan_strategy.induct; simp), (induction cc a rule: set_check_strategy.induct; simp))

text \<open>The coarser views are functions of the finer ones.\<close>

lemma later_steps:
  "settled (enum_fill_action ms a) = settled a" "settled (set_narrowing_strategy s a) = settled a"
  "settled (set_timezone z a) = settled a" "settled (backfill_action a) = settled a"
  "mapped_labels (set_narrowing_strategy s a) = mapped_labels a" "mapped_labels (set_timezone z a) = mapped_labels a"
  "mapped_labels (backfill_action a) = mapped_labels a" "with_strategies (set_timezone z a) = with_strategies a"
  "with_strategies (backfill_action a) = with_strategies a" "with_timezones (backfill_action a) = with_timezones a"
  by (cases a; simp)+

section \<open>The plan that is written\<close>

lemma apply_default_view: "keeps view backfill_action \<Longrightarrow> plan_view view (apply_default_choice w c p) = plan_view view p"
  by (simp add: apply_default_choice_def plan_view_modify_at)

lemma apply_narrowing_each:
  "apply_narrowing_strategies_to_plan p ws ss =
    foldl (\<lambda>p x. modify_at (tnw_action_index (fst x)) (set_narrowing_strategy (snd x)) p) p (zip ws ss)"
  by (simp add: apply_narrowing_strategies_to_plan_def case_prod_unfold)

lemma apply_timezone_each:
  "apply_timezone_choices_to_plan p ws cs =
    foldl (\<lambda>p x. modify_at (tzw_action_index (fst x)) (set_timezone (snd x)) p) p (zip ws cs)"
  by (simp add: apply_timezone_choices_to_plan_def case_prod_unfold)

lemma apply_enum_each:
  "apply_enum_fill_with_to_plan p cs = foldl (\<lambda>p x. modify_at (fst x) (enum_fill_action (snd x)) p) p cs"
  by (simp add: apply_enum_fill_with_to_plan_def case_prod_unfold)

lemma narrowings_view:
  assumes "\<And>s. keeps view (set_narrowing_strategy s)" and "resolve_narrowings prompts base p = Go q"
  shows "plan_view view q = plan_view view p"
  using assms(2) by (auto simp: resolve_narrowings_def Let_def flow_Go apply_narrowing_each
      plan_view_modify_each [OF assms(1)] split: if_splits)

lemma timezones_view:
  assumes "\<And>z. keeps view (set_timezone z)" and "resolve_timezones prompts base p = Go q"
  shows "plan_view view q = plan_view view p"
  using assms(2) by (auto simp: resolve_timezones_def Let_def flow_Go apply_timezone_each
      plan_view_modify_each [OF assms(1)] split: if_splits)

lemma enum_fill_view:
  assumes "\<And>ms. keeps view (enum_fill_action ms)" and "handle_missing_enum_fill_with lev prompt p base = Inr q"
  shows "plan_view view q = plan_view view p"
  using assms(2) by (cases "collect_enum_fill_with_values lev prompt (find_missing_enum_fill_with p base)")
    (auto simp: handle_missing_enum_fill_with_def Let_def apply_enum_each plan_view_modify_each [OF assms(1)]
      split: if_splits)

lemma defaults_view:
  assumes "keeps view backfill_action" and "ask_each note prompt apply_default_choice ws p = Go q"
  shows "plan_view view q = plan_view view p"
  by (rule ask_each_view [OF _ assms(2)]) (rule apply_default_view [OF assms(1)])

text \<open>The plans in between, from the drops to the end.\<close>

lemma resolve_data_risks_steps:
  assumes "resolve_data_risks lev prompts base p = Go q"
  shows "\<exists>p1 p2 p3. handle_missing_enum_fill_with lev (rp_enum_bare prompts) p base = Inr p1 \<and>
    resolve_narrowings prompts base p1 = Go p2 \<and> resolve_timezones prompts base p2 = Go p3 \<and>
    ask_each ''Default-change resolution declined; no migration written.'' (rp_default_change prompts)
      apply_default_choice (find_default_changes p3 base) p3 = Go q"
  using assms by (auto simp: resolve_data_risks_def flow_Go)

lemma constraint_risks_outline:
  assumes "resolve_constraint_risks prompts base p = Go q"
  shows "plan_view outline q = plan_view outline p"
proof -
  have unique: "plan_view outline (apply_unique_addition_choice w c p) = plan_view outline p" for w c p
    by (simp add: apply_unique_addition_choice_def plan_view_modify_at keeps_def outline_choices)
  have orphan: "plan_view outline (apply_fk_orphan_addition_choice w c p) = plan_view outline p" for w c p
    by (simp add: apply_fk_orphan_addition_choice_def plan_view_modify_at keeps_def outline_choices)
  have check: "plan_view outline (apply_check_addition_choice w c p) = plan_view outline p" for w c p
    by (simp add: apply_check_addition_choice_def plan_view_modify_at keeps_def outline_choices)
  have key: "plan_view outline (apply_pk_addition_choice w c p) = plan_view outline p" for w c p
    by (simp add: apply_pk_addition_choice_def plan_view_modify_at keeps_def outline_choices)
  have sequence: "plan_view outline (apply_sequence_exhaustion_choice w c p) = plan_view outline p" for w c p
    by (simp add: apply_sequence_exhaustion_choice_def plan_view_modify_at keeps_def outline_steps)
  have kept: "plan_view outline (keep_plan w c p) = plan_view outline p" for w :: 'w and c :: 'c and p
    by (simp add: keep_plan_def)
  note each = ask_each_view [OF unique] ask_each_view [OF orphan] ask_each_view [OF check] ask_each_view [OF key]
    ask_each_view [OF sequence] ask_each_view [OF kept]
  show ?thesis using assms by (auto simp: resolve_constraint_risks_def flow_Go dest!: each)
qed

lemma handle_deletions_view:
  assumes "\<And>ds. keeps view (mark_deletion ds)" and "handle_delete_null_rows prompt ks p missing = Inr (q, rest)"
  shows "plan_view view q = plan_view view p"
  using assms(2) by (cases "split_deletions prompt ks missing")
    (auto simp: handle_delete_null_rows_def plan_view_map [OF assms(1)])

lemma fill_missing_outline:
  assumes "fill_missing_values prompts fills deletes base p = Inr q"
  shows "plan_view outline q = plan_view outline p"
proof -
  have fill: "plan_view outline (apply_fill_with_to_plan p vs) = plan_view outline p" for p vs
    by (simp add: apply_fill_with_to_plan_def plan_view_map keeps_def outline_steps)
  have deletion: "plan_view outline (apply_delete_null_rows_to_plan p ks) = plan_view outline p" for p ks
    by (simp add: apply_delete_null_rows_to_plan_def plan_view_map keeps_def outline_steps)
  have marks: "keeps outline (mark_deletion ds)" for ds by (simp add: keeps_def outline_steps)
  let ?p1 = "apply_delete_null_rows_to_plan (apply_fill_with_to_plan p (parse_fill_with_args fills))
      (parse_delete_null_rows_args deletes)"
  obtain p2 rest where p2: "(p2 = ?p1 \<or> handle_delete_null_rows (rp_delete_null_rows prompts)
      (parse_delete_null_rows_args deletes) ?p1 (find_missing_fill_with ?p1 base) = Inr (p2, rest))"
    and q: "q = p2 \<or> (\<exists>vs. q = apply_fill_with_to_plan p2 vs)"
    using assms by (auto simp: fill_missing_values_def Let_def map_sum_def split: if_splits sum.splits prod.splits)
  have "plan_view outline p2 = plan_view outline ?p1" using p2 handle_deletions_view [OF marks] by blast
  then show ?thesis using q fill deletion by metis
qed

lemma resolve_plan_steps:
  assumes "resolve_plan lev prompts fills deletes base p = Go q"
  shows "\<exists>p1 p2 p3. resolve_drops prompts base p = Go p1 \<and> find_dangling_fk_drops p1 base = [] \<and>
    resolve_constraint_risks prompts base p1 = Go p2 \<and>
    fill_missing_values prompts fills deletes base p2 = Inr p3 \<and> resolve_data_risks lev prompts base p3 = Go q"
  using assms by (auto simp: resolve_plan_def flow_Go ensure_no_dangling_fk_drops_def dangling_drops_to_planner_error_def
      split: if_splits)

lemma data_risks_view:
  assumes "resolve_data_risks lev prompts base p = Go q"
  shows "plan_view outline q = plan_view outline p" and "plan_view settled q = plan_view settled p"
proof -
  obtain p1 p2 p3 where steps: "handle_missing_enum_fill_with lev (rp_enum_bare prompts) p base = Inr p1"
      "resolve_narrowings prompts base p1 = Go p2" "resolve_timezones prompts base p2 = Go p3"
      "ask_each ''Default-change resolution declined; no migration written.'' (rp_default_change prompts)
        apply_default_choice (find_default_changes p3 base) p3 = Go q"
    using resolve_data_risks_steps [OF assms] by blast
  have "plan_view view q = plan_view view p" if "\<And>ms. keeps view (enum_fill_action ms)"
      "\<And>s. keeps view (set_narrowing_strategy s)" "\<And>z. keeps view (set_timezone z)" "keeps view backfill_action"
    for view :: "migration_action \<Rightarrow> migration_action"
    using enum_fill_view [OF that(1) steps(1)] narrowings_view [OF that(2) steps(2)] timezones_view [OF that(3) steps(3)]
      defaults_view [OF that(4) steps(4)] by simp
  then show "plan_view outline q = plan_view outline p" "plan_view settled q = plan_view settled p"
    by (simp_all add: keeps_def outline_steps later_steps)
qed

lemma resolved_outline:
  assumes "resolve_plan lev prompts fills deletes base p = Go q"
  shows "\<exists>p1. resolve_drops prompts base p = Go p1 \<and> find_dangling_fk_drops p1 base = [] \<and>
    plan_view outline q = plan_view outline p1"
proof -
  obtain p1 p2 p3 where steps: "resolve_drops prompts base p = Go p1" "find_dangling_fk_drops p1 base = []"
      "resolve_constraint_risks prompts base p1 = Go p2"
      "fill_missing_values prompts fills deletes base p2 = Inr p3" "resolve_data_risks lev prompts base p3 = Go q"
    using resolve_plan_steps [OF assms] by blast
  show ?thesis
    using steps(1,2) constraint_risks_outline [OF steps(3)] fill_missing_outline [OF steps(4)] data_risks_view(1) [OF steps(5)]
    by auto
qed

end
