(* ===== verification/Revision_Safety.thy ===== *)
theory Revision_Safety
  imports Revision_Laws
begin

text \<open>
  The guarantees of a written revision: no missing fill value, no unmapped enum label, no dangling foreign
  key, a strategy for every narrowing, a time zone for every conversion, and a file of its own.
\<close>

section \<open>Missing fill values\<close>

definition fill_key :: "fill_with_required \<Rightarrow> string \<times> string" where
  "fill_key item = (fwr_table item, fwr_column item)"

lemma split_deletions_spec:
  assumes "split_deletions prompt ks missing = Inr (ds, rest)" and "item \<in> set missing"
  shows "item \<in> set rest \<or> fill_key item \<in> set ds \<and> (fwr_has_foreign_key item \<or> fill_key item \<in> ks)"
  using assms
proof (induction missing arbitrary: ds rest)
  case (Cons x missing)
  let ?key = "(fwr_table x, fwr_column x)"
  obtain yes where yes: "(if fwr_has_foreign_key x \<and> ?key \<notin> ks then prompt (fwr_table x) (fwr_column x)
      else Inr (?key \<in> ks)) = Inr yes"
    using Cons.prems(1) by (auto simp: Let_def split: sum.splits if_splits)
  obtain ds' rest' where tail: "split_deletions prompt ks missing = Inr (ds', rest')"
    using Cons.prems(1) yes by (cases "split_deletions prompt ks missing") (auto simp: Let_def)
  have "(ds, rest) = (if yes then (?key # ds', rest') else (ds', x # rest'))"
    using Cons.prems(1) yes tail by (simp add: Let_def)
  then show ?case
    using Cons.IH [OF tail] Cons.prems(2) yes by (auto simp: fill_key_def split: if_splits)
qed simp

lemma collect_fill_spec:
  assumes "collect_fill_with_values f g missing vs = Inr ws"
  shows "(\<forall>k. vs k \<noteq> None \<longrightarrow> ws k \<noteq> None) \<and> (\<forall>item \<in> set missing. ws (fill_key item) \<noteq> None)"
  using assms
proof (induction missing arbitrary: vs)
  case (Cons item missing)
  obtain v where "collect_fill_with_values f g missing (vs(fill_key item \<mapsto> v)) = Inr ws"
    using Cons.prems by (auto simp: Let_def fill_key_def split: sum.splits)
  from Cons.IH [OF this] have "\<forall>k. (vs(fill_key item \<mapsto> v)) k \<noteq> None \<longrightarrow> ws k \<noteq> None"
      "\<forall>item \<in> set missing. ws (fill_key item) \<noteq> None" by blast+
  then show ?case by (metis fun_upd_apply option.distinct(1) set_ConsD)
qed simp

text \<open>Filling and marking only take items from the list.\<close>

lemma missing_after_fill:
  assumes "missing_fill_with_for_action i (fill_action vs (mark_deletion ds b)) s \<noteq> None"
  shows "\<exists>item. missing_fill_with_for_action i b s = Some item \<and> vs (fill_key item) = None \<and>
    (fill_key item \<in> set ds \<longrightarrow> (\<exists>t c. b = AddColumn t c None) \<and> \<not> fwr_has_foreign_key item)"
proof (cases b)
  case (AddColumn t c f)
  then show ?thesis using assms by (cases f) (auto simp: fill_key_def split: if_splits)
next
  case (ModifyColumnNullable t c n f d)
  then show ?thesis
    using assms by (cases f) (auto simp: fill_key_def Let_def split: if_splits option.splits prod.splits)
qed (use assms in simp_all)

lemma missing_item_listed:
  assumes "b \<in> set (plan_actions p)" and "\<And>i. missing_fill_with_for_action i b s \<noteq> None"
  shows "\<exists>i item. missing_fill_with_for_action i b s = Some item \<and> item \<in> set (find_missing_fill_with p s)"
proof -
  obtain i where i: "(i, b) \<in> set (enumerated (plan_actions p))" using assms(1) enumerated_iff by metis
  obtain item where "missing_fill_with_for_action i b s = Some item" using assms(2) by blast
  then show ?thesis using i by (force simp: find_missing_fill_with_def set_map_filter)
qed

lemma missing_index_free:
  "missing_fill_with_for_action i a s \<noteq> None \<Longrightarrow> missing_fill_with_for_action j a s \<noteq> None"
  using missing_fill_error_iff [of a i s] missing_fill_error_iff [of a j s]
  by (cases a) (auto simp: Let_def split: if_splits option.splits prod.splits)

definition deleted_without_value :: "(string \<times> string) set \<Rightarrow> migration_action \<Rightarrow> bool" where
  "deleted_without_value ks a \<longleftrightarrow> (\<exists>t c. a = AddColumn t c None \<and> (t, col_name c) \<in> ks)"

lemma fill_missing_complete:
  assumes filled: "fill_missing_values prompts fills deletes base p = Inr q"
    and a: "a \<in> set (plan_actions q)" "missing_fill_with_for_action i a base \<noteq> None"
  shows "deleted_without_value (parse_delete_null_rows_args deletes) a"
proof -
  let ?ks = "parse_delete_null_rows_args deletes" and ?vs = "parse_fill_with_args fills"
  let ?p1 = "apply_delete_null_rows_to_plan (apply_fill_with_to_plan p ?vs) ?ks"
  let ?m = "find_missing_fill_with ?p1 base"
  have listed: "\<exists>i item. missing_fill_with_for_action i b base = Some item \<and> item \<in> set ?m"
    if "b \<in> set (plan_actions ?p1)" "missing_fill_with_for_action i b base \<noteq> None" for b i
    using missing_item_listed [OF that(1)] missing_index_free [OF that(2)] by blast
  show ?thesis
  proof (cases "?m = []")
    case True
    then have "q = ?p1" using filled by (simp add: fill_missing_values_def Let_def)
    then show ?thesis using listed [of a i] a True by simp
  next
    case False
    obtain ds rest where split: "split_deletions (rp_delete_null_rows prompts) ?ks ?m = Inr (ds, rest)"
      using filled False by (cases "split_deletions (rp_delete_null_rows prompts) ?ks ?m")
        (auto simp: fill_missing_values_def Let_def handle_delete_null_rows_def)
    let ?p2 = "?p1\<lparr>plan_actions := map (mark_deletion ds) (plan_actions ?p1)\<rparr>"
    have q: "(if rest = [] then Inr ?p2 else map_sum id (apply_fill_with_to_plan ?p2)
        (collect_fill_with_values (rp_fill_with prompts) (rp_enum_quoted prompts) rest ?vs)) = Inr q"
      using filled False split by (simp add: fill_missing_values_def Let_def handle_delete_null_rows_def)
    obtain ws where ws: "\<forall>item \<in> set rest. ws (fill_key item) \<noteq> None"
        "plan_actions q = map (fill_action ws) (plan_actions ?p2)"
    proof (cases "rest = []")
      case True
      have "fill_action Map.empty x = x" for x by (induction "Map.empty :: fill_values" x rule: fill_action.induct) simp_all
      then have "plan_actions q = map (fill_action Map.empty) (plan_actions ?p2)" using q True by (simp add: map_idI)
      then show thesis using True that [of Map.empty] by simp
    next
      case False
      then obtain ws where "collect_fill_with_values (rp_fill_with prompts) (rp_enum_quoted prompts) rest ?vs = Inr ws"
          "q = apply_fill_with_to_plan ?p2 ws"
        using q by (cases "collect_fill_with_values (rp_fill_with prompts) (rp_enum_quoted prompts) rest ?vs") auto
      then show thesis using collect_fill_spec that by (simp add: apply_fill_with_to_plan_def) metis
    qed
    obtain b where b: "b \<in> set (plan_actions ?p1)" "a = fill_action ws (mark_deletion ds b)"
      using a(1) ws(2) by auto
    obtain item0 where item0: "missing_fill_with_for_action i b base = Some item0"
      using missing_after_fill [of i ws ds b base] a(2) b(2) by blast
    then obtain j item where item: "missing_fill_with_for_action j b base = Some item" "item \<in> set ?m"
      using listed [OF b(1), of i] by auto
    have "missing_fill_with_for_action j a base \<noteq> None" using missing_index_free [OF a(2)] .
    then have left: "ws (fill_key item) = None"
        "fill_key item \<in> set ds \<longrightarrow> (\<exists>t c. b = AddColumn t c None) \<and> \<not> fwr_has_foreign_key item"
      using missing_after_fill [of j ws ds b base] b(2) item(1) by auto
    then have "fill_key item \<in> set ds \<and> fill_key item \<in> ?ks"
      using split_deletions_spec [OF split item(2)] ws(1) by auto
    then obtain t c where "b = AddColumn t c None" "fill_key item \<in> ?ks" using left by blast
    then show ?thesis
      using item(1) b(2) left(1) by (auto simp: deleted_without_value_def fill_key_def split: if_splits)
  qed
qed

lemma missing_of_settled: "missing_fill_with_for_action i (settled a) s = missing_fill_with_for_action i a s"
  by (cases a) simp_all

lemma resolved_fill_values:
  assumes "resolve_plan lev prompts fills deletes base p = Go q" and "a \<in> set (plan_actions q)"
    and "missing_fill_with_for_action i a base \<noteq> None"
  shows "deleted_without_value (parse_delete_null_rows_args deletes) a"
proof -
  obtain p2 p3 where steps: "fill_missing_values prompts fills deletes base p2 = Inr p3" "resolve_data_risks lev prompts base p3 = Go q"
    using resolve_plan_steps [OF assms(1)] by blast
  obtain b where b: "b \<in> set (plan_actions p3)" "settled a = settled b"
    using plan_view_member [OF data_risks_view(2) [OF steps(2)] assms(2)] by blast
  then have "missing_fill_with_for_action i b base \<noteq> None"
    using assms(3) missing_of_settled by metis
  then have "deleted_without_value (parse_delete_null_rows_args deletes) b"
    by (rule fill_missing_complete [OF steps(1) b(1)])
  then show ?thesis using b(2) by (cases a) (auto simp: deleted_without_value_def)
qed

section \<open>Changes at the indices of warnings\<close>

lemma length_modify_at [simp]: "length (plan_actions (modify_at i f p)) = length (plan_actions p)"
  by (simp add: modify_at_def)

lemma nth_modify_at:
  "j < length (plan_actions p) \<Longrightarrow> plan_actions (modify_at i f p) ! j =
    (if i = j then f (plan_actions p ! j) else plan_actions p ! j)"
  by (simp add: modify_at_def)

lemma modify_each_nth:
  assumes "distinct (map ix ys)" and "j < length (plan_actions p)"
  shows "plan_actions (foldl (\<lambda>p y. modify_at (ix y) (h y) p) p ys) ! j =
    (case find (\<lambda>y. ix y = j) ys of None \<Rightarrow> plan_actions p ! j | Some y \<Rightarrow> h y (plan_actions p ! j))"
  using assms
proof (induction ys arbitrary: p)
  case (Cons y ys)
  have "find (\<lambda>y. ix y = j) ys = None" if "ix y = j"
    using Cons.prems(1) that by (auto simp: find_None_iff) (metis imageI)
  then show ?case using Cons by (auto simp: nth_modify_at split: option.splits)
qed simp

lemma modify_each_length [simp]:
  "length (plan_actions (foldl (\<lambda>p y. modify_at (ix y) (h y) p) p ys)) = length (plan_actions p)"
  by (induction ys arbitrary: p) simp_all

text \<open>The warnings of a plan have the indices of their actions, in order.\<close>

lemma map_filter_indices:
  assumes "\<And>e w. f e = Some w \<Longrightarrow> ix w = fst e"
  shows "distinct (map ix (List.map_filter f (enumerated xs)))"
proof -
  have "map ix (List.map_filter f es) = map fst (filter (\<lambda>e. f e \<noteq> None) es)" for es
    using assms by (induction es) (auto simp: List.map_filter_simps split: option.splits)
  moreover have "distinct (map fst (enumerated xs))" by (simp add: enumerated_def)
  ultimately show ?thesis by (simp add: distinct_map_filter)
qed

lemma map_filter_find:
  assumes "\<And>e w. f e = Some w \<Longrightarrow> ix w = fst e" and "j < length xs"
  shows "find (\<lambda>w. ix w = j) (List.map_filter f (enumerated xs)) = f (j, xs ! j)"
proof (cases "f (j, xs ! j)")
  case None
  then show ?thesis
    using assms(1) by (fastforce simp: find_None_iff set_map_filter set_enumerated)
next
  case (Some w)
  let ?ws = "List.map_filter f (enumerated xs)"
  have w: "w \<in> set ?ws" "ix w = j" using Some assms by (force simp: set_map_filter set_enumerated)+
  then obtain w' where w': "find (\<lambda>w. ix w = j) ?ws = Some w'" by (cases "find (\<lambda>w. ix w = j) ?ws") (auto simp: find_None_iff)
  then have "w' \<in> set ?ws" "ix w' = j" by (auto simp: find_Some_iff)
  then have "w' = w"
    using w map_filter_indices [where f = f and ix = ix and xs = xs, OF assms(1)] by (auto simp: distinct_map dest: inj_onD)
  then show ?thesis using w' Some by simp
qed

text \<open>One choice per warning, applied at the index of the warning.\<close>

lemma find_zip:
  "length xs = length ys \<Longrightarrow> map_option fst (find (\<lambda>x. P (fst x)) (zip xs ys)) = find P xs"
  by (induction rule: list_induct2) auto

lemma warned_change:
  assumes ix: "\<And>e w. f e = Some w \<Longrightarrow> ix w = fst e" and ws: "ws = List.map_filter f (enumerated (plan_actions p))"
    and len: "length ws = length cs" and j: "j < length (plan_actions p)"
    and q: "q = foldl (\<lambda>p x. modify_at (ix (fst x)) (h (snd x)) p) p (zip ws cs)"
  shows "case f (j, plan_actions p ! j) of
      None \<Rightarrow> plan_actions q ! j = plan_actions p ! j
    | Some w \<Rightarrow> \<exists>c. (w, c) \<in> set (zip ws cs) \<and> plan_actions q ! j = h c (plan_actions p ! j)"
proof -
  have "map (\<lambda>x. ix (fst x)) (zip ws cs) = map ix ws"
    using len by (induction rule: list_induct2) simp_all
  then have "distinct (map (\<lambda>x. ix (fst x)) (zip ws cs))"
    using map_filter_indices [where f = f and ix = ix, OF ix] by (simp add: ws)
  note at = modify_each_nth [OF this j, of "\<lambda>x. h (snd x)", folded q]
  have "find (\<lambda>w. ix w = j) ws = f (j, plan_actions p ! j)" unfolding ws by (rule map_filter_find [OF ix j])
  then have found: "map_option fst (find (\<lambda>x. ix (fst x) = j) (zip ws cs)) = f (j, plan_actions p ! j)"
    using find_zip [OF len, of "\<lambda>w. ix w = j"] by simp
  show ?thesis
  proof (cases "find (\<lambda>x. ix (fst x) = j) (zip ws cs)")
    case None
    then show ?thesis using found at by simp
  next
    case (Some x)
    then have "x \<in> set (zip ws cs)" by (metis find_Some_iff nth_mem)
    then have "\<exists>c. (fst x, c) \<in> set (zip ws cs) \<and> plan_actions q ! j = h c (plan_actions p ! j)"
      using at Some by (intro exI [of _ "snd x"]) simp
    then show ?thesis using found [symmetric] Some by simp
  qed
qed

section \<open>Enum labels\<close>

lemma om_extend_contains: "om_contains (om_extend m es) k \<longleftrightarrow> om_contains m k \<or> om_contains es k"
  unfolding om_extend_def om_contains_def om_lookup_def
  by (induction es arbitrary: m) (auto simp flip: om_lookup_def simp: om_lookup_insert)

lemma collect_mappings_spec:
  assumes "collect_mappings lev prompt item rs ms = Inr ms'"
  shows "\<forall>k. om_contains ms k \<or> k \<in> set rs \<longrightarrow> om_contains ms' k"
  using assms
proof (induction rs arbitrary: ms)
  case (Cons r rs)
  obtain v where "collect_mappings lev prompt item rs (om_insert r (strip_enum_quotes v) ms) = Inr ms'"
    using Cons.prems by (auto simp: Let_def split: sum.splits)
  from Cons.IH [OF this] show ?case by (auto simp: om_contains_def om_lookup_insert)
qed simp

lemma mapped_action_covered:
  assumes "missing_enum_fill_with_for_action j a s = Some item" and "\<forall>r \<in> set (efr_removed_values item). om_contains ms r"
  shows "missing_enum_fill_with_for_action j (enum_fill_action ms a) s = None"
proof (cases a)
  case (ModifyColumnType t c ty fw ns tz)
  obtain m old n new where types: "map_option col_type (find_baseline_column s t c) = Some (column_type.Complex (Enum m (EnumString old)))"
      "ty = column_type.Complex (Enum n (EnumString new))"
    using assms(1) by (auto simp: ModifyColumnType Let_def split: option.splits column_type.splits
        complex_column_type.splits enum_values.splits)
  let ?removed = "filter (\<lambda>v. v \<notin> set new) old"
  have "efr_removed_values item = (case fw of Some fw \<Rightarrow> filter (\<lambda>r. \<not> om_contains fw r) ?removed | None \<Rightarrow> ?removed)"
    using assms(1) unfolding ModifyColumnType types(2) missing_enum_fill_with_for_action.simps types(1) Let_def
    by (auto split: if_splits)
  then have "\<forall>r \<in> set ?removed. om_contains (case fw of Some e \<Rightarrow> om_extend e ms | None \<Rightarrow> ms) r"
    using assms(2) by (auto simp: om_extend_contains split: option.splits)
  then have "list_all (om_contains (case fw of Some e \<Rightarrow> om_extend e ms | None \<Rightarrow> ms)) ?removed"
    by (simp add: list_all_iff)
  then show ?thesis
    unfolding ModifyColumnType types(2) enum_fill_action.simps missing_enum_fill_with_for_action.simps types(1) Let_def
    by simp
qed (use assms in simp_all)

lemma missing_enum_index: "missing_enum_fill_with_for_action i a s = Some item \<Longrightarrow> efr_action_index item = i"
  by (cases a) (auto simp: Let_def split: option.splits column_type.splits complex_column_type.splits
      enum_values.splits if_splits)

definition enum_at :: "table_def list \<Rightarrow> nat \<times> migration_action \<Rightarrow> enum_fill_with_required option" where
  "enum_at base e = missing_enum_fill_with_for_action (fst e) (snd e) base"

lemma missing_enum_list: "find_missing_enum_fill_with p base = List.map_filter (enum_at base) (enumerated (plan_actions p))"
  unfolding find_missing_enum_fill_with_def enum_at_def by (simp add: case_prod_unfold)

lemma find_pairs:
  "list_all2 (\<lambda>x y. R x y \<and> ix x = fst y) xs ys \<Longrightarrow>
    rel_option (\<lambda>x y. R x y \<and> ix x = fst y) (find (\<lambda>x. ix x = j) xs) (find (\<lambda>y. fst y = j) ys)"
  by (induction rule: list_all2_induct) auto

lemma enum_labels_mapped:
  assumes "handle_missing_enum_fill_with lev prompt p base = Inr q"
  shows "find_missing_enum_fill_with q base = []"
proof (cases "find_missing_enum_fill_with p base = []")
  case True
  then show ?thesis using assms by (simp add: handle_missing_enum_fill_with_def)
next
  case False
  let ?items = "find_missing_enum_fill_with p base"
  obtain cs where cs: "collect_enum_fill_with_values lev prompt ?items = Inr cs" "q = apply_enum_fill_with_to_plan p cs"
    using assms False by (cases "collect_enum_fill_with_values lev prompt ?items")
      (auto simp: handle_missing_enum_fill_with_def Let_def)
  have "list_all2 (\<lambda>item y. (\<forall>r \<in> set (efr_removed_values item). om_contains (snd y) r) \<and> efr_action_index item = fst y) ?items cs"
    using cs(1) unfolding collect_enum_fill_with_values_def collect_results_Inr
    by (rule list_all2_mono) (auto simp: map_sum_def dest: collect_mappings_spec split: sum.splits)
  note pairs = find_pairs [OF this]
  have index: "enum_at base e = Some w \<Longrightarrow> efr_action_index w = fst e" for e w
    by (simp add: enum_at_def missing_enum_index)
  have "map efr_action_index ?items = map fst cs"
    using \<open>list_all2 _ ?items cs\<close> by (induction rule: list_all2_induct) auto
  then have distinct: "distinct (map fst cs)"
    using map_filter_indices [where f = "enum_at base" and ix = efr_action_index and xs = "plan_actions p", OF index]
    by (simp add: missing_enum_list)
  have "enum_at base (j, plan_actions q ! j) = None" if "j < length (plan_actions p)" for j
  proof -
    have found: "find (\<lambda>x. efr_action_index x = j) ?items = enum_at base (j, plan_actions p ! j)"
      unfolding missing_enum_list by (rule map_filter_find [OF index that])
    have "plan_actions q ! j = (case find (\<lambda>y. fst y = j) cs of None \<Rightarrow> plan_actions p ! j
        | Some y \<Rightarrow> enum_fill_action (snd y) (plan_actions p ! j))"
      unfolding cs(2) apply_enum_each by (rule modify_each_nth [OF distinct that])
    then show ?thesis
      using pairs [of j] mapped_action_covered [of j "plan_actions p ! j" base]
      unfolding found by (auto simp: enum_at_def option.rel_sel split: option.splits)
  qed
  moreover have "length (plan_actions q) = length (plan_actions p)" unfolding cs(2) apply_enum_each by simp
  ultimately show ?thesis
    unfolding missing_enum_list map_filter_empty set_enumerated by auto
qed

lemma missing_enum_mapped: "missing_enum_fill_with_for_action i (mapped_labels a) s = missing_enum_fill_with_for_action i a s"
  by (cases a) simp_all

lemma resolved_enum_labels:
  assumes "resolve_plan lev prompts fills deletes base p = Go q"
  shows "find_missing_enum_fill_with q base = []"
proof -
  obtain p3 where "resolve_data_risks lev prompts base p3 = Go q" using resolve_plan_steps [OF assms] by blast
  then obtain p1 p2 p4 where steps: "handle_missing_enum_fill_with lev (rp_enum_bare prompts) p3 base = Inr p1"
      "resolve_narrowings prompts base p1 = Go p2" "resolve_timezones prompts base p2 = Go p4"
      "ask_each ''Default-change resolution declined; no migration written.'' (rp_default_change prompts)
        apply_default_choice (find_default_changes p4 base) p4 = Go q"
    using resolve_data_risks_steps by blast
  have "plan_view mapped_labels q = plan_view mapped_labels p1"
    using narrowings_view [OF _ steps(2), of mapped_labels] timezones_view [OF _ steps(3), of mapped_labels]
      defaults_view [OF _ steps(4), of mapped_labels]
    by (simp add: keeps_def later_steps)
  note same = plan_view_nth [OF this]
  have "missing_enum_fill_with_for_action j (plan_actions q ! j) base = None" if j: "j < length (plan_actions q)" for j
  proof -
    have "enum_at base (j, plan_actions p1 ! j) = None"
      using enum_labels_mapped [OF steps(1)] same j unfolding missing_enum_list map_filter_empty set_enumerated by auto
    then show ?thesis using same j missing_enum_mapped by (metis enum_at_def fst_conv snd_conv)
  qed
  then show ?thesis unfolding missing_enum_list map_filter_empty set_enumerated by (auto simp: enum_at_def)
qed

section \<open>Narrowed types\<close>

text \<open>The strategies that the menu of a narrowing offers.\<close>

fun offered :: "narrowing_kind \<Rightarrow> narrowing_strategy \<Rightarrow> bool" where
  "offered kind Truncate = (''truncate'' \<in> set (applicable_strategies kind))"
| "offered kind DeleteRow = (''delete'' \<in> set (applicable_strategies kind))"
| "offered kind (SetToValue _) = (''set_to_value'' \<in> set (applicable_strategies kind))"

definition menu_answers :: "(type_narrowing_warning \<Rightarrow> error_chain + nat) \<Rightarrow> bool" where
  "menu_answers select \<longleftrightarrow>
     (\<forall>w i. select w = Inr i \<longrightarrow> applicable_strategies (tnw_kind w) \<noteq> [] \<longrightarrow> i < length (applicable_strategies (tnw_kind w)))"

lemma strategy_offered:
  assumes "strategy_of_choice (applicable_strategies kind ! i) kind typed = Inr s" and "i < length (applicable_strategies kind)"
  shows "offered kind s"
  using assms by (cases typed; cases kind)
    (auto simp: strategy_of_choice_def less_Suc_eq nth_Cons' split: if_splits)

lemma prompted_strategies_offered:
  assumes "prompt_type_narrowings select input ws = Inr (Some ss)" and "menu_answers select"
  shows "list_all2 (\<lambda>w s. offered (tnw_kind w) s) ws ss"
  using assms(1)
proof (induction ws arbitrary: ss)
  case (Cons w ws)
  then have some: "applicable_strategies (tnw_kind w) \<noteq> []" by (auto simp: Let_def split: if_splits)
  then obtain i s where first: "select w = Inr i" "strategy_of_choice (applicable_strategies (tnw_kind w) ! i) (tnw_kind w) (input w) = Inr s"
    using Cons.prems by (auto simp: Let_def split: sum.splits)
  obtain ss' where rest: "prompt_type_narrowings select input ws = Inr (Some ss')" "ss = s # ss'"
    using Cons.prems first by (cases "prompt_type_narrowings select input ws") (auto simp: Let_def split: if_splits)
  then show ?case
    using Cons.IH [OF rest(1)] strategy_offered [OF first(2)] first(1) assms(2) some by (simp add: menu_answers_def)
qed simp

fun strategy_of :: "migration_action \<Rightarrow> narrowing_strategy option" where
  "strategy_of (ModifyColumnType _ _ _ _ s _) = s"
| "strategy_of _ = None"

lemma narrowing_views:
  "type_narrowing_of base (j, set_narrowing_strategy s a) = type_narrowing_of base (j, a)"
  "type_narrowing_of base (j, with_strategies a) = type_narrowing_of base (j, a)"
  "strategy_of (with_strategies a) = strategy_of a"
  by (cases a; simp add: type_narrowing_of_def)+

lemma narrowing_index: "type_narrowing_of base e = Some w \<Longrightarrow> tnw_action_index w = fst e"
  by (auto simp: type_narrowing_of_def split: prod.splits migration_action.splits option.splits)

lemma narrowings_have_strategies:
  assumes "resolve_narrowings prompts base p = Go q" and "j < length (plan_actions p)"
    and "rp_type_narrowing prompts = prompt_type_narrowings select input" and "menu_answers select"
    and "type_narrowing_of base (j, plan_actions q ! j) = Some w"
  shows "\<exists>s. strategy_of (plan_actions q ! j) = Some s \<and> offered (tnw_kind w) s"
proof -
  let ?ws = "find_type_narrowings p base"
  have found: "find (\<lambda>w. tnw_action_index w = j) ?ws = type_narrowing_of base (j, plan_actions p ! j)"
    unfolding find_type_narrowings_def by (rule map_filter_find [OF narrowing_index assms(2)])
  show ?thesis
  proof (cases "?ws = []")
    case True
    then have "q = p" using assms(1) by (simp add: resolve_narrowings_def)
    then show ?thesis using assms(5) found True by simp
  next
    case False
    then obtain ss where ss: "prompt_type_narrowings select input ?ws = Inr (Some ss)"
        "q = apply_narrowing_strategies_to_plan p ?ws ss"
      using assms(1,3) by (auto simp: resolve_narrowings_def Let_def flow_Go)
    have offers: "list_all2 (\<lambda>w s. offered (tnw_kind w) s) ?ws ss"
      by (rule prompted_strategies_offered [OF ss(1) assms(4)])
    have "case type_narrowing_of base (j, plan_actions p ! j) of
        None \<Rightarrow> plan_actions q ! j = plan_actions p ! j
      | Some w \<Rightarrow> \<exists>s. (w, s) \<in> set (zip ?ws ss) \<and> plan_actions q ! j = set_narrowing_strategy s (plan_actions p ! j)"
      by (rule warned_change [where f = "type_narrowing_of base" and ix = tnw_action_index, OF narrowing_index])
        (use ss(2) assms(2) list_all2_lengthD [OF offers] in \<open>simp_all add: find_type_narrowings_def apply_narrowing_each\<close>)
    then obtain s where s: "(w, s) \<in> set (zip ?ws ss)" "plan_actions q ! j = set_narrowing_strategy s (plan_actions p ! j)"
      and old: "type_narrowing_of base (j, plan_actions p ! j) = Some w"
      using assms(5) by (auto simp: narrowing_views split: option.splits)
    have "offered (tnw_kind w) s" using offers s(1) by (auto simp: list_all2_iff)
    moreover have "strategy_of (plan_actions q ! j) = Some s"
      using s(2) old by (cases "plan_actions p ! j") (auto simp: type_narrowing_of_def)
    ultimately show ?thesis by blast
  qed
qed

lemma resolved_narrowings:
  assumes "resolve_plan lev prompts fills deletes base p = Go q"
    and "rp_type_narrowing prompts = prompt_type_narrowings select input" and "menu_answers select"
    and j: "j < length (plan_actions q)" and "type_narrowing_of base (j, plan_actions q ! j) = Some w"
  shows "\<exists>s. strategy_of (plan_actions q ! j) = Some s \<and> offered (tnw_kind w) s"
proof -
  obtain p3 where "resolve_data_risks lev prompts base p3 = Go q" using resolve_plan_steps [OF assms(1)] by blast
  then obtain p1 p2 p4 where steps: "resolve_narrowings prompts base p1 = Go p2" "resolve_timezones prompts base p2 = Go p4"
      "ask_each ''Default-change resolution declined; no migration written.'' (rp_default_change prompts)
        apply_default_choice (find_default_changes p4 base) p4 = Go q"
    using resolve_data_risks_steps by blast
  have "plan_view with_strategies q = plan_view with_strategies p2"
    using timezones_view [OF _ steps(2), of with_strategies] defaults_view [OF _ steps(3), of with_strategies]
    by (simp add: keeps_def later_steps)
  note same = plan_view_nth [OF this]
  have "plan_view (\<lambda>_. ()) p2 = plan_view (\<lambda>_. ()) p1"
    by (rule narrowings_view [OF _ steps(1)]) (simp add: keeps_def)
  then have "j < length (plan_actions p1)" using plan_view_nth j same by metis
  moreover have "type_narrowing_of base (j, plan_actions p2 ! j) = Some w" using assms(5) same j narrowing_views(2) by metis
  ultimately have "\<exists>s. strategy_of (plan_actions p2 ! j) = Some s \<and> offered (tnw_kind w) s"
    using narrowings_have_strategies [OF steps(1) _ assms(2,3)] by blast
  then show ?thesis using same j narrowing_views(3) by metis
qed

section \<open>Time zones\<close>

definition open_conversion :: "table_def list \<Rightarrow> nat \<times> migration_action \<Rightarrow> timezone_conversion_warning option" where
  "open_conversion base e =
     (case timezone_conversion_of base e of
        Some w \<Rightarrow> if tzw_current_timezone w = None then Some w else None | None \<Rightarrow> None)"

lemma filter_map_filter:
  "filter P (List.map_filter f xs) = List.map_filter (\<lambda>x. case f x of Some w \<Rightarrow> if P w then Some w else None | None \<Rightarrow> None) xs"
  by (induction xs) (auto simp: List.map_filter_simps split: option.splits)

lemma unresolved_list: "unresolved_timezones p base = List.map_filter (open_conversion base) (enumerated (plan_actions p))"
  by (simp add: unresolved_timezones_def find_timezone_conversions_def filter_map_filter open_conversion_def [abs_def])

lemma conversion_index: "open_conversion base e = Some w \<Longrightarrow> tzw_action_index w = fst e"
  by (auto simp: open_conversion_def timezone_conversion_of_def split: prod.splits migration_action.splits option.splits if_splits)

fun timezone_of :: "migration_action \<Rightarrow> string option" where
  "timezone_of (ModifyColumnType _ _ _ _ _ z) = z"
| "timezone_of _ = None"

lemma conversion_open: "open_conversion base (j, a) = Some w \<Longrightarrow> timezone_of a = None"
  "timezone_conversion_of base (j, a) \<noteq> None \<Longrightarrow> timezone_of a = None \<Longrightarrow> open_conversion base (j, a) \<noteq> None"
  "timezone_of (set_timezone z a) = Some z \<or> timezone_conversion_of base (j, set_timezone z a) = None"
  "timezone_conversion_of base (j, set_timezone z a) \<noteq> None \<Longrightarrow> timezone_conversion_of base (j, a) \<noteq> None"
  "timezone_of (with_timezones a) = timezone_of a"
  "timezone_conversion_of base (j, with_timezones a) = timezone_conversion_of base (j, a)"
  by (cases a; auto simp: open_conversion_def timezone_conversion_of_def split: option.splits if_splits)+

text \<open>A valid time zone is in the list or an offset; it has no quote, and validating it again gives it back.\<close>

lemma trim_solid: "v \<noteq> [] \<Longrightarrow> \<not> is_whitespace (hd v) \<Longrightarrow> \<not> is_whitespace (last v) \<Longrightarrow> trim v = v"
proof (cases v rule: rev_cases)
  case (snoc u c)
  then show "\<not> is_whitespace (hd v) \<Longrightarrow> \<not> is_whitespace (last v) \<Longrightarrow> trim v = v"
    by (cases u) (simp_all add: trim_def trim_start_def trim_end_def)
qed simp

lemma known_timezone: "z \<in> set KNOWN_IANA \<Longrightarrow> validate_timezone z = Inr z"
proof -
  have "list_all (\<lambda>z. z \<noteq> [] \<and> \<not> is_whitespace (hd z) \<and> \<not> is_whitespace (last z)) KNOWN_IANA" by code_simp
  then show "z \<in> set KNOWN_IANA \<Longrightarrow> validate_timezone z = Inr z"
    by (auto simp: list_all_iff validate_timezone_def trim_solid Let_def)
qed

lemma trim_idem: "trim (trim s) = trim s"
proof -
  have drop: "dropWhile P (dropWhile P xs) = dropWhile P xs" for P and xs :: string by (induction xs) auto
  show ?thesis
  proof (cases "trim s")
    case Nil
    then show ?thesis by (simp only:) (simp add: trim_def trim_start_def trim_end_def)
  next
    case (Cons c r)
    have "\<exists>t. trim_start s = trim s @ t"
      unfolding trim_def trim_end_def by (metis rev_append rev_rev_ident takeWhile_dropWhile_id)
    then have "hd (trim_start s) = c" "trim_start s \<noteq> []" using Cons by auto
    then have "\<not> is_whitespace c" unfolding trim_start_def by (metis hd_dropWhile)
    then have "trim_start (trim s) = trim s" using Cons by (simp add: trim_start_def)
    then show ?thesis unfolding trim_def [of "trim s"] by (simp add: trim_def trim_end_def drop)
  qed
qed

lemma valid_timezone: "validate_timezone v = Inr z \<Longrightarrow> validate_timezone z = Inr z"
  by (auto simp: validate_timezone_def Let_def trim_idem split: if_splits sum.splits)

lemma custom_timezone_valid: "prompt_custom_timezone_with_retry xs = Inr (Some z) \<Longrightarrow> validate_timezone z = Inr z"
  by (induction xs) (auto dest: valid_timezone split: sum.splits)

lemma prompted_timezones_valid:
  assumes "prompt_timezone_conversions select typed ws = Inr (Some zs)"
  shows "length ws = length zs \<and> (\<forall>z \<in> set zs. validate_timezone z = Inr z)"
  using assms
proof (induction ws arbitrary: zs)
  case (Cons w ws)
  then obtain i z where first: "select w = Inr i"
      "(if i < length KNOWN_IANA then Inr (Some (KNOWN_IANA ! i)) else prompt_custom_timezone_with_retry (take 3 (typed w))) = Inr (Some z)"
    by (auto split: sum.splits option.splits)
  then have "validate_timezone z = Inr z" by (auto simp: known_timezone custom_timezone_valid split: if_splits)
  moreover obtain zs' where "prompt_timezone_conversions select typed ws = Inr (Some zs')" "zs = z # zs'"
    using Cons.prems first by (cases "prompt_timezone_conversions select typed ws") auto
  ultimately show ?case using Cons.IH by simp
qed simp

lemma conversions_have_timezones:
  assumes "resolve_timezones prompts base p = Go q" and j: "j < length (plan_actions p)"
    and "rp_timezone_conversion prompts = prompt_timezone_conversions select typed"
    and "timezone_conversion_of base (j, plan_actions q ! j) \<noteq> None"
  shows "\<exists>z. timezone_of (plan_actions q ! j) = Some z \<and>
    (timezone_of (plan_actions p ! j) = None \<longrightarrow> validate_timezone z = Inr z)"
proof (cases "unresolved_timezones p base = []")
  case True
  then have "q = p" using assms(1) by (simp add: resolve_timezones_def)
  moreover have "open_conversion base (j, plan_actions p ! j) = None"
    using True j unfolding unresolved_list map_filter_empty set_enumerated by auto
  ultimately show ?thesis using assms(4) conversion_open(2) by (metis not_None_eq)
next
  case False
  let ?ws = "unresolved_timezones p base"
  obtain zs where zs: "prompt_timezone_conversions select typed ?ws = Inr (Some zs)" "q = apply_timezone_choices_to_plan p ?ws zs"
    using assms(1,3) False by (auto simp: resolve_timezones_def Let_def flow_Go)
  note valid = prompted_timezones_valid [OF zs(1)]
  have change: "case open_conversion base (j, plan_actions p ! j) of
      None \<Rightarrow> plan_actions q ! j = plan_actions p ! j
    | Some w \<Rightarrow> \<exists>z. (w, z) \<in> set (zip ?ws zs) \<and> plan_actions q ! j = set_timezone z (plan_actions p ! j)"
    by (rule warned_change [where f = "open_conversion base" and ix = tzw_action_index, OF conversion_index])
      (use zs(2) j valid in \<open>simp_all add: unresolved_list apply_timezone_each\<close>)
  show ?thesis
  proof (cases "open_conversion base (j, plan_actions p ! j)")
    case None
    then have "plan_actions q ! j = plan_actions p ! j" using change by simp
    then show ?thesis using assms(4) None conversion_open(2) by (metis not_None_eq)
  next
    case (Some w)
    then obtain z where z: "(w, z) \<in> set (zip ?ws zs)" "plan_actions q ! j = set_timezone z (plan_actions p ! j)"
      using change by auto
    then have "validate_timezone z = Inr z" using valid by (auto dest: set_zip_rightD)
    then show ?thesis using conversion_open(3) z(2) assms(4) by metis
  qed
qed

lemma resolved_timezones:
  assumes "resolve_plan lev prompts fills deletes base p = Go q"
    and "rp_timezone_conversion prompts = prompt_timezone_conversions select typed"
    and j: "j < length (plan_actions q)" and "timezone_conversion_of base (j, plan_actions q ! j) \<noteq> None"
  shows "timezone_of (plan_actions q ! j) \<noteq> None"
proof -
  obtain p3 where "resolve_data_risks lev prompts base p3 = Go q" using resolve_plan_steps [OF assms(1)] by blast
  then obtain p2 p4 where steps: "resolve_timezones prompts base p2 = Go p4"
      "ask_each ''Default-change resolution declined; no migration written.'' (rp_default_change prompts)
        apply_default_choice (find_default_changes p4 base) p4 = Go q"
    using resolve_data_risks_steps by blast
  have "plan_view with_timezones q = plan_view with_timezones p4"
    by (rule defaults_view [OF _ steps(2)]) (simp add: keeps_def later_steps)
  note same = plan_view_nth [OF this]
  have "plan_view (\<lambda>_. ()) p4 = plan_view (\<lambda>_. ()) p2"
    by (rule timezones_view [OF _ steps(1)]) (simp add: keeps_def)
  then have "j < length (plan_actions p2)" using plan_view_nth j same by metis
  moreover have "timezone_conversion_of base (j, plan_actions p4 ! j) \<noteq> None" using assms(4) same j conversion_open(6) by metis
  ultimately have "timezone_of (plan_actions p4 ! j) \<noteq> None"
    using conversions_have_timezones [OF steps(1) _ assms(2)] by auto
  then show ?thesis using same j conversion_open(5) by metis
qed

section \<open>Dangling foreign keys\<close>

lemma outline_drops: "collect_drop_set (p\<lparr>plan_actions := map outline as\<rparr>) = collect_drop_set (p\<lparr>plan_actions := as\<rparr>)"
  unfolding collect_drop_set_def by (induction as) (auto simp: List.map_filter_simps split: migration_action.splits option.splits)

lemma outline_removed:
  "collect_explicitly_removed_fks (p\<lparr>plan_actions := map outline as\<rparr>) = collect_explicitly_removed_fks (p\<lparr>plan_actions := as\<rparr>)"
  unfolding collect_explicitly_removed_fks_def
  by (induction as) (auto simp: List.map_filter_simps split: migration_action.splits option.splits)

lemma outline_surviving: "plan_surviving ds (outline a) = plan_surviving ds a"
proof -
  have "surviving_of t (bare_constraint k) = surviving_of t k" for t k by (cases k) (simp_all add: surviving_of_def)
  then show ?thesis by (cases a) (simp_all add: plan_surviving_def List.map_filter_simps)
qed

lemma outline_dangling:
  "find_dangling_fk_drops (p\<lparr>plan_actions := map outline as\<rparr>) base = find_dangling_fk_drops (p\<lparr>plan_actions := as\<rparr>) base"
  by (simp add: find_dangling_fk_drops_def outline_drops collect_surviving_fks_def outline_removed Let_def
      comp_def outline_surviving)

lemma dangling_of_view:
  assumes "plan_view outline p = plan_view outline q"
  shows "find_dangling_fk_drops p base = find_dangling_fk_drops q base"
proof -
  have plan: "find_dangling_fk_drops r base = find_dangling_fk_drops (r'\<lparr>plan_actions := plan_actions r\<rparr>) base" for r r'
    by (simp add: find_dangling_fk_drops_def collect_drop_set_def collect_surviving_fks_def collect_explicitly_removed_fks_def Let_def)
  show ?thesis
    using assms plan [of p p] plan [of q p] outline_dangling [where p = p and base = base]
    by (metis plan_view_def prod.inject)
qed

section \<open>The file\<close>

definition written :: "error_chain + revision_outcome \<Rightarrow> string \<Rightarrow> migration_plan \<Rightarrow> bool" where
  "written r path plan \<longleftrightarrow> r = Inr (Written path plan)"

text \<open>Only the end of the command writes.\<close>

definition writes_nothing :: "'a flow \<Rightarrow> bool" where
  "writes_nothing m \<longleftrightarrow> (\<forall>path plan. m \<noteq> Return (Written path plan))"

lemma writes_nothing_bind: "writes_nothing m \<Longrightarrow> (\<And>x. writes_nothing (f x)) \<Longrightarrow> writes_nothing (flow_bind m f)"
  by (cases m) (auto simp: writes_nothing_def)

lemma writes_nothing_steps:
  "writes_nothing (lift_result r)" "writes_nothing (ask note answer)" "writes_nothing (cancelled_unless note yes)"
  "writes_nothing (Go x)" "writes_nothing (Fail e)"
  by (auto simp: writes_nothing_def ask_def cancelled_unless_def elim: lift_result.elims split: sum.splits option.splits bool.splits)

lemma writes_nothing_if: "writes_nothing m \<Longrightarrow> writes_nothing m' \<Longrightarrow> writes_nothing (if c then m else m')"
  by simp

lemma writes_nothing_ask_each: "writes_nothing (ask_each note prompt f ws p)"
  by (induction ws arbitrary: p) (auto intro: writes_nothing_bind writes_nothing_steps)

lemma writes_nothing_choose: "writes_nothing (choose_drops prompt rs)"
  by (induction rs) (auto intro!: writes_nothing_bind writes_nothing_steps)

lemma writes_nothing_resolve: "writes_nothing (resolve_plan lev prompts fills deletes base p)"
  unfolding resolve_plan_def resolve_drops_def resolve_constraint_risks_def resolve_data_risks_def reject_fk_nullable_def
    confirm_fk_policies_def resolve_narrowings_def resolve_timezones_def Let_def
  by (intro writes_nothing_bind writes_nothing_steps writes_nothing_ask_each writes_nothing_choose
      writes_nothing_if)

lemma written_steps:
  assumes "written (cmd_revision_core n lev env message fills deletes prompts loaded_config loaded_models loaded_plans) path plan"
  shows "\<exists>config models plans planned base q.
    loaded_config = Inr config \<and> loaded_models = Inr models \<and> loaded_plans = Inr plans \<and>
    plan_revision n prompts models plans = Inr planned \<and> schema_from_plans plans = Inr base \<and>
    resolve_plan lev prompts fills deletes base planned = Go q \<and> plan = finish_plan env message q \<and>
    path = migration_path config plan"
proof -
  have baseline: "baseline_of plans = Inr y \<longleftrightarrow> schema_from_plans plans = Inr y" for plans y
    by (cases "schema_from_plans plans") (auto simp: baseline_of_def)
  have at_path: "write_migration_file env config p = Inr y \<Longrightarrow> y = migration_path config p" for config p y
    by (cases "env_write env (cfg_migration_format config) (migration_path config p) p")
      (auto simp: write_migration_file_def split: sum.splits)
  let ?last = "\<lambda>config plan. let plan = finish_plan env message plan in
    flow_bind (lift_result (write_migration_file env config plan)) (\<lambda>path. Go (Written path plan))"
  let ?flow = "flow_bind (lift_result loaded_config) (\<lambda>config. flow_bind (lift_result loaded_models) (\<lambda>models.
    flow_bind (lift_result loaded_plans) (\<lambda>plans. flow_bind (lift_result (plan_revision n prompts models plans)) (\<lambda>plan.
    if plan_actions plan = [] then Return NoChanges
    else flow_bind (lift_result (baseline_of plans)) (\<lambda>base.
      flow_bind (resolve_plan lev prompts fills deletes base plan) (?last config))))))"
  have "writes_nothing (Return NoChanges)" by (simp add: writes_nothing_def)
  then have "writes_nothing ?flow"
    unfolding Let_def
    by (intro writes_nothing_bind writes_nothing_steps writes_nothing_resolve writes_nothing_if)
  then have "?flow = Go (Written path plan)"
    using assms unfolding written_def cmd_revision_core_def writes_nothing_def by (auto split: flow.splits)
  then show ?thesis
    by (auto simp: flow_Go Let_def baseline dest!: at_path split: if_splits)
qed

lemma map_sum_eq_Inr: "map_sum f g r = Inr y \<Longrightarrow> \<exists>x. r = Inr x \<and> y = g x"
  by (cases r) auto

lemma drop_resolution_version:
  assumes "apply_drop_resolution p base r choice = Inr q"
  shows "plan_version q = plan_version p"
proof (cases choice)
  case (RenameTo target)
  obtain as where "Inr q = (Inr (p\<lparr>plan_actions := as\<rparr>) :: drop_resolution_error + migration_plan)"
    using assms unfolding apply_drop_resolution_def RenameTo drop_choice.case by (auto dest: map_sum_eq_Inr)
  then show ?thesis by simp
qed (use assms in \<open>simp add: apply_drop_resolution_def\<close>)

lemma drop_choices_version: "apply_drop_choices base chosen p = Inr q \<Longrightarrow> plan_version q = plan_version p"
proof (induction chosen arbitrary: p)
  case (Cons x chosen)
  obtain r choice p' where "x = (r, choice)" "apply_drop_resolution p base r choice = Inr p'"
      "apply_drop_choices base chosen p' = Inr q"
    using Cons.prems by (cases x) (auto split: sum.splits)
  then show ?case using Cons.IH drop_resolution_version by metis
qed simp

lemma resolved_version:
  assumes "resolve_plan lev prompts fills deletes base p = Go q"
  shows "plan_version q = plan_version p"
proof -
  obtain p1 where p1: "resolve_drops prompts base p = Go p1" "plan_view outline q = plan_view outline p1"
    using resolved_outline [OF assms] by blast
  then have "plan_version p1 = plan_version p" by (auto simp: resolve_drops_def flow_Go dest: drop_choices_version)
  then show ?thesis using p1(2) by (simp add: plan_view_def)
qed

lemma planned_version:
  assumes "plan_revision n prompts models plans = Inr p"
  shows "\<exists>p0. plan_next_migration n models plans = Inr p0 \<and> plan_version p = plan_version p0"
  using assms by (auto simp: plan_revision_def handle_recreate_requirements_def rewrite_plan_for_recreation_def Let_def
      split: sum.splits if_splits bool.splits)

lemma finish_plan_simps [simp]:
  "plan_version (finish_plan env message p) = plan_version p" "plan_actions (finish_plan env message p) = plan_actions p"
  "plan_comment (finish_plan env message p) = Some message" "plan_id (finish_plan env message p) = env_uuid env"
  by (simp_all add: finish_plan_def)

lemma find_dangling_actions: "plan_actions p = plan_actions q \<Longrightarrow> find_dangling_fk_drops p base = find_dangling_fk_drops q base"
  by (simp add: find_dangling_fk_drops_def collect_drop_set_def collect_surviving_fks_def collect_explicitly_removed_fks_def Let_def)

text \<open>A written plan is the resolved plan of some planned one, with the baseline the plans replay to.\<close>

lemma written_plan:
  assumes "written (cmd_revision_core n lev env message fills deletes prompts loaded_config loaded_models (Inr plans)) path plan"
    and "schema_from_plans plans = Inr base"
  shows "\<exists>models p0 planned q. plan_next_migration n models plans = Inr p0 \<and> plan_version planned = plan_version p0 \<and>
    resolve_plan lev prompts fills deletes base planned = Go q \<and> plan = finish_plan env message q"
  using written_steps [OF assms(1)] assms(2) planned_version by (auto; metis)

text \<open>What the resolved plan satisfies the written one does.\<close>

lemma written_resolved:
  assumes "written (cmd_revision_core n lev env message fills deletes prompts loaded_config loaded_models (Inr plans)) path plan"
    and "schema_from_plans plans = Inr base"
  shows "\<exists>p q. resolve_plan lev prompts fills deletes base p = Go q \<and> plan_actions plan = plan_actions q"
  using written_plan [OF assms] by (metis finish_plan_simps(2))

lemma written_fill_values:
  assumes "written (cmd_revision_core n lev env message fills deletes prompts loaded_config loaded_models (Inr plans)) path plan"
    and "schema_from_plans plans = Inr base" and "a \<in> set (plan_actions plan)" and "missing_fill_error a"
  shows "sets_not_null_with_default base a \<or> deleted_without_value (parse_delete_null_rows_args deletes) a"
proof -
  obtain p q where q: "resolve_plan lev prompts fills deletes base p = Go q" "plan_actions plan = plan_actions q"
    using written_resolved [OF assms(1,2)] by blast
  show ?thesis
    using resolved_fill_values [OF q(1)] q(2) assms(3,4) missing_fill_error_iff [of a 0 base] by auto
qed

lemma written_enum_labels:
  assumes "written (cmd_revision_core n lev env message fills deletes prompts loaded_config loaded_models (Inr plans)) path plan"
    and "schema_from_plans plans = Inr base"
  shows "find_missing_enum_fill_with plan base = []"
  using written_resolved [OF assms] resolved_enum_labels by (metis find_missing_enum_fill_with_def)

lemma written_no_dangling:
  assumes "written (cmd_revision_core n lev env message fills deletes prompts loaded_config loaded_models (Inr plans)) path plan"
    and "schema_from_plans plans = Inr base"
  shows "find_dangling_fk_drops plan base = []"
proof -
  obtain p q where q: "resolve_plan lev prompts fills deletes base p = Go q" "plan_actions plan = plan_actions q"
    using written_resolved [OF assms] by blast
  then show ?thesis
    using resolved_outline [OF q(1)] dangling_of_view find_dangling_actions [OF q(2), of base] by metis
qed

lemma written_narrowings:
  assumes "written (cmd_revision_core n lev env message fills deletes prompts loaded_config loaded_models (Inr plans)) path plan"
    and "schema_from_plans plans = Inr base"
    and "rp_type_narrowing prompts = prompt_type_narrowings select input" and "menu_answers select"
    and "ModifyColumnType t c ty fw s z \<in> set (plan_actions plan)"
    and "find_baseline_column base t c = Some old" and "is_narrowing (col_type old) ty = Some kind"
  shows "\<exists>strategy. s = Some strategy \<and> offered kind strategy"
proof -
  obtain p q where q: "resolve_plan lev prompts fills deletes base p = Go q" "plan_actions plan = plan_actions q"
    using written_resolved [OF assms(1,2)] by blast
  obtain j where j: "j < length (plan_actions q)" "plan_actions q ! j = ModifyColumnType t c ty fw s z"
    using assms(5) q(2) by (metis in_set_conv_nth)
  obtain w where "type_narrowing_of base (j, plan_actions q ! j) = Some w" "tnw_kind w = kind"
    using assms(6,7) by (simp add: j(2) type_narrowing_of_def)
  then show ?thesis using resolved_narrowings [OF q(1) assms(3,4) j(1)] by (auto simp: j(2))
qed

lemma written_timezones:
  assumes "written (cmd_revision_core n lev env message fills deletes prompts loaded_config loaded_models (Inr plans)) path plan"
    and "schema_from_plans plans = Inr base"
    and "rp_timezone_conversion prompts = prompt_timezone_conversions select typed"
    and "ModifyColumnType t c ty fw s z \<in> set (plan_actions plan)"
    and "find_baseline_column base t c = Some old" and "classify_direction (col_type old) ty \<noteq> None"
  shows "z \<noteq> None"
proof -
  obtain p q where q: "resolve_plan lev prompts fills deletes base p = Go q" "plan_actions plan = plan_actions q"
    using written_resolved [OF assms(1,2)] by blast
  obtain j where j: "j < length (plan_actions q)" "plan_actions q ! j = ModifyColumnType t c ty fw s z"
    using assms(4) q(2) by (metis in_set_conv_nth)
  have "timezone_conversion_of base (j, plan_actions q ! j) \<noteq> None"
    using assms(5,6) by (auto simp: j(2) timezone_conversion_of_def)
  then show ?thesis using resolved_timezones [OF q(1) assms(3) j(1)] by (simp add: j(2))
qed

section \<open>Names of written files\<close>

lemma written_version:
  assumes "written (cmd_revision_core n lev env message fills deletes prompts loaded_config loaded_models (Inr plans)) path plan"
    and "q \<in> set plans"
  shows "plan_version q < plan_version plan \<or> plan_version q = - 1 \<and> plan_version plan = - 1"
proof -
  obtain base where "schema_from_plans plans = Inr base" using written_steps [OF assms(1)] by auto
  from written_plan [OF assms(1) this] obtain models p0 planned r where
    "plan_next_migration n models plans = Inr p0" "plan_version planned = plan_version p0"
    "resolve_plan lev prompts fills deletes base planned = Go r" "plan = finish_plan env message r" by blast
  then show ?thesis using next_version assms(2) resolved_version by (metis finish_plan_simps(1))
qed

lemma path_join_inj:
  assumes "path_join d r = path_join d r'" and "\<not> starts_with r ''/''" and "\<not> starts_with r' ''/''"
  shows "r = r'"
  using assms by (auto simp: path_join_def split: if_splits)

lemma default_filename_relative:
  "\<not> starts_with (migration_filename_with_format_and_pattern v comment fmt default_migration_filename_pattern) ''/''"
proof -
  let ?z = "zero_padded 4 v"
  have digits: "\<forall>c \<in> set ?z. is_ascii_digit c" using zero_padded_digits by (simp add: list_all_iff)
  have "is_ascii_digit (last ?z)" "is_ascii_digit (hd ?z)" using digits zero_padded_nonempty by simp_all
  then have "last ?z \<notin> {CHR ''_'', CHR ''-'', CHR ''.''}" "hd ?z \<noteq> CHR ''/''" by (auto simp: is_ascii_digit_def)
  then show ?thesis
    unfolding migration_filename_with_format_and_pattern_def render_migration_name_def default_migration_filename_pattern_def
      default_pattern_name Let_def
    using zero_padded_nonempty [of 4 v]
    by (simp add: trim_separators_append [OF zero_padded_nonempty]) (cases ?z; simp add: starts_with_def)
qed

lemma written_file_new:
  assumes "written (cmd_revision_core n lev env message fills deletes prompts (Inr config) loaded_models (Inr plans)) path plan"
    and "cfg_migration_filename_pattern config = default_migration_filename_pattern"
    and "q \<in> set plans" and "plan_version q \<noteq> - 1"
  shows "path \<noteq> path_join (cfg_migrations_dir config)
    (migration_filename_with_format_and_pattern (plan_version q) comment fmt default_migration_filename_pattern)"
proof
  assume same: "path = path_join (cfg_migrations_dir config)
    (migration_filename_with_format_and_pattern (plan_version q) comment fmt default_migration_filename_pattern)"
  have "path = migration_path config plan" using written_steps [OF assms(1)] by auto
  then have "leading_version (migration_filename_with_format_and_pattern (plan_version plan) (plan_comment plan)
        (cfg_migration_format config) default_migration_filename_pattern) =
      leading_version (migration_filename_with_format_and_pattern (plan_version q) comment fmt default_migration_filename_pattern)"
    using same path_join_inj [OF _ default_filename_relative default_filename_relative] assms(2)
    unfolding migration_path_def by metis
  then have "plan_version plan = plan_version q" by (simp add: filename_version word_unat_eq_iff)
  then show False using written_version [OF assms(1,3)] assms(4) by simp
qed

lemma supported_name:
  assumes "ext \<in> {''json'', ''yaml'', ''yml''}"
  shows "has_supported_extension (p @ ''.vespertide.'' @ ext)"
proof -
  let ?f = "rev (takeWhile (\<lambda>c. c \<noteq> CHR ''/'') (rev p)) @ ''.vespertide.'' @ ext"
  have "file_name (p @ ''.vespertide.'' @ ext) = ?f"
    using assms by (auto simp: file_name_def takeWhile_append)
  then have "path_extension (p @ ''.vespertide.'' @ ext) = Some ext"
    using assms by (auto simp: path_extension_def Let_def takeWhile_append)
  then show ?thesis using assms by (auto simp: has_supported_extension_def)
qed

lemma migration_path_supported: "has_supported_extension (migration_path config plan)"
proof -
  have ext: "format_extension f \<in> {''json'', ''yaml'', ''yml''}" for f by (cases f) auto
  have "\<exists>p. path_join d (name @ ''.vespertide.'' @ e) = p @ ''.vespertide.'' @ e" for d name e
    unfolding path_join_def by (auto intro: exI [of _ "d @ name"] exI [of _ "d @ CHR ''/'' # name"])
  then show ?thesis
    unfolding migration_path_def migration_filename_with_format_and_pattern_def using supported_name [OF ext] by metis
qed

end
