(* ===== verification/Revision_Example.thy ===== *)
theory Revision_Example
  imports Revision_Safety
begin

text \<open>
  One run of the revision command, evaluated: a column is made \<open>NOT NULL\<close> and narrowed, a \<open>timestamp\<close>
  becomes a \<open>timestamptz\<close>, and an enum loses a label.  The user fills in a value, truncates, types a
  time zone, and maps the lost label.
\<close>

section \<open>The project\<close>

definition rx_columns :: "column_type \<Rightarrow> bool \<Rightarrow> column_type \<Rightarrow> string list \<Rightarrow> column_def list" where
  "rx_columns name_type nullable at_type labels =
     [column_def_new ''id'' (Simple Integer) False, column_def_new ''name'' name_type nullable,
      column_def_new ''at'' at_type True,
      column_def_new ''state'' (column_type.Complex (Enum ''state'' (EnumString labels))) True]"

definition rx_table :: "column_def list \<Rightarrow> table_def" where
  "rx_table columns = \<lparr>tbl_name = ''users'', tbl_description = None, tbl_columns = columns, tbl_constraints = []\<rparr>"

definition rx_before :: "column_def list" where
  "rx_before = rx_columns (Simple Text) True (Simple Timestamp) [''open'', ''shut'']"

definition rx_plans :: "migration_plan list" where
  "rx_plans =
     [\<lparr>plan_id = ''a'', plan_comment = None, plan_created_at = None, plan_version = 1,
       plan_actions = [CreateTable ''users'' rx_before []]\<rparr>]"

definition rx_base :: schema where
  "rx_base = [rx_table rx_before]"

definition rx_models :: "table_def list" where
  "rx_models = [rx_table (rx_columns (column_type.Complex (Varchar 10)) False (Simple Timestamptz) [''open''])]"

definition rx_prompts :: revision_prompt_fns where
  "rx_prompts =
     \<lparr>rp_recreate = (\<lambda>_. Inr True), rp_delete_null_rows = (\<lambda>_ _. Inr False),
      rp_fill_with = (\<lambda>_ _. prompt_fill_with_value (Inr ''x y'')),
      rp_enum_quoted = (\<lambda>_. prompt_enum_value (Inr 0)), rp_enum_bare = (\<lambda>_. prompt_enum_value_bare (Inr 0)),
      rp_fk_policy_change = (\<lambda>_. Inr True),
      rp_type_narrowing = prompt_type_narrowings (\<lambda>_. Inr 0) (\<lambda>_. Inr []),
      rp_timezone_conversion = prompt_timezone_conversions (\<lambda>_. Inr 30) (\<lambda>_. [Inr ''+09:00'']),
      rp_remap_enum_values = prompt_remap_enum_values (Inr True),
      rp_drop_resolution = prompt_drop_resolution (Inr 0) (Inr True),
      rp_default_change = prompt_default_change_resolution (Inr 0),
      rp_unique_addition = prompt_unique_additions (Inr 0),
      rp_fk_orphan_addition = prompt_fk_orphan_additions (Inr 0),
      rp_check_addition = prompt_check_additions (Inr 0),
      rp_pk_addition = prompt_pk_additions (Inr 0),
      rp_cascade_reach = prompt_cascade_reach (Inr 0),
      rp_sequence_exhaustion = prompt_sequence_exhaustion (Inr 0),
      rp_check_strengthening = prompt_check_strengthening (Inr 0),
      rp_check_type_mismatch = prompt_check_type_mismatch (Inr 0)\<rparr>"

definition rx_env :: revision_env where
  "rx_env = \<lparr>env_uuid = ''b'', env_now = ''2026-01-01T00:00:00Z'', env_create_dir = (\<lambda>_. Inr ()), env_write = (\<lambda>_ _ _. Inr ())\<rparr>"

text \<open>The plan at its stages: the zone, the strategy, the mapping and the fill value that are set so far.\<close>

definition rx_stage ::
  "string option \<Rightarrow> narrowing_strategy option \<Rightarrow> (string, string) omap option \<Rightarrow> string option \<Rightarrow> migration_plan" where
  "rx_stage zone strategy mapping fill =
     \<lparr>plan_id = [], plan_comment = None, plan_created_at = None, plan_version = 2,
      plan_actions =
        [ModifyColumnType ''users'' ''at'' (Simple Timestamptz) None None zone,
         ModifyColumnType ''users'' ''name'' (column_type.Complex (Varchar 10)) None strategy None,
         ModifyColumnType ''users'' ''state'' (column_type.Complex (Enum ''state'' (EnumString [''open'']))) mapping None None,
         ModifyColumnNullable ''users'' ''name'' False fill None]\<rparr>"

abbreviation "rx_fill \<equiv> Some [CHR 0x27, CHR ''x'', CHR '' '', CHR ''y'', CHR 0x27]"

definition rx_plan :: migration_plan where
  "rx_plan = rx_stage None None None None"

definition rx_done :: migration_plan where
  "rx_done = rx_stage (Some ''+09:00'') (Some Truncate) (Some [(''shut'', ''open'')]) rx_fill"

section \<open>The steps\<close>

lemma rx_planned:
  "schema_from_plans rx_plans = Inr rx_base"
  "plan_revision 10 rx_prompts rx_models rx_plans = Inr rx_plan"
  by code_simp+

lemma rx_checked:
  "resolve_drops rx_prompts rx_base rx_plan = Go rx_plan"
  "ensure_no_dangling_fk_drops rx_plan rx_base = Inr ()"
  "ensure_no_f12_errors rx_plan rx_base = Inr ()"
  "resolve_constraint_risks rx_prompts rx_base rx_plan = Go rx_plan"
  by code_simp+

lemma rx_filled: "fill_missing_values rx_prompts [] [] rx_base rx_plan = Inr (rx_stage None None None rx_fill)"
  by code_simp

lemma rx_mapped:
  "handle_missing_enum_fill_with (\<lambda>_ _. 9) (rp_enum_bare rx_prompts) (rx_stage None None None rx_fill) rx_base =
     Inr (rx_stage None None (Some [(''shut'', ''open'')]) rx_fill)"
  "confirm_fk_policies rx_prompts (rx_stage None None (Some [(''shut'', ''open'')]) rx_fill) = Go ()"
  "rp_remap_enum_values rx_prompts (rx_stage None None (Some [(''shut'', ''open'')]) rx_fill) = Inr True"
  "resolve_narrowings rx_prompts rx_base (rx_stage None None (Some [(''shut'', ''open'')]) rx_fill) =
     Go (rx_stage None (Some Truncate) (Some [(''shut'', ''open'')]) rx_fill)"
  by code_simp+

definition rx_zone_warning :: timezone_conversion_warning where
  "rx_zone_warning =
     \<lparr>tzw_action_index = 0, tzw_table = ''users'', tzw_column = ''at'', tzw_direction = NaiveToAware, tzw_current_timezone = None\<rparr>"

lemma rx_zone: "validate_timezone ''+09:00'' = Inr ''+09:00''"
  by code_simp

lemma rx_zone_prompt:
  "prompt_timezone_conversions (\<lambda>_. Inr 30) (\<lambda>_. [Inr ''+09:00'']) [w] = Inr (Some [''+09:00''])"
  by (simp add: rx_zone KNOWN_IANA_def)

lemma rx_zoned:
  "unresolved_timezones (rx_stage None (Some Truncate) (Some [(''shut'', ''open'')]) rx_fill) rx_base = [rx_zone_warning]"
  "apply_timezone_choices_to_plan (rx_stage None (Some Truncate) (Some [(''shut'', ''open'')]) rx_fill) [rx_zone_warning]
     [''+09:00''] = rx_done"
  "find_default_changes rx_done rx_base = []"
  by code_simp+

lemma rx_timezones:
  "resolve_timezones rx_prompts rx_base (rx_stage None (Some Truncate) (Some [(''shut'', ''open'')]) rx_fill) = Go rx_done"
  by (simp add: resolve_timezones_def rx_zoned rx_zone_prompt ask_def rx_prompts_def del: prompt_timezone_conversions.simps)

lemma rx_resolved: "resolve_plan (\<lambda>_ _. 9) rx_prompts [] [] rx_base rx_plan = Go rx_done"
  by (simp add: resolve_plan_def rx_checked rx_filled resolve_data_risks_def rx_mapped rx_timezones rx_zoned cancelled_unless_def)

section \<open>The file\<close>

lemma rx_filename:
  "migration_filename_with_format_and_pattern 2 (Some ''Shorter Names'') FormatJson default_migration_filename_pattern =
     ''0002_shorter_names.vespertide.json''"
proof -
  have "sanitize_comment (Some ''Shorter Names'') = ''shorter_names''" "zero_padded 4 2 = ''0002''"
    "trim_separators ''0002_shorter_names'' = ''0002_shorter_names''" by code_simp+
  then show ?thesis
    by (simp add: migration_filename_with_format_and_pattern_def render_migration_name_def
        default_migration_filename_pattern_def default_pattern_name Let_def del: render_name_loop.simps)
qed

lemma rx_path:
  "migration_path default_config (finish_plan rx_env ''Shorter Names'' rx_done) = ''migrations/0002_shorter_names.vespertide.json''"
proof -
  have "plan_version rx_done = 2" by (simp add: rx_done_def rx_stage_def)
  moreover have "path_join ''migrations'' ''0002_shorter_names.vespertide.json'' = ''migrations/0002_shorter_names.vespertide.json''"
    by code_simp
  ultimately show ?thesis by (simp add: migration_path_def rx_filename default_config_def)
qed

abbreviation "rx_run \<equiv>
  cmd_revision_core 10 (\<lambda>_ _. 9) rx_env ''Shorter Names'' [] [] rx_prompts (Inr default_config) (Inr rx_models) (Inr rx_plans)"

abbreviation "rx_written \<equiv> finish_plan rx_env ''Shorter Names'' rx_done"

lemma rx_run_writes: "written rx_run ''migrations/0002_shorter_names.vespertide.json'' rx_written"
proof -
  have "plan_actions rx_plan \<noteq> []" by (simp add: rx_plan_def rx_stage_def)
  moreover have "env_create_dir rx_env = (\<lambda>_. Inr ())" "env_write rx_env = (\<lambda>_ _ _. Inr ())" by (simp_all add: rx_env_def)
  ultimately show ?thesis
    by (simp add: written_def cmd_revision_core_def rx_planned rx_resolved rx_path baseline_of_def write_migration_file_def)
qed

lemma rx_written_actions: "plan_actions rx_written = plan_actions rx_done"
  by simp

section \<open>A run that leaves a value out\<close>

text \<open>A required column is added, and \<open>--delete-null-rows\<close> names it.\<close>

definition ry_table :: "column_def list \<Rightarrow> table_def" where
  "ry_table columns = \<lparr>tbl_name = ''t'', tbl_description = None, tbl_columns = columns, tbl_constraints = []\<rparr>"

definition ry_column :: "string \<Rightarrow> column_def" where
  "ry_column n = column_def_new n (Simple Integer) False"

definition ry_plans :: "migration_plan list" where
  "ry_plans =
     [\<lparr>plan_id = ''a'', plan_comment = None, plan_created_at = None, plan_version = 1,
       plan_actions = [CreateTable ''t'' [ry_column ''id''] []]\<rparr>]"

definition ry_plan :: migration_plan where
  "ry_plan = \<lparr>plan_id = [], plan_comment = None, plan_created_at = None, plan_version = 2,
     plan_actions = [AddColumn ''t'' (ry_column ''c'') None]\<rparr>"

definition ry_base :: schema where
  "ry_base = [ry_table [ry_column ''id'']]"

definition ry_models :: "table_def list" where
  "ry_models = [ry_table [ry_column ''id'', ry_column ''c'']]"

lemma ry_steps:
  "schema_from_plans ry_plans = Inr ry_base"
  "plan_revision 10 rx_prompts ry_models ry_plans = Inr ry_plan"
  "resolve_drops rx_prompts ry_base ry_plan = Go ry_plan"
  "ensure_no_dangling_fk_drops ry_plan ry_base = Inr ()"
  "ensure_no_f12_errors ry_plan ry_base = Inr ()"
  "resolve_constraint_risks rx_prompts ry_base ry_plan = Go ry_plan"
  "fill_missing_values rx_prompts [] [''t.c''] ry_base ry_plan = Inr ry_plan"
  "resolve_data_risks (\<lambda>_ _. 9) rx_prompts ry_base ry_plan = Go ry_plan"
  by code_simp+

lemma ry_run_writes:
  "written (cmd_revision_core 10 (\<lambda>_ _. 9) rx_env [] [] [''t.c''] rx_prompts (Inr default_config) (Inr ry_models) (Inr ry_plans))
     (migration_path default_config (finish_plan rx_env [] ry_plan)) (finish_plan rx_env [] ry_plan)"
proof -
  have "resolve_plan (\<lambda>_ _. 9) rx_prompts [] [''t.c''] ry_base ry_plan = Go ry_plan"
    by (simp add: resolve_plan_def ry_steps)
  moreover have "plan_actions ry_plan \<noteq> []" by (simp add: ry_plan_def)
  moreover have "env_create_dir rx_env = (\<lambda>_. Inr ())" "env_write rx_env = (\<lambda>_ _ _. Inr ())" by (simp_all add: rx_env_def)
  ultimately show ?thesis
    by (simp add: written_def cmd_revision_core_def ry_steps baseline_of_def write_migration_file_def Let_def)
qed

end
