(* ===== verification/Export_Scan.thy ===== *)
theory Export_Scan
  imports Sql_Schema Naming
begin

text \<open>
  What the exporters to ORMs share (\<open>crates/vespertide-exporter/src\<close>): text helpers
  (\<open>utils/common.rs\<close>, \<open>python_naming.rs\<close>), scans of a table's constraints and enums
  (\<open>constraint_scan.rs\<close>, \<open>enum_scan.rs\<close>) and the names of a file that holds a whole schema
  (\<open>scope_names.rs\<close>).  A \<open>HashSet\<close> that is only asked for membership is a list.
\<close>

section \<open>Text\<close>

definition double_quoted :: "string \<Rightarrow> string" where
  "double_quoted s = [CHR 0x22] @ s @ [CHR 0x22]"

definition join_quoted :: "string list \<Rightarrow> string" where
  "join_quoted items = join '', '' (map double_quoted items)"

definition push_attr :: "string \<Rightarrow> string \<Rightarrow> string" where
  "push_attr buf fragment = (if buf = [] then fragment else buf @ '', '' @ fragment)"

definition join_qualified_refs :: "string \<Rightarrow> string list \<Rightarrow> string" where
  "join_qualified_refs ref_table ref_cols = join '', '' (map (\<lambda>col. double_quoted (ref_table @ ''.'' @ col)) ref_cols)"

definition literal_char :: "char \<Rightarrow> string" where
  "literal_char ch =
     (if ch = CHR 0x5C \<or> ch = CHR 0x22 then [CHR 0x5C, ch]
      else if ch = CHR 0x0A then [CHR 0x5C, CHR ''n'']
      else if ch = CHR 0x0D then [CHR 0x5C, CHR ''r'']
      else if ch = CHR 0x09 then [CHR 0x5C, CHR ''t'']
      else [ch])"

definition string_literal :: "string \<Rightarrow> string" where
  "string_literal v = double_quoted (concat (map literal_char v))"

text \<open>The text between a pair of \<open>quote\<close>, which must be two characters of \<open>s\<close>.\<close>

definition between_quotes :: "char \<Rightarrow> string \<Rightarrow> string option" where
  "between_quotes quote s =
     (case strip_prefix [quote] s of None \<Rightarrow> None | Some rest \<Rightarrow> strip_suffix [quote] rest)"

definition unquote :: "string \<Rightarrow> string" where
  "unquote s =
     (case between_quotes (CHR 0x27) s of
        Some inner \<Rightarrow> inner
      | None \<Rightarrow> (case between_quotes (CHR 0x22) s of Some inner \<Rightarrow> inner | None \<Rightarrow> s))"

definition integer_enum_variant_value :: "num_value list \<Rightarrow> string \<Rightarrow> int option" where
  "integer_enum_variant_value variants name = map_option nv_value (find (\<lambda>v. nv_name v = name) variants)"

definition is_jsonb_custom_type :: "string \<Rightarrow> bool" where
  "is_jsonb_custom_type custom_type \<longleftrightarrow> eq_ignore_ascii_case custom_type ''JSONB''"

text \<open>\<open>python_naming::to_pascal_case\<close>: the first character after each underscore in upper case.\<close>

fun python_pascal_loop :: "bool \<Rightarrow> string \<Rightarrow> string" where
  "python_pascal_loop first [] = []"
| "python_pascal_loop first (c # cs) =
     (if c = CHR ''_'' then python_pascal_loop True cs
      else (if first then to_ascii_uppercase c else c) # python_pascal_loop False cs)"

definition python_pascal_case :: "string \<Rightarrow> string" where
  "python_pascal_case s = python_pascal_loop True s"

section \<open>Free names\<close>

text \<open>
  The loops that try \<open>stem2\<close>, \<open>stem3\<close>, \ldots until a name is free.  They end because each taken
  name rules out one number.
\<close>

lemma nat_to_string_inj: "nat_to_string a = nat_to_string b \<Longrightarrow> a = b"
  by (metis nat_to_string_digits)

lemma finite_taken_numbers: "finite {k. stem @ nat_to_string k \<in> set taken}"
proof (rule finite_imageD)
  show "finite ((\<lambda>k. stem @ nat_to_string k) ` {k. stem @ nat_to_string k \<in> set taken})"
    by (rule finite_subset [of _ "set taken"]) auto
  show "inj_on (\<lambda>k. stem @ nat_to_string k) {k. stem @ nat_to_string k \<in> set taken}"
    by (rule inj_onI) (auto dest: nat_to_string_inj)
qed

function numbered :: "string \<Rightarrow> string list \<Rightarrow> nat \<Rightarrow> string" where
  "numbered stem taken n =
     (let candidate = stem @ nat_to_string n
      in if candidate \<in> set taken then numbered stem taken (Suc n) else candidate)"
  by pat_completeness auto
termination
proof (relation "measure (\<lambda>(stem, taken, n). card {k. n \<le> k \<and> stem @ nat_to_string k \<in> set taken})", goal_cases)
  case (2 stem taken n candidate)
  have "{k. Suc n \<le> k \<and> stem @ nat_to_string k \<in> set taken} \<subset> {k. n \<le> k \<and> stem @ nat_to_string k \<in> set taken}"
    using 2 by (auto intro!: psubsetI dest: equalityD2 [THEN subsetD, of _ _ n])
  moreover have "finite {k. n \<le> k \<and> stem @ nat_to_string k \<in> set taken}"
    by (rule finite_subset [OF _ finite_taken_numbers [of stem taken]]) auto
  ultimately show ?case by (simp add: psubset_card_mono)
qed simp

declare numbered.simps [simp del]

definition claim_binding :: "string \<Rightarrow> string list \<Rightarrow> string \<times> string list" where
  "claim_binding preferred taken =
     (let name = (if preferred \<notin> set taken then preferred else numbered preferred taken 2) in (name, name # taken))"

definition first_unused :: "string \<Rightarrow> string list \<Rightarrow> string" where
  "first_unused preferred taken =
     (if preferred \<notin> set taken then preferred
      else if preferred @ ''_rel'' \<notin> set taken then preferred @ ''_rel''
      else numbered (preferred @ ''_rel'') taken 2)"

definition claim_field_name :: "string \<Rightarrow> string list \<Rightarrow> string \<times> string list" where
  "claim_field_name preferred taken = (let chosen = first_unused preferred taken in (chosen, chosen # taken))"

section \<open>Constraints\<close>

definition single_column_scan ::
  "table_constraint list \<Rightarrow> (table_constraint \<Rightarrow> string list option) \<Rightarrow> string list" where
  "single_column_scan constraints extract =
     concat (map (\<lambda>c. case extract c of
         Some columns \<Rightarrow> if length columns = 1 then columns else [] | None \<Rightarrow> []) constraints)"

fun is_primary_key_constraint :: "table_constraint \<Rightarrow> bool" where
  "is_primary_key_constraint (PrimaryKey _ _ _) = True"
| "is_primary_key_constraint _ = False"

definition primary_key :: "table_constraint list \<Rightarrow> table_constraint option" where
  "primary_key constraints = find is_primary_key_constraint constraints"

text \<open>A set whose size the code asks for has its elements once.\<close>

definition constraint_key_columns :: "table_constraint list \<Rightarrow> string list" where
  "constraint_key_columns constraints =
     remdups (concat (map (\<lambda>c. case c of PrimaryKey _ columns _ \<Rightarrow> columns | _ \<Rightarrow> []) constraints))"

definition single_column_uniques :: "table_constraint list \<Rightarrow> string list" where
  "single_column_uniques constraints =
     single_column_scan constraints (\<lambda>c. case c of Unique _ columns _ \<Rightarrow> Some columns | _ \<Rightarrow> None)"

definition single_column_indexes :: "table_constraint list \<Rightarrow> string list" where
  "single_column_indexes constraints =
     single_column_scan constraints (\<lambda>c. case c of Index _ columns \<Rightarrow> Some columns | _ \<Rightarrow> None)"

record fk_details =
  fkx_ref_table :: string
  fkx_ref_column :: string
  fkx_on_delete :: "reference_action option"
  fkx_on_update :: "reference_action option"

definition fk_detail_step :: "(string \<rightharpoonup> fk_details) \<Rightarrow> table_constraint \<Rightarrow> (string \<rightharpoonup> fk_details)" where
  "fk_detail_step details c =
     (case c of
        ForeignKey _ [column] ref_table [ref_column] on_delete on_update _ \<Rightarrow>
          details(column \<mapsto> \<lparr>fkx_ref_table = ref_table, fkx_ref_column = ref_column, fkx_on_delete = on_delete,
            fkx_on_update = on_update\<rparr>)
      | _ \<Rightarrow> details)"

definition single_column_fk_details :: "table_constraint list \<Rightarrow> (string \<rightharpoonup> fk_details)" where
  "single_column_fk_details constraints = foldl fk_detail_step Map.empty constraints"

record composite_fk =
  cfk_local_cols :: "string list"
  cfk_ref_table :: string
  cfk_ref_cols :: "string list"
  cfk_on_delete :: "reference_action option"
  cfk_on_update :: "reference_action option"

definition composite_fk_of :: "table_constraint \<Rightarrow> composite_fk option" where
  "composite_fk_of c =
     (case c of
        ForeignKey _ columns ref_table ref_columns on_delete on_update _ \<Rightarrow>
          if length columns > 1 \<and> length columns = length ref_columns
          then Some \<lparr>cfk_local_cols = columns, cfk_ref_table = ref_table, cfk_ref_cols = ref_columns,
                 cfk_on_delete = on_delete, cfk_on_update = on_update\<rparr>
          else None
      | _ \<Rightarrow> None)"

definition collect_composite_fks :: "table_def \<Rightarrow> composite_fk list" where
  "collect_composite_fks table = List.map_filter composite_fk_of (tbl_constraints table)"

subsection \<open>Junctions and relations\<close>

definition fk_links :: "table_constraint list \<Rightarrow> (string list \<times> string) list" where
  "fk_links constraints =
     List.map_filter (\<lambda>c. case c of ForeignKey _ columns ref_table _ _ _ _ \<Rightarrow> Some (columns, ref_table) | _ \<Rightarrow> None)
       constraints"

definition junction_targets :: "table_def \<Rightarrow> table_def \<Rightarrow> string list \<Rightarrow> string list option" where
  "junction_targets current junction junction_pk =
     (let fks = fk_links (tbl_constraints junction) in
      if length junction_pk < 2 then None
      else if length fks < 2 \<or> \<not> list_all (\<lambda>(cols, _). list_all (\<lambda>c. c \<in> set junction_pk) cols) fks then None
      else if \<not> list_ex (\<lambda>(_, target). target = tbl_name current) fks then None
      else Some (map snd (filter (\<lambda>(_, target). target \<noteq> tbl_name current) fks)))"

definition relation_segment :: "string list \<Rightarrow> string" where
  "relation_segment columns = join ''_'' (map infer_relation_field_name columns)"

text \<open>The names by constraint index, and how often each base was used for a target.\<close>

fun relation_names_loop ::
  "string \<Rightarrow> (string \<times> string) list \<Rightarrow> (nat \<times> table_constraint) list \<Rightarrow> (nat \<times> string) list" where
  "relation_names_loop table_pascal used [] = []"
| "relation_names_loop table_pascal used ((idx, c) # constraints) =
     (case c of
        ForeignKey _ columns ref_table _ _ _ _ \<Rightarrow>
          (let base = table_pascal @ to_pascal_case (relation_segment columns);
               used' = (ref_table, base) # used;
               seen = count_list used' (ref_table, base)
           in (idx, if seen = 1 then base else base @ nat_to_string seen) #
              relation_names_loop table_pascal used' constraints)
      | _ \<Rightarrow> relation_names_loop table_pascal used constraints)"

definition fk_relation_names :: "table_def \<Rightarrow> (nat \<times> string) list" where
  "fk_relation_names table =
     relation_names_loop (to_pascal_case (tbl_name table)) [] (enumerated (tbl_constraints table))"

record back_relation =
  br_source_table :: string
  br_fk_columns :: "string list"
  br_ref_columns :: "string list"
  br_on_delete :: "reference_action option"
  br_on_update :: "reference_action option"
  br_rel_segment :: string
  br_is_one_to_one :: bool
  br_relation_name :: "string option"

definition targets_table :: "string \<Rightarrow> table_constraint \<Rightarrow> bool" where
  "targets_table target_table c = (case c of ForeignKey _ _ ref_table _ _ _ _ \<Rightarrow> ref_table = target_table | _ \<Rightarrow> False)"

text \<open>\<open>TableConstraint::columns\<close> of the first primary key, or nothing.\<close>

definition first_key_columns :: "table_constraint list \<Rightarrow> string list" where
  "first_key_columns constraints =
     (case primary_key constraints of Some (PrimaryKey _ columns _) \<Rightarrow> columns | _ \<Rightarrow> [])"

definition covers_key :: "string list \<Rightarrow> table_constraint list \<Rightarrow> bool" where
  "covers_key fk_cols constraints =
     (let fk_set = remdups fk_cols; pk_cols = first_key_columns constraints in
      length pk_cols = length fk_set \<and> list_all (\<lambda>c. c \<in> set fk_set) pk_cols \<or>
      list_ex (\<lambda>c. case c of
          Unique _ columns _ \<Rightarrow> length columns = length fk_set \<and> list_all (\<lambda>col. col \<in> set fk_set) columns
        | _ \<Rightarrow> False) constraints)"

definition back_relations_of :: "string \<Rightarrow> table_def \<Rightarrow> back_relation list" where
  "back_relations_of target_table source =
     (let named = (length (filter (targets_table target_table) (tbl_constraints source)) > 1 \<or>
                   tbl_name source = target_table)
      in List.map_filter (\<lambda>(idx, c). case c of
           ForeignKey _ fk_cols ref_table ref_columns on_delete on_update _ \<Rightarrow>
             if ref_table \<noteq> target_table then None
             else Some \<lparr>br_source_table = tbl_name source, br_fk_columns = fk_cols, br_ref_columns = ref_columns,
                    br_on_delete = on_delete, br_on_update = on_update, br_rel_segment = relation_segment fk_cols,
                    br_is_one_to_one = covers_key fk_cols (tbl_constraints source),
                    br_relation_name = (if named then map_of (fk_relation_names source) idx else None)\<rparr>
         | _ \<Rightarrow> None) (enumerated (tbl_constraints source)))"

definition collect_back_relations :: "string \<Rightarrow> table_def list \<Rightarrow> back_relation list" where
  "collect_back_relations target_table schema = concat (map (back_relations_of target_table) schema)"

section \<open>Enums\<close>

fun table_enums_loop :: "string list \<Rightarrow> column_def list \<Rightarrow> (string \<times> enum_values) list" where
  "table_enums_loop seen [] = []"
| "table_enums_loop seen (col # cols) =
     (case col_type col of
        Complex (Enum name vs) \<Rightarrow>
          if name \<in> set seen then table_enums_loop seen cols
          else (name, vs) # table_enums_loop (name # seen) cols
      | _ \<Rightarrow> table_enums_loop seen cols)"

definition collect_table_enums :: "table_def \<Rightarrow> (string \<times> enum_values) list" where
  "collect_table_enums table = table_enums_loop [] (tbl_columns table)"

fun variant_names :: "enum_values \<Rightarrow> string list" where
  "variant_names (EnumString vs) = vs"
| "variant_names (EnumInteger vs) = map nv_name vs"

section \<open>Names of a file\<close>

datatype named =
    NamedTable string
  | NamedEnum string string
  | NamedMember string string nat

record scope_names =
  sn_names :: "named \<rightharpoonup> string"
  sn_taken :: "string list"

definition no_names :: scope_names where
  "no_names = \<lparr>sn_names = Map.empty, sn_taken = []\<rparr>"

definition claim :: "named \<Rightarrow> string \<Rightarrow> scope_names \<Rightarrow> scope_names" where
  "claim key natural scope =
     (if sn_names scope key \<noteq> None then scope
      else let (name, taken) = claim_binding natural (sn_taken scope)
           in \<lparr>sn_names = (sn_names scope)(key \<mapsto> name), sn_taken = taken\<rparr>)"

definition declared_identifiers :: "(string \<Rightarrow> string) \<Rightarrow> table_def \<Rightarrow> string list" where
  "declared_identifiers identifier table = remdups (map (\<lambda>(name, _). identifier name) (collect_table_enums table))"

definition identifiers_shared_across_tables :: "table_def list \<Rightarrow> (string \<Rightarrow> string) \<Rightarrow> string list" where
  "identifiers_shared_across_tables schema identifier =
     (let declared = concat (map (declared_identifiers identifier) schema)
      in filter (\<lambda>ident. count_list declared ident > 1) declared)"

definition claim_table :: "(string \<Rightarrow> string) \<Rightarrow> scope_names \<Rightarrow> table_def \<Rightarrow> scope_names" where
  "claim_table table_identifier scope table = claim (NamedTable (tbl_name table)) (table_identifier (tbl_name table)) scope"

definition claim_enum :: "(string \<Rightarrow> string) \<Rightarrow> string list \<Rightarrow> string \<Rightarrow> scope_names \<Rightarrow> string \<times> enum_values \<Rightarrow> scope_names" where
  "claim_enum enum_identifier shared table_name scope enum =
     (let bare = enum_identifier (fst enum);
          natural = (if bare \<in> set shared \<or> bare \<in> set (sn_taken scope)
                     then the (sn_names scope (NamedTable table_name)) @ bare else bare)
      in claim (NamedEnum table_name (fst enum)) natural scope)"

definition claim_enums :: "(string \<Rightarrow> string) \<Rightarrow> string list \<Rightarrow> scope_names \<Rightarrow> table_def \<Rightarrow> scope_names" where
  "claim_enums enum_identifier shared scope table =
     foldl (claim_enum enum_identifier shared (tbl_name table)) scope (collect_table_enums table)"

definition collect_scope_names :: "table_def list \<Rightarrow> (string \<Rightarrow> string) \<Rightarrow> (string \<Rightarrow> string) \<Rightarrow> scope_names" where
  "collect_scope_names schema table_identifier enum_identifier =
     (let scope = foldl (claim_table table_identifier) no_names schema;
          shared = identifiers_shared_across_tables schema enum_identifier
      in foldl (claim_enums enum_identifier shared) scope schema)"

definition claim_member :: "string \<Rightarrow> string \<Rightarrow> nat \<Rightarrow> string \<Rightarrow> scope_names \<Rightarrow> scope_names" where
  "claim_member table enum_name index natural scope = claim (NamedMember table enum_name index) natural scope"

definition scope_table :: "scope_names \<Rightarrow> string \<Rightarrow> string option" where
  "scope_table scope table = sn_names scope (NamedTable table)"

text \<open>The code indexes the map and panics on a key that was not claimed.\<close>

definition scope_enum_type :: "scope_names \<Rightarrow> string \<Rightarrow> string \<Rightarrow> string option" where
  "scope_enum_type scope table enum_name = sn_names scope (NamedEnum table enum_name)"

definition scope_member :: "scope_names \<Rightarrow> string \<Rightarrow> string \<Rightarrow> nat \<Rightarrow> string option" where
  "scope_member scope table enum_name index = sn_names scope (NamedMember table enum_name index)"

text \<open>The derived \<open>PartialEq\<close> of tables, in which defaults compare as \<open>default_eq\<close>.\<close>

definition column_eq :: "column_def \<Rightarrow> column_def \<Rightarrow> bool" where
  "column_eq a b \<longleftrightarrow>
     default_option_eq (col_default a) (col_default b) \<and> a\<lparr>col_default := None\<rparr> = b\<lparr>col_default := None\<rparr>"

definition table_eq :: "table_def \<Rightarrow> table_def \<Rightarrow> bool" where
  "table_eq a b \<longleftrightarrow>
     list_all2 column_eq (tbl_columns a) (tbl_columns b) \<and> a\<lparr>tbl_columns := []\<rparr> = b\<lparr>tbl_columns := []\<rparr>"

definition scope_of :: "table_def \<Rightarrow> table_def list \<Rightarrow> table_def list" where
  "scope_of table schema = (if list_ex (\<lambda>t. table_eq t table) schema then schema else [table])"

end
