(* ===== verification/Seaorm_Names.thy ===== *)
theory Seaorm_Names
  imports Export_Scan Project_Files
begin

text \<open>
  Names, enums and defaults of the SeaORM exporter
  (\<open>crates/vespertide-exporter/src/seaorm/imports.rs\<close>, \<open>relations/naming.rs\<close>, \<open>enums.rs\<close>, \<open>types.rs\<close>).
\<close>

section \<open>Paths and identifiers\<close>

type_synonym module_paths = "string \<rightharpoonup> string list"

definition absolute_module_path :: "string \<Rightarrow> string list \<Rightarrow> string" where
  "absolute_module_path crate_prefix to_module = crate_prefix @ concat (map (\<lambda>seg. ''::'' @ seg) to_module)"

definition super_module :: "string \<Rightarrow> string" where
  "super_module table = ''super::'' @ seaorm_module_name table"

text \<open>\<open>split_last\<close> of an empty path has no parent; \<open>butlast\<close> of it is empty too.\<close>

definition resolve_relation_entity_module_path :: "string \<Rightarrow> string \<Rightarrow> module_paths \<Rightarrow> string \<Rightarrow> string" where
  "resolve_relation_entity_module_path current_table target_table paths crate_prefix =
     (case (paths current_table, paths target_table) of
        (Some current, Some target) \<Rightarrow>
          if butlast current = butlast target then super_module target_table
          else if crate_prefix \<noteq> [] then absolute_module_path crate_prefix target
          else super_module target_table
      | _ \<Rightarrow>
          if crate_prefix \<noteq> [] then crate_prefix @ ''::'' @ seaorm_module_name target_table
          else super_module target_table)"

definition RUST_KEYWORDS :: "string list" where
  "RUST_KEYWORDS =
     [''as'', ''async'', ''await'', ''break'', ''const'', ''continue'', ''crate'', ''dyn'', ''else'', ''enum'', ''extern'',
      ''false'', ''fn'', ''for'', ''if'', ''impl'', ''in'', ''let'', ''loop'', ''match'', ''mod'', ''move'', ''mut'', ''pub'',
      ''ref'', ''return'', ''self'', ''Self'', ''static'', ''struct'', ''super'', ''trait'', ''true'', ''type'',
      ''unsafe'', ''use'', ''where'', ''while'',
      ''abstract'', ''become'', ''box'', ''do'', ''final'', ''macro'', ''override'', ''priv'', ''try'', ''typeof'',
      ''unsized'', ''virtual'', ''yield'']"

definition sanitize_field_name :: "string \<Rightarrow> string" where
  "sanitize_field_name name =
     (if name = [] then ''_col''
      else let result = sanitize_identifier name StartLetter
           in if result \<in> set RUST_KEYWORDS then ''r#'' @ result else result)"

definition sanitize_type_name :: "string \<Rightarrow> string" where
  "sanitize_type_name name =
     (case sanitize_identifier name StartLetter of [] \<Rightarrow> [] | c # cs \<Rightarrow> to_ascii_uppercase c # cs)"

text \<open>\<open>unique_name\<close> tries \<open>base\<close>, \<open>base_1\<close>, \<open>base_2\<close>, \ldots\<close>

definition unique_name :: "string \<Rightarrow> string list \<Rightarrow> string \<times> string list" where
  "unique_name base used =
     (let name = (if base \<in> set used then numbered (base @ ''_'') used 1 else base) in (name, name # used))"

text \<open>\<open>imports::to_pascal_case\<close> has the rule of the naming crate's function.\<close>

fun seaorm_pascal_loop :: "bool \<Rightarrow> string \<Rightarrow> string" where
  "seaorm_pascal_loop capitalize [] = []"
| "seaorm_pascal_loop capitalize (c # cs) =
     (if c = CHR ''_'' \<or> c = CHR ''-'' then seaorm_pascal_loop True cs
      else (if capitalize then to_ascii_uppercase c else c) # seaorm_pascal_loop False cs)"

definition seaorm_pascal_case :: "string \<Rightarrow> string" where
  "seaorm_pascal_case s = seaorm_pascal_loop True s"

definition to_snake_case :: "string \<Rightarrow> string" where
  "to_snake_case s =
     concat (map (\<lambda>(i, c). (if i > 0 \<and> is_ascii_uppercase c then ''_'' else []) @ [to_ascii_lowercase c]) (enumerated s))"

section \<open>Relations\<close>

text \<open>The columns of a foreign key are not empty; the code indexes the first one.\<close>

definition generate_relation_enum_name :: "string list \<Rightarrow> string" where
  "generate_relation_enum_name columns =
     (let first_col = hd columns;
          without_id = (case strip_suffix ''_id'' first_col of Some s \<Rightarrow> s | None \<Rightarrow> first_col)
      in sanitize_type_name (seaorm_pascal_case without_id))"

definition unique_relation_enum_name :: "string \<Rightarrow> string \<Rightarrow> string \<Rightarrow> string list \<Rightarrow> string" where
  "unique_relation_enum_name preferred source_table base_relation_enum used =
     (if preferred \<notin> set used then preferred
      else let source_prefixed = sanitize_type_name (seaorm_pascal_case source_table) @ base_relation_enum
           in if source_prefixed \<notin> set used then source_prefixed else numbered source_prefixed used 2)"

definition strip_reference_suffix :: "string \<Rightarrow> string \<Rightarrow> string" where
  "strip_reference_suffix to fk_column =
     (case strip_suffix (''_'' @ to) fk_column of Some s \<Rightarrow> s
      | None \<Rightarrow> (case strip_suffix ''_id'' fk_column of Some s \<Rightarrow> s
        | None \<Rightarrow> (case strip_suffix ''_idx'' fk_column of Some s \<Rightarrow> s | None \<Rightarrow> fk_column)))"

definition infer_field_name_from_fk_column :: "string \<Rightarrow> string \<Rightarrow> string \<Rightarrow> string" where
  "infer_field_name_from_fk_column fk_column table_name to =
     (let table_lower = to_lowercase table_name;
          to_lower = to_lowercase to;
          sanitized = sanitize_field_name (strip_reference_suffix to fk_column);
          sanitized_lower = to_lowercase sanitized
      in if sanitized_lower = to_lower \<or> strip_prefix table_lower sanitized_lower = Some to_lower
         then sanitize_field_name table_name
         else if sanitized_lower = table_lower then sanitize_field_name table_name
         else sanitized)"

text \<open>The character before a trailing \<open>y\<close>.\<close>

definition ends_with_vowel_y :: "string \<Rightarrow> bool" where
  "ends_with_vowel_y name = (case rev name of _ # c # _ \<Rightarrow> c \<in> {CHR ''a'', CHR ''e'', CHR ''o'', CHR ''u''} | _ \<Rightarrow> False)"

definition seaorm_pluralize :: "string \<Rightarrow> string" where
  "seaorm_pluralize name =
     (if ends_with name ''s'' then name
      else if ends_with name ''y'' \<and> \<not> ends_with_vowel_y name
        then (case strip_suffix ''y'' name of Some stem \<Rightarrow> stem | None \<Rightarrow> name) @ ''ies''
      else name @ ''s'')"

definition fk_attr_value :: "string list \<Rightarrow> string" where
  "fk_attr_value cols =
     (case cols of
        [only] \<Rightarrow> sanitize_field_name only
      | _ \<Rightarrow> ''('' @ join '', '' (map sanitize_field_name cols) @ '')'')"

section \<open>Enums\<close>

definition finalize_enum_variant_name :: "string \<Rightarrow> string" where
  "finalize_enum_variant_name pascal =
     (if pascal = [] then ''Value''
      else sanitize_type_name (if is_ascii_digit (hd pascal) then CHR ''N'' # pascal else pascal))"

definition enum_variant_name :: "string \<Rightarrow> string" where
  "enum_variant_name s = finalize_enum_variant_name (seaorm_pascal_case s)"

text \<open>The first character of each segment in upper case, the others in lower case.\<close>

fun screaming_segments :: "bool \<Rightarrow> string \<Rightarrow> string" where
  "screaming_segments first [] = []"
| "screaming_segments first (c # cs) =
     (if c = CHR ''_'' then screaming_segments True cs
      else (if first then to_ascii_uppercase c else to_ascii_lowercase c) # screaming_segments False cs)"

definition screaming_snake_to_pascal_case :: "string \<Rightarrow> string" where
  "screaming_snake_to_pascal_case v =
     (let pascal = screaming_segments True v in if pascal = [] then ''Value'' else pascal)"

definition enum_string_variant_name :: "string \<Rightarrow> bool \<Rightarrow> string" where
  "enum_string_variant_name s use_screaming_snake_variants =
     finalize_enum_variant_name
       (if use_screaming_snake_variants then screaming_snake_to_pascal_case s else seaorm_pascal_case s)"

definition is_screaming_snake_value :: "string \<Rightarrow> bool" where
  "is_screaming_snake_value v \<longleftrightarrow>
     list_all (\<lambda>ch. is_ascii_uppercase ch \<or> is_ascii_digit ch \<or> ch = CHR ''_'') v \<and> list_ex is_ascii_uppercase v"

definition uses_screaming_snake_variants :: "string list \<Rightarrow> bool" where
  "uses_screaming_snake_variants vs \<longleftrightarrow> vs \<noteq> [] \<and> list_all is_screaming_snake_value vs"

fun enum_serde_rename_all :: "enum_values \<Rightarrow> seaorm_config \<Rightarrow> string" where
  "enum_serde_rename_all (EnumString vs) config =
     (if uses_screaming_snake_variants vs then ''SCREAMING_SNAKE_CASE''
      else serde_rename_all (so_enum_naming_case config))"
| "enum_serde_rename_all (EnumInteger vs) config = serde_rename_all (so_enum_naming_case config)"

definition string_variant_lines :: "bool \<Rightarrow> string \<Rightarrow> string list" where
  "string_variant_lines use_screaming s =
     [''    #[sea_orm(string_value = '' @ double_quoted s @ '')]'',
      ''    '' @ enum_string_variant_name s use_screaming @ '','']"

definition render_enum :: "string \<Rightarrow> string \<Rightarrow> enum_values \<Rightarrow> seaorm_config \<Rightarrow> string list" where
  "render_enum table_name name vs config =
     [''#[derive('' @ join '', '' ([''Debug'', ''Clone'', ''PartialEq'', ''Eq'', ''EnumIter'', ''DeriveActiveEnum'',
         ''Serialize'', ''Deserialize''] @ so_extra_enum_derives config) @ '')]'',
      ''#[serde(rename_all = '' @ double_quoted (enum_serde_rename_all vs config) @ '')]'',
      (case vs of
         EnumInteger _ \<Rightarrow> ''#[sea_orm(rs_type = '' @ double_quoted ''i32'' @ '', db_type = '' @ double_quoted ''Integer'' @ '')]''
       | EnumString _ \<Rightarrow> ''#[sea_orm(rs_type = '' @ double_quoted ''String'' @ '', db_type = '' @ double_quoted ''Enum'' @
           '', enum_name = '' @ double_quoted (table_name @ ''_'' @ name) @ '')]''),
      ''pub enum '' @ seaorm_pascal_case name @ '' {''] @
     (case vs of
        EnumString string_values \<Rightarrow>
          concat (map (string_variant_lines (uses_screaming_snake_variants string_values)) string_values)
      | EnumInteger int_values \<Rightarrow>
          map (\<lambda>v. ''    '' @ enum_variant_name (nv_name v) @ '' = '' @ int_to_string (nv_value v) @ '','') int_values) @
     [''}'', []]"

section \<open>Defaults\<close>

definition is_numeric_simple_type :: "simple_column_type \<Rightarrow> bool" where
  "is_numeric_simple_type simple \<longleftrightarrow>
     simple = SmallInt \<or> simple = Integer \<or> simple = BigInt \<or> simple = simple_column_type.Real \<or> simple = DoublePrecision"

fun column_type_supports_eq :: "column_type \<Rightarrow> bool" where
  "column_type_supports_eq (Simple ty) = (ty \<noteq> simple_column_type.Real \<and> ty \<noteq> DoublePrecision)"
| "column_type_supports_eq (Complex _) = True"

definition escape_double_quotes :: "string \<Rightarrow> string" where
  "escape_double_quotes s = concat (map (\<lambda>c. if c = CHR 0x22 then [CHR 0x5C, CHR 0x22] else [c]) s)"

definition parse_i32 :: "string \<Rightarrow> int option" where
  "parse_i32 s = (case parse_i64 s of Some n \<Rightarrow> if in_i32 n then Some n else None | None \<Rightarrow> None)"

definition integer_enum_default :: "num_value list \<Rightarrow> string \<Rightarrow> int" where
  "integer_enum_default int_values cleaned =
     (case parse_i32 cleaned of
        Some num \<Rightarrow> num
      | None \<Rightarrow> (case find (\<lambda>v. eq_ignore_ascii_case (nv_name v) cleaned) int_values of Some v \<Rightarrow> nv_value v | None \<Rightarrow> 0))"

definition cleaned_default :: "default_value \<Rightarrow> string" where
  "cleaned_default v =
     (let trimmed = trim (to_sql v) in case between_quotes (CHR 0x27) trimmed of Some inner \<Rightarrow> inner | None \<Rightarrow> trimmed)"

definition format_default_value :: "default_value \<Rightarrow> column_type \<Rightarrow> string" where
  "format_default_value v column_type =
     (case v of
        DefBool b \<Rightarrow> ''default_value = '' @ bool_to_string b
      | _ \<Rightarrow>
          (let cleaned = cleaned_default v;
               in_quotes = ''default_value = '' @ double_quoted (escape_double_quotes cleaned);
               bare = ''default_value = '' @ cleaned
           in case column_type of
                Simple simple \<Rightarrow> if is_numeric_simple_type simple \<or> simple = Boolean then bare else in_quotes
              | Complex (Numeric _ _) \<Rightarrow> bare
              | Complex (Enum _ (EnumString _)) \<Rightarrow> in_quotes
              | Complex (Enum _ (EnumInteger int_values)) \<Rightarrow>
                  ''default_value = '' @ int_to_string (integer_enum_default int_values cleaned)
              | _ \<Rightarrow> in_quotes))"

end
