(* ===== verification/Seaorm_Relations.thy ===== *)
theory Seaorm_Relations
  imports Seaorm_Names
begin

text \<open>
  The relations of a SeaORM model (\<open>crates/vespertide-exporter/src/seaorm/relations\<close>): the targets of
  chained foreign keys (\<open>fk_resolve.rs\<close>), forward relations (\<open>mod.rs\<close>), reverse relations (\<open>reverse.rs\<close>)
  and self-referencing junctions (\<open>self_ref.rs\<close>).
\<close>

section \<open>Chains of foreign keys\<close>

type_synonym table_map = "(string, table_def) omap"

definition as_fk :: "table_constraint \<Rightarrow> (string list \<times> string \<times> string list) option" where
  "as_fk c =
     (case c of ForeignKey _ columns ref_table ref_columns _ _ _ \<Rightarrow> Some (columns, ref_table, ref_columns) | _ \<Rightarrow> None)"

definition table_map_of :: "table_def list \<Rightarrow> table_map" where
  "table_map_of schema = om_collect (map (\<lambda>t. (tbl_name t, t)) schema)"

text \<open>The first foreign key of the table whose only column is the given one.\<close>

definition fk_of_column :: "table_def \<Rightarrow> string \<Rightarrow> (string \<times> string list) option" where
  "fk_of_column table column =
     map_option snd (find (\<lambda>(cols, _). cols = [column]) (List.map_filter as_fk (tbl_constraints table)))"

definition next_target :: "table_map \<Rightarrow> string \<times> string \<Rightarrow> (string \<times> string list) option" where
  "next_target tables key =
     (case om_lookup tables (fst key) of None \<Rightarrow> None | Some table \<Rightarrow> fk_of_column table (snd key))"

definition chain_keys :: "table_map \<Rightarrow> (string \<times> string) set" where
  "chain_keys tables = {key. next_target tables key \<noteq> None}"

lemma finite_chain_keys: "finite (chain_keys tables)"
proof (rule finite_subset)
  let ?cols = "\<Union>t \<in> snd ` set tables. \<Union>c \<in> set (List.map_filter as_fk (tbl_constraints t)). set (fst c)"
  show "chain_keys tables \<subseteq> fst ` set tables \<times> ?cols"
  proof
    fix key assume "key \<in> chain_keys tables"
    then obtain table fk where t: "om_lookup tables (fst key) = Some table" and fk: "fk_of_column table (snd key) = Some fk"
      by (auto simp: chain_keys_def next_target_def split: option.splits)
    from t have mem: "(fst key, table) \<in> set tables" by (simp add: om_lookup_def map_of_SomeD)
    from fk obtain k where "k \<in> set (List.map_filter as_fk (tbl_constraints table))" "fst k = [snd key]"
      by (auto simp: fk_of_column_def find_Some_iff dest!: nth_mem)
    with mem show "key \<in> fst ` set tables \<times> ?cols"
      by (cases key) (force intro: rev_image_eqI)
  qed
qed auto

text \<open>
  \<open>resolve_fk_target_inner\<close>: follow the chain while the referenced column is itself a foreign key, up to a
  key that was visited before.  \<open>None\<close> is the panic on a foreign key without referenced columns.
\<close>

function resolve_fk_target_inner ::
  "table_map \<Rightarrow> (string \<times> string) list \<Rightarrow> string \<Rightarrow> string list \<Rightarrow> (string \<times> string list) option" where
  "resolve_fk_target_inner tables visited ref_table ref_columns =
     (if length ref_columns \<noteq> 1 then Some (ref_table, ref_columns)
      else let key = (ref_table, hd ref_columns) in
        (case next_target tables key of
           None \<Rightarrow> Some (ref_table, ref_columns)
         | Some (next_table, next_cols) \<Rightarrow>
             if next_cols = [] then None
             else if (next_table, hd next_cols) \<in> set (key # visited) then Some (ref_table, ref_columns)
             else resolve_fk_target_inner tables (key # visited) next_table next_cols))"
  by pat_completeness auto
termination
proof (relation "measure (\<lambda>(tables, visited, ref_table, ref_columns).
      2 * card (chain_keys tables - insert (ref_table, hd ref_columns) (set visited)) +
      (if (ref_table, hd ref_columns) \<in> chain_keys tables then 1 else 0))", goal_cases)
  case (2 tables visited ref_table ref_columns key fk next_table next_cols)
  let ?K = "chain_keys tables" and ?V = "insert key (set visited)" and ?n = "(next_table, hd next_cols)"
  have here: "key \<in> ?K" and new: "?n \<notin> ?V" using 2 by (auto simp: chain_keys_def)
  show ?case
  proof (cases "?n \<in> ?K")
    case True
    with new have "?K - insert ?n ?V \<subset> ?K - ?V" by auto
    then have "card (?K - insert ?n ?V) < card (?K - ?V)"
      by (intro psubset_card_mono) (simp_all add: finite_chain_keys)
    then show ?thesis using here 2(2) True by (simp add: insert_commute)
  next
    case False
    then have "?K - insert ?n ?V = ?K - ?V" by auto
    then show ?thesis using here 2(2) False by (simp add: insert_commute)
  qed
qed simp

declare resolve_fk_target_inner.simps [simp del]

record forward_relation =
  fr_columns :: "string list"
  fr_resolved_table :: string
  fr_resolved_columns :: "string list"

definition resolve_fk_relation_pure ::
  "table_map \<Rightarrow> string list \<times> string \<times> string list \<Rightarrow> forward_relation option" where
  "resolve_fk_relation_pure tables fk =
     (case resolve_fk_target_inner tables [] (fst (snd fk)) (snd (snd fk)) of
        None \<Rightarrow> None
      | Some (t, cols) \<Rightarrow> Some \<lparr>fr_columns = fst fk, fr_resolved_table = t, fr_resolved_columns = cols\<rparr>)"

text \<open>In both branches the results come in the order of the keys; a panic in one is a panic of all.\<close>

fun collect_options :: "'a option list \<Rightarrow> 'a list option" where
  "collect_options [] = Some []"
| "collect_options (x # xs) =
     (case x of None \<Rightarrow> None | Some a \<Rightarrow> map_option (\<lambda>as. a # as) (collect_options xs))"

definition resolve_table_fks_pure :: "table_def \<Rightarrow> table_def list \<Rightarrow> forward_relation list option" where
  "resolve_table_fks_pure table schema =
     collect_options (map (resolve_fk_relation_pure (table_map_of schema)) (List.map_filter as_fk (tbl_constraints table)))"

section \<open>Reverse relations\<close>

text \<open>\<open>render::primary_key_columns\<close>: the keys of the constraints, then those declared inline.\<close>

definition model_key_columns :: "table_def \<Rightarrow> string list" where
  "model_key_columns table =
     remdups (constraint_key_columns (tbl_constraints table) @
       map col_name (filter (\<lambda>c. case col_primary_key c of
           Some (PkBool b) \<Rightarrow> b | Some (PkObject _) \<Rightarrow> True | None \<Rightarrow> False) (tbl_columns table)))"

record reverse_relation =
  rr_target_entity :: string
  rr_is_one_to_one :: bool
  rr_field_base :: string
  rr_base_relation_enum :: string
  rr_source_table :: string
  rr_has_multiple_fks :: bool
  rr_via :: "string option"
  rr_via_rel :: "string option"
  rr_is_m2m :: bool

definition known_table :: "table_def list \<Rightarrow> string \<Rightarrow> bool" where
  "known_table schema name \<longleftrightarrow> list_ex (\<lambda>t. tbl_name t = name) schema"

definition collect_many_to_many_targets ::
  "table_def \<Rightarrow> table_def \<Rightarrow> string list \<Rightarrow> table_def list \<Rightarrow> string list option" where
  "collect_many_to_many_targets current_table junction_table junction_pk schema =
     map_option (\<lambda>m2m. tbl_name junction_table # filter (known_table schema) m2m)
       (junction_targets current_table junction_table junction_pk)"

definition reverse_targets_of :: "table_def \<Rightarrow> table_def list \<Rightarrow> table_def \<Rightarrow> string list" where
  "reverse_targets_of table schema other_table =
     (if tbl_name other_table = tbl_name table then []
      else case collect_many_to_many_targets table other_table (model_key_columns other_table) schema of
        Some m2m_targets \<Rightarrow> m2m_targets
      | None \<Rightarrow> map (\<lambda>_. tbl_name other_table) (filter (targets_table (tbl_name table)) (tbl_constraints other_table)))"

definition collect_reverse_relation_targets :: "table_def \<Rightarrow> table_def list \<Rightarrow> string list" where
  "collect_reverse_relation_targets table schema = concat (map (reverse_targets_of table schema) schema)"

definition junction_relation :: "table_def \<Rightarrow> reverse_relation" where
  "junction_relation junction_table =
     \<lparr>rr_target_entity = tbl_name junction_table, rr_is_one_to_one = False,
      rr_field_base = seaorm_pluralize (sanitize_field_name (tbl_name junction_table)),
      rr_base_relation_enum = sanitize_type_name (seaorm_pascal_case (tbl_name junction_table)),
      rr_source_table = tbl_name junction_table, rr_has_multiple_fks = False, rr_via = None, rr_via_rel = None,
      rr_is_m2m = False\<rparr>"

definition linked_relation :: "table_def \<Rightarrow> string \<Rightarrow> reverse_relation" where
  "linked_relation junction_table ref_table =
     \<lparr>rr_target_entity = ref_table, rr_is_one_to_one = False,
      rr_field_base = seaorm_pluralize (sanitize_field_name ref_table) @ ''_via_'' @
        sanitize_field_name (tbl_name junction_table),
      rr_base_relation_enum =
        sanitize_type_name (seaorm_pascal_case ref_table @ ''Via'' @ seaorm_pascal_case (tbl_name junction_table)),
      rr_source_table = tbl_name junction_table, rr_has_multiple_fks = False,
      rr_via = Some (tbl_name junction_table), rr_via_rel = None, rr_is_m2m = True\<rparr>"

definition collect_many_to_many_relations ::
  "table_def \<Rightarrow> table_def \<Rightarrow> string list \<Rightarrow> table_def list \<Rightarrow> reverse_relation list option" where
  "collect_many_to_many_relations current_table junction_table junction_pk schema =
     (case junction_targets current_table junction_table junction_pk of
        None \<Rightarrow> None
      | Some m2m \<Rightarrow>
          if m2m = [] then None
          else Some (junction_relation junction_table #
            map (linked_relation junction_table) (filter (known_table schema) m2m)))"

definition fks_to :: "string \<Rightarrow> table_def \<Rightarrow> nat" where
  "fks_to name other_table = length (filter (targets_table name) (tbl_constraints other_table))"

text \<open>The count is by name: tables of one name add up.\<close>

definition has_multiple_fks :: "string \<Rightarrow> table_def list \<Rightarrow> string \<Rightarrow> bool" where
  "has_multiple_fks name schema other = (sum_list (map (fks_to name) (filter (\<lambda>t. tbl_name t = other) schema)) > 1)"

definition reverse_is_one_to_one :: "string list \<Rightarrow> string list \<Rightarrow> string list \<Rightarrow> bool" where
  "reverse_is_one_to_one columns other_pk other_unique =
     (if length columns = 1
      then (length other_pk = 1 \<and> hd columns \<in> set other_pk) \<or> hd columns \<in> set other_unique
      else length columns = length other_pk \<and> list_all (\<lambda>c. c \<in> set other_pk) columns)"

definition reverse_field_base :: "bool \<Rightarrow> bool \<Rightarrow> string \<Rightarrow> string \<Rightarrow> string" where
  "reverse_field_base multiple one_to_one base_relation_enum other =
     (if multiple then
        (let lowercase_enum = sanitize_field_name (to_snake_case base_relation_enum)
         in if one_to_one then lowercase_enum
            else lowercase_enum @ ''_'' @ seaorm_pluralize (sanitize_field_name other))
      else if one_to_one then sanitize_field_name other
      else seaorm_pluralize (sanitize_field_name other))"

definition direct_relation :: "table_def \<Rightarrow> table_def list \<Rightarrow> table_def \<Rightarrow> string list \<Rightarrow> reverse_relation" where
  "direct_relation table schema other_table columns =
     (let one_to_one = reverse_is_one_to_one columns (model_key_columns other_table)
            (single_column_uniques (tbl_constraints other_table));
          multiple = has_multiple_fks (tbl_name table) schema (tbl_name other_table);
          base_relation_enum = generate_relation_enum_name columns
      in \<lparr>rr_target_entity = tbl_name other_table, rr_is_one_to_one = one_to_one,
          rr_field_base = reverse_field_base multiple one_to_one base_relation_enum (tbl_name other_table),
          rr_base_relation_enum = base_relation_enum, rr_source_table = tbl_name other_table,
          rr_has_multiple_fks = multiple, rr_via = None, rr_via_rel = Some base_relation_enum, rr_is_m2m = False\<rparr>)"

definition reverse_relations_of :: "table_def \<Rightarrow> table_def list \<Rightarrow> table_def \<Rightarrow> reverse_relation list" where
  "reverse_relations_of table schema other_table =
     (if tbl_name other_table = tbl_name table then []
      else case collect_many_to_many_relations table other_table (model_key_columns other_table) schema of
        Some m2m_relations \<Rightarrow> m2m_relations
      | None \<Rightarrow> map (\<lambda>(columns, _). direct_relation table schema other_table columns)
          (filter (\<lambda>(_, ref_table). ref_table = tbl_name table) (fk_links (tbl_constraints other_table))))"

definition reverse_enum_name :: "reverse_relation \<Rightarrow> string list \<Rightarrow> string" where
  "reverse_enum_name rel used_relation_enums =
     (let preferred =
        (if rr_is_m2m rel then rr_base_relation_enum rel
         else let base_enum = sanitize_type_name (seaorm_pascal_case
                    (case rr_via rel of Some via \<Rightarrow> via | None \<Rightarrow> rr_source_table rel))
              in if base_enum \<in> set used_relation_enums then rr_base_relation_enum rel else base_enum)
      in unique_relation_enum_name preferred (rr_source_table rel) (rr_base_relation_enum rel) used_relation_enums)"

definition attr_line :: "string list \<Rightarrow> string" where
  "attr_line parts = ''    #[sea_orm('' @ join '', '' parts @ '')]''"

definition attr_value :: "string \<Rightarrow> string \<Rightarrow> string" where
  "attr_value key v = key @ '' = '' @ double_quoted v"

definition reverse_attr :: "reverse_relation \<Rightarrow> string option \<Rightarrow> string" where
  "reverse_attr rel enum_name =
     (let relation_type = (if rr_is_one_to_one rel then ''has_one'' else ''has_many'') in
      case enum_name of
        Some name \<Rightarrow>
          attr_line ([relation_type, attr_value ''relation_enum'' name] @
            (case rr_via_rel rel of
               Some via_rel \<Rightarrow> [attr_value ''via_rel'' via_rel]
             | None \<Rightarrow> (case rr_via rel of
                 Some via \<Rightarrow> [attr_value ''via'' (seaorm_module_name via)] | None \<Rightarrow> [])))
      | None \<Rightarrow>
          attr_line (relation_type # (case rr_via rel of
            Some via \<Rightarrow> [attr_value ''via'' (seaorm_module_name via)] | None \<Rightarrow> [])))"

text \<open>
  A relation field: its attribute, its name and its type.  The lines of the model are made of them.
\<close>

record relation_field =
  rf_attr :: string
  rf_name :: string
  rf_type :: string

definition field_lines :: "relation_field \<Rightarrow> string list" where
  "field_lines f = [rf_attr f, ''    pub '' @ rf_name f @ '': '' @ rf_type f @ '','']"

definition needs_reverse_enum :: "string list \<Rightarrow> reverse_relation \<Rightarrow> bool" where
  "needs_reverse_enum entities rel \<longleftrightarrow> rr_has_multiple_fks rel \<or> count_list entities (rr_target_entity rel) > 1"

fun reverse_fields ::
  "(string \<Rightarrow> string) \<Rightarrow> string list \<Rightarrow> string list \<Rightarrow> string list \<Rightarrow> reverse_relation list \<Rightarrow> relation_field list" where
  "reverse_fields path entities used used_relation_enums [] = []"
| "reverse_fields path entities used used_relation_enums (rel # rels) =
     (let (field_name, used') = unique_name (rr_field_base rel) used;
          enum_name = (if needs_reverse_enum entities rel then Some (reverse_enum_name rel used_relation_enums) else None);
          enums' = (case enum_name of Some n \<Rightarrow> n # used_relation_enums | None \<Rightarrow> used_relation_enums)
      in \<lparr>rf_attr = reverse_attr rel enum_name, rf_name = field_name,
          rf_type = (if rr_is_one_to_one rel then ''HasOne'' else ''HasMany'') @ ''<'' @ path (rr_target_entity rel) @ ''::Entity>''\<rparr> #
         reverse_fields path entities used' enums' rels)"

section \<open>Forward relations\<close>

definition forward_field_base :: "forward_relation \<Rightarrow> string" where
  "forward_field_base relation =
     (case fr_columns relation of
        [column] \<Rightarrow> infer_field_name_from_fk_column column (fr_resolved_table relation)
          (case fr_resolved_columns relation of [] \<Rightarrow> [] | c # _ \<Rightarrow> c)
      | _ \<Rightarrow> sanitize_field_name (fr_resolved_table relation))"

definition forward_enum_name :: "string \<Rightarrow> forward_relation \<Rightarrow> string list \<Rightarrow> string" where
  "forward_enum_name table_name relation used_relation_enums =
     (let base = generate_relation_enum_name (fr_columns relation)
      in if base \<in> set used_relation_enums then base @ sanitize_type_name (seaorm_pascal_case table_name) else base)"

definition forward_attr :: "forward_relation \<Rightarrow> string option \<Rightarrow> string" where
  "forward_attr relation enum_name =
     attr_line ([''belongs_to''] @ (case enum_name of Some n \<Rightarrow> [attr_value ''relation_enum'' n] | None \<Rightarrow> []) @
       [attr_value ''from'' (fk_attr_value (fr_columns relation)),
        attr_value ''to'' (fk_attr_value (fr_resolved_columns relation))])"

text \<open>A table that is the target of two foreign keys appears twice among the entities as well.\<close>

definition needs_forward_enum :: "string list \<Rightarrow> forward_relation list \<Rightarrow> forward_relation \<Rightarrow> bool" where
  "needs_forward_enum entities forward relation \<longleftrightarrow>
     count_list (map fr_resolved_table forward) (fr_resolved_table relation) > 1 \<or>
     count_list entities (fr_resolved_table relation) > 1"

fun forward_fields ::
  "string \<Rightarrow> (string \<Rightarrow> string) \<Rightarrow> string list \<Rightarrow> forward_relation list \<Rightarrow> string list \<Rightarrow> string list \<Rightarrow>
   forward_relation list \<Rightarrow> relation_field list \<times> string list \<times> string list" where
  "forward_fields table_name path entities forward used enums [] = ([], used, enums)"
| "forward_fields table_name path entities forward used enums (relation # relations) =
     (let (field_name, used') = unique_name (forward_field_base relation) used;
          enum_name = (if needs_forward_enum entities forward relation
                       then Some (forward_enum_name table_name relation enums) else None);
          enums' = (case enum_name of Some n \<Rightarrow> n # enums | None \<Rightarrow> enums);
          field = \<lparr>rf_attr = forward_attr relation enum_name, rf_name = field_name,
            rf_type = ''HasOne<'' @ path (fr_resolved_table relation) @ ''::Entity>''\<rparr>;
          (fields, final) = forward_fields table_name path entities forward used' enums' relations
      in (field # fields, final))"

definition relation_fields ::
  "table_def \<Rightarrow> table_def list \<Rightarrow> module_paths \<Rightarrow> string \<Rightarrow> relation_field list option" where
  "relation_fields table schema paths crate_prefix =
     (case resolve_table_fks_pure table schema of
        None \<Rightarrow> None
      | Some forward \<Rightarrow>
          (let columns = map (\<lambda>c. sanitize_field_name (col_name c)) (tbl_columns table);
               entities = map fr_resolved_table forward @ collect_reverse_relation_targets table schema;
               path = (\<lambda>target. resolve_relation_entity_module_path (tbl_name table) target paths crate_prefix);
               (fields, used, enums) = forward_fields (tbl_name table) path entities forward columns [] forward
           in Some (fields @ reverse_fields path entities used enums
                (concat (map (reverse_relations_of table schema) schema)))))"

definition relation_field_defs_with_schema ::
  "table_def \<Rightarrow> table_def list \<Rightarrow> module_paths \<Rightarrow> string \<Rightarrow> string list option" where
  "relation_field_defs_with_schema table schema paths crate_prefix =
     map_option (\<lambda>fields. concat (map field_lines fields)) (relation_fields table schema paths crate_prefix)"

end
