(* ===== verification/Seaorm_Render.thy ===== *)
theory Seaorm_Render
  imports Seaorm_Relations
begin

text \<open>
  The entity files of the SeaORM exporter (\<open>crates/vespertide-exporter/src/seaorm/render.rs\<close>, \<open>mod.rs\<close>
  and \<open>relations/self_ref.rs\<close>).  A rendered file is a list of lines; \<open>None\<close> is a panic.
\<close>

section \<open>Lines\<close>

text \<open>\<open>str::lines\<close>: the parts between line feeds, a carriage return before one is dropped, and an empty last
  part is left out.\<close>

fun split_lines :: "string \<Rightarrow> string list" where
  "split_lines [] = [[]]"
| "split_lines (c # s) =
     (if c = CHR 0x0A then [] # split_lines s
      else case split_lines s of p # ps \<Rightarrow> (c # p) # ps | [] \<Rightarrow> [[c]])"

definition without_cr :: "string \<Rightarrow> string" where
  "without_cr s = (if s \<noteq> [] \<and> last s = CHR 0x0D then butlast s else s)"

definition text_lines :: "string \<Rightarrow> string list" where
  "text_lines s =
     (let parts = split_lines s in map without_cr (butlast parts) @ (if last parts = [] then [] else [last parts]))"

definition without_blank_end :: "string list \<Rightarrow> string list" where
  "without_blank_end lines = rev (dropWhile (\<lambda>l. l = []) (rev lines))"

section \<open>Self-referencing junctions\<close>

record self_ref_junction =
  sj_junction_table :: string
  sj_role_columns :: "string list"
  sj_role_relations :: "string list"

definition collect_self_ref_junction :: "table_def \<Rightarrow> table_def \<Rightarrow> string list \<Rightarrow> self_ref_junction option" where
  "collect_self_ref_junction current_table junction_table junction_pk =
     (let fks = fk_links (tbl_constraints junction_table) in
      if length junction_pk < 2 then None
      else if length fks < 2 then None
      else if \<not> list_all (\<lambda>(cols, _). list_all (\<lambda>c. c \<in> set junction_pk) cols) fks then None
      else if \<not> list_all (\<lambda>(_, ref_table). ref_table = tbl_name current_table) fks then None
      else Some \<lparr>sj_junction_table = tbl_name junction_table, sj_role_columns = map (\<lambda>(cols, _). hd cols) fks,
             sj_role_relations = map (\<lambda>(cols, _). generate_relation_enum_name cols) fks\<rparr>)"

definition self_ref_link_name :: "self_ref_junction \<Rightarrow> nat \<Rightarrow> nat \<Rightarrow> string" where
  "self_ref_link_name j from_idx to_idx =
     sanitize_type_name (seaorm_pascal_case (sj_role_columns j ! from_idx) @ ''To'' @
       seaorm_pascal_case (sj_role_columns j ! to_idx) @ ''Via'' @ seaorm_pascal_case (sj_junction_table j))"

definition resolve_self_ref_link_module_path :: "string \<Rightarrow> string \<Rightarrow> module_paths \<Rightarrow> string \<Rightarrow> string" where
  "resolve_self_ref_link_module_path current_table junction_table paths crate_prefix =
     (case (paths current_table, paths junction_table) of
        (Some current, Some target) \<Rightarrow>
          if butlast current = butlast target then super_module junction_table
          else if crate_prefix \<noteq> [] then absolute_module_path crate_prefix target
          else absolute_module_path ''crate::models'' target
      | _ \<Rightarrow> super_module junction_table)"

text \<open>The pairs of different roles, in the order of the two loops.\<close>

definition role_pairs :: "self_ref_junction \<Rightarrow> (nat \<times> nat) list" where
  "role_pairs j =
     (let ids = [0..<length (sj_role_columns j)]
      in concat (map (\<lambda>a. map (Pair a) (filter (\<lambda>b. a \<noteq> b) ids)) ids))"

definition self_ref_junctions :: "table_def \<Rightarrow> table_def list \<Rightarrow> self_ref_junction list" where
  "self_ref_junctions table schema =
     List.map_filter (\<lambda>other_table.
         if tbl_name other_table = tbl_name table then None
         else collect_self_ref_junction table other_table (model_key_columns other_table)) schema"

definition link_lines :: "string \<Rightarrow> self_ref_junction \<Rightarrow> nat \<times> nat \<Rightarrow> string list" where
  "link_lines junction_entity_path j pair =
     (let link_name = self_ref_link_name j (fst pair) (snd pair) in
      [''pub struct '' @ link_name @ '';'',
       ''impl Linked for '' @ link_name @ '' {'',
       ''    type FromEntity = Entity;'',
       ''    type ToEntity = Entity;'',
       [],
       ''    fn link(&self) -> Vec<RelationDef> {'',
       ''        vec!['',
       ''            '' @ junction_entity_path @ ''::Relation::'' @ sj_role_relations j ! fst pair @ ''.def().rev(),'',
       ''            '' @ junction_entity_path @ ''::Relation::'' @ sj_role_relations j ! snd pair @ ''.def(),'',
       ''        ]'',
       ''    }'',
       ''}'',
       []])"

definition render_self_ref_link_helpers :: "table_def \<Rightarrow> table_def list \<Rightarrow> module_paths \<Rightarrow> string \<Rightarrow> string list" where
  "render_self_ref_link_helpers table schema paths crate_prefix =
     without_blank_end (concat (map (\<lambda>j.
         concat (map (link_lines
             (resolve_self_ref_link_module_path (tbl_name table) (sj_junction_table j) paths crate_prefix) j)
           (role_pairs j)))
       (self_ref_junctions table schema)))"

definition method_base :: "self_ref_junction \<Rightarrow> nat \<times> nat \<Rightarrow> string" where
  "method_base j pair =
     ''find_'' @ seaorm_pluralize (sanitize_field_name (sj_role_columns j ! snd pair)) @ ''_via_'' @
     sanitize_field_name (sj_junction_table j) @ ''_from_'' @ sanitize_field_name (sj_role_columns j ! fst pair)"

fun query_methods :: "string list \<Rightarrow> (self_ref_junction \<times> nat \<times> nat) list \<Rightarrow> string list" where
  "query_methods used [] = []"
| "query_methods used ((j, pair) # rest) =
     (let (method_name, used') = unique_name (method_base j pair) used in
      [''    pub fn '' @ method_name @ ''(&self) -> Select<Entity> {'',
       ''        self.find_linked('' @ self_ref_link_name j (fst pair) (snd pair) @ '')'',
       ''    }'',
       []] @ query_methods used' rest)"

definition render_self_ref_query_helpers :: "table_def \<Rightarrow> table_def list \<Rightarrow> string list" where
  "render_self_ref_query_helpers table schema =
     (let methods = without_blank_end (query_methods []
            (concat (map (\<lambda>j. map (Pair j) (role_pairs j)) (self_ref_junctions table schema))))
      in if methods = [] then [] else [''impl Model {''] @ methods @ [''}''])"

section \<open>Columns\<close>

definition column_attrs ::
  "column_def \<Rightarrow> string list \<Rightarrow> bool \<Rightarrow> string list \<Rightarrow> string list \<Rightarrow> string list" where
  "column_attrs column primary_keys composite_pk unique_columns indexed_columns =
     (let is_pk = col_name column \<in> set primary_keys;
          is_unique = col_name column \<in> set unique_columns;
          is_indexed = col_name column \<in> set indexed_columns;
          field_name = sanitize_field_name (col_name column)
      in (if is_pk then ''primary_key'' #
            (if composite_pk \<and> supports_auto_increment (col_type column) then [''auto_increment = false''] else []) else []) @
         (if is_unique \<and> \<not> is_pk then [''unique''] else []) @
         (if is_indexed \<and> \<not> is_pk \<and> \<not> is_unique then [''indexed''] else []) @
         (case col_default column of Some v \<Rightarrow> [format_default_value v (col_type column)] | None \<Rightarrow> []) @
         (case col_type column of Complex (Custom custom_type) \<Rightarrow> [attr_value ''column_type'' custom_type] | _ \<Rightarrow> []) @
         (if field_name \<noteq> col_name column then [attr_value ''column_name'' (col_name column)] else []))"

definition optional_type :: "bool \<Rightarrow> string \<Rightarrow> string" where
  "optional_type nullable ty = (if nullable then ''Option<'' @ ty @ ''>'' else ty)"

definition column_rust_type :: "column_def \<Rightarrow> string" where
  "column_rust_type column =
     (case col_type column of
        Complex (Enum name _) \<Rightarrow> optional_type (col_nullable column) (seaorm_pascal_case name)
      | Complex (Custom custom_type) \<Rightarrow>
          if is_jsonb_custom_type custom_type then optional_type (col_nullable column) ''Json''
          else to_rust_type (col_type column) (col_nullable column)
      | _ \<Rightarrow> to_rust_type (col_type column) (col_nullable column))"

definition doc_lines :: "string \<Rightarrow> string option \<Rightarrow> string list" where
  "doc_lines indent text = (case text of None \<Rightarrow> [] | Some t \<Rightarrow> map (\<lambda>l. indent @ ''/// '' @ l) (text_lines t))"

definition render_column ::
  "column_def \<Rightarrow> string list \<Rightarrow> bool \<Rightarrow> string list \<Rightarrow> string list \<Rightarrow> string list" where
  "render_column column primary_keys composite_pk unique_columns indexed_columns =
     (let attrs = column_attrs column primary_keys composite_pk unique_columns indexed_columns in
      doc_lines ''    '' (col_comment column) @
      (if attrs = [] then [] else [attr_line attrs]) @
      [''    pub '' @ sanitize_field_name (col_name column) @ '': '' @ column_rust_type column @ '',''])"

section \<open>Indexes\<close>

definition index_line :: "string option \<Rightarrow> string list \<Rightarrow> string" where
  "index_line name columns =
     ''// '' @ (case name of Some n \<Rightarrow> n | None \<Rightarrow> ''(unnamed)'') @ '' on ['' @ join_column_names columns '', '' @ '']''"

definition index_lines :: "table_constraint list \<Rightarrow> string list" where
  "index_lines constraints =
     List.map_filter (\<lambda>c. case c of Index name columns \<Rightarrow> Some (index_line name columns) | _ \<Rightarrow> None) constraints"

definition composite_unique_lines :: "table_constraint list \<Rightarrow> string list" where
  "composite_unique_lines constraints =
     List.map_filter (\<lambda>c. case c of
         Unique name columns _ \<Rightarrow>
           if length columns > 1
           then Some (''    &['' @ join_quoted columns @ ''],'' @ (case name of Some n \<Rightarrow> '' // '' @ n | None \<Rightarrow> []))
           else None
       | _ \<Rightarrow> None) constraints"

text \<open>The dash of the comment is not an ASCII character: its three bytes are written out.\<close>

definition render_indexes_and_uniques :: "table_constraint list \<Rightarrow> string list" where
  "render_indexes_and_uniques constraints =
     (let indexes = index_lines constraints; uniques = composite_unique_lines constraints in
      (if indexes = [] then []
       else ''// Index definitions (SeaORM uses Statement builders externally)'' # indexes) @
      (if uniques = [] then []
       else [[],
             ''/// Composite unique constraints '' @ [CHR 0xE2, CHR 0x80, CHR 0x94] @
             '' declare in migrations or use Statement builder.'',
             ''pub const COMPOSITE_UNIQUES: &[&[&str]] = &[''] @ uniques @ [''];'']))"

section \<open>Entities\<close>

definition enum_lines :: "table_def \<Rightarrow> seaorm_config \<Rightarrow> string list" where
  "enum_lines table config =
     concat (map (\<lambda>(name, vs). render_enum (tbl_name table) name vs config) (collect_table_enums table))"

definition model_derives :: "table_def \<Rightarrow> seaorm_config \<Rightarrow> string list" where
  "model_derives table config =
     [''Clone'', ''Debug'', ''PartialEq''] @
     (if list_all (\<lambda>c. column_type_supports_eq (col_type c)) (tbl_columns table) then [''Eq''] else []) @
     [''DeriveEntityModel''] @ so_extra_model_derives config"

definition blank_before :: "string list \<Rightarrow> string list" where
  "blank_before lines = (if lines = [] then [] else [] # lines)"

definition column_lines :: "table_def \<Rightarrow> string list" where
  "column_lines table =
     (let primary_keys = model_key_columns table in
      concat (map (\<lambda>column. render_column column primary_keys (length primary_keys > 1)
          (single_column_uniques (tbl_constraints table)) (single_column_indexes (tbl_constraints table)))
        (tbl_columns table)))"

definition entity_lines ::
  "table_def \<Rightarrow> table_def list \<Rightarrow> seaorm_config \<Rightarrow> string \<Rightarrow> module_paths \<Rightarrow> string \<Rightarrow> string list option" where
  "entity_lines table schema config pre paths crate_prefix =
     map_option (\<lambda>relation_lines.
         [''use sea_orm::entity::prelude::*;''] @
         (if collect_table_enums table \<noteq> [] then [''use serde::{Deserialize, Serialize};''] else []) @ [[]] @
         enum_lines table config @
         doc_lines [] (tbl_description table) @
         [''#[sea_orm::model]'',
          ''#[derive('' @ join '', '' (model_derives table config) @ '')]'',
          ''#[sea_orm(table_name = '' @ double_quoted (pre @ tbl_name table) @ '')]'',
          ''pub struct Model {''] @
         column_lines table @ relation_lines @ [''}'', []] @
         render_indexes_and_uniques (tbl_constraints table) @
         (if so_vespera_schema_type config
          then [''vespera::schema_type!(Schema from Model, name = '' @
                double_quoted (seaorm_pascal_case (tbl_name table) @ ''Schema'') @ '');''] else []) @
         [''impl ActiveModelBehavior for ActiveModel {}''] @
         blank_before (render_self_ref_link_helpers table schema paths crate_prefix) @
         blank_before (render_self_ref_query_helpers table schema) @ [[]])
       (relation_field_defs_with_schema table schema paths crate_prefix)"

definition render_entity_with_config_and_paths ::
  "table_def \<Rightarrow> table_def list \<Rightarrow> seaorm_config \<Rightarrow> string \<Rightarrow> module_paths \<Rightarrow> string \<Rightarrow> string option" where
  "render_entity_with_config_and_paths table schema config pre paths crate_prefix =
     map_option (join [CHR 0x0A]) (entity_lines table schema config pre paths crate_prefix)"

definition render_entity_with_config ::
  "table_def \<Rightarrow> table_def list \<Rightarrow> seaorm_config \<Rightarrow> string \<Rightarrow> string option" where
  "render_entity_with_config table schema config pre =
     render_entity_with_config_and_paths table schema config pre Map.empty []"

definition render_entity_with_schema :: "table_def \<Rightarrow> table_def list \<Rightarrow> string option" where
  "render_entity_with_schema table schema = render_entity_with_config table schema default_seaorm_config []"

definition render_entity :: "table_def \<Rightarrow> string option" where
  "render_entity table = render_entity_with_schema table []"

text \<open>Sequentially or in parallel, the parts come in the order of the tables.\<close>

definition export_seaorm :: "table_def list \<Rightarrow> string option" where
  "export_seaorm schema =
     map_option (join [CHR 0x0A, CHR 0x0A]) (collect_options (map (\<lambda>table. render_entity_with_schema table schema) schema))"

end
