(* ===== verification/Export_Laws.thy ===== *)
theory Export_Laws
  imports Export_Scan
begin

text \<open>
  Free names are free, the names of a file are distinct, and a written string literal ends where it
  should.
\<close>

section \<open>Free names\<close>

lemma numbered_free: "numbered stem taken n \<notin> set taken"
proof (induction stem taken n rule: numbered.induct)
  case (1 stem taken n)
  show ?case
    by (subst numbered.simps) (use 1 in \<open>simp add: Let_def\<close>)
qed

lemma claim_binding_free:
  "claim_binding preferred taken = (name, taken') \<Longrightarrow> name \<notin> set taken \<and> taken' = name # taken"
  by (auto simp: claim_binding_def Let_def numbered_free split: if_splits)

lemma claim_field_name_free:
  "claim_field_name preferred taken = (name, taken') \<Longrightarrow> name \<notin> set taken \<and> taken' = name # taken"
  by (auto simp: claim_field_name_def first_unused_def Let_def numbered_free split: if_splits)

text \<open>
  What the three ways to claim a name have in common: the name was free and is taken afterwards.  Names
  claimed one after the other are distinct and avoid those that were taken before.
\<close>

fun claim_all ::
  "(string \<Rightarrow> string list \<Rightarrow> string \<times> string list) \<Rightarrow> string list \<Rightarrow> string list \<Rightarrow> string list \<times> string list" where
  "claim_all claim_name [] taken = ([], taken)"
| "claim_all claim_name (p # ps) taken =
     (let (name, taken') = claim_name p taken; (names, final) = claim_all claim_name ps taken' in (name # names, final))"

lemma claim_all_append:
  "claim_all f (ps @ qs) taken =
     (let (names, taken') = claim_all f ps taken; (names', final) = claim_all f qs taken' in (names @ names', final))"
  by (induction ps arbitrary: taken) (auto simp: Let_def split: prod.splits)

locale name_claim =
  fixes claim_name :: "string \<Rightarrow> string list \<Rightarrow> string \<times> string list"
  assumes fresh: "claim_name preferred taken = (name, taken') \<Longrightarrow> name \<notin> set taken"
    and takes: "claim_name preferred taken = (name, taken') \<Longrightarrow> taken' = name # taken"
begin

lemma claim_all_distinct:
  "claim_all claim_name ps taken = (names, final) \<Longrightarrow>
   distinct names \<and> set names \<inter> set taken = {} \<and> final = rev names @ taken \<and> length names = length ps"
proof (induction ps arbitrary: taken names final)
  case (Cons p ps)
  obtain name taken' where one: "claim_name p taken = (name, taken')" by fastforce
  obtain ns fin where rest: "claim_all claim_name ps taken' = (ns, fin)" by fastforce
  from Cons.prems one rest have "names = name # ns" "final = fin" by auto
  with Cons.IH [OF rest] fresh [OF one] takes [OF one] show ?case by auto
qed simp

end

interpretation binding: name_claim claim_binding
  by unfold_locales (auto dest: claim_binding_free)

interpretation field: name_claim claim_field_name
  by unfold_locales (auto dest: claim_field_name_free)

lemma claim_binding_keeps: "preferred \<notin> set taken \<Longrightarrow> claim_binding preferred taken = (preferred, preferred # taken)"
  by (simp add: claim_binding_def)

section \<open>Names of a file\<close>

text \<open>No two keys have the same name, and the taken names are those of the keys.\<close>

definition scope_distinct :: "scope_names \<Rightarrow> bool" where
  "scope_distinct scope \<longleftrightarrow> inj_on (sn_names scope) (dom (sn_names scope)) \<and> ran (sn_names scope) = set (sn_taken scope)"

lemma no_scope_distinct: "scope_distinct no_names"
  by (simp add: scope_distinct_def no_names_def)

lemma claim_distinct:
  assumes "scope_distinct scope"
  shows "scope_distinct (claim key natural scope)"
proof (cases "sn_names scope key")
  case None
  obtain name taken where c: "claim_binding natural (sn_taken scope) = (name, taken)" by fastforce
  with claim_binding_free have free: "name \<notin> ran (sn_names scope)" "taken = name # sn_taken scope"
    using assms by (auto simp: scope_distinct_def)
  have "inj_on ((sn_names scope)(key \<mapsto> name)) (insert key (dom (sn_names scope)))"
    using assms free(1) None by (auto simp: scope_distinct_def inj_on_def ran_def dom_def)
  with None c free(2) assms show ?thesis
    by (auto simp: claim_def scope_distinct_def)
qed (simp add: claim_def assms)

lemma claim_keeps: "sn_names scope k = Some name \<Longrightarrow> sn_names (claim key natural scope) k = Some name"
  by (auto simp: claim_def split: prod.splits)

lemma claim_claims: "sn_names (claim key natural scope) key \<noteq> None"
  by (auto simp: claim_def split: prod.splits)

lemma foldl_keeps:
  assumes "\<And>s x. P s \<Longrightarrow> P (f s x)" and "P s"
  shows "P (foldl f s xs)"
  using assms(2) by (induction xs arbitrary: s) (auto intro: assms(1))

lemma foldl_establishes:
  assumes "\<And>s y. P s \<Longrightarrow> P (f s y)" and "\<And>s. P (f s x)" and "x \<in> set xs"
  shows "P (foldl f s xs)"
  using assms(3)
proof (induction xs arbitrary: s)
  case (Cons y ys)
  then show ?case using foldl_keeps [of P f, OF assms(1)] assms(2) by auto
qed simp

lemma collect_scope_distinct: "scope_distinct (collect_scope_names schema table_identifier enum_identifier)"
  unfolding collect_scope_names_def Let_def
  by (intro foldl_keeps [where P = scope_distinct])
    (auto simp: claim_table_def claim_enums_def claim_enum_def Let_def
      intro!: claim_distinct no_scope_distinct foldl_keeps [where P = scope_distinct])

lemma claim_enums_keeps: "sn_names scope k = Some name \<Longrightarrow> sn_names (claim_enums f shared scope table) k = Some name"
  unfolding claim_enums_def claim_enum_def Let_def
  by (rule foldl_keeps [where P = "\<lambda>s. sn_names s k = Some name"]) (auto intro: claim_keeps)

lemma scope_table_named:
  assumes "table \<in> set schema"
  shows "scope_table (collect_scope_names schema ti ei) (tbl_name table) \<noteq> None"
proof -
  let ?k = "NamedTable (tbl_name table)"
  have "sn_names (foldl (claim_table ti) no_names schema) ?k \<noteq> None"
    by (rule foldl_establishes [where P = "\<lambda>s. sn_names s ?k \<noteq> None" and x = table])
      (use assms in \<open>auto simp: claim_table_def claim_claims intro: claim_keeps\<close>)
  then obtain name where "sn_names (foldl (claim_table ti) no_names schema) ?k = Some name" by blast
  then have "sn_names (collect_scope_names schema ti ei) ?k = Some name"
    unfolding collect_scope_names_def Let_def
    by (rule foldl_keeps [where P = "\<lambda>s. sn_names s ?k = Some name", rotated]) (rule claim_enums_keeps)
  then show ?thesis by (simp add: scope_table_def)
qed

lemma claim_enum_keeps: "sn_names scope k = Some name \<Longrightarrow> sn_names (claim_enum f shared t scope e) k = Some name"
  by (simp add: claim_enum_def Let_def claim_keeps)

lemma scope_enum_named:
  assumes "table \<in> set schema" and "enum \<in> set (collect_table_enums table)"
  shows "scope_enum_type (collect_scope_names schema ti ei) (tbl_name table) (fst enum) \<noteq> None"
proof -
  let ?k = "NamedEnum (tbl_name table) (fst enum)"
  have enum: "sn_names (claim_enums f shared s table) ?k \<noteq> None" for f shared s
    unfolding claim_enums_def
    by (rule foldl_establishes [where P = "\<lambda>s. sn_names s ?k \<noteq> None" and x = enum])
      (use assms(2) in \<open>auto simp: claim_enum_def Let_def claim_claims intro: claim_enum_keeps claim_keeps\<close>)
  have "sn_names (collect_scope_names schema ti ei) ?k \<noteq> None"
    unfolding collect_scope_names_def Let_def
    by (rule foldl_establishes [where P = "\<lambda>s. sn_names s ?k \<noteq> None" and x = table])
      (use assms(1) enum in \<open>auto intro: claim_enums_keeps\<close>)
  then show ?thesis by (simp add: scope_enum_type_def)
qed

text \<open>Tables whose identifiers differ keep them.\<close>

lemma claim_tables_natural:
  assumes "distinct (map (\<lambda>t. ti (tbl_name t)) schema)"
    and "\<forall>t \<in> set schema. ti (tbl_name t) \<notin> set (sn_taken scope) \<and> sn_names scope (NamedTable (tbl_name t)) = None"
  shows "\<forall>t \<in> set schema. sn_names (foldl (claim_table ti) scope schema) (NamedTable (tbl_name t)) = Some (ti (tbl_name t))"
  using assms
proof (induction schema arbitrary: scope)
  case (Cons table tables)
  let ?id = "ti (tbl_name table)" and ?k = "NamedTable (tbl_name table)"
  let ?scope = "\<lparr>sn_names = (sn_names scope)(?k \<mapsto> ?id), sn_taken = ?id # sn_taken scope\<rparr>"
  have step: "claim_table ti scope table = ?scope"
    using Cons.prems(2) by (simp add: claim_table_def claim_def claim_binding_keeps)
  have other: "tbl_name t \<noteq> tbl_name table" if "t \<in> set tables" for t
  proof
    assume "tbl_name t = tbl_name table"
    with that have "?id \<in> set (map (\<lambda>t. ti (tbl_name t)) tables)" by (auto intro!: rev_image_eqI [of t])
    with Cons.prems(1) show False by simp
  qed
  have "\<forall>t \<in> set tables. sn_names (foldl (claim_table ti) ?scope tables) (NamedTable (tbl_name t)) = Some (ti (tbl_name t))"
    using Cons.prems other by (intro Cons.IH) (auto simp: image_iff)
  moreover have "sn_names (foldl (claim_table ti) ?scope tables) ?k = Some ?id"
    by (rule foldl_keeps [where P = "\<lambda>s. sn_names s ?k = Some ?id"]) (auto simp: claim_table_def intro: claim_keeps)
  ultimately show ?case by (simp add: step)
qed simp

lemma collect_scope_natural:
  assumes "distinct (map (\<lambda>t. ti (tbl_name t)) schema)" and "table \<in> set schema"
  shows "scope_table (collect_scope_names schema ti ei) (tbl_name table) = Some (ti (tbl_name table))"
proof -
  let ?P = "\<lambda>s. sn_names s (NamedTable (tbl_name table)) = Some (ti (tbl_name table))"
  have "\<forall>t \<in> set schema. sn_names (foldl (claim_table ti) no_names schema) (NamedTable (tbl_name t)) = Some (ti (tbl_name t))"
    using assms(1) by (intro claim_tables_natural) (simp_all add: no_names_def)
  with assms(2) have "?P (foldl (claim_table ti) no_names schema)" by simp
  then have "?P (collect_scope_names schema ti ei)"
    unfolding collect_scope_names_def Let_def
    by (rule foldl_keeps [where P = ?P, rotated]) (rule claim_enums_keeps)
  then show ?thesis by (simp add: scope_table_def)
qed

text \<open>Members are claimed after tables and enums.\<close>

definition claim_members :: "scope_names \<Rightarrow> (string \<times> string \<times> nat \<times> string) list \<Rightarrow> scope_names" where
  "claim_members scope members = foldl (\<lambda>s (t, e, i, n). claim_member t e i n s) scope members"

lemma claim_members_distinct: "scope_distinct scope \<Longrightarrow> scope_distinct (claim_members scope members)"
  unfolding claim_members_def
  by (rule foldl_keeps [where P = scope_distinct]) (auto simp: claim_member_def intro: claim_distinct)

lemma claim_members_keeps: "sn_names scope k = Some name \<Longrightarrow> sn_names (claim_members scope members) k = Some name"
  unfolding claim_members_def
  by (rule foldl_keeps [where P = "\<lambda>s. sn_names s k = Some name"]) (auto simp: claim_member_def intro: claim_keeps)

section \<open>String literals\<close>

text \<open>A reader of the text after the opening quote: the string and what follows its literal.\<close>

fun read_quoted_literal :: "string \<Rightarrow> (string \<times> string) option" where
  "read_quoted_literal [] = None"
| "read_quoted_literal (c # s) =
     (if c = CHR 0x22 then Some ([], s)
      else if c = CHR 0x5C then
        (case s of [] \<Rightarrow> None
         | e # s' \<Rightarrow>
             map_option (\<lambda>(v, rest). ((if e = CHR ''n'' then CHR 0x0A else if e = CHR ''r'' then CHR 0x0D
               else if e = CHR ''t'' then CHR 0x09 else e) # v, rest)) (read_quoted_literal s'))
      else map_option (\<lambda>(v, rest). (c # v, rest)) (read_quoted_literal s))"

lemma read_quoted_literal_chars: "read_quoted_literal (concat (map literal_char v) @ [CHR 0x22] @ rest) = Some (v, rest)"
  by (induction v) (auto simp: literal_char_def)

lemma string_literal_reads_back: "read_quoted_literal (tl (string_literal v @ rest)) = Some (v, rest)"
  using read_quoted_literal_chars [of v rest] by (simp add: string_literal_def double_quoted_def)

end
