(* ===== verification/Seaorm_Laws.thy ===== *)
theory Seaorm_Laws
  imports Seaorm_Render Export_Laws
begin

text \<open>
  Where chains of foreign keys end, and why the fields of a model do not clash.
\<close>

section \<open>Chains\<close>

text \<open>From a key to the key that the foreign key on its column refers to.\<close>

definition chain_step :: "table_map \<Rightarrow> string \<times> string \<Rightarrow> string \<times> string \<Rightarrow> bool" where
  "chain_step tables key key' \<longleftrightarrow>
     (\<exists>cols. next_target tables key = Some (fst key', cols) \<and> cols \<noteq> [] \<and> hd cols = snd key')"

text \<open>
  The target that a path of keys resolves to: its last key, when no foreign key starts there or the
  next key is on the path already, and otherwise the composite reference that the last key has.
\<close>

definition path_target :: "table_map \<Rightarrow> (string \<times> string) list \<Rightarrow> string \<times> string list \<Rightarrow> bool" where
  "path_target tables path target \<longleftrightarrow>
     (let key = last path in
      target = (fst key, [snd key]) \<and>
        (next_target tables key = None \<or> (\<exists>key' \<in> set path. chain_step tables key key')) \<or>
      next_target tables key = Some target \<and> length (snd target) > 1)"

definition has_references :: "table_map \<Rightarrow> bool" where
  "has_references tables \<longleftrightarrow> (\<forall>key t. next_target tables key \<noteq> Some (t, []))"

definition keys_refer :: "table_def \<Rightarrow> bool" where
  "keys_refer table \<longleftrightarrow>
     (\<forall>c \<in> set (tbl_constraints table). case as_fk c of Some (_, _, refs) \<Rightarrow> refs \<noteq> [] | None \<Rightarrow> True)"

lemma has_references_schema:
  assumes "\<forall>table \<in> set schema. keys_refer table"
  shows "has_references (table_map_of schema)"
  unfolding has_references_def
proof (intro allI notI)
  fix key t assume "next_target (table_map_of schema) key = Some (t, [])"
  then obtain table where t: "om_lookup (table_map_of schema) (fst key) = Some table"
    and fk: "fk_of_column table (snd key) = Some (t, [])"
    by (auto simp: next_target_def split: option.splits)
  from t have "(fst key, table) \<in> set (table_map_of schema)" by (simp add: om_lookup_def map_of_SomeD)
  then have "table \<in> set schema" by (auto simp: table_map_of_def om_collect_entry dest!: map_of_SomeD)
  with assms have refer: "keys_refer table" by blast
  from fk obtain cols where "(cols, t, []) \<in> set (List.map_filter as_fk (tbl_constraints table))"
    by (auto simp: fk_of_column_def find_Some_iff dest: nth_mem)
  then obtain c where "c \<in> set (tbl_constraints table)" "as_fk c = Some (cols, t, [])"
    by (auto simp: map_filter_def)
  with refer show False by (fastforce simp: keys_refer_def)
qed

lemma chain_from:
  assumes "has_references tables" and "length refs = 1" and "distinct path" and "path \<noteq> []"
    and "successively (chain_step tables) path" and "last path = (t, hd refs)" and "set visited = set (butlast path)"
  shows "\<exists>target more. resolve_fk_target_inner tables visited t refs = Some target \<and>
    distinct (path @ more) \<and> successively (chain_step tables) (path @ more) \<and> path_target tables (path @ more) target"
  using assms
proof (induction tables visited t refs arbitrary: path rule: resolve_fk_target_inner.induct)
  case (1 tables visited t refs path)
  note laws = \<open>has_references tables\<close> and path = \<open>distinct path\<close> \<open>path \<noteq> []\<close> \<open>successively (chain_step tables) path\<close>
    \<open>last path = (t, hd refs)\<close>
  obtain c where refs: "refs = [c]" using \<open>length refs = 1\<close> by (auto simp: length_Suc_conv)
  have on_path: "set ((t, c) # visited) = set path"
    using \<open>set visited = set (butlast path)\<close> path(2,4) refs by (cases path rule: rev_cases) auto
  have stay: ?case if "resolve_fk_target_inner tables visited t refs = Some target" "path_target tables path target" for target
    using that path(1,3) by (intro exI [of _ target] exI [of _ "[]"]) simp
  show ?case
  proof (cases "next_target tables (t, c)")
    case None
    then show ?thesis using path(4) refs
      by (intro stay [of "(t, refs)"]) (simp_all add: path_target_def resolve_fk_target_inner.simps)
  next
    case (Some fk)
    obtain t' cols where fk: "fk = (t', cols)" by fastforce
    with Some laws have cols: "cols \<noteq> []" by (auto simp: has_references_def)
    let ?k = "(t', hd cols)"
    have step: "chain_step tables (t, c) ?k" using Some fk cols by (simp add: chain_step_def)
    show ?thesis
    proof (cases "?k \<in> set path")
      case True
      with step have "path_target tables path (t, refs)" using path(4) refs by (auto simp: path_target_def Let_def)
      with True Some fk cols on_path refs show ?thesis
        by (intro stay [of "(t, refs)"]) (simp_all add: resolve_fk_target_inner.simps)
    next
      case False
      have go: "resolve_fk_target_inner tables visited t refs = resolve_fk_target_inner tables ((t, c) # visited) t' cols"
        using False Some fk cols on_path refs by (subst resolve_fk_target_inner.simps) simp
      show ?thesis
      proof (cases "length cols = 1")
        case composite: False
        with Some fk cols have "path_target tables path (t', cols)"
          using path(4) refs by (auto simp: path_target_def Let_def neq_Nil_conv)
        with go composite show ?thesis
          by (intro stay [of "(t', cols)"]) (simp_all add: resolve_fk_target_inner.simps)
      next
        case single: True
        have longer: "distinct (path @ [?k])" "successively (chain_step tables) (path @ [?k])"
          using False path step refs by (auto simp: successively_append_iff)
        have visited: "set ((t, c) # visited) = set (butlast (path @ [?k]))" using on_path by simp
        from False on_path have new: "?k \<notin> set ((t, c) # visited)" by simp
        have "\<exists>target more. resolve_fk_target_inner tables ((t, c) # visited) t' cols = Some target \<and>
            distinct ((path @ [?k]) @ more) \<and> successively (chain_step tables) ((path @ [?k]) @ more) \<and>
            path_target tables ((path @ [?k]) @ more) target"
        proof (rule "1.IH" [of "(t, c)" fk t' cols "path @ [?k]"])
          show "\<not> length refs \<noteq> 1" "(t, c) = (t, hd refs)" by (simp_all add: refs)
          show "next_target tables (t, c) = Some fk" "cols \<noteq> []" "?k \<notin> set ((t, c) # visited)"
            by fact+
          show "(t', cols) = fk" by (simp add: fk)
          show "has_references tables" "length cols = 1" "distinct (path @ [?k])"
            "successively (chain_step tables) (path @ [?k])" by fact+
          show "set ((t, c) # visited) = set (butlast (path @ [?k]))" by fact
        qed simp_all
        then obtain target more where
          "resolve_fk_target_inner tables ((t, c) # visited) t' cols = Some target"
          "distinct ((path @ [?k]) @ more)" "successively (chain_step tables) ((path @ [?k]) @ more)"
          "path_target tables ((path @ [?k]) @ more) target" by blast
        with go show ?thesis by (intro exI [of _ target] exI [of _ "?k # more"]) simp
      qed
    qed
  qed
qed

lemma chain_ends:
  assumes "has_references tables"
  shows "\<exists>target path. resolve_fk_target_inner tables [] t [c] = Some target \<and> path \<noteq> [] \<and> hd path = (t, c) \<and>
    distinct path \<and> successively (chain_step tables) path \<and> path_target tables path target"
  using chain_from [OF assms, of "[c]" "[(t, c)]" t "[]"] by fastforce

section \<open>Fields\<close>

lemma unique_name_free:
  "unique_name base used = (name, used') \<Longrightarrow> name \<notin> set used \<and> used' = name # used"
  by (auto simp: unique_name_def Let_def numbered_free split: if_splits)

interpretation unique: name_claim unique_name
  by unfold_locales (auto dest: unique_name_free)

lemma forward_fields_names:
  "forward_fields table path entities forward used enums relations = (fds, used', enums') \<Longrightarrow>
   claim_all unique_name (map forward_field_base relations) used = (map rf_name fds, used')"
  by (induction relations arbitrary: used enums fds) (auto simp: Let_def split: prod.splits)

lemma reverse_fields_names:
  "fst (claim_all unique_name (map rr_field_base rels) used) = map rf_name (reverse_fields path entities used enums rels)"
  by (induction rels arbitrary: used enums) (auto simp: Let_def split: prod.splits)

lemma relation_fields_distinct:
  assumes "relation_fields table schema paths crate_prefix = Some fds"
  shows "distinct (map rf_name fds) \<and>
    set (map rf_name fds) \<inter> set (map (\<lambda>c. sanitize_field_name (col_name c)) (tbl_columns table)) = {}"
proof -
  let ?columns = "map (\<lambda>c. sanitize_field_name (col_name c)) (tbl_columns table)"
  from assms obtain forward fs used enums path entities rels where
    f: "forward_fields (tbl_name table) path entities forward ?columns [] forward = (fs, used, enums)" and
    all: "fds = fs @ reverse_fields path entities used enums rels"
    by (auto simp: relation_fields_def Let_def split: option.splits prod.splits)
  obtain final where "claim_all unique_name (map forward_field_base forward @ map rr_field_base rels) ?columns =
      (map rf_name fds, final)"
    using forward_fields_names [OF f] reverse_fields_names [of rels used path entities enums]
    by (cases "claim_all unique_name (map rr_field_base rels) used") (auto simp: claim_all_append all)
  from unique.claim_all_distinct [OF this] show ?thesis by simp
qed

text \<open>Attributes written into one buffer are the joined fragments.\<close>

lemma push_attrs_join:
  assumes "\<forall>f \<in> set fragments. f \<noteq> []"
  shows "foldl push_attr [] fragments = join '', '' fragments"
proof -
  have "buf \<noteq> [] \<Longrightarrow> foldl push_attr buf fs = buf @ concat (map (\<lambda>f. '', '' @ f) fs)" for buf fs
    by (induction fs arbitrary: buf) (simp_all add: push_attr_def)
  moreover have "fs \<noteq> [] \<Longrightarrow> join '', '' fs = hd fs @ concat (map (\<lambda>f. '', '' @ f) (tl fs))" for fs
    by (induction "'', ''" fs rule: join.induct) simp_all
  ultimately show ?thesis using assms by (cases fragments) (simp_all add: push_attr_def)
qed

end
