(* ===== verification/Lsp_State.thy ===== *)
theory Lsp_State
  imports Rust_Prelude "HOL-Library.AList"
begin

text \<open>
  The state the language server keeps and what it sends (\<open>crates/vespertide-lsp/src\<close>): the bounded cache
  (\<open>cache.rs\<close>), the open documents (\<open>store.rs\<close>, \<open>document.rs\<close>, \<open>parser.rs\<close>), the index from table names to
  files (\<open>workspace_index.rs\<close>), paths and URIs (\<open>position.rs\<close>), the encoding of semantic tokens
  (\<open>semantic_tokens\<close>) and the edits of a rename (\<open>rename.rs\<close>).  Syntax trees belong to an external parser: a
  tree is an element of a type parameter, and what the code reads off it is an argument.  A lock makes the
  operation inside it one step.
\<close>

section \<open>The bounded cache\<close>

text \<open>The entries of the hash map are an association list whose order the code never sees.\<close>

record ('k, 'v) ring_cache =
  rc_entries :: "('k \<times> 'v) list"
  rc_insertion_order :: "'k list"

definition ring_new :: "('k, 'v) ring_cache" where
  "ring_new = \<lparr>rc_entries = [], rc_insertion_order = []\<rparr>"

definition ring_evict :: "nat \<Rightarrow> ('k, 'v) ring_cache \<Rightarrow> ('k, 'v) ring_cache" where
  "ring_evict n cache =
     (if n \<le> length (rc_entries cache) then
        (case rc_insertion_order cache of
           [] \<Rightarrow> cache
         | oldest # order \<Rightarrow> \<lparr>rc_entries = AList.delete oldest (rc_entries cache), rc_insertion_order = order\<rparr>)
      else cache)"

text \<open>The second critical section of \<open>get_or_compute\<close>, with the value that was computed without the lock.\<close>

definition ring_insert :: "nat \<Rightarrow> 'k \<Rightarrow> 'v \<Rightarrow> ('k, 'v) ring_cache \<Rightarrow> 'v \<times> ('k, 'v) ring_cache" where
  "ring_insert n key v cache =
     (case map_of (rc_entries cache) key of
        Some existing \<Rightarrow> (existing, cache)
      | None \<Rightarrow>
          (let kept = ring_evict n cache
           in (v, \<lparr>rc_entries = AList.update key v (rc_entries kept),
                   rc_insertion_order = rc_insertion_order kept @ [key]\<rparr>)))"

definition get_or_compute :: "nat \<Rightarrow> 'k \<Rightarrow> 'v \<Rightarrow> ('k, 'v) ring_cache \<Rightarrow> 'v \<times> ('k, 'v) ring_cache" where
  "get_or_compute n key computed cache =
     (case map_of (rc_entries cache) key of Some v \<Rightarrow> (v, cache) | None \<Rightarrow> ring_insert n key computed cache)"

text \<open>
  Calls of several threads interleave between the two critical sections: a call that misses computes its
  value outside the lock and inserts it later.  The state is the cache, the calls that are computing and
  the results returned so far; \<open>computes\<close> says which values the computation for a key may give.
\<close>

record ('k, 'v) ring_system =
  rs_cache :: "('k, 'v) ring_cache"
  rs_computing :: "('k \<times> 'v) list"
  rs_returned :: "('k \<times> 'v) list"

definition ring_start :: "('k, 'v) ring_system" where
  "ring_start = \<lparr>rs_cache = ring_new, rs_computing = [], rs_returned = []\<rparr>"

inductive ring_step ::
  "nat \<Rightarrow> ('k \<Rightarrow> 'v \<Rightarrow> bool) \<Rightarrow> ('k, 'v) ring_system \<Rightarrow> ('k, 'v) ring_system \<Rightarrow> bool"
  for n computes where
  hit: "map_of (rc_entries (rs_cache s)) key = Some v \<Longrightarrow>
    ring_step n computes s (s\<lparr>rs_returned := (key, v) # rs_returned s\<rparr>)"
| miss: "map_of (rc_entries (rs_cache s)) key = None \<Longrightarrow> computes key v \<Longrightarrow>
    ring_step n computes s (s\<lparr>rs_computing := (key, v) # rs_computing s\<rparr>)"
| finish: "(key, v) \<in> set (rs_computing s) \<Longrightarrow> ring_insert n key v (rs_cache s) = (w, cache) \<Longrightarrow>
    ring_step n computes s
      (s\<lparr>rs_cache := cache, rs_computing := remove1 (key, v) (rs_computing s), rs_returned := (key, w) # rs_returned s\<rparr>)"

section \<open>Documents\<close>

datatype document_format = DocJson | DocYaml

definition document_format_of_extension :: "string \<Rightarrow> document_format option" where
  "document_format_of_extension ext =
     (let lower = to_lowercase ext in
      if lower = ''json'' then Some DocJson
      else if lower = ''yaml'' \<or> lower = ''yml'' then Some DocYaml
      else None)"

text \<open>\<open>path.rsplit('.').next()\<close>: what follows the last dot, or everything.\<close>

definition after_last_dot :: "string \<Rightarrow> string" where
  "after_last_dot path = rev (takeWhile (\<lambda>c. c \<noteq> CHR ''.'') (rev path))"

definition document_format_of_path :: "string \<Rightarrow> document_format option" where
  "document_format_of_path path = document_format_of_extension (after_last_dot path)"

record 'tree document_state =
  ds_text :: string
  ds_version :: int
  ds_tree :: "'tree option"
  ds_format :: document_format

type_synonym 'tree document_parser = "string \<Rightarrow> document_format \<Rightarrow> 'tree option"

definition document_new :: "'tree document_parser \<Rightarrow> int \<Rightarrow> string \<Rightarrow> document_format \<Rightarrow> 'tree document_state" where
  "document_new parse_text version text format =
     \<lparr>ds_text = text, ds_version = version, ds_tree = parse_text text format, ds_format = format\<rparr>"

definition document_update_full ::
  "'tree document_parser \<Rightarrow> string \<Rightarrow> int \<Rightarrow> 'tree document_state \<Rightarrow> 'tree document_state" where
  "document_update_full parse_text text version doc =
     doc\<lparr>ds_text := text, ds_version := version, ds_tree := parse_text text (ds_format doc)\<rparr>"

text \<open>The store is a map from URIs; its iteration order is only observed after sorting.\<close>

type_synonym 'tree document_store = "(string, 'tree document_state) omap"

definition om_delete :: "'k \<Rightarrow> ('k, 'v) omap \<Rightarrow> ('k, 'v) omap" where
  "om_delete k m = filter (\<lambda>(k', _). k' \<noteq> k) m"

definition store_open ::
  "'tree document_parser \<Rightarrow> (string \<Rightarrow> string) \<Rightarrow> string \<Rightarrow> int \<Rightarrow> string \<Rightarrow> 'tree document_store \<Rightarrow> 'tree document_store" where
  "store_open parse_text uri_path uri version text docs =
     (let format = (case document_format_of_path (uri_path uri) of Some f \<Rightarrow> f | None \<Rightarrow> DocJson)
      in om_insert uri (document_new parse_text version text format) docs)"

definition store_update_full ::
  "'tree document_parser \<Rightarrow> string \<Rightarrow> string \<Rightarrow> int \<Rightarrow> 'tree document_store \<Rightarrow> 'tree document_store" where
  "store_update_full parse_text uri text version docs =
     (case om_lookup docs uri of
        Some doc \<Rightarrow> om_insert uri (document_update_full parse_text text version doc) docs
      | None \<Rightarrow> docs)"

definition store_close :: "string \<Rightarrow> 'tree document_store \<Rightarrow> 'tree document_store" where
  "store_close uri docs = om_delete uri docs"

definition store_with_text :: "'tree document_store \<Rightarrow> string \<Rightarrow> (string \<Rightarrow> 'r) \<Rightarrow> 'r option" where
  "store_with_text docs uri f = map_option (\<lambda>doc. f (ds_text doc)) (om_lookup docs uri)"

definition store_with_doc :: "'tree document_store \<Rightarrow> string \<Rightarrow> (string \<Rightarrow> 'tree option \<Rightarrow> 'r) \<Rightarrow> 'r option" where
  "store_with_doc docs uri f = map_option (\<lambda>doc. f (ds_text doc) (ds_tree doc)) (om_lookup docs uri)"

definition open_uris :: "'tree document_store \<Rightarrow> string list" where
  "open_uris docs = sort (om_keys docs)"

section \<open>The index from table names to files\<close>

record workspace_index =
  wi_by_name :: "(string, string) omap"
  wi_by_uri :: "(string, string) omap"

definition index_new :: workspace_index where
  "index_new = \<lparr>wi_by_name = [], wi_by_uri = []\<rparr>"

text \<open>A name is given up only where it still points to this file.\<close>

definition release_name :: "string \<Rightarrow> string \<Rightarrow> (string, string) omap \<Rightarrow> (string, string) omap" where
  "release_name uri name by_name = (if om_lookup by_name name = Some uri then om_delete name by_name else by_name)"

definition index_upsert :: "string \<Rightarrow> string option \<Rightarrow> workspace_index \<Rightarrow> string option \<times> workspace_index" where
  "index_upsert uri new_name index =
     (let old = om_lookup (wi_by_uri index) uri;
          by_name = (case old of Some old_name \<Rightarrow> release_name uri old_name (wi_by_name index) | None \<Rightarrow> wi_by_name index)
      in (old, case new_name of
           Some name \<Rightarrow> \<lparr>wi_by_name = om_insert name uri by_name, wi_by_uri = om_insert uri name (wi_by_uri index)\<rparr>
         | None \<Rightarrow> \<lparr>wi_by_name = by_name, wi_by_uri = om_delete uri (wi_by_uri index)\<rparr>))"

definition index_remove :: "string \<Rightarrow> workspace_index \<Rightarrow> workspace_index" where
  "index_remove uri index =
     (case om_lookup (wi_by_uri index) uri of
        None \<Rightarrow> index
      | Some name \<Rightarrow> \<lparr>wi_by_name = release_name uri name (wi_by_name index), wi_by_uri = om_delete uri (wi_by_uri index)\<rparr>)"

definition index_lookup :: "workspace_index \<Rightarrow> string \<Rightarrow> string option" where
  "index_lookup index table_name = om_lookup (wi_by_name index) table_name"

definition index_tables :: "workspace_index \<Rightarrow> string list" where
  "index_tables index = om_keys (wi_by_name index)"

datatype index_event = Upserted string "string option" | Removed string

fun index_apply :: "index_event \<Rightarrow> workspace_index \<Rightarrow> workspace_index" where
  "index_apply (Upserted uri name) index = snd (index_upsert uri name index)"
| "index_apply (Removed uri) index = index_remove uri index"

definition index_run :: "index_event list \<Rightarrow> workspace_index" where
  "index_run events = fold index_apply events index_new"

section \<open>Paths and URIs\<close>

text \<open>\<open>Uri::from_str\<close> is a parameter that may reject a text.  The target is not Windows.\<close>

definition path_to_uri :: "(string \<Rightarrow> 'uri option) \<Rightarrow> string \<Rightarrow> 'uri option" where
  "path_to_uri parse_uri path =
     (let path_text = map (\<lambda>c. if c = CHR 0x5C then CHR ''/'' else c) path;
          rooted = (if starts_with path_text ''/'' then path_text else CHR ''/'' # path_text)
      in parse_uri (''file://'' @ rooted))"

definition uri_hex_value :: "char \<Rightarrow> nat option" where
  "uri_hex_value c =
     (let b = of_char c :: nat in
      if is_ascii_digit c then Some (b - 48)
      else if 97 \<le> b \<and> b \<le> 102 then Some (b - 97 + 10)
      else if 65 \<le> b \<and> b \<le> 70 then Some (b - 65 + 10)
      else None)"

fun percent_decode :: "string \<Rightarrow> string" where
  "percent_decode [] = []"
| "percent_decode (c # s) =
     (case s of
        h # l # rest \<Rightarrow>
          (if c = CHR ''%'' then
             (case (uri_hex_value h, uri_hex_value l) of
                (Some hi, Some lo) \<Rightarrow> char_of (hi * 16 + lo) # percent_decode rest
              | _ \<Rightarrow> c # percent_decode s)
           else c # percent_decode s)
      | _ \<Rightarrow> c # percent_decode s)"

definition uri_to_path :: "('uri \<Rightarrow> string) \<Rightarrow> 'uri \<Rightarrow> string option" where
  "uri_to_path uri_text uri = map_option percent_decode (strip_prefix ''file://'' (uri_text uri))"

section \<open>Semantic tokens\<close>

text \<open>\<open>position_at\<close> of the external document gives line and UTF-16 column of a byte offset below \<open>2 ^ 32\<close>.\<close>

record raw_token =
  rt_from :: nat
  rt_to :: nat
  rt_type :: nat
  rt_modifiers :: nat

record resolved_token =
  re_line :: nat
  re_start :: nat
  re_length :: nat
  re_type :: nat
  re_modifiers :: nat

record semantic_token =
  st_delta_line :: nat
  st_delta_start :: nat
  st_length :: nat
  st_type :: nat
  st_modifiers :: nat

definition resolve_token :: "(nat \<Rightarrow> nat \<times> nat) \<Rightarrow> raw_token \<Rightarrow> resolved_token option" where
  "resolve_token position_at raw =
     (if rt_to raw \<le> rt_from raw \<or> 2 ^ 32 \<le> rt_from raw \<or> 2 ^ 32 \<le> rt_to raw then None
      else let (line, start) = position_at (rt_from raw); (end_line, end_char) = position_at (rt_to raw) in
        if line \<noteq> end_line then None
        else if end_char < start then None
        else if end_char - start = 0 then None
        else Some \<lparr>re_line = line, re_start = start, re_length = end_char - start, re_type = rt_type raw,
               re_modifiers = rt_modifiers raw\<rparr>)"

definition compare_tokens :: "resolved_token \<Rightarrow> resolved_token \<Rightarrow> ordering" where
  "compare_tokens a b =
     (case compare (re_line a) (re_line b) of Equal \<Rightarrow> compare (re_start a) (re_start b) | r \<Rightarrow> r)"

definition same_span :: "resolved_token \<Rightarrow> resolved_token \<Rightarrow> bool" where
  "same_span a b \<longleftrightarrow> re_line a = re_line b \<and> re_start a = re_start b \<and> re_length a = re_length b"

text \<open>\<open>Vec::dedup_by\<close>: an element goes when it is the same as the last one kept.\<close>

fun dedup_by :: "('a \<Rightarrow> 'a \<Rightarrow> bool) \<Rightarrow> 'a list \<Rightarrow> 'a list" where
  "dedup_by same [] = []"
| "dedup_by same [x] = [x]"
| "dedup_by same (x # y # ys) = (if same y x then dedup_by same (x # ys) else x # dedup_by same (y # ys))"

text \<open>A subtraction that would go below zero is a panic, \<open>None\<close>.\<close>

definition checked_sub :: "nat \<Rightarrow> nat \<Rightarrow> nat option" where
  "checked_sub a b = (if b \<le> a then Some (a - b) else None)"

fun delta_tokens :: "nat \<Rightarrow> nat \<Rightarrow> resolved_token list \<Rightarrow> semantic_token list option" where
  "delta_tokens prev_line prev_start [] = Some []"
| "delta_tokens prev_line prev_start (r # rs) =
     (case checked_sub (re_line r) prev_line of
        None \<Rightarrow> None
      | Some delta_line \<Rightarrow>
          (case (if delta_line = 0 then checked_sub (re_start r) prev_start else Some (re_start r)) of
             None \<Rightarrow> None
           | Some delta_start \<Rightarrow>
               map_option (\<lambda>out. \<lparr>st_delta_line = delta_line, st_delta_start = delta_start, st_length = re_length r,
                   st_type = re_type r, st_modifiers = re_modifiers r\<rparr> # out)
                 (delta_tokens (re_line r) (re_start r) rs)))"

definition resolved_tokens :: "(nat \<Rightarrow> nat \<times> nat) \<Rightarrow> raw_token list \<Rightarrow> resolved_token list" where
  "resolved_tokens position_at tokens =
     dedup_by same_span (sort_by compare_tokens (List.map_filter (resolve_token position_at) tokens))"

definition encode_tokens :: "(nat \<Rightarrow> nat \<times> nat) \<Rightarrow> raw_token list \<Rightarrow> semantic_token list option" where
  "encode_tokens position_at tokens = delta_tokens 0 0 (resolved_tokens position_at tokens)"

definition filter_token_range :: "raw_token list \<Rightarrow> nat \<Rightarrow> nat \<Rightarrow> raw_token list" where
  "filter_token_range tokens a b = filter (\<lambda>t. rt_from t < b \<and> a < rt_to t) tokens"

section \<open>Renaming\<close>

definition is_valid_rename :: "string \<Rightarrow> bool" where
  "is_valid_rename name \<longleftrightarrow>
     name \<noteq> [] \<and>
     list_all (\<lambda>c. \<not> is_whitespace c \<and> \<not> (of_char c < (32 :: nat) \<or> of_char c = (127 :: nat)) \<and>
       c \<notin> {CHR 0x22, CHR 0x27, CHR 0x5C, CHR '','', CHR '':'', CHR ''['', CHR '']'', CHR ''{'', CHR ''}''}) name"

record text_edit =
  te_from :: nat
  te_to :: nat
  te_text :: string

definition push_edit :: "string \<Rightarrow> string \<times> nat \<times> nat \<Rightarrow> (string, text_edit list) omap \<Rightarrow> (string, text_edit list) omap" where
  "push_edit new_name reference edits =
     (let (uri, a, b) = reference;
          old = (case om_lookup edits uri of Some es \<Rightarrow> es | None \<Rightarrow> [])
      in om_insert uri (old @ [\<lparr>te_from = a, te_to = b, te_text = new_name\<rparr>]) edits)"

definition tidy_edits :: "text_edit list \<Rightarrow> text_edit list" where
  "tidy_edits es = dedup_by (\<lambda>a b. te_from a = te_from b \<and> te_to a = te_to b \<and> te_text a = te_text b) (sort_key te_from es)"

text \<open>
  \<open>rename::compute\<close> after the symbol under the cursor is resolved; \<open>references\<close> is what the search over the
  syntax trees of the workspace finds for it, the declaration included.
\<close>

definition compute_rename ::
  "string option \<Rightarrow> (string \<times> nat \<times> nat) list \<Rightarrow> string \<Rightarrow> (string, text_edit list) omap option" where
  "compute_rename symbol references new_name =
     (if \<not> is_valid_rename new_name then None
      else case symbol of
        None \<Rightarrow> None
      | Some old_name \<Rightarrow>
          if old_name = new_name then None
          else let edits = map (map_prod id tidy_edits) (fold (push_edit new_name) references [])
               in if edits = [] then None else Some edits)"

end
