(* ===== verification/Lsp_Tree.thy ===== *)
theory Lsp_Tree
  imports Lsp_State Planner_Error
begin

text \<open>
  Walks over syntax trees (\<open>crates/vespertide-lsp/src/tree_util.rs\<close>, \<open>text_util.rs\<close>), the places of columns and
  constraints in a model file (\<open>diagnostics/locator.rs\<close>) and the name a file declares
  (\<open>workspace_index.rs\<close>).  The parser is external.  Of a node the code reads its kind, whether it is named,
  whether it stands for a syntax error or a missing token, its byte range and its children, so a tree is a value of a datatype of these.  The range of a node lies in
  the text it was parsed from.
\<close>

section \<open>Nodes and their text\<close>

datatype node_status = ParsedNode | ErrorNode | MissingNode

datatype syntax_node =
  Node (nd_kind: string) (nd_named: bool) (nd_status: node_status) (nd_from: nat) (nd_to: nat)
    (nd_children: "syntax_node list")

type_synonym byte_range = "nat \<times> nat"

definition nd_range :: "syntax_node \<Rightarrow> byte_range" where
  "nd_range node = (nd_from node, nd_to node)"

definition named_child :: "syntax_node \<Rightarrow> nat \<Rightarrow> syntax_node option" where
  "named_child node i = (let named = filter nd_named (nd_children node) in if i < length named then Some (named ! i) else None)"

text \<open>\<open>source.get(rg)\<close>.\<close>

definition text_slice :: "string \<Rightarrow> byte_range \<Rightarrow> string option" where
  "text_slice source rg =
     (case rg of (a, b) \<Rightarrow> if a \<le> b \<and> b \<le> length source then Some (take (b - a) (drop a source)) else None)"

definition node_text :: "syntax_node \<Rightarrow> string \<Rightarrow> string option" where
  "node_text node source = text_slice source (nd_range node)"

definition trim_start_char :: "char \<Rightarrow> string \<Rightarrow> string" where
  "trim_start_char c s = dropWhile (\<lambda>x. x = c) s"

definition trim_end_char :: "char \<Rightarrow> string \<Rightarrow> string" where
  "trim_end_char c s = rev (dropWhile (\<lambda>x. x = c) (rev s))"

definition strip_json_quotes :: "string \<Rightarrow> string" where
  "strip_json_quotes s = trim_end_char (CHR 0x22) (trim_start_char (CHR 0x22) (trim s))"

definition strip_quotes :: "string \<Rightarrow> string" where
  "strip_quotes s = trim_end_char (CHR 0x27) (trim_start_char (CHR 0x27) (strip_json_quotes s))"

section \<open>Walks\<close>

definition is_pair_node :: "syntax_node \<Rightarrow> bool" where
  "is_pair_node node \<longleftrightarrow> nd_kind node = ''pair'' \<or> nd_kind node = ''block_mapping_pair''"

definition is_outer_mapping_kind :: "string \<Rightarrow> bool" where
  "is_outer_mapping_kind kind \<longleftrightarrow> kind = ''object'' \<or> kind = ''block_mapping'' \<or> kind = ''flow_mapping''"

text \<open>The deepest node that contains the byte: the first child that contains it is entered.\<close>

fun node_at_byte :: "nat \<Rightarrow> syntax_node \<Rightarrow> syntax_node" and child_at_byte :: "nat \<Rightarrow> syntax_node list \<Rightarrow> syntax_node option" where
  "node_at_byte offset (Node kind named status a b children) =
     (case child_at_byte offset children of Some node \<Rightarrow> node | None \<Rightarrow> Node kind named status a b children)"
| "child_at_byte offset [] = None"
| "child_at_byte offset (child # children) =
     (if nd_from child \<le> offset \<and> offset < nd_to child then Some (node_at_byte offset child)
      else child_at_byte offset children)"

fun find_outer_mapping :: "syntax_node \<Rightarrow> syntax_node option" and outer_mapping_among :: "syntax_node list \<Rightarrow> syntax_node option" where
  "find_outer_mapping (Node kind named status a b children) =
     (if is_outer_mapping_kind kind then Some (Node kind named status a b children) else outer_mapping_among children)"
| "outer_mapping_among [] = None"
| "outer_mapping_among (child # children) =
     (case find_outer_mapping child of Some found \<Rightarrow> Some found | None \<Rightarrow> outer_mapping_among children)"

text \<open>The wrapper has a first named child other than itself.\<close>

function unwrap_yaml_node :: "syntax_node \<Rightarrow> syntax_node" where
  "unwrap_yaml_node node =
     (if nd_kind node = ''flow_node'' \<or> nd_kind node = ''block_node''
      then (case find nd_named (nd_children node) of Some inner \<Rightarrow> unwrap_yaml_node inner | None \<Rightarrow> node)
      else node)"
  by pat_completeness auto
termination
proof (relation "measure size", goal_cases)
  case (2 node inner)
  then have "inner \<in> set (nd_children node)" by (auto simp: find_Some_iff)
  then have "size inner < size node" by (cases node) (auto dest: size_list_estimation' [where f = size and y = "size inner"])
  then show ?case by simp
qed simp

declare unwrap_yaml_node.simps [simp del]

definition trim_one_byte_each_side :: "byte_range \<Rightarrow> byte_range" where
  "trim_one_byte_each_side rg = (case rg of (a, b) \<Rightarrow> if 2 \<le> b - a then (a + 1, b - 1) else (a, b))"

definition pair_has_key :: "(string \<Rightarrow> string) \<Rightarrow> string \<Rightarrow> string \<Rightarrow> syntax_node \<Rightarrow> bool" where
  "pair_has_key strip source key pair \<longleftrightarrow>
     is_pair_node pair \<and>
     (case named_child pair 0 of Some k \<Rightarrow> map_option strip (node_text k source) = Some key | None \<Rightarrow> False)"

definition find_pair_with_key :: "syntax_node \<Rightarrow> string \<Rightarrow> string \<Rightarrow> syntax_node option" where
  "find_pair_with_key mapping source target_key = find (pair_has_key strip_quotes source target_key) (nd_children mapping)"

definition direct_child_value :: "syntax_node \<Rightarrow> string \<Rightarrow> string \<Rightarrow> string option" where
  "direct_child_value object source target_key =
     (case List.map_filter (\<lambda>child.
          if pair_has_key strip_quotes source target_key child
          then (case named_child child 1 of Some v \<Rightarrow> node_text v source | None \<Rightarrow> None) else None) (nd_children object) of
        [] \<Rightarrow> None | text # _ \<Rightarrow> Some text)"

section \<open>Places in a model file\<close>

definition json_key :: "string \<Rightarrow> string \<Rightarrow> syntax_node \<Rightarrow> bool" where
  "json_key source key node = pair_has_key strip_json_quotes source key node"

text \<open>The value of the first pair with the key, depth first.\<close>

fun find_value_for_key :: "string \<Rightarrow> string \<Rightarrow> syntax_node \<Rightarrow> syntax_node option"
  and value_for_key_among :: "string \<Rightarrow> string \<Rightarrow> syntax_node list \<Rightarrow> syntax_node option" where
  "find_value_for_key source key (Node kind named status a b children) = value_for_key_among source key children"
| "value_for_key_among source key [] = None"
| "value_for_key_among source key (child # children) =
     (case (if json_key source key child then named_child child 1 else None) of
        Some v \<Rightarrow> Some v
      | None \<Rightarrow> (case find_value_for_key source key child of
          Some v \<Rightarrow> Some v | None \<Rightarrow> value_for_key_among source key children))"

definition is_mapping_node :: "syntax_node \<Rightarrow> bool" where
  "is_mapping_node node \<longleftrightarrow> nd_kind node = ''object'' \<or> nd_kind node = ''block_mapping''"

definition mapping_has_name :: "string \<Rightarrow> string \<Rightarrow> syntax_node \<Rightarrow> bool" where
  "mapping_has_name source target_name node \<longleftrightarrow>
     list_ex (\<lambda>child. json_key source ''name'' child \<and>
       (case named_child child 1 of
          Some v \<Rightarrow> map_option strip_json_quotes (node_text v source) = Some target_name | None \<Rightarrow> False))
       (nd_children node)"

fun find_named_mapping_in :: "string \<Rightarrow> string \<Rightarrow> syntax_node \<Rightarrow> syntax_node option"
  and named_mapping_among :: "string \<Rightarrow> string \<Rightarrow> syntax_node list \<Rightarrow> syntax_node option" where
  "find_named_mapping_in source target_name (Node kind named status a b children) = named_mapping_among source target_name children"
| "named_mapping_among source target_name [] = None"
| "named_mapping_among source target_name (child # children) =
     (if is_mapping_node child \<and> mapping_has_name source target_name child then Some child
      else case find_named_mapping_in source target_name child of
        Some found \<Rightarrow> Some found | None \<Rightarrow> named_mapping_among source target_name children)"

definition find_named_mapping :: "syntax_node \<Rightarrow> string \<Rightarrow> string \<Rightarrow> string \<Rightarrow> syntax_node option" where
  "find_named_mapping root source collection_key target_name =
     (case find_value_for_key source collection_key root of
        None \<Rightarrow> None | Some collection \<Rightarrow> find_named_mapping_in source target_name collection)"

text \<open>\<open>walk_for_named_mapping\<close> is the same walk, with the range of the node it finds.\<close>

definition locate_named_object :: "syntax_node \<Rightarrow> string \<Rightarrow> string \<Rightarrow> string \<Rightarrow> byte_range option" where
  "locate_named_object tree source collection_key target_name =
     map_option nd_range (find_named_mapping tree source collection_key target_name)"

definition direct_name_value :: "string \<Rightarrow> syntax_node \<Rightarrow> syntax_node option" where
  "direct_name_value source mapping =
     (case List.map_filter (\<lambda>child. if json_key source ''name'' child then named_child child 1 else None)
        (nd_children mapping) of [] \<Rightarrow> None | v # _ \<Rightarrow> Some v)"

definition locate_top_name :: "syntax_node option \<Rightarrow> string \<Rightarrow> byte_range option" where
  "locate_top_name tree source =
     (case tree of
        None \<Rightarrow> None
      | Some root \<Rightarrow> (case find_outer_mapping root of
          None \<Rightarrow> None | Some mapping \<Rightarrow> map_option nd_range (direct_name_value source mapping)))"

definition or_else :: "'a option \<Rightarrow> 'a option \<Rightarrow> 'a option" where
  "or_else a b = (case a of None \<Rightarrow> b | Some x \<Rightarrow> Some x)"

definition unwrap_or :: "'a \<Rightarrow> 'a option \<Rightarrow> 'a" where
  "unwrap_or d a = (case a of None \<Rightarrow> d | Some x \<Rightarrow> x)"

definition locate_column :: "syntax_node option \<Rightarrow> string \<Rightarrow> string \<Rightarrow> byte_range" where
  "locate_column tree source column_name =
     (case tree of
        None \<Rightarrow> (0, 1)
      | Some root \<Rightarrow> unwrap_or (0, 1)
          (or_else (locate_named_object root source ''columns'' column_name) (locate_top_name tree source)))"

definition locate_constraint :: "syntax_node option \<Rightarrow> string \<Rightarrow> string \<Rightarrow> byte_range" where
  "locate_constraint tree source constraint_name =
     (case tree of
        None \<Rightarrow> (0, 1)
      | Some root \<Rightarrow> unwrap_or (0, 1)
          (or_else (locate_named_object root source ''constraints'' constraint_name) (locate_top_name tree source)))"

datatype error_field = FieldType | FieldDefault | FieldForeignKeyRefTable | FieldForeignKeyRefColumns | FieldNullable | FieldComment

definition find_child_pair :: "syntax_node \<Rightarrow> string \<Rightarrow> string \<Rightarrow> syntax_node option" where
  "find_child_pair node source target_key = find (json_key source target_key) (nd_children node)"

definition foreign_key_field :: "syntax_node \<Rightarrow> string \<Rightarrow> string \<Rightarrow> byte_range option" where
  "foreign_key_field column source sub_key =
     (case find_child_pair column source ''foreign_key'' of
        None \<Rightarrow> None
      | Some fk_pair \<Rightarrow> (case named_child fk_pair 1 of
          None \<Rightarrow> None
        | Some fk_value \<Rightarrow>
            or_else (map_option nd_range (find_child_pair fk_value source sub_key)) (Some (nd_range fk_pair))))"

definition locate_field_in_column :: "syntax_node \<Rightarrow> string \<Rightarrow> string \<Rightarrow> error_field \<Rightarrow> byte_range option" where
  "locate_field_in_column root source column_name field =
     (case find_named_mapping root source ''columns'' column_name of
        None \<Rightarrow> None
      | Some column \<Rightarrow>
          (case field of
             FieldType \<Rightarrow> map_option nd_range (find_child_pair column source ''type'')
           | FieldDefault \<Rightarrow> map_option nd_range (find_child_pair column source ''default'')
           | FieldNullable \<Rightarrow> map_option nd_range (find_child_pair column source ''nullable'')
           | FieldComment \<Rightarrow> map_option nd_range (find_child_pair column source ''comment'')
           | FieldForeignKeyRefTable \<Rightarrow> foreign_key_field column source ''ref_table''
           | FieldForeignKeyRefColumns \<Rightarrow> foreign_key_field column source ''ref_columns''))"

definition locate_column_field :: "syntax_node option \<Rightarrow> string \<Rightarrow> string \<Rightarrow> error_field \<Rightarrow> byte_range" where
  "locate_column_field tree source column_name field =
     (case tree of
        None \<Rightarrow> (0, 1)
      | Some root \<Rightarrow> unwrap_or (0, 1)
          (or_else (locate_field_in_column root source column_name field)
            (or_else (locate_named_object root source ''columns'' column_name) (locate_top_name tree source))))"

section \<open>Where a planner error belongs\<close>

record error_location =
  el_table :: string
  el_column :: "string option"
  el_constraint :: "string option"
  el_field :: "error_field option"

definition at_table :: "string \<Rightarrow> error_location" where
  "at_table table = \<lparr>el_table = table, el_column = None, el_constraint = None, el_field = None\<rparr>"

definition at_column :: "string \<Rightarrow> string \<Rightarrow> error_location" where
  "at_column table column = \<lparr>el_table = table, el_column = Some column, el_constraint = None, el_field = None\<rparr>"

definition at_column_field :: "string \<Rightarrow> string \<Rightarrow> error_field \<Rightarrow> error_location" where
  "at_column_field table column field =
     \<lparr>el_table = table, el_column = Some column, el_constraint = None, el_field = Some field\<rparr>"

definition at_constraint :: "string \<Rightarrow> string \<Rightarrow> error_location" where
  "at_constraint table constraint = \<lparr>el_table = table, el_column = None, el_constraint = Some constraint, el_field = None\<rparr>"

fun error_location_of :: "planner_error \<Rightarrow> error_location option" where
  "error_location_of (Multiple []) = None"
| "error_location_of (Multiple (e # _)) = error_location_of e"
| "error_location_of (DanglingForeignKeyAfterDrop dropped_table dropped_column _ _) =
     Some (case dropped_column of Some col \<Rightarrow> at_column dropped_table col | None \<Rightarrow> at_table dropped_table)"
| "error_location_of (ConstraintTypeChanged table _ _ _) = Some (at_table table)"
| "error_location_of (PrimaryKeyRemovedWithoutReplacement table _) = Some (at_table table)"
| "error_location_of (TableExists table) = Some (at_table table)"
| "error_location_of (TableNotFound table) = Some (at_table table)"
| "error_location_of (DuplicateTableName table) = Some (at_table table)"
| "error_location_of (MissingPrimaryKey table) = Some (at_table table)"
| "error_location_of (TableValidation _) = None"
| "error_location_of (DataMigrationContainsDdl _ _) = None"
| "error_location_of (ColumnExists table column) = Some (at_column table column)"
| "error_location_of (ColumnNotFound table column) = Some (at_column table column)"
| "error_location_of (MissingFillWith table column) = Some (at_column table column)"
| "error_location_of (DuplicateEnumVariantName _ table column _) = Some (at_column table column)"
| "error_location_of (DuplicateEnumValue _ table column _) = Some (at_column table column)"
| "error_location_of (PrimaryKeyColumnNullable table column) = Some (at_column table column)"
| "error_location_of (AddColumnWithFkRequiresNullable table column) = Some (at_column table column)"
| "error_location_of (BetweenBoundaryReversed table column _ _ _) = Some (at_column table column)"
| "error_location_of (CheckSelfContradiction table column _ _ _) = Some (at_column table column)"
| "error_location_of (InvalidAutoIncrement table column _) = Some (at_column_field table column FieldType)"
| "error_location_of (ForeignKeyTableNotFound table column _) = Some (at_column_field table column FieldForeignKeyRefTable)"
| "error_location_of (ForeignKeyColumnNotFound table column _ _) = Some (at_column_field table column FieldForeignKeyRefColumns)"
| "error_location_of (IndexNotFound table idx) = Some (at_constraint table idx)"
| "error_location_of (EmptyConstraintColumns table idx) = Some (at_constraint table idx)"
| "error_location_of (IndexColumnNotFound table idx column) =
     Some \<lparr>el_table = table, el_column = Some column, el_constraint = Some idx, el_field = None\<rparr>"
| "error_location_of (ConstraintColumnNotFound table idx column) =
     Some \<lparr>el_table = table, el_column = Some column, el_constraint = Some idx, el_field = None\<rparr>"
| "error_location_of (InvalidEnumDefault err) =
     Some (at_column_field (ied_table_name err) (ied_column_name err) FieldDefault)"
| "error_location_of (DefaultViolatesCheck table column _ _ _) = Some (at_column_field table column FieldDefault)"

definition located_range :: "syntax_node option \<Rightarrow> string \<Rightarrow> error_location \<Rightarrow> byte_range" where
  "located_range tree source loc =
     (case el_column loc of
        Some column \<Rightarrow> (case el_field loc of
          Some field \<Rightarrow> locate_column_field tree source column field | None \<Rightarrow> locate_column tree source column)
      | None \<Rightarrow> (case el_constraint loc of
          Some constraint \<Rightarrow> locate_constraint tree source constraint
        | None \<Rightarrow> unwrap_or (0, 1) (locate_top_name tree source)))"

section \<open>The name a file declares\<close>

definition index_name_key :: "string \<Rightarrow> syntax_node \<Rightarrow> bool" where
  "index_name_key source node = pair_has_key (\<lambda>t. strip_json_quotes (trim t)) source ''name'' node"

definition find_direct_name_value :: "string \<Rightarrow> syntax_node \<Rightarrow> string option" where
  "find_direct_name_value source mapping =
     (case List.map_filter (\<lambda>child. if index_name_key source child then named_child child 1 else None) (nd_children mapping) of
        [] \<Rightarrow> None
      | v # _ \<Rightarrow> map_option strip_json_quotes (node_text v source))"

definition extract_top_level_name :: "string \<Rightarrow> syntax_node \<Rightarrow> string option" where
  "extract_top_level_name source root =
     (case find_outer_mapping root of None \<Rightarrow> None | Some mapping \<Rightarrow> find_direct_name_value source mapping)"

text \<open>\<open>did_open\<close> and \<open>did_change\<close> on a file: the index learns the name its tree declares.\<close>

definition index_upsert_tree :: "string \<Rightarrow> string \<Rightarrow> syntax_node \<Rightarrow> workspace_index \<Rightarrow> string option \<times> workspace_index" where
  "index_upsert_tree uri source root index = index_upsert uri (extract_top_level_name source root) index"

end
