(* ===== verification/Lsp_Visitors.thy ===== *)
theory Lsp_Visitors
  imports Lsp_Tree
begin

text \<open>
  The checks on a syntax tree that run before the file is parsed (\<open>diagnostics/validation/visitors.rs\<close>,
  \<open>types.rs\<close>): syntax errors, unknown column types, malformed type objects and repeated column names.  The
  code does them in one walk; \<open>collect_separately\<close> is the pipeline of four walks its tests compare it with.
\<close>

section \<open>Diagnostics\<close>

datatype severity = SevError | SevWarning | SevInformation | SevHint

record domain_diagnostic =
  dd_byte_range :: byte_range
  dd_severity :: severity
  dd_message :: string
  dd_code :: string

section \<open>Reading pairs and scalars\<close>

definition known_simple_types :: "string list" where
  "known_simple_types =
     [''small_int'', ''integer'', ''big_int'', ''real'', ''double_precision'', ''text'', ''boolean'', ''date'',
      ''time'', ''timestamp'', ''timestamptz'', ''interval'', ''bytea'', ''uuid'', ''json'', ''inet'', ''cidr'',
      ''macaddr'', ''xml'']"

definition matched_quotes :: "string \<Rightarrow> string \<Rightarrow> string option" where
  "matched_quotes q s = (case strip_prefix q s of None \<Rightarrow> None | Some w \<Rightarrow> strip_suffix q w)"

definition strip_quotes_str :: "string \<Rightarrow> string" where
  "strip_quotes_str s =
     (let trimmed = trim s
      in unwrap_or trimmed (or_else (matched_quotes [CHR 0x22] trimmed) (matched_quotes [CHR 0x27] trimmed)))"

definition typed_key :: "string \<Rightarrow> string \<Rightarrow> syntax_node \<Rightarrow> bool" where
  "typed_key source key node = pair_has_key strip_quotes_str source key node"

definition find_typed_pair :: "syntax_node \<Rightarrow> string \<Rightarrow> string \<Rightarrow> syntax_node option" where
  "find_typed_pair object source target_key = find (typed_key source target_key) (nd_children object)"

definition scalar_string :: "syntax_node \<Rightarrow> string \<Rightarrow> string option" where
  "scalar_string node source = map_option strip_quotes_str (node_text node source)"

definition scalar_text :: "syntax_node \<Rightarrow> string \<Rightarrow> string option" where
  "scalar_text pair source =
     (case named_child pair 1 of None \<Rightarrow> None | Some v \<Rightarrow> scalar_string (unwrap_yaml_node v) source)"

definition is_scalar_kind :: "string \<Rightarrow> bool" where
  "is_scalar_kind kind \<longleftrightarrow>
     kind \<in> set [''string'', ''double_quote_scalar'', ''single_quote_scalar'', ''string_scalar'', ''plain_scalar'']"

definition is_sequence_kind :: "string \<Rightarrow> bool" where
  "is_sequence_kind kind \<longleftrightarrow> kind \<in> set [''array'', ''block_sequence'', ''flow_sequence'']"

section \<open>The values of an enum\<close>

record enum_value_descriptor =
  evd_name :: string
  evd_byte_range :: byte_range
  evd_integer_value :: "string option"
  evd_integer_value_range :: byte_range

definition scalar_descriptor :: "string \<Rightarrow> syntax_node \<Rightarrow> enum_value_descriptor list" where
  "scalar_descriptor source node =
     (case scalar_string node source of
        None \<Rightarrow> []
      | Some name \<Rightarrow> [\<lparr>evd_name = name, evd_byte_range = nd_range node, evd_integer_value = None,
          evd_integer_value_range = (0, 0)\<rparr>])"

definition object_descriptor :: "string \<Rightarrow> syntax_node \<Rightarrow> enum_value_descriptor list" where
  "object_descriptor source node =
     (case find_typed_pair node source ''name'' of
        None \<Rightarrow> []
      | Some name_pair \<Rightarrow> (case scalar_text name_pair source of
          None \<Rightarrow> []
        | Some name \<Rightarrow>
            (case (case find_typed_pair node source ''value'' of
                     None \<Rightarrow> None | Some pair \<Rightarrow> map_option unwrap_yaml_node (named_child pair 1)) of
               None \<Rightarrow> [\<lparr>evd_name = name, evd_byte_range = nd_range node, evd_integer_value = None,
                 evd_integer_value_range = (0, 0)\<rparr>]
             | Some v \<Rightarrow> [\<lparr>evd_name = name, evd_byte_range = nd_range node,
                 evd_integer_value = scalar_string v source, evd_integer_value_range = nd_range v\<rparr>])))"

definition element_descriptors :: "string \<Rightarrow> syntax_node \<Rightarrow> enum_value_descriptor list" where
  "element_descriptors source raw_child =
     (let child = unwrap_yaml_node raw_child
      in if is_scalar_kind (nd_kind child) then scalar_descriptor source child
         else if is_outer_mapping_kind (nd_kind child) then object_descriptor source child
         else if nd_kind child = ''block_sequence_item''
         then concat (map (\<lambda>raw_inner. let inner = unwrap_yaml_node raw_inner
                in if is_scalar_kind (nd_kind inner) then scalar_descriptor source inner else []) (nd_children child))
         else [])"

definition collect_enum_value_descriptors :: "syntax_node \<Rightarrow> string \<Rightarrow> enum_value_descriptor list" where
  "collect_enum_value_descriptors array source = concat (map (element_descriptors source) (nd_children array))"

section \<open>One column\<close>

definition error_at :: "byte_range \<Rightarrow> string \<Rightarrow> string \<Rightarrow> domain_diagnostic" where
  "error_at rg message code = \<lparr>dd_byte_range = rg, dd_severity = SevError, dd_message = message, dd_code = code\<rparr>"

definition push_complex :: "byte_range \<Rightarrow> string \<Rightarrow> domain_diagnostic" where
  "push_complex rg message = error_at rg message ''complex-type''"

definition inspect_column_type :: "string \<Rightarrow> syntax_node \<Rightarrow> domain_diagnostic list" where
  "inspect_column_type source column =
     (case find_typed_pair column source ''type'' of
        None \<Rightarrow> []
      | Some type_pair \<Rightarrow> (case named_child type_pair 1 of
          None \<Rightarrow> []
        | Some type_value_raw \<Rightarrow>
            (let type_value = unwrap_yaml_node type_value_raw
             in if is_outer_mapping_kind (nd_kind type_value) then []
                else (case scalar_string type_value source of
                  None \<Rightarrow> []
                | Some stripped \<Rightarrow>
                    if stripped \<noteq> [] \<and> stripped \<notin> set known_simple_types
                    then [error_at (nd_range type_pair)
                      (''Unknown column type '' @ ticked stripped @ ''. Expected one of: '' @
                       join '', '' known_simple_types @ '' '' @ em_dash @ '' or a complex type object such as {'' @
                       [CHR 0x22] @ ''kind'' @ [CHR 0x22] @ '':'' @ [CHR 0x22] @ ''varchar'' @ [CHR 0x22] @ '','' @
                       [CHR 0x22] @ ''length'' @ [CHR 0x22] @ '':255}'') ''unknown-type'']
                    else []))))"

definition check_length_required :: "string \<Rightarrow> string \<Rightarrow> syntax_node \<Rightarrow> syntax_node \<Rightarrow> domain_diagnostic list" where
  "check_length_required source kind type_value type_pair =
     (if find_typed_pair type_value source ''length'' = None
      then [push_complex (nd_range type_pair) (ticked kind @ '' type requires a `length` field'')] else [])"

definition missing_keys :: "string \<Rightarrow> syntax_node \<Rightarrow> string list \<Rightarrow> string list" where
  "missing_keys source object keys = filter (\<lambda>k. find_typed_pair object source k = None) keys"

definition check_numeric_precision_scale :: "string \<Rightarrow> syntax_node \<Rightarrow> syntax_node \<Rightarrow> domain_diagnostic list" where
  "check_numeric_precision_scale source type_value type_pair =
     (let missing = missing_keys source type_value [''precision'', ''scale'']
      in if missing \<noteq> []
         then [push_complex (nd_range type_pair) (ticked ''numeric'' @ '' type requires '' @ join '' and '' missing @
                '' field'' @ (if length missing > 1 then ''s'' else []))]
         else [])"

text \<open>What is seen before is reported; what is reported has been seen.\<close>

fun repeated :: "('a \<Rightarrow> 'k option) \<Rightarrow> 'k list \<Rightarrow> 'a list \<Rightarrow> 'a list" where
  "repeated key seen [] = []"
| "repeated key seen (x # xs) =
     (case key x of
        None \<Rightarrow> repeated key seen xs
      | Some k \<Rightarrow> if k \<in> set seen then x # repeated key seen xs else repeated key (k # seen) xs)"

definition check_duplicate_enum_values :: "enum_value_descriptor list \<Rightarrow> domain_diagnostic list" where
  "check_duplicate_enum_values descriptors =
     map (\<lambda>d. push_complex (evd_byte_range d) (''Duplicate enum value '' @ ticked (evd_name d)))
       (repeated (\<lambda>d. Some (evd_name d)) [] descriptors) @
     map (\<lambda>d. push_complex (evd_integer_value_range d)
            (''Duplicate enum numeric value '' @ ticked (unwrap_or [] (evd_integer_value d))))
       (repeated evd_integer_value [] descriptors)"

definition check_enum_shape :: "string \<Rightarrow> syntax_node \<Rightarrow> syntax_node \<Rightarrow> domain_diagnostic list" where
  "check_enum_shape source type_value type_pair =
     (let missing = missing_keys source type_value [''name'', ''values'']
      in if missing \<noteq> []
         then [push_complex (nd_range type_pair) (ticked ''enum'' @ '' type requires field'' @
                (if length missing > 1 then ''s'' else []) @ '': '' @ join '', '' missing)]
         else (case find_typed_pair type_value source ''values'' of
           None \<Rightarrow> []
         | Some values_pair \<Rightarrow> (case named_child values_pair 1 of
             None \<Rightarrow> []
           | Some values_value_raw \<Rightarrow>
               (let values_value = unwrap_yaml_node values_value_raw
                in if \<not> is_sequence_kind (nd_kind values_value)
                   then [push_complex (nd_range values_pair) (ticked ''values'' @ '' must be a non-empty array'')]
                   else (let elements = collect_enum_value_descriptors values_value source
                         in if elements = []
                            then [push_complex (nd_range values_pair)
                              (ticked ''enum'' @ '' requires a non-empty `values` array'')]
                            else check_duplicate_enum_values elements)))))"

definition check_custom_type :: "string \<Rightarrow> syntax_node \<Rightarrow> syntax_node \<Rightarrow> domain_diagnostic list" where
  "check_custom_type source type_value type_pair =
     (if find_typed_pair type_value source ''custom_type'' = None
      then [push_complex (nd_range type_pair) (ticked ''custom'' @ '' type requires a `custom_type` SQL string'')]
      else [])"

definition check_type_kind :: "string \<Rightarrow> string \<Rightarrow> syntax_node \<Rightarrow> syntax_node \<Rightarrow> syntax_node \<Rightarrow> domain_diagnostic list" where
  "check_type_kind source kind kind_pair type_value type_pair =
     (if kind = ''varchar'' \<or> kind = ''char'' then check_length_required source kind type_value type_pair
      else if kind = ''numeric'' then check_numeric_precision_scale source type_value type_pair
      else if kind = ''enum'' then check_enum_shape source type_value type_pair
      else if kind = ''custom'' then check_custom_type source type_value type_pair
      else [push_complex (nd_range kind_pair)
        (''Unknown type kind '' @ ticked kind @ ''. Expected: varchar, char, numeric, enum, custom'')])"

definition inspect_complex_type :: "string \<Rightarrow> syntax_node \<Rightarrow> domain_diagnostic list" where
  "inspect_complex_type source column =
     (case find_typed_pair column source ''type'' of
        None \<Rightarrow> []
      | Some type_pair \<Rightarrow> (case named_child type_pair 1 of
          None \<Rightarrow> []
        | Some type_value_raw \<Rightarrow>
            (let type_value = unwrap_yaml_node type_value_raw
             in if \<not> is_outer_mapping_kind (nd_kind type_value) then []
                else (case find_typed_pair type_value source ''kind'' of
                  None \<Rightarrow> [push_complex (nd_range type_pair)
                    ''Type object requires a `kind` field (varchar, char, numeric, enum, custom)'']
                | Some kind_pair \<Rightarrow> (case scalar_text kind_pair source of
                    None \<Rightarrow> [push_complex (nd_range kind_pair) (ticked ''kind'' @ '' must be a non-empty string'')]
                  | Some kind \<Rightarrow>
                      if kind = [] then [push_complex (nd_range kind_pair) (ticked ''kind'' @ '' must be a non-empty string'')]
                      else check_type_kind source kind kind_pair type_value type_pair)))))"

section \<open>Repeated column names\<close>

definition mapping_items :: "syntax_node \<Rightarrow> syntax_node list" where
  "mapping_items node = filter (\<lambda>n. is_outer_mapping_kind (nd_kind n)) (map unwrap_yaml_node (nd_children node))"

definition direct_column_objects :: "syntax_node \<Rightarrow> syntax_node list" where
  "direct_column_objects columns_value =
     (let array = unwrap_yaml_node columns_value
      in if \<not> is_sequence_kind (nd_kind array) then []
         else concat (map (\<lambda>raw_child. let child = unwrap_yaml_node raw_child
                in if is_outer_mapping_kind (nd_kind child) then [child]
                   else if nd_kind child = ''block_sequence_item'' then mapping_items child else [])
              (nd_children array)))"

definition column_name_node :: "string \<Rightarrow> syntax_node \<Rightarrow> (string \<times> byte_range) option" where
  "column_name_node source column =
     (case find_typed_pair column source ''name'' of
        None \<Rightarrow> None
      | Some name_pair \<Rightarrow> (case named_child name_pair 1 of
          None \<Rightarrow> None
        | Some name_value_raw \<Rightarrow>
            (let name_value = unwrap_yaml_node name_value_raw
             in map_option (\<lambda>name. (name, nd_range name_value)) (scalar_string name_value source))))"

text \<open>\<open>inspect_column_name\<close> for each column in turn: an empty name is passed over.\<close>

definition inspect_column_names :: "string \<Rightarrow> syntax_node list \<Rightarrow> domain_diagnostic list" where
  "inspect_column_names source columns =
     map (\<lambda>(name, rg). error_at rg (''Duplicate column name '' @ ticked name @ '' in this table'') ''duplicate-column'')
       (repeated (\<lambda>(name, rg). if name \<noteq> [] then Some name else None) []
         (List.map_filter (column_name_node source) columns))"

section \<open>The one walk\<close>

fun node_has_error :: "syntax_node \<Rightarrow> bool" and nodes_have_error :: "syntax_node list \<Rightarrow> bool" where
  "node_has_error (Node kind named status a b children) \<longleftrightarrow> status \<noteq> ParsedNode \<or> nodes_have_error children"
| "nodes_have_error [] \<longleftrightarrow> False"
| "nodes_have_error (child # children) \<longleftrightarrow> node_has_error child \<or> nodes_have_error children"

definition syntax_diagnostic :: "syntax_node \<Rightarrow> domain_diagnostic" where
  "syntax_diagnostic node =
     error_at (nd_range node)
       (if nd_status node = MissingNode then ''Missing '' @ nd_kind node else ''Syntax error'') ''syntax-error''"

record fused_collector =
  fc_columns :: "syntax_node option"
  fc_syntax :: "domain_diagnostic list"
  fc_unknown_types :: "domain_diagnostic list"
  fc_complex_types :: "domain_diagnostic list"

definition inspect_syntax :: "syntax_node \<Rightarrow> bool \<Rightarrow> fused_collector \<Rightarrow> bool \<times> fused_collector" where
  "inspect_syntax node active st =
     (if \<not> active then (False, st)
      else if nd_status node \<noteq> ParsedNode then (False, st\<lparr>fc_syntax := fc_syntax st @ [syntax_diagnostic node]\<rparr>)
      else (True, st))"

definition inspect_types :: "string \<Rightarrow> syntax_node \<Rightarrow> bool \<Rightarrow> fused_collector \<Rightarrow> fused_collector" where
  "inspect_types source node in_columns st =
     (if in_columns \<and> is_mapping_node node
      then st\<lparr>fc_unknown_types := fc_unknown_types st @ inspect_column_type source node,
              fc_complex_types := fc_complex_types st @ inspect_complex_type source node\<rparr>
      else st)"

text \<open>The value is the second named child: of a child the walk knows how many named ones precede it.\<close>

definition first_columns_value :: "string \<Rightarrow> syntax_node \<Rightarrow> fused_collector \<Rightarrow> nat option \<times> fused_collector" where
  "first_columns_value source node st =
     (if fc_columns st \<noteq> None \<or> \<not> typed_key source ''columns'' node then (None, st)
      else (case named_child node 1 of None \<Rightarrow> (None, st) | Some v \<Rightarrow> (Some 1, st\<lparr>fc_columns := Some v\<rparr>)))"

definition count_named :: "syntax_node \<Rightarrow> nat option \<Rightarrow> nat option" where
  "count_named child pos =
     (if nd_named child then (case pos of Some (Suc k) \<Rightarrow> Some k | _ \<Rightarrow> None) else pos)"

fun fused_walk :: "string \<Rightarrow> bool \<Rightarrow> bool \<Rightarrow> syntax_node \<Rightarrow> fused_collector \<Rightarrow> fused_collector"
  and fused_children :: "string \<Rightarrow> nat option \<Rightarrow> bool \<Rightarrow> bool \<Rightarrow> syntax_node list \<Rightarrow> fused_collector \<Rightarrow> fused_collector" where
  "fused_walk source in_columns active (Node kind named status a b children) st =
     (case inspect_syntax (Node kind named status a b children) active st of (child_active, st1) \<Rightarrow>
      case first_columns_value source (Node kind named status a b children)
             (inspect_types source (Node kind named status a b children) in_columns st1) of (pos, st2) \<Rightarrow>
        fused_children source pos in_columns child_active children st2)"
| "fused_children source pos in_columns active [] st = st"
| "fused_children source pos in_columns active (child # children) st =
     fused_children source (count_named child pos) in_columns active children
       (fused_walk source (in_columns \<or> pos = Some 0 \<and> nd_named child) active child st)"

definition collect_all :: "syntax_node \<Rightarrow> string \<Rightarrow> domain_diagnostic list" where
  "collect_all tree source =
     (let st = fused_walk source False (node_has_error tree) tree
            \<lparr>fc_columns = None, fc_syntax = [], fc_unknown_types = [], fc_complex_types = []\<rparr>
      in fc_syntax st @ fc_unknown_types st @ fc_complex_types st @
         (case fc_columns st of
            None \<Rightarrow> [] | Some columns_raw \<Rightarrow> inspect_column_names source (direct_column_objects columns_raw)))"

section \<open>The four walks\<close>

fun walk_for_errors :: "syntax_node \<Rightarrow> domain_diagnostic list" and errors_among :: "syntax_node list \<Rightarrow> domain_diagnostic list" where
  "walk_for_errors (Node kind named status a b children) =
     (if status \<noteq> ParsedNode then [syntax_diagnostic (Node kind named status a b children)] else errors_among children)"
| "errors_among [] = []"
| "errors_among (child # children) = walk_for_errors child @ errors_among children"

definition collect_syntax_errors :: "syntax_node \<Rightarrow> domain_diagnostic list" where
  "collect_syntax_errors tree = (if node_has_error tree then walk_for_errors tree else [])"

fun typed_value :: "string \<Rightarrow> string \<Rightarrow> syntax_node \<Rightarrow> syntax_node option"
  and typed_value_among :: "string \<Rightarrow> string \<Rightarrow> syntax_node list \<Rightarrow> syntax_node option" where
  "typed_value source key (Node kind named status a b children) = typed_value_among source key children"
| "typed_value_among source key [] = None"
| "typed_value_among source key (child # children) =
     (case (if typed_key source key child then named_child child 1 else None) of
        Some v \<Rightarrow> Some v
      | None \<Rightarrow> (case typed_value source key child of
          Some v \<Rightarrow> Some v | None \<Rightarrow> typed_value_among source key children))"

text \<open>\<open>walk_column_objects\<close> and \<open>walk_columns_for_complex_type\<close> differ in what they ask of a mapping.\<close>

fun walk_column_objects :: "(syntax_node \<Rightarrow> domain_diagnostic list) \<Rightarrow> syntax_node \<Rightarrow> domain_diagnostic list"
  and walk_objects_among :: "(syntax_node \<Rightarrow> domain_diagnostic list) \<Rightarrow> syntax_node list \<Rightarrow> domain_diagnostic list" where
  "walk_column_objects visit (Node kind named status a b children) = walk_objects_among visit children"
| "walk_objects_among visit [] = []"
| "walk_objects_among visit (child # children) =
     (if is_mapping_node child then visit child else []) @ walk_column_objects visit child @ walk_objects_among visit children"

definition collect_unknown_column_types :: "syntax_node \<Rightarrow> string \<Rightarrow> domain_diagnostic list" where
  "collect_unknown_column_types tree source =
     (case typed_value source ''columns'' tree of
        None \<Rightarrow> [] | Some columns \<Rightarrow> walk_column_objects (inspect_column_type source) columns)"

definition collect_complex_type_violations :: "syntax_node \<Rightarrow> string \<Rightarrow> domain_diagnostic list" where
  "collect_complex_type_violations tree source =
     (case typed_value source ''columns'' tree of
        None \<Rightarrow> [] | Some columns \<Rightarrow> walk_column_objects (inspect_complex_type source) columns)"

definition collect_duplicate_column_names :: "syntax_node \<Rightarrow> string \<Rightarrow> domain_diagnostic list" where
  "collect_duplicate_column_names tree source =
     (case typed_value source ''columns'' tree of
        None \<Rightarrow> [] | Some columns_raw \<Rightarrow> inspect_column_names source (direct_column_objects columns_raw))"

definition collect_separately :: "syntax_node \<Rightarrow> string \<Rightarrow> domain_diagnostic list" where
  "collect_separately tree source =
     collect_syntax_errors tree @ collect_unknown_column_types tree source @
     collect_complex_type_violations tree source @ collect_duplicate_column_names tree source"

end
