(* ===== verification/Lsp_Diagnostics.thy ===== *)
theory Lsp_Diagnostics
  imports Lsp_Visitors Validate_Schema Type_Risks
begin

text \<open>
  The diagnostics of a model file (\<open>diagnostics/mod.rs\<close>, \<open>validation/mod.rs\<close>, \<open>parse.rs\<close>) and of a
  workspace of them, and how the server gathers that workspace (\<open>backend/mod.rs\<close>).  Of the two
  deserializers, which are external, a model file reads as a table or as an error with a place and a
  message; they are the parameters \<open>readers\<close>.
\<close>

section \<open>Reading a model file\<close>

record model_readers =
  read_json :: "string \<Rightarrow> (nat \<times> nat \<times> string) + table_def"
  read_yaml :: "string \<Rightarrow> (nat option \<times> string) + table_def"

record cached_parse_error =
  cpe_byte_range :: byte_range
  cpe_message :: string
  cpe_code :: string

text \<open>\<open>split_inclusive\<close>: every line keeps its newline.\<close>

fun inclusive_lines :: "string \<Rightarrow> string list" where
  "inclusive_lines [] = []"
| "inclusive_lines (c # s) =
     (if c = CHR 0x0A then [c] # inclusive_lines s
      else case inclusive_lines s of [] \<Rightarrow> [[c]] | l # ls \<Rightarrow> (c # l) # ls)"

fun offset_in_lines :: "string list \<Rightarrow> nat \<Rightarrow> nat \<Rightarrow> nat \<Rightarrow> nat" where
  "offset_in_lines [] line_zero col_zero pos = pos"
| "offset_in_lines (l # ls) line_zero col_zero pos =
     (if line_zero = 0 then pos + min col_zero (length l - 1)
      else offset_in_lines ls (line_zero - 1) col_zero (pos + length l))"

definition byte_offset_for_line_col :: "string \<Rightarrow> nat \<Rightarrow> nat \<Rightarrow> nat" where
  "byte_offset_for_line_col text line col =
     (let lines = inclusive_lines text
      in if line - 1 < length lines then offset_in_lines lines (line - 1) (col - 1) 0
         else min (offset_in_lines lines (line - 1) (col - 1) 0) (length text))"

definition normalize_table :: "table_def \<Rightarrow> cached_parse_error + table_def" where
  "normalize_table table =
     (case normalize table of
        Inl e \<Rightarrow> Inl \<lparr>cpe_byte_range = (0, 1), cpe_message = display_table_validation_error e, cpe_code = ''validate-schema''\<rparr>
      | Inr t \<Rightarrow> Inr t)"

definition parse_json_table :: "model_readers \<Rightarrow> string \<Rightarrow> cached_parse_error + table_def" where
  "parse_json_table readers text =
     (case read_json readers text of
        Inr table \<Rightarrow> normalize_table table
      | Inl (line, col, message) \<Rightarrow>
          (let pos = byte_offset_for_line_col text line col
           in Inl \<lparr>cpe_byte_range = (pos, min (pos + 1) (length text)),
                   cpe_message = ''JSON parse error: '' @ message, cpe_code = ''parse-error''\<rparr>))"

definition parse_yaml_table :: "model_readers \<Rightarrow> string \<Rightarrow> cached_parse_error + table_def" where
  "parse_yaml_table readers text =
     (case read_yaml readers text of
        Inr table \<Rightarrow> normalize_table table
      | Inl (loc, message) \<Rightarrow>
          (let pos = (case loc of None \<Rightarrow> 0 | Some idx \<Rightarrow> min idx (length text))
           in Inl \<lparr>cpe_byte_range = (pos, min (pos + 1) (length text)),
                   cpe_message = ''YAML parse error: '' @ message, cpe_code = ''parse-error''\<rparr>))"

definition parse_model :: "model_readers \<Rightarrow> document_format \<Rightarrow> string \<Rightarrow> cached_parse_error + table_def" where
  "parse_model readers format text =
     (case format of DocJson \<Rightarrow> parse_json_table readers text | DocYaml \<Rightarrow> parse_yaml_table readers text)"

definition emit_cached_parse :: "cached_parse_error + table_def \<Rightarrow> domain_diagnostic list \<times> table_def option" where
  "emit_cached_parse cached =
     (case cached of
        Inr table \<Rightarrow> ([], Some table)
      | Inl e \<Rightarrow> ([error_at (cpe_byte_range e) (cpe_message e) (cpe_code e)], None))"

definition had_typed_pre_check :: "domain_diagnostic list \<Rightarrow> bool" where
  "had_typed_pre_check diagnostics \<longleftrightarrow>
     list_ex (\<lambda>d. dd_code d \<in> set [''unknown-type'', ''complex-type'', ''duplicate-column'']) diagnostics"

definition collect_parse_diagnostics ::
  "model_readers \<Rightarrow> string \<Rightarrow> document_format \<Rightarrow> syntax_node option \<Rightarrow> domain_diagnostic list \<times> table_def option" where
  "collect_parse_diagnostics readers text format tree =
     (let pre = (case tree of None \<Rightarrow> [] | Some top_node \<Rightarrow> collect_all top_node text)
      in if had_typed_pre_check pre then (pre, None)
         else (let (errors, parsed) = emit_cached_parse (parse_model readers format text) in (pre @ errors, parsed)))"

section \<open>One table\<close>

definition warning_at :: "byte_range \<Rightarrow> string \<Rightarrow> string \<Rightarrow> domain_diagnostic" where
  "warning_at rg message code =
     \<lparr>dd_byte_range = rg, dd_severity = SevWarning, dd_message = message, dd_code = code\<rparr>"

definition is_dedicated_check_violation :: "planner_error \<Rightarrow> bool" where
  "is_dedicated_check_violation err \<longleftrightarrow>
     (case err of BetweenBoundaryReversed _ _ _ _ _ \<Rightarrow> True | CheckSelfContradiction _ _ _ _ _ \<Rightarrow> True | _ \<Rightarrow> False)"

definition byte_range_for_violation :: "planner_error \<Rightarrow> syntax_node option \<Rightarrow> string \<Rightarrow> byte_range" where
  "byte_range_for_violation err tree source =
     (case error_location_of err of None \<Rightarrow> (0, 1) | Some loc \<Rightarrow> located_range tree source loc)"

definition push_validate_error :: "byte_range \<Rightarrow> string \<Rightarrow> domain_diagnostic" where
  "push_validate_error rg message = error_at rg message ''validate-schema''"

definition diagnose_table :: "table_def \<Rightarrow> syntax_node option \<Rightarrow> string \<Rightarrow> domain_diagnostic list" where
  "diagnose_table table tree source =
     map (\<lambda>v. push_validate_error (byte_range_for_violation v tree source) (display_planner_error v))
       (filter (\<lambda>v. \<not> is_dedicated_check_violation v) (find_schema_violations [table]))"

definition locate_missing_fk :: "missing_fk_supporting_index \<Rightarrow> syntax_node option \<Rightarrow> string \<Rightarrow> byte_range" where
  "locate_missing_fk missing tree source =
     (let by_name = (case mfi_constraint_name missing of
            Some name \<Rightarrow> locate_constraint tree source name | None \<Rightarrow> (0, 1))
      in case mfi_columns missing of
           [] \<Rightarrow> by_name
         | first # _ \<Rightarrow>
             (let rg = locate_column_field tree source first FieldForeignKeyRefTable
              in if rg \<noteq> (0, 1) then rg else by_name))"

definition diagnose_fk_supporting_indexes :: "table_def \<Rightarrow> syntax_node option \<Rightarrow> string \<Rightarrow> domain_diagnostic list" where
  "diagnose_fk_supporting_indexes table tree source =
     map (\<lambda>missing. warning_at (locate_missing_fk missing tree source)
            (''Foreign key on ('' @ join '', '' (mfi_columns missing) @
             '') lacks a supporting index. Cascade and lookup operations will scan the entire '' @
             ticked (mfi_table missing) @ '' table. Suggested index: '' @ ticked (mfi_suggested_index_name missing) @ ''.'')
            ''fk-supporting-index'')
       (find_missing_fk_supporting_indexes [table])"

definition single_table_plan :: "table_def \<Rightarrow> migration_plan" where
  "single_table_plan table =
     empty_plan\<lparr>plan_actions := [CreateTable (tbl_name table) (tbl_columns table) (tbl_constraints table)]\<rparr>"

fun simple_type_label :: "simple_column_type \<Rightarrow> string" where
  "simple_type_label SmallInt = ''small_int''"
| "simple_type_label Integer = ''integer''"
| "simple_type_label BigInt = ''big_int''"
| "simple_type_label _ = ''<other>''"

fun sequence_risk_label :: "sequence_risk_level \<Rightarrow> string" where
  "sequence_risk_label SequenceHigh = ''High '' @ em_dash @ '' `small_int` exhausts at ~32K rows''"
| "sequence_risk_label SequenceMedium = ''Medium '' @ em_dash @ '' `integer` exhausts at ~2.1B rows''"

definition diagnose_sequence_exhaustion :: "table_def \<Rightarrow> syntax_node option \<Rightarrow> string \<Rightarrow> domain_diagnostic list" where
  "diagnose_sequence_exhaustion table tree source =
     map (\<lambda>w. let rg = locate_column_field tree source (sew_column w) FieldType
            in warning_at (if rg = (0, 1) then locate_column tree source (sew_column w) else rg)
              (''Auto-increment primary key '' @ ticked (sew_column w) @ '' uses '' @
               ticked (simple_type_label (sew_current_type w)) @ '' '' @ em_dash @ '' sequence exhaustion risk. '' @
               sequence_risk_label (sew_risk_level w) @
               ''. Consider rewriting to `big_int` (run `vespertide revision` for an interactive prompt).'')
              ''sequence-exhaustion'')
       (find_sequence_exhaustion_risks (single_table_plan table) [])"

definition diagnose_check_type_mismatches :: "table_def \<Rightarrow> syntax_node option \<Rightarrow> string \<Rightarrow> domain_diagnostic list" where
  "diagnose_check_type_mismatches table tree source =
     map (\<lambda>w. let rg = locate_constraint tree source (ctm_constraint_name w)
            in warning_at (if rg = (0, 1) then locate_column tree source (ctm_column w) else rg)
              (''CHECK constraint '' @ ticked (ctm_constraint_name w) @ '' on '' @
               ticked (ctm_table w @ ''.'' @ ctm_column w) @ '' compares a '' @ ticked (ctm_column_type_label w) @
               '' column to a '' @ to_lowercase (ctm_literal_kind w) @ '' literal '' @ ticked (ctm_literal_text w) @
               '' '' @ em_dash @ '' this is a likely type error. Backend-specific coercion may silently succeed on '' @
               ''MySQL/SQLite but PostgreSQL rejects it at ADD CONSTRAINT time.'')
              ''check-type-mismatch'')
       (find_check_type_mismatches (single_table_plan table) [])"

fun dedicated_check_name :: "planner_error \<Rightarrow> string" where
  "dedicated_check_name (BetweenBoundaryReversed _ _ check_name _ _) = check_name"
| "dedicated_check_name (CheckSelfContradiction _ check_name _ _ _) = check_name"
| "dedicated_check_name _ = []"

definition diagnose_check_between_order :: "table_def \<Rightarrow> syntax_node option \<Rightarrow> string \<Rightarrow> domain_diagnostic list" where
  "diagnose_check_between_order table tree source =
     map (\<lambda>err. error_at (locate_constraint tree source (dedicated_check_name err)) (display_planner_error err)
            ''check-between-reversed'') (find_between_boundary_reversals table)"

definition diagnose_check_self_contradiction :: "table_def \<Rightarrow> syntax_node option \<Rightarrow> string \<Rightarrow> domain_diagnostic list" where
  "diagnose_check_self_contradiction table tree source =
     map (\<lambda>err. error_at (locate_constraint tree source (dedicated_check_name err)) (display_planner_error err)
            ''check-self-contradiction'') (find_self_contradictions table)"

text \<open>The calls both entry points make for a table, after their own.\<close>

definition diagnose_checks :: "table_def \<Rightarrow> syntax_node option \<Rightarrow> string \<Rightarrow> domain_diagnostic list" where
  "diagnose_checks table tree source =
     diagnose_fk_supporting_indexes table tree source @
     diagnose_sequence_exhaustion table tree source @
     diagnose_check_type_mismatches table tree source @
     diagnose_check_between_order table tree source @
     diagnose_check_self_contradiction table tree source"

definition compute_uncached ::
  "model_readers \<Rightarrow> string \<Rightarrow> document_format \<Rightarrow> syntax_node option \<Rightarrow> domain_diagnostic list" where
  "compute_uncached readers text format tree =
     (let (diagnostics, parsed) = collect_parse_diagnostics readers text format tree
      in diagnostics @
         (case parsed of None \<Rightarrow> [] | Some table \<Rightarrow> diagnose_table table tree text @ diagnose_checks table tree text))"

text \<open>The key of the cache is the hash of the text, its length and the format; the hash is external.\<close>

definition compute_shared ::
  "model_readers \<Rightarrow> (string \<Rightarrow> 'h) \<Rightarrow> string \<Rightarrow> document_format \<Rightarrow> syntax_node option \<Rightarrow>
     ('h \<times> nat \<times> document_format, domain_diagnostic list) ring_cache \<Rightarrow>
     domain_diagnostic list \<times> ('h \<times> nat \<times> document_format, domain_diagnostic list) ring_cache" where
  "compute_shared readers hash_text text format tree cache =
     get_or_compute 128 (hash_text text, length text, format) (compute_uncached readers text format tree) cache"

section \<open>A workspace\<close>

record workspace_table =
  wt_uri :: string
  wt_table :: table_def
  wt_source :: string
  wt_tree :: "syntax_node option"

text \<open>\<open>Path::file_name\<close>: the last component, unless it is \<open>..\<close>; empty components and \<open>.\<close> do not count.\<close>

fun path_components :: "string \<Rightarrow> string \<Rightarrow> string list" where
  "path_components acc [] = [acc]"
| "path_components acc (c # s) = (if c = CHR ''/'' then acc # path_components [] s else path_components (acc @ [c]) s)"

definition path_file_name :: "string \<Rightarrow> string option" where
  "path_file_name path =
     (case rev (filter (\<lambda>c. c \<noteq> [] \<and> c \<noteq> ''.'') (path_components [] path)) of
        [] \<Rightarrow> None | c # _ \<Rightarrow> if c = ''..'' then None else Some c)"

definition file_basename_of :: "string \<Rightarrow> string option" where
  "file_basename_of uri =
     (case uri_to_path id uri of
        None \<Rightarrow> None
      | Some path \<Rightarrow> map_option (\<lambda>name.
          unwrap_or name (fold (\<lambda>suffix found. or_else found (strip_suffix suffix name))
            [''.vespertide.json'', ''.vespertide.yaml'', ''.vespertide.yml'', ''.json'', ''.yaml'', ''.yml''] None))
          (path_file_name path))"

definition check_filename_table_name_mismatch ::
  "string \<Rightarrow> string \<Rightarrow> syntax_node option \<Rightarrow> string \<Rightarrow> domain_diagnostic list" where
  "check_filename_table_name_mismatch text uri tree table_name =
     (case file_basename_of uri of
        None \<Rightarrow> []
      | Some basename \<Rightarrow>
          if basename \<noteq> table_name
          then [warning_at (unwrap_or (0, 1) (locate_top_name tree text))
            (''Table name '' @ ticked table_name @ '' does not match file basename '' @ ticked basename @
             ''. Rename one to keep them in sync.'') ''filename-mismatch'']
          else [])"

definition emit_workspace_location_violation ::
  "workspace_table list \<Rightarrow> string \<Rightarrow> string \<Rightarrow> error_location \<Rightarrow> domain_diagnostic list" where
  "emit_workspace_location_violation workspace current_uri message location =
     (case find (\<lambda>entry. tbl_name (wt_table entry) = el_table location) workspace of
        None \<Rightarrow> [push_validate_error (0, 1) message]
      | Some target \<Rightarrow>
          if wt_uri target \<noteq> current_uri then []
          else [push_validate_error (located_range (wt_tree target) (wt_source target) location) message])"

definition emit_violation :: "workspace_table list \<Rightarrow> string \<Rightarrow> planner_error \<Rightarrow> domain_diagnostic list" where
  "emit_violation workspace current_uri err =
     (if is_dedicated_check_violation err then []
      else case error_location_of err of
        None \<Rightarrow> [push_validate_error (0, 1) (display_planner_error err)]
      | Some location \<Rightarrow> emit_workspace_location_violation workspace current_uri (display_planner_error err) location)"

definition diagnose_workspace :: "workspace_table list \<Rightarrow> string \<Rightarrow> domain_diagnostic list" where
  "diagnose_workspace workspace current_uri =
     concat (map (emit_violation workspace current_uri) (find_schema_violations (map wt_table workspace)))"

definition compute_workspace ::
  "model_readers \<Rightarrow> string \<Rightarrow> document_format \<Rightarrow> syntax_node option \<Rightarrow> workspace_table list \<Rightarrow> string \<Rightarrow>
     domain_diagnostic list" where
  "compute_workspace readers text format tree workspace current_uri =
     (let (diagnostics, parsed) = collect_parse_diagnostics readers text format tree
      in diagnostics @
         (case parsed of
            None \<Rightarrow> []
          | Some table \<Rightarrow>
              (case find (\<lambda>t. wt_uri t = current_uri) workspace of
                 None \<Rightarrow> []
               | Some entry \<Rightarrow> check_filename_table_name_mismatch text current_uri tree (tbl_name (wt_table entry))) @
              diagnose_workspace workspace current_uri @
              diagnose_checks table tree text))"

section \<open>Gathering the workspace\<close>

text \<open>
  \<open>docs\<close> are the open documents in the order the store gives them, \<open>disk\<close> the tables found on disk with
  the path of the file that declares each; \<open>normalize_path\<close> resolves links and is external.
\<close>

definition open_workspace_table ::
  "model_readers \<Rightarrow> string \<Rightarrow> syntax_node document_state \<Rightarrow> workspace_table option" where
  "open_workspace_table readers uri state =
     (case ds_tree state of
        None \<Rightarrow> None
      | Some tree \<Rightarrow>
          (case (case ds_format state of
                   DocJson \<Rightarrow> (case read_json readers (ds_text state) of Inl _ \<Rightarrow> None | Inr t \<Rightarrow> Some t)
                 | DocYaml \<Rightarrow> (case read_yaml readers (ds_text state) of Inl _ \<Rightarrow> None | Inr t \<Rightarrow> Some t)) of
             None \<Rightarrow> None
           | Some parsed \<Rightarrow>
               (case normalize parsed of
                  Inl _ \<Rightarrow> None
                | Inr table \<Rightarrow> Some \<lparr>wt_uri = uri, wt_table = table, wt_source = ds_text state, wt_tree = Some tree\<rparr>)))"

definition disk_workspace_table ::
  "(string \<Rightarrow> string option) \<Rightarrow> string \<Rightarrow> table_def \<Rightarrow> string \<Rightarrow> workspace_table" where
  "disk_workspace_table parse_uri name table disk_path =
     \<lparr>wt_uri = unwrap_or (''file:///__disk__/'' @ name @ ''.json'') (path_to_uri parse_uri disk_path),
      wt_table = table, wt_source = [], wt_tree = None\<rparr>"

fun add_disk_tables ::
  "(string \<Rightarrow> string option) \<Rightarrow> (string \<Rightarrow> string) \<Rightarrow> string set \<Rightarrow> (string \<times> table_def \<times> string option) list \<Rightarrow>
     workspace_table list" where
  "add_disk_tables parse_uri normalize_path seen [] = []"
| "add_disk_tables parse_uri normalize_path seen ((name, table, path) # disk) =
     (case path of
        None \<Rightarrow> add_disk_tables parse_uri normalize_path seen disk
      | Some disk_path \<Rightarrow>
          if normalize_path disk_path \<in> seen then add_disk_tables parse_uri normalize_path seen disk
          else disk_workspace_table parse_uri name table disk_path #
               add_disk_tables parse_uri normalize_path (insert (normalize_path disk_path) seen) disk)"

definition build_workspace_tables ::
  "model_readers \<Rightarrow> (string \<Rightarrow> string option) \<Rightarrow> (string \<Rightarrow> string) \<Rightarrow> syntax_node document_store \<Rightarrow>
     (string \<times> table_def \<times> string option) list \<Rightarrow> workspace_table list" where
  "build_workspace_tables readers parse_uri normalize_path docs disk =
     (let opened = List.map_filter (\<lambda>(uri, state). open_workspace_table readers uri state) docs;
          seen = (\<lambda>p. normalize_path p) ` set (List.map_filter (\<lambda>entry. uri_to_path id (wt_uri entry)) opened)
      in opened @ add_disk_tables parse_uri normalize_path seen disk)"

end
