(* ===== verification/Lsp_Laws.thy ===== *)
theory Lsp_Laws
  imports Lsp_State Validate_Schema
begin

text \<open>
  The cache is right under any interleaving, the index answers with the last file that declares a name,
  and encoded tokens read back.
\<close>

section \<open>The bounded cache\<close>

definition ring_ok :: "nat \<Rightarrow> ('k \<Rightarrow> 'v \<Rightarrow> bool) \<Rightarrow> ('k, 'v) ring_cache \<Rightarrow> bool" where
  "ring_ok n computes cache \<longleftrightarrow>
     map fst (rc_entries cache) = rc_insertion_order cache \<and> distinct (rc_insertion_order cache) \<and>
     length (rc_entries cache) \<le> n \<and> (\<forall>(key, v) \<in> set (rc_entries cache). computes key v)"

lemma ring_new_ok: "ring_ok n computes ring_new"
  by (simp add: ring_ok_def ring_new_def)

lemma update_absent: "k \<notin> fst ` set al \<Longrightarrow> AList.update k v al = al @ [(k, v)]"
  by (induction al) auto

lemma ring_evict_ok:
  assumes "ring_ok n computes cache" and "0 < n"
  shows "ring_ok n computes (ring_evict n cache) \<and> length (rc_entries (ring_evict n cache)) < n \<and>
    set (rc_entries (ring_evict n cache)) \<subseteq> set (rc_entries cache)"
proof (cases "n \<le> length (rc_entries cache)")
  case True
  with assms obtain key v rest where entries: "rc_entries cache = (key, v) # rest"
    by (cases "rc_entries cache") (auto simp: ring_ok_def)
  with assms have order: "rc_insertion_order cache = key # map fst rest"
    by (auto simp: ring_ok_def dest!: sym [of "_ # _"])
  have "distinct (rc_insertion_order cache)" using assms(1) by (simp add: ring_ok_def)
  then have "key \<notin> fst ` set rest" unfolding order by simp
  then have "AList.delete key (rc_entries cache) = rest"
    by (simp add: entries delete_notin_dom)
  with True order entries assms(1) have evicted: "ring_evict n cache = \<lparr>rc_entries = rest, rc_insertion_order = map fst rest\<rparr>"
    by (simp add: ring_evict_def)
  show ?thesis unfolding evicted using assms entries order by (auto simp: ring_ok_def)
qed (use assms in \<open>auto simp: ring_evict_def\<close>)

lemma ring_insert_ok:
  assumes "ring_ok n computes cache" and "0 < n" and "computes key v" and "ring_insert n key v cache = (w, cache')"
  shows "ring_ok n computes cache' \<and> computes key w \<and> map_of (rc_entries cache') key = Some w"
proof (cases "map_of (rc_entries cache) key")
  case None
  let ?kept = "ring_evict n cache"
  note kept = ring_evict_ok [OF assms(1,2)]
  from None kept have absent: "key \<notin> fst ` set (rc_entries ?kept)"
    by (auto simp: map_of_eq_None_iff)
  with kept have "key \<notin> set (rc_insertion_order ?kept)" by (auto simp: ring_ok_def dest!: sym [of "map fst _"])
  from absent have free: "map_of (rc_entries ?kept) key = None" by (simp add: map_of_eq_None_iff)
  from None assms(4) have "w = v" and cache': "cache' = \<lparr>rc_entries = rc_entries ?kept @ [(key, v)],
      rc_insertion_order = rc_insertion_order ?kept @ [key]\<rparr>"
    by (auto simp: ring_insert_def Let_def update_absent [OF absent])
  with kept \<open>key \<notin> set _\<close> free assms(3) show ?thesis by (auto simp: ring_ok_def map_add_def)
next
  case (Some existing)
  with assms show ?thesis by (auto simp: ring_insert_def ring_ok_def dest: map_of_SomeD)
qed

definition ring_system_ok :: "nat \<Rightarrow> ('k \<Rightarrow> 'v \<Rightarrow> bool) \<Rightarrow> ('k, 'v) ring_system \<Rightarrow> bool" where
  "ring_system_ok n computes s \<longleftrightarrow>
     ring_ok n computes (rs_cache s) \<and> (\<forall>(key, v) \<in> set (rs_computing s). computes key v) \<and>
     (\<forall>(key, v) \<in> set (rs_returned s). computes key v)"

lemma ring_step_ok:
  assumes "ring_step n computes s s'" and "ring_system_ok n computes s" and "0 < n"
  shows "ring_system_ok n computes s'"
  using assms
proof (induction rule: ring_step.induct)
  case (hit s key v)
  then show ?case by (auto simp: ring_system_ok_def ring_ok_def dest: map_of_SomeD)
next
  case (finish key v s w cache)
  then have "ring_ok n computes cache \<and> computes key w"
    using ring_insert_ok [of n computes "rs_cache s" key v w cache] by (auto simp: ring_system_ok_def)
  with finish show ?case by (auto simp: ring_system_ok_def dest: notin_set_remove1 set_remove1_subset [THEN subsetD])
qed (auto simp: ring_system_ok_def)

lemma ring_reachable_ok:
  assumes "(ring_step n computes)\<^sup>*\<^sup>* ring_start s" and "0 < n"
  shows "ring_system_ok n computes s"
  using assms(1)
proof (induction rule: rtranclp_induct)
  case base
  show ?case by (simp add: ring_system_ok_def ring_start_def ring_new_ok)
next
  case (step s s')
  with assms(2) show ?case by (auto intro: ring_step_ok)
qed

section \<open>Calls through a cache\<close>

text \<open>
  What a cache promises its callers: on a good input, a call with a current cache answers as the plain
  function does and leaves the cache current.  Then a series of calls answers as if there were no cache.
\<close>

fun cached_calls :: "('i \<Rightarrow> 'c \<Rightarrow> 'r \<times> 'c) \<Rightarrow> 'i list \<Rightarrow> 'c \<Rightarrow> 'r list" where
  "cached_calls call [] cache = []"
| "cached_calls call (i # is) cache = (let (r, cache') = call i cache in r # cached_calls call is cache')"

locale transparent_cache =
  fixes call :: "'i \<Rightarrow> 'c \<Rightarrow> 'r \<times> 'c"
    and answer :: "'i \<Rightarrow> 'r"
    and good :: "'i \<Rightarrow> bool"
    and current :: "'c \<Rightarrow> bool"
  assumes call_answer: "good i \<Longrightarrow> current cache \<Longrightarrow> fst (call i cache) = answer i"
    and call_current: "good i \<Longrightarrow> current cache \<Longrightarrow> current (snd (call i cache))"
begin

lemma calls_answer: "\<forall>i \<in> set is. good i \<Longrightarrow> current cache \<Longrightarrow> cached_calls call is cache = map answer is"
  by (induction "is" arbitrary: cache) (simp_all add: call_answer call_current case_prod_beta)

end

text \<open>The bounded cache keeps the promise for inputs whose keys tell their values.\<close>

definition ring_current :: "nat \<Rightarrow> ('i \<Rightarrow> 'k) \<Rightarrow> ('i \<Rightarrow> 'v) \<Rightarrow> 'i set \<Rightarrow> ('k, 'v) ring_cache \<Rightarrow> bool" where
  "ring_current n key f inputs cache \<longleftrightarrow>
     0 < n \<and> (\<forall>i \<in> inputs. \<forall>j \<in> inputs. key i = key j \<longrightarrow> f i = f j) \<and>
     ring_ok n (\<lambda>k v. \<exists>i \<in> inputs. key i = k \<and> f i = v) cache"

lemma get_or_compute_current:
  assumes "i \<in> inputs" and "ring_current n key f inputs cache"
  shows "fst (get_or_compute n (key i) (f i) cache) = f i \<and>
    ring_current n key f inputs (snd (get_or_compute n (key i) (f i) cache))"
proof -
  let ?computes = "\<lambda>k v. \<exists>i \<in> inputs. key i = k \<and> f i = v"
  have told: "?computes (key i) w \<Longrightarrow> w = f i" for w
    using assms unfolding ring_current_def by metis
  show ?thesis
  proof (cases "map_of (rc_entries cache) (key i)")
    case (Some v)
    moreover have "ring_ok n ?computes cache" using assms(2) unfolding ring_current_def by blast
    ultimately have "?computes (key i) v" unfolding ring_ok_def using map_of_SomeD by fast
    then have "v = f i" by (rule told)
    then show ?thesis using Some assms(2) by (simp add: get_or_compute_def)
  next
    case None
    obtain w cache' where w: "ring_insert n (key i) (f i) cache = (w, cache')" by fastforce
    have "ring_ok n ?computes cache" "0 < n" using assms(2) unfolding ring_current_def by blast+
    moreover have "?computes (key i) (f i)" using assms(1) by blast
    ultimately have ok: "ring_ok n ?computes cache'" "?computes (key i) w"
      using ring_insert_ok [OF _ _ _ w, of ?computes] by blast+
    from ok(2) have "w = f i" by (rule told)
    moreover have "ring_current n key f inputs cache'"
      using ok(1) assms(2) unfolding ring_current_def by blast
    ultimately show ?thesis using None w by (simp add: get_or_compute_def)
  qed
qed

interpretation ring: transparent_cache "\<lambda>i. get_or_compute n (key i) (f i)" f "\<lambda>i. i \<in> inputs" "ring_current n key f inputs"
  for n key f inputs
  by unfold_locales (simp_all only: get_or_compute_current)

section \<open>The index\<close>

fun event_uri :: "index_event \<Rightarrow> string" where
  "event_uri (Upserted uri _) = uri"
| "event_uri (Removed uri) = uri"

text \<open>What a file declares now: its last event says so.\<close>

definition declares :: "index_event list \<Rightarrow> string \<Rightarrow> string option" where
  "declares events uri =
     (case rev (filter (\<lambda>e. event_uri e = uri) events) of Upserted _ name # _ \<Rightarrow> name | _ \<Rightarrow> None)"

text \<open>The file that was last seen to declare a name.\<close>

fun event_name :: "index_event \<Rightarrow> string option" where
  "event_name (Upserted _ name) = name"
| "event_name (Removed _) = None"

definition last_declarer :: "index_event list \<Rightarrow> string \<Rightarrow> string option" where
  "last_declarer events name =
     (case rev (filter (\<lambda>e. event_name e = Some name) events) of e # _ \<Rightarrow> Some (event_uri e) | [] \<Rightarrow> None)"

definition current_owner :: "index_event list \<Rightarrow> string \<Rightarrow> string option" where
  "current_owner events name =
     (case last_declarer events name of
        Some uri \<Rightarrow> if declares events uri = Some name then Some uri else None
      | None \<Rightarrow> None)"

lemma declares_snoc: "declares (events @ [e]) uri = (if event_uri e = uri then event_name e else declares events uri)"
  by (cases e) (simp_all add: declares_def)

lemma last_declarer_snoc:
  "last_declarer (events @ [e]) name = (if event_name e = Some name then Some (event_uri e) else last_declarer events name)"
  by (simp add: last_declarer_def)

lemma om_lookup_delete [om_simps]: "om_lookup (om_delete k m) = (om_lookup m)(k := None)"
proof
  fix k'
  show "om_lookup (om_delete k m) k' = ((om_lookup m)(k := None)) k'"
    by (induction m) (auto simp: om_lookup_def om_delete_def)
qed

lemma index_run_snoc: "index_run (events @ [e]) = index_apply e (index_run events)"
  by (simp add: index_run_def)

lemma release_name_lookup:
  "om_lookup (release_name uri name m) k = (if k = name \<and> om_lookup m name = Some uri then None else om_lookup m k)"
  by (simp add: release_name_def om_simps)

lemma index_run_lookup:
  "om_lookup (wi_by_uri (index_run events)) uri = declares events uri \<and>
   om_lookup (wi_by_name (index_run events)) name = current_owner events name"
proof (induction events arbitrary: uri name rule: rev_induct)
  case Nil
  show ?case by (simp add: index_run_def index_new_def declares_def current_owner_def last_declarer_def om_lookup_def)
next
  case (snoc e events)
  then have by_uri: "om_lookup (wi_by_uri (index_run events)) = declares events"
    and by_name: "om_lookup (wi_by_name (index_run events)) = current_owner events"
    by auto
  show ?case
    by (cases e)
      (auto simp: index_run_snoc index_upsert_def index_remove_def Let_def om_simps by_uri by_name declares_snoc
        current_owner_def last_declarer_snoc release_name_lookup split: option.splits if_splits)
qed

section \<open>Semantic tokens\<close>

text \<open>What a client computes from the differences.\<close>

fun decode_tokens :: "nat \<Rightarrow> nat \<Rightarrow> semantic_token list \<Rightarrow> resolved_token list" where
  "decode_tokens line start [] = []"
| "decode_tokens line start (t # ts) =
     (let line' = line + st_delta_line t;
          start' = (if st_delta_line t = 0 then start + st_delta_start t else st_delta_start t)
      in \<lparr>re_line = line', re_start = start', re_length = st_length t, re_type = st_type t, re_modifiers = st_modifiers t\<rparr> #
         decode_tokens line' start' ts)"

definition token_key :: "resolved_token \<Rightarrow> nat list" where
  "token_key r = [re_line r, re_start r]"

lemma compare_tokens_key: "compare_tokens a b = compare (token_key a) (token_key b)"
  by (auto simp: compare_tokens_def token_key_def compare_def)

lemma sort_tokens: "sort_by compare_tokens rs = sort_key token_key rs"
  by (rule sort_by_sort_key) (rule compare_tokens_key)

lemma delta_tokens_reads_back:
  assumes "sorted (map token_key rs)" and "\<forall>r \<in> set rs. [line, start] \<le> token_key r"
  shows "\<exists>out. delta_tokens line start rs = Some out \<and> decode_tokens line start out = rs"
  using assms
proof (induction rs arbitrary: line start)
  case (Cons r rs)
  have "\<forall>r' \<in> set rs. [re_line r, re_start r] \<le> token_key r'" using Cons.prems(1) by (auto simp: token_key_def)
  with Cons.IH [of "re_line r" "re_start r"] Cons.prems(1) obtain out where
    out: "delta_tokens (re_line r) (re_start r) rs = Some out" "decode_tokens (re_line r) (re_start r) out = rs"
    by auto
  from Cons.prems(2) have "line < re_line r \<or> line = re_line r \<and> start \<le> re_start r"
    by (auto simp: token_key_def)
  with out show ?case by (cases r) (auto simp: checked_sub_def Let_def)
qed simp

lemma dedup_by_subset: "set (dedup_by same xs) \<subseteq> set xs"
  by (induction same xs rule: dedup_by.induct) auto

lemma dedup_by_sorted: "sorted (map f xs) \<Longrightarrow> sorted (map f (dedup_by same xs))"
proof (induction same xs rule: dedup_by.induct)
  case (3 same x y ys)
  then show ?case using dedup_by_subset [of same "y # ys"] by (auto 4 3)
qed auto

lemma dedup_by_keeps:
  assumes "x \<in> set xs" and "reflp same" and "transp same"
  shows "\<exists>y \<in> set (dedup_by same xs). same x y"
  using assms
proof (induction same xs arbitrary: x rule: dedup_by.induct)
  case (3 same a b ys x)
  show ?case
  proof (cases "same b a")
    case True
    note ih = "3.IH"(1) [OF True _ "3.prems"(2,3)]
    from ih [of a] obtain z where "z \<in> set (dedup_by same (a # ys))" "same a z" by auto
    with True "3.prems"(3) have "\<exists>z \<in> set (dedup_by same (a # ys)). same b z" by (blast dest: transpD)
    with ih True "3.prems"(1) show ?thesis by auto
  next
    case False
    have "x = a \<or> x \<in> set (b # ys)" using "3.prems"(1) by auto
    with "3.IH"(2) [OF False _ "3.prems"(2,3), of x] False "3.prems"(2) show ?thesis by (auto dest: reflpD)
  qed
qed (auto dest: reflpD)

lemma same_span_order: "reflp same_span" "transp same_span"
  by (auto simp: same_span_def intro: reflpI transpI)

lemma resolved_tokens_cover:
  assumes "raw \<in> set tokens" and "resolve_token position_at raw = Some r"
  shows "\<exists>r' \<in> set (resolved_tokens position_at tokens). same_span r r'"
  unfolding resolved_tokens_def
proof (rule dedup_by_keeps [OF _ same_span_order])
  show "r \<in> set (sort_by compare_tokens (List.map_filter (resolve_token position_at) tokens))"
    using assms by (simp add: set_map_filter) metis
qed

lemma resolved_tokens_from:
  assumes "r \<in> set (resolved_tokens position_at tokens)"
  shows "\<exists>raw \<in> set tokens. resolve_token position_at raw = Some r"
proof -
  from assms have "r \<in> set (sort_by compare_tokens (List.map_filter (resolve_token position_at) tokens))"
    unfolding resolved_tokens_def by (rule subsetD [OF dedup_by_subset])
  then show ?thesis by (simp add: set_map_filter)
qed

lemma resolved_tokens_sorted: "sorted (map token_key (resolved_tokens position_at tokens))"
  unfolding resolved_tokens_def sort_tokens by (rule dedup_by_sorted) simp

lemma encode_tokens_reads_back:
  "\<exists>out. encode_tokens position_at tokens = Some out \<and> decode_tokens 0 0 out = resolved_tokens position_at tokens"
  unfolding encode_tokens_def
proof (rule delta_tokens_reads_back [OF resolved_tokens_sorted])
  have "[0, 0] \<le> token_key r" for r by (simp add: token_key_def) arith
  then show "\<forall>r \<in> set (resolved_tokens position_at tokens). [0, 0] \<le> token_key r" by blast
qed

section \<open>URIs\<close>

lemma percent_decode_plain: "CHR ''%'' \<notin> set s \<Longrightarrow> percent_decode s = s"
proof (induction s)
  case (Cons c s)
  then have "percent_decode s = s" "c \<noteq> CHR ''%''" by auto
  then show ?case by (subst percent_decode.simps) (auto simp del: percent_decode.simps split: list.split)
qed simp

lemma path_uri_round_trip:
  assumes "path_to_uri parse_uri path = Some uri" and "\<And>s u. parse_uri s = Some u \<Longrightarrow> uri_text u = s"
    and "CHR ''%'' \<notin> set path" and "CHR 0x5C \<notin> set path"
  shows "uri_to_path uri_text uri = Some (if starts_with path ''/'' then path else CHR ''/'' # path)"
proof -
  have plain: "map (\<lambda>c. if c = CHR 0x5C then CHR ''/'' else c) path = path"
    using assms(4) by (intro map_idI) auto
  let ?rooted = "if starts_with path ''/'' then path else CHR ''/'' # path"
  have "uri_text uri = ''file://'' @ ?rooted"
    using assms(1,2) by (simp add: path_to_uri_def Let_def plain split: if_splits)
  moreover have "percent_decode ?rooted = ?rooted" using assms(3) by (intro percent_decode_plain) auto
  ultimately show ?thesis by (simp add: uri_to_path_def)
qed

section \<open>Renaming\<close>

lemma push_edits_lookup:
  "om_lookup (fold (push_edit new) refs m) uri =
     (let old = om_lookup m uri;
          own = map (\<lambda>(_, a, b). \<lparr>te_from = a, te_to = b, te_text = new\<rparr>) (filter (\<lambda>(u, _). u = uri) refs)
      in if own = [] then old else Some ((case old of Some es \<Rightarrow> es | None \<Rightarrow> []) @ own))"
  by (induction refs arbitrary: m) (auto simp: push_edit_def Let_def om_simps split: option.splits)

lemma tidy_edits_set: "set (tidy_edits es) = set es"
proof
  let ?same = "\<lambda>a b. te_from a = te_from b \<and> te_to a = te_to b \<and> te_text a = te_text b"
  show "set (tidy_edits es) \<subseteq> set es"
    unfolding tidy_edits_def using dedup_by_subset [of ?same "sort_key te_from es"] by simp
  have order: "reflp ?same" "transp ?same" by (auto intro: reflpI transpI)
  have "e \<in> set (tidy_edits es)" if "e \<in> set es" for e
  proof -
    from dedup_by_keeps [OF _ order, of e "sort_key te_from es"] that
    obtain e' where "e' \<in> set (tidy_edits es)" "te_from e = te_from e' \<and> te_to e = te_to e' \<and> te_text e = te_text e'"
      by (auto simp: tidy_edits_def)
    then have "e = e'" by (intro text_edit.equality) simp_all
    with \<open>e' \<in> _\<close> show ?thesis by simp
  qed
  then show "set es \<subseteq> set (tidy_edits es)" by blast
qed

lemma tidy_edits_sorted: "sorted (map te_from (tidy_edits es))"
  unfolding tidy_edits_def by (rule dedup_by_sorted) simp

lemma om_lookup_map: "om_lookup (map (map_prod id f) m) k = map_option f (om_lookup m k)"
  by (induction m) (auto simp: om_lookup_def)

lemma rename_edits:
  assumes "compute_rename symbol references new = Some edits"
  shows "(\<exists>es. om_lookup edits uri = Some es \<and> \<lparr>te_from = a, te_to = b, te_text = text\<rparr> \<in> set es) \<longleftrightarrow>
      (uri, a, b) \<in> set references \<and> text = new"
    and "om_lookup edits uri = Some es \<Longrightarrow> sorted (map te_from es)"
proof -
  from assms have edits: "edits = map (map_prod id tidy_edits) (fold (push_edit new) references [])"
    by (auto simp: compute_rename_def Let_def split: if_splits option.splits)
  show "(\<exists>es. om_lookup edits uri = Some es \<and> \<lparr>te_from = a, te_to = b, te_text = text\<rparr> \<in> set es) \<longleftrightarrow>
      (uri, a, b) \<in> set references \<and> text = new"
    unfolding edits om_lookup_map push_edits_lookup Let_def
    by (cases "filter (\<lambda>(u, _). u = uri) references = []")
      (force simp: tidy_edits_set om_lookup_def filter_empty_conv)+
  show "om_lookup edits uri = Some es \<Longrightarrow> sorted (map te_from es)"
    by (auto simp: edits om_lookup_map tidy_edits_sorted)
qed

end
