(* ===== verification/Lsp_Diagnostic_Laws.thy ===== *)
theory Lsp_Diagnostic_Laws
  imports Lsp_Diagnostics Lsp_Laws
begin

text \<open>
  The one walk over a syntax tree finds what the four separate walks find, the diagnostics of a workspace
  show an error in some file exactly when the tables of the workspace do not form a valid schema, and a file
  that is open and on disk enters the workspace once.
\<close>

section \<open>The one walk and the four\<close>

text \<open>A walk sets the columns and appends to the three lists.\<close>

definition grown ::
  "fused_collector \<Rightarrow> syntax_node option \<Rightarrow> domain_diagnostic list \<Rightarrow> domain_diagnostic list \<Rightarrow> domain_diagnostic list \<Rightarrow>
     fused_collector" where
  "grown st c s u x =
     \<lparr>fc_columns = c, fc_syntax = fc_syntax st @ s, fc_unknown_types = fc_unknown_types st @ u,
      fc_complex_types = fc_complex_types st @ x\<rparr>"

lemma grown_grown [simp]: "grown (grown st c s u x) c' s' u' x' = grown st c' (s @ s') (u @ u') (x @ x')"
  by (simp add: grown_def)

lemma grown_columns [simp]: "fc_columns (grown st c s u x) = c"
  by (simp add: grown_def)

lemma grown_nothing [simp]: "grown st (fc_columns st) [] [] [] = st"
  by (simp add: grown_def)

definition own :: "(syntax_node \<Rightarrow> domain_diagnostic list) \<Rightarrow> syntax_node \<Rightarrow> domain_diagnostic list" where
  "own visit node = (if is_mapping_node node then visit node else [])"

definition found_in :: "(syntax_node \<Rightarrow> domain_diagnostic list) \<Rightarrow> syntax_node \<Rightarrow> domain_diagnostic list" where
  "found_in visit node = own visit node @ walk_column_objects visit node"

definition found_in_option :: "(syntax_node \<Rightarrow> domain_diagnostic list) \<Rightarrow> syntax_node option \<Rightarrow> domain_diagnostic list" where
  "found_in_option visit node = (case node of None \<Rightarrow> [] | Some v \<Rightarrow> found_in visit v)"

lemma walk_objects_Cons: "walk_objects_among visit (child # children) = found_in visit child @ walk_objects_among visit children"
  by (simp add: found_in_def own_def)

lemma inspect_syntax_grown:
  "inspect_syntax node active st =
    (active \<and> nd_status node = ParsedNode,
     grown st (fc_columns st) (if active \<and> nd_status node \<noteq> ParsedNode then [syntax_diagnostic node] else []) [] [])"
  by (simp add: inspect_syntax_def grown_def)

lemma inspect_types_grown:
  "inspect_types source node in_columns st =
    grown st (fc_columns st) [] (if in_columns then own (inspect_column_type source) node else [])
      (if in_columns then own (inspect_complex_type source) node else [])"
  by (simp add: inspect_types_def grown_def own_def)

lemma set_columns_grown: "st\<lparr>fc_columns := c\<rparr> = grown st c [] [] []"
  by (simp add: grown_def)

definition errors_if :: "bool \<Rightarrow> domain_diagnostic list \<Rightarrow> domain_diagnostic list" where
  "errors_if active es = (if active then es else [])"

lemma walk_for_errors_Node:
  "errors_if active (walk_for_errors (Node kind named status a b children)) =
    (if active \<and> status \<noteq> ParsedNode then [syntax_diagnostic (Node kind named status a b children)] else []) @
    errors_if (active \<and> status = ParsedNode) (errors_among children)"
  by (simp add: errors_if_def)

lemmas walk_grown = inspect_syntax_grown inspect_types_grown first_columns_value_def set_columns_grown

text \<open>Inside the columns every mapping is inspected.\<close>

lemma walk_inside:
  "fc_columns st = Some c \<Longrightarrow>
    fused_walk source True active node st =
      grown st (Some c) (errors_if active (walk_for_errors node))
        (found_in (inspect_column_type source) node) (found_in (inspect_complex_type source) node)"
  "fc_columns st = Some c \<Longrightarrow>
    fused_children source pos True active children st =
      grown st (Some c) (errors_if active (errors_among children))
        (walk_objects_among (inspect_column_type source) children) (walk_objects_among (inspect_complex_type source) children)"
proof (induction node and children arbitrary: st active and st active pos
    rule: node_has_error_nodes_have_error.induct)
  case (1 kind named status a b children)
  then show ?case
    by (simp add: walk_grown walk_for_errors_Node found_in_def del: walk_for_errors.simps)
next
  case 2
  then show ?case using grown_nothing [of st] by (simp add: errors_if_def)
next
  case (3 child children)
  then show ?case by (simp add: walk_objects_Cons errors_if_def del: walk_objects_among.simps)
qed

text \<open>Once the columns are found, only syntax errors are collected outside them.\<close>

lemma walk_outside:
  "fc_columns st = Some c \<Longrightarrow>
    fused_walk source False active node st = grown st (Some c) (errors_if active (walk_for_errors node)) [] []"
  "fc_columns st = Some c \<Longrightarrow>
    fused_children source None False active children st = grown st (Some c) (errors_if active (errors_among children)) [] []"
proof (induction node and children arbitrary: st active and st active
    rule: node_has_error_nodes_have_error.induct)
  case (1 kind named status a b children)
  then show ?case by (simp add: walk_grown walk_for_errors_Node del: walk_for_errors.simps)
next
  case 2
  then show ?case using grown_nothing [of st] by (simp add: errors_if_def)
next
  case (3 child children)
  then show ?case by (simp add: count_named_def errors_if_def)
qed

definition nth_named :: "syntax_node list \<Rightarrow> nat \<Rightarrow> syntax_node option" where
  "nth_named children k = (let named = filter nd_named children in if k < length named then Some (named ! k) else None)"

lemma nth_named_Cons:
  "nth_named (child # children) k =
    (if nd_named child then (case k of 0 \<Rightarrow> Some child | Suc j \<Rightarrow> nth_named children j) else nth_named children k)"
  by (simp add: nth_named_def Let_def split: nat.splits)

lemma walk_value:
  assumes "fc_columns st = Some c"
  shows "fused_children source (Some k) False active children st =
    grown st (Some c) (errors_if active (errors_among children))
      (found_in_option (inspect_column_type source) (nth_named children k))
      (found_in_option (inspect_complex_type source) (nth_named children k))"
  using assms
proof (induction children arbitrary: st k active)
  case Nil
  then show ?case using grown_nothing [of st] by (simp add: errors_if_def nth_named_def found_in_option_def)
next
  case (Cons child children)
  show ?case
  proof (cases "nd_named child \<and> k = 0")
    case True
    then show ?thesis using Cons.prems
      by (simp add: walk_inside walk_outside count_named_def nth_named_Cons found_in_option_def errors_if_def)
  next
    case False
    then show ?thesis using Cons.prems Cons.IH
      by (cases k) (simp_all add: walk_outside count_named_def nth_named_Cons errors_if_def)
  qed
qed

definition columns_value_of :: "string \<Rightarrow> syntax_node \<Rightarrow> syntax_node option" where
  "columns_value_of source node = (if typed_key source ''columns'' node then named_child node 1 else None)"

definition columns_from :: "string \<Rightarrow> syntax_node \<Rightarrow> syntax_node option" where
  "columns_from source node = or_else (columns_value_of source node) (typed_value source ''columns'' node)"

lemma columns_among_Cons:
  "typed_value_among source ''columns'' (child # children) =
    or_else (columns_from source child) (typed_value_among source ''columns'' children)"
  by (simp add: columns_from_def columns_value_of_def or_else_def split: option.splits)

lemma named_child_nth: "named_child (Node kind named status a b children) k = nth_named children k"
  by (simp add: named_child_def nth_named_def)

lemma or_else_None [simp]: "or_else None b = b" "or_else (Some x) b = Some x"
  by (simp_all add: or_else_def)

lemma found_in_option_simps [simp]: "found_in_option visit None = []" "found_in_option visit (Some v) = found_in visit v"
  by (simp_all add: found_in_option_def)

text \<open>Until they are found, the walk looks for them.\<close>

lemma walk_searching:
  "fc_columns st = None \<Longrightarrow>
    fused_walk source False active node st =
      grown st (columns_from source node) (errors_if active (walk_for_errors node))
        (found_in_option (inspect_column_type source) (columns_from source node))
        (found_in_option (inspect_complex_type source) (columns_from source node))"
  "fc_columns st = None \<Longrightarrow>
    fused_children source None False active children st =
      grown st (typed_value_among source ''columns'' children) (errors_if active (errors_among children))
        (found_in_option (inspect_column_type source) (typed_value_among source ''columns'' children))
        (found_in_option (inspect_complex_type source) (typed_value_among source ''columns'' children))"
proof (induction node and children arbitrary: st active and st active
    rule: node_has_error_nodes_have_error.induct)
  case (1 kind named status a b children)
  let ?node = "Node kind named status a b children"
  show ?case
  proof (cases "columns_value_of source ?node")
    case None
    then have "first_columns_value source ?node s = (None, s)" if "fc_columns s = None" for s
      using that by (auto simp: first_columns_value_def columns_value_of_def split: if_splits)
    then show ?thesis
      using 1 None by (simp add: inspect_syntax_grown inspect_types_grown columns_from_def walk_for_errors_Node
          del: walk_for_errors.simps)
  next
    case (Some v)
    then have "first_columns_value source ?node s = (Some 1, grown s (Some v) [] [] [])" if "fc_columns s = None" for s
      using that by (auto simp: first_columns_value_def columns_value_of_def set_columns_grown split: if_splits)
    moreover have "nth_named children 1 = Some v"
      using Some by (simp add: columns_value_of_def named_child_nth split: if_splits)
    ultimately show ?thesis
      using 1 Some by (simp add: inspect_syntax_grown inspect_types_grown columns_from_def walk_for_errors_Node walk_value
          del: walk_for_errors.simps One_nat_def)
  qed
next
  case 2
  then show ?case using grown_nothing [of st] by (simp add: errors_if_def)
next
  case (3 child children)
  show ?case
  proof (cases "columns_from source child")
    case None
    then show ?thesis using 3 by (simp add: count_named_def columns_among_Cons errors_if_def del: typed_value_among.simps)
  next
    case (Some v)
    then show ?thesis using 3
      by (simp add: count_named_def columns_among_Cons errors_if_def walk_outside del: typed_value_among.simps)
  qed
qed

lemma collect_all_columns:
  "collect_all tree source =
    collect_syntax_errors tree @ found_in_option (inspect_column_type source) (columns_from source tree) @
    found_in_option (inspect_complex_type source) (columns_from source tree) @
    (case columns_from source tree of None \<Rightarrow> [] | Some v \<Rightarrow> inspect_column_names source (direct_column_objects v))"
  by (simp add: collect_all_def walk_searching) (simp add: grown_def collect_syntax_errors_def errors_if_def)

lemma collect_all_separately:
  assumes "\<not> is_pair_node tree"
    and "\<forall>v. typed_value source ''columns'' tree = Some v \<longrightarrow> \<not> is_mapping_node v"
  shows "collect_all tree source = collect_separately tree source"
proof -
  have "columns_from source tree = typed_value source ''columns'' tree"
    using assms(1) by (simp add: columns_from_def columns_value_of_def typed_key_def pair_has_key_def)
  then show ?thesis
    using assms(2) by (auto simp: collect_all_columns collect_separately_def collect_unknown_column_types_def
        collect_complex_type_violations_def collect_duplicate_column_names_def found_in_option_def found_in_def own_def
        split: option.splits)
qed

text \<open>
  In block style the items of a YAML sequence are wrapped, and an item that is a mapping is passed over, so
  an enum of named integers written this way has no values.
\<close>

lemma block_style_enum_has_no_values:
  assumes "\<forall>child \<in> set (nd_children array). unwrap_yaml_node child = child \<and> nd_kind child = ''block_sequence_item'' \<and>
    (\<forall>inner \<in> set (nd_children child). \<not> is_scalar_kind (nd_kind (unwrap_yaml_node inner)))"
  shows "collect_enum_value_descriptors array source = []"
  using assms by (auto simp: collect_enum_value_descriptors_def element_descriptors_def is_scalar_kind_def
      is_outer_mapping_kind_def Let_def)

section \<open>The cache of the diagnostics\<close>

text \<open>A tree belongs to a text and a format, so the key leaves it out.\<close>

interpretation diagnostics: transparent_cache
  "\<lambda>(text, format). compute_shared readers hash_text text format (parse_text text format)"
  "\<lambda>(text, format). compute_uncached readers text format (parse_text text format)"
  "\<lambda>i. i \<in> inputs"
  "ring_current 128 (\<lambda>(text, format). (hash_text text, length text, format))
     (\<lambda>(text, format). compute_uncached readers text format (parse_text text format)) inputs"
  for readers hash_text parse_text inputs
proof
  fix i cache
  let ?key = "\<lambda>(text, format). (hash_text text, length text, format)"
  let ?f = "\<lambda>(text, format). compute_uncached readers text format (parse_text text format)"
  assume *: "i \<in> inputs" "ring_current 128 ?key ?f inputs cache"
  obtain source format where i: "i = (source, format)" by (cases i)
  note current = get_or_compute_current [OF *, unfolded i prod.case]
  show "fst ((\<lambda>(text, format). compute_shared readers hash_text text format (parse_text text format)) i cache) = ?f i"
    "ring_current 128 ?key ?f inputs
      (snd ((\<lambda>(text, format). compute_shared readers hash_text text format (parse_text text format)) i cache))"
    using current by (simp_all add: i compute_shared_def)
qed

section \<open>Errors of a workspace\<close>

lemma dedicated_TableValidation: "\<not> is_dedicated_check_violation (TableValidation m)"
  by (simp add: is_dedicated_check_violation_def)

lemma validate_enum_value_plain: "validate_enum_value v n vs t c w = Inl e \<Longrightarrow> \<not> is_dedicated_check_violation e"
  by (auto simp: validate_enum_value_def is_dedicated_check_violation_def split: option.splits if_splits)

lemma validate_enum_variants_plain: "validate_enum_variants t c n vs = Inl e \<Longrightarrow> \<not> is_dedicated_check_violation e"
  by (cases vs) (auto simp: validate_enum_variants_def is_dedicated_check_violation_def split: option.splits)

lemma validate_column_plain: "validate_column c t = Inl e \<Longrightarrow> \<not> is_dedicated_check_violation e"
  unfolding validate_column_def
  by (auto dest: validate_enum_value_plain validate_enum_variants_plain simp: dedicated_TableValidation
      split: column_type.splits complex_column_type.splits option.splits if_splits sum.splits)

lemma validate_constraint_plain:
  "validate_constraint k t cs m = Inl e \<Longrightarrow> \<not> is_dedicated_check_violation e"
  by (cases k) (auto simp: validate_named_constraint_columns_def validate_foreign_key_constraint_def
      is_dedicated_check_violation_def Let_def split: option.splits if_splits)

lemma primary_key_checks_plain:
  "check_has_primary_key t = Inl e \<Longrightarrow> \<not> is_dedicated_check_violation e"
  "check_pk_not_null t = Inl e \<Longrightarrow> \<not> is_dedicated_check_violation e"
  "check_pk_auto_increment t = Inl e \<Longrightarrow> \<not> is_dedicated_check_violation e"
  "check_inline_auto_increment t = Inl e \<Longrightarrow> \<not> is_dedicated_check_violation e"
  by (auto simp: check_has_primary_key_def check_pk_not_null_def check_pk_auto_increment_def check_inline_auto_increment_def
      auto_increment_error_def is_dedicated_check_violation_def Let_def
      dest!: for_each_Inl split: option.splits if_splits table_constraint.splits bool.splits)

lemma parts_plain:
  "for_each (\<lambda>column. validate_column column n) cs = Inl e \<Longrightarrow> \<not> is_dedicated_check_violation e"
  "for_each (\<lambda>constraint. validate_constraint constraint n ns m) ks = Inl e \<Longrightarrow> \<not> is_dedicated_check_violation e"
  by (auto dest!: for_each_Inl dest: validate_column_plain validate_constraint_plain)

lemma validate_table_plain: "validate_table t m = Inl e \<Longrightarrow> \<not> is_dedicated_check_violation e"
  unfolding validate_table_def
  by (auto simp del: for_each.simps dest!: for_each_Inl dest: primary_key_checks_plain [OF sym]
      parts_plain [OF sym])

lemma validate_default_plain: "validate_default_vs_check t = Inl e \<Longrightarrow> \<not> is_dedicated_check_violation e"
  by (auto simp: validate_default_vs_check_def default_against_def is_dedicated_check_violation_def
      dest!: for_each_Inl split: option.splits if_splits table_constraint.splits)

lemma err_of_Some: "err_of r = Some e \<longleftrightarrow> r = Inl e"
  by (cases r) (simp_all add: err_of_def)

text \<open>A violation that the general pass leaves to the dedicated ones is one they find.\<close>

lemma dedicated_violation:
  assumes "v \<in> set (find_schema_violations schema)" and "is_dedicated_check_violation v"
  shows "\<exists>t \<in> set schema. find_between_boundary_reversals t \<noteq> [] \<or> find_self_contradictions t \<noteq> []"
proof -
  have "v \<notin> DuplicateTableName ` set ns" for ns using assms(2) by (auto simp: is_dedicated_check_violation_def)
  then obtain t where t: "t \<in> set schema" "validate_table_entry t (table_columns_map schema) = Inl v"
    using assms(1) by (auto simp: find_schema_violations_def Let_def set_map_filter err_of_Some)
  have "for_each (\<lambda>step. step) [validate_table t (table_columns_map schema), validate_default_vs_check t,
      validate_between_boundary_order t, validate_self_contradiction t] = Inl v"
    using t(2) assms(2) by (auto simp: validate_table_entry_def dedicated_TableValidation simp del: for_each.simps split: sum.splits)
  then have "validate_between_boundary_order t = Inl v \<or> validate_self_contradiction t = Inl v"
    using assms(2) by (auto simp del: for_each.simps dest!: for_each_Inl
        dest: validate_table_plain [OF sym] validate_default_plain [OF sym])
  then show ?thesis
    using t(1) by (auto simp: validate_between_boundary_order_def validate_self_contradiction_def first_error_def
        split: list.splits intro!: bexI [of _ t])
qed

lemma dedicated_not_ok:
  assumes "t \<in> set schema" and "find_between_boundary_reversals t \<noteq> [] \<or> find_self_contradictions t \<noteq> []"
  shows "\<not> schema_ok schema"
  using assms by (auto simp: schema_ok_def table_ok_def checks_ok_iff validate_between_boundary_order_def
      validate_self_contradiction_def first_error_Inr)

definition has_error :: "domain_diagnostic list \<Rightarrow> bool" where
  "has_error ds \<longleftrightarrow> (\<exists>d \<in> set ds. dd_severity d = SevError)"

lemma has_error_append [simp]: "has_error (xs @ ys) \<longleftrightarrow> has_error xs \<or> has_error ys" "\<not> has_error []"
  by (auto simp: has_error_def)

lemma has_error_map [simp]:
  "has_error (map (\<lambda>x. error_at (f x) (g x) code) xs) \<longleftrightarrow> xs \<noteq> []"
  "\<not> has_error (map (\<lambda>x. warning_at (f x) (g x) code) xs)"
  by (cases xs; simp add: has_error_def error_at_def) (simp add: has_error_def warning_at_def)

lemma diagnose_checks_error:
  "has_error (diagnose_checks t tree source) \<longleftrightarrow>
    find_between_boundary_reversals t \<noteq> [] \<or> find_self_contradictions t \<noteq> []"
  unfolding diagnose_checks_def diagnose_fk_supporting_indexes_def diagnose_sequence_exhaustion_def
    diagnose_check_type_mismatches_def diagnose_check_between_order_def diagnose_check_self_contradiction_def Let_def
  by simp

lemma diagnose_workspace_error:
  "has_error (diagnose_workspace ws uri) \<longleftrightarrow>
    (\<exists>v \<in> set (find_schema_violations (map wt_table ws)). emit_violation ws uri v \<noteq> [])"
proof -
  have "has_error (emit_violation ws uri v) \<longleftrightarrow> emit_violation ws uri v \<noteq> []" for v
    by (auto simp: has_error_def emit_violation_def emit_workspace_location_violation_def push_validate_error_def error_at_def
        split: option.splits)
  then show ?thesis by (auto simp: diagnose_workspace_def has_error_def)
qed

lemma violation_shown:
  assumes "\<not> is_dedicated_check_violation v" and "ws \<noteq> []"
  shows "\<exists>e \<in> set ws. emit_violation ws (wt_uri e) v \<noteq> []"
proof (cases "\<exists>location target. error_location_of v = Some location \<and>
    find (\<lambda>entry. tbl_name (wt_table entry) = el_table location) ws = Some target")
  case True
  then obtain location target where "error_location_of v = Some location"
    "find (\<lambda>entry. tbl_name (wt_table entry) = el_table location) ws = Some target" by blast
  moreover from this have "target \<in> set ws" by (auto simp: find_Some_iff)
  ultimately show ?thesis
    using assms(1) by (auto simp: emit_violation_def emit_workspace_location_violation_def intro!: bexI [of _ target])
next
  case False
  then have "emit_violation ws uri v \<noteq> []" for uri
    using assms(1) by (auto simp: emit_violation_def emit_workspace_location_violation_def split: option.splits)
  then show ?thesis using assms(2) hd_in_set by blast
qed

definition clean_entry :: "model_readers \<Rightarrow> (workspace_table \<Rightarrow> document_format) \<Rightarrow> workspace_table \<Rightarrow> bool" where
  "clean_entry readers format_of e \<longleftrightarrow>
     collect_parse_diagnostics readers (wt_source e) (format_of e) (wt_tree e) = ([], Some (wt_table e))"

definition shown_in ::
  "model_readers \<Rightarrow> (workspace_table \<Rightarrow> document_format) \<Rightarrow> workspace_table list \<Rightarrow> workspace_table \<Rightarrow> domain_diagnostic list" where
  "shown_in readers format_of ws e =
     compute_workspace readers (wt_source e) (format_of e) (wt_tree e) ws (wt_uri e)"

lemma shown_in_error:
  assumes "clean_entry readers format_of e"
  shows "has_error (shown_in readers format_of ws e) \<longleftrightarrow>
    has_error (diagnose_workspace ws (wt_uri e)) \<or> has_error (diagnose_checks (wt_table e) (wt_tree e) (wt_source e))"
proof -
  have "\<not> has_error (check_filename_table_name_mismatch source uri tree name)" for source uri tree name
    by (auto simp: check_filename_table_name_mismatch_def has_error_def warning_at_def split: option.splits)
  then show ?thesis
    using assms by (auto simp: shown_in_def compute_workspace_def clean_entry_def split: option.splits)
qed

lemma workspace_error_iff:
  assumes "\<forall>e \<in> set ws. clean_entry readers format_of e"
  shows "(\<exists>e \<in> set ws. has_error (shown_in readers format_of ws e)) \<longleftrightarrow> \<not> schema_ok (map wt_table ws)"
proof
  assume "\<exists>e \<in> set ws. has_error (shown_in readers format_of ws e)"
  then obtain e where e: "e \<in> set ws" and found: "has_error (diagnose_workspace ws (wt_uri e)) \<or>
      has_error (diagnose_checks (wt_table e) (wt_tree e) (wt_source e))"
    using assms shown_in_error by blast
  from found show "\<not> schema_ok (map wt_table ws)"
  proof
    assume "has_error (diagnose_workspace ws (wt_uri e))"
    then show ?thesis by (auto simp: diagnose_workspace_error find_schema_violations_Nil [symmetric])
  next
    assume "has_error (diagnose_checks (wt_table e) (wt_tree e) (wt_source e))"
    then show ?thesis using e dedicated_not_ok [of "wt_table e" "map wt_table ws"] by (simp add: diagnose_checks_error)
  qed
next
  assume "\<not> schema_ok (map wt_table ws)"
  then obtain v where v: "v \<in> set (find_schema_violations (map wt_table ws))"
    by (metis find_schema_violations_Nil list.set_intros(1) neq_Nil_conv)
  show "\<exists>e \<in> set ws. has_error (shown_in readers format_of ws e)"
  proof (cases "is_dedicated_check_violation v")
    case True
    then obtain e where "e \<in> set ws" "has_error (diagnose_checks (wt_table e) (wt_tree e) (wt_source e))"
      using dedicated_violation [OF v] by (auto simp: diagnose_checks_error)
    then show ?thesis using assms shown_in_error by blast
  next
    case False
    have "ws \<noteq> []" using v by (auto simp: find_schema_violations_def map_filter_simps)
    then obtain e where "e \<in> set ws" "emit_violation ws (wt_uri e) v \<noteq> []"
      using violation_shown [OF False] by blast
    moreover from this have "has_error (diagnose_workspace ws (wt_uri e))"
      using v by (auto simp: diagnose_workspace_error)
    ultimately show ?thesis using assms shown_in_error by blast
  qed
qed

section \<open>The workspace holds a file once\<close>

lemma disk_tables_once:
  "\<exists>paths. length paths = length (add_disk_tables parse_uri np seen disk) \<and> distinct (map np paths) \<and>
    np ` set paths \<inter> seen = {} \<and>
    (\<forall>(entry, path) \<in> set (zip (add_disk_tables parse_uri np seen disk) paths).
       \<exists>name. (name, wt_table entry, Some path) \<in> set disk)"
proof (induction disk arbitrary: seen)
  case (Cons d disk)
  obtain name table path where d: "d = (name, table, path)" by (cases d)
  show ?case
  proof (cases "\<exists>p. path = Some p \<and> np p \<notin> seen")
    case True
    then obtain p where p: "path = Some p" "np p \<notin> seen" by blast
    obtain paths where "length paths = length (add_disk_tables parse_uri np (insert (np p) seen) disk)"
      "distinct (map np paths)" "np ` set paths \<inter> insert (np p) seen = {}"
      "\<forall>(entry, path) \<in> set (zip (add_disk_tables parse_uri np (insert (np p) seen) disk) paths).
         \<exists>name. (name, wt_table entry, Some path) \<in> set disk"
      using Cons [of "insert (np p) seen"] by blast
    then show ?thesis
      using p by (intro exI [of _ "p # paths"]) (auto simp: d disk_workspace_table_def)
  next
    case False
    then have "add_disk_tables parse_uri np seen (d # disk) = add_disk_tables parse_uri np seen disk"
      by (auto simp: d split: option.splits)
    then show ?thesis using Cons [of seen] by fastforce
  qed
qed simp

end
