(* ===== verification/Lsp_Drift.thy ===== *)
theory Lsp_Drift
  imports Lsp_Diagnostics Project_Files
begin

text \<open>
  Drift between the model files and the applied migrations (\<open>crates/vespertide-lsp/src/drift\<close>): what is
  reported for each action of the difference, where, and the two caches in front of it.  The file system is
  external: what a call would read from it is the record \<open>drift_input\<close>.  The fingerprint of the open
  documents has a cache of its own (\<open>cache.rs\<close>).
\<close>

section \<open>The fingerprint of the open documents\<close>

record fingerprint_entry =
  fpe_uri :: string
  fpe_version :: int
  fpe_text_len :: nat

record 'f cached_fingerprint =
  cfp_docs_addr :: nat
  cfp_len :: nat
  cfp_entries :: "fingerprint_entry list"
  cfp_fingerprint :: 'f

definition entry_unchanged :: "'tree document_store \<Rightarrow> fingerprint_entry \<Rightarrow> bool" where
  "entry_unchanged docs entry \<longleftrightarrow>
     (case om_lookup docs (fpe_uri entry) of
        None \<Rightarrow> False
      | Some state \<Rightarrow> ds_version state = fpe_version entry \<and> length (ds_text state) = fpe_text_len entry)"

definition cached_docstore_fingerprint ::
  "nat \<Rightarrow> 'tree document_store \<Rightarrow> 'f cached_fingerprint option \<Rightarrow> 'f option" where
  "cached_docstore_fingerprint docs_addr docs cache =
     (case cache of
        None \<Rightarrow> None
      | Some cached \<Rightarrow>
          if cfp_docs_addr cached \<noteq> docs_addr \<or> cfp_len cached \<noteq> length docs then None
          else if list_all (entry_unchanged docs) (cfp_entries cached) then Some (cfp_fingerprint cached)
          else None)"

text \<open>The documents come in the order of their URIs; the digest of their URIs and texts is external.\<close>

definition compute_docstore_fingerprint ::
  "((string \<times> string) list \<Rightarrow> 'f) \<Rightarrow> 'tree document_store \<Rightarrow> 'f \<times> fingerprint_entry list" where
  "compute_docstore_fingerprint digest docs =
     (digest (map (\<lambda>(uri, state). (uri, ds_text state)) docs),
      map (\<lambda>(uri, state). \<lparr>fpe_uri = uri, fpe_version = ds_version state, fpe_text_len = length (ds_text state)\<rparr>) docs)"

definition docstore_fingerprint ::
  "((string \<times> string) list \<Rightarrow> 'f) \<Rightarrow> nat \<Rightarrow> 'tree document_store \<Rightarrow> 'f cached_fingerprint option \<Rightarrow>
     'f \<times> 'f cached_fingerprint option" where
  "docstore_fingerprint digest docs_addr docs cache =
     (case cached_docstore_fingerprint docs_addr docs cache of
        Some fingerprint \<Rightarrow> (fingerprint, cache)
      | None \<Rightarrow>
          (let (fingerprint, entries) = compute_docstore_fingerprint digest docs
           in (fingerprint, Some \<lparr>cfp_docs_addr = docs_addr, cfp_len = length entries, cfp_entries = entries,
                 cfp_fingerprint = fingerprint\<rparr>)))"

section \<open>What is reported\<close>

datatype drift_kind =
    DriftCreateTable
  | DriftDeleteTable
  | DriftRenameTable string string
  | DriftAddColumn string
  | DriftDeleteColumn string
  | DriftRenameColumn string string
  | DriftModifyColumnType string string string
  | DriftModifyColumnNullable string bool bool
  | DriftModifyColumnDefault string "string option" "string option"
  | DriftModifyColumnComment string "string option" "string option"
  | DriftAddConstraint "string option"
  | DriftRemoveConstraint "string option"
  | DriftReplaceConstraint "string option"
  | DriftRawSql

fun drift_code :: "drift_kind \<Rightarrow> string" where
  "drift_code DriftCreateTable = ''drift-create-table''"
| "drift_code DriftDeleteTable = ''drift-delete-table''"
| "drift_code (DriftRenameTable _ _) = ''drift-rename-table''"
| "drift_code (DriftAddColumn _) = ''drift-add-column''"
| "drift_code (DriftDeleteColumn _) = ''drift-delete-column''"
| "drift_code (DriftRenameColumn _ _) = ''drift-rename-column''"
| "drift_code (DriftModifyColumnType _ _ _) = ''drift-modify-type''"
| "drift_code (DriftModifyColumnNullable _ _ _) = ''drift-modify-nullable''"
| "drift_code (DriftModifyColumnDefault _ _ _) = ''drift-modify-default''"
| "drift_code (DriftModifyColumnComment _ _ _) = ''drift-modify-comment''"
| "drift_code (DriftAddConstraint _) = ''drift-add-constraint''"
| "drift_code (DriftRemoveConstraint _) = ''drift-remove-constraint''"
| "drift_code (DriftReplaceConstraint _) = ''drift-replace-constraint''"
| "drift_code DriftRawSql = ''drift-raw-sql''"

record domain_drift =
  drift_uri :: string
  drift_kind :: drift_kind
  drift_range :: "byte_range option"
  drift_message :: string

definition into_domain_diagnostic :: "domain_drift \<Rightarrow> domain_diagnostic option" where
  "into_domain_diagnostic d =
     map_option (\<lambda>rg. \<lparr>dd_byte_range = rg, dd_severity = SevInformation, dd_message = drift_message d,
       dd_code = drift_code (drift_kind d)\<rparr>) (drift_range d)"

type_synonym drift_record = "drift_kind \<times> byte_range option \<times> string"

definition arrow :: string where
  "arrow = [CHR 0xE2, CHR 0x86, CHR 0x92]"

definition lookup_baseline_column :: "table_def list \<Rightarrow> string \<Rightarrow> string \<Rightarrow> column_def option" where
  "lookup_baseline_column baseline table_name column_name =
     (case find (\<lambda>t. tbl_name t = table_name) baseline of
        None \<Rightarrow> None | Some table \<Rightarrow> find (\<lambda>c. col_name c = column_name) (tbl_columns table))"

text \<open>\<open>render_default\<close> and \<open>render_comment\<close> have one body.\<close>

definition render_optional :: "string option \<Rightarrow> string" where
  "render_optional d = (case d of Some v \<Rightarrow> [CHR 0x22] @ v @ [CHR 0x22] | None \<Rightarrow> ''<none>'')"

definition render_nullable :: "bool \<Rightarrow> string" where
  "render_nullable n = (if n then ''nullable'' else ''not null'')"

definition constraint_label_name :: "table_constraint \<Rightarrow> string option" where
  "constraint_label_name constraint =
     (case constraint of
        Unique name _ _ \<Rightarrow> name
      | ForeignKey name _ _ _ _ _ _ \<Rightarrow> name
      | Index name _ \<Rightarrow> name
      | Check name _ _ \<Rightarrow> Some name
      | _ \<Rightarrow> None)"

definition locate_table_name :: "syntax_node option \<Rightarrow> string \<Rightarrow> byte_range option" where
  "locate_table_name tree source = map_option (\<lambda>top_node. unwrap_or (0, 1) (locate_top_name (Some top_node) source)) tree"

definition locate_column_range :: "syntax_node option \<Rightarrow> string \<Rightarrow> string \<Rightarrow> byte_range option" where
  "locate_column_range tree source column = map_option (\<lambda>top_node. locate_column (Some top_node) source column) tree"

definition locate_column_field_range :: "syntax_node option \<Rightarrow> string \<Rightarrow> string \<Rightarrow> error_field \<Rightarrow> byte_range option" where
  "locate_column_field_range tree source column field =
     map_option (\<lambda>top_node. locate_column_field (Some top_node) source column field) tree"

definition locate_constraint_range :: "syntax_node option \<Rightarrow> string \<Rightarrow> string option \<Rightarrow> byte_range option" where
  "locate_constraint_range tree source name =
     map_option (\<lambda>top_node. unwrap_or (0, 1)
       (or_else (map_option (locate_constraint (Some top_node) source) name) (locate_top_name (Some top_node) source))) tree"

definition modify_column_type_drift ::
  "table_def list \<Rightarrow> string \<Rightarrow> string \<Rightarrow> column_type \<Rightarrow> string \<Rightarrow> syntax_node option \<Rightarrow> drift_record" where
  "modify_column_type_drift baseline table column new_type source tree =
     (let before = (case lookup_baseline_column baseline table column of
            None \<Rightarrow> ''<unknown>'' | Some c \<Rightarrow> display_label (col_type c));
          after = display_label new_type
      in (DriftModifyColumnType column before after, locate_column_field_range tree source column FieldType,
          ''Type drift on '' @ quoted column @ '': applied '' @ before @ '' '' @ arrow @ '' model '' @ after))"

definition modify_column_nullable_drift ::
  "table_def list \<Rightarrow> string \<Rightarrow> string \<Rightarrow> bool \<Rightarrow> string \<Rightarrow> syntax_node option \<Rightarrow> drift_record" where
  "modify_column_nullable_drift baseline table column nullable source tree =
     (let before = (case lookup_baseline_column baseline table column of None \<Rightarrow> \<not> nullable | Some c \<Rightarrow> col_nullable c)
      in (DriftModifyColumnNullable column before nullable, locate_column_field_range tree source column FieldNullable,
          ''Nullable drift on '' @ quoted column @ '': applied '' @ render_nullable before @ '' '' @ arrow @
          '' model '' @ render_nullable nullable))"

definition modify_column_default_drift ::
  "table_def list \<Rightarrow> string \<Rightarrow> string \<Rightarrow> string option \<Rightarrow> string \<Rightarrow> syntax_node option \<Rightarrow> drift_record" where
  "modify_column_default_drift baseline table column after source tree =
     (let before = (case lookup_baseline_column baseline table column of
            None \<Rightarrow> None | Some c \<Rightarrow> map_option to_sql (col_default c))
      in (DriftModifyColumnDefault column before after, locate_column_field_range tree source column FieldDefault,
          ''Default drift on '' @ quoted column @ '': applied '' @ render_optional before @ '' '' @ arrow @
          '' model '' @ render_optional after))"

definition modify_column_comment_drift ::
  "table_def list \<Rightarrow> string \<Rightarrow> string \<Rightarrow> string option \<Rightarrow> string \<Rightarrow> syntax_node option \<Rightarrow> drift_record" where
  "modify_column_comment_drift baseline table column after source tree =
     (let before = (case lookup_baseline_column baseline table column of None \<Rightarrow> None | Some c \<Rightarrow> col_comment c)
      in (DriftModifyColumnComment column before after, locate_column_field_range tree source column FieldComment,
          ''Comment drift on '' @ quoted column @ '': applied '' @ render_optional before @ '' '' @ arrow @
          '' model '' @ render_optional after))"

definition add_constraint_drift :: "table_constraint \<Rightarrow> string \<Rightarrow> syntax_node option \<Rightarrow> drift_record" where
  "add_constraint_drift constraint source tree =
     (let name = constraint_label_name constraint
      in (DriftAddConstraint name, locate_constraint_range tree source name,
          ''Constraint added in model: '' @ unwrap_or ''<unnamed>'' name))"

definition remove_constraint_drift :: "table_constraint \<Rightarrow> string \<Rightarrow> syntax_node option \<Rightarrow> drift_record" where
  "remove_constraint_drift constraint source tree =
     (let name = constraint_label_name constraint
      in (DriftRemoveConstraint name, locate_constraint_range tree source name,
          ''Constraint in applied migrations missing from model: '' @ unwrap_or ''<unnamed>'' name))"

definition replace_constraint_drift :: "table_constraint \<Rightarrow> table_constraint \<Rightarrow> string \<Rightarrow> syntax_node option \<Rightarrow> drift_record" where
  "replace_constraint_drift from to source tree =
     (let name = constraint_label_name to
      in (DriftReplaceConstraint name, locate_constraint_range tree source name,
          ''Constraint replaced: '' @ unwrap_or ''<unnamed>'' (constraint_label_name from) @ '' '' @ arrow @ '' '' @
          unwrap_or ''<unnamed>'' name))"

fun action_to_drift ::
  "migration_action \<Rightarrow> table_def list \<Rightarrow> string \<Rightarrow> syntax_node option \<Rightarrow> drift_record option" where
  "action_to_drift (CreateTable table _ _) baseline source tree =
     Some (DriftCreateTable, locate_table_name tree source,
       ''Table '' @ quoted table @ '' is in the model but not in any applied migration'')"
| "action_to_drift (DeleteTable table) baseline source tree =
     Some (DriftDeleteTable, locate_table_name tree source,
       ''Table '' @ quoted table @ '' is in applied migrations but missing from the model'')"
| "action_to_drift (RenameTable old new) baseline source tree =
     Some (DriftRenameTable old new, locate_table_name tree source,
       ''Table rename drift: applied '' @ quoted old @ '' '' @ arrow @ '' model '' @ quoted new)"
| "action_to_drift (AddColumn _ column _) baseline source tree =
     Some (DriftAddColumn (col_name column), locate_column_range tree source (col_name column),
       ''Column '' @ quoted (col_name column) @ '' is in the model but not in any applied migration'')"
| "action_to_drift (DeleteColumn _ column) baseline source tree =
     Some (DriftDeleteColumn column, locate_table_name tree source,
       ''Column '' @ quoted column @ '' is in applied migrations but missing from the model'')"
| "action_to_drift (RenameColumn _ old new) baseline source tree =
     Some (DriftRenameColumn old new, locate_column_range tree source new,
       ''Column rename drift: applied '' @ quoted old @ '' '' @ arrow @ '' model '' @ quoted new)"
| "action_to_drift (ModifyColumnType table column new_type _ _ _) baseline source tree =
     Some (modify_column_type_drift baseline table column new_type source tree)"
| "action_to_drift (ModifyColumnNullable table column nullable _ _) baseline source tree =
     Some (modify_column_nullable_drift baseline table column nullable source tree)"
| "action_to_drift (ModifyColumnDefault table column new_default _) baseline source tree =
     Some (modify_column_default_drift baseline table column new_default source tree)"
| "action_to_drift (ModifyColumnComment table column new_comment) baseline source tree =
     Some (modify_column_comment_drift baseline table column new_comment source tree)"
| "action_to_drift (AddConstraint _ constraint) baseline source tree = Some (add_constraint_drift constraint source tree)"
| "action_to_drift (RemoveConstraint _ constraint) baseline source tree = Some (remove_constraint_drift constraint source tree)"
| "action_to_drift (ReplaceConstraint _ old new) baseline source tree = Some (replace_constraint_drift old new source tree)"
| "action_to_drift (RawSql _) baseline source tree =
     Some (DriftRawSql, None, ''Raw SQL drift '' @ em_dash @ '' typed introspection unavailable'')"
| "action_to_drift (RemapEnumValues _ _ _) baseline source tree = None"
| "action_to_drift (DataMigration _ _) baseline source tree = None"

section \<open>What a call reads\<close>

text \<open>
  \<open>find_config_and_mtime\<close> looks at a directory and its parents; \<open>stat\<close> is the metadata of a path: whether
  it is a file, and its modification time unless that cannot be read.
\<close>

fun find_config_and_mtime :: "(string \<Rightarrow> (bool \<times> 't option) option) \<Rightarrow> string list \<Rightarrow> (string \<times> 't) option" where
  "find_config_and_mtime stat [] = None"
| "find_config_and_mtime stat (dir # parents) =
     (case stat (path_join dir ''vespertide.json'') of
        Some (True, mtime) \<Rightarrow> map_option (\<lambda>m. (dir, m)) mtime
      | _ \<Rightarrow> find_config_and_mtime stat parents)"

record loaded_state =
  ls_current_models :: "table_def list"
  ls_baseline :: "table_def list"
  ls_models_dir :: string

record 't drift_input =
  di_found :: "(string \<times> 't) option"
  di_model_mtime :: 't
  di_migration_mtime :: 't
  di_config :: "vespertide_config option"
  di_models :: "table_def list option"
  di_plans :: "migration_plan list option"
  di_docs :: "syntax_node document_store"
  di_index :: workspace_index
  di_exists :: "string \<Rightarrow> bool"
  di_read :: "string \<Rightarrow> (string \<times> syntax_node option) option"

text \<open>\<open>Path::set_extension\<close> replaces what follows the last dot of the file name, unless that dot comes first.\<close>

definition set_extension :: "string \<Rightarrow> string \<Rightarrow> string" where
  "set_extension ext path =
     (let name = rev (takeWhile (\<lambda>c. c \<noteq> CHR ''/'') (rev path));
          dir = take (length path - length name) path;
          before_dot = rev (drop 1 (dropWhile (\<lambda>c. c \<noteq> CHR ''.'') (rev name)))
      in if before_dot = [] then path @ ''.'' @ ext else dir @ before_dot @ ''.'' @ ext)"

fun guess_uri_among :: "(string \<Rightarrow> bool) \<Rightarrow> (string \<Rightarrow> string option) \<Rightarrow> string list \<Rightarrow> string \<Rightarrow> string option" where
  "guess_uri_among exists parse_uri [] path = None"
| "guess_uri_among exists parse_uri (ext # exts) path =
     (let candidate = set_extension ext path
      in if exists candidate then path_to_uri parse_uri candidate else guess_uri_among exists parse_uri exts candidate)"

definition guess_uri :: "(string \<Rightarrow> bool) \<Rightarrow> (string \<Rightarrow> string option) \<Rightarrow> string \<Rightarrow> string \<Rightarrow> string option" where
  "guess_uri exists parse_uri models_dir table_name =
     guess_uri_among exists parse_uri [''json'', ''yaml'', ''yml''] (path_join models_dir table_name)"

text \<open>\<open>di_read\<close> is the text of a file and its tree; an open document comes first.\<close>

definition source_and_tree :: "'t drift_input \<Rightarrow> string \<Rightarrow> (string \<times> syntax_node option) option" where
  "source_and_tree inp uri = or_else (store_with_doc (di_docs inp) uri (\<lambda>source tree. (source, tree))) (di_read inp uri)"

definition load_state :: "string \<Rightarrow> 't drift_input \<Rightarrow> loaded_state option" where
  "load_state project_root inp =
     (case di_config inp of None \<Rightarrow> None | Some config \<Rightarrow>
     (case di_models inp of None \<Rightarrow> None | Some current_models \<Rightarrow>
     (case di_plans inp of None \<Rightarrow> None | Some plans \<Rightarrow>
     (case schema_from_plans plans of
        Inl e \<Rightarrow> None
      | Inr baseline \<Rightarrow> Some \<lparr>ls_current_models = current_models, ls_baseline = baseline,
          ls_models_dir = path_join project_root (cfg_models_dir config)\<rparr>))))"

definition drift_of_action ::
  "(string \<Rightarrow> string option) \<Rightarrow> 't drift_input \<Rightarrow> loaded_state \<Rightarrow> migration_action \<Rightarrow> domain_drift option" where
  "drift_of_action parse_uri inp loaded action =
     (case action_table_name action of None \<Rightarrow> None | Some table_name \<Rightarrow>
     (case or_else (index_lookup (di_index inp) table_name)
             (guess_uri (di_exists inp) parse_uri (ls_models_dir loaded) table_name) of None \<Rightarrow> None | Some uri \<Rightarrow>
     (case source_and_tree inp uri of None \<Rightarrow> None | Some (source, tree) \<Rightarrow>
     (case action_to_drift action (ls_baseline loaded) source tree of None \<Rightarrow> None | Some (kind, rg, message) \<Rightarrow>
        Some \<lparr>drift_uri = uri, drift_kind = kind, drift_range = rg, drift_message = message\<rparr>))))"

text \<open>The drifts of a loaded state; \<open>None\<close> when there is no difference to report because computing it fails.\<close>

definition drifts_of ::
  "(string \<Rightarrow> string option) \<Rightarrow> nat \<Rightarrow> 't drift_input \<Rightarrow> loaded_state \<Rightarrow> domain_drift list option" where
  "drifts_of parse_uri par_threshold inp loaded =
     (case diff_schemas par_threshold (ls_baseline loaded) (ls_current_models loaded) of
        Inl e \<Rightarrow> None
      | Inr plan \<Rightarrow> Some (List.map_filter (drift_of_action parse_uri inp loaded) (plan_actions plan)))"

section \<open>The caches\<close>

type_synonym 't drift_key = "string \<times> 't \<times> 't \<times> 't"

record ('t, 'f) drift_cache =
  dc_state :: "('t drift_key \<times> loaded_state) option"
  dc_drifts :: "(('t drift_key \<times> 'f) \<times> domain_drift list) option"

definition drift_cache_new :: "('t, 'f) drift_cache" where
  "drift_cache_new = \<lparr>dc_state = None, dc_drifts = None\<rparr>"

definition cached_for :: "'k \<Rightarrow> ('k \<times> 'v) option \<Rightarrow> 'v option" where
  "cached_for key slot = (case slot of None \<Rightarrow> None | Some (k, v) \<Rightarrow> if k = key then Some v else None)"

definition loaded_state_with_cache ::
  "'t drift_key \<Rightarrow> 't drift_input \<Rightarrow> ('t, 'f) drift_cache \<Rightarrow> loaded_state option \<times> ('t, 'f) drift_cache" where
  "loaded_state_with_cache key inp cache =
     (case cached_for key (dc_state cache) of
        Some hit \<Rightarrow> (Some hit, cache)
      | None \<Rightarrow>
          (case load_state (fst key) inp of
             None \<Rightarrow> (None, cache)
           | Some loaded \<Rightarrow> (Some loaded, cache\<lparr>dc_state := Some (key, loaded)\<rparr>)))"

text \<open>\<open>fingerprint\<close> is that of the open documents.\<close>

definition compute_with_cache ::
  "(string \<Rightarrow> string option) \<Rightarrow> nat \<Rightarrow> 'f \<Rightarrow> 't drift_input \<Rightarrow> ('t, 'f) drift_cache \<Rightarrow>
     domain_drift list \<times> ('t, 'f) drift_cache" where
  "compute_with_cache parse_uri par_threshold fingerprint inp cache =
     (case di_found inp of
        None \<Rightarrow> ([], cache)
      | Some (project_root, config_mtime) \<Rightarrow>
          (let key = (project_root, config_mtime, di_model_mtime inp, di_migration_mtime inp)
           in case cached_for (key, fingerprint) (dc_drifts cache) of
                Some drifts \<Rightarrow> (drifts, cache)
              | None \<Rightarrow>
                  (case loaded_state_with_cache key inp cache of
                     (None, cache') \<Rightarrow> ([], cache')
                   | (Some loaded, cache') \<Rightarrow>
                       (case drifts_of parse_uri par_threshold inp loaded of
                          None \<Rightarrow> ([], cache')
                        | Some drifts \<Rightarrow> (drifts, cache'\<lparr>dc_drifts := Some ((key, fingerprint), drifts)\<rparr>)))))"

text \<open>The same without caches.\<close>

definition compute_drifts ::
  "(string \<Rightarrow> string option) \<Rightarrow> nat \<Rightarrow> 't drift_input \<Rightarrow> domain_drift list" where
  "compute_drifts parse_uri par_threshold inp =
     (case di_found inp of
        None \<Rightarrow> []
      | Some (project_root, config_mtime) \<Rightarrow>
          (case load_state project_root inp of
             None \<Rightarrow> []
           | Some loaded \<Rightarrow> (case drifts_of parse_uri par_threshold inp loaded of None \<Rightarrow> [] | Some drifts \<Rightarrow> drifts)))"

end
