(* ===== verification/Lsp_Drift_Laws.thy ===== *)
theory Lsp_Drift_Laws
  imports Lsp_Drift Lsp_Laws
begin

text \<open>
  The caches in front of the drift computation are transparent as long as their keys determine what a call
  reads, and the fingerprint of the open documents is current as long as a version of a document has one
  text.
\<close>

section \<open>The fingerprint\<close>

definition docs_digest :: "((string \<times> string) list \<Rightarrow> 'f) \<Rightarrow> 'tree document_store \<Rightarrow> 'f" where
  "docs_digest digest docs = digest (map (\<lambda>(uri, state). (uri, ds_text state)) docs)"

text \<open>A version of a document has one text, among those of its length.\<close>

definition versions_tell_texts :: "'tree document_store list \<Rightarrow> bool" where
  "versions_tell_texts snapshots \<longleftrightarrow>
     (\<forall>d \<in> set snapshots. \<forall>d' \<in> set snapshots. \<forall>uri s s'. om_lookup d uri = Some s \<longrightarrow> om_lookup d' uri = Some s' \<longrightarrow>
        ds_version s = ds_version s' \<longrightarrow> length (ds_text s) = length (ds_text s') \<longrightarrow> ds_text s = ds_text s')"

definition fingerprint_of_snapshot ::
  "((string \<times> string) list \<Rightarrow> 'f) \<Rightarrow> 'tree document_store list \<Rightarrow> 'f cached_fingerprint option \<Rightarrow> bool" where
  "fingerprint_of_snapshot digest snapshots cache \<longleftrightarrow>
     (\<forall>c. cache = Some c \<longrightarrow> (\<exists>d \<in> set snapshots. cfp_len c = length d \<and>
        (cfp_fingerprint c, cfp_entries c) = compute_docstore_fingerprint digest d))"

lemma same_documents:
  assumes "om_invar d" and "om_invar d'" and "length d = length d'"
    and "\<forall>(uri, s) \<in> set d'. \<exists>t. om_lookup d uri = Some t \<and> ds_text t = ds_text s"
  shows "map (\<lambda>(uri, state). (uri, ds_text state)) d = map (\<lambda>(uri, state). (uri, ds_text state)) d'"
proof -
  have look: "om_lookup d uri = Some t \<longleftrightarrow> (uri, t) \<in> set d" for uri t
    using assms(1) by (simp add: om_lookup_def om_invar_def strict_sorted_iff)
  have "set (om_keys d') \<subseteq> set (om_keys d)" using assms(4) by (force simp: om_keys_def look)
  moreover have "card (set (om_keys d)) = card (set (om_keys d'))"
    using assms(1,2,3) distinct_card [of "om_keys d"] distinct_card [of "om_keys d'"]
    by (simp add: om_invar_def strict_sorted_iff om_keys_def)
  ultimately have "set (om_keys d) = set (om_keys d')" by (metis List.finite_set card_subset_eq)
  then have keys: "om_keys d = om_keys d'"
    using assms(1,2) by (simp add: om_invar_def om_keys_def strict_sorted_equal)
  show ?thesis
  proof (rule nth_equalityI)
    show "length (map (\<lambda>(uri, state). (uri, ds_text state)) d) = length (map (\<lambda>(uri, state). (uri, ds_text state)) d')"
      using assms(3) by simp
    fix i assume "i < length (map (\<lambda>(uri, state). (uri, ds_text state)) d)"
    then have i: "i < length d" "i < length d'" using assms(3) by simp_all
    have key: "fst (d ! i) = fst (d' ! i)" using keys i by (metis nth_map om_keys_def)
    obtain t where t: "om_lookup d (fst (d' ! i)) = Some t" "ds_text t = ds_text (snd (d' ! i))"
      using assms(4) nth_mem [OF i(2)] by (force simp: case_prod_beta)
    moreover have "om_lookup d (fst (d ! i)) = Some (snd (d ! i))" using nth_mem [OF i(1)] by (simp add: look)
    ultimately have "ds_text (snd (d ! i)) = ds_text (snd (d' ! i))" using key by simp
    then show "map (\<lambda>(uri, state). (uri, ds_text state)) d ! i = map (\<lambda>(uri, state). (uri, ds_text state)) d' ! i"
      using key i by (simp add: case_prod_beta)
  qed
qed

lemma fingerprint_current:
  assumes "\<forall>d \<in> set snapshots. om_invar d" and "versions_tell_texts snapshots" and "docs \<in> set snapshots"
    and "fingerprint_of_snapshot digest snapshots cache"
  shows "fst (docstore_fingerprint digest docs_addr docs cache) = docs_digest digest docs \<and>
    fingerprint_of_snapshot digest snapshots (snd (docstore_fingerprint digest docs_addr docs cache))"
proof (cases "cached_docstore_fingerprint docs_addr docs cache")
  case None
  then show ?thesis
    using assms(3) by (auto simp: docstore_fingerprint_def fingerprint_of_snapshot_def compute_docstore_fingerprint_def
        docs_digest_def)
next
  case (Some f)
  then obtain c where c: "cache = Some c" "cfp_len c = length docs" "list_all (entry_unchanged docs) (cfp_entries c)"
    "f = cfp_fingerprint c"
    by (auto simp: cached_docstore_fingerprint_def split: option.splits if_splits)
  then obtain d where d: "d \<in> set snapshots" "cfp_len c = length d"
    "(cfp_fingerprint c, cfp_entries c) = compute_docstore_fingerprint digest d"
    using assms(4) by (auto simp: fingerprint_of_snapshot_def)
  have texts: "\<forall>(uri, s) \<in> set d. \<exists>t. om_lookup docs uri = Some t \<and> ds_text t = ds_text s"
  proof clarify
    fix uri s assume s: "(uri, s) \<in> set d"
    moreover have "om_invar d" using d(1) assms(1) by blast
    ultimately have "om_lookup d uri = Some s" by (simp add: om_lookup_def om_invar_def strict_sorted_iff)
    moreover have "entry_unchanged docs \<lparr>fpe_uri = uri, fpe_version = ds_version s, fpe_text_len = length (ds_text s)\<rparr>"
      using c(3) d(3) s by (force simp: compute_docstore_fingerprint_def list_all_iff)
    then obtain t where "om_lookup docs uri = Some t" "ds_version t = ds_version s"
      "length (ds_text t) = length (ds_text s)"
      by (auto simp: entry_unchanged_def split: option.splits)
    ultimately show "\<exists>t. om_lookup docs uri = Some t \<and> ds_text t = ds_text s"
      using assms(2,3) d(1) unfolding versions_tell_texts_def by metis
  qed
  have "map (\<lambda>(uri, state). (uri, ds_text state)) docs = map (\<lambda>(uri, state). (uri, ds_text state)) d"
    using texts c(2) d(1,2) assms(1,3) by (intro same_documents) auto
  then have "cfp_fingerprint c = docs_digest digest docs" using d(3) by (simp add: compute_docstore_fingerprint_def docs_digest_def)
  then show ?thesis using Some c(4) assms(4) by (simp add: docstore_fingerprint_def)
qed

interpretation fingerprint: transparent_cache "docstore_fingerprint digest docs_addr" "docs_digest digest"
  "\<lambda>docs. docs \<in> set snapshots"
  "\<lambda>cache. (\<forall>d \<in> set snapshots. om_invar d) \<and> versions_tell_texts snapshots \<and> fingerprint_of_snapshot digest snapshots cache"
  for digest docs_addr snapshots
  by unfold_locales (use fingerprint_current in blast)+

text \<open>
  Reopening starts the versions again: a document that is closed and opened with another text of the same
  length, with no call in between, keeps its old fingerprint.
\<close>

lemma reopened_document_keeps_fingerprint:
  assumes "length old = length new"
  shows "cached_calls (docstore_fingerprint digest addr)
    [store_open parse_text uri_path uri 1 old [], store_open parse_text uri_path uri 1 new (store_close uri
       (store_open parse_text uri_path uri 1 old []))] None = [digest [(uri, old)], digest [(uri, old)]]"
  using assms
  by (simp add: store_open_def store_close_def om_delete_def document_new_def docstore_fingerprint_def
      cached_docstore_fingerprint_def compute_docstore_fingerprint_def entry_unchanged_def om_lookup_def Let_def)

section \<open>The caches of the drift computation\<close>

definition key_of :: "'t drift_input \<Rightarrow> 't drift_key option" where
  "key_of inp = map_option (\<lambda>(dir, mtime). (dir, mtime, di_model_mtime inp, di_migration_mtime inp)) (di_found inp)"

text \<open>Equal keys mean equal files, and with equal fingerprints equal reports.\<close>

definition keys_tell_files :: "'t drift_input list \<Rightarrow> bool" where
  "keys_tell_files inps \<longleftrightarrow>
     (\<forall>i \<in> set inps. \<forall>j \<in> set inps. \<forall>k. key_of i = Some k \<longrightarrow> key_of j = Some k \<longrightarrow> load_state (fst k) i = load_state (fst k) j)"

definition keys_tell_reports ::
  "(string \<Rightarrow> string option) \<Rightarrow> nat \<Rightarrow> ('t drift_input \<Rightarrow> 'f) \<Rightarrow> 't drift_input list \<Rightarrow> bool" where
  "keys_tell_reports parse_uri par_threshold fingerprint inps \<longleftrightarrow>
     (\<forall>i \<in> set inps. \<forall>j \<in> set inps. key_of i = key_of j \<longrightarrow> fingerprint i = fingerprint j \<longrightarrow>
        drifts_of parse_uri par_threshold i = drifts_of parse_uri par_threshold j)"

definition cache_current ::
  "(string \<Rightarrow> string option) \<Rightarrow> nat \<Rightarrow> ('t drift_input \<Rightarrow> 'f) \<Rightarrow> 't drift_input list \<Rightarrow> ('t, 'f) drift_cache \<Rightarrow> bool" where
  "cache_current parse_uri par_threshold fingerprint inps cache \<longleftrightarrow>
     (\<forall>k l. dc_state cache = Some (k, l) \<longrightarrow> (\<exists>i \<in> set inps. key_of i = Some k \<and> load_state (fst k) i = Some l)) \<and>
     (\<forall>k f d. dc_drifts cache = Some ((k, f), d) \<longrightarrow>
        (\<exists>i \<in> set inps. key_of i = Some k \<and> fingerprint i = f \<and>
           (\<exists>l. load_state (fst k) i = Some l \<and> drifts_of parse_uri par_threshold i l = Some d)))"

lemma loaded_state_current:
  assumes "keys_tell_files inps" and "inp \<in> set inps" and "key_of inp = Some k"
    and "cache_current parse_uri par fingerprint inps cache"
  shows "fst (loaded_state_with_cache k inp cache) = load_state (fst k) inp \<and>
    cache_current parse_uri par fingerprint inps (snd (loaded_state_with_cache k inp cache))"
proof (cases "cached_for k (dc_state cache)")
  case (Some l)
  then obtain i where "i \<in> set inps" "key_of i = Some k" "load_state (fst k) i = Some l"
    using assms(4) by (auto simp: cached_for_def cache_current_def split: option.splits if_splits)
  then have "load_state (fst k) inp = Some l" using assms(1-3) unfolding keys_tell_files_def by metis
  then show ?thesis using Some assms(4) by (simp add: loaded_state_with_cache_def)
next
  case None
  then show ?thesis using assms(2-4)
    by (auto simp: loaded_state_with_cache_def cache_current_def split: option.splits)
qed

lemma drift_call_current:
  assumes "keys_tell_files inps" and "keys_tell_reports parse_uri par fingerprint inps" and "inp \<in> set inps"
    and "cache_current parse_uri par fingerprint inps cache"
  shows "fst (compute_with_cache parse_uri par (fingerprint inp) inp cache) = compute_drifts parse_uri par inp \<and>
    cache_current parse_uri par fingerprint inps (snd (compute_with_cache parse_uri par (fingerprint inp) inp cache))"
proof (cases "di_found inp")
  case None
  then show ?thesis using assms(4) by (simp add: compute_with_cache_def compute_drifts_def)
next
  case (Some found)
  then obtain dir mtime where found: "di_found inp = Some (dir, mtime)" by (cases found) simp
  define k where "k = (dir, mtime, di_model_mtime inp, di_migration_mtime inp)"
  have k: "key_of inp = Some k" "fst k = dir" by (simp_all add: key_of_def found k_def)
  show ?thesis
  proof (cases "cached_for (k, fingerprint inp) (dc_drifts cache)")
    case (Some d)
    then obtain i l where i: "i \<in> set inps" "key_of i = Some k" "fingerprint i = fingerprint inp"
      "load_state (fst k) i = Some l" "drifts_of parse_uri par i l = Some d"
      using assms(4) by (auto simp: cached_for_def cache_current_def split: option.splits if_splits)
    then have "load_state dir inp = Some l" "drifts_of parse_uri par inp l = Some d"
      using assms(1-3) k unfolding keys_tell_files_def keys_tell_reports_def by metis+
    then have "compute_drifts parse_uri par inp = d" by (simp add: compute_drifts_def found)
    moreover have "compute_with_cache parse_uri par (fingerprint inp) inp cache = (d, cache)"
      using Some by (simp add: compute_with_cache_def found k_def)
    ultimately show ?thesis using assms(4) by simp
  next
    case None
    obtain loaded cache' where l: "loaded_state_with_cache k inp cache = (loaded, cache')" by fastforce
    then have loaded: "loaded = load_state dir inp" "cache_current parse_uri par fingerprint inps cache'"
      using loaded_state_current [OF assms(1,3) k(1) assms(4)] k(2) by simp_all
    have step: "compute_with_cache parse_uri par (fingerprint inp) inp cache =
        (case loaded of None \<Rightarrow> ([], cache') | Some s \<Rightarrow> (case drifts_of parse_uri par inp s of
           None \<Rightarrow> ([], cache') | Some d \<Rightarrow> (d, cache'\<lparr>dc_drifts := Some ((k, fingerprint inp), d)\<rparr>)))"
      using None l by (simp add: compute_with_cache_def found k_def split: option.splits)
    have "cache_current parse_uri par fingerprint inps (cache'\<lparr>dc_drifts := Some ((k, fingerprint inp), d)\<rparr>)"
      if "loaded = Some s" and "drifts_of parse_uri par inp s = Some d" for s d
      using that loaded k assms(3) by (auto simp: cache_current_def)
    then show ?thesis
      using loaded by (auto simp: step compute_drifts_def found split: option.splits)
  qed
qed

interpretation drift: transparent_cache "\<lambda>inp. compute_with_cache parse_uri par (fingerprint inp) inp"
  "compute_drifts parse_uri par" "\<lambda>inp. inp \<in> set inps"
  "\<lambda>cache. keys_tell_files inps \<and> keys_tell_reports parse_uri par fingerprint inps \<and>
     cache_current parse_uri par fingerprint inps cache"
  for parse_uri par fingerprint inps
  by unfold_locales (use drift_call_current in blast)+

end
