(* ===== verification/Example_Schema.thy ===== *)
theory Example_Schema
  imports Diff_Schemas
begin

text \<open>
  A small schema on which the properties are evaluated: users with a unique address, posts that
  refer to them.
\<close>

definition ex_column :: "string \<Rightarrow> column_def" where
  "ex_column n = column_def_new n (Simple Integer) False"

definition ex_users :: table_def where
  "ex_users = \<lparr>tbl_name = ''users'', tbl_description = Some ''people'',
     tbl_columns = [(ex_column ''id'')\<lparr>col_primary_key := Some (PkBool True)\<rparr>,
                    (ex_column ''email'')\<lparr>col_unique := Some (StrBool True)\<rparr>],
     tbl_constraints = []\<rparr>"

definition ex_posts :: table_def where
  "ex_posts = \<lparr>tbl_name = ''posts'', tbl_description = None,
     tbl_columns = [(ex_column ''id'')\<lparr>col_primary_key := Some (PkBool True)\<rparr>,
                    (ex_column ''user_id'')\<lparr>col_foreign_key := Some (FkString ''users.id''),
                       col_index := Some (StrBool True)\<rparr>],
     tbl_constraints = []\<rparr>"

definition ex_users_n :: table_def where
  "ex_users_n = ex_users\<lparr>tbl_constraints := [PrimaryKey False [''id''] default_pk_addition_strategy,
     Unique None [''email''] default_unique_strategy]\<rparr>"

definition ex_posts_n :: table_def where
  "ex_posts_n = ex_posts\<lparr>tbl_constraints := [PrimaryKey False [''id''] default_pk_addition_strategy,
     ForeignKey None [''user_id''] ''users'' [''id''] None None default_fk_orphan_strategy,
     Index None [''user_id'']]\<rparr>"

definition ex_schema :: schema where
  "ex_schema = [ex_posts, ex_users]"

definition ex_schema_n :: schema where
  "ex_schema_n = [ex_posts_n, ex_users_n]"

lemma ex_normalize: "normalize ex_posts = Inr ex_posts_n" "normalize ex_users = Inr ex_users_n"
  by code_simp+

lemma ex_normalize_schema: "normalize_schema ex_schema = Inr ex_schema_n"
  by code_simp

lemma ex_columns_distinct: "\<forall>t \<in> set ex_schema. columns_distinct t"
  by code_simp

lemma ex_names_distinct: "names_distinct ex_schema" "names_distinct ex_schema_n"
  by code_simp+

end
