(* ===== verification/Lsp_Example.thy ===== *)
theory Lsp_Example
  imports Lsp_Diagnostic_Laws Lsp_Drift_Laws Example_Schema
begin

text \<open>
  A YAML file with its tree, a workspace of two files, and calls of the drift computation, on which the
  properties of the language server are evaluated.
\<close>

section \<open>A tree\<close>

definition lx_source :: string where
  "lx_source = ''columns:'' @ [CHR 0x0A] @ ''- type: x''"

definition lx_node :: "string \<Rightarrow> nat \<Rightarrow> nat \<Rightarrow> syntax_node list \<Rightarrow> syntax_node" where
  "lx_node kind a b children = Node kind True ParsedNode a b children"

definition lx_scalar :: "nat \<Rightarrow> nat \<Rightarrow> syntax_node" where
  "lx_scalar a b = lx_node ''flow_node'' a b [lx_node ''plain_scalar'' a b []]"

definition lx_pair :: "nat \<Rightarrow> nat \<Rightarrow> nat \<Rightarrow> nat \<Rightarrow> syntax_node \<Rightarrow> syntax_node" where
  "lx_pair a b c d v = lx_node ''block_mapping_pair'' a d [lx_scalar a b, Node '':'' False ParsedNode b c [], v]"

definition lx_column :: syntax_node where
  "lx_column = lx_node ''block_mapping'' 11 18 [lx_pair 11 15 16 18 (lx_scalar 17 18)]"

definition lx_columns :: syntax_node where
  "lx_columns = lx_node ''block_node'' 9 18 [lx_node ''block_sequence'' 9 18 [lx_node ''block_sequence_item'' 9 18
     [Node ''-'' False ParsedNode 9 10 [], lx_node ''block_node'' 11 18 [lx_column]]]]"

definition lx_tree :: syntax_node where
  "lx_tree = lx_node ''stream'' 0 18 [lx_node ''document'' 0 18 [lx_node ''block_node'' 0 18
     [lx_node ''block_mapping'' 0 18 [lx_pair 0 7 8 18 lx_columns]]]]"

lemmas lx_tree_defs = lx_source_def lx_node_def lx_scalar_def lx_pair_def lx_column_def lx_columns_def lx_tree_def

lemma lx_columns_found: "typed_value lx_source ''columns'' lx_tree = Some lx_columns"
  by code_simp

lemma lx_unknown_type: "map dd_byte_range (collect_separately lx_tree lx_source) = [(11, 18)]"
  by code_simp

section \<open>A workspace\<close>

definition lx_readers :: model_readers where
  "lx_readers = \<lparr>read_json = (\<lambda>s. Inr (if s = ''users'' then ex_users else ex_posts)), read_yaml = (\<lambda>s. Inl (None, []))\<rparr>"

definition lx_users :: workspace_table where
  "lx_users = \<lparr>wt_uri = ''file:///users.json'', wt_table = ex_users_n, wt_source = ''users'', wt_tree = None\<rparr>"

definition lx_posts :: workspace_table where
  "lx_posts = \<lparr>wt_uri = ''file:///posts.json'', wt_table = ex_posts_n, wt_source = ''posts'', wt_tree = None\<rparr>"

lemma lx_clean: "clean_entry lx_readers (\<lambda>_. DocJson) lx_users" "clean_entry lx_readers (\<lambda>_. DocJson) lx_posts"
  by (simp_all add: clean_entry_def collect_parse_diagnostics_def parse_model_def parse_json_table_def normalize_table_def
      emit_cached_parse_def had_typed_pre_check_def lx_readers_def lx_users_def lx_posts_def ex_normalize)

lemma lx_schemas: "schema_ok [ex_posts_n, ex_users_n]" "\<not> schema_ok [ex_posts_n]"
  unfolding find_schema_violations_Nil [symmetric] by code_simp+

text \<open>
  A table that refers to itself with a narrower column is reported as if that column were an auto-increment
  key: the plan made of the one table tells the type of its own key.
\<close>

definition lx_tree_table :: table_def where
  "lx_tree_table = ex_users\<lparr>tbl_name := ''nodes'',
     tbl_columns := [(ex_column ''id'')\<lparr>col_type := Simple BigInt\<rparr>,
                     (ex_column ''parent'')\<lparr>col_foreign_key := Some (FkString ''nodes.id'')\<rparr>],
     tbl_constraints := [PrimaryKey False [''id''] default_pk_addition_strategy]\<rparr>"

lemma narrower_self_reference_reported:
  "map (\<lambda>w. (sew_column w, sew_kind w)) (find_sequence_exhaustion_risks (single_table_plan lx_tree_table) []) =
    [(''parent'', ForeignKeyMismatch ''nodes'' BigInt)]"
  by code_simp

section \<open>Calls of the drift computation\<close>

definition lx_call :: "nat drift_input" where
  "lx_call = \<lparr>di_found = Some (''/p'', 1), di_model_mtime = 2, di_migration_mtime = 3, di_config = Some default_config,
     di_models = Some [ex_users_n], di_plans = Some [],
     di_docs = [(''file:///p/models/users.json'', document_new (\<lambda>_ _. None) 1 ''users'' DocJson)],
     di_index = index_new, di_exists = (\<lambda>_. True), di_read = (\<lambda>_. Some (''users'', None))\<rparr>"

definition lx_closed :: "nat drift_input" where
  "lx_closed = lx_call\<lparr>di_docs := []\<rparr>"

lemma lx_keys:
  "keys_tell_files [lx_call, lx_closed, lx_call]"
  "keys_tell_reports parse_uri par (\<lambda>inp. docs_digest id (di_docs inp)) [lx_call, lx_closed, lx_call]"
  by (auto simp: keys_tell_files_def keys_tell_reports_def key_of_def load_state_def lx_call_def lx_closed_def docs_digest_def)

end
