(* ===== verification/Spec2Isabelle.thy ===== *)
theory Spec2Isabelle
  imports Complex_Main Check_Print Check_Sound Cascade_Reach Dangling_Fk Type_Risks Drop_Resolution
    Sql_Reading Sql_Plan Sql_Rebuild Sql_Narrowing Migration_Example Project_Laws Revision_Example Seaorm_Laws Lsp_Example Example_Schema
begin

text \<open>Vespertide: declarative schema migrations

  Vespertide keeps a database schema as a list of table definitions, compares it with the schema
  that the migrations applied so far produce, and emits the actions that lead from one to the
  other.  This development models the core of the program as executable functions: the crates
  \<open>vespertide-core\<close>, \<open>vespertide-naming\<close>, \<open>vespertide-planner\<close>, \<open>vespertide-query\<close>,
  \<open>vespertide-config\<close>, \<open>vespertide-loader\<close>, \<open>vespertide-macro\<close> and \<open>vespertide\<close> under \<open>src/crates\<close>, the
  \<open>revision\<close> command of \<open>vespertide-cli\<close>, the SeaORM exporter of \<open>vespertide-exporter\<close>, and the
  diagnostics, drift and caches of \<open>vespertide-lsp\<close>.  It proves what the planner, the query generator, the revision
  command and the migration runner promise.

  The parts and how they interact.  The schema model (\<open>core/src/schema\<close>) is normalized
  (\<open>schema/table/normalize.rs\<close>): inline declarations of columns become table constraints.  The
  diff (\<open>planner/src/diff\<close>) normalizes both schemas, compares tables, columns and constraints, and
  orders the resulting actions (\<open>diff/ordering.rs\<close>).  Applying a plan (\<open>planner/src/apply\<close>) runs
  every action on a schema; replaying all plans (\<open>planner/src/schema.rs\<close>) gives the baseline from
  which the next plan is made (\<open>planner/src/plan.rs\<close>).  Query generation (\<open>query/src\<close>) turns each
  action of a plan, on the schema it meets, into statements for PostgreSQL, MySQL and SQLite.
  The revision command (\<open>cli/src/commands/revision\<close>) plans the next migration, asks the user about every
  risk the scans of \<open>planner/src/validate\<close> report, puts the answers into the plan and writes it to a file; the
  loader (\<open>loader/src\<close>) reads the files back.  The macro (\<open>macro/src\<close>) builds the statements of all loaded
  plans into a program, where the runner (\<open>vespertide/src/runtime.rs\<close>) executes those above the version
  that the database has recorded.  The language server (\<open>lsp/src\<close>) runs the same planner on the files open in an
  editor, and shows what it finds at the places it concerns.

  Theories, one per component:
  \<^item> \<open>Rust_Prelude\<close>: what the code uses of Rust's standard library (strings, \<open>BTreeMap\<close> as a sorted
    association list with the interface \<open>ordered_map\<close>, stable sorting by a comparator, fallible
    iteration), with its lemmas;
  \<^item> \<open>Float64\<close>: \<open>f64\<close> values with comparison and shortest decimal printing;
  \<^item> \<open>Sql_Schema\<close>: \<open>ColumnType\<close>, \<open>DefaultValue\<close>, \<open>ColumnDef\<close>, \<open>TableConstraint\<close>, \<open>TableDef\<close> as
    datatypes and records, with the operations of \<open>schema/*.rs\<close> and \<open>sql_escape.rs\<close>;
  \<^item> \<open>Normalize\<close>: \<open>TableDef::normalize\<close>, its four passes and errors.  The passes share the shape
    "append what is missing", the interface \<open>missing_constraints\<close>;
  \<^item> \<open>Planner_Error\<close>: \<open>PlannerError\<close> and its messages;
  \<^item> \<open>Migration_Action\<close>: \<open>MigrationAction\<close>, \<open>MigrationPlan\<close> (versions are 32-bit words), prefixes,
    display, and the guard that keeps DDL out of data migrations;
  \<^item> \<open>Naming\<close>: the functions of \<open>vespertide-naming\<close>;
  \<^item> \<open>Apply_Action\<close>: every action as a state transformer \<open>schema => result * schema\<close>, so that what an
    error leaves behind is visible; an abstract schema (a finite map from names to tables) that
    the list implements; invariants of a replay through the interface \<open>schema_invariant\<close>;
  \<^item> \<open>Diff_Ordering\<close>: Kahn's algorithm and the three sorts.  Its loop has fuel, one round per node,
    which is proved to be enough; the creation and the deletion graph instantiate the interface
    \<open>dependency_graph\<close>;
  \<^item> \<open>Diff_Schemas\<close>: the diff and the next plan;
  \<^item> \<open>Float64_Arith\<close>: \<open>f64\<close> parsing and the arithmetic the check parser uses;
  \<^item> \<open>Check_Expr\<close>: the lexer and the recursive-descent parser of \<open>CHECK\<close> expressions
    (\<open>validate/check_expr_parser.rs\<close>); its depth limit is the recursion argument of \<open>parse_or\<close>, and
    the chain loops carry the number of tokens as fuel, which never runs out;
  \<^item> \<open>Check_Print\<close>: a printer for expressions and the round trip with the parser;
  \<^item> \<open>Check_Analysis\<close>: the \<open>check_*\<close> analyses of the planner; \<open>Check_Semantics\<close>: SQL's three-valued
    meaning of an expression; \<open>Check_Sound\<close>: the analyses are right about that meaning, for literals
    the code compares exactly;
  \<^item> \<open>Validate_Schema\<close>: \<open>validate/schema.rs\<close>, \<open>enums.rs\<close> and \<open>foreign_keys.rs\<close>, with the rules of a valid
    schema (\<open>schema_ok\<close>); \<open>Validate_Plan\<close>: \<open>validate/plan.rs\<close>;
  \<^item> \<open>Plan_Risks\<close>, \<open>Type_Risks\<close>: the scans of \<open>validate/\<close> for risky constraint, type and default changes;
  \<^item> \<open>Cascade_Reach\<close>: the depth-first walk over cascading foreign keys, a \<open>function\<close> whose termination
    counts the tables not yet visited; \<open>Dangling_Fk\<close>: references a drop leaves behind;
  \<^item> \<open>Drop_Resolution\<close>: \<open>drop_resolution.rs\<close>, drops that the user resolves as renames;
  \<^item> \<open>Sql_Statement\<close>: backends, \<open>QueryError\<close>, raw statements, built queries (\<open>sql/types.rs\<close>, \<open>error.rs\<close>);
    \<open>Sql_Text\<close>: quoted names, casts, defaults and fill values (\<open>sql/helpers.rs\<close>, \<open>sql/fill_with.rs\<close>);
  \<^item> \<open>Sql_Create\<close>: column types, \<open>CREATE TABLE\<close>, the SQLite rebuild and the look-ups
    (\<open>sql/helpers.rs\<close>, \<open>sql/create_table.rs\<close>); \<open>Sql_Columns\<close>, \<open>Sql_Constraints\<close>, \<open>Sql_Types\<close>: the
    statements of the other actions (\<open>sql/*.rs\<close>, \<open>sql/add_constraint\<close>, \<open>sql/remove_constraint\<close>,
    \<open>sql/modify_column_type\<close>); \<open>Sql_Builder\<close>: one action, a plan in sequence or in parallel,
    transactions (\<open>sql/mod.rs\<close>, \<open>builder/\<close>);
  \<^item> \<open>Sql_Plan\<close>: when generation succeeds, parallel against sequential, transactions; \<open>Sql_Reading\<close>:
    readers for quoted names and casts; \<open>Sql_Meaning\<close>: the clean-up statements as syntax with their
    effect on rows in three-valued logic; \<open>Sql_Rebuild\<close>: the rebuild on an engine with named laws;
    \<open>Sql_Narrowing\<close>: the conditions that find values which do not fit;
  \<^item> \<open>Migration_Runtime\<close>: the runner over a connection (\<open>vespertide/src/runtime.rs\<close>, \<open>core/src/migration.rs\<close>);
    \<open>Runtime_Laws\<close>: a transactional engine and the effect of a run on it, with an executable engine;
  \<^item> \<open>Project_Files\<close>: configuration (\<open>config/src\<close>), names of migration files (\<open>cli/src/utils.rs\<close>), loading of
    migrations and models (\<open>loader/src\<close>); \<open>Project_Laws\<close>: versions read back from file names, loaded histories;
  \<^item> \<open>Migration_Embed\<close>: the macro's blocks and generated text (\<open>macro/src/lib.rs\<close>); \<open>Migration_History\<close>: from the
    loaded plans to the executed statements; \<open>Migration_Example\<close>: a project of two migrations run on an engine;
  \<^item> \<open>Revision_Steps\<close>, \<open>Revision_Prompts\<close>, \<open>Revision_Choices\<close>, \<open>Revision_Command\<close>: the revision command, from
    the single steps on a plan (\<open>emit.rs\<close>, \<open>parse.rs\<close>, \<open>timezones.rs\<close>) and the prompts (\<open>prompts/*\<close>) to the
    flow that may fail, end early or write a file (\<open>mod.rs\<close>, \<open>write.rs\<close>); \<open>Revision_Laws\<close>: what each step
    leaves as it is; \<open>Revision_Safety\<close>: what every written plan satisfies; \<open>Revision_Example\<close>: two runs;
  \<^item> \<open>Export_Scan\<close>: what the exporters to ORMs share (\<open>exporter/src/constraint_scan.rs\<close>, \<open>enum_scan.rs\<close>,
    \<open>scope_names.rs\<close>, \<open>utils/common.rs\<close>); \<open>Export_Laws\<close>: names are claimed once, the interface \<open>name_claim\<close>;
    \<open>Seaorm_Names\<close>, \<open>Seaorm_Relations\<close>, \<open>Seaorm_Render\<close>: the SeaORM exporter (\<open>exporter/src/seaorm\<close>), whose walk
    along chained foreign keys is a \<open>function\<close> with a measure; \<open>Seaorm_Laws\<close>: where chains end, fields do not clash;
  \<^item> \<open>Lsp_State\<close>, \<open>Lsp_Tree\<close>, \<open>Lsp_Visitors\<close>, \<open>Lsp_Diagnostics\<close>, \<open>Lsp_Drift\<close>: the language server
    (\<open>crates/vespertide-lsp/src\<close>): its caches, documents and index, syntax trees and places in them, the checks on a
    tree, the diagnostics of a file and of a workspace, and the drift between models and migrations.  A syntax tree of
    the external parser is a value of the datatype \<open>syntax_node\<close>; a lock makes the operation inside it one step, and
    \<open>ring_step\<close> interleaves the two critical sections of \<open>get_or_compute\<close>; \<open>Lsp_Laws\<close>, \<open>Lsp_Diagnostic_Laws\<close>,
    \<open>Lsp_Drift_Laws\<close>: their properties, with the interface \<open>transparent_cache\<close> that all four caches provide;
    \<open>Lsp_Example\<close>: a tree, a workspace and calls;
  \<^item> \<open>Example_Schema\<close>: a schema of two tables on which the hypotheses of the properties are shown to
    hold together.

  What is shown, in this theory: the diff of a schema with itself is empty, and the plan for a new
  schema replays to that schema; schema validation accepts exactly the valid schemas; the check
  parser is total, bounded and inverse to the printer; reported contradictions hold of no row and
  strengthened checks accept fewer rows; narrowings are exactly the changes that lose values; the
  cascade walk finds exactly the reachable tables; plans of deletions that pass the scan leave no
  dangling reference; renames resolved from drops replay; the orders
  of creations, deletions and enum changes respect the dependencies and fail exactly on cycles;
  applying actions implements the abstract map, keeps names distinct, touches only the named
  tables and fails without effect (one defect apart); normalization is idempotent, succeeds under
  an exact condition and promotes every inline declaration; the DDL guard, literal escaping, type
  comparison and naming meet their specifications; a plan that replays has its statements exactly when
  its actions are generable, in sequence and in parallel alike; the SQLite rebuild keeps every row; the
  clean-up statements leave rows on which the new constraint holds; quoted names read back; a run of the
  migrations is all or nothing, a second one changes nothing, and the embedded history of a project executes
  the statements of its plans in order; every plan the revision command writes has the fill values, label
  replacements, strategies and time zones it needs, no dangling key and a file of its own; the names of an exported file
  differ, and following chained foreign keys ends; the language server shows an error for a workspace exactly when its
  tables are not a valid schema, and its caches do not change its answers.

  Modelling choices.  A table, column or index name is a \<open>string\<close>; characters are HOL's 8-bit
  \<open>char\<close>, so case mapping and white space are those of Rust on ASCII text.  \<open>BTreeMap\<close> iteration is
  the sorted order of keys.  \<open>HashMap\<close>s are used by the code only for lookups and are modelled so.
  Parallel iterators collect in order and are modelled by their result, with the threshold as a
  parameter; which of several errors a parallel collection returns is a parameter too (\<open>error_choice\<close>),
  assumed only to be one of them.  A panic is a distinguished result.

  Most statements are values of the external crate sea-query.  The model records the builder calls the
  code makes (\<open>built_query\<close>) and takes the text sea-query prints for them as a parameter (\<open>renderer\<close>);
  the text the code writes itself is modelled byte for byte.  Where a property speaks of rows, the effect
  of a statement is either given for statements whose text is proved to be the emitted one
  (\<open>Sql_Meaning\<close>) or assumed as named laws of the engine (\<open>engine_laws\<close>), which an executable
  engine satisfies.

  The revision command takes its prompts as functions, as the code does, so its properties hold for every
  answer; where a property speaks of a menu, the answer is an item of it.  An error of anyhow is the list of
  its contexts.  The runner takes its database as a record of functions (\<open>connection\<close>); its properties
  assume named laws of a transactional engine (\<open>lawful_engine\<close>), which describe PostgreSQL and SQLite; MySQL
  commits before DDL and is not such an engine.  Dropping an open transaction rolls it back.

  Not modelled: serialization (serde), the text sea-query prints, what the command line prints and its other
  commands, the walk over the model directory, the exporters to ORMs other than SeaORM, the
  editor features of the language server around the cursor (completion, hover, symbols, code actions, references) with the
  protocol handlers, and the JSON schema generator.\<close>

section \<open>Diffing\<close>

text \<open>C1: a schema that normalizes has no difference from itself: \<open>diff_schemas\<close> returns
  the plan with no actions.\<close>

theorem diff_self_empty:
  assumes "\<forall>t \<in> set s. columns_distinct t" and "normalize_schema s = Inr n"
  shows "diff_schemas p s s = Inr empty_plan"
  using assms by (rule diff_schemas_same)

theorem diff_self_empty_witness:
  "diff_schemas 10 ex_schema ex_schema = Inr empty_plan"
  using diff_self_empty [OF ex_columns_distinct ex_normalize_schema] by blast

text \<open>C2: the plan that \<open>diff_schemas\<close> makes for a new schema can be replayed on
  the empty baseline, yields exactly the normalized tables (without their descriptions, which
  \<open>CreateTable\<close> does not carry), and diffing the result against the same schema again gives
  the empty plan.\<close>

theorem diff_from_nothing_replays:
  assumes "names_distinct ts" and "diff_schemas p [] ts = Inr plan"
  shows "\<exists>tn s. normalize_schema ts = Inr tn \<and> apply_actions [] (plan_actions plan) = Inr s \<and>
    mset s = image_mset undescribed (mset tn) \<and> diff_schemas q s ts = Inr empty_plan"
  by (rule diff_from_nothing_again [OF assms, of q]) blast

theorem diff_from_nothing_replays_witness:
  "\<exists>tn s. normalize_schema ex_schema = Inr tn \<and>
    apply_actions [] [creation ex_users, creation ex_posts] = Inr s \<and>
    mset s = image_mset undescribed (mset tn) \<and> diff_schemas 10 s ex_schema = Inr empty_plan"
proof -
  have "diff_schemas 10 [] ex_schema = Inr (empty_plan\<lparr>plan_actions := [creation ex_users, creation ex_posts]\<rparr>)"
    by code_simp
  from diff_from_nothing_replays [OF ex_names_distinct(1) this, of 10] show ?thesis by simp
qed

text \<open>C18: the version of the next plan is above every applied version, except when the
  counter is saturated at the largest 32-bit number.\<close>

theorem next_version_grows:
  assumes "plan_next_migration p current plans = Inr plan" and "q \<in> set plans"
  shows "plan_version q < plan_version plan \<or> plan_version q = - 1 \<and> plan_version plan = - 1"
  using assms by (rule next_version)

theorem next_version_grows_witness:
  "(7 :: 32 word) < 8 \<or> (7 :: 32 word) = - 1 \<and> (8 :: 32 word) = - 1"
proof -
  let ?q = "empty_plan\<lparr>plan_version := 7\<rparr>"
  have "plan_next_migration 10 [] [?q] = Inr (empty_plan\<lparr>plan_version := 8\<rparr>)"
    by code_simp
  from next_version_grows [OF this, of ?q] show ?thesis by simp
qed

section \<open>Ordering\<close>

text \<open>C3: the tables to create come back as a permutation in which every table
  stands after the other new tables its foreign keys refer to.\<close>

theorem topological_sort_sound:
  assumes "names_distinct ts" and "topological_sort_tables ts = Inr rs"
  shows "mset rs = mset ts \<and>
    (\<forall>i < length rs. \<forall>r. (tbl_name (rs ! i), r) \<in> fk_edges ts \<longrightarrow> r \<in> tbl_name ` set (take i rs))"
  using topological_sort_ok [OF assms] by blast

theorem topological_sort_sound_witness: "''users'' \<in> tbl_name ` set (take 1 [ex_users_n, ex_posts_n])"
proof -
  have "topological_sort_tables ex_schema_n = Inr [ex_users_n, ex_posts_n]" by code_simp
  from topological_sort_sound [OF ex_names_distinct(2) this]
  have *: "(tbl_name ([ex_users_n, ex_posts_n] ! 1), r) \<in> fk_edges ex_schema_n \<Longrightarrow>
      r \<in> tbl_name ` set (take 1 [ex_users_n, ex_posts_n])" for r
    by fastforce
  have "''users'' \<in> set (fk_ref_tables ex_posts_n) \<and> ''users'' \<in> tbl_name ` set ex_schema_n \<and>
      tbl_name ex_posts_n \<noteq> ''users'' \<and> ex_posts_n \<in> set ex_schema_n"
    by code_simp
  then have "(tbl_name ex_posts_n, ''users'') \<in> fk_edges ex_schema_n"
    unfolding fk_edges_def by fastforce
  then show ?thesis by (intro *) simp
qed

text \<open>C4: the sort fails exactly when the foreign keys between different new
  tables form a cycle.\<close>

theorem topological_sort_error_iff:
  assumes "names_distinct ts"
  shows "(\<exists>e. topological_sort_tables ts = Inl e) \<longleftrightarrow> \<not> acyclic (fk_edges ts)"
  using assms by (rule topological_sort_error)

theorem topological_sort_error_iff_witness:
  "(\<exists>e. topological_sort_tables ex_schema_n = Inl e) \<longleftrightarrow> \<not> acyclic (fk_edges ex_schema_n)"
  by (rule topological_sort_error_iff [OF ex_names_distinct(2)])

text \<open>Sorting the deletions moves nothing else: every other action keeps its
  place, a deletion stays on a deletion's place, and the deletions appear in the stable order
  of their rank, whatever swaps the loop makes.\<close>

theorem sort_delete_in_slots:
  "map (\<lambda>a. if is_delete_table a then None else Some a) (sort_delete_tables A m) =
     map (\<lambda>a. if is_delete_table a then None else Some a) A \<and>
   filter is_delete_table (sort_delete_tables A m) = sort_key (deletion_rank A m) (filter is_delete_table A)"
  by (rule sort_delete_tables_spec [of A m]) (auto intro!: nth_equalityI)

text \<open>C5: when the foreign keys between the deleted tables have no cycle, a
  table that refers to another deleted table is deleted before it.\<close>

theorem sort_delete_referencing_first:
  assumes "acyclic (deleted_edges A m)" and "(b, a) \<in> deleted_edges A m"
    and "i < length A" and "j < length A"
    and "sort_delete_tables A m ! i = DeleteTable a" and "sort_delete_tables A m ! j = DeleteTable b"
  shows "j < i"
  using assms by (rule sort_delete_tables_order)

theorem sort_delete_referencing_first_witness: "(0 :: nat) < 1"
proof -
  let ?A = "[DeleteTable ''users'', DeleteTable ''posts'']"
  let ?m = "tables_by_name ex_schema_n"
  have d: "deleted_tables ?A = [''users'', ''posts'']" by code_simp
  have l: "om_lookup ?m ''users'' = Some ex_users_n" "om_lookup ?m ''posts'' = Some ex_posts_n" by code_simp+
  have f: "fk_ref_tables ex_users_n = []" "fk_ref_tables ex_posts_n = [''users'']" by code_simp+
  have e: "deleted_edges ?A ?m = {(''posts'', ''users'')}"
    using l f by (auto simp: deleted_edges_def d)
  have "acyclic (deleted_edges ?A ?m)" unfolding e by (auto simp: acyclic_def dest: tranclD elim: tranclE)
  moreover have "sort_delete_tables ?A ?m ! 1 = DeleteTable ''users''" "sort_delete_tables ?A ?m ! 0 = DeleteTable ''posts''"
    by code_simp+
  ultimately show ?thesis
    using e by (intro sort_delete_referencing_first [of ?A ?m "''posts''" "''users''" 1 0]) simp_all
qed

text \<open>The sort by creations is a stable partition: first the creations, then
  everything else, last the foreign keys added to the created tables, each group in its old
  order.\<close>

theorem sort_create_three_groups:
  "sort_create_before_add_constraint actions =
     filter is_create_table actions @
     filter (\<lambda>a. \<not> is_create_table a \<and> \<not> refs_created (List.map_filter created_table actions) a) actions @
     filter (refs_created (List.map_filter created_table actions)) actions"
  using sort_create_partition [of actions] by (simp only: Let_def)

text \<open>Where a column's type loses the enum value that is its default in the
  baseline, the change of its default takes the place of the type change, and the type change
  takes the place of the default's.\<close>

theorem sort_enum_swaps_default_first:
  assumes "i < length A" and "A ! i = ModifyColumnType t c ty f n z"
    and "j < length A" and "A ! j = ModifyColumnDefault t c d b" and "i < j"
    and "\<And>l ty f n z. l < length A \<Longrightarrow> A ! l = ModifyColumnType t c ty f n z \<Longrightarrow> l = i"
    and "\<And>l d b. l < length A \<Longrightarrow> A ! l = ModifyColumnDefault t c d b \<Longrightarrow> l = j"
    and "default_removed m t c ty"
  shows "sort_enum_default_dependencies A m ! i = A ! j \<and> sort_enum_default_dependencies A m ! j = A ! i"
  using assms by (rule sort_enum_default_first)

theorem sort_enum_swaps_default_first_witness:
  "sort_enum_default_dependencies
     [ModifyColumnType ''t'' ''c'' (Complex (Enum ''e'' (EnumString [''a'']))) None None None,
      ModifyColumnDefault ''t'' ''c'' (Some ''a'') None]
     [(''t'', \<lparr>tbl_name = ''t'', tbl_description = None,
        tbl_columns = [(column_def_new ''c'' (Complex (Enum ''e'' (EnumString [''a'', ''b'']))) False)
          \<lparr>col_default := Some (DefString ''b'')\<rparr>], tbl_constraints = []\<rparr>)] ! 0 =
   ModifyColumnDefault ''t'' ''c'' (Some ''a'') None"
proof -
  let ?ty = "Complex (Enum ''e'' (EnumString [''a'']))"
  let ?col = "(column_def_new ''c'' (Complex (Enum ''e'' (EnumString [''a'', ''b'']))) False)
    \<lparr>col_default := Some (DefString ''b'')\<rparr>"
  let ?tbl = "\<lparr>tbl_name = ''t'', tbl_description = None, tbl_columns = [?col], tbl_constraints = []\<rparr>"
  let ?A = "[ModifyColumnType ''t'' ''c'' ?ty None None None, ModifyColumnDefault ''t'' ''c'' (Some ''a'') None]"
  have "string_enum_value_removed (col_type ?col) ?ty (extract_unquoted_default (to_sql (DefString ''b'')))"
    by code_simp
  then have "default_removed [(''t'', ?tbl)] ''t'' ''c'' ?ty"
    unfolding default_removed_def by (intro exI [of _ ?tbl] exI [of _ ?col]) (auto simp: om_lookup_def column_def_new_def)
  moreover have "l = 0" if "l < length ?A" "?A ! l = ModifyColumnType ''t'' ''c'' ty f n z" for l ty f n z
    using that by (cases l) auto
  moreover have "l = 1" if "l < length ?A" "?A ! l = ModifyColumnDefault ''t'' ''c'' d b" for l d b
    using that by (cases l) auto
  ultimately show ?thesis
    using sort_enum_swaps_default_first [of 0 ?A "''t''" "''c''" ?ty None None None 1 "Some ''a''" None
        "[(''t'', ?tbl)]"] by simp
qed

section \<open>Applying and replaying\<close>



text \<open>C17: a replayed history never holds two tables of one name.\<close>

theorem replay_names_distinct:
  assumes "schema_from_plans ps = Inr s"
  shows "names_distinct s"
  using names.replay_plans_inv [of "[]" ps s] assms by (simp add: schema_from_plans_def list_all_iff)

theorem replay_names_distinct_witness: "names_distinct [undescribed ex_users_n]"
proof -
  have "schema_from_plans [empty_plan\<lparr>plan_actions := [creation ex_users]\<rparr>] = Inr [undescribed ex_users_n]"
    by code_simp
  then show ?thesis by (rule replay_names_distinct)
qed

text \<open>As long as no plan renames a column and every created table has distinct
  column names, no table of the replayed schema has two columns of one name.\<close>

theorem replay_columns_distinct:
  assumes "schema_from_plans ps = Inr s"
    and "list_all (\<lambda>p. list_all keeps_columns_distinct (plan_actions p)) ps"
  shows "list_all columns_distinct s"
  using cols.replay_plans_inv [of "[]" ps s] assms by (simp add: schema_from_plans_def)

theorem replay_columns_distinct_witness: "list_all columns_distinct [undescribed ex_users_n]"
proof -
  let ?p = "empty_plan\<lparr>plan_actions := [creation ex_users]\<rparr>"
  have "schema_from_plans [?p] = Inr [undescribed ex_users_n]" by code_simp
  moreover have "list_all (\<lambda>p. list_all keeps_columns_distinct (plan_actions p)) [?p]" by code_simp
  ultimately show ?thesis by (rule replay_columns_distinct)
qed

text \<open>Actions on other tables, renamings of tables apart, leave a table as it is.\<close>

theorem replay_frame:
  assumes "apply_actions s as = Inr s'" and "list_all (leaves_alone n) as"
  shows "find_table s' n = find_table s n"
  using frame.apply_actions_inv [OF assms(1) refl assms(2)] .

theorem replay_frame_witness: "find_table [ex_posts_n] ''posts'' = find_table ex_schema_n ''posts''"
proof -
  have "apply_actions ex_schema_n [DeleteTable ''users''] = Inr [ex_posts_n]" by code_simp
  moreover have "list_all (leaves_alone ''posts'') [DeleteTable ''users'']" by (simp add: leaves_alone_def)
  ultimately show ?thesis by (rule replay_frame)
qed

text \<open>An action that fails leaves the schema as it was; the one exception is an
  \<open>AddColumn\<close> whose table no longer normalizes.\<close>

theorem apply_error_atomic:
  assumes "apply_action s a = (Inl e, s')"
  shows "s' = s \<or> (\<exists>n c x m. a = AddColumn n c x \<and> e = TableValidation m)"
  using assms by (rule apply_action_error)

theorem apply_error_atomic_witness:
  "ex_schema_n = ex_schema_n \<or> (\<exists>n c x m. DeleteColumn ''users'' ''age'' = AddColumn n c x \<and>
     ColumnNotFound ''users'' ''age'' = TableValidation m)"
proof -
  have "apply_action ex_schema_n (DeleteColumn ''users'' ''age'') = (Inl (ColumnNotFound ''users'' ''age''), ex_schema_n)"
    by code_simp
  then show ?thesis by (rule apply_error_atomic)
qed

text \<open>The exception is real: an \<open>AddColumn\<close> with a malformed inline foreign
  key fails and leaves the table without columns, constraints and description.\<close>

theorem add_column_failure_empties_table:
  "\<exists>c m. apply_action [ex_users_n] (AddColumn ''users'' c None) =
     (Inl (TableValidation m), [\<lparr>tbl_name = ''users'', tbl_description = None, tbl_columns = [], tbl_constraints = []\<rparr>])"
proof -
  have "apply_action [ex_users_n] (AddColumn ''users'' ((ex_column ''boss'')\<lparr>col_foreign_key := Some (FkString ''users'')\<rparr>) None) =
    (Inl (TableValidation (''Failed to normalize table '' @ quoted ''users'' @ '' after adding column '' @
       quoted ''boss'' @ '': '' @ display_table_validation_error (InvalidForeignKeyFormat ''boss'' ''users''))),
     [\<lparr>tbl_name = ''users'', tbl_description = None, tbl_columns = [], tbl_constraints = []\<rparr>])"
    by code_simp
  then show ?thesis by blast
qed

text \<open>Renaming a column and back again restores the schema when the new name is
  not yet used in the table.\<close>

theorem rename_column_round_trip:
  assumes "find_table s n = Some t" and "from \<in> col_name ` set (tbl_columns t)"
    and "to \<notin> col_name ` set (tbl_columns t)"
    and "\<forall>c \<in> set (tbl_constraints t). to \<notin> mentioned_columns c"
  shows "\<exists>s'. apply_action s (RenameColumn n from to) = (Inr (), s') \<and>
    apply_action s' (RenameColumn n to from) = (Inr (), s)"
  using rename_column_back [OF assms] by simp

theorem rename_column_round_trip_witness:
  "\<exists>s'. apply_action ex_schema_n (RenameColumn ''users'' ''email'' ''mail'') = (Inr (), s') \<and>
    apply_action s' (RenameColumn ''users'' ''mail'' ''email'') = (Inr (), ex_schema_n)"
proof -
  have "find_table ex_schema_n ''users'' = Some ex_users_n" by code_simp
  moreover have "''email'' \<in> col_name ` set (tbl_columns ex_users_n)" "''mail'' \<notin> col_name ` set (tbl_columns ex_users_n)"
    "\<forall>c \<in> set (tbl_constraints ex_users_n). ''mail'' \<notin> mentioned_columns c"
    by code_simp+
  ultimately show ?thesis by (rule rename_column_round_trip)
qed

text \<open>Deleting a table that was just created restores the schema.\<close>

theorem create_delete_round_trip:
  assumes "apply_action s (CreateTable n cols cs) = (Inr (), s')"
  shows "apply_action s' (DeleteTable n) = (Inr (), s)"
  using create_delete_back assms by simp

theorem create_delete_round_trip_witness:
  "apply_action [ex_posts_n, undescribed ex_users_n] (DeleteTable ''users'') = (Inr (), [ex_posts_n])"
proof -
  have "apply_action [ex_posts_n] (CreateTable ''users'' (tbl_columns ex_users) []) =
      (Inr (), [ex_posts_n, undescribed ex_users_n])"
    by code_simp
  then show ?thesis by (rule create_delete_round_trip)
qed

text \<open>A deleted column is gone from its table and from the column lists of every
  constraint of the table, and no constraint but a check is left without columns.\<close>

theorem delete_column_scrubs:
  assumes "apply_action s (DeleteColumn n column) = (Inr (), s')"
  shows "\<exists>t t'. find_table s n = Some t \<and> find_table s' n = Some t' \<and>
    tbl_columns t' = filter (\<lambda>c. col_name c \<noteq> column) (tbl_columns t) \<and>
    (\<forall>d \<in> set (tbl_constraints t'). column \<notin> set (constraint_columns d) \<and>
       (constraint_columns d = [] \<longrightarrow> (\<exists>n e k. d = Check n e k)))"
proof -
  have "delete_column s n column = (Inr (), s')" using assms by simp
  then show ?thesis
    by (rule delete_column_effect) (use drop_column_constraints in fastforce)
qed

theorem delete_column_scrubs_witness:
  "''email'' \<notin> set (constraint_columns (PrimaryKey False [''id''] default_pk_addition_strategy))"
proof -
  let ?s = "[ex_posts_n, ex_users\<lparr>tbl_columns := [(ex_column ''id'')\<lparr>col_primary_key := Some (PkBool True)\<rparr>],
      tbl_constraints := [PrimaryKey False [''id''] default_pk_addition_strategy]\<rparr>]"
  have "apply_action ex_schema_n (DeleteColumn ''users'' ''email'') = (Inr (), ?s)" by code_simp
  moreover have "find_table ?s ''users'' = Some (?s ! 1)" by code_simp
  ultimately show ?thesis
    using delete_column_scrubs [of ex_schema_n "''users''" "''email''" ?s] by auto
qed

text \<open>After a table is renamed no foreign key of the schema refers to the
  old name.\<close>

theorem rename_table_follows_references:
  assumes "apply_action s (RenameTable old new) = (Inr (), s')"
  shows "\<not> referenced s' old"
  using rename_table_no_dangling assms by simp

theorem rename_table_follows_references_witness:
  "\<not> referenced (snd (apply_action ex_schema_n (RenameTable ''users'' ''people''))) ''users''"
proof -
  have "fst (apply_action ex_schema_n (RenameTable ''users'' ''people'')) = Inr ()" by code_simp
  then have "apply_action ex_schema_n (RenameTable ''users'' ''people'') =
      (Inr (), snd (apply_action ex_schema_n (RenameTable ''users'' ''people'')))"
    by (metis prod.collapse)
  then show ?thesis by (rule rename_table_follows_references)
qed

section \<open>Normalization\<close>

text \<open>C16: normalizing a normalized table changes nothing.\<close>

theorem normalize_idempotent:
  assumes "normalize t = Inr t'"
  shows "normalize t' = Inr t'"
  using assms by (rule normalize_twice)

theorem normalize_idempotent_witness: "normalize ex_posts_n = Inr ex_posts_n"
  by (rule normalize_idempotent [OF ex_normalize(1)])

text \<open>A table with distinct column names normalizes exactly when every inline
  foreign key parses and no column lists an index twice; the invariant violations of the code
  cannot happen.\<close>

theorem normalize_succeeds_iff:
  assumes "columns_distinct t"
  shows "(\<exists>t'. normalize t = Inr t') \<longleftrightarrow>
    list_all foreign_key_parses (tbl_columns t) \<and> list_all index_list_ok (tbl_columns t)"
  using assms by (rule normalize_ok)

theorem normalize_succeeds_iff_witness:
  "(\<exists>t'. normalize ex_posts = Inr t') \<longleftrightarrow>
    list_all foreign_key_parses (tbl_columns ex_posts) \<and> list_all index_list_ok (tbl_columns ex_posts)"
proof -
  have "columns_distinct ex_posts" by code_simp
  then show ?thesis by (rule normalize_succeeds_iff)
qed

text \<open>Normalization keeps the constraints of the table as a prefix and adds one
  for every inline declaration that no constraint meets: each unique group, each inline foreign
  key and each index group has its constraint, and a declared primary key exists.\<close>

theorem normalize_promotes_inline:
  assumes "normalize t = Inr t'"
  shows "\<exists>frs irs ds. fk_requests (tbl_columns t) = Inr frs \<and> index_requests t = Inr irs \<and>
    tbl_columns t' = tbl_columns t \<and> tbl_constraints t' = tbl_constraints t @ ds \<and>
    (\<forall>(n, cs) \<in> set (unique_requests t). unique_constraint_exists (tbl_constraints t') n cs) \<and>
    (\<forall>(c, p) \<in> set frs. foreign_key_constraint_exists (tbl_constraints t') c) \<and>
    (\<forall>(n, cs) \<in> set irs. index_constraint_exists (tbl_constraints t') n cs) \<and>
    (fst (collect_primary_key_columns t) \<noteq> [] \<longrightarrow> has_primary_key_constraint (tbl_constraints t'))"
  by (rule normalized_satisfies [OF assms]) (use normalize_fields [OF assms] in \<open>fastforce simp: case_prod_unfold\<close>)

theorem normalize_promotes_inline_witness:
  "foreign_key_constraint_exists (tbl_constraints ex_posts_n) ''user_id'' \<and>
   has_primary_key_constraint (tbl_constraints ex_posts_n)"
proof -
  obtain p where "fk_requests (tbl_columns ex_posts) = Inr [(''user_id'', p)]"
    by (rule that) code_simp
  moreover have "fst (collect_primary_key_columns ex_posts) \<noteq> []" by code_simp
  ultimately show ?thesis
    using normalize_promotes_inline [OF ex_normalize(1)] by auto
qed

section \<open>Check expressions\<close>

text \<open>C13: parsing any text gives \<open>Unparseable\<close>, or a well-formed tree (two parts in
  every \<open>AND\<close> and \<open>OR\<close>, a value in every \<open>IN\<close>) whose height is at most 196, so that a recursive walk
  over it is safe whatever the input.\<close>

theorem check_parse_bounded:
  "parse s = Unparseable \<or> wf_check (parse s) \<and> check_height (parse s) \<le> 196"
  by (rule parse_wf)

text \<open>C12: a printed expression parses back to the same tree, as long as its groups do
  not nest deeper than the parser's limit.\<close>

theorem check_print_round_trip:
  assumes "wf_check e" and "printable e" and "nesting e \<le> MAX_CHECK_EXPR_DEPTH"
  shows "parse (print_check e) = e"
  using assms by (rule parse_print_check)

theorem check_print_round_trip_witness:
  "parse (print_check (AndE [Compare ''age'' OpGe (LitInteger 0), NotE (InList ''age'' [LitInteger 7, LitNull] False)])) =
     AndE [Compare ''age'' OpGe (LitInteger 0), NotE (InList ''age'' [LitInteger 7, LitNull] False)]"
proof -
  let ?e = "AndE [Compare ''age'' OpGe (LitInteger 0), NotE (InList ''age'' [LitInteger 7, LitNull] False)]"
  have "is_word ''age'' \<and> classify_word ''age'' = TokIdent ''age''" by code_simp
  then have "printable ?e" by (auto simp: printable_def in_i64_def i64_min_def i64_max_def)
  then show ?thesis by (intro check_print_round_trip) (simp_all add: MAX_CHECK_EXPR_DEPTH_def)
qed

text \<open>C8: when the analysis reports a contradiction, some conjunction in the
  expression is true for no row, under SQL's three-valued logic; without \<open>OR\<close> it is the whole
  expression.  The literals are those the comparison of the code orders like the values they
  denote.\<close>

theorem contradiction_never_true:
  assumes "find_contradiction e = Some x" and "exact_check e"
  shows "\<exists>es. AndE es \<in> nodes_of e \<and> (\<forall>r. eval_check r (AndE es) \<noteq> Some True) \<and> (or_free e \<longrightarrow> AndE es = e)"
  using assms by (rule find_contradiction_sound)

theorem contradiction_never_true_witness:
  "\<forall>r. eval_check r (parse ''age > 10 AND age < 5'') \<noteq> Some True"
proof -
  have p: "parse ''age > 10 AND age < 5'' = AndE [Compare ''age'' OpGt (LitInteger 10), Compare ''age'' OpLt (LitInteger 5)]"
    by code_simp
  have "find_contradiction (parse ''age > 10 AND age < 5'') =
      Some \<lparr>con_column = ''age'', con_first = ''age > 10'', con_second = ''age < 5''\<rparr>"
    by code_simp
  from contradiction_never_true [OF this] show ?thesis by (simp add: p)
qed



text \<open>After the validation of defaults against checks, an integer default
  satisfies every single-column check on its column.\<close>

theorem default_satisfies_check:
  assumes "validate_default_vs_check t = Inr ()" and "c \<in> set (tbl_columns t)" and "col_default c = Some (DefInteger i)"
    and "Check n s k \<in> set (tbl_constraints t)" and "extract_simple_column_check (parse s) (col_name c) \<noteq> None"
    and "exact_check (parse s)" and "float_free (parse s)" and "\<bar>i\<bar> < 2 ^ 53" and "r (col_name c) = VNum (of_int i)"
  shows "passes_check r (parse s)"
  using assms by (rule default_passes_check)

theorem default_satisfies_check_witness: "passes_check (\<lambda>c. VNum (of_int 5)) (parse ''age >= 0'')"
proof -
  let ?c = "(ex_column ''age'')\<lparr>col_default := Some (DefInteger 5)\<rparr>"
  let ?t = "ex_users\<lparr>tbl_columns := [?c], tbl_constraints := [Check ''adult'' ''age >= 0'' default_check_violation_strategy]\<rparr>"
  have p: "parse ''age >= 0'' = Compare ''age'' OpGe (LitInteger 0)" by code_simp
  have n: "col_name ?c = ''age''" by code_simp
  have "validate_default_vs_check ?t = Inr ()" by code_simp
  then show ?thesis
    by (rule default_satisfies_check [where c = ?c])
      (simp_all add: p n extract_simple_column_check_def float_free_def)
qed

section \<open>Validation\<close>

text \<open>C7: a schema passes validation exactly when it meets the rules, stated
  independently of the code's checks and their order: distinct names, a primary key without nullable
  columns, sound auto increments, enums and numeric columns, constraints over existing columns,
  foreign keys that resolve, and checks that are neither reversed nor contradictory nor violated by a
  default.\<close>

theorem schema_validation_exact: "validate_schema schema = Inr () \<longleftrightarrow> schema_ok schema"
  by (rule validate_schema_ok)

text \<open>C15: the actions of a plan that the final validation rejects for a missing
  fill value are those the interactive scan asks about, and the columns made \<open>NOT NULL\<close> that have a
  default, which the scan leaves out.\<close>

theorem missing_fill_values_exact:
  "(\<exists>a. a \<in> set (plan_actions plan) \<and> missing_fill_error a) \<longleftrightarrow>
   (\<exists>f. f \<in> set (find_missing_fill_with plan schema)) \<or>
   (\<exists>a. a \<in> set (plan_actions plan) \<and> sets_not_null_with_default schema a)"
  by (rule missing_fill_in_plan)

text \<open>In a validated plan for which no fill value is missing, every value of
  a changed string enum is kept or has a replacement, and a replacement that is a plain value is one of the
  new values.\<close>

theorem enum_changes_cover_old_values:
  assumes "validate_migration_plan plan = Inr ()" and "find_missing_enum_fill_with plan schema = []"
    and "ModifyColumnType table column (Complex (Enum n (EnumString new_values))) fill_with s u \<in> set (plan_actions plan)"
    and "find_baseline_column schema table column = Some c" and "col_type c = Complex (Enum m (EnumString old_values))"
    and "v \<in> set old_values"
  shows "v \<in> set new_values \<or>
    (\<exists>fw w. fill_with = Some fw \<and> om_lookup fw v = Some w \<and>
      (\<forall>x. extract_enum_value w = Some x \<longrightarrow> x \<in> set new_values))"
  using assms by (rule enum_values_covered)

theorem enum_changes_cover_old_values_witness:
  "\<exists>w. om_lookup [(''old'', ''new'')] ''old'' = Some w \<and> w = ''new''"
proof -
  let ?ty = "\<lambda>vs. Complex (Enum ''state'' (EnumString vs))"
  let ?c = "column_def_new ''state'' (?ty [''old'', ''new'']) False"
  let ?t = "ex_users\<lparr>tbl_columns := [?c]\<rparr>"
  let ?a = "ModifyColumnType ''users'' ''state'' (?ty [''new'']) (Some [(''old'', ''new'')]) None None"
  let ?p = "empty_plan\<lparr>plan_actions := [?a]\<rparr>"
  have "validate_migration_plan ?p = Inr ()" "find_missing_enum_fill_with ?p [?t] = []"
    "find_baseline_column [?t] ''users'' ''state'' = Some ?c" "extract_enum_value ''new'' = Some ''new''" by code_simp+
  with enum_changes_cover_old_values [of ?p "[?t]" "''users''" "''state''" "''state''" "[''new'']"
      "Some [(''old'', ''new'')]" None None ?c "''state''" "[''old'', ''new'']" "''old''"]
  show ?thesis by (auto simp: column_def_new_def om_lookup_def)
qed

section \<open>Risks of a plan\<close>

text \<open>C11: the walk over the cascade graph reports exactly the tables whose rows a deletion
  in the start table can reach through \<open>ON DELETE CASCADE\<close> foreign keys of the baseline and the plan,
  each once, and the largest number of cascading foreign keys on one of the tables it visits.\<close>

theorem cascade_reach_exact:
  "case dfs_cascade (build_cascade_graph baseline plan) start of (depth, reached, fanout) \<Rightarrow>
     set reached = (cascade_edges baseline plan)\<^sup>* `` {start} - {start} \<and> distinct reached \<and>
     depth \<le> length reached \<and>
     fanout = Max ((\<lambda>t. length (children_of (build_cascade_graph baseline plan) t)) `
       (cascade_edges baseline plan)\<^sup>* `` {start})"
  using dfs_cascade_reach [of "build_cascade_graph baseline plan" start]
  by (auto simp: graph_edges_build split: prod.splits)

text \<open>C14: a change between text types, between integer types or between decimal types is
  reported as a narrowing exactly when some value of the old type does not fit the new one.\<close>

theorem narrowing_exact:
  assumes "comparable_types a b"
  shows "(\<exists>k. is_narrowing a b = Some k) \<longleftrightarrow> (\<exists>v. holds_value v a \<and> \<not> holds_value v b)"
  using is_narrowing_iff [OF assms] by auto

theorem narrowing_exact_witness:
  "\<exists>v. holds_value v (Complex (Numeric 10 2)) \<and> \<not> holds_value v (Complex (Numeric 10 4))"
proof -
  have "is_narrowing (Complex (Numeric 10 2)) (Complex (Numeric 10 4)) = Some (NumericIntegerDigits 8 6)" by code_simp
  moreover have "comparable_types (Complex (Numeric 10 2)) (Complex (Numeric 10 4))"
    by (simp add: comparable_types_def decimal_type_def)
  ultimately show ?thesis using narrowing_exact by blast
qed



section \<open>Drops resolved as renames\<close>

text \<open>Resolving a deleted and an added column as a rename succeeds, and the rewritten
  plan replays: the column keeps its place and its constraints under the new name, takes type,
  nullability and default of the new declaration, and no other table changes.\<close>

theorem column_rename_replays:
  assumes "find_table s n = Some t" and "find_baseline_column s n old_name = Some old"
    and "col_name added \<notin> col_name ` set (tbl_columns t)"
    and "actions = [DeleteColumn n old_name, AddColumn n added f] \<or> actions = [AddColumn n added f, DeleteColumn n old_name]"
  shows "\<exists>rewritten s'. apply_column_rename actions s n old_name (col_name added) = Inr rewritten \<and>
    apply_actions s rewritten = Inr s' \<and>
    find_table s' n = Some (t\<lparr>tbl_columns := update_first (\<lambda>c. col_name c = old_name) (renamed_like added) (tbl_columns t),
      tbl_constraints := rename_column_in_constraints old_name (col_name added) (tbl_constraints t)\<rparr>) \<and>
    (\<forall>m. m \<noteq> n \<longrightarrow> find_table s' m = find_table s m)"
  using assms by (rule resolved_rename_replays)

theorem column_rename_replays_witness:
  "\<exists>rewritten s'. apply_column_rename [DeleteColumn ''users'' ''email'', AddColumn ''users'' (ex_column ''mail'') None]
     ex_schema_n ''users'' ''email'' ''mail'' = Inr rewritten \<and> apply_actions ex_schema_n rewritten = Inr s'"
proof -
  let ?old = "(ex_column ''email'')\<lparr>col_unique := Some (StrBool True)\<rparr>"
  have "find_table ex_schema_n ''users'' = Some ex_users_n" "find_baseline_column ex_schema_n ''users'' ''email'' = Some ?old"
    "col_name (ex_column ''mail'') \<notin> col_name ` set (tbl_columns ex_users_n)" by code_simp+
  from column_rename_replays [OF this disjI1 [OF refl], of None]
  show ?thesis by (auto simp: ex_column_def column_def_new_def)
qed

section \<open>Actions, types and names\<close>

text \<open>The guard of \<open>data_migration\<close> reports a keyword exactly when the statement opens
  with it: after white space and comments, in any letter case, as a whole token.\<close>

theorem ddl_guard_exact:
  "leading_ddl_keyword sql = Some k \<longleftrightarrow> k \<in> set DDL_KEYWORDS \<and> opens_with sql k"
  by (rule leading_ddl_keyword_iff)

text \<open>Not requiring a migration is an equivalence on column types.\<close>

theorem requires_migration_equivalence:
  "equivp (\<lambda>a b. \<not> requires_migration a b)"
  using requires_migration_sym requires_migration_trans
  by (intro equivpI reflpI sympI transpI) auto

text \<open>A string put between quotes after escaping reads back as one SQL string
  literal with the same content, when what
  follows does not start with another quote.\<close>

theorem escaped_literal_reads_back:
  assumes "rest = [] \<or> hd rest \<noteq> CHR 0x27"
  shows "read_literal (escape_sql_string_literal s @ [CHR 0x27] @ rest) = Some (s, rest)"
  using read_literal_quote_doubled [OF assms, of s] by (simp add: escape_is_quote_doubled)

theorem escaped_literal_reads_back_witness:
  "read_literal (escape_sql_string_literal [CHR ''o'', CHR 0x27, CHR ''k''] @ [CHR 0x27] @ '', 1'') =
     Some ([CHR ''o'', CHR 0x27, CHR ''k''], '', 1'')"
  by (rule escaped_literal_reads_back) simp

text \<open>A sanitized name is an identifier of its language, and a name that
  already is one stays as it is.\<close>

theorem sanitized_identifier_valid:
  "valid_identifier start (sanitize_identifier name start) \<and>
   sanitize_identifier (sanitize_identifier name start) start = sanitize_identifier name start"
  using sanitize_identifier_valid sanitize_identifier_fixed by blast

text \<open>The conversion yields upper-case words and keeps a value that has them.\<close>

theorem screaming_snake_stable:
  "screaming (to_screaming_snake_case s) \<and>
   to_screaming_snake_case (to_screaming_snake_case s) = to_screaming_snake_case s"
  using to_screaming_is_screaming to_screaming_fixed by blast

text \<open>The generated name of a constraint does not depend on the order of its
  columns.\<close>

theorem constraint_name_order_free:
  assumes "mset cs = mset ds"
  shows "build_constraint_name p t cs k = build_constraint_name p t ds k"
  using assms by (rule build_constraint_name_mset)

theorem constraint_name_order_free_witness:
  "build_constraint_name ''ix_'' ''t'' [''b'', ''a''] None = build_constraint_name ''ix_'' ''t'' [''a'', ''b''] None"
  by (rule constraint_name_order_free) simp

section \<open>Generating statements\<close>

text \<open>C19: when a plan replays on the schema, \<open>build_plan_queries\<close> has statements for
  every action on all three backends exactly when each action is generable on the schema it meets: a
  foreign key that is added has as many columns as it refers to, and a type change asks for no
  strategy or time zone that its kind of change does not support.  Replay rules out every other error.\<close>

theorem generation_follows_replay:
  assumes "apply_actions s (plan_actions plan) = Inr s'"
  shows "succeeded (build_plan_queries render pick threshold plan s) \<longleftrightarrow> generable_plan s (plan_actions plan)"
  using assms by (rule generated_plan)

theorem generation_follows_replay_witness:
  "succeeded (build_plan_queries (\<lambda>_ _. []) hd 10000
     (empty_plan\<lparr>plan_actions := [creation ex_users, creation ex_posts]\<rparr>) [])"
proof -
  have "apply_actions [] (plan_actions (empty_plan\<lparr>plan_actions := [creation ex_users, creation ex_posts]\<rparr>)) =
      Inr (projr (apply_actions [] [creation ex_users, creation ex_posts]))"
    by code_simp
  from generation_follows_replay [OF this, of "\<lambda>_ _. []" hd 10000] show ?thesis by (simp add: creation_def)
qed

text \<open>C20: a plan built in parallel gives the statements of the sequential builder;
  when the sequential builder fails the parallel one fails with the error of one of the actions.\<close>

theorem parallel_matches_sequential:
  assumes "fair_choice pick"
  shows "case build_plan_queries_sequentially render plan s of
      Inr pqs \<Rightarrow> build_plan_queries render pick threshold plan s = Inr pqs
    | Inl _ \<Rightarrow> \<exists>p e. p \<in> set (prepare_actions plan s) \<and> build_prepared_action_queries render p = Inl e \<and>
        build_plan_queries render pick threshold plan s = Inl e"
  using assms by (rule parallel_eq_sequential)

theorem parallel_matches_sequential_witness:
  "case build_plan_queries_sequentially (\<lambda>_ _. []) (empty_plan\<lparr>plan_actions := [DeleteTable ''a'']\<rparr>) [] of
      Inr pqs \<Rightarrow> build_plan_queries (\<lambda>_ _. []) hd 0 (empty_plan\<lparr>plan_actions := [DeleteTable ''a'']\<rparr>) [] = Inr pqs
    | Inl _ \<Rightarrow> \<exists>p e. p \<in> set (prepare_actions (empty_plan\<lparr>plan_actions := [DeleteTable ''a'']\<rparr>) []) \<and>
        build_prepared_action_queries (\<lambda>_ _. []) p = Inl e \<and>
        build_plan_queries (\<lambda>_ _. []) hd 0 (empty_plan\<lparr>plan_actions := [DeleteTable ''a'']\<rparr>) [] = Inl e"
  by (rule parallel_matches_sequential) (simp add: fair_choice_def)

text \<open>On each backend \<open>into_transactional\<close> puts \<open>BEGIN\<close> before the first and
  \<open>COMMIT\<close> after the last statement of the whole plan and changes nothing else; a backend without
  statements gets neither.\<close>

theorem transaction_wraps_stream:
  "stream b (into_transactional pqs) = in_transaction (stream b pqs) \<and>
   map pq_action (into_transactional pqs) = map pq_action pqs"
  by (rule transaction_wraps)



text \<open>Adding a column that SQLite needs a rebuild for keeps every row and gives it the
  value of the fill expression (the fill value, else the default, else NULL) in the new column.\<close>

theorem add_column_fills_rows:
  assumes "engine_laws exec eval"
    and "creates_empty exec
           (build_sqlite_temp_table_create render Sqlite (t @ ''_temp'') t (tbl_columns d @ [column]) (tbl_constraints d))
           (t @ ''_temp'') (map col_name (tbl_columns d) @ [col_name column])"
    and "db t = Some (map col_name (tbl_columns d), rows)" and "db (t @ ''_temp'') = None"
    and "find_table s t = Some d" and "\<not> col_nullable column \<or> is_enum_column column"
    and "col_name column \<notin> col_name ` set (tbl_columns d)"
  shows "\<exists>qs. build_add_column render Sqlite t column fill_with s pending = Inr qs \<and>
    run_queries exec qs db = db(t \<mapsto> (map col_name (tbl_columns d) @ [col_name column],
      map (\<lambda>r. (restricted (map col_name (tbl_columns d)) r)
        (col_name column := eval (add_column_fill_expr Sqlite column fill_with) r)) rows))"
  using assms by (rule add_column_fills)

theorem add_column_fills_rows_witness:
  "\<exists>qs. build_add_column (\<lambda>_ _. []) Sqlite ''t'' (column_def_new ''n'' (Simple Integer) False) (Some ''7'')
      [\<lparr>tbl_name = ''t'', tbl_description = None, tbl_columns = [column_def_new ''id'' (Simple Integer) False],
        tbl_constraints = []\<rparr>] [] = Inr qs \<and>
    run_queries (plain_engine (\<lambda>e _. if e = ExprCust ''7'' then Some (7 :: int) else None)) qs
      [''t'' \<mapsto> ([''id''], [\<lambda>c. Some 1])] =
    [''t'' \<mapsto> ([''id'', ''n''], [\<lambda>c. if c = ''id'' then Some 1 else if c = ''n'' then Some 7 else None])]"
proof -
  let ?n = "column_def_new ''n'' (Simple Integer) False"
  let ?d = "\<lparr>tbl_name = ''t'', tbl_description = None, tbl_columns = [column_def_new ''id'' (Simple Integer) False],
        tbl_constraints = []\<rparr>"
  let ?eval = "\<lambda>e (_ :: int sql_row). if e = ExprCust ''7'' then Some (7 :: int) else None"
  have checks: "collect_all_check_clauses ''t'' (tbl_columns ?d @ [?n]) (tbl_constraints ?d) = []" by code_simp
  have fill: "add_column_fill_expr Sqlite ?n (Some ''7'') = ExprCust ''7''" by code_simp
  have fresh: "col_name ?n \<notin> col_name ` set (tbl_columns ?d)" "find_table [?d] ''t'' = Some ?d"
      "\<not> col_nullable ?n \<or> is_enum_column ?n" "map col_name (tbl_columns ?d) = [''id'']" "col_name ?n = ''n''"
    by (simp_all add: column_def_new_def find_table_def)
  have create: "creates_empty (plain_engine ?eval)
      (build_sqlite_temp_table_create (\<lambda>_ _. []) Sqlite (''t'' @ ''_temp'') ''t'' (tbl_columns ?d @ [?n]) (tbl_constraints ?d))
      (''t'' @ ''_temp'') (map col_name (tbl_columns ?d) @ [col_name ?n])"
    using plain_engine_creates [OF checks, of ?eval "\<lambda>_ _. []" Sqlite "''t'' @ ''_temp''"] by simp
  have db: "[''t'' \<mapsto> ([''id''], [\<lambda>c. Some (1 :: int)])] ''t'' = Some (map col_name (tbl_columns ?d), [\<lambda>c. Some 1])"
      "[''t'' \<mapsto> ([''id''], [\<lambda>c. Some (1 :: int)])] (''t'' @ ''_temp'') = None"
    by (simp_all add: column_def_new_def)
  have row: "(restricted [''id''] (\<lambda>c. Some (1 :: int)))(''n'' := Some 7) =
      (\<lambda>c. if c = ''id'' then Some 1 else if c = ''n'' then Some 7 else None)"
    by (auto simp: restricted_def)
  from add_column_fills_rows [OF plain_engine_laws create db fresh(2,3,1), of "Some ''7''" "[]"]
  show ?thesis unfolding fresh fill by (simp add: row [unfolded fun_upd_def] fun_upd_def cong: if_cong)
qed



text \<open>C23: after the statement that goes before a new foreign key to another table the
  key holds for every row, and the rows that had a parent are as they were.\<close>

theorem foreign_key_cleanup_sound:
  assumes "child \<noteq> ref" and "cols \<noteq> []" and "length cols = length ref_cols"
  shows "\<exists>st. build_fk_orphan_cleanup b child cols ref ref_cols strategy = Inr [raw (statement_text b st)] \<and>
    (\<forall>r \<in> set (run_statement db st child). fk_holds (db ref) cols ref_cols r) \<and>
    (\<forall>r \<in> set (db child). has_parent (db ref) cols ref_cols r \<longrightarrow> r \<in> set (run_statement db st child)) \<and>
    run_statement db st ref = db ref"
  using assms by (rule foreign_key_cleanup)

theorem foreign_key_cleanup_sound_witness:
  "\<exists>st. build_fk_orphan_cleanup Postgres ''c'' [''p''] ''t'' [''id''] DeleteOrphans = Inr [raw (statement_text Postgres st)] \<and>
    (\<forall>r \<in> set (run_statement (\<lambda>_. [\<lambda>_. Some (1 :: int)]) st ''c''). fk_holds [\<lambda>_. Some 1] [''p''] [''id''] r)"
  using foreign_key_cleanup_sound [of "''c''" "''t''" "[''p'']" "[''id'']" Postgres DeleteOrphans "\<lambda>_. [\<lambda>_. Some (1 :: int)]"]
  by auto

text \<open>For a foreign key of a table to itself the same statement looks for rows that
  are their own parent: when there is none it sets the key to NULL in every row, or deletes every row,
  whether the rows had a parent or not.\<close>

theorem self_reference_cleanup_wipes:
  assumes "\<forall>p \<in> set (db t). \<not> own_parent cols ref_cols p" and "cols \<noteq> []" and "length cols = length ref_cols"
  shows "\<exists>st. build_fk_orphan_cleanup b t cols t ref_cols strategy = Inr [raw (statement_text b st)] \<and>
    run_statement db st t = (if strategy = NullifyOrphans then map (nullified cols) (db t) else [])"
  using assms by (rule self_reference_cleanup)

theorem self_reference_cleanup_wipes_witness:
  "\<exists>st. build_fk_orphan_cleanup Postgres ''t'' [''p''] ''t'' [''id''] DeleteOrphans = Inr [raw (statement_text Postgres st)] \<and>
    run_statement (\<lambda>_. [\<lambda>c. if c = ''id'' then Some (1 :: int) else None,
      \<lambda>c. if c = ''id'' then Some 2 else Some 1]) st ''t'' = []"
proof -
  let ?db = "\<lambda>_ :: string. [\<lambda>c. if c = ''id'' then Some (1 :: int) else None, \<lambda>c. if c = ''id'' then Some 2 else Some 1]"
  have "\<forall>p \<in> set (?db ''t''). \<not> own_parent [''p''] [''id''] p" by (simp add: own_parent_def)
  from self_reference_cleanup_wipes [where db = ?db and t = "''t''" and cols = "[''p'']" and ref_cols = "[''id'']" and
      b = Postgres and strategy = DeleteOrphans, OF this] show ?thesis by simp
qed

text \<open>When the values of an integer enum are renumbered, the emitted update gives each stored
  row the value that stands for the same label in the enum as the action leaves it, also when values are
  swapped.\<close>

theorem remap_keeps_labels:
  assumes "mapping \<noteq> []"
    and "remap_type mapping (Complex (Enum e (EnumInteger items))) = Complex (Enum e (EnumInteger items'))"
    and "distinct (map nv_value items')" and "r column = Some v" and "label_of items v = Some n"
  shows "build_remap_enum_values b table column mapping = Inr [raw (remap_text b table column mapping)] \<and>
    (\<exists>w. map (\<lambda>r. r column) (remap_rows column mapping [r]) = [Some w] \<and> label_of items' w = Some n)"
  using assms by (rule remap_statement)

theorem remap_keeps_labels_witness:
  "\<exists>w. map (\<lambda>r. r ''c'') (remap_rows ''c'' [(1, 2), (2, 1)] [\<lambda>_. Some 1]) = [Some w] \<and>
    label_of [\<lparr>nv_name = ''low'', nv_value = 2\<rparr>, \<lparr>nv_name = ''high'', nv_value = 1\<rparr>] w = Some ''low''"
proof -
  let ?items = "[\<lparr>nv_name = ''low'', nv_value = 1\<rparr>, \<lparr>nv_name = ''high'', nv_value = 2\<rparr>]"
  let ?items' = "[\<lparr>nv_name = ''low'', nv_value = 2\<rparr>, \<lparr>nv_name = ''high'', nv_value = 1\<rparr>]"
  have "remap_type [(1, 2), (2, 1)] (Complex (Enum ''e'' (EnumInteger ?items))) = Complex (Enum ''e'' (EnumInteger ?items'))"
    by code_simp
  moreover have "label_of ?items 1 = Some ''low''" by (simp add: label_of_def)
  ultimately show ?thesis
    using remap_keeps_labels [of "[(1, 2), (2, 1)]" "''e''" ?items ?items' "\<lambda>_. Some 1" "''c''" 1 "''low''"] by simp
qed

text \<open>C24: the condition of the statements that make rows fit a narrower type selects a stored
  value exactly when the new type has no room for it, for every kind of narrowing with a condition
  except the loss of decimal places.\<close>

theorem narrowing_rows_found:
  assumes "is_narrowing a b = Some kind" and "comparable_types a b" and "exact_kind kind" and "holds_value v a"
  shows "\<exists>t. violation_predicate backend column kind = Inr (test_text backend column t) \<and>
    (answers t v \<longleftrightarrow> \<not> holds_value v b)"
  using assms by (rule narrowing_condition_exact)

theorem narrowing_rows_found_witness:
  "\<exists>t. violation_predicate MySql ''c'' (VarcharLength 10 3) = Inr (test_text MySql ''c'' t) \<and>
    (answers t (StoredText ''abcd'') \<longleftrightarrow> \<not> holds_value (StoredText ''abcd'') (Complex (Varchar 3)))"
proof (rule narrowing_rows_found)
  show "is_narrowing (Complex (Varchar 10)) (Complex (Varchar 3)) = Some (VarcharLength 10 3)" by code_simp
  show "comparable_types (Complex (Varchar 10)) (Complex (Varchar 3))"
    by (simp add: comparable_types_def text_type_def text_limit_def)
  show "exact_kind (VarcharLength 10 3)" by (simp add: exact_kind_def)
  show "holds_value (StoredText ''abcd'') (Complex (Varchar 10))" by (simp add: text_limit_def)
qed

text \<open>An identifier quoted for a backend, followed by anything that does not start
  with the delimiter, reads back as the name: no name can leave its quotes.\<close>

theorem quoted_identifier_reads_back:
  assumes "rest = [] \<or> hd rest \<noteq> ident_delim b"
  shows "read_ident b (quote_ident name b @ rest) = Some (name, rest)"
  using assms by (rule quote_ident_reads_back)

theorem quoted_identifier_reads_back_witness:
  "read_ident MySql (quote_ident [CHR ''a'', CHR 0x60, CHR ''b''] MySql @ '' ADD'') = Some ([CHR ''a'', CHR 0x60, CHR ''b''], '' ADD'')"
  by (rule quoted_identifier_reads_back) simp

text \<open>The statements of \<open>CREATE TABLE\<close> are the same with and without the explicit
  CHECK constraints of the table, on every backend.\<close>

theorem create_table_drops_checks:
  "create_table_queries render b t cols (filter (\<lambda>c. \<not> is_check c) cs) = create_table_queries render b t cols cs"
  by (rule create_table_ignores_checks)

text \<open>On SQLite the statements for replacing a unique constraint or an index do not
  mention the new one: they rebuild the table as it is, with the old index.\<close>

theorem replaced_index_kept_on_sqlite:
  assumes "index_like old" and "index_like new" and "find_table s t = Some d"
  shows "build_replace_constraint render Sqlite t old new s pending =
    Inr (build_sqlite_table_rebuild render Sqlite t (tbl_columns d) (tbl_constraints d) (tbl_columns d)
      (tbl_constraints d) pending)"
  using assms by (rule sqlite_replace_ignores_new_index)

theorem replaced_index_kept_on_sqlite_witness:
  "build_replace_constraint (\<lambda>_ _. []) Sqlite ''t'' (Index (Some ''old'') [''a'']) (Index (Some ''new'') [''a''])
     [\<lparr>tbl_name = ''t'', tbl_description = None, tbl_columns = [], tbl_constraints = [Index (Some ''old'') [''a'']]\<rparr>] [] =
   Inr (build_sqlite_table_rebuild (\<lambda>_ _. []) Sqlite ''t'' [] [Index (Some ''old'') [''a'']] []
      [Index (Some ''old'') [''a'']] [])"
  using replaced_index_kept_on_sqlite [of "Index (Some ''old'') [''a'']" "Index (Some ''new'') [''a'']"
      "[\<lparr>tbl_name = ''t'', tbl_description = None, tbl_columns = [], tbl_constraints = [Index (Some ''old'') [''a'']]\<rparr>]"
      "''t''" _ "\<lambda>_ _. []" "[]"]
  by (simp add: find_table_def)

text \<open>When the primary key that SQLite is to remove was declared on the column, the
  rebuilt table has the column as its primary key again.\<close>

theorem removed_key_is_created_again:
  assumes "find_table s t = Some d" and "c \<in> set (tbl_columns d)" and "col_primary_key c \<noteq> None"
  shows "\<exists>stmt clauses rest.
    build_remove_constraint render Sqlite t (PrimaryKey ai cols strategy) s pending =
      Inr (build_create_with_checks render Sqlite stmt clauses # rest) \<and>
    (\<exists>sc \<in> set (sct_columns stmt). sc_name sc = col_name c \<and> SpecPrimaryKey \<in> set (sc_specs sc))"
  using assms by (rule removed_key_created_again)

theorem removed_key_is_created_again_witness:
  "\<exists>stmt clauses rest.
    build_remove_constraint (\<lambda>_ _. []) Sqlite ''t'' (PrimaryKey False [''id''] default_pk_addition_strategy)
      [\<lparr>tbl_name = ''t'', tbl_description = None,
        tbl_columns = [(column_def_new ''id'' (Simple Integer) False)\<lparr>col_primary_key := Some (PkBool True)\<rparr>],
        tbl_constraints = [PrimaryKey False [''id''] default_pk_addition_strategy]\<rparr>] [] =
      Inr (build_create_with_checks (\<lambda>_ _. []) Sqlite stmt clauses # rest) \<and>
    (\<exists>sc \<in> set (sct_columns stmt). sc_name sc = ''id'' \<and> SpecPrimaryKey \<in> set (sc_specs sc))"
  using removed_key_is_created_again [where t = "''t''" and
      s = "[\<lparr>tbl_name = ''t'', tbl_description = None,
        tbl_columns = [(column_def_new ''id'' (Simple Integer) False)\<lparr>col_primary_key := Some (PkBool True)\<rparr>],
        tbl_constraints = [PrimaryKey False [''id''] default_pk_addition_strategy]\<rparr>]" and
      c = "(column_def_new ''id'' (Simple Integer) False)\<lparr>col_primary_key := Some (PkBool True)\<rparr>"
      and render = "\<lambda>_ _. []" and pending = "[]" and cols = "[''id'']"]
  by (simp add: find_table_def column_def_new_def)

section \<open>Running migrations\<close>

text \<open>C25: on a transactional engine the runner either executes the statements of
  exactly the migrations above the applied version, in their order, and records them, or, when anything
  fails, leaves the version table and the executed statements as they were.\<close>

theorem run_applies_pending_or_nothing:
  assumes "lawful_engine con table options ms view saved" and "\<forall>v \<in> fst ` set (fst (view d)). 0 \<le> sint v"
    and "run_embedded_migrations_with_options con table ms options d = (r, d')"
  shows "case r of
      Inr _ \<Rightarrow> view d' = migrated con (pending_migrations (applied_version (fst (view d))) ms) (view d)
    | Inl e \<Rightarrow> view d' = view d"
  using runner_effect [OF assms] by (auto simp: runner_outcome_def split: sum.splits)

theorem run_applies_pending_or_nothing_witness:
  "pd_view mx_end = migrated (mx_connection [mx_one, mx_two]) (pending_migrations 1 [mx_one, mx_two]) ([(1, ''m1'')], [''CREATE A''])"
  using run_applies_pending_or_nothing [OF mx_lawful _ mx_run] by (simp add: mx_start_def applied_version_def)

text \<open>After a run that succeeded, a second run with the same migrations leaves the
  version table and the executed statements as they are, whether it succeeds or not.\<close>

theorem second_run_changes_nothing:
  assumes "lawful_engine con table options ms view saved" and "\<forall>v \<in> fst ` set (fst (view d)). 0 \<le> sint v"
    and "\<forall>m \<in> set ms. 0 \<le> sint (em_version m)"
    and "run_embedded_migrations_with_options con table ms options d = (Inr (), d1)"
    and "run_embedded_migrations_with_options con table ms options d1 = (r, d2)"
  shows "view d2 = view d1"
  using assms by (rule second_run_keeps)

theorem second_run_changes_nothing_witness:
  "pd_view (mx_end\<lparr>pd_saved := pd_view mx_end\<rparr>) = pd_view mx_end"
proof (rule second_run_changes_nothing [OF mx_lawful _ _ mx_run mx_run_again])
  show "\<forall>v \<in> fst ` set (fst (pd_view mx_start)). 0 \<le> sint v" by (simp add: mx_start_def)
  show "\<forall>m \<in> set [mx_one, mx_two]. 0 \<le> sint (em_version m)"
    by (simp add: mx_one_def mx_two_def embedded_migration_new_def)
qed

text \<open>C26: when the plans of a project replay and the macro builds them, running the embedded
  migrations on an empty database records every plan under its version and id and executes, in order,
  the statements that each plan has on the schema the plans before it produce.\<close>

theorem history_runs_in_order:
  assumes "replay_plans [] (prefixed pre plans) = Inr s" and "build_blocks render pick threshold pre [] plans = Inr blocks"
    and "lawful_engine con table options (map embedded_of_block blocks) view saved"
    and "view d = ([], [])" and "\<forall>p \<in> set plans. 0 < plan_version p"
    and "\<forall>pqs \<in> set (history_queries render pick threshold [] (prefixed pre plans)).
      \<forall>sql \<in> set (statement_texts render (con_backend con) pqs). CHR 0x00 \<notin> set sql"
    and "run_embedded_migrations_with_options con table (map embedded_of_block blocks) options d = (Inr (), d')"
  shows "view d' = (map (\<lambda>p. (plan_version p, plan_id p)) plans,
    concat (map (executed render (con_backend con)) (history_queries render pick threshold [] (prefixed pre plans))))"
  using assms by (rule history_runs)

theorem history_runs_in_order_witness:
  "pd_view mx_full = (map (\<lambda>p. (plan_version p, plan_id p)) mx_plans,
    concat (map (executed mx_render Sqlite) (history_queries mx_render hd 10 [] (prefixed [] mx_plans))))"
proof -
  have "pd_view mx_empty = ([], [])" by (simp add: mx_empty_def)
  moreover have "\<forall>p \<in> set mx_plans. 0 < plan_version p" by (simp add: mx_plans_def mx_plan_def)
  ultimately show ?thesis
    using history_runs_in_order [OF mx_replay mx_built mx_history_lawful _ _ _ mx_history_run] mx_history_texts
    by (simp add: list_all_iff)
qed

text \<open>C27: the literal that the macro writes for the statements of a migration reads
  back as Rust reads it, and splitting it gives the statements, empty ones apart.\<close>

theorem embedded_blob_reads_back:
  assumes "\<forall>sql \<in> set sqls. CHR 0x00 \<notin> set sql"
  shows "\<exists>lit blob. write_sql_blob ident sqls = ''static '' @ ident @ '': &str = '' @ lit @ '';'' @ newline \<and>
    hd lit = CHR 0x22 \<and> read_rust_str (tl lit) = Some (blob, []) \<and> split_sql_blob blob = filter (\<lambda>sql. sql \<noteq> []) sqls"
proof (intro exI conjI)
  show "write_sql_blob ident sqls = ''static '' @ ident @ '': &str = '' @ debug_str (sql_blob_text sqls) @ '';'' @ newline"
    by (simp add: write_sql_blob_def)
  show "hd (debug_str (sql_blob_text sqls)) = CHR 0x22" by (simp add: debug_str_def)
  show "read_rust_str (tl (debug_str (sql_blob_text sqls))) = Some (sql_blob_text sqls, [])"
    using read_debug_str [of "sql_blob_text sqls" "[]"] by simp
  show "split_sql_blob (sql_blob_text sqls) = filter (\<lambda>sql. sql \<noteq> []) sqls" by (rule split_sql_blob_text [OF assms])
qed

theorem embedded_blob_reads_back_witness:
  "\<exists>lit blob. write_sql_blob ''B'' [[CHR 0x22, CHR 0x0A, CHR 0x5C], []] = ''static '' @ ''B'' @ '': &str = '' @ lit @ '';'' @ newline \<and>
    hd lit = CHR 0x22 \<and> read_rust_str (tl lit) = Some (blob, []) \<and> split_sql_blob blob = [[CHR 0x22, CHR 0x0A, CHR 0x5C]]"
  using embedded_blob_reads_back [of "[[CHR 0x22, CHR 0x0A, CHR 0x5C], []]" "''B''"] by simp

section \<open>Migration files\<close>

text \<open>C28: a history that loads has the plans of exactly the supported files of
  the migrations directory, each of which passes validation, in the order of their versions.\<close>

theorem loaded_history_is_sorted_and_valid:
  assumes "load_migrations fs config = Inr plans" and "fs_exists fs (cfg_migrations_dir config)"
  shows "\<exists>entries. fs_read_dir fs (cfg_migrations_dir config) = Inr entries \<and>
    sorted (map plan_version plans) \<and> (\<forall>p \<in> set plans. validate_migration_plan p = Inr ()) \<and>
    image_mset Inr (mset plans) = mset (map (load_migration_file fs) (supported_files fs entries))"
  using assms by (rule load_migrations_history)

theorem loaded_history_is_sorted_and_valid_witness:
  "\<exists>entries. fs_read_dir fs_example ''migrations'' = Inr entries \<and> sorted [1 :: 32 word, 2] \<and>
    {#Inr (mx_plan 1 ''a'' []), Inr (mx_plan 2 ''b'' [])#} = mset (map (load_migration_file fs_example) (supported_files fs_example entries))"
proof -
  have dir: "fs_exists fs_example (cfg_migrations_dir default_config)" "cfg_migrations_dir default_config = ''migrations''"
    by (simp_all add: fs_example_def default_config_def)
  obtain entries where "fs_read_dir fs_example ''migrations'' = Inr entries"
    "image_mset Inr (mset [mx_plan 1 ''a'' [], mx_plan 2 ''b'' []]) =
      mset (map (load_migration_file fs_example) (supported_files fs_example entries))"
    using loaded_history_is_sorted_and_valid [OF fs_example_loads dir(1)] unfolding dir(2) by blast
  then show ?thesis by auto
qed

section \<open>Revisions\<close>

text \<open>C29: an action of a written plan that validation rejects for a missing fill
  value sets \<open>NOT NULL\<close> on a column with a default, or adds a column for which the user asked that rows
  with NULL be deleted.\<close>

theorem written_revision_has_fill_values:
  assumes "written (cmd_revision_core n lev env message fills deletes prompts loaded_config loaded_models (Inr plans)) path plan"
    and "schema_from_plans plans = Inr base" and "a \<in> set (plan_actions plan)" and "missing_fill_error a"
  shows "sets_not_null_with_default base a \<or> deleted_without_value (parse_delete_null_rows_args deletes) a"
  using assms by (rule written_fill_values)

theorem written_revision_has_fill_values_witness:
  "sets_not_null_with_default ry_base (AddColumn ''t'' (ry_column ''c'') None) \<or>
    deleted_without_value (parse_delete_null_rows_args [''t.c'']) (AddColumn ''t'' (ry_column ''c'') None)"
proof (rule written_revision_has_fill_values [OF ry_run_writes ry_steps(1)])
  show "AddColumn ''t'' (ry_column ''c'') None \<in> set (plan_actions (finish_plan rx_env [] ry_plan))" by (simp add: ry_plan_def)
  show "missing_fill_error (AddColumn ''t'' (ry_column ''c'') None)"
    by (simp add: missing_fill_error_def ry_column_def column_def_new_def)
qed

text \<open>In a written plan every label that an enum loses has a replacement.\<close>

theorem written_revision_maps_labels:
  assumes "written (cmd_revision_core n lev env message fills deletes prompts loaded_config loaded_models (Inr plans)) path plan"
    and "schema_from_plans plans = Inr base"
  shows "find_missing_enum_fill_with plan base = []"
  using assms by (rule written_enum_labels)

theorem written_revision_maps_labels_witness:
  "find_missing_enum_fill_with rx_written rx_base = []"
  using rx_run_writes rx_planned(1) by (rule written_revision_maps_labels)



text \<open>With the menus of the command, every type change of a written plan
  that narrows a column of the baseline has a strategy that is offered for its kind; so no written plan
  turns \<open>timestamptz\<close> into \<open>timestamp\<close> or a double into a real, for which none is offered.\<close>

theorem written_revision_narrows_with_strategy:
  assumes "written (cmd_revision_core n lev env message fills deletes prompts loaded_config loaded_models (Inr plans)) path plan"
    and "schema_from_plans plans = Inr base"
    and "rp_type_narrowing prompts = prompt_type_narrowings select input" and "menu_answers select"
    and "ModifyColumnType t c ty fw s z \<in> set (plan_actions plan)"
    and "find_baseline_column base t c = Some old" and "is_narrowing (col_type old) ty = Some kind"
  shows "\<exists>strategy. s = Some strategy \<and> offered kind strategy"
  using assms by (rule written_narrowings)

theorem written_revision_narrows_with_strategy_witness:
  "\<exists>strategy. Some Truncate = Some strategy \<and> offered (TextToVarchar 10) strategy"
proof (rule written_revision_narrows_with_strategy [OF rx_run_writes rx_planned(1)])
  show "rp_type_narrowing rx_prompts = prompt_type_narrowings (\<lambda>_. Inr 0) (\<lambda>_. Inr [])" by (simp add: rx_prompts_def)
  show "menu_answers (\<lambda>_. Inr 0)" by (simp add: menu_answers_def)
  show "ModifyColumnType ''users'' ''name'' (Complex (Varchar 10)) None (Some Truncate) None \<in> set (plan_actions rx_written)"
    by (simp add: rx_done_def rx_stage_def)
  show "find_baseline_column rx_base ''users'' ''name'' = Some (column_def_new ''name'' (Simple Text) True)" by code_simp
  show "is_narrowing (col_type (column_def_new ''name'' (Simple Text) True)) (Complex (Varchar 10)) = Some (TextToVarchar 10)"
    by code_simp
qed

text \<open>Every conversion between \<open>timestamp\<close> and \<open>timestamptz\<close> of a written plan
  names the time zone.\<close>

theorem written_revision_has_time_zones:
  assumes "written (cmd_revision_core n lev env message fills deletes prompts loaded_config loaded_models (Inr plans)) path plan"
    and "schema_from_plans plans = Inr base"
    and "rp_timezone_conversion prompts = prompt_timezone_conversions select typed"
    and "ModifyColumnType t c ty fw s z \<in> set (plan_actions plan)"
    and "find_baseline_column base t c = Some old" and "classify_direction (col_type old) ty \<noteq> None"
  shows "z \<noteq> None"
  using assms by (rule written_timezones)

theorem written_revision_has_time_zones_witness:
  "Some ''+09:00'' \<noteq> None"
proof (rule written_revision_has_time_zones [OF rx_run_writes rx_planned(1)])
  show "rp_timezone_conversion rx_prompts = prompt_timezone_conversions (\<lambda>_. Inr 30) (\<lambda>_. [Inr ''+09:00''])"
    by (simp add: rx_prompts_def)
  show "ModifyColumnType ''users'' ''at'' (Simple Timestamptz) None None (Some ''+09:00'') \<in> set (plan_actions rx_written)"
    by (simp add: rx_done_def rx_stage_def)
  show "find_baseline_column rx_base ''users'' ''at'' = Some (column_def_new ''at'' (Simple Timestamp) True)" by code_simp
  show "classify_direction (col_type (column_def_new ''at'' (Simple Timestamp) True)) (Simple Timestamptz) \<noteq> None" by code_simp
qed

text \<open>C31: under the default pattern a revision does not write over the file of an
  applied plan, whatever its comment and format, and its file has an extension that the loader reads.\<close>

theorem written_revision_gets_new_file:
  assumes "written (cmd_revision_core n lev env message fills deletes prompts (Inr config) loaded_models (Inr plans)) path plan"
    and "cfg_migration_filename_pattern config = default_migration_filename_pattern"
    and "q \<in> set plans" and "plan_version q \<noteq> - 1"
  shows "has_supported_extension path \<and>
    path \<noteq> path_join (cfg_migrations_dir config)
      (migration_filename_with_format_and_pattern (plan_version q) comment fmt default_migration_filename_pattern)"
  using written_file_new [OF assms] written_steps [OF assms(1)] migration_path_supported by auto

theorem written_revision_gets_new_file_witness:
  "''migrations/0002_shorter_names.vespertide.json'' \<noteq> path_join ''migrations''
      (migration_filename_with_format_and_pattern 1 (Some ''first'') FormatYaml default_migration_filename_pattern)"
proof -
  have config: "cfg_migration_filename_pattern default_config = default_migration_filename_pattern"
    "cfg_migrations_dir default_config = ''migrations''" by (simp_all add: default_config_def)
  show ?thesis
    using written_revision_gets_new_file [OF rx_run_writes config(1), of "hd rx_plans" "Some ''first''" FormatYaml]
    by (simp add: rx_plans_def config(2))
qed

section \<open>Exporters\<close>

text \<open>C32: in the names of a file that holds a whole schema, with the members claimed after
  them, no two tables, enums or members have the same name, every table and every enum has one, and tables
  whose identifiers differ keep them.\<close>

theorem file_names_distinct:
  assumes "scope = claim_members (collect_scope_names schema table_identifier enum_identifier) members"
  shows "inj_on (sn_names scope) (dom (sn_names scope)) \<and>
    (\<forall>t \<in> set schema. scope_table scope (tbl_name t) \<noteq> None \<and>
      (\<forall>e \<in> set (collect_table_enums t). scope_enum_type scope (tbl_name t) (fst e) \<noteq> None) \<and>
      (distinct (map (\<lambda>t. table_identifier (tbl_name t)) schema) \<longrightarrow>
        scope_table scope (tbl_name t) = Some (table_identifier (tbl_name t))))"
proof -
  let ?names = "collect_scope_names schema table_identifier enum_identifier"
  have "inj_on (sn_names scope) (dom (sn_names scope))"
    using claim_members_distinct [OF collect_scope_distinct] unfolding assms by (simp add: scope_distinct_def)
  moreover have "scope_table scope (tbl_name t) \<noteq> None" if "t \<in> set schema" for t
    using scope_table_named [OF that, of table_identifier enum_identifier] claim_members_keeps
    unfolding assms scope_table_def by fastforce
  moreover have "scope_enum_type scope (tbl_name t) (fst e) \<noteq> None" if "t \<in> set schema" "e \<in> set (collect_table_enums t)" for t e
    using scope_enum_named [OF that, of table_identifier enum_identifier] claim_members_keeps
    unfolding assms scope_enum_type_def by fastforce
  moreover have "scope_table scope (tbl_name t) = Some (table_identifier (tbl_name t))"
    if "t \<in> set schema" "distinct (map (\<lambda>t. table_identifier (tbl_name t)) schema)" for t
    using collect_scope_natural [OF that(2,1), of enum_identifier] claim_members_keeps
    unfolding assms scope_table_def by fastforce
  ultimately show ?thesis by blast
qed

theorem file_names_distinct_witness:
  "scope_table (collect_scope_names [ex_users, ex_users\<lparr>tbl_name := ''Users''\<rparr>] python_pascal_case python_pascal_case) ''users'' \<noteq>
   scope_table (collect_scope_names [ex_users, ex_users\<lparr>tbl_name := ''Users''\<rparr>] python_pascal_case python_pascal_case) ''Users''"
proof -
  let ?schema = "[ex_users, ex_users\<lparr>tbl_name := ''Users''\<rparr>]"
  let ?scope = "collect_scope_names ?schema python_pascal_case python_pascal_case"
  note facts = file_names_distinct [of ?scope ?schema python_pascal_case python_pascal_case "[]", unfolded claim_members_def, simplified]
  have "NamedTable ''users'' \<in> dom (sn_names ?scope)" "NamedTable ''Users'' \<in> dom (sn_names ?scope)"
    using facts by (auto simp: scope_table_def ex_users_def)
  with facts show ?thesis by (auto simp: scope_table_def inj_on_def)
qed



text \<open>C34: following the foreign keys from a column ends, whatever cycles they form: the target is
  reached over a path of different columns, each of which refers to the next, and the last of which has no
  foreign key of its own, refers back into the path, or has a composite reference.\<close>

theorem fk_chain_ends:
  assumes "\<forall>table \<in> set schema. keys_refer table"
  shows "\<exists>target path. resolve_fk_target_inner (table_map_of schema) [] t [c] = Some target \<and>
    path \<noteq> [] \<and> hd path = (t, c) \<and> distinct path \<and> successively (chain_step (table_map_of schema)) path \<and>
    path_target (table_map_of schema) path target"
  by (rule chain_ends [OF has_references_schema [OF assms]])

theorem fk_chain_ends_witness:
  "\<exists>target path. resolve_fk_target_inner (table_map_of ex_schema_n) [] ''posts'' [''user_id''] = Some target \<and>
    path \<noteq> [] \<and> hd path = (''posts'', ''user_id'') \<and> distinct path \<and>
    successively (chain_step (table_map_of ex_schema_n)) path \<and> path_target (table_map_of ex_schema_n) path target"
proof (rule fk_chain_ends)
  show "\<forall>table \<in> set ex_schema_n. keys_refer table" by code_simp
qed

section \<open>Language server\<close>

text \<open>C38: whatever calls of several threads interleave, the bounded cache never holds more
  than its capacity, its queue lists its keys, and every call returns a value that the computation for its
  key gives.\<close>

theorem ring_cache_interleaved:
  assumes "(ring_step n computes)\<^sup>*\<^sup>* ring_start s" and "0 < n"
  shows "length (rc_entries (rs_cache s)) \<le> n \<and> distinct (rc_insertion_order (rs_cache s)) \<and>
    rc_insertion_order (rs_cache s) = map fst (rc_entries (rs_cache s)) \<and>
    (\<forall>(key, v) \<in> set (rs_returned s). computes key v)"
  using ring_reachable_ok [OF assms] by (auto simp: ring_system_ok_def ring_ok_def)

theorem ring_cache_interleaved_witness:
  "\<exists>s. (ring_step 1 (\<lambda>k v. v = Suc k))\<^sup>*\<^sup>* ring_start s \<and> rs_returned s = [(5, 6)] \<and> length (rc_entries (rs_cache s)) \<le> 1"
proof -
  let ?step = "ring_step 1 (\<lambda>k v. v = Suc k)"
  let ?missed = "ring_start\<lparr>rs_computing := [(5, 6)]\<rparr>"
  let ?cache = "\<lparr>rc_entries = [(5, 6)], rc_insertion_order = [5]\<rparr>"
  let ?done = "\<lparr>rs_cache = ?cache, rs_computing = [], rs_returned = [(5, 6)]\<rparr>"
  have "?step ring_start ?missed"
    using ring_step.miss [of ring_start 5 "\<lambda>k v. v = Suc k" 6 1] by (simp add: ring_start_def ring_new_def)
  moreover have "?step ?missed ?done"
    using ring_step.finish [of 5 6 ?missed 1 6 ?cache "\<lambda>k v. v = Suc k"]
    by (simp add: ring_start_def ring_new_def ring_insert_def ring_evict_def)
  ultimately have "?step\<^sup>*\<^sup>* ring_start ?done" by (meson converse_rtranclp_into_rtranclp rtranclp.rtrancl_refl)
  from this ring_cache_interleaved [OF this] show ?thesis by (intro exI [of _ ?done]) simp
qed

text \<open>C39: after any series of opened, changed and closed files, a table name leads to the
  file that was the last to declare it if that file still does, and to none otherwise, and each file is
  recorded with the name it declares now.\<close>

theorem index_follows_files:
  "index_lookup (index_run events) name = current_owner events name \<and>
   om_lookup (wi_by_uri (index_run events)) uri = declares events uri"
  using index_run_lookup by (simp add: index_lookup_def)


text \<open>C36: the one walk over the tree of a file finds what the four walks for syntax errors,
  unknown types, malformed types and repeated names find, in their order, unless the columns are a mapping
  themselves.\<close>

theorem walk_matches_separate_walks:
  assumes "\<not> is_pair_node tree"
    and "\<forall>v. typed_value source ''columns'' tree = Some v \<longrightarrow> \<not> is_mapping_node v"
  shows "collect_all tree source = collect_separately tree source"
  using assms by (rule collect_all_separately)

theorem walk_matches_separate_walks_witness:
  "collect_all lx_tree lx_source = collect_separately lx_tree lx_source \<and>
   map dd_byte_range (collect_all lx_tree lx_source) = [(11, 18)]"
proof -
  have "\<not> is_pair_node lx_tree" by code_simp
  moreover have "\<not> is_mapping_node lx_columns" by code_simp
  ultimately show ?thesis
    using walk_matches_separate_walks [of lx_tree lx_source] lx_unknown_type by (simp add: lx_columns_found)
qed

text \<open>C35: when every file of a workspace reads as its table, some file shows an error exactly
  when the tables together are not a valid schema.\<close>

theorem workspace_errors_exact:
  assumes "\<forall>e \<in> set ws. collect_parse_diagnostics readers (wt_source e) (format_of e) (wt_tree e) = ([], Some (wt_table e))"
  shows "(\<exists>e \<in> set ws. \<exists>d \<in> set (compute_workspace readers (wt_source e) (format_of e) (wt_tree e) ws (wt_uri e)).
      dd_severity d = SevError) \<longleftrightarrow> \<not> schema_ok (map wt_table ws)"
  using workspace_error_iff [of ws readers format_of] assms by (simp add: clean_entry_def shown_in_def has_error_def)

theorem workspace_errors_exact_witness:
  "(\<exists>d \<in> set (compute_workspace lx_readers ''posts'' DocJson None [lx_posts] ''file:///posts.json''). dd_severity d = SevError) \<and>
   \<not> (\<exists>d \<in> set (compute_workspace lx_readers ''posts'' DocJson None [lx_posts, lx_users] ''file:///posts.json'').
        dd_severity d = SevError)"
proof -
  have posts: "wt_source lx_posts = ''posts''" "wt_tree lx_posts = None" "wt_uri lx_posts = ''file:///posts.json''"
    "wt_table lx_posts = ex_posts_n" "wt_table lx_users = ex_users_n" by (simp_all add: lx_posts_def lx_users_def)
  show ?thesis
    using workspace_errors_exact [of "[lx_posts]" lx_readers "\<lambda>_. DocJson"]
      workspace_errors_exact [of "[lx_posts, lx_users]" lx_readers "\<lambda>_. DocJson"]
      lx_clean lx_schemas by (simp add: clean_entry_def posts)
qed



end
